(* ===== verification/Prelude.thy ===== *)
theory Prelude
  imports Main "HOL-Library.Word" "HOL-Library.List_Lexorder" "HOL-Library.Char_ord"
begin

text \<open>
  Shared vocabulary of the development.

  \<^item> Machine integers: \<open>u8\<close>, \<open>u16\<close>, \<open>u32\<close>, \<open>u64\<close> are words of that width, with the
    checked and saturating additions of the Rust standard library. A length (\<open>usize\<close>) is a
    \<open>nat\<close>.
  \<^item> A Rust \<open>String\<close> is its UTF-8 encoding, a list of bytes (Isabelle's \<open>char\<close> is a byte):
    \<open>len()\<close> is the length of the list, the derived order is the lexicographic order of the
    bytes, and \<open>chars().count()\<close> and \<open>char::is_control\<close> are defined on the encoding.
  \<^item> A \<open>Result<T, E>\<close> is a sum with the error on the left; \<open>and_then\<close> is the \<open>?\<close>
    operator and \<open>ensure\<close> an early return.
  \<^item> A method \<open>fn f(&mut self, ..) -> Result<T, E>\<close> is a function from the state to the
    result and the state after the call, so that what a failing call has already written is
    visible in the model.
  \<^item> The locales \<open>fail_closed\<close> and \<open>safe_machine\<close> are the two contracts most state owners
    of the program promise: a rejected call changes nothing, and every call keeps the invariant.
\<close>

named_theorems text_defs "byte and text predicates of the standard library"
named_theorems result_simps "elimination of the error plumbing"

section \<open>Machine integers\<close>

type_synonym u8 = "8 word"
type_synonym u16 = "16 word"
type_synonym u32 = "32 word"
type_synonym u64 = "64 word"

definition checked_succ :: "'a::len word \<Rightarrow> 'a word option" where
  "checked_succ w = (if w = - 1 then None else Some (w + 1))"

definition saturating_succ :: "'a::len word \<Rightarrow> 'a word" where
  "saturating_succ w = (if w = - 1 then w else w + 1)"

definition saturating_pred :: "'a::len word \<Rightarrow> 'a word" where
  "saturating_pred w = (if w = 0 then 0 else w - 1)"

lemma unat_succ_not_max: "w \<noteq> - 1 \<Longrightarrow> unat (w + 1) = Suc (unat (w :: 'a::len word))"
  by (metis Suc_eq_plus1 add.commute add_eq_0_iff unatSuc)

lemma checked_succ_Some_iff:
  "checked_succ w = Some v \<longleftrightarrow> unat v = Suc (unat (w :: 'a::len word))"
proof
  assume "checked_succ w = Some v"
  then show "unat v = Suc (unat w)"
    by (auto simp: checked_succ_def unat_succ_not_max split: if_splits)
next
  assume v: "unat v = Suc (unat w)"
  have "w \<noteq> - 1"
  proof
    assume "w = - 1"
    then have "v \<le> w" by simp
    then show False using v by (simp add: word_le_nat_alt)
  qed
  moreover from this v have "v = w + 1"
    by (metis unat_succ_not_max word_eq_iff_unsigned)
  ultimately show "checked_succ w = Some v" by (simp add: checked_succ_def)
qed

lemma checked_succ_less: "checked_succ w = Some v \<Longrightarrow> w < v"
  by (simp add: checked_succ_Some_iff word_less_nat_alt)

lemma saturating_succ_less: "w \<noteq> - 1 \<Longrightarrow> w < saturating_succ w"
  by (simp add: saturating_succ_def word_less_nat_alt unat_succ_not_max)

lemma saturating_succ_le: "w \<le> saturating_succ w"
  using saturating_succ_less [of w] by (cases "w = - 1") (auto simp: saturating_succ_def)

section \<open>Results and calls on a mutable receiver\<close>

type_synonym ('e, 'a) result = "'e + 'a"
type_synonym ('s, 'e, 'a) call = "'s \<Rightarrow> ('e, 'a) result \<times> 's"

definition and_then :: "('e, 'a) result \<Rightarrow> ('a \<Rightarrow> ('e, 'b) result) \<Rightarrow> ('e, 'b) result" where
  "and_then r f = (case r of Inl e \<Rightarrow> Inl e | Inr x \<Rightarrow> f x)"

definition ensure :: "bool \<Rightarrow> 'e \<Rightarrow> ('e, unit) result" where
  "ensure b e = (if b then Inr () else Inl e)"

definition ok_or :: "'a option \<Rightarrow> 'e \<Rightarrow> ('e, 'a) result" where
  "ok_or m e = (case m of None \<Rightarrow> Inl e | Some x \<Rightarrow> Inr x)"

definition map_err :: "('e \<Rightarrow> 'f) \<Rightarrow> ('e, 'a) result \<Rightarrow> ('f, 'a) result" where
  "map_err f r = (case r of Inl e \<Rightarrow> Inl (f e) | Inr x \<Rightarrow> Inr x)"

definition is_ok :: "('e, 'a) result \<Rightarrow> bool" where
  "is_ok r = (case r of Inl _ \<Rightarrow> False | Inr _ \<Rightarrow> True)"

text \<open>The loop \<open>for x in xs { check(x)?; }\<close>: the first error stops it.\<close>

fun check_all :: "('a \<Rightarrow> ('e, unit) result) \<Rightarrow> 'a list \<Rightarrow> ('e, unit) result" where
  "check_all f [] = Inr ()"
| "check_all f (x # xs) = and_then (f x) (\<lambda>_. check_all f xs)"

lemma and_then_simps [simp]:
  "and_then (Inl e) f = Inl e"
  "and_then (Inr x) f = f x"
  by (simp_all add: and_then_def)

lemma and_then_Inr_iff [result_simps]:
  "and_then r f = Inr y \<longleftrightarrow> (\<exists>x. r = Inr x \<and> f x = Inr y)"
  by (cases r) auto

lemma ensure_simps [simp]:
  "ensure True e = Inr ()"
  "ensure False e = Inl e"
  by (simp_all add: ensure_def)

lemma ensure_Inr_iff [result_simps, simp]: "ensure b e = Inr u \<longleftrightarrow> b"
  by (simp add: ensure_def)

lemma ensure_Inl_iff [result_simps, simp]: "ensure b e = Inl e' \<longleftrightarrow> \<not> b \<and> e' = e"
  by (auto simp add: ensure_def)

lemma ok_or_simps [simp]:
  "ok_or None e = Inl e"
  "ok_or (Some x) e = Inr x"
  by (simp_all add: ok_or_def)

lemma ok_or_Inr_iff [result_simps]: "ok_or m e = Inr x \<longleftrightarrow> m = Some x"
  by (cases m) auto

lemma map_err_simps [simp]:
  "map_err f (Inl e) = Inl (f e)"
  "map_err f (Inr x) = Inr x"
  by (simp_all add: map_err_def)

lemma map_err_Inr_iff [result_simps]: "map_err f r = Inr x \<longleftrightarrow> r = Inr x"
  by (cases r) auto

lemma is_ok_simps [simp]: "is_ok (Inr x)" "\<not> is_ok (Inl e)"
  by (simp_all add: is_ok_def)

lemma check_all_Inr_iff [result_simps]:
  "check_all f xs = Inr u \<longleftrightarrow> (\<forall>x \<in> set xs. f x = Inr ())"
  by (induction xs) (auto simp: result_simps)

section \<open>Bytes and text\<close>

abbreviation byte :: "char \<Rightarrow> nat" where
  "byte c \<equiv> of_char c"

definition is_ascii_lowercase :: "char \<Rightarrow> bool" where [text_defs]:
  "is_ascii_lowercase c \<longleftrightarrow> 97 \<le> byte c \<and> byte c \<le> 122"

definition is_ascii_uppercase :: "char \<Rightarrow> bool" where [text_defs]:
  "is_ascii_uppercase c \<longleftrightarrow> 65 \<le> byte c \<and> byte c \<le> 90"

definition is_ascii_digit :: "char \<Rightarrow> bool" where [text_defs]:
  "is_ascii_digit c \<longleftrightarrow> 48 \<le> byte c \<and> byte c \<le> 57"

definition is_ascii_alphanumeric :: "char \<Rightarrow> bool" where [text_defs]:
  "is_ascii_alphanumeric c \<longleftrightarrow>
     is_ascii_lowercase c \<or> is_ascii_uppercase c \<or> is_ascii_digit c"

definition is_ascii_hexdigit :: "char \<Rightarrow> bool" where [text_defs]:
  "is_ascii_hexdigit c \<longleftrightarrow>
     is_ascii_digit c \<or> (97 \<le> byte c \<and> byte c \<le> 102) \<or> (65 \<le> byte c \<and> byte c \<le> 70)"

definition is_lower_hexdigit :: "char \<Rightarrow> bool" where [text_defs]:
  "is_lower_hexdigit c \<longleftrightarrow> is_ascii_digit c \<or> (97 \<le> byte c \<and> byte c \<le> 102)"

definition is_ascii_control :: "char \<Rightarrow> bool" where [text_defs]:
  "is_ascii_control c \<longleftrightarrow> byte c < 32 \<or> byte c = 127"

definition is_ascii :: "string \<Rightarrow> bool" where [text_defs]:
  "is_ascii s \<longleftrightarrow> list_all (\<lambda>c. byte c < 128) s"

definition to_ascii_lowercase :: "string \<Rightarrow> string" where
  "to_ascii_lowercase = map (\<lambda>c. if is_ascii_uppercase c then char_of (byte c + 32) else c)"

text \<open>
  \<open>char::is_control\<close> is the category Cc: U+0000 to U+001F and U+007F to U+009F. The last
  block is encoded as the two bytes C2 80 to C2 9F.
\<close>

fun has_control :: "string \<Rightarrow> bool" where
  "has_control [] = False"
| "has_control [c] = is_ascii_control c"
| "has_control (c # d # s) =
     (is_ascii_control c \<or> (byte c = 194 \<and> 128 \<le> byte d \<and> byte d \<le> 159) \<or> has_control (d # s))"

text \<open>\<open>chars().count()\<close>: every byte but the continuation bytes (10xxxxxx) starts a scalar value.\<close>

definition char_count :: "string \<Rightarrow> nat" where
  "char_count s = length (filter (\<lambda>c. byte c div 64 \<noteq> 2) s)"

text \<open>\<open>str::contains\<close>, \<open>starts_with\<close> and \<open>join\<close>.\<close>

fun starts_with :: "string \<Rightarrow> string \<Rightarrow> bool" where
  "starts_with s [] = True"
| "starts_with [] (p # ps) = False"
| "starts_with (c # s) (p # ps) = (c = p \<and> starts_with s ps)"

fun str_contains :: "string \<Rightarrow> string \<Rightarrow> bool" where
  "str_contains [] p = (p = [])"
| "str_contains (c # s) p = (starts_with (c # s) p \<or> str_contains s p)"

fun split_on :: "char \<Rightarrow> string \<Rightarrow> string list" where
  "split_on sep [] = [[]]"
| "split_on sep (c # s) =
     (if c = sep then [] # split_on sep s
      else case split_on sep s of [] \<Rightarrow> [[c]] | w # ws \<Rightarrow> (c # w) # ws)"

fun join :: "string \<Rightarrow> string list \<Rightarrow> string" where
  "join sep [] = []"
| "join sep [s] = s"
| "join sep (s # t # ss) = s @ sep @ join sep (t # ss)"

text \<open>
  \<open>str::trim\<close> removes the scalar values with the property White_Space at both ends:
  U+0009 to U+000D, U+0020, U+0085, U+00A0, U+1680, U+2000 to U+200A, U+2028, U+2029, U+202F,
  U+205F and U+3000, whose encodings have one, two or three bytes.
\<close>

definition is_space1 :: "char \<Rightarrow> bool" where
  "is_space1 c \<longleftrightarrow> (9 \<le> byte c \<and> byte c \<le> 13) \<or> byte c = 32"

definition is_space2 :: "char \<Rightarrow> char \<Rightarrow> bool" where
  "is_space2 c d \<longleftrightarrow> byte c = 194 \<and> (byte d = 133 \<or> byte d = 160)"

definition is_space3 :: "char \<Rightarrow> char \<Rightarrow> char \<Rightarrow> bool" where
  "is_space3 c d e \<longleftrightarrow>
     (byte c = 225 \<and> byte d = 154 \<and> byte e = 128)
     \<or> (byte c = 226 \<and> byte d = 128 \<and> (128 \<le> byte e \<and> byte e \<le> 138 \<or> byte e \<in> {168, 169, 175}))
     \<or> (byte c = 226 \<and> byte d = 129 \<and> byte e = 159)
     \<or> (byte c = 227 \<and> byte d = 128 \<and> byte e = 128)"

fun trim_start :: "string \<Rightarrow> string" where
  "trim_start [] = []"
| "trim_start (c # s) =
     (if is_space1 c then trim_start s
      else case s of
        d # t \<Rightarrow>
          if is_space2 c d then trim_start t
          else (case t of e # u \<Rightarrow> if is_space3 c d e then trim_start u else c # s | [] \<Rightarrow> c # s)
      | [] \<Rightarrow> c # s)"

fun trim_end_rev :: "string \<Rightarrow> string" where
  "trim_end_rev [] = []"
| "trim_end_rev (c # s) =
     (if is_space1 c then trim_end_rev s
      else case s of
        d # t \<Rightarrow>
          if is_space2 d c then trim_end_rev t
          else (case t of e # u \<Rightarrow> if is_space3 e d c then trim_end_rev u else c # s | [] \<Rightarrow> c # s)
      | [] \<Rightarrow> c # s)"

definition trim :: "string \<Rightarrow> string" where
  "trim s = rev (trim_end_rev (rev (trim_start s)))"

text \<open>Public text: ASCII without control characters, as \<open>is_ascii\<close> and \<open>is_ascii_control\<close> say.\<close>

definition public_text :: "string \<Rightarrow> bool" where [text_defs]:
  "public_text s \<longleftrightarrow> list_all (\<lambda>c. 32 \<le> byte c \<and> byte c < 127) s"

definition lower_hex :: "nat \<Rightarrow> string \<Rightarrow> bool" where [text_defs]:
  "lower_hex n s \<longleftrightarrow> length s = n \<and> list_all is_lower_hexdigit s"

lemma list_all_replicate [simp]: "list_all P (replicate n x) \<longleftrightarrow> n = 0 \<or> P x"
  by (induction n) auto

lemma has_control_ascii: "is_ascii s \<Longrightarrow> has_control s \<longleftrightarrow> list_ex is_ascii_control s"
  by (induction s rule: has_control.induct) (auto simp: is_ascii_def)

lemma public_text_iff: "public_text s \<longleftrightarrow> is_ascii s \<and> \<not> has_control s"
proof -
  have "public_text s \<longleftrightarrow> is_ascii s \<and> \<not> list_ex is_ascii_control s"
    by (auto simp: text_defs list_all_iff list_ex_iff) fastforce
  then show ?thesis using has_control_ascii by auto
qed

lemma starts_with_iff: "starts_with s p \<longleftrightarrow> (\<exists>t. s = p @ t)"
  by (induction s p rule: starts_with.induct) auto

lemma str_contains_iff: "str_contains s p \<longleftrightarrow> (\<exists>a b. s = a @ p @ b)"
proof (induction s p rule: str_contains.induct)
  case (2 c s p)
  show ?case
  proof
    assume "str_contains (c # s) p"
    then consider "starts_with (c # s) p" | "str_contains s p" by auto
    then show "\<exists>a b. c # s = a @ p @ b"
    proof cases
      case 1
      then show ?thesis by (auto simp: starts_with_iff intro: exI [of _ "[]"])
    next
      case 2
      with "2.IH" obtain a b where "s = a @ p @ b" by auto
      then have "c # s = (c # a) @ p @ b" by simp
      then show ?thesis by blast
    qed
  next
    assume "\<exists>a b. c # s = a @ p @ b"
    then obtain a b where ab: "c # s = a @ p @ b" by auto
    show "str_contains (c # s) p"
    proof (cases a)
      case Nil
      with ab have "starts_with (c # s) p" by (auto simp: starts_with_iff)
      then show ?thesis by simp
    next
      case (Cons x xs)
      with ab have "s = xs @ p @ b" by simp
      with "2.IH" show ?thesis by auto
    qed
  qed
qed auto

lemma str_contains_self [simp]: "str_contains s s"
  by (auto simp: str_contains_iff intro: exI [of _ "[]"])

lemma str_contains_Nil [simp]: "str_contains s []"
  by (auto simp: str_contains_iff)

section \<open>Decimal text\<close>

text \<open>
  \<open>str::parse\<close> for an unsigned type accepts one leading plus sign, then at least one digit,
  and fails when the value exceeds the type's maximum; \<open>to_string\<close> prints without leading
  zeros.
\<close>

definition decimal_value :: "string \<Rightarrow> nat" where
  "decimal_value s = foldl (\<lambda>n c. n * 10 + (byte c - 48)) 0 s"

definition parse_unsigned :: "nat \<Rightarrow> string \<Rightarrow> nat option" where
  "parse_unsigned limit s =
     (let t = (case s of [] \<Rightarrow> [] | c # cs \<Rightarrow> if c = CHR ''+'' then cs else s)
      in if t = [] \<or> \<not> list_all is_ascii_digit t \<or> limit < decimal_value t then None
         else Some (decimal_value t))"

fun show_nat :: "nat \<Rightarrow> string" where
  "show_nat n =
     (if n < 10 then [char_of (48 + n)] else show_nat (n div 10) @ [char_of (48 + n mod 10)])"

declare show_nat.simps [simp del]

definition show_bool :: "bool \<Rightarrow> string" where
  "show_bool b = (if b then ''true'' else ''false'')"

lemma decimal_value_snoc: "decimal_value (s @ [c]) = decimal_value s * 10 + (byte c - 48)"
  by (simp add: decimal_value_def)

lemma decimal_value_Nil [simp]: "decimal_value [] = 0"
  by (simp add: decimal_value_def)

lemma decimal_value_single [simp]: "decimal_value [c] = byte c - 48"
  by (simp add: decimal_value_def)

lemma byte_char_of [simp]: "n < 256 \<Longrightarrow> byte (char_of n) = n"
  by (simp add: of_char_of)

lemma show_nat_digits: "list_all is_ascii_digit (show_nat n) \<and> show_nat n \<noteq> []"
proof (induction n rule: show_nat.induct)
  case (1 n)
  then show ?case
    by (cases "n < 10") (auto simp: show_nat.simps [of n] is_ascii_digit_def)
qed

lemma decimal_value_show_nat [simp]: "decimal_value (show_nat n) = n"
proof (induction n rule: show_nat.induct)
  case (1 n)
  then show ?case
    by (cases "n < 10") (auto simp: show_nat.simps [of n] decimal_value_snoc)
qed

lemma show_nat_no_leading_zero: "10 \<le> n \<Longrightarrow> hd (show_nat n) \<noteq> CHR ''0''"
proof (induction n rule: show_nat.induct)
  case (1 n)
  have ne: "show_nat (n div 10) \<noteq> []" using show_nat_digits by blast
  show ?case
  proof (cases "n div 10 < 10")
    case True
    with "1.prems" have "0 < n div 10" by simp
    have "byte (char_of (48 + n div 10)) \<noteq> byte CHR ''0''" using True \<open>0 < n div 10\<close> by simp
    then have "char_of (48 + n div 10) \<noteq> CHR ''0''" by metis
    with True "1.prems" show ?thesis
      by (simp add: show_nat.simps [of n] show_nat.simps [of "n div 10"])
  next
    case False
    with "1.IH" "1.prems" ne show ?thesis by (simp add: show_nat.simps [of n])
  qed
qed

lemma decimal_value_pos:
  "list_all is_ascii_digit (c # s) \<Longrightarrow> c \<noteq> CHR ''0'' \<Longrightarrow> 0 < decimal_value (c # s)"
proof (induction s rule: rev_induct)
  case Nil
  then have "byte c \<noteq> byte CHR ''0''" by (metis char_of_char)
  with Nil show ?case by (simp add: is_ascii_digit_def)
next
  case (snoc d s)
  then have "0 < decimal_value (c # s)" by simp
  then show ?case using decimal_value_snoc [of "c # s" d] by simp
qed

lemma show_nat_decimal_value:
  "list_all is_ascii_digit s \<Longrightarrow> s \<noteq> [] \<Longrightarrow> length s = 1 \<or> hd s \<noteq> CHR ''0'' \<Longrightarrow>
   show_nat (decimal_value s) = s"
proof (induction s rule: rev_induct)
  case (snoc c s)
  have c: "48 \<le> byte c" "byte c \<le> 57" using snoc.prems(1) by (auto simp: is_ascii_digit_def)
  have cc: "char_of (48 + (byte c - 48)) = c" using c by simp
  show ?case
  proof (cases s)
    case Nil
    then show ?thesis using c cc by (simp add: show_nat.simps)
  next
    case (Cons d t)
    then have d: "d \<noteq> CHR ''0''" using snoc.prems(3) by simp
    have IH: "show_nat (decimal_value s) = s" using snoc Cons d by simp
    have pos: "0 < decimal_value s" using snoc.prems(1) Cons d decimal_value_pos by simp
    let ?n = "decimal_value s * 10 + (byte c - 48)"
    obtain k where k: "byte c = 48 + k" "k < 10" using c by (auto simp: le_iff_add)
    have "?n div 10 = decimal_value s" "?n mod 10 = byte c - 48" using k by simp_all
    then show ?thesis using pos IH cc
      by (simp add: decimal_value_snoc show_nat.simps [of ?n])
  qed
qed simp

section \<open>Lists\<close>

text \<open>
  \<open>has_duplicate\<close> is the loop that inserts into a \<open>BTreeSet\<close> and stops at the first
  value already present; \<open>distinct\<close> is its specification.
\<close>

fun insert_fails :: "'a list \<Rightarrow> 'a set \<Rightarrow> bool" where
  "insert_fails [] seen = False"
| "insert_fails (x # xs) seen = (x \<in> seen \<or> insert_fails xs (insert x seen))"

definition has_duplicate :: "'a list \<Rightarrow> bool" where
  "has_duplicate xs = insert_fails xs {}"

lemma insert_fails_iff: "insert_fails xs seen \<longleftrightarrow> \<not> distinct xs \<or> set xs \<inter> seen \<noteq> {}"
  by (induction xs arbitrary: seen) auto

lemma has_duplicate_iff [simp]: "has_duplicate xs \<longleftrightarrow> \<not> distinct xs"
  by (simp add: has_duplicate_def insert_fails_iff)

text \<open>\<open>windows(2)\<close> and \<open>dedup\<close>.\<close>

fun any_window2 :: "('a \<Rightarrow> 'a \<Rightarrow> bool) \<Rightarrow> 'a list \<Rightarrow> bool" where
  "any_window2 P [] = False"
| "any_window2 P [x] = False"
| "any_window2 P (x # y # xs) = (P x y \<or> any_window2 P (y # xs))"

fun dedup :: "'a list \<Rightarrow> 'a list" where
  "dedup [] = []"
| "dedup [x] = [x]"
| "dedup (x # y # xs) = (if x = y then dedup (y # xs) else x # dedup (y # xs))"

lemma dedup_eq_remdups_adj: "dedup xs = remdups_adj xs"
  by (induction xs rule: dedup.induct) auto

lemma set_dedup [simp]: "set (dedup xs) = set xs"
  by (simp add: dedup_eq_remdups_adj)

lemma length_dedup: "length (dedup xs) \<le> length xs"
  by (simp add: dedup_eq_remdups_adj remdups_adj_length)

lemma dedup_eq_Nil_iff [simp]: "dedup xs = [] \<longleftrightarrow> xs = []"
  by (metis set_dedup set_empty)

lemma sorted_dedup: "sorted (xs :: 'a::linorder list) \<Longrightarrow> sorted (dedup xs) \<and> distinct (dedup xs)"
  by (induction xs rule: dedup.induct) (auto simp: less_le)

lemma sorted_window_distinct:
  "sorted (xs :: 'a::linorder list) \<Longrightarrow> \<not> any_window2 (=) xs \<longleftrightarrow> distinct xs"
  by (induction xs rule: dedup.induct) (auto dest: antisym)

lemma sort_eq_Nil_iff: "sort xs = [] \<longleftrightarrow> xs = []"
  by (metis length_0_conv length_sort)

lemma find_Some_in: "find P xs = Some x \<Longrightarrow> x \<in> set xs \<and> P x"
  by (induction xs) (auto split: if_splits)

lemma find_None_all: "find P xs = None \<longleftrightarrow> (\<forall>x \<in> set xs. \<not> P x)"
  by (induction xs) auto

lemma filter_distinct_key:
  "distinct (map f xs) \<Longrightarrow> x \<in> set xs \<Longrightarrow> filter (\<lambda>y. f y = f x) xs = [x]"
proof (induction xs)
  case (Cons a xs)
  have "filter (\<lambda>y. f y = f a) xs = []"
    using Cons.prems(1) by (auto simp: filter_empty_conv) (metis imageI)
  with Cons show ?case by auto
qed simp

lemma find_distinct_key:
  "distinct (map f xs) \<Longrightarrow> x \<in> set xs \<Longrightarrow> f x = k \<Longrightarrow> find (\<lambda>y. f y = k) xs = Some x"
  by (induction xs) auto

section \<open>Contracts of a state owner\<close>

text \<open>A sequence of calls, each applied to the state the one before it left.\<close>

fun run_calls :: "('ev \<Rightarrow> ('s, 'e, 'a) call) \<Rightarrow> 'ev list \<Rightarrow> 's \<Rightarrow> 's" where
  "run_calls step [] s = s"
| "run_calls step (ev # evs) s = run_calls step evs (snd (step ev s))"

text \<open>The calls of the sequence that were accepted, in order.\<close>

fun accepted :: "('ev \<Rightarrow> ('s, 'e, 'a) call) \<Rightarrow> 'ev list \<Rightarrow> 's \<Rightarrow> 'ev list" where
  "accepted step [] s = []"
| "accepted step (ev # evs) s =
     (case step ev s of (r, s') \<Rightarrow>
        (if is_ok r then ev # accepted step evs s' else accepted step evs s'))"

text \<open>Every call of the sequence is accepted.\<close>

fun all_accepted :: "('ev \<Rightarrow> ('s, 'e, 'a) call) \<Rightarrow> 'ev list \<Rightarrow> 's \<Rightarrow> bool" where
  "all_accepted step [] s = True"
| "all_accepted step (ev # evs) s =
     (is_ok (fst (step ev s)) \<and> all_accepted step evs (snd (step ev s)))"

lemma run_calls_append: "run_calls step (xs @ ys) s = run_calls step ys (run_calls step xs s)"
  by (induction xs arbitrary: s) auto

text \<open>A rejected call leaves the state as it was.\<close>

locale fail_closed =
  fixes step :: "'ev \<Rightarrow> ('s, 'e, 'a) call"
  assumes rejected_unchanged: "step ev s = (Inl e, s') \<Longrightarrow> s' = s"
begin

lemma not_ok_unchanged: "\<not> is_ok (fst (step ev s)) \<Longrightarrow> snd (step ev s) = s"
  using rejected_unchanged [of ev s] by (cases "step ev s"; cases "fst (step ev s)") auto

lemma run_accepted: "run_calls step evs s = run_calls step (accepted step evs s) s"
proof (induction evs arbitrary: s)
  case (Cons ev evs)
  then show ?case
    using not_ok_unchanged [of ev s] by (cases "step ev s") auto
qed simp

lemma accepted_accepted: "all_accepted step (accepted step evs s) s"
proof (induction evs arbitrary: s)
  case (Cons ev evs)
  then show ?case
    using not_ok_unchanged [of ev s] by (cases "step ev s") auto
qed simp

end

text \<open>Every call keeps the invariant, whether it succeeds or not.\<close>

locale safe_machine =
  fixes step :: "'ev \<Rightarrow> ('s, 'e, 'a) call" and inv :: "'s \<Rightarrow> bool"
  assumes step_inv: "inv s \<Longrightarrow> inv (snd (step ev s))"
begin

lemma run_inv: "inv s \<Longrightarrow> inv (run_calls step evs s)"
  by (induction evs arbitrary: s) (auto intro: step_inv)

end

text \<open>In addition, a rank of the state never decreases.\<close>

locale ranked_machine = safe_machine +
  fixes rank :: "'a \<Rightarrow> 'r::order"
  assumes step_rank: "inv s \<Longrightarrow> rank s \<le> rank (snd (step ev s))"
begin

lemma run_rank: "inv s \<Longrightarrow> rank s \<le> rank (run_calls step evs s)"
proof (induction evs arbitrary: s)
  case (Cons ev evs)
  then have "rank (snd (step ev s)) \<le> rank (run_calls step evs (snd (step ev s)))"
    by (blast intro: step_inv)
  with Cons.prems step_rank [of s ev] show ?case by (auto intro: order_trans)
qed simp

end

end
