(* ===== verification/Wire_Catalogs.thy ===== *)
theory Wire_Catalogs
  imports Prelude
begin

text \<open>
  The control versions and the catalogs of measurements and benchmarks that the runner publishes:
  types of \<open>src/control_codec.rs\<close>. Their validation is in \<open>Control_Codec\<close>.
\<close>

section \<open>Versions\<close>

datatype (plugins only: code size) wire_version = WireVersion (wv_major: u16) (wv_minor: u16)

text \<open>The derived order compares the fields in their order.\<close>

instantiation wire_version :: linorder
begin

definition less_eq_wire_version :: "wire_version \<Rightarrow> wire_version \<Rightarrow> bool" where
  "less_eq_wire_version a b \<longleftrightarrow> wv_major a < wv_major b \<or> wv_major a = wv_major b \<and> wv_minor a \<le> wv_minor b"

definition less_wire_version :: "wire_version \<Rightarrow> wire_version \<Rightarrow> bool" where
  "less_wire_version a b \<longleftrightarrow> wv_major a < wv_major b \<or> wv_major a = wv_major b \<and> wv_minor a < wv_minor b"

instance
  by standard (auto simp: less_eq_wire_version_def less_wire_version_def intro: wire_version.expand)

end

definition W1_0 :: wire_version where "W1_0 = WireVersion 1 0"
definition W1_2 :: wire_version where "W1_2 = WireVersion 1 2"
definition W1_3 :: wire_version where "W1_3 = WireVersion 1 3"
definition W1_4 :: wire_version where "W1_4 = WireVersion 1 4"
definition W1_5 :: wire_version where "W1_5 = WireVersion 1 5"
definition W1_6 :: wire_version where "W1_6 = WireVersion 1 6"
definition W1_7 :: wire_version where "W1_7 = WireVersion 1 7"
definition W1_8 :: wire_version where "W1_8 = WireVersion 1 8"
definition W1_10 :: wire_version where "W1_10 = WireVersion 1 10"
definition W1_12 :: wire_version where "W1_12 = WireVersion 1 12"
definition W1_13 :: wire_version where "W1_13 = WireVersion 1 13"
definition W1_14 :: wire_version where "W1_14 = WireVersion 1 14"
definition W1_15 :: wire_version where "W1_15 = WireVersion 1 15"

lemmas wire_version_defs = W1_0_def W1_2_def W1_3_def W1_4_def W1_5_def W1_6_def W1_7_def W1_8_def
  W1_10_def W1_12_def W1_13_def W1_14_def W1_15_def

section \<open>Catalogs of measurements and benchmarks\<close>

datatype (plugins only: code size) catalog_freshness = ContentAddressed
datatype (plugins only: code size) catalog_publication_source = BuiltInCollectors

datatype (plugins only: code size) measurement_group_id = GroupSystemResources | GroupSchedulingContention | GroupLatency
| GroupQualityReliability | GroupFairness | GroupCost | GroupProvenance

record wire_group =
  wg_id :: measurement_group_id
  wg_label :: string
  wg_description :: string

datatype (plugins only: code size) measurement_quantity = QuantityTime | QuantityBytes | QuantityCount | QuantityRatio | QuantityScore | QuantityCurrency
datatype (plugins only: code size) measurement_scope = ScopeProcess | ScopeCgroup | ScopeAttempt | ScopeRun
datatype (plugins only: code size) measurement_source = AsbMetricsProcfs | AsbMetricsCgroupV2 | AsbRunnerJournal | IndependentGrader
| ProviderUsage | OptionalCsb
datatype (plugins only: code size) measurement_source_identity = ProcfsProcessStat | ProcfsProcessIo | CgroupV2CpuStat | CgroupV2MemoryCurrent
| CgroupV2MemoryPeak | CgroupV2MemoryStat | CgroupV2IoStat | CgroupV2CpuPressure | CgroupV2MemoryPressure | CgroupV2IoPressure
datatype (plugins only: code size) measurement_qualification = QualificationImplemented | QualificationUnqualified
datatype (plugins only: code size) measurement_unavailable_reason = NotQualified | PlatformUnsupported | PermissionRequired | NotApplicable
datatype (plugins only: code size) measurement_mode_support = ModeSupported | ModeUnsupported measurement_unavailable_reason
datatype (plugins only: code size) measurement_operating_system = MeasuredLinux
datatype (plugins only: code size) measurement_architecture = MeasuredX86_64 | MeasuredAarch64
datatype (plugins only: code size) measurement_platform_feature = FeatureProcfs | FeatureCgroupV2

record measurement_platform =
  mp_operating_system :: measurement_operating_system
  mp_architectures :: "measurement_architecture list"
  mp_required_features :: "measurement_platform_feature list"

datatype (plugins only: code size) measurement_overhead_class = OverheadLow | OverheadMaterial

record measurement_overhead =
  mo_class :: measurement_overhead_class
  mo_minimum_interval_ns :: u64
  mo_requires_privilege :: bool

datatype (plugins only: code size) measurement_evidence_limit = MissingIsUnavailable | NotCausal | RequiresComparableExperiment
| CollectorOverheadRecorded
datatype (plugins only: code size) measurement_aggregation = AggregateGauge | AggregateCounter | AggregateDistribution

record measurement_provenance =
  mv_source :: measurement_source
  mv_qualification :: measurement_qualification

record wire_measurement =
  wd_id :: string
  wd_name :: string
  wd_description :: string
  wd_group :: measurement_group_id
  wd_quantity :: measurement_quantity
  wd_unit :: string
  wd_aggregation :: measurement_aggregation
  wd_scope :: measurement_scope
  wd_provenance :: measurement_provenance
  wd_source_identity :: measurement_source_identity
  wd_resolution_ns :: u64
  wd_overhead :: measurement_overhead
  wd_live :: measurement_mode_support
  wd_replay :: measurement_mode_support
  wd_platforms :: "measurement_platform list"
  wd_evidence_limits :: "measurement_evidence_limit list"

record wire_measurement_catalog =
  wmc_schema_version :: u16
  wmc_catalog_sha256 :: string
  wmc_groups :: "wire_group list"
  wmc_measurements :: "wire_measurement list"

record measurement_publication =
  mpb_version :: wire_version
  mpb_freshness :: catalog_freshness
  mpb_source :: catalog_publication_source
  mpb_catalog :: wire_measurement_catalog

record wire_benchmark =
  wb_id :: string
  wb_measure_ids :: "string list"

record wire_benchmark_group =
  wbg_id :: string
  wbg_benchmarks :: "wire_benchmark list"

record wire_benchmark_pool =
  wbp_id :: string
  wbp_groups :: "wire_benchmark_group list"

record benchmark_publication =
  bpb_generation :: u64
  bpb_catalog_sha256 :: string
  bpb_pools :: "wire_benchmark_pool list"

end
