(* ===== verification/Recording_Campaign.thy ===== *)
theory Recording_Campaign
  imports Prelude
begin

text \<open>
  Model of \<open>src/recording_campaign.rs\<close>: the intent gate of the recording campaign screen. ASB
  owns the campaign; the front end keeps the last validated observation and lets an action
  through only in the phases it belongs to. Capture needs an explicit confirmation, which
  one granted request uses up.
\<close>

section \<open>Data\<close>

definition MAX_WORKLOADS :: nat where "MAX_WORKLOADS = 256"

datatype workload_scope = AllWorkloads | Selected "string list"

datatype recording_model_error =
  InvalidScope | InvalidCoverage | InvalidGeneration | InvalidObservation | StaleObservation
| CaptureConfirmationRequired | OfflineActivationBlocked | ActionUnavailable

datatype campaign_phase =
  NoCampaign | Planned | Recording | NeedsReconciliation | Complete | Removed | Cancelled | Failed

record coverage =
  cv_requested :: u16
  cv_complete :: u16

record campaign_observation =
  co_generation :: u64
  co_campaign_id :: "string option"
  co_phase :: campaign_phase
  co_coverage :: coverage
  co_offline_ready :: bool

record replay_dispatch_params =
  dp_idempotency_key :: string
  dp_runner_instance_id :: string
  dp_expected_generation :: u64
  dp_campaign_id :: string
  dp_provider_profile_sha256 :: string
  dp_agent_id :: string
  dp_workload_id :: string
  dp_cassette_sha256 :: string

record recording_campaign_lifecycle =
  rcl_runner_instance_id :: string
  rcl_generation :: u64
  rcl_campaign_id :: string
  rcl_provider_id :: string
  rcl_model_id :: string
  rcl_agent_ids :: "string list"
  rcl_workload_ids :: "string list"
  rcl_tuple_count :: u16
  rcl_covered_tuple_count :: u16
  rcl_state :: string
  rcl_offline_ready :: bool
  rcl_unavailable_reason :: "string option"

record recording_campaign_plan =
  rcp_runner_instance_id :: string
  rcp_generation :: u64
  rcp_campaign_id :: string
  rcp_provider_id :: string
  rcp_model_id :: string
  rcp_agent_ids :: "string list"
  rcp_workload_ids :: "string list"
  rcp_tuple_count :: u16
  rcp_state :: string
  rcp_offline_ready :: bool
  rcp_unavailable_reason :: "string option"

datatype recording_action =
  Estimate | Plan | ConfirmCapture | Progress | Cancel | Reconcile | ActivateOfflineDefault
| Seal | Reopen | Remove | Retry

record recording_intent =
  it_action :: recording_action
  it_expected_generation :: u64

record recording_campaign_model =
  rm_scope :: workload_scope
  rm_observation :: campaign_observation
  rm_capture_confirmation_required :: bool

section \<open>Operations\<close>

definition valid_id :: "string \<Rightarrow> bool" where
  "valid_id s \<longleftrightarrow> s \<noteq> [] \<and> length s \<le> 128
     \<and> list_all (\<lambda>b. is_ascii_alphanumeric b \<or> b \<in> {CHR ''.'', CHR ''_'', CHR ''-''}) s"

definition canonical :: "workload_scope \<Rightarrow> (recording_model_error, workload_scope) result" where
  "canonical scope = (case scope of
       AllWorkloads \<Rightarrow> Inr AllWorkloads
     | Selected vs \<Rightarrow>
         if vs = [] \<or> MAX_WORKLOADS < length vs then Inl InvalidScope
         else let vs = sort vs in
              if any_window2 (=) vs \<or> list_ex (\<lambda>v. \<not> valid_id v) vs then Inl InvalidScope
              else Inr (Selected vs))"

definition coverage_validate :: "coverage \<Rightarrow> (recording_model_error, unit) result" where
  "coverage_validate c =
     (if cv_requested c = 0 \<or> cv_requested c < cv_complete c then Inl InvalidCoverage else Inr ())"

definition coverage_is_complete :: "coverage \<Rightarrow> bool" where
  "coverage_is_complete c \<longleftrightarrow> 0 < cv_requested c \<and> cv_complete c = cv_requested c"

definition observation_validate :: "campaign_observation \<Rightarrow> (recording_model_error, unit) result" where
  "observation_validate o1 =
     (if co_generation o1 = 0 then Inl InvalidGeneration
      else
        and_then
          (if co_phase o1 = NoCampaign
           then if co_campaign_id o1 \<noteq> None \<or> cv_requested (co_coverage o1) \<noteq> 0
                   \<or> cv_complete (co_coverage o1) \<noteq> 0
                then Inl InvalidObservation else Inr ()
           else if (case co_campaign_id o1 of None \<Rightarrow> True | Some i \<Rightarrow> \<not> valid_id i)
                then Inl InvalidObservation else Inr ()) (\<lambda>_.
        and_then (if co_phase o1 \<noteq> NoCampaign then coverage_validate (co_coverage o1) else Inr ()) (\<lambda>_.
          if co_offline_ready o1
             \<and> (co_phase o1 \<noteq> Complete \<or> \<not> coverage_is_complete (co_coverage o1))
          then Inl OfflineActivationBlocked else Inr ())))"

definition lifecycle_phase :: "string \<Rightarrow> campaign_phase option" where
  "lifecycle_phase s =
     (if s = ''planned'' then Some Planned
      else if s = ''recording'' then Some Recording
      else if s = ''needs_reconciliation'' then Some NeedsReconciliation
      else if s = ''complete'' then Some Complete
      else if s = ''sealed'' then Some Complete
      else if s = ''removed'' then Some Removed
      else if s = ''cancelled'' then Some Cancelled
      else if s = ''failed'' then Some Failed
      else None)"

definition observe_lifecycle ::
    "recording_campaign_lifecycle \<Rightarrow> (recording_model_error, campaign_observation) result" where
  "observe_lifecycle l =
     and_then (ok_or (lifecycle_phase (rcl_state l)) InvalidObservation) (\<lambda>phase.
       let o1 = \<lparr>co_generation = rcl_generation l, co_campaign_id = Some (rcl_campaign_id l),
                 co_phase = phase,
                 co_coverage = \<lparr>cv_requested = rcl_tuple_count l, cv_complete = rcl_covered_tuple_count l\<rparr>,
                 co_offline_ready = rcl_offline_ready l\<rparr>
       in and_then (observation_validate o1) (\<lambda>_. Inr o1))"

definition plan_phase :: "string \<Rightarrow> campaign_phase option" where
  "plan_phase s =
     (if s = ''planned'' then Some Planned
      else if s = ''cancelled'' then Some Cancelled
      else if s = ''failed'' then Some Failed
      else None)"

definition observe_plan ::
    "recording_campaign_plan \<Rightarrow> (recording_model_error, campaign_observation) result" where
  "observe_plan p =
     and_then (ok_or (plan_phase (rcp_state p)) InvalidObservation) (\<lambda>phase.
       let o1 = \<lparr>co_generation = rcp_generation p, co_campaign_id = Some (rcp_campaign_id p),
                 co_phase = phase,
                 co_coverage = \<lparr>cv_requested = rcp_tuple_count p, cv_complete = 0\<rparr>,
                 co_offline_ready = rcp_offline_ready p\<rparr>
       in and_then (observation_validate o1) (\<lambda>_. Inr o1))"

definition model_new :: "workload_scope \<Rightarrow> campaign_observation \<Rightarrow>
    (recording_model_error, recording_campaign_model) result" where
  "model_new scope o1 =
     and_then (canonical scope) (\<lambda>scope.
     and_then (observation_validate o1) (\<lambda>_.
       Inr \<lparr>rm_scope = scope, rm_observation = o1, rm_capture_confirmation_required = False\<rparr>))"

definition model_apply :: "campaign_observation \<Rightarrow>
    (recording_campaign_model, recording_model_error, unit) call" where
  "model_apply o1 m = (case observation_validate o1 of
       Inl e \<Rightarrow> (Inl e, m)
     | Inr _ \<Rightarrow>
         if co_generation o1 < co_generation (rm_observation m) then (Inl StaleObservation, m)
         else (Inr (), m\<lparr>rm_observation := o1, rm_capture_confirmation_required := False\<rparr>))"

definition model_request :: "recording_action \<Rightarrow>
    (recording_campaign_model, recording_model_error, recording_intent) call" where
  "model_request a m =
     (let phase = co_phase (rm_observation m);
          full = coverage_is_complete (co_coverage (rm_observation m));
          grant = (\<lambda>m. (Inr \<lparr>it_action = a, it_expected_generation = co_generation (rm_observation m)\<rparr>, m));
          deny = (Inl ActionUnavailable, m)
      in case a of
           Estimate \<Rightarrow> if phase \<in> {NoCampaign, Cancelled, Failed} then grant m else deny
         | Plan \<Rightarrow> if phase \<in> {NoCampaign, Cancelled, Failed} then grant m else deny
         | ConfirmCapture \<Rightarrow>
             if phase = Planned
             then if \<not> rm_capture_confirmation_required m then (Inl CaptureConfirmationRequired, m)
                  else grant (m\<lparr>rm_capture_confirmation_required := False\<rparr>)
             else deny
         | Progress \<Rightarrow> if phase \<in> {Recording, NeedsReconciliation} then grant m else deny
         | Cancel \<Rightarrow> if phase \<in> {Planned, Recording, NeedsReconciliation} then grant m else deny
         | Reconcile \<Rightarrow> if phase = NeedsReconciliation then grant m else deny
         | ActivateOfflineDefault \<Rightarrow> if phase = Complete \<and> full then grant m else deny
         | Seal \<Rightarrow> if phase = Complete \<and> full then grant m else deny
         | Reopen \<Rightarrow> if phase \<in> {Complete, Failed, Cancelled, NeedsReconciliation} then grant m else deny
         | Remove \<Rightarrow> if phase = Complete then grant m else deny
         | Retry \<Rightarrow> if phase \<in> {Failed, NeedsReconciliation} then grant m else deny)"

definition arm_capture_confirmation :: "(recording_campaign_model, recording_model_error, unit) call" where
  "arm_capture_confirmation m =
     (if co_phase (rm_observation m) \<noteq> Planned then (Inl ActionUnavailable, m)
      else (Inr (), m\<lparr>rm_capture_confirmation_required := True\<rparr>))"

text \<open>The mutating calls, for sequences of them.\<close>

datatype campaign_op = Observe campaign_observation | Request recording_action | Arm

fun campaign_step :: "campaign_op \<Rightarrow> (recording_campaign_model, recording_model_error, unit) call" where
  "campaign_step (Observe o1) m = model_apply o1 m"
| "campaign_step (Request a) m = (case model_request a m of (r, m') \<Rightarrow> (and_then r (\<lambda>_. Inr ()), m'))"
| "campaign_step Arm m = arm_capture_confirmation m"

section \<open>Lemmas\<close>

definition canonical_scope :: "workload_scope \<Rightarrow> bool" where
  "canonical_scope s = (case s of AllWorkloads \<Rightarrow> True
     | Selected vs \<Rightarrow> sorted vs \<and> distinct vs \<and> vs \<noteq> [] \<and> length vs \<le> MAX_WORKLOADS \<and> list_all valid_id vs)"

definition model_inv :: "recording_campaign_model \<Rightarrow> bool" where
  "model_inv m \<longleftrightarrow> canonical_scope (rm_scope m) \<and> observation_validate (rm_observation m) = Inr ()
     \<and> (rm_capture_confirmation_required m \<longrightarrow> co_phase (rm_observation m) = Planned)"

lemma canonical_Inr_iff:
  "canonical (Selected vs) = Inr s \<longleftrightarrow>
     s = Selected (sort vs) \<and> distinct vs \<and> vs \<noteq> [] \<and> length vs \<le> MAX_WORKLOADS \<and> list_all valid_id vs"
proof -
  have "\<not> list_ex (\<lambda>v. \<not> valid_id v) (sort vs) \<longleftrightarrow> list_all valid_id vs"
    by (auto simp: list_ex_iff list_all_iff)
  then show ?thesis
    using sorted_window_distinct [of "sort vs"]
    by (auto simp: canonical_def Let_def not_less)
qed

lemma canonical_All [simp]: "canonical AllWorkloads = Inr AllWorkloads"
  by (simp add: canonical_def)

lemma canonical_scope_canonical: "canonical s = Inr s' \<Longrightarrow> canonical_scope s'"
  by (cases s) (auto simp: canonical_scope_def canonical_Inr_iff list_all_iff sort_eq_Nil_iff)

lemma canonical_fixed: "canonical_scope s \<Longrightarrow> canonical s = Inr s"
  by (cases s) (auto simp: canonical_scope_def canonical_Inr_iff sorted_sort_id)

lemma request_cases:
  "model_request a m = (Inl e, m') \<Longrightarrow> m' = m"
  "model_request a m = (Inr it, m') \<Longrightarrow>
     it = \<lparr>it_action = a, it_expected_generation = co_generation (rm_observation m)\<rparr>
     \<and> (if a = ConfirmCapture
        then rm_capture_confirmation_required m \<and> m' = m\<lparr>rm_capture_confirmation_required := False\<rparr>
        else m' = m)"
  by (cases a; auto simp: model_request_def Let_def split: if_splits)+

lemma request_keeps_observation:
  "rm_observation (snd (model_request a m)) = rm_observation m
   \<and> rm_scope (snd (model_request a m)) = rm_scope m
   \<and> (rm_capture_confirmation_required (snd (model_request a m)) \<longrightarrow> rm_capture_confirmation_required m)"
proof (cases "model_request a m")
  case (Pair r m')
  then show ?thesis using request_cases [of a m] by (cases r) (auto split: if_splits)
qed

lemma campaign_step_inv: "model_inv m \<Longrightarrow> model_inv (snd (campaign_step op m))"
proof (cases op)
  case (Request a)
  assume "model_inv m"
  with Request request_keeps_observation [of a m] show ?thesis
    by (auto simp: model_inv_def split: prod.splits)
qed (auto simp: model_inv_def model_apply_def arm_capture_confirmation_def split: sum.splits)

lemma campaign_step_generation:
  "co_generation (rm_observation m) \<le> co_generation (rm_observation (snd (campaign_step op m)))"
proof (cases op)
  case (Request a)
  with request_keeps_observation [of a m] show ?thesis by (auto split: prod.splits)
qed (auto simp: model_apply_def arm_capture_confirmation_def not_less split: sum.splits)

interpretation campaign: ranked_machine campaign_step model_inv "\<lambda>m. co_generation (rm_observation m)"
  by unfold_locales (auto intro: campaign_step_inv campaign_step_generation)

interpretation campaign_calls: fail_closed campaign_step
proof
  fix op m e m'
  assume "campaign_step op m = (Inl e, m')"
  then show "m' = m"
    using request_cases [of _ m]
    by (cases op) (auto simp: model_apply_def arm_capture_confirmation_def and_then_def
          split: sum.splits prod.splits if_splits)
qed

lemma model_new_inv: "model_new s o1 = Inr m \<Longrightarrow> model_inv m"
  by (auto simp: model_new_def model_inv_def result_simps canonical_scope_canonical)

text \<open>A confirmation is spent by the request it lets through.\<close>

lemma confirmations_spent_step:
  "(if op = Request ConfirmCapture \<and> is_ok (fst (campaign_step op m)) then 1 else 0)
     + of_bool (rm_capture_confirmation_required (snd (campaign_step op m)))
   \<le> (of_bool (op = Arm \<and> is_ok (fst (campaign_step op m))) :: nat)
     + of_bool (rm_capture_confirmation_required m)"
proof (cases op)
  case (Request a)
  obtain r m' where r: "model_request a m = (r, m')" by fastforce
  then show ?thesis using Request request_cases [of a m]
    by (cases r) (auto split: if_splits)
qed (auto simp: model_apply_def arm_capture_confirmation_def split: sum.splits)

definition grants :: "campaign_op list \<Rightarrow> nat" where
  "grants ops = length (filter (\<lambda>op. op = Request ConfirmCapture) ops)"

definition arms :: "campaign_op list \<Rightarrow> nat" where
  "arms ops = length (filter (\<lambda>op. op = Arm) ops)"

lemma confirmations_spent:
  "grants (accepted campaign_step ops m)
     + of_bool (rm_capture_confirmation_required (run_calls campaign_step ops m))
   \<le> arms (accepted campaign_step ops m) + of_bool (rm_capture_confirmation_required m)"
proof (induction ops arbitrary: m)
  case Nil
  then show ?case by (simp add: grants_def arms_def)
next
  case (Cons op ops)
  obtain r m' where step: "campaign_step op m = (r, m')" by fastforce
  from Cons [of m'] confirmations_spent_step [of op m] step show ?case
    by (auto simp: grants_def arms_def split: if_splits)
qed

lemma lifecycle_phase_present: "lifecycle_phase s = Some ph \<Longrightarrow> ph \<noteq> NoCampaign"
  by (auto simp: lifecycle_phase_def split: if_splits)

lemma plan_phase_present: "plan_phase s = Some ph \<Longrightarrow> ph \<in> {Planned, Cancelled, Failed}"
  by (auto simp: plan_phase_def split: if_splits)

lemma offline_ready_complete:
  "observation_validate o1 = Inr () \<Longrightarrow> co_offline_ready o1 \<Longrightarrow>
   co_phase o1 = Complete \<and> coverage_is_complete (co_coverage o1)"
  unfolding observation_validate_def by (simp add: result_simps split: if_splits)

lemma observe_lifecycle_valid:
  "observe_lifecycle l = Inr o1 \<Longrightarrow> observation_validate o1 = Inr ()
     \<and> co_generation o1 = rcl_generation l \<and> co_phase o1 \<noteq> NoCampaign"
  unfolding observe_lifecycle_def Let_def and_then_Inr_iff ok_or_Inr_iff
  using lifecycle_phase_present by fastforce

lemma observe_plan_valid:
  assumes "observe_plan p = Inr o2"
  shows "observation_validate o2 = Inr () \<and> \<not> co_offline_ready o2
     \<and> cv_complete (co_coverage o2) = 0 \<and> co_phase o2 \<in> {Planned, Cancelled, Failed}"
proof -
  from assms obtain ph where ph: "plan_phase (rcp_state p) = Some ph" "co_phase o2 = ph"
    "cv_complete (co_coverage o2) = 0" "observation_validate o2 = Inr ()"
    unfolding observe_plan_def Let_def and_then_Inr_iff ok_or_Inr_iff by fastforce
  with plan_phase_present [OF ph(1)] offline_ready_complete [of o2] show ?thesis by auto
qed

section \<open>Properties\<close>

text \<open>
  One confirmation lets at most one capture through. In any sequence of calls on a new
  model the captures granted are at most the confirmations armed, so a replayed or repeated
  confirm request is refused until the user confirms again.
\<close>

theorem one_capture_per_confirmation:
  assumes "model_new scope o1 = Inr m"
  shows "grants (accepted campaign_step ops m) \<le> arms (accepted campaign_step ops m)"
proof -
  have "\<not> rm_capture_confirmation_required m"
    using assms by (auto simp: model_new_def result_simps)
  with confirmations_spent [of ops m] show ?thesis by simp
qed

definition planned_observation :: campaign_observation where
  "planned_observation = \<lparr>co_generation = 2, co_campaign_id = Some ''campaign-1'', co_phase = Planned,
     co_coverage = \<lparr>cv_requested = 4, cv_complete = 0\<rparr>, co_offline_ready = False\<rparr>"

definition planned_model :: recording_campaign_model where
  "planned_model = \<lparr>rm_scope = Selected [''a'', ''b''], rm_observation = planned_observation,
     rm_capture_confirmation_required = False\<rparr>"

theorem one_capture_per_confirmation_witness:
  "model_new (Selected [''b'', ''a'']) planned_observation = Inr planned_model
   \<and> grants (accepted campaign_step [Arm, Request ConfirmCapture, Request ConfirmCapture] planned_model)
     \<le> arms (accepted campaign_step [Arm, Request ConfirmCapture, Request ConfirmCapture] planned_model)"
proof -
  have new: "model_new (Selected [''b'', ''a'']) planned_observation = Inr planned_model" by code_simp
  from new one_capture_per_confirmation [OF new] show ?thesis by blast
qed

text \<open>
  From any new model and after any calls, the observation held is valid, its generation
  has not gone back, and the model is only offline ready when the campaign is complete with
  every requested tuple covered; the calls that were refused did not matter.
\<close>

theorem campaign_model_safe:
  fixes ops
  assumes "model_new scope o1 = Inr m"
  defines "m' \<equiv> run_calls campaign_step ops m"
  shows "model_inv m' \<and> co_generation o1 \<le> co_generation (rm_observation m')
       \<and> (co_offline_ready (rm_observation m') \<longrightarrow> co_phase (rm_observation m') = Complete
            \<and> coverage_is_complete (co_coverage (rm_observation m')))
       \<and> m' = run_calls campaign_step (accepted campaign_step ops m) m"
proof -
  have inv: "model_inv m" using model_new_inv [OF assms(1)] .
  have o1: "rm_observation m = o1" using assms(1) by (auto simp: model_new_def result_simps)
  have inv': "model_inv m'" unfolding m'_def by (rule campaign.run_inv [OF inv])
  moreover have "co_offline_ready (rm_observation m') \<longrightarrow> co_phase (rm_observation m') = Complete
            \<and> coverage_is_complete (co_coverage (rm_observation m'))"
    using inv' offline_ready_complete by (auto simp: model_inv_def)
  ultimately show ?thesis
    using campaign.run_rank [OF inv, of ops] o1 campaign_calls.run_accepted [of ops m]
    by (simp add: m'_def)
qed

theorem campaign_model_safe_witness:
  "model_inv (run_calls campaign_step [Arm, Request ConfirmCapture] planned_model)"
proof -
  have new: "model_new (Selected [''b'', ''a'']) planned_observation = Inr planned_model" by code_simp
  from campaign_model_safe [OF new] show ?thesis by blast
qed

text \<open>
  The canonical form of a selection is a sorted list of 1 to 256 distinct valid
  identities with the same elements; it depends only on the set that was selected, not on
  its order, and canonicalising again changes nothing.
\<close>

theorem canonical_scope_unique:
  assumes "canonical (Selected vs) = Inr s"
  shows "(\<exists>ws. s = Selected ws \<and> sorted ws \<and> distinct ws \<and> set ws = set vs
            \<and> 1 \<le> length ws \<and> length ws \<le> 256 \<and> list_all valid_id ws)
       \<and> canonical s = Inr s
       \<and> (\<forall>us. distinct us \<and> set us = set vs \<longrightarrow> canonical (Selected us) = Inr s)"
proof -
  note vs = assms [unfolded canonical_Inr_iff]
  have "canonical (Selected us) = Inr s" if "distinct us" "set us = set vs" for us
  proof -
    have "sort us = sort vs" using that vs by (simp add: sorted_distinct_set_unique)
    moreover have "length us = length vs" using that vs distinct_card by metis
    ultimately show ?thesis using that vs by (auto simp: canonical_Inr_iff list_all_iff)
  qed
  moreover have "canonical s = Inr s"
    using canonical_fixed canonical_scope_canonical [OF assms] by blast
  moreover have "\<exists>ws. s = Selected ws \<and> sorted ws \<and> distinct ws \<and> set ws = set vs
            \<and> 1 \<le> length ws \<and> length ws \<le> 256 \<and> list_all valid_id ws"
    using vs by (auto simp: MAX_WORKLOADS_def list_all_iff Suc_le_eq sort_eq_Nil_iff)
  ultimately show ?thesis by blast
qed

theorem canonical_scope_unique_witness:
  "canonical (Selected [''b'', ''a'']) = Inr (Selected [''a'', ''b''])
   \<and> canonical (Selected [''a'', ''b'']) = Inr (Selected [''a'', ''b''])"
proof -
  have c: "canonical (Selected [''b'', ''a'']) = Inr (Selected [''a'', ''b''])" by code_simp
  from c canonical_scope_unique [OF c] show ?thesis by blast
qed

text \<open>
  An observation taken from the wire is valid; one taken from a plan-only response is
  never offline ready and never claims a covered tuple, whatever the response says.
\<close>

theorem wire_observations_valid:
  "(observe_lifecycle l = Inr o1 \<longrightarrow> observation_validate o1 = Inr ()
      \<and> co_generation o1 = rcl_generation l \<and> co_phase o1 \<noteq> NoCampaign)
   \<and> (observe_plan p = Inr o2 \<longrightarrow> observation_validate o2 = Inr ()
      \<and> \<not> co_offline_ready o2 \<and> cv_complete (co_coverage o2) = 0
      \<and> co_phase o2 \<in> {Planned, Cancelled, Failed})"
  using observe_lifecycle_valid [of l o1] observe_plan_valid [of p o2] by blast

definition sample_plan :: recording_campaign_plan where
  "sample_plan = \<lparr>rcp_runner_instance_id = ''r'', rcp_generation = 3, rcp_campaign_id = ''campaign-1'',
     rcp_provider_id = ''p'', rcp_model_id = ''m'', rcp_agent_ids = [''a''], rcp_workload_ids = [''w''],
     rcp_tuple_count = 2, rcp_state = ''planned'', rcp_offline_ready = False,
     rcp_unavailable_reason = None\<rparr>"

theorem wire_observations_valid_witness:
  "is_ok (observe_plan sample_plan)
   \<and> (\<forall>o2. observe_plan sample_plan = Inr o2 \<longrightarrow> \<not> co_offline_ready o2)"
proof -
  have "is_ok (observe_plan sample_plan)" by code_simp
  with wire_observations_valid [of _ _ sample_plan] show ?thesis by blast
qed

end
