(* ===== verification/Sha256.thy ===== *)
theory Sha256
  imports Prelude
begin

unbundle bit_operations_syntax

text \<open>
  Model of \<open>src/sha256.rs\<close>: the dependency-free SHA-256 behind every catalog digest the
  frontend computes. Bytes are 8-bit words, the working variables are 32-bit words whose
  addition wraps, and the fixed-size arrays are lists updated by index, as the loops of the
  source write them. The recursive schedule and the padding of FIPS 180-4 are the reference.
\<close>

section \<open>Library operations\<close>

fun chunks_exact :: "nat \<Rightarrow> 'a list \<Rightarrow> 'a list list" where
  "chunks_exact n xs =
     (if n = 0 \<or> length xs < n then [] else take n xs # chunks_exact n (drop n xs))"

declare chunks_exact.simps [simp del]

definition to_be_bytes :: "u64 \<Rightarrow> u8 list" where
  "to_be_bytes w = map (\<lambda>i. ucast (drop_bit (56 - 8 * i) w)) [0..<8]"

definition from_be_bytes :: "u8 list \<Rightarrow> u32" where
  "from_be_bytes bs = foldl (\<lambda>w b. push_bit 8 w OR ucast b) 0 bs"

definition hex_digit :: "nat \<Rightarrow> char" where
  "hex_digit n = char_of (if n < 10 then 48 + n else 87 + n)"

definition format_08x :: "u32 \<Rightarrow> string" where
  "format_08x w = map (\<lambda>i. hex_digit (unat (drop_bit (28 - 4 * i) w AND 15))) [0..<8]"

section \<open>The digest\<close>

definition K :: "u32 list" where
  "K = concat [
    [0x428a2f98, 0x71374491, 0xb5c0fbcf, 0xe9b5dba5, 0x3956c25b, 0x59f111f1, 0x923f82a4, 0xab1c5ed5],
    [0xd807aa98, 0x12835b01, 0x243185be, 0x550c7dc3, 0x72be5d74, 0x80deb1fe, 0x9bdc06a7, 0xc19bf174],
    [0xe49b69c1, 0xefbe4786, 0x0fc19dc6, 0x240ca1cc, 0x2de92c6f, 0x4a7484aa, 0x5cb0a9dc, 0x76f988da],
    [0x983e5152, 0xa831c66d, 0xb00327c8, 0xbf597fc7, 0xc6e00bf3, 0xd5a79147, 0x06ca6351, 0x14292967],
    [0x27b70a85, 0x2e1b2138, 0x4d2c6dfc, 0x53380d13, 0x650a7354, 0x766a0abb, 0x81c2c92e, 0x92722c85],
    [0xa2bfe8a1, 0xa81a664b, 0xc24b8b70, 0xc76c51a3, 0xd192e819, 0xd6990624, 0xf40e3585, 0x106aa070],
    [0x19a4c116, 0x1e376c08, 0x2748774c, 0x34b0bcb5, 0x391c0cb3, 0x4ed8aa4a, 0x5b9cca4f, 0x682e6ff3],
    [0x748f82ee, 0x78a5636f, 0x84c87814, 0x8cc70208, 0x90befffa, 0xa4506ceb, 0xbef9a3f7, 0xc67178f2]]"

definition padded_len :: "u8 list \<Rightarrow> nat" where
  "padded_len input = ((length input + 9 + 63) div 64) * 64"

text \<open>The zeroed buffer with the input, the marker byte and the bit length copied into it.\<close>

definition padded_message :: "u8 list \<Rightarrow> u8 list" where
  "padded_message input =
     (let bit_len = (word_of_nat (length input) :: u64) * 8;
          message = replicate (padded_len input) 0;
          message = input @ drop (length input) message;
          message = message[length input := 0x80]
      in take (padded_len input - 8) message @ to_be_bytes bit_len)"

definition initial_h :: "u32 list" where
  "initial_h = [0x6a09e667, 0xbb67ae85, 0x3c6ef372, 0xa54ff53a, 0x510e527f, 0x9b05688c,
                0x1f83d9ab, 0x5be0cd19]"

definition small_sigma0 :: "u32 \<Rightarrow> u32" where
  "small_sigma0 x = word_rotr 7 x XOR word_rotr 18 x XOR drop_bit 3 x"

definition small_sigma1 :: "u32 \<Rightarrow> u32" where
  "small_sigma1 x = word_rotr 17 x XOR word_rotr 19 x XOR drop_bit 10 x"

definition schedule_step :: "nat \<Rightarrow> u32 list \<Rightarrow> u32 list" where
  "schedule_step i w =
     w[i := w ! (i - 16) + small_sigma0 (w ! (i - 15)) + w ! (i - 7) + small_sigma1 (w ! (i - 2))]"

definition schedule :: "u8 list \<Rightarrow> u32 list" where
  "schedule chunk =
     fold schedule_step [16..<64]
       (map from_be_bytes (take 16 (chunks_exact 4 chunk)) @ replicate 48 0)"

type_synonym working = "u32 \<times> u32 \<times> u32 \<times> u32 \<times> u32 \<times> u32 \<times> u32 \<times> u32"

definition round_step :: "u32 list \<Rightarrow> nat \<Rightarrow> working \<Rightarrow> working" where
  "round_step w i = (\<lambda>(a, b, c, d, e, f, g, x).
     let s1 = word_rotr 6 e XOR word_rotr 11 e XOR word_rotr 25 e;
         ch = (e AND f) XOR (NOT e AND g);
         temp1 = x + s1 + ch + K ! i + w ! i;
         s0 = word_rotr 2 a XOR word_rotr 13 a XOR word_rotr 22 a;
         maj = (a AND b) XOR (a AND c) XOR (b AND c);
         temp2 = s0 + maj
     in (temp1 + temp2, a, b, c, d + temp1, e, f, g))"

definition compress :: "u32 list \<Rightarrow> u8 list \<Rightarrow> u32 list" where
  "compress h chunk =
     (let w = schedule chunk;
          (a, b, c, d, e, f, g, x) =
            fold (round_step w) [0..<64] (h ! 0, h ! 1, h ! 2, h ! 3, h ! 4, h ! 5, h ! 6, h ! 7)
      in map2 (+) h [a, b, c, d, e, f, g, x])"

definition digest_words :: "u8 list \<Rightarrow> u32 list" where
  "digest_words input = foldl compress initial_h (chunks_exact 64 (padded_message input))"

definition digest_hex :: "u8 list \<Rightarrow> string" where
  "digest_hex input = concat (map format_08x (digest_words input))"

text \<open>The bytes of a text.\<close>

definition as_bytes :: "string \<Rightarrow> u8 list" where
  "as_bytes = map (\<lambda>c. word_of_nat (byte c))"

section \<open>Reference\<close>

text \<open>The message schedule as the standard writes it, a recurrence over the block's words.\<close>

fun ref_schedule :: "u8 list \<Rightarrow> nat \<Rightarrow> u32" where
  "ref_schedule chunk t =
     (if t < 16 then from_be_bytes (take 4 (drop (4 * t) chunk))
      else small_sigma1 (ref_schedule chunk (t - 2)) + ref_schedule chunk (t - 7)
           + small_sigma0 (ref_schedule chunk (t - 15)) + ref_schedule chunk (t - 16))"

declare ref_schedule.simps [simp del]

definition ref_padding :: "u8 list \<Rightarrow> u8 list" where
  "ref_padding input =
     input @ 0x80 # replicate ((55 + 63 * length input) mod 64) 0
     @ to_be_bytes (word_of_nat (8 * length input))"

section \<open>Lemmas\<close>

lemma chunks_exact_nth:
  "0 < n \<Longrightarrow> i < length xs div n \<Longrightarrow> chunks_exact n xs ! i = take n (drop (n * i) xs)"
proof (induction n xs arbitrary: i rule: chunks_exact.induct)
  case (1 n xs)
  from "1.prems" have len: "n \<le> length xs"
    by (metis div_less not_less not_less_zero)
  show ?case
  proof (cases i)
    case 0
    then show ?thesis using "1.prems" len by (simp add: chunks_exact.simps [of n xs])
  next
    case (Suc j)
    have "j < length (drop n xs) div n"
      using "1.prems" len Suc by (simp add: le_div_geq)
    with "1.IH" [of j] "1.prems" len Suc show ?thesis
      by (simp add: chunks_exact.simps [of n xs] add.commute)
  qed
qed

lemma length_chunks_exact: "0 < n \<Longrightarrow> length (chunks_exact n xs) = length xs div n"
proof (induction n xs rule: chunks_exact.induct)
  case (1 n xs)
  then show ?case
    by (cases "length xs < n") (auto simp: chunks_exact.simps [of n xs] le_div_geq)
qed

lemma in_chunks_exact: "c \<in> set (chunks_exact n xs) \<Longrightarrow> length c = n"
proof (induction n xs rule: chunks_exact.induct)
  case (1 n xs)
  then show ?case by (auto simp: chunks_exact.simps [of n xs] split: if_splits)
qed

lemma length_to_be_bytes [simp]: "length (to_be_bytes w) = 8"
  by (simp add: to_be_bytes_def)

lemma length_schedule_fold:
  "length (fold schedule_step is w) = length w"
  by (induction "is" arbitrary: w) (auto simp: schedule_step_def)

lemma schedule_step_other: "j \<noteq> i \<Longrightarrow> schedule_step i w ! j = w ! j"
  by (simp add: schedule_step_def)

lemma schedule_step_at:
  assumes "16 \<le> n" "n < length w" "\<forall>t < n. w ! t = ref_schedule chunk t"
  shows "schedule_step n w ! n = ref_schedule chunk n"
  using assms by (simp add: schedule_step_def ref_schedule.simps [of chunk n] add_ac)

text \<open>Invariant of the loop: the first \<open>n\<close> entries are the reference's.\<close>

lemma schedule_loop:
  assumes "16 \<le> n" "n \<le> 64" "length w = 64" "\<And>t. t < 16 \<Longrightarrow> w ! t = ref_schedule chunk t"
  shows "\<forall>t < n. fold schedule_step [16..<n] w ! t = ref_schedule chunk t"
  using assms(1,2)
proof (induction n rule: dec_induct)
  case base
  then show ?case using assms(4) by simp
next
  case (step n)
  let ?w = "fold schedule_step [16..<n] w"
  have IH: "\<forall>t < n. ?w ! t = ref_schedule chunk t" using step by simp
  have len: "length ?w = 64" using assms(3) by (simp add: length_schedule_fold)
  have eq: "fold schedule_step [16..<Suc n] w = schedule_step n ?w" using step by simp
  have "schedule_step n ?w ! n = ref_schedule chunk n"
    using schedule_step_at [of n ?w chunk] IH step.hyps step.prems len by simp
  with IH eq show ?case by (auto simp: less_Suc_eq schedule_step_other)
qed

lemma schedule_reference:
  assumes "length chunk = 64" and "t < 64"
  shows "schedule chunk ! t = ref_schedule chunk t"
proof -
  let ?w = "map from_be_bytes (take 16 (chunks_exact 4 chunk)) @ replicate 48 0"
  have len: "length (chunks_exact 4 chunk) = 16" using assms(1) by (simp add: length_chunks_exact)
  have "?w ! i = ref_schedule chunk i" if "i < 16" for i
    using that assms(1) len
    by (simp add: nth_append chunks_exact_nth ref_schedule.simps [of chunk i])
  then show ?thesis
    using schedule_loop [of 64 ?w chunk] len assms(2) by (simp add: schedule_def)
qed

lemma length_compress [simp]: "length h = 8 \<Longrightarrow> length (compress h chunk) = 8"
  by (simp add: compress_def Let_def split: prod.splits)

lemma length_foldl_compress: "length h = 8 \<Longrightarrow> length (foldl compress h cs) = 8"
  by (induction cs arbitrary: h) auto

lemma hex_digit_lower: "n < 16 \<Longrightarrow> is_lower_hexdigit (hex_digit n)"
  by (auto simp: hex_digit_def is_lower_hexdigit_def is_ascii_digit_def)

lemma unat_nibble: "unat (w AND 15 :: u32) < 16"
proof -
  have "w AND 15 \<le> (15 :: u32)" by (rule word_and_le1)
  then show ?thesis by (simp add: word_le_nat_alt)
qed

lemma format_08x_lower_hex: "lower_hex 8 (format_08x w)"
  by (auto simp: lower_hex_def format_08x_def list_all_iff intro!: hex_digit_lower unat_nibble)

lemma lower_hex_concat:
  "\<forall>s \<in> set ss. lower_hex n s \<Longrightarrow> lower_hex (n * length ss) (concat ss)"
  by (induction ss) (auto simp: lower_hex_def)

lemma padded_len_bounds:
  "length input + 9 \<le> padded_len input \<and> padded_len input < length input + 73
   \<and> padded_len input mod 64 = 0"
proof -
  have "(length input + 72) = padded_len input + (length input + 72) mod 64"
    unfolding padded_len_def by (simp only: add.assoc numeral_plus_numeral add_num_simps div_mult_mod_eq)
  moreover have "(length input + 72) mod 64 < 64" by simp
  ultimately show ?thesis by (simp add: padded_len_def)
qed

lemma padded_message_shape:
  "padded_message input =
     input @ 0x80 # replicate (padded_len input - length input - 9) 0
     @ to_be_bytes (word_of_nat (length input) * 8)"
proof -
  let ?n = "length input" and ?p = "padded_len input"
  have p: "?n + 9 \<le> ?p" using padded_len_bounds by blast
  obtain m where m: "?p = ?n + 9 + m" using p by (auto simp: le_iff_add)
  have "drop ?n (replicate ?p (0 :: u8)) = 0 # replicate m 0 @ replicate 8 0"
    using m by (simp add: replicate_add [symmetric] flip: replicate_Suc)
  then show ?thesis
    using m by (simp add: padded_message_def Let_def list_update_append)
qed

lemma pad_count: "padded_len input - length input - 9 = (55 + 63 * length input) mod 64"
proof -
  let ?n = "length input"
  have "padded_len input - ?n - 9 < 64" and "?n + 9 \<le> padded_len input"
    using padded_len_bounds [of input] by auto
  moreover have "(padded_len input - ?n - 9) mod 64 = (55 + 63 * ?n) mod 64"
  proof -
    obtain q where q: "padded_len input = 64 * q" using padded_len_bounds [of input] by auto
    have "padded_len input - ?n - 9 + 64 * (?n + 1) = 64 * q + (55 + 63 * ?n)"
      using q padded_len_bounds [of input] by simp
    then have "(padded_len input - ?n - 9 + 64 * (?n + 1)) mod 64 = (64 * q + (55 + 63 * ?n)) mod 64"
      by (rule arg_cong)
    then show ?thesis by (simp only: mod_mult_self2 mod_mult_self4)
  qed
  ultimately show ?thesis by simp
qed

lemma length_padded_message: "length (padded_message input) = padded_len input"
  using padded_len_bounds [of input] by (simp add: padded_message_shape)

lemma padded_message_reference: "padded_message input = ref_padding input"
  unfolding padded_message_shape ref_padding_def pad_count by (simp add: mult.commute)

lemma digest_words_length: "length (digest_words input) = 8"
  by (simp add: digest_words_def length_foldl_compress initial_h_def)

lemma digest_hex_lower: "lower_hex 64 (digest_hex input)"
  using lower_hex_concat [of "map format_08x (digest_words input)" 8]
  by (simp add: digest_hex_def digest_words_length format_08x_lower_hex)

section \<open>Properties\<close>


text \<open>
  The in-place buffer handling agrees with the standard. The padded message is the input,
  the byte 80, the least number of zero bytes and the 64-bit bit length, a whole number of
  64-byte blocks; and on each block the array loop computes the recurrence of the message
  schedule.
\<close>

theorem digest_blocks_reference:
  "padded_message input = ref_padding input
   \<and> length (padded_message input) mod 64 = 0
   \<and> (\<forall>chunk t. chunk \<in> set (chunks_exact 64 (padded_message input)) \<and> t < 64 \<longrightarrow>
        schedule chunk ! t = ref_schedule chunk t)"
  using padded_message_reference length_padded_message padded_len_bounds in_chunks_exact
    schedule_reference by metis

theorem digest_blocks_reference_witness:
  "hd (chunks_exact 64 (padded_message [])) \<in> set (chunks_exact 64 (padded_message []))
   \<and> schedule (hd (chunks_exact 64 (padded_message []))) ! 20
     = ref_schedule (hd (chunks_exact 64 (padded_message []))) 20"
proof -
  have "length (chunks_exact 64 (padded_message [])) = 1"
    by (simp add: length_chunks_exact length_padded_message padded_len_def)
  then have "chunks_exact 64 (padded_message []) \<noteq> []" by auto
  then have "hd (chunks_exact 64 (padded_message [])) \<in> set (chunks_exact 64 (padded_message []))"
    by simp
  with digest_blocks_reference [of "[]"] show ?thesis by simp
qed

section \<open>The length prefix of frames\<close>

text \<open>\<open>u32::to_be_bytes\<close>, which \<open>from_be_bytes\<close> inverts.\<close>

definition u32_to_be_bytes :: "u32 \<Rightarrow> u8 list" where
  "u32_to_be_bytes w = map (\<lambda>i. ucast (drop_bit (24 - 8 * i) w)) [0..<4]"

lemma from_be_bytes_u32: "from_be_bytes (u32_to_be_bytes w) = w"
proof -
  have "from_be_bytes (u32_to_be_bytes w) =
      (push_bit 24 (ucast (ucast (drop_bit 24 w) :: u8)) OR push_bit 16 (ucast (ucast (drop_bit 16 w) :: u8))
       OR push_bit 8 (ucast (ucast (drop_bit 8 w) :: u8)) OR ucast (ucast w :: u8) :: u32)"
    by (simp add: from_be_bytes_def u32_to_be_bytes_def upt_rec push_bit_or ac_simps)
  also have "\<dots> = w"
  proof (rule bit_word_eqI)
    fix n assume "n < LENGTH(32)"
    then consider "n < 8" | "8 \<le> n" "n < 16" | "16 \<le> n" "n < 24" | "24 \<le> n" "n < 32" by fastforce
    then show "bit (push_bit 24 (ucast (ucast (drop_bit 24 w) :: u8)) OR push_bit 16 (ucast (ucast (drop_bit 16 w) :: u8))
        OR push_bit 8 (ucast (ucast (drop_bit 8 w) :: u8)) OR ucast (ucast w :: u8) :: u32) n \<longleftrightarrow> bit w n"
      by cases (auto simp: bit_simps)
  qed
  finally show ?thesis .
qed

lemma length_u32_to_be_bytes [simp]: "length (u32_to_be_bytes w) = 4"
  by (simp add: u32_to_be_bytes_def)

end
