(* ===== verification/Ordered_Map.thy ===== *)
theory Ordered_Map
  imports Prelude
begin

text \<open>
  Ordered maps: \<open>BTreeMap\<close> of the standard library and the sorted object of the JSON library,
  as lists of entries with strictly increasing keys. The locale states what a client may rely
  on; the entries of a map are determined by its lookups, which is how clients prove that two
  maps are the same. The interpretation on the sorted lists discharges the laws.
\<close>

section \<open>Sorted lists of entries\<close>

fun om_insert :: "'k::linorder \<Rightarrow> 'v \<Rightarrow> ('k \<times> 'v) list \<Rightarrow> ('k \<times> 'v) list" where
  "om_insert k v [] = [(k, v)]"
| "om_insert k v ((k', v') # m) =
     (if k < k' then (k, v) # (k', v') # m
      else if k = k' then (k, v) # m
      else (k', v') # om_insert k v m)"

definition om_remove :: "'k \<Rightarrow> ('k \<times> 'v) list \<Rightarrow> ('k \<times> 'v) list" where
  "om_remove k m = filter (\<lambda>(k', _). k' \<noteq> k) m"

abbreviation om_get :: "('k \<times> 'v) list \<Rightarrow> 'k \<Rightarrow> 'v option" where
  "om_get m \<equiv> map_of m"

definition om_collect :: "('k::linorder \<times> 'v) list \<Rightarrow> ('k \<times> 'v) list" where
  "om_collect kvs = foldl (\<lambda>m (k, v). om_insert k v m) [] kvs"

definition om_sorted :: "('k::linorder \<times> 'v) list \<Rightarrow> bool" where
  "om_sorted m \<longleftrightarrow> sorted_wrt (<) (map fst m)"

section \<open>The interface\<close>

locale ordered_map =
  fixes put :: "'k::linorder \<Rightarrow> 'v \<Rightarrow> 'm \<Rightarrow> 'm" and take_out :: "'k \<Rightarrow> 'm \<Rightarrow> 'm"
    and get :: "'m \<Rightarrow> 'k \<Rightarrow> 'v option" and entries :: "'m \<Rightarrow> ('k \<times> 'v) list" and inv :: "'m \<Rightarrow> bool"
  assumes inv_put: "inv m \<Longrightarrow> inv (put k v m)"
    and inv_take_out: "inv m \<Longrightarrow> inv (take_out k m)"
    and get_put: "inv m \<Longrightarrow> get (put k v m) j = (if j = k then Some v else get m j)"
    and get_take_out: "inv m \<Longrightarrow> get (take_out k m) j = (if j = k then None else get m j)"
    and entries_sorted: "inv m \<Longrightarrow> sorted_wrt (<) (map fst (entries m))"
    and entries_get: "inv m \<Longrightarrow> (k, v) \<in> set (entries m) \<longleftrightarrow> get m k = Some v"
begin

lemma entries_distinct: "inv m \<Longrightarrow> distinct (map fst (entries m))"
  using entries_sorted strict_sorted_iff by blast

lemma entries_ext:
  assumes "inv m" "inv m'" "\<And>k. get m k = get m' k"
  shows "entries m = entries m'"
proof -
  have same: "set (entries m) = set (entries m')" using assms entries_get by auto
  have keys: "inj_on fst (set (entries m))" "distinct (map fst (entries m))"
    "distinct (map fst (entries m'))"
    using entries_distinct assms(1,2) by (auto simp: distinct_map)
  moreover have "sorted (map fst (entries m))" "sorted (map fst (entries m'))"
    using entries_sorted assms(1,2) strict_sorted_iff by blast+
  ultimately show ?thesis
    using same map_sorted_distinct_set_unique [of fst "entries m" "entries m'"] by simp
qed

lemma take_out_put:
  "inv m \<Longrightarrow> get m k = None \<Longrightarrow> entries (take_out k (put k v m)) = entries m"
  by (rule entries_ext) (auto simp: inv_put inv_take_out get_put get_take_out)

lemma put_commute:
  "inv m \<Longrightarrow> j \<noteq> k \<Longrightarrow> entries (put j u (put k v m)) = entries (put k v (put j u m))"
  by (rule entries_ext) (auto simp: inv_put get_put)

lemma set_entries_put:
  "inv m \<Longrightarrow> get m k = None \<Longrightarrow> set (entries (put k v m)) = insert (k, v) (set (entries m))"
  by (auto simp: entries_get inv_put get_put split: if_splits)

lemma length_put:
  assumes "inv m" "get m k = None"
  shows "length (entries (put k v m)) = Suc (length (entries m))"
proof -
  have "(k, v) \<notin> set (entries m)" using assms entries_get by simp
  moreover have "distinct (entries n)" if "inv n" for n
    using entries_distinct [OF that] by (simp add: distinct_map)
  ultimately show ?thesis
    using set_entries_put [OF assms, of v] assms(1) inv_put
    by (metis card_insert_disjoint distinct_card finite_set)
qed

end

section \<open>The sorted lists implement the interface\<close>

lemma om_insert_keys: "set (map fst (om_insert k v m)) = insert k (set (map fst m))"
proof (induction m)
  case (Cons kv m)
  then show ?case by (cases kv) (simp add: insert_commute)
qed simp

lemma om_insert_sorted: "om_sorted m \<Longrightarrow> om_sorted (om_insert k v m)"
proof (induction m)
  case (Cons kv m)
  obtain k' v' where kv: "kv = (k', v')" by (cases kv)
  show ?case using Cons kv om_insert_keys [of k v m]
    by (auto simp: om_sorted_def not_less_iff_gr_or_eq)
qed (simp add: om_sorted_def)

lemma om_remove_sorted: "om_sorted m \<Longrightarrow> om_sorted (om_remove k m)"
  unfolding om_sorted_def om_remove_def by (induction m) auto

lemma om_get_insert: "om_sorted m \<Longrightarrow> om_get (om_insert k v m) j = (if j = k then Some v else om_get m j)"
  by (induction m) (auto simp: om_sorted_def)

lemma om_get_remove: "om_get (om_remove k m) j = (if j = k then None else om_get m j)"
  unfolding om_remove_def by (induction m) auto

lemma om_entries_get: "om_sorted m \<Longrightarrow> (k, v) \<in> set m \<longleftrightarrow> om_get m k = Some v"
  by (metis map_of_eq_Some_iff om_sorted_def strict_sorted_iff)

interpretation om: ordered_map om_insert om_remove om_get "\<lambda>m. m" om_sorted
  by unfold_locales
     (auto simp: om_insert_sorted om_remove_sorted om_get_insert om_get_remove om_entries_get,
      simp add: om_sorted_def)

section \<open>Collecting entries\<close>

lemma om_sorted_Nil [simp]: "om_sorted []"
  by (simp add: om_sorted_def)

lemma om_insert_last: "(\<forall>j \<in> fst ` set m. j < k) \<Longrightarrow> om_insert k v m = m @ [(k, v)]"
  by (induction m) (auto simp: not_less_iff_gr_or_eq)

lemma om_collect_sorted: "om_sorted (om_collect kvs)"
proof -
  have "om_sorted m \<Longrightarrow> om_sorted (foldl (\<lambda>m (k, v). om_insert k v m) m kvs)" for m
    by (induction kvs arbitrary: m) (auto intro: om_insert_sorted)
  then show ?thesis by (simp add: om_collect_def)
qed

lemma om_collect_id: "om_sorted kvs \<Longrightarrow> om_collect kvs = kvs"
proof -
  have "om_sorted (m @ kvs) \<Longrightarrow> foldl (\<lambda>m (k, v). om_insert k v m) m kvs = m @ kvs" for m
  proof (induction kvs arbitrary: m)
    case (Cons kv kvs)
    obtain k v where kv: "kv = (k, v)" by (cases kv)
    have "om_insert k v m = m @ [(k, v)]"
      using Cons.prems kv by (intro om_insert_last) (auto simp: om_sorted_def sorted_wrt_append)
    with Cons kv show ?case by simp
  qed simp
  from this [of "[]"] show "om_sorted kvs \<Longrightarrow> om_collect kvs = kvs" by (simp add: om_collect_def)
qed

lemma om_collect_map:
  "om_collect (map (\<lambda>(k, v). (k, f v)) kvs) = map (\<lambda>(k, v). (k, f v)) (om_collect kvs)"
proof -
  have insert_map: "om_insert k (f v) (map (\<lambda>(k, v). (k, f v)) m)
      = map (\<lambda>(k, v). (k, f v)) (om_insert k v m)" for k v m
    by (induction m) auto
  have "foldl (\<lambda>m (k, v). om_insert k v m) (map (\<lambda>(k, v). (k, f v)) m) (map (\<lambda>(k, v). (k, f v)) kvs)
      = map (\<lambda>(k, v). (k, f v)) (foldl (\<lambda>m (k, v). om_insert k v m) m kvs)" for m
    by (induction kvs arbitrary: m) (auto simp: insert_map)
  from this [of "[]"] show ?thesis by (simp add: om_collect_def)
qed

lemma om_collect_subset: "set (om_collect kvs) \<subseteq> set kvs"
proof -
  have "set (om_insert k v m) \<subseteq> insert (k, v) (set m)" for k v and m :: "('a \<times> 'b) list"
    by (induction m) (auto split: if_splits)
  then have "set (foldl (\<lambda>m (k, v). om_insert k v m) m kvs) \<subseteq> set m \<union> set kvs" for m
    by (induction kvs arbitrary: m) fastforce+
  from this [of "[]"] show ?thesis by (simp add: om_collect_def)
qed

end
