(* ===== verification/Agent_Catalog.thy ===== *)
theory Agent_Catalog
  imports Sha256 Ordered_Map
begin

text \<open>
  Model of \<open>src/agent_catalog.rs\<close>: the catalog of installable agents, its validation, and the
  canonical content digest. A catalog is turned into a JSON value whose objects are kept sorted
  by key, as the JSON library's map is in its pinned configuration; the writer of that library
  that turns a value into bytes is not part of the repository and is the argument \<open>to_vec\<close>.
\<close>

section \<open>JSON values\<close>

datatype json =
  JNull
| JBool bool
| JNumber nat
| JString string
| JArray "json list"
| JObject "(string \<times> json) list"

abbreviation struct :: "(string \<times> json) list \<Rightarrow> json" where
  "struct fields \<equiv> JObject (om_collect fields)"

definition json_option :: "('a \<Rightarrow> json) \<Rightarrow> 'a option \<Rightarrow> json" where
  "json_option f m = (case m of None \<Rightarrow> JNull | Some x \<Rightarrow> f x)"

section \<open>The catalog\<close>

datatype agent_catalog_action = Status | Refresh

record agent_catalog_request =
  acr_action :: agent_catalog_action
  acr_runner_instance_id :: string
  acr_known_generation :: "u64 option"

datatype agent_unavailable_reason =
  IncompatibleTarget | IncompleteProvenance | UnverifiedArtifact | MissingCapability
| StaleCatalog | PolicyDenied

datatype agent_availability = Available | Unavailable agent_unavailable_reason

record agent_target =
  at_operating_system :: string
  at_architecture :: string
  at_libc :: string
  at_libc_version :: string

record agent_signer =
  sg_key_id :: string
  sg_principal :: string

record agent_package =
  ap_package_id :: string
  ap_version :: string
  ap_sha256 :: string
  ap_signature_sha256 :: string
  ap_signer :: agent_signer

record agent_provenance =
  av_source_revision :: string
  av_manifest_sha256 :: string
  av_sbom_sha256 :: string
  av_license_ref :: string

record agent_catalog_entry =
  ae_agent_id :: string
  ae_target :: agent_target
  ae_package :: "agent_package option"
  ae_provenance :: "agent_provenance option"
  ae_capabilities :: "string list"
  ae_availability :: agent_availability

record agent_catalog =
  ac_runner_instance_id :: string
  ac_generation :: u64
  ac_catalog_sha256 :: string
  ac_target :: agent_target
  ac_agents :: "agent_catalog_entry list"
  ac_refreshed :: bool

definition MAX_CATALOG_AGENTS :: nat where "MAX_CATALOG_AGENTS = 32"
definition MAX_CAPABILITIES :: nat where "MAX_CAPABILITIES = 32"
definition MAX_STRING_BYTES :: nat where "MAX_STRING_BYTES = 128"

section \<open>Serialised form and digest\<close>

definition target_to_value :: "agent_target \<Rightarrow> json" where
  "target_to_value t = struct
     [(''operating_system'', JString (at_operating_system t)),
      (''architecture'', JString (at_architecture t)),
      (''libc'', JString (at_libc t)),
      (''libc_version'', JString (at_libc_version t))]"

definition signer_to_value :: "agent_signer \<Rightarrow> json" where
  "signer_to_value s = struct
     [(''key_id'', JString (sg_key_id s)), (''principal'', JString (sg_principal s))]"

definition package_to_value :: "agent_package \<Rightarrow> json" where
  "package_to_value p = struct
     [(''package_id'', JString (ap_package_id p)),
      (''version'', JString (ap_version p)),
      (''sha256'', JString (ap_sha256 p)),
      (''signature_sha256'', JString (ap_signature_sha256 p)),
      (''signer'', signer_to_value (ap_signer p))]"

definition provenance_to_value :: "agent_provenance \<Rightarrow> json" where
  "provenance_to_value p = struct
     [(''source_revision'', JString (av_source_revision p)),
      (''manifest_sha256'', JString (av_manifest_sha256 p)),
      (''sbom_sha256'', JString (av_sbom_sha256 p)),
      (''license_ref'', JString (av_license_ref p))]"

definition reason_name :: "agent_unavailable_reason \<Rightarrow> string" where
  "reason_name r = (case r of
       IncompatibleTarget \<Rightarrow> ''incompatible_target''
     | IncompleteProvenance \<Rightarrow> ''incomplete_provenance''
     | UnverifiedArtifact \<Rightarrow> ''unverified_artifact''
     | MissingCapability \<Rightarrow> ''missing_capability''
     | StaleCatalog \<Rightarrow> ''stale_catalog''
     | PolicyDenied \<Rightarrow> ''policy_denied'')"

definition availability_to_value :: "agent_availability \<Rightarrow> json" where
  "availability_to_value a = (case a of
       Available \<Rightarrow> struct [(''status'', JString ''available'')]
     | Unavailable r \<Rightarrow> struct [(''status'', JString ''unavailable''),
                               (''reason'', JString (reason_name r))])"

definition entry_to_value :: "agent_catalog_entry \<Rightarrow> json" where
  "entry_to_value e = struct
     [(''agent_id'', JString (ae_agent_id e)),
      (''target'', target_to_value (ae_target e)),
      (''package'', json_option package_to_value (ae_package e)),
      (''provenance'', json_option provenance_to_value (ae_provenance e)),
      (''capabilities'', JArray (map JString (ae_capabilities e))),
      (''availability'', availability_to_value (ae_availability e))]"

definition catalog_fields :: "agent_catalog \<Rightarrow> (string \<times> json) list" where
  "catalog_fields c = om_collect
     [(''runner_instance_id'', JString (ac_runner_instance_id c)),
      (''generation'', JNumber (unat (ac_generation c))),
      (''catalog_sha256'', JString (ac_catalog_sha256 c)),
      (''target'', target_to_value (ac_target c)),
      (''agents'', JArray (map entry_to_value (ac_agents c))),
      (''refreshed'', JBool (ac_refreshed c))]"

fun canonical_value :: "json \<Rightarrow> json" where
  "canonical_value (JObject kvs) =
     JObject (om_collect (map (\<lambda>(k, v). (k, canonical_value v)) kvs))"
| "canonical_value (JArray vs) = JArray (map canonical_value vs)"
| "canonical_value v = v"

definition canonical_bytes :: "(json \<Rightarrow> u8 list option) \<Rightarrow> agent_catalog \<Rightarrow> (string, u8 list) result" where
  "canonical_bytes to_vec c =
     (let fields = om_remove ''refreshed'' (om_remove ''catalog_sha256'' (catalog_fields c))
      in ok_or (to_vec (canonical_value (JObject fields))) ''cannot serialize canonical catalog'')"

definition computed_digest :: "(json \<Rightarrow> u8 list option) \<Rightarrow> agent_catalog \<Rightarrow> (string, string) result" where
  "computed_digest to_vec c = and_then (canonical_bytes to_vec c) (\<lambda>bytes. Inr (digest_hex bytes))"

section \<open>Validation\<close>

definition valid_token :: "string \<Rightarrow> bool" where
  "valid_token s \<longleftrightarrow> s \<noteq> [] \<and> length s \<le> MAX_STRING_BYTES
     \<and> list_all (\<lambda>b. is_ascii_alphanumeric b \<or> b \<in> {CHR ''.'', CHR ''_'', CHR ''+'', CHR ''-''}) s"

definition validate_token :: "string \<Rightarrow> string \<Rightarrow> (string, unit) result" where
  "validate_token s field = ensure (valid_token s) (''invalid '' @ field)"

definition validate_agent_id :: "string \<Rightarrow> string \<Rightarrow> (string, unit) result" where
  "validate_agent_id s field =
     (if s = [] \<or> MAX_STRING_BYTES < length s
         \<or> \<not> list_all (\<lambda>b. is_ascii_lowercase b \<or> is_ascii_digit b \<or> b = CHR ''-'') s
      then Inl (''invalid '' @ field) else Inr ())"

definition validate_digest :: "string \<Rightarrow> (string, unit) result" where
  "validate_digest s =
     (if length s \<noteq> 64 \<or> \<not> list_all (\<lambda>b. is_ascii_hexdigit b \<and> \<not> is_ascii_uppercase b) s
      then Inl ''invalid SHA-256 digest'' else Inr ())"

definition request_validate :: "agent_catalog_request \<Rightarrow> (string, unit) result" where
  "request_validate r = ensure (valid_token (acr_runner_instance_id r)) ''invalid runner instance''"

definition validate_package :: "agent_package \<Rightarrow> (string, unit) result" where
  "validate_package p =
     and_then (validate_token (ap_package_id p) ''package id'') (\<lambda>_.
     and_then (validate_token (ap_version p) ''package version'') (\<lambda>_.
     and_then (validate_digest (ap_sha256 p)) (\<lambda>_.
     and_then (validate_digest (ap_signature_sha256 p)) (\<lambda>_.
     and_then (validate_token (sg_key_id (ap_signer p)) ''signer key id'') (\<lambda>_.
       validate_token (sg_principal (ap_signer p)) ''signer principal'')))))"

definition validate_provenance :: "agent_provenance \<Rightarrow> (string, unit) result" where
  "validate_provenance p =
     (if length (av_source_revision p) \<noteq> 40
         \<or> \<not> list_all (\<lambda>b. is_ascii_hexdigit b \<and> \<not> is_ascii_uppercase b) (av_source_revision p)
      then Inl ''invalid source revision''
      else and_then (validate_digest (av_manifest_sha256 p)) (\<lambda>_.
           and_then (validate_digest (av_sbom_sha256 p)) (\<lambda>_.
             validate_token (av_license_ref p) ''license reference'')))"

definition validate_target :: "agent_target \<Rightarrow> (string, unit) result" where
  "validate_target t =
     and_then (validate_token (at_operating_system t) ''target operating system'') (\<lambda>_.
     and_then (validate_token (at_architecture t) ''target architecture'') (\<lambda>_.
     and_then (validate_token (at_libc t) ''target libc'') (\<lambda>_.
       validate_token (at_libc_version t) ''target libc version'')))"

definition validate_metadata :: "agent_catalog_entry \<Rightarrow> (string, unit) result" where
  "validate_metadata e = (case ae_availability e of
       Available \<Rightarrow>
         and_then (ok_or (ae_package e) ''missing package metadata'') (\<lambda>package.
         and_then (ok_or (ae_provenance e) ''missing provenance metadata'') (\<lambda>provenance.
         and_then (validate_package package) (\<lambda>_.
         and_then (validate_provenance provenance) (\<lambda>_.
           ensure (ae_capabilities e \<noteq> []) ''invalid agent capability count''))))
     | Unavailable IncompleteProvenance \<Rightarrow> Inr ()
     | Unavailable _ \<Rightarrow>
         if (ae_package e \<noteq> None) \<noteq> (ae_provenance e \<noteq> None)
         then Inl ''incomplete metadata requires incomplete_provenance''
         else and_then (case ae_package e of None \<Rightarrow> Inr () | Some p \<Rightarrow> validate_package p) (\<lambda>_.
                case ae_provenance e of None \<Rightarrow> Inr () | Some p \<Rightarrow> validate_provenance p))"

fun validate_capabilities :: "string set \<Rightarrow> string list \<Rightarrow> (string, unit) result" where
  "validate_capabilities seen [] = Inr ()"
| "validate_capabilities seen (c # cs) =
     and_then (validate_token c ''agent capability'') (\<lambda>_.
       if c \<in> seen then Inl ''duplicate agent capability''
       else validate_capabilities (insert c seen) cs)"

text \<open>The loop over the entries, carrying the identity of the entry before.\<close>

fun validate_entries :: "agent_target \<Rightarrow> string option \<Rightarrow> agent_catalog_entry list \<Rightarrow>
    (string, unit) result" where
  "validate_entries target prior [] = Inr ()"
| "validate_entries target prior (e # es) =
     and_then (validate_agent_id (ae_agent_id e) ''agent id'') (\<lambda>_.
       if (case prior of None \<Rightarrow> False | Some p \<Rightarrow> ae_agent_id e \<le> p)
       then Inl ''agent catalog is not canonically sorted''
       else if ae_target e \<noteq> target then Inl ''agent target does not match catalog target''
       else if MAX_CAPABILITIES < length (ae_capabilities e)
       then Inl ''invalid agent capability count''
       else and_then (validate_metadata e) (\<lambda>_.
            and_then (validate_capabilities {} (ae_capabilities e)) (\<lambda>_.
              validate_entries target (Some (ae_agent_id e)) es)))"

definition validate_catalog :: "(json \<Rightarrow> u8 list option) \<Rightarrow> agent_catalog \<Rightarrow> (string, agent_catalog) result" where
  "validate_catalog to_vec c =
     and_then (validate_token (ac_runner_instance_id c) ''runner instance'') (\<lambda>_.
     and_then (validate_digest (ac_catalog_sha256 c)) (\<lambda>_.
     and_then (validate_target (ac_target c)) (\<lambda>_.
       if ac_agents c = [] \<or> MAX_CATALOG_AGENTS < length (ac_agents c)
       then Inl ''invalid agent catalog size''
       else and_then (validate_entries (ac_target c) None (ac_agents c)) (\<lambda>_.
            and_then (computed_digest to_vec c) (\<lambda>computed.
              if computed \<noteq> ac_catalog_sha256 c
              then Inl ''agent catalog digest does not match content''
              else Inr c)))))"

definition catalog_validate :: "(json \<Rightarrow> u8 list option) \<Rightarrow> agent_catalog \<Rightarrow> (string, unit) result" where
  "catalog_validate to_vec c = and_then (validate_catalog to_vec c) (\<lambda>_. Inr ())"

section \<open>The calls on the wire\<close>

text \<open>
  The JSON library is not part of the repository: \<open>to_string\<close> writes a value, \<open>from_str\<close> reads
  the envelope of a response. Both fail with the library's own message.
\<close>

definition action_name :: "agent_catalog_action \<Rightarrow> string" where
  "action_name a = (case a of Status \<Rightarrow> ''status'' | Refresh \<Rightarrow> ''refresh'')"

definition request_to_value :: "agent_catalog_request \<Rightarrow> json" where
  "request_to_value r = struct
     [(''action'', JString (action_name (acr_action r))),
      (''runner_instance_id'', JString (acr_runner_instance_id r)),
      (''known_generation'', json_option (\<lambda>g. JNumber (unat g)) (acr_known_generation r))]"

definition rpc_call_value :: "u64 \<Rightarrow> u64 \<Rightarrow> string \<Rightarrow> json \<Rightarrow> json" where
  "rpc_call_value request_id timeout_ms rpc_method params = struct
     [(''jsonrpc'', JString ''2.0''), (''id'', JNumber (unat request_id)),
      (''timeout_ms'', JNumber (unat timeout_ms)), (''method'', JString rpc_method),
      (''params'', params)]"

definition encode_agent_catalog_request ::
    "(json \<Rightarrow> (string, string) result) \<Rightarrow> u64 \<Rightarrow> u64 \<Rightarrow> agent_catalog_request \<Rightarrow> (string, string) result" where
  "encode_agent_catalog_request to_string request_id timeout_ms request =
     and_then (request_validate request) (\<lambda>_.
       if timeout_ms = 0 \<or> 300000 < timeout_ms then Inl ''invalid catalog timeout''
       else map_err (\<lambda>error. ''cannot encode catalog request: '' @ error)
         (to_string (rpc_call_value request_id timeout_ms ''agent_catalog'' (request_to_value request))))"

record 'v rpc_result =
  rr_kind :: string
  rr_value :: 'v

record 'v rpc_value =
  rv_request_sha256 :: string
  rv_result :: "'v rpc_result"

record 'v rpc_operation =
  ro_kind :: string
  ro_value :: "'v rpc_value"

record 'v rpc_response =
  rp_jsonrpc :: string
  rp_id :: u64
  rp_result :: "'v rpc_operation"

definition parse_agent_catalog_response ::
    "(string \<Rightarrow> (string, agent_catalog rpc_response) result) \<Rightarrow> (json \<Rightarrow> u8 list option) \<Rightarrow>
     string \<Rightarrow> (string, agent_catalog) result" where
  "parse_agent_catalog_response from_str to_vec input =
     and_then (map_err (\<lambda>error. ''invalid agent catalog response: '' @ error) (from_str input)) (\<lambda>response.
       let operation = rp_result response; envelope = ro_value operation in
       if rp_jsonrpc response \<noteq> ''2.0'' \<or> ro_kind operation \<noteq> ''operation''
          \<or> rr_kind (rv_result envelope) \<noteq> ''agent_catalog''
       then Inl ''unsupported agent catalog response envelope''
       else and_then (validate_digest (rv_request_sha256 envelope)) (\<lambda>_.
              validate_catalog to_vec (rr_value (rv_result envelope))))"
section \<open>Lemmas\<close>

lemma lower_hexdigit_iff:
  "is_ascii_hexdigit b \<and> \<not> is_ascii_uppercase b \<longleftrightarrow> is_lower_hexdigit b"
  by (auto simp: text_defs)

lemma validate_digest_iff: "validate_digest s = Inr u \<longleftrightarrow> lower_hex 64 s"
  by (simp add: validate_digest_def lower_hex_def lower_hexdigit_iff)

lemma canonical_value_idem: "canonical_value (canonical_value v) = canonical_value v"
proof (induction v rule: canonical_value.induct)
  case (1 kvs)
  let ?f = "\<lambda>(k, v). (k, canonical_value v)"
  let ?c = "om_collect kvs"
  have "canonical_value (canonical_value v) = canonical_value v" if "(k, v) \<in> set kvs" for k v
    using "1.IH" [OF that] by simp
  then have "map ?f (map ?f ?c) = map ?f ?c"
    using om_collect_subset [of kvs] by (auto simp: subset_iff)
  moreover have "om_collect ?c = ?c"
    by (rule om_collect_id) (rule om_collect_sorted)
  ultimately show ?case by (simp only: canonical_value.simps om_collect_map)
qed auto

lemma canonical_bytes_cong:
  "canonical_bytes to_vec (c\<lparr>ac_catalog_sha256 := d, ac_refreshed := b\<rparr>) = canonical_bytes to_vec c"
  by (simp add: canonical_bytes_def catalog_fields_def om_collect_def om_remove_def)

lemma validate_capabilities_Inr:
  "validate_capabilities seen cs = Inr u \<Longrightarrow>
   distinct cs \<and> set cs \<inter> seen = {} \<and> (\<forall>c \<in> set cs. valid_token c)"
  by (induction cs arbitrary: seen) (auto simp: result_simps validate_token_def split: if_splits)

definition entry_ok :: "agent_target \<Rightarrow> agent_catalog_entry \<Rightarrow> bool" where
  "entry_ok target e \<longleftrightarrow>
     ae_target e = target \<and> validate_agent_id (ae_agent_id e) ''agent id'' = Inr ()
     \<and> length (ae_capabilities e) \<le> MAX_CAPABILITIES
     \<and> distinct (ae_capabilities e) \<and> (\<forall>c \<in> set (ae_capabilities e). valid_token c)
     \<and> (ae_availability e = Available \<longrightarrow>
          (\<exists>p v. ae_package e = Some p \<and> ae_provenance e = Some v
                \<and> validate_package p = Inr () \<and> validate_provenance v = Inr ()
                \<and> ae_capabilities e \<noteq> []))"

lemma validate_entries_Inr:
  "validate_entries target prior es = Inr u \<Longrightarrow>
   sorted_wrt (<) (map ae_agent_id es)
   \<and> (\<forall>p e. prior = Some p \<and> e \<in> set es \<longrightarrow> p < ae_agent_id e)
   \<and> (\<forall>e \<in> set es. entry_ok target e)"
proof (induction es arbitrary: prior)
  case (Cons e es)
  have tail: "validate_entries target (Some (ae_agent_id e)) es = Inr u"
    and head: "validate_agent_id (ae_agent_id e) ''agent id'' = Inr ()"
      "ae_target e = target" "length (ae_capabilities e) \<le> MAX_CAPABILITIES"
      "validate_metadata e = Inr ()" "validate_capabilities {} (ae_capabilities e) = Inr ()"
      "\<forall>p. prior = Some p \<longrightarrow> p < ae_agent_id e"
    using Cons.prems by (auto simp: result_simps not_le split: if_splits option.splits)
  have "ae_availability e = Available \<longrightarrow>
      (\<exists>p v. ae_package e = Some p \<and> ae_provenance e = Some v
            \<and> validate_package p = Inr () \<and> validate_provenance v = Inr () \<and> ae_capabilities e \<noteq> [])"
    using head(4) by (auto simp: validate_metadata_def result_simps)
  then have "entry_ok target e"
    using head validate_capabilities_Inr [OF head(5)] by (simp add: entry_ok_def)
  with Cons.IH [OF tail] head(6) show ?case by (auto intro: less_trans)
qed simp

lemma validate_catalog_Inr:
  assumes "validate_catalog to_vec c = Inr c'"
  shows "c' = c" "1 \<le> length (ac_agents c)" "length (ac_agents c) \<le> MAX_CATALOG_AGENTS"
    "validate_entries (ac_target c) None (ac_agents c) = Inr ()"
    "computed_digest to_vec c = Inr (ac_catalog_sha256 c)"
    "valid_token (ac_runner_instance_id c)" "lower_hex 64 (ac_catalog_sha256 c)"
  using assms
  by (auto simp: validate_catalog_def validate_token_def validate_digest_iff result_simps not_less
        Suc_le_eq split: if_splits)

lemma catalog_ids_distinct:
  "validate_catalog to_vec c = Inr c' \<Longrightarrow> distinct (map ae_agent_id (ac_agents c))"
  using validate_entries_Inr [OF validate_catalog_Inr(4)] strict_sorted_imp_sorted
    strict_sorted_iff by blast

section \<open>Properties\<close>

text \<open>
  A validated catalog is canonical. It has 1 to 32 agents in strictly increasing order of
  their identity, every entry is for the catalog's own target with distinct capability tokens,
  every entry offered as available carries validated package and provenance metadata and at
  least one capability, and the published digest is the digest computed from the content.
\<close>

theorem validated_catalog_canonical:
  assumes "validate_catalog to_vec c = Inr c'"
  shows "c' = c
       \<and> 1 \<le> length (ac_agents c) \<and> length (ac_agents c) \<le> 32
       \<and> sorted_wrt (<) (map ae_agent_id (ac_agents c))
       \<and> list_all (entry_ok (ac_target c)) (ac_agents c)
       \<and> (\<exists>bytes. canonical_bytes to_vec c = Inr bytes \<and> digest_hex bytes = ac_catalog_sha256 c)"
proof -
  note facts = validate_catalog_Inr [OF assms]
  have "\<exists>bytes. canonical_bytes to_vec c = Inr bytes \<and> digest_hex bytes = ac_catalog_sha256 c"
    using facts(5) by (auto simp: computed_digest_def result_simps)
  then show ?thesis
    using facts(1-3) validate_entries_Inr [OF facts(4)]
    by (simp add: MAX_CATALOG_AGENTS_def list_all_iff)
qed

text \<open>A catalog of one unavailable agent, sealed with its own digest.\<close>

definition sample_target :: agent_target where
  "sample_target = \<lparr>at_operating_system = ''linux'', at_architecture = ''x86_64'',
     at_libc = ''glibc'', at_libc_version = ''2.39''\<rparr>"

definition sample_catalog :: agent_catalog where
  "sample_catalog =
     \<lparr>ac_runner_instance_id = ''runner-1'', ac_generation = 1, ac_catalog_sha256 = '''',
      ac_target = sample_target,
      ac_agents = [\<lparr>ae_agent_id = ''agent-a'', ae_target = sample_target, ae_package = None,
         ae_provenance = None, ae_capabilities = [''chat''],
         ae_availability = Unavailable PolicyDenied\<rparr>],
      ac_refreshed = False\<rparr>"

definition sealed_catalog :: agent_catalog where
  "sealed_catalog =
     sample_catalog\<lparr>ac_catalog_sha256 := digest_hex []\<rparr>"

lemma sealed_digest:
  "computed_digest (\<lambda>_. Some []) sealed_catalog = Inr (ac_catalog_sha256 sealed_catalog)"
  by (simp add: sealed_catalog_def computed_digest_def canonical_bytes_def Let_def)

lemma sealed_catalog_valid: "validate_catalog (\<lambda>_. Some []) sealed_catalog = Inr sealed_catalog"
proof -
  have "validate_digest (ac_catalog_sha256 sealed_catalog) = Inr ()"
    by (simp add: validate_digest_iff sealed_catalog_def digest_hex_lower)
  moreover have "validate_token (ac_runner_instance_id sealed_catalog) ''runner instance'' = Inr ()"
    "validate_target (ac_target sealed_catalog) = Inr ()"
    "validate_entries (ac_target sealed_catalog) None (ac_agents sealed_catalog) = Inr ()"
    "ac_agents sealed_catalog \<noteq> [] \<and> length (ac_agents sealed_catalog) \<le> MAX_CATALOG_AGENTS"
    by (simp_all add: sealed_catalog_def) code_simp+
  ultimately show ?thesis by (simp add: validate_catalog_def sealed_digest not_less)
qed

theorem validated_catalog_canonical_witness:
  "validate_catalog (\<lambda>_. Some []) sealed_catalog = Inr sealed_catalog
   \<and> list_all (entry_ok (ac_target sealed_catalog)) (ac_agents sealed_catalog)"
  using sealed_catalog_valid validated_catalog_canonical [OF sealed_catalog_valid] by blast

text \<open>
  The digest identifies the content only: it does not depend on the digest field or on
  whether the response refreshed the catalog, a catalog whose stored digest is replaced by
  any other text is rejected, and canonicalisation is idempotent.
\<close>

theorem catalog_digest_identity:
  "computed_digest to_vec (c\<lparr>ac_catalog_sha256 := d, ac_refreshed := b\<rparr>) = computed_digest to_vec c
   \<and> (computed_digest to_vec c \<noteq> Inr d \<longrightarrow>
        \<not> is_ok (validate_catalog to_vec (c\<lparr>ac_catalog_sha256 := d\<rparr>)))
   \<and> canonical_value (canonical_value v) = canonical_value v"
proof -
  have same: "computed_digest to_vec (c\<lparr>ac_catalog_sha256 := d, ac_refreshed := b\<rparr>)
      = computed_digest to_vec c" for b
    by (simp add: computed_digest_def canonical_bytes_cong)
  have d: "computed_digest to_vec (c\<lparr>ac_catalog_sha256 := d\<rparr>) = computed_digest to_vec c"
    using same [of "ac_refreshed c"] by simp
  have "\<not> is_ok (validate_catalog to_vec (c\<lparr>ac_catalog_sha256 := d\<rparr>))"
    if "computed_digest to_vec c \<noteq> Inr d"
  proof
    assume "is_ok (validate_catalog to_vec (c\<lparr>ac_catalog_sha256 := d\<rparr>))"
    then obtain c' where "validate_catalog to_vec (c\<lparr>ac_catalog_sha256 := d\<rparr>) = Inr c'"
      by (auto simp: is_ok_def split: sum.splits)
    then show False using validate_catalog_Inr(5) d that by fastforce
  qed
  with same canonical_value_idem show ?thesis by blast
qed

theorem catalog_digest_identity_witness:
  "computed_digest (\<lambda>_. Some []) sealed_catalog \<noteq> Inr ''tampered''
   \<and> \<not> is_ok (validate_catalog (\<lambda>_. Some []) (sealed_catalog\<lparr>ac_catalog_sha256 := ''tampered''\<rparr>))"
proof -
  have "length (digest_hex []) = 64" using digest_hex_lower by (simp add: lower_hex_def)
  then have "computed_digest (\<lambda>_. Some []) sealed_catalog \<noteq> Inr ''tampered''"
    by (auto simp: computed_digest_def canonical_bytes_def Let_def)
  with catalog_digest_identity [where to_vec = "\<lambda>_. Some []" and c = sealed_catalog
      and d = "''tampered''"] show ?thesis by blast
qed

end
