(* ===== verification/Provider_Catalog.thy ===== *)
theory Provider_Catalog
  imports Agent_Catalog
begin

text \<open>
  Model of \<open>src/provider_catalog.rs\<close>: scopes of agents, the draft of a provider default and its
  resolution against the agent and provider catalogs, the shared defaults and the registry of
  the connected provider. Reading and writing the defaults file and the wizard options are not
  modelled; the function that fetches a catalog is an argument of the refresh.
\<close>

section \<open>Data\<close>

datatype provider_auth_method = CredentialReference | LocalDaemon | NoAuth

datatype provider_availability = ProviderAvailable | ProviderUnavailable string

record provider_model =
  pm_model_id :: string
  pm_revision :: string
  pm_availability :: provider_availability

record provider_catalog_entry =
  pe_provider_id :: string
  pe_display_name :: string
  pe_auth_methods :: "provider_auth_method list"
  pe_models :: "provider_model list"
  pe_availability :: provider_availability

record provider_catalog =
  pv_runner_instance_id :: string
  pv_generation :: u64
  pv_catalog_sha256 :: string
  pv_providers :: "provider_catalog_entry list"
  pv_refreshed :: bool

record configuration_selection =
  sel_agent_ids :: "string list"
  sel_provider_id :: string
  sel_model_id :: string
  sel_auth_method :: provider_auth_method
  sel_credential_reference_sha256 :: "string option"

definition MAX_SCOPED_AGENTS :: nat where "MAX_SCOPED_AGENTS = 64"
definition DEFAULTS_SCHEMA_VERSION :: u32 where "DEFAULTS_SCHEMA_VERSION = 1"

datatype agent_scope = ScopeAll | ScopeSelected "string list"

record provider_default_draft =
  dd_scope :: agent_scope
  dd_provider_id :: string
  dd_model_id :: string
  dd_auth_method :: provider_auth_method
  dd_credential_reference_sha256 :: "string option"

record provider_default_record =
  dr_scope :: agent_scope
  dr_provider_id :: string
  dr_model_id :: string
  dr_auth_method :: provider_auth_method
  dr_credential_reference_sha256 :: "string option"

record shared_provider_defaults =
  sd_schema_version :: u32
  sd_entries :: "provider_default_record list"

text \<open>Only the failures of validation; those of the file system are not modelled.\<close>

datatype provider_defaults_error = DefaultsInvalid string

section \<open>Scopes and drafts\<close>

definition is_safe_id :: "string \<Rightarrow> bool" where
  "is_safe_id s \<longleftrightarrow> s \<noteq> [] \<and> length s \<le> 128 \<and> is_ascii s
     \<and> list_all (\<lambda>b. is_ascii_alphanumeric b \<or> b \<in> {CHR ''-'', CHR ''_'', CHR ''.''}) s"

definition is_safe_model_id :: "string \<Rightarrow> bool" where
  "is_safe_model_id s \<longleftrightarrow> s \<noteq> [] \<and> length s \<le> 128 \<and> is_ascii s
     \<and> list_all (\<lambda>b. is_ascii_alphanumeric b
          \<or> b \<in> {CHR ''-'', CHR ''_'', CHR ''.'', CHR ''/'', CHR '':'', CHR ''@''}) s"

definition scope_selected :: "string list \<Rightarrow> (string, agent_scope) result" where
  "scope_selected agents =
     (let agents = dedup (sort agents) in
      if agents = [] \<or> MAX_SCOPED_AGENTS < length agents
      then Inl ''agent scope must contain between one and 64 agents''
      else if list_ex (\<lambda>i. \<not> is_safe_id i) agents
      then Inl ''agent scope contains an invalid agent id''
      else Inr (ScopeSelected agents))"

definition available_agents :: "agent_catalog \<Rightarrow> string list" where
  "available_agents c =
     map ae_agent_id (filter (\<lambda>e. ae_availability e = Available) (ac_agents c))"

definition scope_resolve :: "agent_scope \<Rightarrow> agent_catalog \<Rightarrow> (string, string list) result" where
  "scope_resolve scope c =
     (let available = available_agents c in
      and_then (case scope of
          ScopeAll \<Rightarrow> Inr available
        | ScopeSelected ids \<Rightarrow>
            if list_ex (\<lambda>i. i \<notin> set available) ids
            then Inl ''agent scope contains an unavailable agent'' else Inr ids) (\<lambda>ids.
      if ids = [] then Inl ''agent scope has no available agents'' else Inr ids))"

definition into_selection :: "provider_default_draft \<Rightarrow> agent_catalog \<Rightarrow> provider_catalog \<Rightarrow>
    (string, configuration_selection) result" where
  "into_selection d agents providers =
     (if dd_provider_id d = [] \<or> dd_model_id d = [] then Inl ''provider and model are required''
      else and_then (ok_or (find (\<lambda>p. pe_provider_id p = dd_provider_id d) (pv_providers providers))
                       ''provider is not present in the current catalog'') (\<lambda>p.
        if pe_availability p \<noteq> ProviderAvailable then Inl ''provider is unavailable''
        else and_then (ok_or (find (\<lambda>m. pm_model_id m = dd_model_id d) (pe_models p))
                         ''model is not present for the selected provider'') (\<lambda>m.
        if pm_availability m \<noteq> ProviderAvailable then Inl ''model is unavailable''
        else if dd_auth_method d \<notin> set (pe_auth_methods p)
        then Inl ''authentication method is not supported by the provider''
        else if (dd_auth_method d = CredentialReference) \<noteq> (dd_credential_reference_sha256 d \<noteq> None)
        then Inl ''credential reference is required only for credential authentication''
        else and_then (scope_resolve (dd_scope d) agents) (\<lambda>ids.
          Inr \<lparr>sel_agent_ids = ids, sel_provider_id = dd_provider_id d,
               sel_model_id = pm_model_id m, sel_auth_method = dd_auth_method d,
               sel_credential_reference_sha256 = dd_credential_reference_sha256 d\<rparr>))))"

definition accept_generation :: "u64 option \<Rightarrow> u64 \<Rightarrow> (string, unit) result" where
  "accept_generation current nxt =
     (if nxt = 0 \<or> (case current of None \<Rightarrow> False | Some v \<Rightarrow> nxt < v)
      then Inl ''provider catalog generation is stale'' else Inr ())"

section \<open>Shared defaults\<close>

definition record_from_draft :: "provider_default_draft \<Rightarrow> provider_default_record" where
  "record_from_draft d = \<lparr>dr_scope = dd_scope d, dr_provider_id = dd_provider_id d,
     dr_model_id = dd_model_id d, dr_auth_method = dd_auth_method d,
     dr_credential_reference_sha256 = dd_credential_reference_sha256 d\<rparr>"

definition hex_digest :: "string \<Rightarrow> bool" where
  "hex_digest s \<longleftrightarrow> length s = 64 \<and> list_all is_ascii_hexdigit s"

definition record_validate :: "provider_default_record \<Rightarrow> (provider_defaults_error, unit) result" where
  "record_validate r =
     (if \<not> is_safe_id (dr_provider_id r) \<or> \<not> is_safe_model_id (dr_model_id r)
      then Inl (DefaultsInvalid ''provider/model id is invalid'')
      else and_then (case dr_scope r of
          ScopeAll \<Rightarrow> Inr ()
        | ScopeSelected ids \<Rightarrow>
            and_then (map_err DefaultsInvalid (scope_selected ids)) (\<lambda>_. Inr ())) (\<lambda>_.
        if (dr_auth_method r = CredentialReference) \<noteq> (dr_credential_reference_sha256 r \<noteq> None)
        then Inl (DefaultsInvalid ''credential reference does not match authentication'')
        else if (case dr_credential_reference_sha256 r of None \<Rightarrow> False | Some d \<Rightarrow> \<not> hex_digest d)
        then Inl (DefaultsInvalid ''credential reference must be a SHA-256 digest'')
        else Inr ()))"

definition defaults_default :: shared_provider_defaults where
  "defaults_default = \<lparr>sd_schema_version = DEFAULTS_SCHEMA_VERSION, sd_entries = []\<rparr>"

definition defaults_validate :: "shared_provider_defaults \<Rightarrow> (provider_defaults_error, unit) result" where
  "defaults_validate d =
     (if sd_schema_version d \<noteq> DEFAULTS_SCHEMA_VERSION \<or> 64 < length (sd_entries d)
      then Inl (DefaultsInvalid ''unsupported or oversized defaults'')
      else check_all record_validate (sd_entries d))"

definition defaults_apply :: "provider_default_draft \<Rightarrow> agent_catalog \<Rightarrow> provider_catalog \<Rightarrow>
    (shared_provider_defaults, provider_defaults_error, configuration_selection) call" where
  "defaults_apply draft agents providers d =
     (case map_err DefaultsInvalid (into_selection draft agents providers) of
        Inl e \<Rightarrow> (Inl e, d)
      | Inr selection \<Rightarrow>
          let record = record_from_draft draft in
          (case record_validate record of
             Inl e \<Rightarrow> (Inl e, d)
           | Inr _ \<Rightarrow> (Inr selection, d\<lparr>sd_entries :=
               filter (\<lambda>old. dr_scope old \<noteq> dr_scope record) (sd_entries d) @ [record]\<rparr>)))"

definition defaults_rollback :: "shared_provider_defaults \<Rightarrow>
    (shared_provider_defaults, provider_defaults_error, unit) call" where
  "defaults_rollback previous d = (case defaults_validate previous of
       Inl e \<Rightarrow> (Inl e, d)
     | Inr _ \<Rightarrow> (Inr (), previous))"

definition scope_covers :: "agent_scope \<Rightarrow> string \<Rightarrow> bool" where
  "scope_covers scope a = (case scope of ScopeAll \<Rightarrow> True | ScopeSelected ids \<Rightarrow> a \<in> set ids)"

definition for_agent :: "shared_provider_defaults \<Rightarrow> string \<Rightarrow> provider_default_record option" where
  "for_agent d a = find (\<lambda>e. scope_covers (dr_scope e) a) (rev (sd_entries d))"

definition defaults_summary :: "shared_provider_defaults \<Rightarrow> string" where
  "defaults_summary d = show_nat (length (sd_entries d)) @ '' provider default''
     @ (if length (sd_entries d) = 1 then '''' else ''s'')"

section \<open>The connected provider\<close>

record provider_profile =
  pf_provider_id :: string
  pf_display_name :: string
  pf_auth_method :: provider_auth_method
  pf_credential_reference_sha256 :: "string option"

definition profile_validate :: "provider_profile \<Rightarrow> (string, unit) result" where
  "profile_validate p =
     (if \<not> is_safe_id (pf_provider_id p) \<or> trim (pf_display_name p) = []
      then Inl ''provider profile identity is invalid''
      else if (pf_auth_method p = CredentialReference) \<noteq> (pf_credential_reference_sha256 p \<noteq> None)
      then Inl ''credential reference does not match authentication''
      else if (case pf_credential_reference_sha256 p of None \<Rightarrow> False | Some d \<Rightarrow> \<not> hex_digest d)
      then Inl ''credential reference must be a SHA-256 digest''
      else Inr ())"

datatype provider_refresh_error =
  RefreshInvalid string | RefreshUnavailable string | RefreshCancelled

record connected_provider_registry =
  cr_committed_profile :: "provider_profile option"
  cr_draft_profile :: "provider_profile option"
  cr_catalog :: "provider_catalog option"

definition registry_new :: "provider_catalog option \<Rightarrow> provider_profile option \<Rightarrow>
    (string, connected_provider_registry) result" where
  "registry_new catalog profile =
     and_then (case profile of None \<Rightarrow> Inr () | Some p \<Rightarrow> profile_validate p) (\<lambda>_.
       Inr \<lparr>cr_committed_profile = profile, cr_draft_profile = None, cr_catalog = catalog\<rparr>)"

definition registry_begin_add :: "provider_profile \<Rightarrow>
    (connected_provider_registry, provider_refresh_error, unit) call" where
  "registry_begin_add p r = (case map_err RefreshInvalid (profile_validate p) of
       Inl e \<Rightarrow> (Inl e, r)
     | Inr _ \<Rightarrow> (Inr (), r\<lparr>cr_draft_profile := Some p\<rparr>))"

definition registry_begin_edit :: "(connected_provider_registry, provider_refresh_error, unit) call" where
  "registry_begin_edit r =
     (let r = r\<lparr>cr_draft_profile := cr_committed_profile r\<rparr> in
      (and_then (ok_or (cr_draft_profile r) RefreshCancelled) (\<lambda>_. Inr ()), r))"

definition registry_cancel :: "connected_provider_registry \<Rightarrow> connected_provider_registry" where
  "registry_cancel r = r\<lparr>cr_draft_profile := None\<rparr>"

definition registry_refresh :: "(provider_profile \<Rightarrow> (string, provider_catalog) result) \<Rightarrow>
    (connected_provider_registry, provider_refresh_error, provider_catalog) call" where
  "registry_refresh fetch r = (case cr_draft_profile r of
       None \<Rightarrow> (Inl RefreshCancelled, r)
     | Some profile \<Rightarrow>
         (case map_err (\<lambda>_. RefreshUnavailable ''refresh failed; details redacted'') (fetch profile) of
            Inl e \<Rightarrow> (Inl e, r)
          | Inr nxt \<Rightarrow>
              if pv_generation nxt = 0
                 \<or> list_all (\<lambda>p. pe_provider_id p \<noteq> pf_provider_id profile) (pv_providers nxt)
              then (Inl (RefreshUnavailable ''provider is absent from catalog''), r)
              else (Inr nxt, r\<lparr>cr_catalog := Some nxt, cr_committed_profile := Some profile,
                              cr_draft_profile := None\<rparr>)))"

definition registry_available_models :: "connected_provider_registry \<Rightarrow> provider_model list" where
  "registry_available_models r = (case cr_committed_profile r of
       None \<Rightarrow> []
     | Some profile \<Rightarrow>
         concat (map (\<lambda>p. filter (\<lambda>m. pm_availability m = ProviderAvailable) (pe_models p))
           (filter (\<lambda>p. pe_provider_id p = pf_provider_id profile \<and> pe_availability p = ProviderAvailable)
             (case cr_catalog r of None \<Rightarrow> [] | Some c \<Rightarrow> pv_providers c))))"

record provider_registry_diagnostic =
  di_provider_id :: "string option"
  di_status :: string
  di_model_count :: nat

definition registry_diagnostic :: "connected_provider_registry \<Rightarrow> provider_registry_diagnostic" where
  "registry_diagnostic r =
     (let (provider_id, status) = (case (cr_committed_profile r, cr_catalog r) of
          (Some profile, Some c) \<Rightarrow>
            (Some (pf_provider_id profile),
             (case find (\<lambda>p. pe_provider_id p = pf_provider_id profile) (pv_providers c) of
                None \<Rightarrow> ''unavailable''
              | Some p \<Rightarrow> if pe_availability p = ProviderAvailable then ''connected'' else ''unavailable''))
        | (Some profile, None) \<Rightarrow> (Some (pf_provider_id profile), ''unavailable'')
        | _ \<Rightarrow> (None, ''not_configured''))
      in \<lparr>di_provider_id = provider_id, di_status = status,
          di_model_count = length (registry_available_models r)\<rparr>)"

section \<open>Lemmas\<close>

lemma scope_selected_Inr:
  "scope_selected agents = Inr s \<longleftrightarrow>
     s = ScopeSelected (dedup (sort agents)) \<and> agents \<noteq> []
     \<and> length (dedup (sort agents)) \<le> MAX_SCOPED_AGENTS \<and> list_all is_safe_id agents"
proof -
  have "dedup (sort agents) = [] \<longleftrightarrow> agents = []" by (simp add: sort_eq_Nil_iff)
  moreover have "\<not> list_ex (\<lambda>i. \<not> is_safe_id i) (dedup (sort agents)) \<longleftrightarrow> list_all is_safe_id agents"
    by (auto simp: list_ex_iff list_all_iff)
  ultimately show ?thesis by (auto simp: scope_selected_def Let_def not_less)
qed

lemma scope_resolve_Inr:
  assumes "scope_resolve scope c = Inr ids"
  shows "ids \<noteq> []" "set ids \<subseteq> set (available_agents c)" "\<forall>a \<in> set ids. scope_covers scope a"
  using assms
  by (auto simp: scope_resolve_def Let_def result_simps scope_covers_def list_ex_iff
      split: agent_scope.split_asm if_splits)

lemma into_selection_Inr:
  assumes "into_selection d agents providers = Inr s"
  obtains p m where "p \<in> set (pv_providers providers)" "pe_provider_id p = dd_provider_id d"
    "pe_availability p = ProviderAvailable" "m \<in> set (pe_models p)" "pm_model_id m = dd_model_id d"
    "pm_availability m = ProviderAvailable" "dd_auth_method d \<in> set (pe_auth_methods p)"
    "(dd_auth_method d = CredentialReference) = (dd_credential_reference_sha256 d \<noteq> None)"
    "scope_resolve (dd_scope d) agents = Inr (sel_agent_ids s)"
    "s = \<lparr>sel_agent_ids = sel_agent_ids s, sel_provider_id = dd_provider_id d,
          sel_model_id = dd_model_id d, sel_auth_method = dd_auth_method d,
          sel_credential_reference_sha256 = dd_credential_reference_sha256 d\<rparr>"
  using assms
  by (auto simp: into_selection_def result_simps dest!: find_Some_in split: if_splits)

lemma defaults_apply_Inr:
  assumes "defaults_apply draft agents providers d = (Inr s, d')"
  shows "into_selection draft agents providers = Inr s"
    "record_validate (record_from_draft draft) = Inr ()"
    "d' = d\<lparr>sd_entries := filter (\<lambda>old. dr_scope old \<noteq> dd_scope draft) (sd_entries d)
               @ [record_from_draft draft]\<rparr>"
  using assms
  by (auto simp: defaults_apply_def Let_def record_from_draft_def map_err_def split: sum.splits)

definition entries_ok :: "shared_provider_defaults \<Rightarrow> bool" where
  "entries_ok d \<longleftrightarrow> sd_schema_version d = DEFAULTS_SCHEMA_VERSION
     \<and> distinct (map dr_scope (sd_entries d)) \<and> (\<forall>r \<in> set (sd_entries d). record_validate r = Inr ())"

lemma entries_ok_apply:
  "entries_ok d \<Longrightarrow> defaults_apply draft agents providers d = (r, d') \<Longrightarrow> entries_ok d'"
proof (cases r)
  case (Inl e)
  assume "entries_ok d" "defaults_apply draft agents providers d = (r, d')"
  with Inl show ?thesis by (auto simp: defaults_apply_def Let_def split: sum.splits)
next
  case (Inr s)
  assume ok: "entries_ok d" and "defaults_apply draft agents providers d = (r, d')"
  with Inr defaults_apply_Inr show ?thesis
    by (fastforce simp: entries_ok_def distinct_map_filter record_from_draft_def)
qed

lemma find_filter: "(\<And>x. x \<in> set xs \<Longrightarrow> P x \<Longrightarrow> Q x) \<Longrightarrow> find P (filter Q xs) = find P xs"
  by (induction xs) auto

section \<open>Properties\<close>

text \<open>
  A draft is resolved only against what the catalogs offer: the provider and the model are
  available, the authentication method is supported, a credential digest is present exactly for
  credential authentication, and the agents are a non-empty subset of the available ones that
  the draft's scope covers.
\<close>

theorem selection_supported_by_catalogs:
  assumes "into_selection d agents providers = Inr s"
  shows "(\<exists>p \<in> set (pv_providers providers). \<exists>m \<in> set (pe_models p).
            pe_provider_id p = sel_provider_id s \<and> pe_availability p = ProviderAvailable
            \<and> pm_model_id m = sel_model_id s \<and> pm_availability m = ProviderAvailable
            \<and> sel_auth_method s \<in> set (pe_auth_methods p))
       \<and> (sel_auth_method s = CredentialReference \<longleftrightarrow> sel_credential_reference_sha256 s \<noteq> None)
       \<and> sel_agent_ids s \<noteq> [] \<and> set (sel_agent_ids s) \<subseteq> set (available_agents agents)
       \<and> (\<forall>a \<in> set (sel_agent_ids s). scope_covers (dd_scope d) a)"
proof -
  obtain p m where p: "p \<in> set (pv_providers providers)" "pe_provider_id p = dd_provider_id d"
      "pe_availability p = ProviderAvailable"
    and m: "m \<in> set (pe_models p)" "pm_model_id m = dd_model_id d"
      "pm_availability m = ProviderAvailable" "dd_auth_method d \<in> set (pe_auth_methods p)"
    and auth: "(dd_auth_method d = CredentialReference) = (dd_credential_reference_sha256 d \<noteq> None)"
    and agents: "scope_resolve (dd_scope d) agents = Inr (sel_agent_ids s)"
    and s: "s = \<lparr>sel_agent_ids = sel_agent_ids s, sel_provider_id = dd_provider_id d,
          sel_model_id = dd_model_id d, sel_auth_method = dd_auth_method d,
          sel_credential_reference_sha256 = dd_credential_reference_sha256 d\<rparr>"
    using into_selection_Inr [OF assms] by metis
  have sel: "sel_provider_id s = dd_provider_id d" "sel_model_id s = dd_model_id d"
    "sel_auth_method s = dd_auth_method d"
    "sel_credential_reference_sha256 s = dd_credential_reference_sha256 d"
    by (subst s, simp)+
  show ?thesis using p m auth scope_resolve_Inr [OF agents] by (auto simp: sel)
qed

definition sample_agents :: agent_catalog where
  "sample_agents = sample_catalog\<lparr>ac_agents := [(hd (ac_agents sample_catalog))\<lparr>ae_availability := Available\<rparr>]\<rparr>"

definition sample_providers :: provider_catalog where
  "sample_providers = \<lparr>pv_runner_instance_id = ''r'', pv_generation = 1, pv_catalog_sha256 = ''s'',
     pv_providers = [\<lparr>pe_provider_id = ''p'', pe_display_name = ''P'', pe_auth_methods = [NoAuth],
        pe_models = [\<lparr>pm_model_id = ''m'', pm_revision = ''1'', pm_availability = ProviderAvailable\<rparr>],
        pe_availability = ProviderAvailable\<rparr>], pv_refreshed = False\<rparr>"

definition sample_draft :: provider_default_draft where
  "sample_draft = \<lparr>dd_scope = ScopeAll, dd_provider_id = ''p'', dd_model_id = ''m'',
     dd_auth_method = NoAuth, dd_credential_reference_sha256 = None\<rparr>"

definition resolved_draft :: configuration_selection where
  "resolved_draft = \<lparr>sel_agent_ids = [''agent-a''], sel_provider_id = ''p'', sel_model_id = ''m'',
     sel_auth_method = NoAuth, sel_credential_reference_sha256 = None\<rparr>"

lemma sample_draft_resolves: "into_selection sample_draft sample_agents sample_providers = Inr resolved_draft"
  by code_simp

theorem selection_supported_by_catalogs_witness:
  "into_selection sample_draft sample_agents sample_providers = Inr resolved_draft
   \<and> set (sel_agent_ids resolved_draft) \<subseteq> set (available_agents sample_agents)"
  using sample_draft_resolves selection_supported_by_catalogs [OF sample_draft_resolves] by blast

text \<open>
  Applying a draft makes it the default of every agent it resolves to, and changes the
  default of no agent outside its scope; the entries keep distinct scopes and stay valid, and
  a refused draft changes nothing.
\<close>

theorem applied_default_takes_effect:
  assumes "entries_ok d" and "defaults_apply draft agents providers d = (r, d')"
  shows "entries_ok d'
       \<and> (\<forall>s. r = Inr s \<longrightarrow>
            (\<forall>a \<in> set (sel_agent_ids s). for_agent d' a = Some (record_from_draft draft))
            \<and> (\<forall>a. \<not> scope_covers (dd_scope draft) a \<longrightarrow> for_agent d' a = for_agent d a))
       \<and> (\<forall>e. r = Inl e \<longrightarrow> d' = d)"
proof -
  have "for_agent d' a = Some (record_from_draft draft)"
    if "r = Inr s" "a \<in> set (sel_agent_ids s)" for s a
  proof -
    have applied: "defaults_apply draft agents providers d = (Inr s, d')" using that assms(2) by simp
    note facts = defaults_apply_Inr [OF applied]
    obtain "scope_resolve (dd_scope draft) agents = Inr (sel_agent_ids s)"
      using into_selection_Inr [OF facts(1)] by metis
    then have "scope_covers (dd_scope draft) a" using scope_resolve_Inr(3) that(2) by blast
    then show ?thesis by (simp add: for_agent_def facts(3) record_from_draft_def)
  qed
  moreover have "for_agent d' a = for_agent d a"
    if "r = Inr s" "\<not> scope_covers (dd_scope draft) a" for s a
  proof -
    have applied: "defaults_apply draft agents providers d = (Inr s, d')" using that assms(2) by simp
    have "find (\<lambda>e. scope_covers (dr_scope e) a) (filter (\<lambda>e. dr_scope e \<noteq> dd_scope draft) (rev (sd_entries d)))
        = find (\<lambda>e. scope_covers (dr_scope e) a) (rev (sd_entries d))"
      using that(2) by (intro find_filter) auto
    then show ?thesis
      using that(2) by (simp add: for_agent_def defaults_apply_Inr(3) [OF applied] record_from_draft_def rev_filter)
  qed
  moreover have "d' = d" if "r = Inl e" for e
    using that assms(2) by (auto simp: defaults_apply_def Let_def split: sum.splits)
  ultimately show ?thesis using entries_ok_apply [OF assms] by blast
qed

theorem applied_default_takes_effect_witness:
  "for_agent (snd (defaults_apply sample_draft sample_agents sample_providers defaults_default)) ''agent-a''
     = Some (record_from_draft sample_draft)"
proof -
  have ok: "entries_ok defaults_default" by (simp add: entries_ok_def defaults_default_def)
  have app: "defaults_apply sample_draft sample_agents sample_providers defaults_default
      = (Inr resolved_draft, snd (defaults_apply sample_draft sample_agents sample_providers defaults_default))"
    by code_simp
  have "''agent-a'' \<in> set (sel_agent_ids resolved_draft)" by (simp add: resolved_draft_def)
  with applied_default_takes_effect [OF ok app] show ?thesis by blast
qed

text \<open>
  Applying does not respect the limit on entries. On valid defaults that hold 64 scopes, a
  draft for another scope is accepted and leaves defaults that their own validation refuses, so
  they can no longer be saved, loaded or rolled back to.
\<close>

theorem defaults_outgrow_their_limit:
  assumes "length (sd_entries d) = 64" and "dd_scope draft \<notin> dr_scope ` set (sd_entries d)"
    and "defaults_apply draft agents providers d = (Inr s, d')"
  shows "defaults_validate d' = Inl (DefaultsInvalid ''unsupported or oversized defaults'')
       \<and> fst (defaults_rollback d' d) = Inl (DefaultsInvalid ''unsupported or oversized defaults'')"
proof -
  have "filter (\<lambda>old. dr_scope old \<noteq> dd_scope draft) (sd_entries d) = sd_entries d"
    using assms(2) by (intro filter_True) (force simp: image_iff)
  then have "length (sd_entries d') = 65"
    using defaults_apply_Inr(3) [OF assms(3)] assms(1) by simp
  then show ?thesis by (simp add: defaults_validate_def defaults_rollback_def)
qed

definition full_defaults :: shared_provider_defaults where
  "full_defaults = \<lparr>sd_schema_version = DEFAULTS_SCHEMA_VERSION,
     sd_entries = map (\<lambda>n. (record_from_draft sample_draft)\<lparr>dr_scope := ScopeSelected [replicate (Suc n) CHR ''a'']\<rparr>) [0..<64]\<rparr>"

theorem defaults_outgrow_their_limit_witness:
  "is_ok (defaults_validate full_defaults)
   \<and> is_ok (fst (defaults_apply sample_draft sample_agents sample_providers full_defaults))
   \<and> \<not> is_ok (defaults_validate (snd (defaults_apply sample_draft sample_agents sample_providers full_defaults)))"
proof -
  have len: "length (sd_entries full_defaults) = 64" by (simp add: full_defaults_def)
  have new: "dd_scope sample_draft \<notin> dr_scope ` set (sd_entries full_defaults)"
    by (auto simp: full_defaults_def sample_draft_def)
  have app: "defaults_apply sample_draft sample_agents sample_providers full_defaults
      = (Inr resolved_draft, snd (defaults_apply sample_draft sample_agents sample_providers full_defaults))"
  proof -
    have "record_validate (record_from_draft sample_draft) = Inr ()" by code_simp
    then show ?thesis by (simp add: defaults_apply_def sample_draft_resolves Let_def)
  qed
  have "record_validate ((record_from_draft sample_draft)\<lparr>dr_scope := ScopeSelected [replicate (Suc n) CHR ''a'']\<rparr>)
      = Inr ()" if "n < 64" for n
  proof -
    have "is_safe_id (replicate (Suc n) CHR ''a'')"
      using that by (simp add: is_safe_id_def is_ascii_def is_ascii_alphanumeric_def is_ascii_lowercase_def
          del: replicate_Suc)
    then have "scope_selected [replicate (Suc n) CHR ''a''] = Inr (ScopeSelected [replicate (Suc n) CHR ''a''])"
      by (simp add: scope_selected_Inr MAX_SCOPED_AGENTS_def del: replicate_Suc)
    moreover have "is_safe_id ''p''" "is_safe_model_id ''m''" by code_simp+
    ultimately show ?thesis
      by (simp add: record_validate_def record_from_draft_def sample_draft_def del: replicate_Suc)
  qed
  then have "check_all record_validate (sd_entries full_defaults) = Inr ()"
    by (simp add: check_all_Inr_iff full_defaults_def del: replicate_Suc)
  then have "is_ok (defaults_validate full_defaults)"
    using len by (simp add: defaults_validate_def full_defaults_def)
  with app defaults_outgrow_their_limit [OF len new app] show ?thesis
    by (metis fst_conv is_ok_simps)
qed

text \<open>
  A refresh commits the draft only with a catalog that lists its provider, a failed one
  changes nothing, and its error does not depend on what the adapter reported.
\<close>

theorem refresh_commits_or_keeps:
  assumes "registry_refresh fetch r = (res, r')"
  shows "(\<forall>c. res = Inr c \<longrightarrow> cr_committed_profile r' = cr_draft_profile r \<and> cr_draft_profile r' = None
            \<and> cr_catalog r' = Some c \<and> pv_generation c \<noteq> 0
            \<and> (\<exists>profile. cr_draft_profile r = Some profile \<and> fetch profile = Inr c
                 \<and> pf_provider_id profile \<in> pe_provider_id ` set (pv_providers c)))
       \<and> (\<forall>e. res = Inl e \<longrightarrow> r' = r)
       \<and> registry_refresh (\<lambda>_. Inl secret) r = registry_refresh (\<lambda>_. Inl other) r"
proof (cases "cr_draft_profile r")
  case None
  then show ?thesis using assms by (auto simp: registry_refresh_def)
next
  case (Some profile)
  have listed: "list_all (\<lambda>p. pe_provider_id p \<noteq> pf_provider_id profile) ps
      \<longleftrightarrow> pf_provider_id profile \<notin> pe_provider_id ` set ps" for ps
    by (force simp: list_all_iff)
  from Some show ?thesis
    using assms by (cases "fetch profile") (auto simp: registry_refresh_def listed split: if_splits)
qed

definition sample_profile :: provider_profile where
  "sample_profile = \<lparr>pf_provider_id = ''p'', pf_display_name = ''P'', pf_auth_method = NoAuth,
     pf_credential_reference_sha256 = None\<rparr>"

definition sample_registry :: connected_provider_registry where
  "sample_registry = \<lparr>cr_committed_profile = None, cr_draft_profile = Some sample_profile, cr_catalog = None\<rparr>"

theorem refresh_commits_or_keeps_witness:
  "cr_committed_profile (snd (registry_refresh (\<lambda>_. Inr sample_providers) sample_registry)) = Some sample_profile"
proof -
  have "registry_refresh (\<lambda>_. Inr sample_providers) sample_registry
      = (Inr sample_providers, snd (registry_refresh (\<lambda>_. Inr sample_providers) sample_registry))"
    by (simp add: registry_refresh_def sample_registry_def sample_profile_def sample_providers_def)
  from refresh_commits_or_keeps [OF this] show ?thesis by (simp add: sample_registry_def)
qed

end
