(* ===== verification/Adapter_Catalog.thy ===== *)
theory Adapter_Catalog
  imports Provider_Catalog "HOL-Library.Product_Lexorder"
begin

text \<open>
  Model of \<open>src/adapter_catalog.rs\<close>: the records of coding-agent adapters, the catalog built from
  them or from an authenticated provider catalog, the selection session with its draft and
  committed choice, and the compatibility matrix. Ordered maps are the sorted lists of
  \<open>Ordered_Map\<close>; an ordered set is its sorted list of elements. The development catalog is
  built with \<open>expect\<close>: its \<open>Inl\<close> stands for the panic, and \<open>development_catalog_names\<close> shows
  that it does not happen.
\<close>

section \<open>Adapters\<close>

definition MAX_ADAPTER_ITEMS :: nat where "MAX_ADAPTER_ITEMS = 32"

datatype auth_method = AuthNone | AuthLocalDaemon | AuthCredentialReference

text \<open>The derived order of the enumeration: the order of its constructors.\<close>

definition auth_rank :: "auth_method \<Rightarrow> nat" where
  "auth_rank a = (case a of AuthNone \<Rightarrow> 0 | AuthLocalDaemon \<Rightarrow> 1 | AuthCredentialReference \<Rightarrow> 2)"

lemma auth_rank_inj: "auth_rank a = auth_rank b \<longleftrightarrow> a = b"
  by (cases a; cases b) (simp_all add: auth_rank_def)

instantiation auth_method :: linorder
begin

definition less_eq_auth_method :: "auth_method \<Rightarrow> auth_method \<Rightarrow> bool" where
  "less_eq_auth_method a b \<longleftrightarrow> auth_rank a \<le> auth_rank b"

definition less_auth_method :: "auth_method \<Rightarrow> auth_method \<Rightarrow> bool" where
  "less_auth_method a b \<longleftrightarrow> auth_rank a < auth_rank b"

instance
  by standard (auto simp: less_eq_auth_method_def less_auth_method_def auth_rank_inj)

end

record adapter_record =
  ar_id :: string
  ar_label :: string
  ar_providers :: "(string \<times> string list) list"
  ar_auth_methods :: "auth_method list"

record adapter_option =
  ao_id :: string
  ao_label :: string
  ao_available :: bool
  ao_reason :: "string option"

record compatibility_options =
  co_adapter_id :: string
  co_provider_id :: "string option"
  co_providers :: "adapter_option list"
  co_models :: "adapter_option list"
  co_auth_methods :: "adapter_option list"

record matrix_case =
  mc_adapter_id :: string
  mc_provider_id :: string
  mc_model_id :: string
  mc_supported :: bool
  mc_reason :: "string option"

definition adapter_new :: "string \<Rightarrow> string \<Rightarrow> adapter_record" where
  "adapter_new i label = \<lparr>ar_id = i, ar_label = label, ar_providers = [], ar_auth_methods = []\<rparr>"

definition with_provider :: "string \<Rightarrow> string list \<Rightarrow> adapter_record \<Rightarrow> adapter_record" where
  "with_provider i models r = r\<lparr>ar_providers := om_insert i (sort (remdups models)) (ar_providers r)\<rparr>"

definition with_auth :: "auth_method \<Rightarrow> adapter_record \<Rightarrow> adapter_record" where
  "with_auth a r = r\<lparr>ar_auth_methods := insort_insert a (ar_auth_methods r)\<rparr>"

definition valid_adapter_id :: "string \<Rightarrow> bool" where
  "valid_adapter_id s \<longleftrightarrow> s \<noteq> [] \<and> length s \<le> 128
     \<and> list_all (\<lambda>b. is_ascii_alphanumeric b \<or> b \<in> {CHR ''.'', CHR ''_'', CHR ''/'', CHR ''-''}) s"

definition adapter_valid :: "adapter_record \<Rightarrow> bool" where
  "adapter_valid r \<longleftrightarrow> valid_adapter_id (ar_id r) \<and> trim (ar_label r) \<noteq> [] \<and> length (ar_label r) \<le> 128
     \<and> ar_providers r \<noteq> [] \<and> length (ar_providers r) \<le> MAX_ADAPTER_ITEMS
     \<and> list_all valid_adapter_id (map fst (ar_providers r))
     \<and> list_all (\<lambda>models. models \<noteq> [] \<and> length models \<le> MAX_ADAPTER_ITEMS
          \<and> list_all valid_adapter_id models) (map snd (ar_providers r))
     \<and> ar_auth_methods r \<noteq> []"

section \<open>The catalog\<close>

record adapter_catalog =
  ad_records :: "(string \<times> adapter_record) list"
  ad_unavailable_providers :: "(string \<times> string) list"
  ad_unavailable_models :: "((string \<times> string) \<times> string) list"

definition adapter_catalog_new :: "adapter_record list \<Rightarrow> (string, adapter_catalog) result" where
  "adapter_catalog_new rs =
     (let records = om_collect (map (\<lambda>r. (ar_id r, r)) rs) in
      if records = [] \<or> MAX_ADAPTER_ITEMS < length records
         \<or> list_ex (\<lambda>r. \<not> adapter_valid r) (map snd records)
      then Inl ''invalid adapter catalog''
      else Inr \<lparr>ad_records = records, ad_unavailable_providers = [], ad_unavailable_models = []\<rparr>)"

definition adapter_options :: "adapter_catalog \<Rightarrow> adapter_option list" where
  "adapter_options c = map (\<lambda>(_, r). \<lparr>ao_id = ar_id r, ao_label = ar_label r, ao_available = True,
     ao_reason = None\<rparr>) (ad_records c)"

definition development_catalog :: "(string, adapter_catalog) result" where
  "development_catalog = adapter_catalog_new
     [with_auth AuthNone (with_auth AuthCredentialReference
        (with_provider ''openrouter'' [''openai/gpt-4o'']
        (with_provider ''openai'' [''gpt-4o'', ''fixture-model''] (adapter_new ''opencode'' ''OpenCode'')))),
      with_auth AuthNone (with_auth AuthLocalDaemon
        (with_provider ''local'' [''fixture-model'']
        (with_provider ''openai'' [''gpt-4o'', ''fixture-model''] (adapter_new ''opendesk'' ''OpenDesk''))))]"

definition provider_auth :: "provider_auth_method \<Rightarrow> auth_method" where
  "provider_auth a = (case a of CredentialReference \<Rightarrow> AuthCredentialReference
     | LocalDaemon \<Rightarrow> AuthLocalDaemon | NoAuth \<Rightarrow> AuthNone)"

text \<open>The three values the loop over the providers of an authenticated catalog builds.\<close>

record adapter_view =
  av_record :: adapter_record
  av_providers :: "(string \<times> string) list"
  av_models :: "((string \<times> string) \<times> string) list"

definition note_unavailable :: "'k::linorder \<Rightarrow> provider_availability \<Rightarrow> ('k \<times> string) list \<Rightarrow> ('k \<times> string) list" where
  "note_unavailable k a m = (case a of ProviderAvailable \<Rightarrow> m | ProviderUnavailable reason \<Rightarrow> om_insert k reason m)"

definition view_provider :: "adapter_view \<Rightarrow> provider_catalog_entry \<Rightarrow> adapter_view" where
  "view_provider v p =
     \<lparr>av_record = foldl (\<lambda>r a. with_auth (provider_auth a) r)
        (with_provider (pe_provider_id p) (map pm_model_id (pe_models p)) (av_record v)) (pe_auth_methods p),
      av_providers = note_unavailable (pe_provider_id p) (pe_availability p) (av_providers v),
      av_models = foldl (\<lambda>ms m. note_unavailable (pe_provider_id p, pm_model_id m) (pm_availability m) ms)
        (av_models v) (pe_models p)\<rparr>"

definition from_provider_catalog :: "provider_catalog \<Rightarrow> (string, adapter_catalog) result" where
  "from_provider_catalog pc =
     (let v = foldl view_provider
          \<lparr>av_record = adapter_new ''opencode'' ''OpenCode'', av_providers = [], av_models = []\<rparr> (pv_providers pc);
          opendesk = (av_record v)\<lparr>ar_id := ''opendesk'', ar_label := ''OpenDesk''\<rparr>
      in and_then (adapter_catalog_new [av_record v, opendesk]) (\<lambda>c.
           Inr (c\<lparr>ad_unavailable_providers := av_providers v, ad_unavailable_models := av_models v\<rparr>)))"

section \<open>Selections\<close>

record adapter_selection =
  as_adapter_id :: string
  as_provider_id :: string
  as_model_id :: string
  as_auth :: auth_method

datatype selection_error =
  UnknownAdapter | UnknownProvider | UnavailableProvider string | UnknownModel
| UnavailableModel string | UnsupportedAuth | InvalidAdapterSelection

definition auth_label :: "auth_method \<Rightarrow> string" where
  "auth_label a = (case a of AuthNone \<Rightarrow> ''none'' | AuthLocalDaemon \<Rightarrow> ''local_daemon''
     | AuthCredentialReference \<Rightarrow> ''credential_reference'')"

definition validate_selection :: "adapter_catalog \<Rightarrow> adapter_selection \<Rightarrow> (selection_error, unit) result" where
  "validate_selection c s =
     and_then (ok_or (om_get (ad_records c) (as_adapter_id s)) UnknownAdapter) (\<lambda>r.
     and_then (ok_or (om_get (ar_providers r) (as_provider_id s)) UnknownProvider) (\<lambda>models.
       case om_get (ad_unavailable_providers c) (as_provider_id s) of
         Some reason \<Rightarrow> Inl (UnavailableProvider reason)
       | None \<Rightarrow>
           case om_get (ad_unavailable_models c) (as_provider_id s, as_model_id s) of
             Some reason \<Rightarrow> Inl (UnavailableModel reason)
           | None \<Rightarrow>
               if as_model_id s \<notin> set models then Inl UnknownModel
               else if as_auth s \<notin> set (ar_auth_methods r) then Inl UnsupportedAuth
               else Inr ()))"

definition compatibility_options_for :: "adapter_catalog \<Rightarrow> string \<Rightarrow> string option \<Rightarrow>
    (selection_error, compatibility_options) result" where
  "compatibility_options_for c adapter_id provider_id =
     and_then (ok_or (om_get (ad_records c) adapter_id) UnknownAdapter) (\<lambda>r.
       let providers = map (\<lambda>(i, _). let reason = om_get (ad_unavailable_providers c) i in
             \<lparr>ao_id = i, ao_label = i, ao_available = (reason = None), ao_reason = reason\<rparr>) (ar_providers r);
           offered = filter (\<lambda>(i, _). case provider_id of None \<Rightarrow> True | Some p \<Rightarrow> p = i) (ar_providers r);
           models = map (\<lambda>(p, i).
             let reason = (case om_get (ad_unavailable_models c) (p, i) of Some x \<Rightarrow> Some x
                   | None \<Rightarrow> om_get (ad_unavailable_providers c) p) in
             \<lparr>ao_id = i, ao_label = i, ao_available = (reason = None), ao_reason = reason\<rparr>)
             (concat (map (\<lambda>(p, models). map (\<lambda>m. (p, m)) models) offered));
           auths = map (\<lambda>a. \<lparr>ao_id = auth_label a, ao_label = auth_label a, ao_available = True,
             ao_reason = None\<rparr>) (ar_auth_methods r)
       in Inr \<lparr>co_adapter_id = adapter_id, co_provider_id = provider_id, co_providers = providers,
            co_models = models, co_auth_methods = auths\<rparr>)"

record selection_session =
  ss_catalog :: adapter_catalog
  ss_committed :: "adapter_selection option"
  ss_draft :: "adapter_selection option"

definition session_new :: "adapter_catalog \<Rightarrow> selection_session" where
  "session_new c = \<lparr>ss_catalog = c, ss_committed = None, ss_draft = None\<rparr>"

definition session_begin :: "selection_session \<Rightarrow> selection_session" where
  "session_begin s = s\<lparr>ss_draft := ss_committed s\<rparr>"

text \<open>\<open>select\<close> repeats the checks of \<open>validate\<close> line by line before it stores the draft.\<close>

definition session_select :: "adapter_selection \<Rightarrow> (selection_session, selection_error, unit) call" where
  "session_select x s =
     (case om_get (ad_records (ss_catalog s)) (as_adapter_id x) of
        None \<Rightarrow> (Inl UnknownAdapter, s)
      | Some r \<Rightarrow>
         case om_get (ar_providers r) (as_provider_id x) of
           None \<Rightarrow> (Inl UnknownProvider, s)
         | Some models \<Rightarrow>
            case om_get (ad_unavailable_providers (ss_catalog s)) (as_provider_id x) of
              Some reason \<Rightarrow> (Inl (UnavailableProvider reason), s)
            | None \<Rightarrow>
               case om_get (ad_unavailable_models (ss_catalog s)) (as_provider_id x, as_model_id x) of
                 Some reason \<Rightarrow> (Inl (UnavailableModel reason), s)
               | None \<Rightarrow>
                   if as_model_id x \<notin> set models then (Inl UnknownModel, s)
                   else if as_auth x \<notin> set (ar_auth_methods r) then (Inl UnsupportedAuth, s)
                   else (Inr (), s\<lparr>ss_draft := Some x\<rparr>))"

definition session_commit :: "(selection_session, selection_error, adapter_selection) call" where
  "session_commit s =
     (case ss_draft s of None \<Rightarrow> (Inl InvalidAdapterSelection, s)
      | Some d \<Rightarrow> (Inr d, s\<lparr>ss_committed := Some d\<rparr>))"

definition session_cancel :: "selection_session \<Rightarrow> selection_session" where
  "session_cancel s = s\<lparr>ss_draft := ss_committed s\<rparr>"

definition session_retry :: "selection_session \<Rightarrow> selection_session" where
  "session_retry s = session_begin s"

definition diagnostics :: "adapter_catalog \<Rightarrow> adapter_selection \<Rightarrow> string" where
  "diagnostics c x =
     (let q = [CHR 0x27] in
      case validate_selection c x of
        Inr _ \<Rightarrow> ''compatible provider, model, and authentication''
      | Inl e \<Rightarrow>
         case e of
           UnknownAdapter \<Rightarrow> ''adapter '' @ q @ as_adapter_id x @ q @ '' is unavailable''
         | UnknownProvider \<Rightarrow> ''provider '' @ q @ as_provider_id x @ q @ '' is not supported by '' @ as_adapter_id x
         | UnavailableProvider reason \<Rightarrow> ''provider '' @ q @ as_provider_id x @ q @ '' is unavailable: '' @ reason
         | UnknownModel \<Rightarrow> ''model '' @ q @ as_model_id x @ q @ '' is not supported for provider ''
             @ q @ as_provider_id x @ q
         | UnavailableModel reason \<Rightarrow> ''model '' @ q @ as_model_id x @ q @ '' is unavailable: '' @ reason
         | UnsupportedAuth \<Rightarrow> ''authentication '' @ q @ auth_label (as_auth x) @ q @ '' is not supported by ''
             @ as_adapter_id x
         | InvalidAdapterSelection \<Rightarrow> ''selection is incomplete'')"

section \<open>The compatibility matrix\<close>

record compatibility_matrix =
  cx_catalog :: adapter_catalog
  cx_unavailable :: "(string \<times> string) list"
  cx_defaults :: "(string \<times> adapter_selection) list"
  cx_overrides :: "(string \<times> adapter_selection) list"

definition matrix_development :: "(string, compatibility_matrix) result" where
  "matrix_development = and_then development_catalog (\<lambda>c.
     Inr \<lparr>cx_catalog = c, cx_unavailable = [], cx_defaults = [], cx_overrides = []\<rparr>)"

definition mark_unavailable :: "string \<Rightarrow> string \<Rightarrow> compatibility_matrix \<Rightarrow> compatibility_matrix" where
  "mark_unavailable provider reason m = m\<lparr>cx_unavailable := om_insert provider reason (cx_unavailable m)\<rparr>"

definition matrix_options :: "compatibility_matrix \<Rightarrow> string \<Rightarrow> string option \<Rightarrow>
    (selection_error, compatibility_options) result" where
  "matrix_options m adapter provider =
     and_then (compatibility_options_for (cx_catalog m) adapter provider) (\<lambda>o1.
       let o2 = o1\<lparr>co_providers := map (\<lambda>x. case om_get (cx_unavailable m) (ao_id x) of None \<Rightarrow> x
             | Some reason \<Rightarrow> x\<lparr>ao_available := False, ao_reason := Some reason\<rparr>) (co_providers o1)\<rparr>
       in Inr (case provider of None \<Rightarrow> o2
          | Some p \<Rightarrow> (case om_get (cx_unavailable m) p of None \<Rightarrow> o2
              | Some reason \<Rightarrow> o2\<lparr>co_models := map (\<lambda>x. x\<lparr>ao_available := False, ao_reason := Some reason\<rparr>)
                  (co_models o2)\<rparr>)))"

definition set_default :: "string \<Rightarrow> adapter_selection \<Rightarrow> (compatibility_matrix, selection_error, unit) call" where
  "set_default agent x m =
     (case validate_selection (cx_catalog m) x of Inl e \<Rightarrow> (Inl e, m)
      | Inr _ \<Rightarrow> (Inr (), m\<lparr>cx_defaults := om_insert agent x (cx_defaults m)\<rparr>))"

definition set_override :: "string \<Rightarrow> adapter_selection \<Rightarrow> (compatibility_matrix, selection_error, unit) call" where
  "set_override agent x m =
     (case validate_selection (cx_catalog m) x of Inl e \<Rightarrow> (Inl e, m)
      | Inr _ \<Rightarrow> (Inr (), m\<lparr>cx_overrides := om_insert agent x (cx_overrides m)\<rparr>))"

definition matrix_resolve :: "compatibility_matrix \<Rightarrow> string \<Rightarrow> adapter_selection option" where
  "matrix_resolve m agent = (case om_get (cx_overrides m) agent of Some x \<Rightarrow> Some x
     | None \<Rightarrow> om_get (cx_defaults m) agent)"

definition matrix_restart :: "compatibility_matrix \<Rightarrow> compatibility_matrix" where
  "matrix_restart m = m\<lparr>cx_overrides := []\<rparr>"

definition validate_offline :: "compatibility_matrix \<Rightarrow> adapter_selection \<Rightarrow> (selection_error, unit) result" where
  "validate_offline m x = validate_selection (cx_catalog m) x"

definition matrix_evaluate :: "compatibility_matrix \<Rightarrow> matrix_case list" where
  "matrix_evaluate m = concat (map (\<lambda>(_, r). concat (map (\<lambda>(p, models). map (\<lambda>model.
     let reason = om_get (cx_unavailable m) p in
     \<lparr>mc_adapter_id = ar_id r, mc_provider_id = p, mc_model_id = model, mc_supported = (reason = None),
      mc_reason = reason\<rparr>) models) (ar_providers r))) (ad_records (cx_catalog m)))"

section \<open>Validation and the offered options\<close>

lemma auth_label_inj: "auth_label a = auth_label b \<longleftrightarrow> a = b"
  by (cases a; cases b) (simp_all add: auth_label_def)

definition adapter_wf :: "adapter_catalog \<Rightarrow> bool" where
  "adapter_wf c \<longleftrightarrow> om_sorted (ad_records c) \<and> (\<forall>(k, r) \<in> set (ad_records c). om_sorted (ar_providers r))"

definition offered :: "adapter_option list \<Rightarrow> string \<Rightarrow> bool" where
  "offered xs i \<longleftrightarrow> (\<exists>x \<in> set xs. ao_id x = i \<and> ao_available x)"

lemma validate_selection_iff:
  "validate_selection c s = Inr () \<longleftrightarrow>
     (\<exists>r models. om_get (ad_records c) (as_adapter_id s) = Some r
       \<and> om_get (ar_providers r) (as_provider_id s) = Some models
       \<and> om_get (ad_unavailable_providers c) (as_provider_id s) = None
       \<and> om_get (ad_unavailable_models c) (as_provider_id s, as_model_id s) = None
       \<and> as_model_id s \<in> set models \<and> as_auth s \<in> set (ar_auth_methods r))"
  by (auto simp: validate_selection_def result_simps split: option.splits if_splits)

lemma session_select_validate:
  "session_select x s = (case validate_selection (ss_catalog s) x of Inl e \<Rightarrow> (Inl e, s)
     | Inr _ \<Rightarrow> (Inr (), s\<lparr>ss_draft := Some x\<rparr>))"
  by (simp add: session_select_def validate_selection_def ok_or_def and_then_def split: option.splits)

lemma option_models:
  assumes "om_sorted m" "om_get m p = Some models"
  shows "filter (\<lambda>(i, _). p = i) m = [(p, models)]"
proof -
  have "distinct (map fst m)" using assms(1) by (auto simp: om_sorted_def strict_sorted_iff)
  then show ?thesis using assms(2)
  proof (induction m)
    case (Cons kv m)
    obtain k v where kv: "kv = (k, v)" by (cases kv)
    have "filter (\<lambda>(i, _). p = i) m = []" if "p \<notin> fst ` set m"
      using that by (force simp: filter_empty_conv)
    then show ?case using Cons kv by (auto split: if_splits)
  qed simp
qed

text \<open>
  C33: The options a user is offered are exactly the selections that validate: in a catalog, a
  selection is accepted if and only if the options for its adapter and provider list the
  provider, the model and the authentication method as available.
\<close>

theorem options_offer_exactly_valid:
  assumes "adapter_wf c"
  shows "validate_selection c s = Inr () \<longleftrightarrow>
    (\<exists>opts. compatibility_options_for c (as_adapter_id s) (Some (as_provider_id s)) = Inr opts
      \<and> offered (co_providers opts) (as_provider_id s) \<and> offered (co_models opts) (as_model_id s)
      \<and> offered (co_auth_methods opts) (auth_label (as_auth s)))"
proof (cases "om_get (ad_records c) (as_adapter_id s)")
  case (Some r)
  let ?p = "as_provider_id s"
  have sorted: "om_sorted (ar_providers r)" using assms map_of_SomeD [OF Some] by (auto simp: adapter_wf_def)
  show ?thesis
  proof (cases "om_get (ar_providers r) ?p")
    case None
    then have "?p \<notin> fst ` set (ar_providers r)" by (simp add: map_of_eq_None_iff)
    then show ?thesis using Some None
      by (auto simp: validate_selection_iff compatibility_options_for_def offered_def Let_def image_iff)
  next
    case (Some models)
    have "(?p, models) \<in> set (ar_providers r)" using Some by (rule map_of_SomeD)
    then have prov: "(\<exists>x \<in> set (ar_providers r). fst x = ?p)" by force
    show ?thesis
      using prov Some \<open>om_get (ad_records c) (as_adapter_id s) = Some r\<close> option_models [OF sorted Some]
      by (auto simp: validate_selection_iff compatibility_options_for_def offered_def Let_def auth_label_inj
          split_beta image_iff split: option.splits)
  qed
qed (simp add: validate_selection_iff compatibility_options_for_def)

section \<open>Catalogs\<close>

lemma om_collect_snoc: "om_collect (kvs @ [(k, v)]) = om_insert k v (om_collect kvs)"
  by (simp add: om_collect_def)

lemma note_unavailable_facts:
  assumes "om_sorted m"
  shows "om_sorted (note_unavailable k a m)"
    and "om_get (note_unavailable k a m) j = None \<longleftrightarrow> om_get m j = None \<and> (j = k \<longrightarrow> a = ProviderAvailable)"
  using assms by (auto simp: note_unavailable_def om_insert_sorted om_get_insert split: provider_availability.splits)

lemma note_models_facts:
  assumes "om_sorted ms"
  shows "om_sorted (foldl (\<lambda>ms m. note_unavailable (p, pm_model_id m) (pm_availability m) ms) ms xs)
    \<and> (om_get (foldl (\<lambda>ms m. note_unavailable (p, pm_model_id m) (pm_availability m) ms) ms xs) (i, j) = None
       \<longleftrightarrow> om_get ms (i, j) = None \<and> (i = p \<longrightarrow> (\<forall>m \<in> set xs. pm_model_id m = j \<longrightarrow> pm_availability m = ProviderAvailable)))"
  by (induction xs rule: rev_induct) (auto simp: assms note_unavailable_facts)

lemma with_auths_facts:
  "ar_providers (foldl (\<lambda>r a. with_auth (provider_auth a) r) r as) = ar_providers r"
  "ar_id (foldl (\<lambda>r a. with_auth (provider_auth a) r) r as) = ar_id r"
  "ar_label (foldl (\<lambda>r a. with_auth (provider_auth a) r) r as) = ar_label r"
  "set (ar_auth_methods (foldl (\<lambda>r a. with_auth (provider_auth a) r) r as))
     = set (ar_auth_methods r) \<union> provider_auth ` set as"
  by (induction as rule: rev_induct) (auto simp: with_auth_def set_insort_insert)

definition start_view :: adapter_view where
  "start_view = \<lparr>av_record = adapter_new ''opencode'' ''OpenCode'', av_providers = [], av_models = []\<rparr>"

definition last_entry :: "provider_catalog_entry list \<Rightarrow> string \<Rightarrow> provider_catalog_entry option" where
  "last_entry ps i = find (\<lambda>p. pe_provider_id p = i) (rev ps)"

lemma view_facts:
  fixes ps defines "v \<equiv> foldl view_provider start_view ps"
  shows "ar_id (av_record v) = ''opencode'' \<and> ar_label (av_record v) = ''OpenCode''
    \<and> om_sorted (ar_providers (av_record v)) \<and> om_sorted (av_providers v) \<and> om_sorted (av_models v)
    \<and> om_get (ar_providers (av_record v)) i
        = map_option (\<lambda>p. sort (remdups (map pm_model_id (pe_models p)))) (last_entry ps i)
    \<and> (om_get (av_providers v) i = None
        \<longleftrightarrow> (\<forall>p \<in> set ps. pe_provider_id p = i \<longrightarrow> pe_availability p = ProviderAvailable))
    \<and> (om_get (av_models v) (i, j) = None \<longleftrightarrow> (\<forall>p \<in> set ps. pe_provider_id p = i \<longrightarrow>
          (\<forall>m \<in> set (pe_models p). pm_model_id m = j \<longrightarrow> pm_availability m = ProviderAvailable)))
    \<and> set (ar_auth_methods (av_record v)) = provider_auth ` (\<Union>p \<in> set ps. set (pe_auth_methods p))"
  unfolding v_def
proof (induction ps rule: rev_induct)
  case Nil
  show ?case by (simp add: start_view_def adapter_new_def om_sorted_def last_entry_def)
next
  case (snoc p ps)
  then show ?case
    by (auto simp: view_provider_def with_auths_facts with_provider_def om_insert_sorted om_get_insert
        note_unavailable_facts note_models_facts last_entry_def image_Un)
qed

lemma last_entry_distinct:
  assumes "distinct (map pe_provider_id ps)"
  shows "last_entry ps i = Some p \<longleftrightarrow> p \<in> set ps \<and> pe_provider_id p = i"
proof
  assume "last_entry ps i = Some p"
  then show "p \<in> set ps \<and> pe_provider_id p = i"
    using find_Some_in unfolding last_entry_def by fastforce
next
  assume p: "p \<in> set ps \<and> pe_provider_id p = i"
  then obtain q where q: "last_entry ps i = Some q"
    using find_None_all [of "\<lambda>p. pe_provider_id p = i" "rev ps"] unfolding last_entry_def by fastforce
  then have "q \<in> set ps \<and> pe_provider_id q = i" using find_Some_in unfolding last_entry_def by fastforce
  then show "last_entry ps i = Some p" using q p assms by (metis distinct_map inj_onD)
qed

lemma unique_entry:
  assumes "distinct (map f xs)"
  shows "(\<exists>x. (x \<in> set xs \<and> f x = i) \<and> M x) \<and> (\<forall>x \<in> set xs. f x = i \<longrightarrow> A x) \<and> (\<forall>x \<in> set xs. f x = i \<longrightarrow> N x)
    \<longleftrightarrow> (\<exists>x \<in> set xs. f x = i \<and> A x \<and> M x \<and> N x)"
  using assms by (metis distinct_map inj_onD)

lemma from_provider_catalog_records:
  assumes "from_provider_catalog pc = Inr c"
  defines "v \<equiv> foldl view_provider start_view (pv_providers pc)"
  shows "om_get (ad_records c) a = (if a = ''opencode'' then Some (av_record v)
      else if a = ''opendesk'' then Some ((av_record v)\<lparr>ar_id := ''opendesk'', ar_label := ''OpenDesk''\<rparr>) else None)"
    and "ad_unavailable_providers c = av_providers v" and "ad_unavailable_models c = av_models v"
    and "adapter_wf c"
proof -
  let ?d = "(av_record v)\<lparr>ar_id := ''opendesk'', ar_label := ''OpenDesk''\<rparr>"
  have facts: "ar_id (av_record v) = ''opencode''" "om_sorted (ar_providers (av_record v))"
    using view_facts [of "pv_providers pc"] unfolding v_def by auto
  have c: "ad_records c = om_collect [(''opencode'', av_record v), (''opendesk'', ?d)]"
    "ad_unavailable_providers c = av_providers v" "ad_unavailable_models c = av_models v"
    using assms(1) facts(1) unfolding from_provider_catalog_def start_view_def [symmetric] v_def [symmetric]
    by (auto simp: Let_def result_simps adapter_catalog_new_def split: if_splits)
  have "ad_records c = [(''opencode'', av_record v), (''opendesk'', ?d)]"
    using c(1) by (simp add: om_collect_def)
  then show "om_get (ad_records c) a = (if a = ''opencode'' then Some (av_record v)
      else if a = ''opendesk'' then Some ?d else None)" "adapter_wf c"
    using facts(2) by (auto simp: adapter_wf_def om_sorted_def)
  show "ad_unavailable_providers c = av_providers v" "ad_unavailable_models c = av_models v" by (fact c)+
qed

text \<open>
  The adapter view of an authenticated catalog neither adds nor loses a choice. When a provider
  catalog with distinct provider identities is accepted, a selection for one of the two adapters
  validates if and only if the catalog lists the provider as available, lists the model under it
  and every entry of that model as available, and some provider of the catalog offers the
  authentication method: the methods of all providers are merged.
\<close>

theorem adapter_view_exact:
  assumes "from_provider_catalog pc = Inr c" "distinct (map pe_provider_id (pv_providers pc))"
  shows "validate_selection c s = Inr () \<longleftrightarrow> as_adapter_id s \<in> {''opencode'', ''opendesk''}
    \<and> (\<exists>p \<in> set (pv_providers pc). pe_provider_id p = as_provider_id s \<and> pe_availability p = ProviderAvailable
         \<and> as_model_id s \<in> set (map pm_model_id (pe_models p))
         \<and> (\<forall>m \<in> set (pe_models p). pm_model_id m = as_model_id s \<longrightarrow> pm_availability m = ProviderAvailable))
    \<and> (\<exists>q \<in> set (pv_providers pc). as_auth s \<in> provider_auth ` set (pe_auth_methods q))"
proof -
  define v where "v = foldl view_provider start_view (pv_providers pc)"
  note recs = from_provider_catalog_records [OF assms(1), folded v_def]
  note facts = view_facts [of "pv_providers pc", folded v_def]
  have get: "om_get (ar_providers (av_record v)) i
      = map_option (\<lambda>p. sort (remdups (map pm_model_id (pe_models p)))) (last_entry (pv_providers pc) i)" for i
    using facts [of i] by blast
  have unavailable: "om_get (av_providers v) i = None
      \<longleftrightarrow> (\<forall>p \<in> set (pv_providers pc). pe_provider_id p = i \<longrightarrow> pe_availability p = ProviderAvailable)"
    "om_get (av_models v) (i, j) = None \<longleftrightarrow> (\<forall>p \<in> set (pv_providers pc). pe_provider_id p = i \<longrightarrow>
       (\<forall>m \<in> set (pe_models p). pm_model_id m = j \<longrightarrow> pm_availability m = ProviderAvailable))" for i j
    using facts [of i j] by blast+
  have auths: "set (ar_auth_methods (av_record v)) = provider_auth ` (\<Union>p \<in> set (pv_providers pc). set (pe_auth_methods p))"
    using facts by blast
  have "validate_selection c s = Inr () \<longleftrightarrow> as_adapter_id s \<in> {''opencode'', ''opendesk''}
      \<and> (\<exists>p. last_entry (pv_providers pc) (as_provider_id s) = Some p
           \<and> as_model_id s \<in> set (map pm_model_id (pe_models p)))
      \<and> om_get (av_providers v) (as_provider_id s) = None
      \<and> om_get (av_models v) (as_provider_id s, as_model_id s) = None
      \<and> as_auth s \<in> set (ar_auth_methods (av_record v))"
    by (auto simp: validate_selection_iff recs get)
  also have "\<dots> \<longleftrightarrow> as_adapter_id s \<in> {''opencode'', ''opendesk''}
    \<and> (\<exists>p \<in> set (pv_providers pc). pe_provider_id p = as_provider_id s \<and> pe_availability p = ProviderAvailable
         \<and> as_model_id s \<in> set (map pm_model_id (pe_models p))
         \<and> (\<forall>m \<in> set (pe_models p). pm_model_id m = as_model_id s \<longrightarrow> pm_availability m = ProviderAvailable))
    \<and> (\<exists>q \<in> set (pv_providers pc). as_auth s \<in> provider_auth ` set (pe_auth_methods q))"
    unfolding unavailable auths last_entry_distinct [OF assms(2)] unique_entry [OF assms(2), symmetric]
    by auto
  finally show ?thesis .
qed

section \<open>Sessions\<close>

datatype session_op = SessionBegin | SessionSelect adapter_selection | SessionCommit | SessionCancel | SessionRetry

fun session_step :: "session_op \<Rightarrow> (selection_session, selection_error, unit) call" where
  "session_step SessionBegin s = (Inr (), session_begin s)"
| "session_step (SessionSelect x) s = session_select x s"
| "session_step SessionCommit s = (case session_commit s of (r, s') \<Rightarrow> (and_then r (\<lambda>_. Inr ()), s'))"
| "session_step SessionCancel s = (Inr (), session_cancel s)"
| "session_step SessionRetry s = (Inr (), session_retry s)"

definition session_inv :: "adapter_catalog \<Rightarrow> selection_session \<Rightarrow> bool" where
  "session_inv c s \<longleftrightarrow> ss_catalog s = c
     \<and> (\<forall>x. ss_draft s = Some x \<longrightarrow> validate_selection c x = Inr ())
     \<and> (\<forall>x. ss_committed s = Some x \<longrightarrow> validate_selection c x = Inr ())"

interpretation session: fail_closed session_step
  using session_select_validate
  by unfold_locales
     (case_tac ev; auto simp: session_commit_def split: sum.splits option.splits)

interpretation session_safe: safe_machine session_step "session_inv c"
  by unfold_locales
     (case_tac ev; auto simp: session_select_validate session_commit_def session_begin_def session_cancel_def
        session_retry_def session_inv_def split: sum.splits option.splits)

text \<open>
  A session only ever holds choices of its catalog. After any sequence of begin, select, commit,
  cancel and retry from a new session, the draft and the committed selection both validate
  against the catalog, the catalog is unchanged, and replaying only the accepted calls gives the
  same session: a refused selection erases nothing.
\<close>

theorem session_holds_valid_choices:
  fixes c ops s defines "s \<equiv> run_calls session_step ops (session_new c)"
  shows "ss_catalog s = c
    \<and> (\<forall>x. ss_draft s = Some x \<or> ss_committed s = Some x \<longrightarrow> validate_selection c x = Inr ())
    \<and> run_calls session_step (accepted session_step ops (session_new c)) (session_new c) = s"
proof -
  have "session_inv c (session_new c)" by (simp add: session_inv_def session_new_def)
  then have "session_inv c s" unfolding s_def by (rule session_safe.run_inv)
  then show ?thesis using session.run_accepted [of ops "session_new c"] by (auto simp: session_inv_def s_def)
qed

section \<open>The matrix\<close>

datatype matrix_op =
  MarkUnavailable string string | SetDefault string adapter_selection | SetOverride string adapter_selection
| MatrixRestart

fun matrix_step :: "matrix_op \<Rightarrow> (compatibility_matrix, selection_error, unit) call" where
  "matrix_step (MarkUnavailable p reason) m = (Inr (), mark_unavailable p reason m)"
| "matrix_step (SetDefault a x) m = set_default a x m"
| "matrix_step (SetOverride a x) m = set_override a x m"
| "matrix_step MatrixRestart m = (Inr (), matrix_restart m)"

definition matrix_inv :: "adapter_catalog \<Rightarrow> compatibility_matrix \<Rightarrow> bool" where
  "matrix_inv c m \<longleftrightarrow> cx_catalog m = c \<and> om_sorted (cx_defaults m) \<and> om_sorted (cx_overrides m)
     \<and> om_sorted (cx_unavailable m)
     \<and> (\<forall>a x. om_get (cx_defaults m) a = Some x \<or> om_get (cx_overrides m) a = Some x
          \<longrightarrow> validate_selection c x = Inr ())"

lemma matrix_step_inv: "matrix_inv c m \<Longrightarrow> matrix_inv c (snd (matrix_step op m))"
  by (cases op)
     (auto simp: matrix_inv_def mark_unavailable_def set_default_def set_override_def matrix_restart_def
        om_insert_sorted om_get_insert om_sorted_def [of "[]"] split: sum.splits if_splits)

interpretation matrix: safe_machine matrix_step "matrix_inv c"
  by unfold_locales (rule matrix_step_inv)

text \<open>The selection the last accepted call of a sequence gave an agent, by kind of call.\<close>

fun last_choice :: "bool \<Rightarrow> string \<Rightarrow> matrix_op list \<Rightarrow> adapter_selection option \<Rightarrow> adapter_selection option" where
  "last_choice overrides agent [] x = x"
| "last_choice overrides agent (SetDefault a y # ops) x =
     last_choice overrides agent ops (if \<not> overrides \<and> a = agent then Some y else x)"
| "last_choice overrides agent (SetOverride a y # ops) x =
     last_choice overrides agent ops (if overrides \<and> a = agent then Some y else x)"
| "last_choice overrides agent (MatrixRestart # ops) x = last_choice overrides agent ops (if overrides then None else x)"
| "last_choice overrides agent (MarkUnavailable p r # ops) x = last_choice overrides agent ops x"

lemma matrix_choices:
  assumes "matrix_inv c m"
  shows "om_get (cx_defaults (run_calls matrix_step ops m)) agent
      = last_choice False agent (accepted matrix_step ops m) (om_get (cx_defaults m) agent)
    \<and> om_get (cx_overrides (run_calls matrix_step ops m)) agent
      = last_choice True agent (accepted matrix_step ops m) (om_get (cx_overrides m) agent)"
  using assms
proof (induction ops arbitrary: m)
  case (Cons op ops)
  show ?case
    using Cons.IH [OF matrix_step_inv [OF Cons.prems, of op]] Cons.prems
    by (cases op) (auto simp: mark_unavailable_def set_default_def set_override_def matrix_restart_def
        om_get_insert matrix_inv_def split: sum.splits)
qed simp

text \<open>
  The matrix resolves an agent to its latest accepted choice. After any sequence of calls on a
  matrix without choices: an agent's override since the last restart wins over its default, the
  default over nothing, each being the latest accepted one; whatever is resolved validates
  against the catalog; and a restart leaves exactly the default.
\<close>

theorem matrix_resolves_latest_choice:
  fixes c ops m and m0 :: compatibility_matrix
  assumes "cx_defaults m0 = []" "cx_overrides m0 = []" "cx_unavailable m0 = []"
  defines "m \<equiv> run_calls matrix_step ops m0"
  shows "matrix_resolve m agent
      = (case last_choice True agent (accepted matrix_step ops m0) None of Some x \<Rightarrow> Some x
         | None \<Rightarrow> last_choice False agent (accepted matrix_step ops m0) None)
    \<and> (\<forall>x. matrix_resolve m agent = Some x \<longrightarrow> validate_offline m x = Inr ())
    \<and> matrix_resolve (matrix_restart m) agent = last_choice False agent (accepted matrix_step ops m0) None"
proof -
  have inv0: "matrix_inv (cx_catalog m0) m0" using assms(1-3) by (simp add: matrix_inv_def om_sorted_def)
  then have inv: "matrix_inv (cx_catalog m0) m" unfolding m_def by (rule matrix.run_inv)
  have "\<forall>x. matrix_resolve m agent = Some x \<longrightarrow> validate_offline m x = Inr ()"
    using inv by (auto simp: matrix_resolve_def validate_offline_def matrix_inv_def split: option.splits)
  then show ?thesis
    using matrix_choices [OF inv0, of ops agent] assms(1,2)
    by (auto simp: matrix_resolve_def matrix_restart_def m_def split: option.splits)
qed

text \<open>
  Marking a provider unavailable changes what the matrix shows but not what it accepts: the
  options and the report lose the provider, and still every call of \<open>set_default\<close>,
  \<open>set_override\<close> and \<open>validate_offline\<close> gives the result it gave before.
\<close>

theorem unavailable_mark_not_enforced:
  "validate_offline (mark_unavailable p reason m) x = validate_offline m x
   \<and> fst (set_default a x (mark_unavailable p reason m)) = fst (set_default a x m)
   \<and> fst (set_override a x (mark_unavailable p reason m)) = fst (set_override a x m)
   \<and> (om_sorted (cx_unavailable m) \<longrightarrow>
        (\<forall>k \<in> set (matrix_evaluate (mark_unavailable p reason m)). mc_provider_id k = p \<longrightarrow> \<not> mc_supported k))"
proof -
  have "\<not> mc_supported k" if sorted: "om_sorted (cx_unavailable m)" and p: "mc_provider_id k = p"
    and k: "k \<in> set (matrix_evaluate (mark_unavailable p reason m))" for k
  proof -
    obtain i q model where "k = \<lparr>mc_adapter_id = i, mc_provider_id = q, mc_model_id = model,
        mc_supported = (om_get (om_insert p reason (cx_unavailable m)) q = None),
        mc_reason = om_get (om_insert p reason (cx_unavailable m)) q\<rparr>"
      using k by (auto simp: matrix_evaluate_def mark_unavailable_def Let_def)
    then show ?thesis using om_get_insert [OF sorted] p by simp
  qed
  then show ?thesis
    by (auto simp: validate_offline_def set_default_def set_override_def mark_unavailable_def split: sum.splits)
qed

section \<open>The development catalog\<close>

definition adapter_names :: "string list" where
  "adapter_names = [''opencode'', ''opendesk'']"

lemma development_catalog_names:
  "\<exists>c. development_catalog = Inr c \<and> adapter_wf c \<and> map fst (ad_records c) = adapter_names"
proof -
  have "case development_catalog of Inl _ \<Rightarrow> False
    | Inr c \<Rightarrow> adapter_wf c \<and> map fst (ad_records c) = adapter_names"
    unfolding adapter_wf_def by code_simp
  then show ?thesis by (auto split: sum.splits)
qed

section \<open>Witnesses\<close>

definition sample_choice :: adapter_selection where
  "sample_choice = \<lparr>as_adapter_id = ''opencode'', as_provider_id = ''openai'', as_model_id = ''gpt-4o'',
     as_auth = AuthNone\<rparr>"

definition sample_provider_catalog :: provider_catalog where
  "sample_provider_catalog = \<lparr>pv_runner_instance_id = ''r'', pv_generation = 1, pv_catalog_sha256 = ''d'',
     pv_providers = [\<lparr>pe_provider_id = ''openai'', pe_display_name = ''OpenAI'', pe_auth_methods = [NoAuth],
       pe_models = [\<lparr>pm_model_id = ''gpt-4o'', pm_revision = ''1'', pm_availability = ProviderAvailable\<rparr>],
       pe_availability = ProviderAvailable\<rparr>], pv_refreshed = False\<rparr>"

theorem options_offer_exactly_valid_witness:
  "\<exists>c opts. development_catalog = Inr c
     \<and> compatibility_options_for c ''opencode'' (Some ''openai'') = Inr opts \<and> offered (co_models opts) ''gpt-4o''"
proof -
  obtain c where c: "development_catalog = Inr c" "adapter_wf c" using development_catalog_names by blast
  have "case development_catalog of Inl _ \<Rightarrow> False | Inr c \<Rightarrow> is_ok (validate_selection c sample_choice)" by code_simp
  then have "validate_selection c sample_choice = Inr ()" unfolding c(1) by (simp add: is_ok_def split: sum.splits)
  then show ?thesis
    using options_offer_exactly_valid [OF c(2), of sample_choice] c(1) by (auto simp: sample_choice_def)
qed

theorem adapter_view_exact_witness:
  "\<exists>c. from_provider_catalog sample_provider_catalog = Inr c \<and> validate_selection c sample_choice = Inr ()"
proof -
  have "is_ok (from_provider_catalog sample_provider_catalog)" by code_simp
  then obtain c where c: "from_provider_catalog sample_provider_catalog = Inr c"
    by (metis is_ok_simps(2) sum.exhaust)
  have "distinct (map pe_provider_id (pv_providers sample_provider_catalog))"
    by (simp add: sample_provider_catalog_def)
  from adapter_view_exact [OF c this, of sample_choice] show ?thesis
    using c by (simp add: sample_provider_catalog_def sample_choice_def provider_auth_def)
qed

theorem matrix_resolves_latest_choice_witness:
  "\<exists>m. matrix_development = Inr m
     \<and> matrix_resolve (run_calls matrix_step [SetDefault ''a'' sample_choice] m) ''a'' = Some sample_choice"
proof -
  obtain c where c: "development_catalog = Inr c" using development_catalog_names by blast
  let ?m = "\<lparr>cx_catalog = c, cx_unavailable = [], cx_defaults = [], cx_overrides = []\<rparr>"
  have m: "matrix_development = Inr ?m" by (simp add: matrix_development_def c)
  have "case development_catalog of Inl _ \<Rightarrow> False | Inr c \<Rightarrow> is_ok (validate_selection c sample_choice)" by code_simp
  then have "validate_selection c sample_choice = Inr ()" unfolding c by (simp add: is_ok_def split: sum.splits)
  then have "accepted matrix_step [SetDefault ''a'' sample_choice] ?m = [SetDefault ''a'' sample_choice]"
    by (simp add: set_default_def)
  then show ?thesis
    using matrix_resolves_latest_choice [of ?m "[SetDefault ''a'' sample_choice]" "''a''"] m
    by (intro exI [of _ ?m]) simp
qed

theorem session_holds_valid_choices_witness:
  "\<exists>c. development_catalog = Inr c
     \<and> ss_committed (run_calls session_step [SessionSelect sample_choice, SessionCommit] (session_new c)) = Some sample_choice
     \<and> validate_selection c sample_choice = Inr ()"
proof -
  let ?ops = "[SessionSelect sample_choice, SessionCommit]"
  have "case development_catalog of Inl _ \<Rightarrow> False | Inr c \<Rightarrow>
    ss_committed (run_calls session_step ?ops (session_new c)) = Some sample_choice" by code_simp
  moreover obtain c where c: "development_catalog = Inr c" using development_catalog_names by blast
  ultimately have "ss_committed (run_calls session_step ?ops (session_new c)) = Some sample_choice"
    unfolding c sum.case by blast
  then show ?thesis using session_holds_valid_choices [of ?ops c] c by blast
qed

theorem unavailable_mark_not_enforced_witness:
  "\<exists>m. matrix_development = Inr m
     \<and> (\<forall>k \<in> set (matrix_evaluate (mark_unavailable ''openai'' ''down'' m)). mc_provider_id k = ''openai'' \<longrightarrow> \<not> mc_supported k)
     \<and> validate_offline (mark_unavailable ''openai'' ''down'' m) sample_choice = validate_offline m sample_choice"
proof -
  obtain c where c: "development_catalog = Inr c" using development_catalog_names by blast
  let ?m = "\<lparr>cx_catalog = c, cx_unavailable = [], cx_defaults = [], cx_overrides = []\<rparr>"
  have "matrix_development = Inr ?m" by (simp add: matrix_development_def c)
  moreover have "om_sorted (cx_unavailable ?m)" by (simp add: om_sorted_def)
  ultimately show ?thesis
    using unavailable_mark_not_enforced [of "''openai''" "''down''" ?m sample_choice "''a''"] by blast
qed

end
