(* ===== verification/Fanout_Dispatch.thy ===== *)
theory Fanout_Dispatch
  imports Prelude
begin

text \<open>
  Model of \<open>src/fanout_dispatch.rs\<close>: the scope of a fan-out over selected agents and workloads,
  its expansion into run requests, and the state that follows the admission of the runner. The
  backend is a trait of the source; its two operations are arguments that act on a state of their
  own, which stands for the session and the projection they are handed. The request, a JSON
  object in the source, is a record of its fields.
\<close>

section \<open>The scope\<close>

definition MAX_SELECTION_ITEMS :: nat where "MAX_SELECTION_ITEMS = 64"

datatype fanout_execution_mode = FanoutLocalMock | FanoutLive

datatype fanout_mode_error = LiveCredentialRequired | InvalidCredentialReference

record fanout_selection =
  fs_agent_ids :: "string list"
  fs_workload_ids :: "string list"
  fs_provider_id :: string
  fs_model_id :: string
  fs_catalog_digest :: string
  fs_workload_revision :: string
  fs_scorer_revision :: string

datatype fanout_selection_error = FanoutEmpty string | FanoutTooMany string | FanoutInvalid string

datatype 'e fanout_dispatch_error =
  FanoutSelectionFailed fanout_selection_error | FanoutMode fanout_mode_error | FanoutTransport 'e

definition public_id :: "string \<Rightarrow> bool" where
  "public_id s \<longleftrightarrow> s \<noteq> [] \<and> length s \<le> 128 \<and> is_ascii s \<and> \<not> has_control s"

definition canonical_items :: "string \<Rightarrow> string list \<Rightarrow> (fanout_selection_error, string list) result" where
  "canonical_items name values =
     (if values = [] then Inl (FanoutEmpty name)
      else if MAX_SELECTION_ITEMS < length values then Inl (FanoutTooMany name)
      else if list_ex (\<lambda>v. \<not> public_id v) values then Inl (FanoutInvalid name)
      else Inr (dedup (sort values)))"

definition fanout_canonicalize :: "fanout_selection \<Rightarrow> (fanout_selection_error, fanout_selection) result" where
  "fanout_canonicalize s =
     and_then (canonical_items ''agents'' (fs_agent_ids s)) (\<lambda>agents.
     and_then (canonical_items ''workloads'' (fs_workload_ids s)) (\<lambda>workloads.
     and_then (check_all (\<lambda>(name, v). ensure (public_id v) (FanoutInvalid name))
        [(''provider'', fs_provider_id s), (''model'', fs_model_id s)]) (\<lambda>_.
     and_then (check_all (\<lambda>(name, v). ensure (lower_hex 64 v) (FanoutInvalid name))
        [(''catalog_digest'', fs_catalog_digest s), (''workload_revision'', fs_workload_revision s),
         (''scorer_revision'', fs_scorer_revision s)]) (\<lambda>_.
       Inr (s\<lparr>fs_agent_ids := agents, fs_workload_ids := workloads\<rparr>)))))"

record fanout_limits =
  lim_timeout_ms :: nat
  lim_max_output_bytes :: nat
  lim_max_events :: nat
  lim_max_artifacts :: nat
  lim_max_artifact_bytes :: nat
  lim_max_artifact_total_bytes :: nat

record run_request =
  rq_kind :: string
  rq_schema_version :: nat
  rq_idempotency_key :: string
  rq_agent_id :: string
  rq_provider_id :: string
  rq_model_id :: string
  rq_workload_id :: string
  rq_catalog_digest :: string
  rq_workload_revision :: string
  rq_scorer_revision :: string
  rq_mode :: string
  rq_cassette_digest :: "string option"
  rq_credential_ref_digest :: "string option"
  rq_limits :: fanout_limits

definition fanout_request :: "fanout_selection \<Rightarrow> fanout_execution_mode \<Rightarrow> string option \<Rightarrow> string \<Rightarrow> string \<Rightarrow> run_request" where
  "fanout_request s mode credential agent workload =
     \<lparr>rq_kind = ''run_request'', rq_schema_version = 1, rq_idempotency_key = ''asb-tui-fanout-member'',
      rq_agent_id = agent, rq_provider_id = fs_provider_id s, rq_model_id = fs_model_id s,
      rq_workload_id = workload, rq_catalog_digest = fs_catalog_digest s,
      rq_workload_revision = fs_workload_revision s, rq_scorer_revision = fs_scorer_revision s,
      rq_mode = (case mode of FanoutLocalMock \<Rightarrow> ''local-mock'' | FanoutLive \<Rightarrow> ''live''),
      rq_cassette_digest = None, rq_credential_ref_digest = credential,
      rq_limits = \<lparr>lim_timeout_ms = 30000, lim_max_output_bytes = 65536, lim_max_events = 128,
        lim_max_artifacts = 16, lim_max_artifact_bytes = 65536, lim_max_artifact_total_bytes = 262144\<rparr>\<rparr>"

definition fanout_requests :: "fanout_selection \<Rightarrow> fanout_execution_mode \<Rightarrow> string option \<Rightarrow> run_request list" where
  "fanout_requests s mode credential = concat (map (\<lambda>agent.
     map (\<lambda>workload. fanout_request s mode credential agent workload) (fs_workload_ids s)) (fs_agent_ids s))"

section \<open>The dispatch state\<close>

record fanout_member =
  me_run_id :: string
  me_attempt_id :: string

record fanout_admission =
  fa_idempotency_key :: string
  fa_members :: "fanout_member list"

datatype fanout_status = FanoutUnavailable | FanoutPending | FanoutAdmitted | CancelRequested | FanoutCancelled

record fanout_state =
  fd_admission :: "fanout_admission option"
  fd_status :: fanout_status
  fd_selection :: "fanout_selection option"

definition fanout_default :: fanout_state where
  "fanout_default = \<lparr>fd_admission = None, fd_status = FanoutUnavailable, fd_selection = None\<rparr>"

record fanout_report =
  fr_status :: string
  fr_agent_ids :: "string list"
  fr_workload_ids :: "string list"
  fr_member_count :: nat

definition fanout_dispatch_report :: "fanout_state \<Rightarrow> fanout_report" where
  "fanout_dispatch_report s =
     \<lparr>fr_status = (case fd_status s of FanoutUnavailable \<Rightarrow> ''unavailable'' | FanoutPending \<Rightarrow> ''pending''
        | FanoutAdmitted \<Rightarrow> ''admitted'' | CancelRequested \<Rightarrow> ''cancel_requested'' | FanoutCancelled \<Rightarrow> ''cancelled''),
      fr_agent_ids = (case fd_selection s of None \<Rightarrow> [] | Some x \<Rightarrow> fs_agent_ids x),
      fr_workload_ids = (case fd_selection s of None \<Rightarrow> [] | Some x \<Rightarrow> fs_workload_ids x),
      fr_member_count = (case fd_admission s of None \<Rightarrow> 0 | Some a \<Rightarrow> length (fa_members a))\<rparr>"

definition fanout_newline :: string where
  "fanout_newline = [char_of (10 :: nat)]"

definition fanout_human :: "fanout_report \<Rightarrow> string" where
  "fanout_human r = ''fan-out'' @ fanout_newline @ ''Status: '' @ fr_status r @ fanout_newline
     @ ''Agents: '' @ join '', '' (fr_agent_ids r) @ fanout_newline
     @ ''Workloads: '' @ join '', '' (fr_workload_ids r) @ fanout_newline
     @ ''Members: '' @ show_nat (fr_member_count r) @ fanout_newline"

type_synonym ('b, 'e) admit_backend = "string \<Rightarrow> run_request list \<Rightarrow> ('b, 'e, fanout_admission) call"
type_synonym ('b, 'e) cancel_backend = "string \<Rightarrow> fanout_member list \<Rightarrow> ('b, 'e, unit) call"

definition fanout_admit :: "('b, 'e) admit_backend \<Rightarrow> string \<Rightarrow> run_request list \<Rightarrow>
    (fanout_state \<times> 'b, 'e, unit) call" where
  "fanout_admit admit key requests =
     (\<lambda>(s, w). let s = s\<lparr>fd_status := FanoutPending\<rparr> in
        case admit key requests w of
          (Inl e, w) \<Rightarrow> (Inl e, s\<lparr>fd_status := FanoutUnavailable\<rparr>, w)
        | (Inr a, w) \<Rightarrow> (Inr (), s\<lparr>fd_admission := Some a, fd_status := FanoutAdmitted\<rparr>, w))"

definition fanout_credential :: "fanout_execution_mode \<Rightarrow> string option \<Rightarrow>
    ('e fanout_dispatch_error, string option) result" where
  "fanout_credential mode credential = (case mode of
       FanoutLocalMock \<Rightarrow> Inr None
     | FanoutLive \<Rightarrow> (case credential of
          None \<Rightarrow> Inl (FanoutMode LiveCredentialRequired)
        | Some v \<Rightarrow> if length v \<noteq> 64 \<or> \<not> list_all is_ascii_hexdigit v
                    then Inl (FanoutMode InvalidCredentialReference) else Inr (Some v)))"

definition admit_selected_with_mode :: "('b, 'e) admit_backend \<Rightarrow> string \<Rightarrow> fanout_selection \<Rightarrow>
    fanout_execution_mode \<Rightarrow> string option \<Rightarrow> (fanout_state \<times> 'b, 'e fanout_dispatch_error, unit) call" where
  "admit_selected_with_mode admit key selection mode credential sw =
     (case fanout_credential mode credential of
        Inl e \<Rightarrow> (Inl e, sw)
      | Inr c \<Rightarrow>
          (case fanout_canonicalize selection of
             Inl e \<Rightarrow> (Inl (FanoutSelectionFailed e), sw)
           | Inr x \<Rightarrow>
               (case fanout_admit admit key (fanout_requests x mode c) sw of
                  (Inl e, sw) \<Rightarrow> (Inl (FanoutTransport e), sw)
                | (Inr _, s, w) \<Rightarrow> (Inr (), s\<lparr>fd_selection := Some x\<rparr>, w))))"

definition admit_selected :: "('b, 'e) admit_backend \<Rightarrow> string \<Rightarrow> fanout_selection \<Rightarrow>
    (fanout_state \<times> 'b, 'e fanout_dispatch_error, unit) call" where
  "admit_selected admit key selection = admit_selected_with_mode admit key selection FanoutLocalMock None"

text \<open>\<open>no_admission\<close> is the error \<open>TransportError::Projection\<close>.\<close>

definition fanout_cancel :: "'e \<Rightarrow> ('b, 'e) cancel_backend \<Rightarrow> string \<Rightarrow> (fanout_state \<times> 'b, 'e, unit) call" where
  "fanout_cancel no_admission cancel key =
     (\<lambda>(s, w). case fd_admission s of
        None \<Rightarrow> (Inl no_admission, s, w)
      | Some a \<Rightarrow>
          let s = s\<lparr>fd_status := CancelRequested\<rparr> in
          (case cancel key (fa_members a) w of
             (Inl e, w) \<Rightarrow> (Inl e, s\<lparr>fd_status := FanoutAdmitted\<rparr>, w)
           | (Inr _, w) \<Rightarrow> (Inr (), s\<lparr>fd_status := FanoutCancelled\<rparr>, w)))"


text \<open>The calls on the dispatch state, each with the backend that serves it.\<close>

datatype ('b, 'e) fanout_op =
  FanoutAdmit "('b, 'e) admit_backend" string "run_request list"
| FanoutAdmitSelected "('b, 'e) admit_backend" string fanout_selection fanout_execution_mode "string option"
| FanoutCancel "('b, 'e) cancel_backend" string

fun fanout_step :: "'e \<Rightarrow> ('b, 'e) fanout_op \<Rightarrow> (fanout_state \<times> 'b, 'e fanout_dispatch_error, unit) call" where
  "fanout_step ne (FanoutAdmit admit key requests) sw =
     (case fanout_admit admit key requests sw of (r, sw) \<Rightarrow> (map_err FanoutTransport r, sw))"
| "fanout_step ne (FanoutAdmitSelected admit key selection mode credential) sw =
     admit_selected_with_mode admit key selection mode credential sw"
| "fanout_step ne (FanoutCancel cancel key) sw =
     (case fanout_cancel ne cancel key sw of (r, sw) \<Rightarrow> (map_err FanoutTransport r, sw))"

section \<open>Lemmas\<close>

lemma canonical_items_Inr:
  "canonical_items name vs = Inr xs \<longleftrightarrow>
     vs \<noteq> [] \<and> length vs \<le> MAX_SELECTION_ITEMS \<and> list_all public_id vs \<and> xs = dedup (sort vs)"
  by (auto simp: canonical_items_def list_ex_iff list_all_iff)

lemma canonical_items_facts:
  assumes "canonical_items name vs = Inr xs"
  shows "sorted xs" "distinct xs" "xs \<noteq> []" "length xs \<le> MAX_SELECTION_ITEMS" "set xs = set vs"
    "canonical_items name xs = Inr xs"
proof -
  note vs = assms [unfolded canonical_items_Inr]
  show *: "sorted xs" "distinct xs" "xs \<noteq> []" "set xs = set vs"
    using vs sorted_dedup [of "sort vs"] by (auto simp: sort_eq_Nil_iff)
  show "length xs \<le> MAX_SELECTION_ITEMS" using vs length_dedup [of "sort vs"] by simp
  moreover have "dedup xs = xs" using *(2) by (simp add: dedup_eq_remdups_adj remdups_adj_distinct)
  ultimately show "canonical_items name xs = Inr xs"
    using vs * by (simp add: canonical_items_Inr sorted_sort_id list_all_iff)
qed

lemma fanout_canonicalize_Inr:
  assumes "fanout_canonicalize s = Inr x"
  obtains agents workloads where "canonical_items ''agents'' (fs_agent_ids s) = Inr agents"
    "canonical_items ''workloads'' (fs_workload_ids s) = Inr workloads"
    "x = s\<lparr>fs_agent_ids := agents, fs_workload_ids := workloads\<rparr>"
    "public_id (fs_provider_id s)" "public_id (fs_model_id s)" "lower_hex 64 (fs_catalog_digest s)"
    "lower_hex 64 (fs_workload_revision s)" "lower_hex 64 (fs_scorer_revision s)"
  using assms by (auto simp: fanout_canonicalize_def result_simps)

lemma fanout_canonicalize_again: "fanout_canonicalize s = Inr x \<Longrightarrow> fanout_canonicalize x = Inr x"
  by (erule fanout_canonicalize_Inr)
     (simp add: fanout_canonicalize_def canonical_items_facts(6) ensure_def)

lemma requests_product:
  "map (\<lambda>r. (rq_agent_id r, rq_workload_id r)) (fanout_requests x mode c)
     = List.product (fs_agent_ids x) (fs_workload_ids x)"
  by (simp add: fanout_requests_def product_concat_map map_concat comp_def fanout_request_def)

lemma admit_selected_Inr:
  fixes admit :: "('b, 'e) admit_backend"
  assumes "admit_selected_with_mode admit key sel mode cred (s, w) = (Inr u, s', w')"
  obtains c x a where "fanout_credential mode cred = (Inr c :: ('e fanout_dispatch_error, _) result)"
    "fanout_canonicalize sel = Inr x" "admit key (fanout_requests x mode c) w = (Inr a, w')"
    "s' = \<lparr>fd_admission = Some a, fd_status = FanoutAdmitted, fd_selection = Some x\<rparr>"
  using assms
  by (cases s) (auto simp: admit_selected_with_mode_def fanout_admit_def Let_def split: sum.splits prod.splits)

definition fanout_inv :: "fanout_state \<times> 'b \<Rightarrow> bool" where
  "fanout_inv = (\<lambda>(s, _). fd_status s \<notin> {FanoutPending, CancelRequested}
     \<and> (fd_status s \<in> {FanoutAdmitted, FanoutCancelled} \<longrightarrow> fd_admission s \<noteq> None)
     \<and> (\<forall>x. fd_selection s = Some x \<longrightarrow> fanout_canonicalize x = Inr x))"

lemma fanout_admit_inv: "fanout_inv sw \<Longrightarrow> fanout_inv (snd (fanout_admit admit key requests sw))"
  by (cases sw) (auto simp: fanout_inv_def fanout_admit_def Let_def split: prod.splits sum.splits)

lemma fanout_step_inv: "fanout_inv sw \<Longrightarrow> fanout_inv (snd (fanout_step ne op sw))"
proof (cases op)
  case (FanoutAdmit admit key requests)
  then show "fanout_inv sw \<Longrightarrow> fanout_inv (snd (fanout_step ne op sw))"
    using fanout_admit_inv [of sw admit key requests] by (cases "fanout_admit admit key requests sw") simp
next
  case (FanoutAdmitSelected admit key sel mode cred)
  assume inv: "fanout_inv sw"
  obtain s w r s' w' where eq: "sw = (s, w)" "admit_selected_with_mode admit key sel mode cred (s, w) = (r, s', w')"
    by (metis surj_pair)
  have "fanout_inv (s', w')"
  proof (cases r)
    case (Inl e)
    then show ?thesis using eq inv
      by (auto simp: admit_selected_with_mode_def fanout_admit_def fanout_inv_def Let_def
          split: sum.splits prod.splits)
  next
    case (Inr u)
    with eq(2) have "admit_selected_with_mode admit key sel mode cred (s, w) = (Inr u, s', w')" by simp
    then show ?thesis by (rule admit_selected_Inr) (auto simp: fanout_inv_def fanout_canonicalize_again)
  qed
  then show "fanout_inv (snd (fanout_step ne op sw))" using FanoutAdmitSelected eq by simp
next
  case (FanoutCancel cancel key)
  then show "fanout_inv sw \<Longrightarrow> fanout_inv (snd (fanout_step ne op sw))"
    by (cases sw) (auto simp: fanout_cancel_def fanout_inv_def Let_def split: option.splits prod.splits sum.splits)
qed

interpretation fanout: safe_machine "fanout_step ne" fanout_inv for ne
  by unfold_locales (rule fanout_step_inv)

section \<open>Properties\<close>

text \<open>
  A fan-out is admitted with exactly its scope. When an admission succeeds, the backend was
  handed one request for every pair of a canonical agent and a canonical workload, each pair
  once, in order; a live admission carries the credential digest it was given, 64 hexadecimal
  digits, and a mock admission carries none; and the state records the admission and the scope.
\<close>

theorem fanout_admits_its_scope:
  fixes admit :: "('b, 'e) admit_backend"
  assumes "admit_selected_with_mode admit key sel mode cred (s, w) = (Inr (), s', w')"
  shows "\<exists>c x a. fanout_canonicalize sel = Inr x \<and> fanout_canonicalize x = Inr x
     \<and> admit key (fanout_requests x mode c) w = (Inr a, w')
     \<and> map (\<lambda>r. (rq_agent_id r, rq_workload_id r)) (fanout_requests x mode c)
         = List.product (fs_agent_ids x) (fs_workload_ids x)
     \<and> distinct (List.product (fs_agent_ids x) (fs_workload_ids x))
     \<and> set (fs_agent_ids x) = set (fs_agent_ids sel) \<and> set (fs_workload_ids x) = set (fs_workload_ids sel)
     \<and> (case mode of FanoutLocalMock \<Rightarrow> c = None
        | FanoutLive \<Rightarrow> cred = c \<and> (\<exists>v. c = Some v \<and> length v = 64 \<and> list_all is_ascii_hexdigit v))
     \<and> s' = \<lparr>fd_admission = Some a, fd_status = FanoutAdmitted, fd_selection = Some x\<rparr>"
proof -
  obtain c x a where f: "fanout_credential mode cred = (Inr c :: ('e fanout_dispatch_error, _) result)"
    "fanout_canonicalize sel = Inr x" "admit key (fanout_requests x mode c) w = (Inr a, w')"
    "s' = \<lparr>fd_admission = Some a, fd_status = FanoutAdmitted, fd_selection = Some x\<rparr>"
    using assms by (rule admit_selected_Inr)
  obtain agents workloads where i: "canonical_items ''agents'' (fs_agent_ids sel) = Inr agents"
    "canonical_items ''workloads'' (fs_workload_ids sel) = Inr workloads"
    "x = sel\<lparr>fs_agent_ids := agents, fs_workload_ids := workloads\<rparr>"
    using f(2) by (rule fanout_canonicalize_Inr)
  have "case mode of FanoutLocalMock \<Rightarrow> c = None
      | FanoutLive \<Rightarrow> cred = c \<and> (\<exists>v. c = Some v \<and> length v = 64 \<and> list_all is_ascii_hexdigit v)"
    using f(1) by (auto simp: fanout_credential_def split: fanout_execution_mode.splits option.splits if_splits)
  moreover have "distinct (List.product agents workloads)"
    using canonical_items_facts(2) [OF i(1)] canonical_items_facts(2) [OF i(2)] by (simp add: distinct_product)
  ultimately show ?thesis
    using f(2-4) requests_product fanout_canonicalize_again [OF f(2)]
      canonical_items_facts(5) [OF i(1)] canonical_items_facts(5) [OF i(2)]
    by (intro exI [of _ c] exI [of _ x] exI [of _ a]) (simp add: i(3))
qed

text \<open>
  Between calls the dispatch state is never in a transient status, an admitted or cancelled
  status comes with an admission, and the scope it reports is canonical, whatever the backends
  answer.
\<close>

theorem fanout_state_settled:
  "fanout_inv (run_calls (fanout_step ne) ops (fanout_default, w))"
  by (rule fanout.run_inv) (simp add: fanout_inv_def fanout_default_def)

text \<open>
  A cancellation that fails reports the fan-out as admitted, whatever its status was: a fan-out
  that is already cancelled, or whose last admission failed, is shown as admitted again.
\<close>

theorem failed_cancel_reports_admitted:
  assumes "fd_admission s = Some a" and "cancel key (fa_members a) w = (Inl e, w')"
  shows "fanout_cancel ne cancel key (s, w) = (Inl e, s\<lparr>fd_status := FanoutAdmitted\<rparr>, w')"
  using assms by (simp add: fanout_cancel_def Let_def)

section \<open>Examples\<close>

definition sample_fanout :: fanout_selection where
  "sample_fanout = \<lparr>fs_agent_ids = [''b'', ''a'', ''b''], fs_workload_ids = [''w''], fs_provider_id = ''p'',
     fs_model_id = ''m'', fs_catalog_digest = replicate 64 CHR ''a'', fs_workload_revision = replicate 64 CHR ''b'',
     fs_scorer_revision = replicate 64 CHR ''c''\<rparr>"

definition sample_backend :: "(nat, unit) admit_backend" where
  "sample_backend key requests n = (Inr \<lparr>fa_idempotency_key = key, fa_members = []\<rparr>, n + length requests)"

theorem fanout_admits_its_scope_witness:
  "snd (snd (admit_selected_with_mode sample_backend ''key'' sample_fanout FanoutLive
     (Some (replicate 64 CHR ''d'')) (fanout_default, 0))) = 2"
proof -
  let ?r = "admit_selected_with_mode sample_backend ''key'' sample_fanout FanoutLive
    (Some (replicate 64 CHR ''d'')) (fanout_default, 0)"
  have canon: "fanout_canonicalize sample_fanout = Inr (sample_fanout\<lparr>fs_agent_ids := [''a'', ''b'']\<rparr>)" by code_simp
  have "is_ok (fst ?r)"
    by (simp add: admit_selected_with_mode_def fanout_admit_def canon fanout_credential_def sample_backend_def text_defs)
  then have r: "?r = (Inr (), fst (snd ?r), snd (snd ?r))"
    by (cases ?r; cases "fst ?r") simp_all
  obtain c x a where x: "fanout_canonicalize sample_fanout = Inr x"
    "sample_backend ''key'' (fanout_requests x FanoutLive c) 0 = (Inr a, snd (snd ?r))"
    "map (\<lambda>r. (rq_agent_id r, rq_workload_id r)) (fanout_requests x FanoutLive c)
       = List.product (fs_agent_ids x) (fs_workload_ids x)"
    using fanout_admits_its_scope [OF r] by blast
  have "x = sample_fanout\<lparr>fs_agent_ids := [''a'', ''b'']\<rparr>" using x(1) canon by simp
  then have "length (List.product (fs_agent_ids x) (fs_workload_ids x)) = 2" by (simp add: sample_fanout_def)
  then have "length (fanout_requests x FanoutLive c) = 2" using x(3) by (metis length_map)
  then show ?thesis using x(2) by (simp add: sample_backend_def)
qed

end
