(* ===== verification/Reports.thy ===== *)
theory Reports
  imports Fanout_Dispatch Ordered_Map "HOL-Library.Multiset"
begin

text \<open>
  Model of \<open>src/reports.rs\<close>: the pages of recent runs, run reports, and the comparison of
  selected runs. Ordered maps are the sorted lists of \<open>Ordered_Map\<close>. Of a floating-point value
  the code only asks whether it is finite; the value is the datatype \<open>f64\<close>. The serialised
  text of an orchestration result (\<open>json\<close>) is not modelled.
\<close>

section \<open>Validation\<close>

definition MAX_PAGE_RUNS :: nat where "MAX_PAGE_RUNS = 100"
definition MAX_RETAINED_PAGES :: nat where "MAX_RETAINED_PAGES = 10"
definition MAX_COMPARE_RUNS :: nat where "MAX_COMPARE_RUNS = 256"
definition MAX_MEASURES :: nat where "MAX_MEASURES = 512"
definition MAX_REPORT_TEXT_BYTES :: nat where "MAX_REPORT_TEXT_BYTES = 512"
definition MAX_COMPARISON_TERMINALS :: nat where "MAX_COMPARISON_TERMINALS = 64"

datatype validation_error =
  TooMany string | DuplicateRun | UnorderedPage | ContradictoryCursor | UnknownRun
| InvalidText string | InvalidCommand | NonPublicText string | SensitiveCommand | InvalidValue

definition validate_ascii_text :: "string \<Rightarrow> string \<Rightarrow> nat \<Rightarrow> (validation_error, unit) result" where
  "validate_ascii_text field s limit =
     (if s = [] \<or> limit < length s then Inl (InvalidText field)
      else if \<not> is_ascii s \<or> has_control s then Inl (NonPublicText field) else Inr ())"

definition run_id_new :: "string \<Rightarrow> (validation_error, string) result" where
  "run_id_new s = and_then (validate_ascii_text ''run_id'' s 128) (\<lambda>_. Inr s)"

section \<open>Recent runs\<close>

datatype run_status =
  StatusQueued | StatusRunning | StatusSucceeded | StatusFailed | StatusCancelled | StatusIncomplete
| StatusCorrupt | StatusUnknown

datatype run_source = SourceLive | SourceLiveRecording | SourceStrictReplay

datatype integrity = Verified | Unverified | IntegrityInvalid

record run_record =
  rn_id :: string
  rn_started_at_ms :: u64
  rn_cursor :: string
  rn_status :: run_status
  rn_source :: run_source
  rn_platform :: string
  rn_agents :: "string list"
  rn_workload :: string
  rn_integrity :: integrity
  rn_concise_result :: "string option"

definition run_validate :: "run_record \<Rightarrow> (validation_error, unit) result" where
  "run_validate r =
     and_then (validate_ascii_text ''cursor'' (rn_cursor r) 256) (\<lambda>_.
     and_then (validate_ascii_text ''platform'' (rn_platform r) MAX_REPORT_TEXT_BYTES) (\<lambda>_.
     and_then (validate_ascii_text ''workload'' (rn_workload r) MAX_REPORT_TEXT_BYTES) (\<lambda>_.
       if 64 < length (rn_agents r) then Inl (TooMany ''agents'')
       else and_then (check_all (\<lambda>a. validate_ascii_text ''agent'' a MAX_REPORT_TEXT_BYTES) (rn_agents r)) (\<lambda>_.
         case rn_concise_result r of None \<Rightarrow> Inr ()
         | Some t \<Rightarrow> validate_ascii_text ''concise_result'' t MAX_REPORT_TEXT_BYTES))))"

record recent_page =
  pg_request_cursor :: "string option"
  pg_runs :: "run_record list"
  pg_next_cursor :: "string option"
  pg_next_started_at_ms :: "u64 option"

text \<open>The order of the pairs \<open>(started_at_ms, id)\<close>.\<close>

definition run_after :: "run_record \<Rightarrow> run_record \<Rightarrow> bool" where
  "run_after r p \<longleftrightarrow> rn_started_at_ms p < rn_started_at_ms r
     \<or> (rn_started_at_ms r = rn_started_at_ms p \<and> rn_id p < rn_id r)"

fun check_page_runs :: "run_record list \<Rightarrow> string set \<Rightarrow> run_record option \<Rightarrow> (validation_error, unit) result" where
  "check_page_runs [] ids previous = Inr ()"
| "check_page_runs (r # rs) ids previous =
     and_then (run_validate r) (\<lambda>_.
       if rn_id r \<in> ids then Inl DuplicateRun
       else if (case previous of None \<Rightarrow> False | Some p \<Rightarrow> run_after r p) then Inl UnorderedPage
       else check_page_runs rs (insert (rn_id r) ids) (Some r))"

definition check_page_cursor :: "recent_page \<Rightarrow> (validation_error, unit) result" where
  "check_page_cursor p =
     (let final = (if pg_runs p = [] then None else Some (last (pg_runs p))) in
      case (pg_next_cursor p, pg_next_started_at_ms p) of
        (Some cursor, Some next_time) \<Rightarrow>
          (case final of
             Some r \<Rightarrow> if cursor \<noteq> [] \<and> next_time \<le> rn_started_at_ms r then Inr () else Inl ContradictoryCursor
           | None \<Rightarrow> Inl ContradictoryCursor)
      | (None, None) \<Rightarrow> Inr ()
      | _ \<Rightarrow> Inl ContradictoryCursor)"

definition page_validate :: "recent_page \<Rightarrow> (validation_error, unit) result" where
  "page_validate p =
     (if MAX_PAGE_RUNS < length (pg_runs p) then Inl (TooMany ''page runs'')
      else if pg_request_cursor p = Some [] then Inl ContradictoryCursor
      else and_then (check_page_runs (pg_runs p) {} None) (\<lambda>_. check_page_cursor p))"

record recent_runs =
  rr_pages :: "(string \<times> recent_page) list"
  rr_filter :: string
  rr_selected :: "string set"

definition recent_default :: recent_runs where
  "recent_default = \<lparr>rr_pages = [], rr_filter = '''', rr_selected = {}\<rparr>"

definition page_ids :: "recent_page \<Rightarrow> string list" where
  "page_ids p = map rn_id (pg_runs p)"

definition available_ids :: "(string \<times> recent_page) list \<Rightarrow> string list" where
  "available_ids pages = concat (map (page_ids \<circ> snd) pages)"

definition prune_selection :: "recent_runs \<Rightarrow> recent_runs" where
  "prune_selection s = s\<lparr>rr_selected := {i \<in> rr_selected s. i \<in> set (available_ids (rr_pages s))}\<rparr>"

text \<open>The loop that removes the page with the least key while there are too many.\<close>

fun evict :: "(string \<times> recent_page) list \<Rightarrow> (string \<times> recent_page) list" where
  "evict pages = (if MAX_RETAINED_PAGES < length pages then evict (tl pages) else pages)"

declare evict.simps [simp del]

definition replace_page :: "string \<Rightarrow> recent_page \<Rightarrow> (recent_runs, validation_error, unit) call" where
  "replace_page key page s =
     (case page_validate page of
        Inl e \<Rightarrow> (Inl e, s)
      | Inr _ \<Rightarrow>
          if key = [] then (Inl ContradictoryCursor, s)
          else if list_ex (\<lambda>i. i \<in> set (page_ids page))
                 (available_ids (filter (\<lambda>(k, _). k \<noteq> key) (rr_pages s)))
          then (Inl DuplicateRun, s)
          else (Inr (), prune_selection (s\<lparr>rr_pages := evict (om_insert key page (rr_pages s))\<rparr>)))"

definition run_matches :: "string \<Rightarrow> run_record \<Rightarrow> bool" where
  "run_matches query r \<longleftrightarrow> query = [] \<or> str_contains (to_ascii_lowercase (rn_id r)) query
     \<or> str_contains (to_ascii_lowercase (rn_workload r)) query
     \<or> str_contains (to_ascii_lowercase (rn_platform r)) query"

fun insert_newest :: "run_record \<Rightarrow> run_record list \<Rightarrow> run_record list" where
  "insert_newest r [] = [r]"
| "insert_newest r (p # rs) = (if run_after p r then p # insert_newest r rs else r # p # rs)"

text \<open>The stable sort, newest first and then by descending id.\<close>

definition sort_newest :: "run_record list \<Rightarrow> run_record list" where
  "sort_newest rs = foldr insert_newest rs []"

definition visible_runs :: "recent_runs \<Rightarrow> run_record list" where
  "visible_runs s = sort_newest (filter (run_matches (to_ascii_lowercase (rr_filter s)))
     (concat (map (pg_runs \<circ> snd) (rr_pages s))))"

definition set_filter :: "string \<Rightarrow> (recent_runs, validation_error, unit) call" where
  "set_filter f s =
     (if MAX_REPORT_TEXT_BYTES < length f \<or> has_control f then (Inl (InvalidText ''filter''), s)
      else (Inr (), s\<lparr>rr_filter := f\<rparr>))"

definition select_run :: "string \<Rightarrow> bool \<Rightarrow> (recent_runs, validation_error, unit) call" where
  "select_run i selected s =
     (if i \<notin> set (available_ids (rr_pages s)) then (Inl UnknownRun, s)
      else (Inr (), s\<lparr>rr_selected := (if selected then insert i (rr_selected s) else rr_selected s - {i})\<rparr>))"

section \<open>Reports\<close>

datatype f64 = Finite_Float int int | Infinite_Float bool | NaN_Float

definition is_finite :: "f64 \<Rightarrow> bool" where
  "is_finite x = (case x of Finite_Float _ _ \<Rightarrow> True | _ \<Rightarrow> False)"

datatype evidence_kind =
  EvidenceDevelopment | EvidenceLive | EvidenceReplay | EvidenceUnavailable | EvidenceUnsupported

datatype report_status =
  ReportComplete | ReportPartial | ReportFailed | ReportCancelled | ReportUnavailable | ReportUnsupported

datatype measure_status = MeasureComplete | MeasureMissing | MeasureFailed | MeasureUncertain

record measure_result =
  mr_value :: "f64 option"
  mr_unit :: string
  mr_status :: measure_status

record artifact =
  art_name :: string
  art_available :: bool

record report =
  rp_run_id :: string
  rp_provenance :: string
  rp_measures :: "(string \<times> measure_result) list"
  rp_uncertainty :: "string option"
  rp_failures :: "string list"
  rp_artifacts :: "artifact list"
  rp_command_argv :: "string list"
  rp_stale :: bool
  rp_evidence :: evidence_kind
  rp_status :: report_status
  rp_compatibility_key :: string

definition report_validate :: "report \<Rightarrow> (validation_error, unit) result" where
  "report_validate r =
     and_then (validate_ascii_text ''provenance'' (rp_provenance r) MAX_REPORT_TEXT_BYTES) (\<lambda>_.
     and_then (validate_ascii_text ''compatibility_key'' (rp_compatibility_key r) MAX_REPORT_TEXT_BYTES) (\<lambda>_.
       if MAX_MEASURES < length (rp_measures r) then Inl (TooMany ''measures'')
       else if 128 < length (rp_command_argv r)
              \<or> list_ex (\<lambda>v. v = [] \<or> char_of (0 :: nat) \<in> set v) (rp_command_argv r)
       then Inl InvalidCommand
       else and_then (check_all (\<lambda>f. validate_ascii_text ''failure'' f MAX_REPORT_TEXT_BYTES) (rp_failures r)) (\<lambda>_.
         if MAX_MEASURES < length (rp_failures r) then Inl (TooMany ''failures'')
         else check_all (\<lambda>(name, m).
           and_then (validate_ascii_text ''measure'' name MAX_REPORT_TEXT_BYTES) (\<lambda>_.
           and_then (validate_ascii_text ''unit'' (mr_unit m) MAX_REPORT_TEXT_BYTES) (\<lambda>_.
             case mr_value m of None \<Rightarrow> Inr ()
             | Some v \<Rightarrow> ensure (is_finite v) InvalidValue))) (rp_measures r))))"

definition is_conclusive :: "report \<Rightarrow> bool" where
  "is_conclusive r \<longleftrightarrow> \<not> rp_stale r \<and> rp_measures r \<noteq> [] \<and> rp_failures r = [] \<and> rp_status r = ReportComplete
     \<and> rp_evidence r \<in> {EvidenceLive, EvidenceReplay, EvidenceDevelopment}
     \<and> list_all (\<lambda>(_, m). mr_status m = MeasureComplete \<and> mr_value m \<noteq> None) (rp_measures r)"

definition safe_shell_char :: "char \<Rightarrow> bool" where
  "safe_shell_char c \<longleftrightarrow> is_ascii_alphanumeric c \<or> c \<in> set ''-._/:=@%+''"

definition quote_char :: char where "quote_char = CHR 0x27"
definition backslash_char :: char where "backslash_char = CHR 0x5C"

definition shell_quote :: "string \<Rightarrow> string" where
  "shell_quote s =
     (if s \<noteq> [] \<and> list_all safe_shell_char s then s
      else [quote_char] @ concat (map (\<lambda>c. if c = quote_char
             then [quote_char, backslash_char, quote_char, quote_char] else [c]) s) @ [quote_char])"

definition sensitive_words :: "string list" where
  "sensitive_words = [''token'', ''password'', ''secret'', ''credential'', ''api-key'', ''apikey'',
     ''authorization'', ''bearer'']"

definition sensitive_arg :: "string option \<Rightarrow> string \<Rightarrow> bool" where
  "sensitive_arg previous arg \<longleftrightarrow> starts_with arg ''/'' \<or> CHR ''$'' \<in> set arg
     \<or> list_ex (\<lambda>w. str_contains (to_ascii_lowercase arg) w) sensitive_words
     \<or> (case previous of None \<Rightarrow> False | Some p \<Rightarrow> starts_with p ''--'' \<and> 96 < length arg)"

fun any_sensitive :: "string option \<Rightarrow> string list \<Rightarrow> bool" where
  "any_sensitive previous [] = False"
| "any_sensitive previous (a # as) = (sensitive_arg previous a \<or> any_sensitive (Some a) as)"

definition shell_command :: "report \<Rightarrow> (validation_error, string) result" where
  "shell_command r = and_then (report_validate r) (\<lambda>_.
     if any_sensitive None (rp_command_argv r) then Inl SensitiveCommand
     else Inr (join '' '' (map shell_quote (rp_command_argv r))))"

record presented_measure =
  pm_name :: string
  pm_value :: "f64 option"
  pm_unit :: string
  pm_status :: measure_status
  pm_next_action :: "string option"

record report_presentation =
  rv_run_id :: string
  rv_evidence :: evidence_kind
  rv_status :: report_status
  rv_provenance :: string
  rv_measures :: "presented_measure list"
  rv_failures :: "string list"
  rv_artifacts :: "artifact list"

definition next_action :: "measure_status \<Rightarrow> string option" where
  "next_action s = (case s of MeasureComplete \<Rightarrow> None
     | MeasureMissing \<Rightarrow> Some ''rerun with this measure selected''
     | MeasureFailed \<Rightarrow> Some ''inspect the failure and rerun''
     | MeasureUncertain \<Rightarrow> Some ''review uncertainty before comparing'')"

definition report_presentation :: "report \<Rightarrow> (validation_error, report_presentation) result" where
  "report_presentation r = and_then (report_validate r) (\<lambda>_.
     Inr \<lparr>rv_run_id = rp_run_id r, rv_evidence = rp_evidence r, rv_status = rp_status r,
       rv_provenance = rp_provenance r,
       rv_measures = sort_key pm_name (map (\<lambda>(name, m). \<lparr>pm_name = name, pm_value = mr_value m,
          pm_unit = mr_unit m, pm_status = mr_status m, pm_next_action = next_action (mr_status m)\<rparr>) (rp_measures r)),
       rv_failures = rp_failures r, rv_artifacts = rp_artifacts r\<rparr>)"

section \<open>Comparison\<close>

datatype compare_error = CompareCardinality | CompareDuplicate | StaleOrDeleted | InvalidReport validation_error

record comparison =
  cm_run_ids :: "string list"
  cm_compatible :: bool
  cm_confounders :: "string list"
  cm_excluded_measures :: "string list"

datatype comparison_availability = ComparisonAvailable | ComparisonPartial | ComparisonUnavailable

datatype comparison_role = Baseline | Candidate

record comparison_side =
  sd_role :: comparison_role
  sd_run_id :: string
  sd_available :: bool
  sd_unavailable_reasons :: "string list"
  sd_confounders :: "string list"

record comparison_assessment =
  ca_run_ids :: "string list"
  ca_availability :: comparison_availability
  ca_comparable :: bool
  ca_sides :: "comparison_side list"
  ca_unavailable_reasons :: "string list"
  ca_confounders :: "string list"
  ca_excluded_measures :: "string list"

text \<open>The map from run identities to reports: the later of two reports of a run replaces the earlier.\<close>

definition by_id :: "report list \<Rightarrow> string \<Rightarrow> report option" where
  "by_id reports i = find (\<lambda>r. rp_run_id r = i) (rev reports)"

definition measure_names :: "report \<Rightarrow> string set" where
  "measure_names r = set (map fst (rp_measures r))"

definition common_measures :: "report list \<Rightarrow> string set" where
  "common_measures rs = foldl (\<lambda>s r. s \<inter> measure_names r) (measure_names (hd rs)) (tl rs)"

definition excluded_measures :: "report list \<Rightarrow> string list" where
  "excluded_measures rs = sorted_list_of_set (\<Union> (measure_names ` set rs) - common_measures rs)"

text \<open>The arms of the match on the report of a selected run, given whether the run was seen before:
  the reasons of its side, and whether the report counts as available.\<close>

definition side_reasons :: "report option \<Rightarrow> bool \<Rightarrow> string list \<times> report list" where
  "side_reasons m seen =
     (case m of None \<Rightarrow> ([''report_missing''], [])
      | Some r \<Rightarrow>
          if seen then ([''duplicate_run''], [])
          else if rp_stale r then ([''report_stale''], [])
          else case report_validate r of
            Inl _ \<Rightarrow> ([''report_invalid''], [])
          | Inr _ \<Rightarrow>
              ((if rp_provenance r = [] then [''provenance_missing''] else [])
               @ (if rp_measures r = [] then [''measures_missing''] else [])
               @ (if \<not> is_conclusive r then [''results_inconclusive''] else []), [r]))"

record assess_state =
  as_seen :: "string set"
  as_sides :: "comparison_side list"
  as_available :: "report list"
  as_reasons :: "string set"

definition assess_step :: "report list \<Rightarrow> assess_state \<Rightarrow> string \<Rightarrow> assess_state" where
  "assess_step reports st i =
     (let m = by_id reports i; (reasons, available) = side_reasons m (i \<in> as_seen st) in
      \<lparr>as_seen = (if m = None then as_seen st else insert i (as_seen st)),
       as_sides = as_sides st @ [\<lparr>sd_role = (if as_sides st = [] then Baseline else Candidate), sd_run_id = i,
         sd_available = (reasons = []), sd_unavailable_reasons = reasons, sd_confounders = []\<rparr>],
       as_available = as_available st @ available,
       as_reasons = as_reasons st \<union> set reasons\<rparr>)"

definition side_confounders :: "report list \<Rightarrow> report \<Rightarrow> string \<Rightarrow> string list" where
  "side_confounders reports base i =
     (case by_id reports i of None \<Rightarrow> []
      | Some r \<Rightarrow>
          if rp_stale r \<or> \<not> is_ok (report_validate r) then []
          else (if rp_provenance r \<noteq> rp_provenance base then [''provenance_differs''] else [])
            @ (if rp_compatibility_key r \<noteq> rp_compatibility_key base then [''compatibility_differs''] else [])
            @ (if rp_evidence r \<noteq> rp_evidence base then [''evidence_kind_differs''] else []))"

definition confound_sides :: "report list \<Rightarrow> report \<Rightarrow> comparison_side list \<Rightarrow> comparison_side list" where
  "confound_sides reports base sides =
     take 1 sides @ map (\<lambda>s. s\<lparr>sd_confounders := side_confounders reports base (sd_run_id s)\<rparr>) (drop 1 sides)"

definition assess_sides :: "report list \<Rightarrow> string list \<Rightarrow> assess_state" where
  "assess_sides reports selected = foldl (assess_step reports)
     \<lparr>as_seen = {}, as_sides = [], as_available = [],
      as_reasons = (if length selected < 2 then {''selection_requires_at_least_two_runs''} else {})\<rparr> selected"

definition assess_comparison :: "report list \<Rightarrow> string list \<Rightarrow> comparison_assessment" where
  "assess_comparison reports selected =
     (let st = assess_sides reports selected;
          excluded = (if as_available st = [] then [] else excluded_measures (as_available st));
          reasons = as_reasons st \<union> (if excluded = [] then {} else {''measures_not_shared''});
          sides = (if as_available st = [] then as_sides st
                   else confound_sides reports (hd (as_available st)) (as_sides st));
          confounders = \<Union> (set ` sd_confounders ` set sides);
          usable = length (filter sd_available sides);
          availability = (if usable = 0 then ComparisonUnavailable
            else if usable < length sides then ComparisonPartial else ComparisonAvailable)
      in \<lparr>ca_run_ids = selected, ca_availability = availability,
          ca_comparable = (availability = ComparisonAvailable \<and> reasons = {} \<and> confounders = {}
            \<and> 2 \<le> length selected),
          ca_sides = sides, ca_unavailable_reasons = sorted_list_of_set reasons,
          ca_confounders = sorted_list_of_set confounders, ca_excluded_measures = excluded\<rparr>)"

fun choose_reports :: "report list \<Rightarrow> string list \<Rightarrow> (compare_error, report list) result" where
  "choose_reports reports [] = Inr []"
| "choose_reports reports (i # is) =
     and_then (ok_or (by_id reports i) StaleOrDeleted) (\<lambda>r.
       if rp_stale r then Inl StaleOrDeleted
       else and_then (map_err InvalidReport (report_validate r)) (\<lambda>_.
         and_then (choose_reports reports is) (\<lambda>rs. Inr (r # rs))))"

definition compare_reports :: "report list \<Rightarrow> string list \<Rightarrow> (compare_error, comparison) result" where
  "compare_reports reports selected =
     (if \<not> (2 \<le> length selected \<and> length selected \<le> MAX_COMPARE_RUNS) then Inl CompareCardinality
      else if has_duplicate selected then Inl CompareDuplicate
      else and_then (choose_reports reports selected) (\<lambda>chosen.
        let base = hd chosen;
            confounders = (if list_ex (\<lambda>r. rp_provenance r \<noteq> rp_provenance base) chosen
                then [''provenance differs''] else [])
              @ (if list_ex (\<lambda>r. rp_compatibility_key r \<noteq> rp_compatibility_key base) chosen
                then [''provider/model/catalog/configuration differs''] else [])
              @ (if list_ex (\<lambda>r. rp_evidence r \<noteq> rp_evidence base) chosen
                then [''evidence kind differs''] else [])
        in Inr \<lparr>cm_run_ids = selected,
             cm_compatible = (confounders = [] \<and> list_all is_conclusive chosen),
             cm_confounders = confounders, cm_excluded_measures = excluded_measures chosen\<rparr>))"

section \<open>Comparison of selected agents\<close>

datatype terminal_source = Online | OfflineReplayed

record terminal_ref =
  tm_run_id :: string
  tm_agent_id :: string
  tm_workload_id :: string
  tm_source :: terminal_source

record agent_comparison =
  sc_selection :: fanout_selection
  sc_terminals :: "terminal_ref list"

datatype orchestration_error =
  InvalidSelection fanout_selection_error | InvalidTerminal string | TooManyTerminals | DuplicateMember
| IncompleteSelection | DuplicateTerminalRun | ComparisonFailed compare_error

record orchestration_result =
  or_selected_run_ids :: "string list"
  or_terminal_sources :: "terminal_source list"
  or_assessment :: comparison_assessment
  or_comparison :: "comparison option"

definition comparison_new :: "fanout_selection \<Rightarrow> (orchestration_error, agent_comparison) result" where
  "comparison_new selection = and_then (map_err InvalidSelection (fanout_canonicalize selection))
     (\<lambda>s. Inr \<lparr>sc_selection = s, sc_terminals = []\<rparr>)"

definition add_terminal :: "terminal_ref \<Rightarrow> (agent_comparison, orchestration_error, unit) call" where
  "add_terminal t s =
     (if MAX_COMPARISON_TERMINALS \<le> length (sc_terminals s) then (Inl TooManyTerminals, s)
      else if tm_agent_id t \<notin> set (fs_agent_ids (sc_selection s))
           \<or> tm_workload_id t \<notin> set (fs_workload_ids (sc_selection s))
      then (Inl (InvalidTerminal ''terminal is outside the selected agent/workload scope''), s)
      else if list_ex (\<lambda>u. tm_agent_id u = tm_agent_id t \<and> tm_workload_id u = tm_workload_id t) (sc_terminals s)
      then (Inl DuplicateMember, s)
      else if list_ex (\<lambda>u. tm_run_id u = tm_run_id t) (sc_terminals s) then (Inl DuplicateTerminalRun, s)
      else (Inr (), s\<lparr>sc_terminals := sc_terminals s @ [t]\<rparr>))"

definition terminal_member :: "terminal_ref \<Rightarrow> string \<times> string" where
  "terminal_member t = (tm_agent_id t, tm_workload_id t)"

definition orchestrate :: "report list \<Rightarrow> agent_comparison \<Rightarrow> (orchestration_error, orchestration_result) result" where
  "orchestrate reports s =
     (let members = set (map terminal_member (sc_terminals s)) in
      if \<not> list_all (\<lambda>a. list_all (\<lambda>w. (a, w) \<in> members) (fs_workload_ids (sc_selection s)))
             (fs_agent_ids (sc_selection s)) then Inl IncompleteSelection
      else
        let ids = map tm_run_id (sc_terminals s); assessment = assess_comparison reports ids in
        and_then (if ca_comparable assessment
                  then and_then (map_err ComparisonFailed (compare_reports reports ids)) (\<lambda>c. Inr (Some c))
                  else Inr None) (\<lambda>c.
          Inr \<lparr>or_selected_run_ids = ids, or_terminal_sources = map tm_source (sc_terminals s),
               or_assessment = assessment, or_comparison = c\<rparr>))"

definition availability_label :: "comparison_availability \<Rightarrow> string" where
  "availability_label a = (case a of ComparisonAvailable \<Rightarrow> ''available'' | ComparisonPartial \<Rightarrow> ''partial''
     | ComparisonUnavailable \<Rightarrow> ''unavailable'')"

definition role_label :: "comparison_role \<Rightarrow> string" where
  "role_label r = (case r of Baseline \<Rightarrow> ''baseline'' | Candidate \<Rightarrow> ''candidate'')"

definition display_reasons :: "string list \<Rightarrow> string" where
  "display_reasons rs = (if rs = [] then ''none'' else join '', '' rs)"

definition comparison_human :: "orchestration_result \<Rightarrow> string" where
  "comparison_human r =
     (let a = or_assessment r; nl = fanout_newline;
          evidence = join '', '' (map (\<lambda>(i, source). i @ ''='' @
             (case source of Online \<Rightarrow> ''Online'' | OfflineReplayed \<Rightarrow> ''OfflineReplay''))
             (zip (or_selected_run_ids r) (or_terminal_sources r)));
          sides = join nl (map (\<lambda>s. ''- '' @ role_label (sd_role s) @ '' '' @ sd_run_id s @ '': ''
             @ (if sd_available s then ''available'' else ''unavailable'')
             @ ''; unavailable: '' @ display_reasons (sd_unavailable_reasons s)
             @ ''; confounders: '' @ display_reasons (sd_confounders s)) (ca_sides a))
      in ''selected-agent comparison'' @ nl
         @ ''Status: '' @ (if or_comparison r \<noteq> None then ''ready'' else ''not-ready'') @ nl
         @ ''Availability: '' @ availability_label (ca_availability a) @ nl
         @ ''Runs: '' @ join '', '' (or_selected_run_ids r) @ nl
         @ ''Evidence: '' @ evidence @ nl
         @ ''Unavailable: '' @ display_reasons (ca_unavailable_reasons a) @ nl
         @ ''Confounders: '' @ display_reasons (ca_confounders a) @ nl
         @ ''Sides:'' @ nl @ sides @ nl)"

section \<open>A shell's reading of a command line\<close>

text \<open>
  How a POSIX shell splits a simple command line into words: blanks separate words, a single
  quote opens a run of literal characters that the next single quote closes, a backslash makes
  the next character literal, and any other character that is special to the shell makes the
  line more than a list of literal words (\<open>None\<close>).
\<close>

definition shell_special :: "char \<Rightarrow> bool" where
  "shell_special c \<longleftrightarrow> c \<in> set ''|&;<>()$`*?[]#~!{}^,'' \<or> c = CHR 0x22 \<or> byte c < 32 \<or> 126 < byte c"

fun shell_words :: "bool \<Rightarrow> string option \<Rightarrow> string \<Rightarrow> string list option" where
  "shell_words False w [] = Some (case w of None \<Rightarrow> [] | Some x \<Rightarrow> [x])"
| "shell_words True w [] = None"
| "shell_words True w (c # s) =
     (if c = quote_char then shell_words False w s
      else shell_words True (Some (case w of None \<Rightarrow> [c] | Some x \<Rightarrow> x @ [c])) s)"
| "shell_words False w (c # s) =
     (if c = CHR '' '' then
        map_option (\<lambda>ws. (case w of None \<Rightarrow> ws | Some x \<Rightarrow> x # ws)) (shell_words False None s)
      else if c = quote_char then shell_words True (Some (case w of None \<Rightarrow> [] | Some x \<Rightarrow> x)) s
      else if c = backslash_char then
        (case s of [] \<Rightarrow> None
         | d # s' \<Rightarrow> shell_words False (Some (case w of None \<Rightarrow> [d] | Some x \<Rightarrow> x @ [d])) s')
      else if shell_special c then None
      else shell_words False (Some (case w of None \<Rightarrow> [c] | Some x \<Rightarrow> x @ [c])) s)"

section \<open>Properties of the command line\<close>

lemma safe_not_special:
  assumes "safe_shell_char c"
  shows "\<not> shell_special c \<and> c \<noteq> CHR '' '' \<and> c \<noteq> quote_char \<and> c \<noteq> backslash_char"
  using assms
  by (auto simp: safe_shell_char_def shell_special_def quote_char_def backslash_char_def
        is_ascii_alphanumeric_def is_ascii_lowercase_def is_ascii_uppercase_def is_ascii_digit_def)

lemma shell_words_safe:
  "list_all safe_shell_char a \<Longrightarrow> a \<noteq> [] \<Longrightarrow>
     shell_words False w (a @ rest) = shell_words False (Some (case w of None \<Rightarrow> a | Some x \<Rightarrow> x @ a)) rest"
proof (induction a arbitrary: w)
  case (Cons c a)
  then show ?case using safe_not_special [of c] by (cases "a = []") (auto split: option.splits)
qed simp

lemma shell_words_quoted:
  "shell_words True (Some w) (concat (map (\<lambda>c. if c = quote_char
       then [quote_char, backslash_char, quote_char, quote_char] else [c]) a) @ quote_char # rest)
     = shell_words False (Some (w @ a)) rest"
proof (induction a arbitrary: w)
  case (Cons c a)
  have "quote_char \<noteq> CHR '' ''" "quote_char \<noteq> backslash_char" "backslash_char \<noteq> CHR '' ''"
    by (simp_all add: quote_char_def backslash_char_def)
  then show ?case using Cons.IH [of "w @ [c]"] by auto
qed simp

lemma shell_words_shell_quote:
  "shell_words False None (shell_quote a @ rest) = shell_words False (Some a) rest"
  using shell_words_safe [of a None rest] shell_words_quoted [of "[]" a rest]
  by (auto simp: shell_quote_def quote_char_def)

lemma shell_words_join: "shell_words False None (join '' '' (map shell_quote args)) = Some args"
proof (induction args rule: induct_list012)
  case (2 a)
  show ?case using shell_words_shell_quote [of a "[]"] by simp
next
  case (3 a b args)
  show ?case using shell_words_shell_quote [of a] 3(2) by simp
qed simp

section \<open>Comparable selections\<close>

definition usable :: "report \<Rightarrow> bool" where
  "usable r \<longleftrightarrow> is_conclusive r \<and> is_ok (report_validate r)"

lemma usable_facts:
  assumes "usable r"
  shows "\<not> rp_stale r" "rp_measures r \<noteq> []" "rp_provenance r \<noteq> []" "report_validate r = Inr ()"
  using assms
  by (auto simp: usable_def is_conclusive_def is_ok_def report_validate_def validate_ascii_text_def
      split: sum.splits if_splits)

lemma side_reasons_Nil_iff:
  "fst (side_reasons m seen) = [] \<longleftrightarrow> \<not> seen \<and> (\<exists>r. m = Some r \<and> usable r)"
proof (cases m)
  case (Some r)
  show ?thesis
  proof (cases "usable r")
    case True
    then show ?thesis using Some usable_facts [OF True] by (auto simp: side_reasons_def usable_def)
  next
    case False
    then have "fst (side_reasons m seen) \<noteq> []"
      using Some by (auto simp: side_reasons_def usable_def split: sum.splits)
    then show ?thesis using False Some by simp
  qed
qed (simp add: side_reasons_def)

lemma side_reasons_usable: "usable r \<Longrightarrow> side_reasons (Some r) False = ([], [r])"
  using usable_facts [of r] by (simp add: side_reasons_def usable_def)

definition chosen :: "report list \<Rightarrow> string list \<Rightarrow> report list" where
  "chosen reports ids = map (\<lambda>i. the (by_id reports i)) ids"

definition all_usable :: "report list \<Rightarrow> string list \<Rightarrow> bool" where
  "all_usable reports ids \<longleftrightarrow> (\<forall>i \<in> set ids. \<exists>r. by_id reports i = Some r \<and> usable r)"

lemma assess_reasons_iff:
  "as_reasons (foldl (assess_step reports) st ids) = {} \<longleftrightarrow>
     as_reasons st = {} \<and> distinct ids \<and> set ids \<inter> as_seen st = {} \<and> all_usable reports ids"
proof (induction ids arbitrary: st)
  case (Cons i ids)
  let ?st = "assess_step reports st i"
  have r: "as_reasons ?st = {} \<longleftrightarrow> as_reasons st = {} \<and> i \<notin> as_seen st \<and> (\<exists>r. by_id reports i = Some r \<and> usable r)"
    using side_reasons_Nil_iff [of "by_id reports i" "i \<in> as_seen st"]
    by (auto simp: assess_step_def Let_def split: prod.splits)
  have s: "as_seen ?st = insert i (as_seen st)" if "by_id reports i = Some r" for r
    using that by (simp add: assess_step_def Let_def split: prod.splits)
  show ?case
    using r s by (auto simp: Cons.IH all_usable_def)
qed (simp add: all_usable_def)

lemma assess_usable:
  assumes "distinct ids" "set ids \<inter> as_seen st = {}" "all_usable reports ids"
  shows "as_available (foldl (assess_step reports) st ids) = as_available st @ chosen reports ids
    \<and> (\<exists>sides. as_sides (foldl (assess_step reports) st ids) = as_sides st @ sides
      \<and> map sd_run_id sides = ids \<and> list_all sd_available sides \<and> list_all (\<lambda>s. sd_confounders s = []) sides)"
  using assms
proof (induction ids arbitrary: st)
  case (Cons i ids)
  let ?st = "assess_step reports st i"
  obtain r where r: "by_id reports i = Some r" "usable r" using Cons.prems by (auto simp: all_usable_def)
  have seen: "i \<notin> as_seen st" using Cons.prems by simp
  have st: "as_seen ?st = insert i (as_seen st)" "as_available ?st = as_available st @ [r]"
    "as_sides ?st = as_sides st @ [\<lparr>sd_role = (if as_sides st = [] then Baseline else Candidate),
       sd_run_id = i, sd_available = True, sd_unavailable_reasons = [], sd_confounders = []\<rparr>]"
    using r(1) seen side_reasons_usable [OF r(2)] by (simp_all add: assess_step_def)
  have pre: "distinct ids" "set ids \<inter> as_seen ?st = {}" "all_usable reports ids"
    using Cons.prems st(1) by (auto simp: all_usable_def)
  show ?case using Cons.IH [OF pre] st r by (auto simp: chosen_def)
qed (simp_all add: chosen_def)

lemma choose_reports_Inr_iff:
  "choose_reports reports ids = Inr rs \<longleftrightarrow>
     (\<forall>i \<in> set ids. \<exists>r. by_id reports i = Some r \<and> \<not> rp_stale r \<and> report_validate r = Inr ())
     \<and> rs = chosen reports ids"
  by (induction ids arbitrary: rs)
     (auto simp: result_simps chosen_def split: if_splits)

lemma compare_reports_Inr:
  "compare_reports reports ids = Inr c \<longleftrightarrow>
     2 \<le> length ids \<and> length ids \<le> MAX_COMPARE_RUNS \<and> distinct ids
     \<and> choose_reports reports ids = Inr (chosen reports ids)
     \<and> compare_reports reports ids = Inr c"
  by (auto simp: compare_reports_def and_then_Inr_iff choose_reports_Inr_iff split: if_splits)

definition agree :: "report \<Rightarrow> report \<Rightarrow> bool" where
  "agree a b \<longleftrightarrow> rp_provenance a = rp_provenance b \<and> rp_compatibility_key a = rp_compatibility_key b
     \<and> rp_evidence a = rp_evidence b"

text \<open>What a successful, compatible comparison without excluded measures means for its reports.\<close>

definition comparable_reports :: "report list \<Rightarrow> bool" where
  "comparable_reports rs \<longleftrightarrow> list_all (agree (hd rs)) rs \<and> excluded_measures rs = []"

lemma compare_compatible_iff:
  "(\<exists>c. compare_reports reports ids = Inr c \<and> cm_compatible c \<and> cm_excluded_measures c = []) \<longleftrightarrow>
     2 \<le> length ids \<and> length ids \<le> MAX_COMPARE_RUNS \<and> distinct ids \<and> all_usable reports ids
     \<and> comparable_reports (chosen reports ids)"
  (is "?L \<longleftrightarrow> ?R")
proof
  assume ?L
  then obtain c where c: "compare_reports reports ids = Inr c" "cm_compatible c" "cm_excluded_measures c = []"
    by blast
  then have d: "2 \<le> length ids" "length ids \<le> MAX_COMPARE_RUNS" "distinct ids"
    and ch: "choose_reports reports ids = Inr (chosen reports ids)"
    using compare_reports_Inr by blast+
  have rs: "list_all is_conclusive (chosen reports ids)" "comparable_reports (chosen reports ids)"
    using c d ch
    by (auto simp: compare_reports_def Let_def comparable_reports_def agree_def list_all_iff list_ex_iff
        split: if_splits)
  moreover have "all_usable reports ids"
    using ch rs(1) by (fastforce simp: choose_reports_Inr_iff all_usable_def usable_def chosen_def list_all_iff)
  ultimately show ?R using d by blast
next
  assume ?R
  then have d: "2 \<le> length ids" "length ids \<le> MAX_COMPARE_RUNS" "distinct ids"
    "all_usable reports ids" "comparable_reports (chosen reports ids)" by blast+
  have "choose_reports reports ids = Inr (chosen reports ids)"
    using d(4) usable_facts(1,4) by (fastforce simp: choose_reports_Inr_iff all_usable_def)
  moreover have "list_all is_conclusive (chosen reports ids)"
    using d(4) by (fastforce simp: all_usable_def usable_def chosen_def list_all_iff)
  ultimately show ?L
    using d by (simp add: compare_reports_def Let_def comparable_reports_def agree_def list_all_iff list_ex_iff)
qed

lemma side_confounders_usable:
  assumes "by_id reports i = Some r" "usable r"
  shows "side_confounders reports base i = [] \<longleftrightarrow> agree base r"
  using assms(1) usable_facts [OF assms(2)] by (auto simp: side_confounders_def agree_def)

lemma confound_sides_keep:
  "map sd_run_id (confound_sides reports base sides) = map sd_run_id sides"
  "list_all sd_available (confound_sides reports base sides) = list_all sd_available sides"
  "length (confound_sides reports base sides) = length sides"
  by (cases sides; simp add: confound_sides_def list_all_iff)+

lemma confounders_empty_iff:
  assumes "map sd_run_id sides = i # ids" "list_all (\<lambda>s. sd_confounders s = []) sides"
    "all_usable reports (i # ids)"
  shows "(\<Union> (set ` sd_confounders ` set (confound_sides reports (the (by_id reports i)) sides)) = {})
    \<longleftrightarrow> list_all (agree (the (by_id reports i))) (chosen reports (i # ids))"
proof -
  let ?b = "the (by_id reports i)"
  obtain s ss where s: "sides = s # ss" "map sd_run_id ss = ids" using assms(1) by (cases sides) auto
  have "(\<Union> (set ` sd_confounders ` set (confound_sides reports ?b sides)) = {})
    \<longleftrightarrow> (\<forall>j \<in> set ids. side_confounders reports ?b j = [])"
    using s assms(2) by (auto simp: confound_sides_def)
  also have "\<dots> \<longleftrightarrow> (\<forall>j \<in> set ids. agree ?b (the (by_id reports j)))"
    using assms(3) side_confounders_usable by (fastforce simp: all_usable_def)
  finally show ?thesis by (auto simp: chosen_def list_all_iff agree_def)
qed

lemma comparable_iff:
  "ca_comparable (assess_comparison reports ids) \<longleftrightarrow>
     2 \<le> length ids \<and> distinct ids \<and> all_usable reports ids \<and> comparable_reports (chosen reports ids)"
proof -
  define st where "st = assess_sides reports ids"
  have reasons: "as_reasons st = {} \<longleftrightarrow> 2 \<le> length ids \<and> distinct ids \<and> all_usable reports ids"
    unfolding st_def assess_sides_def by (auto simp: assess_reasons_iff)
  show ?thesis
  proof (cases "as_reasons st = {}")
    case False
    then have "\<not> ca_comparable (assess_comparison reports ids)"
      by (simp add: assess_comparison_def Let_def flip: st_def)
    then show ?thesis using False reasons by blast
  next
    case True
    then have ok: "2 \<le> length ids" "distinct ids" "all_usable reports ids" using reasons by blast+
    then obtain i js where ids: "ids = i # js" by (cases ids) auto
    have av: "as_available st = chosen reports ids"
      and sides: "map sd_run_id (as_sides st) = ids" "list_all sd_available (as_sides st)"
      "list_all (\<lambda>s. sd_confounders s = []) (as_sides st)"
      using assess_usable [of ids "\<lparr>as_seen = {}, as_sides = [], as_available = [], as_reasons = {}\<rparr>" reports] ok
      unfolding st_def assess_sides_def by auto
    have len: "length (as_sides st) = length ids" using sides(1) by (metis length_map)
    let ?b = "the (by_id reports i)"
    let ?ss = "confound_sides reports ?b (as_sides st)"
    have hd: "hd (chosen reports ids) = ?b" "chosen reports ids \<noteq> []" using ids by (simp_all add: chosen_def)
    have conf: "(\<Union> (set ` sd_confounders ` set ?ss) = {}) \<longleftrightarrow> list_all (agree ?b) (chosen reports ids)"
      using confounders_empty_iff [of "as_sides st" i js reports] sides ok ids by simp
    have "filter sd_available ?ss = ?ss"
      using sides(2) confound_sides_keep(2) by (simp add: list_all_iff)
    moreover have "?ss \<noteq> []" using ids len confound_sides_keep(3) [of reports ?b "as_sides st"] by auto
    ultimately show ?thesis
      using True ok av hd conf len confound_sides_keep(3) [of reports ?b "as_sides st"]
      by (simp add: assess_comparison_def Let_def comparable_reports_def flip: st_def)
  qed
qed

definition comparison_inv :: "agent_comparison \<Rightarrow> bool" where
  "comparison_inv s \<longleftrightarrow> fanout_canonicalize (sc_selection s) = Inr (sc_selection s)
     \<and> distinct (map tm_run_id (sc_terminals s)) \<and> distinct (map terminal_member (sc_terminals s))
     \<and> set (map terminal_member (sc_terminals s))
         \<subseteq> set (fs_agent_ids (sc_selection s)) \<times> set (fs_workload_ids (sc_selection s))
     \<and> length (sc_terminals s) \<le> MAX_COMPARISON_TERMINALS"

lemma add_terminal_inv: "comparison_inv s \<Longrightarrow> comparison_inv (snd (add_terminal t s))"
  by (auto simp: add_terminal_def comparison_inv_def terminal_member_def list_ex_iff)

interpretation compare_run: safe_machine add_terminal comparison_inv
  by unfold_locales (rule add_terminal_inv)

lemma comparison_new_inv: "comparison_new sel = Inr s \<Longrightarrow> comparison_inv s"
  using fanout_canonicalize_again by (auto simp: comparison_new_def comparison_inv_def result_simps)

lemma add_terminals_selection [simp]: "sc_selection (run_calls add_terminal ts s) = sc_selection s"
proof (induction ts arbitrary: s)
  case (Cons t ts)
  have "sc_selection (snd (add_terminal t s)) = sc_selection s" by (simp add: add_terminal_def)
  then show ?case using Cons by simp
qed simp

lemma comparable_within_limit:
  assumes "comparison_inv s" "ca_comparable (assess_comparison reports (map tm_run_id (sc_terminals s)))"
  shows "\<exists>c. compare_reports reports (map tm_run_id (sc_terminals s)) = Inr c \<and> cm_compatible c
    \<and> cm_excluded_measures c = []"
  using assms
  by (simp add: compare_compatible_iff comparable_iff comparison_inv_def MAX_COMPARE_RUNS_def
      MAX_COMPARISON_TERMINALS_def)

lemma orchestrate_members:
  assumes "comparison_inv s" "orchestrate reports s = Inr r"
  shows "set (map terminal_member (sc_terminals s))
    = set (fs_agent_ids (sc_selection s)) \<times> set (fs_workload_ids (sc_selection s))"
    and "or_selected_run_ids r = map tm_run_id (sc_terminals s)"
    and "or_terminal_sources r = map tm_source (sc_terminals s)"
    and "or_assessment r = assess_comparison reports (or_selected_run_ids r)"
    and "or_comparison r \<noteq> None \<longleftrightarrow> ca_comparable (or_assessment r)"
    and "or_comparison r = Some c \<Longrightarrow> compare_reports reports (or_selected_run_ids r) = Inr c"
  using assms
  by (auto simp: orchestrate_def comparison_inv_def Let_def list_all_iff result_simps split: if_splits)

section \<open>Properties of comparisons\<close>


text \<open>
  A selected-agent comparison covers its scope and never claims more than its reports. Start
  from any accepted selection and add any sequence of terminal runs. Orchestration then either
  reports an incomplete selection, or its runs are one distinct run for each agent and workload
  of the canonical scope, with the source of each run kept beside it; a comparison is present
  exactly when the assessment is comparable, and it is then compatible. The error of a failed
  comparison is never returned.
\<close>

theorem orchestration_covers_scope:
  assumes "comparison_new sel = Inr s0" "s = run_calls add_terminal ts s0"
  shows "orchestrate reports s = Inl IncompleteSelection \<or>
    (\<exists>r. orchestrate reports s = Inr r
      \<and> distinct (or_selected_run_ids r) \<and> or_selected_run_ids r = map tm_run_id (sc_terminals s)
      \<and> or_terminal_sources r = map tm_source (sc_terminals s)
      \<and> distinct (map terminal_member (sc_terminals s))
      \<and> set (map terminal_member (sc_terminals s))
          = set (fs_agent_ids (sc_selection s0)) \<times> set (fs_workload_ids (sc_selection s0))
      \<and> (or_comparison r \<noteq> None \<longleftrightarrow> ca_comparable (or_assessment r))
      \<and> (\<forall>c. or_comparison r = Some c \<longrightarrow> cm_compatible c \<and> cm_confounders c = [] \<and> cm_excluded_measures c = []))"
proof -
  have inv: "comparison_inv s"
    using assms comparison_new_inv compare_run.run_inv by blast
  have sel: "sc_selection s = sc_selection s0" using assms(2) by simp
  show ?thesis
  proof (cases "orchestrate reports s")
    case (Inl e)
    then show ?thesis
      using comparable_within_limit [OF inv, of reports]
      by (auto simp: orchestrate_def Let_def split: if_splits)
  next
    case (Inr r)
    have "cm_compatible c \<and> cm_confounders c = [] \<and> cm_excluded_measures c = []" if "or_comparison r = Some c" for c
    proof -
      have c: "compare_reports reports (or_selected_run_ids r) = Inr c" "ca_comparable (or_assessment r)"
        using orchestrate_members(5,6) [OF inv Inr] that by auto
      then have "cm_compatible c \<and> cm_excluded_measures c = []"
        using comparable_within_limit [OF inv, of reports] orchestrate_members(2,4) [OF inv Inr] by auto
      then show ?thesis using c(1)
        by (auto simp: compare_reports_def Let_def result_simps split: if_splits)
    qed
    moreover have "distinct (map tm_run_id (sc_terminals s))" "distinct (map terminal_member (sc_terminals s))"
      using inv by (simp_all add: comparison_inv_def)
    ultimately show ?thesis
      using Inr orchestrate_members [OF inv Inr] sel by auto
  qed
qed

text \<open>
  A wide scope can never be compared. A fan-out may select up to 64 agents and 64 workloads, and
  a comparison needs a terminal run for each pair but holds at most 64 of them: a scope with more
  pairs is accepted, and whatever runs are added, orchestration reports it as incomplete.
\<close>

theorem wide_scope_never_compared:
  assumes "comparison_new sel = Inr s0"
    "MAX_COMPARISON_TERMINALS < card (set (fs_agent_ids (sc_selection s0)) \<times> set (fs_workload_ids (sc_selection s0)))"
  shows "orchestrate reports (run_calls add_terminal ts s0) = Inl IncompleteSelection"
proof -
  let ?s = "run_calls add_terminal ts s0"
  have inv: "comparison_inv ?s" using assms(1) comparison_new_inv compare_run.run_inv by blast
  then have "card (set (map terminal_member (sc_terminals ?s))) \<le> MAX_COMPARISON_TERMINALS"
    using card_length [of "map terminal_member (sc_terminals ?s)"] by (simp add: comparison_inv_def)
  then have "\<not> set (fs_agent_ids (sc_selection s0)) \<times> set (fs_workload_ids (sc_selection s0))
      \<subseteq> set (map terminal_member (sc_terminals ?s))"
    using assms(2) card_mono [OF finite_set] by (meson leD le_trans)
  then show ?thesis by (auto simp: orchestrate_def list_all_iff Let_def)
qed

section \<open>The retained pages\<close>

datatype recent_op = ReplacePage string recent_page | SetFilter string | SelectRun string bool

fun recent_step :: "recent_op \<Rightarrow> (recent_runs, validation_error, unit) call" where
  "recent_step (ReplacePage key page) s = replace_page key page s"
| "recent_step (SetFilter f) s = set_filter f s"
| "recent_step (SelectRun i b) s = select_run i b s"

definition recent_inv :: "recent_runs \<Rightarrow> bool" where
  "recent_inv s \<longleftrightarrow> om_sorted (rr_pages s) \<and> length (rr_pages s) \<le> MAX_RETAINED_PAGES
     \<and> (\<forall>(k, p) \<in> set (rr_pages s). k \<noteq> [] \<and> page_validate p = Inr ())
     \<and> distinct (available_ids (rr_pages s)) \<and> rr_selected s \<subseteq> set (available_ids (rr_pages s))
     \<and> length (rr_filter s) \<le> MAX_REPORT_TEXT_BYTES \<and> \<not> has_control (rr_filter s)"

lemma evict_drop: "evict pages = drop (length pages - MAX_RETAINED_PAGES) pages"
proof (induction pages rule: evict.induct)
  case (1 pages)
  show ?case
  proof (cases "MAX_RETAINED_PAGES < length pages")
    case True
    then obtain p ps where "pages = p # ps" by (cases pages) auto
    then show ?thesis using 1 True by (simp add: evict.simps [of "p # ps"] Suc_diff_le)
  qed (simp add: evict.simps)
qed

lemma available_ids_insert:
  "om_sorted m \<Longrightarrow> mset (available_ids (om_insert k p m))
     = mset (page_ids p) + mset (available_ids (filter (\<lambda>(k', _). k' \<noteq> k) m))"
proof (induction m)
  case (Cons kv m)
  obtain k' p' where kv: "kv = (k', p')" by (cases kv)
  have sorted: "om_sorted m" "\<forall>j \<in> fst ` set m. k' < j" using Cons.prems kv by (auto simp: om_sorted_def)
  have all: "filter (\<lambda>(j, _). j \<noteq> k) m = m" if "k \<le> k'"
    using sorted(2) that by (fastforce simp: filter_id_conv)
  show ?case using Cons.IH [OF sorted(1)] all kv by (auto simp: available_ids_def)
qed (simp add: available_ids_def)

lemma om_insert_subset: "set (om_insert k v m) \<subseteq> insert (k, v) (set m)"
  by (induction m) (auto split: if_splits)

lemma om_insert_length: "length (om_insert k v m) \<le> Suc (length m)"
  by (induction m) auto

lemma check_page_runs_distinct:
  "check_page_runs rs ids prev = Inr () \<Longrightarrow> distinct (map rn_id rs) \<and> set (map rn_id rs) \<inter> ids = {}"
  by (induction rs ids prev rule: check_page_runs.induct) (auto simp: result_simps split: if_splits)

lemma page_ids_distinct: "page_validate p = Inr () \<Longrightarrow> distinct (page_ids p)"
  using check_page_runs_distinct by (auto simp: page_validate_def page_ids_def result_simps split: if_splits)

lemma available_ids_drop:
  "distinct (available_ids m) \<Longrightarrow> distinct (available_ids (drop n m))"
  by (subst (asm) append_take_drop_id [of n m, symmetric]) (simp add: available_ids_def del: append_take_drop_id)

lemma om_sorted_drop: "om_sorted m \<Longrightarrow> om_sorted (drop n m)"
  by (simp add: om_sorted_def drop_map [symmetric] sorted_wrt_drop)

lemma available_ids_filter:
  "distinct (available_ids m) \<Longrightarrow> distinct (available_ids (filter P m))"
  by (induction m) (auto simp: available_ids_def)

lemma replace_page_inv:
  assumes "recent_inv s"
  shows "recent_inv (snd (replace_page key page s))"
proof (cases "fst (replace_page key page s)")
  case (Inl e)
  then have "snd (replace_page key page s) = s"
    by (auto simp: replace_page_def split: sum.splits if_splits)
  then show ?thesis using assms by simp
next
  case (Inr u)
  let ?m = "rr_pages s" and ?n = "om_insert key page (rr_pages s)"
  have ok: "page_validate page = Inr ()" "key \<noteq> []"
    "set (available_ids (filter (\<lambda>(k, _). k \<noteq> key) ?m)) \<inter> set (page_ids page) = {}"
    and s': "snd (replace_page key page s) = prune_selection (s\<lparr>rr_pages := evict ?n\<rparr>)"
    using Inr by (auto simp: replace_page_def list_ex_iff split: sum.splits if_splits)
  have m: "om_sorted ?m" "distinct (available_ids ?m)" using assms by (simp_all add: recent_inv_def)
  have "distinct (page_ids page @ available_ids (filter (\<lambda>(k, _). k \<noteq> key) ?m))"
    using ok(1,3) page_ids_distinct available_ids_filter [OF m(2)] by auto
  then have n: "distinct (available_ids ?n)"
    using available_ids_insert [OF m(1), of key page] by (metis mset_append mset_eq_imp_distinct_iff)
  have pages: "\<forall>(k, p) \<in> set ?n. k \<noteq> [] \<and> page_validate p = Inr ()"
    using assms ok(1,2) om_insert_subset [of key page ?m] by (fastforce simp: recent_inv_def)
  then show ?thesis
    using assms n om_sorted_drop [OF om_insert_sorted [OF m(1), of key page]] available_ids_drop [OF n]
    by (auto simp: s' recent_inv_def prune_selection_def evict_drop dest: in_set_dropD)
qed

interpretation recent: safe_machine recent_step recent_inv
proof unfold_locales
  fix s op assume "recent_inv s"
  then show "recent_inv (snd (recent_step op s))"
  proof (cases op)
    case (ReplacePage key page)
    then show ?thesis using \<open>recent_inv s\<close> by (simp add: replace_page_inv)
  qed (auto simp: set_filter_def select_run_def recent_inv_def)
qed

lemma recent_default_inv: "recent_inv recent_default"
  by (simp add: recent_inv_def recent_default_def om_sorted_def available_ids_def)

lemma insert_newest_mset [simp]: "mset (insert_newest r rs) = add_mset r (mset rs)"
  by (induction rs) auto

lemma insert_newest_sorted:
  assumes "sorted_wrt run_after rs" "\<forall>p \<in> set rs. rn_id p \<noteq> rn_id r"
  shows "sorted_wrt run_after (insert_newest r rs)"
  using assms
proof (induction rs)
  case (Cons p rs)
  have set: "set (insert_newest r rs) = insert r (set rs)" by (induction rs) auto
  have "run_after r p" if "\<not> run_after p r"
    using that Cons.prems by (auto simp: run_after_def not_less le_less)
  moreover have "run_after r q" if "run_after r p" "q \<in> set rs" for q
    using that Cons.prems by (fastforce simp: run_after_def)
  ultimately show ?case using Cons set by auto
qed simp

lemma sort_newest_facts:
  "mset (sort_newest rs) = mset rs"
  "distinct (map rn_id rs) \<Longrightarrow> sorted_wrt run_after (sort_newest rs)"
proof -
  show ms: "mset (sort_newest rs) = mset rs" for rs by (induction rs) (simp_all add: sort_newest_def)
  show "distinct (map rn_id rs) \<Longrightarrow> sorted_wrt run_after (sort_newest rs)"
  proof (induction rs)
    case (Cons r rs)
    have "set (sort_newest rs) = set rs" using ms by (metis set_mset_mset)
    then have "sorted_wrt run_after (insert_newest r (sort_newest rs))"
      using Cons by (intro insert_newest_sorted) (auto simp: image_iff)
    then show ?case by (simp add: sort_newest_def)
  qed (simp add: sort_newest_def)
qed

lemma available_ids_runs: "available_ids m = map rn_id (concat (map (pg_runs \<circ> snd) m))"
  by (simp add: available_ids_def page_ids_def map_concat comp_def)

section \<open>Properties of the recent runs\<close>

text \<open>
  The recent runs stay bounded and unambiguous. After any sequence of page replacements, filter
  changes and selections: at most ten pages are kept, every kept page passed validation, no run
  appears twice, and only runs on kept pages are selected. The visible runs are exactly the runs
  of the kept pages that match the filter, each once, newest first with the identity as the tie
  breaker.
\<close>

theorem recent_runs_consistent:
  fixes ops s defines "s \<equiv> run_calls recent_step ops recent_default"
  shows "recent_inv s \<and> sorted_wrt run_after (visible_runs s) \<and> distinct (map rn_id (visible_runs s))
    \<and> set (visible_runs s) = {r. (\<exists>(k, p) \<in> set (rr_pages s). r \<in> set (pg_runs p))
         \<and> run_matches (to_ascii_lowercase (rr_filter s)) r}"
proof -
  let ?f = "filter (run_matches (to_ascii_lowercase (rr_filter s))) (concat (map (pg_runs \<circ> snd) (rr_pages s)))"
  have inv: "recent_inv s" unfolding s_def by (rule recent.run_inv [OF recent_default_inv])
  then have d: "distinct (map rn_id ?f)"
    unfolding recent_inv_def available_ids_runs by (metis distinct_map_filter)
  have ms: "mset (visible_runs s) = mset ?f" by (simp add: visible_runs_def sort_newest_facts)
  then have "set (visible_runs s) = set ?f" by (metis set_mset_mset)
  moreover have "distinct (map rn_id (visible_runs s))"
    using d ms by (metis mset_map mset_eq_imp_distinct_iff)
  moreover have "sorted_wrt run_after (visible_runs s)"
    using sort_newest_facts(2) [OF d] by (simp add: visible_runs_def)
  ultimately show ?thesis using inv by fastforce
qed

text \<open>
  A replaced page replaces exactly its own page. When a page is accepted, the kept pages are the
  previous ones with the entry of its key replaced, less the entries with the least keys beyond
  the tenth; the loop that removes them ends with at most ten pages.
\<close>

theorem replace_page_exact:
  assumes "recent_inv s" "replace_page key page s = (Inr (), s')"
  shows "rr_pages s' = drop (length (om_insert key page (rr_pages s)) - MAX_RETAINED_PAGES) (om_insert key page (rr_pages s))
    \<and> length (rr_pages s') \<le> MAX_RETAINED_PAGES
    \<and> (length (rr_pages s) < MAX_RETAINED_PAGES \<longrightarrow>
         (\<forall>k. om_get (rr_pages s') k = (if k = key then Some page else om_get (rr_pages s) k)))
    \<and> rr_selected s' = rr_selected s \<inter> set (available_ids (rr_pages s')) \<and> rr_filter s' = rr_filter s"
proof -
  let ?n = "om_insert key page (rr_pages s)"
  have s': "s' = prune_selection (s\<lparr>rr_pages := evict ?n\<rparr>)"
    using assms(2) by (auto simp: replace_page_def split: sum.splits if_splits)
  have sorted: "om_sorted (rr_pages s)" using assms(1) by (simp add: recent_inv_def)
  have small: "evict ?n = ?n" if "length (rr_pages s) < MAX_RETAINED_PAGES"
    using that om_insert_length [of key page "rr_pages s"] by (simp add: evict_drop)
  show ?thesis
    using small om_get_insert [OF sorted, of key page]
    by (auto simp: s' prune_selection_def evict_drop)
qed

text \<open>
  A printed command line is read back as the command: whenever a report's command line is
  printed, a POSIX shell splits it into exactly the argument vector of the report, with no
  expansion, whatever characters the arguments hold.
\<close>

theorem shell_command_roundtrip:
  assumes "shell_command r = Inr line"
  shows "shell_words False None line = Some (rp_command_argv r)"
  using assms by (auto simp: shell_command_def result_simps shell_words_join split: if_splits)

section \<open>Witnesses\<close>

definition sample_report :: "string \<Rightarrow> report" where
  "sample_report i = \<lparr>rp_run_id = i, rp_provenance = ''p'',
     rp_measures = [(''m'', \<lparr>mr_value = Some (Finite_Float 1 0), mr_unit = ''s'', mr_status = MeasureComplete\<rparr>)],
     rp_uncertainty = None, rp_failures = [], rp_artifacts = [],
     rp_command_argv = [''asb'', ''run it''], rp_stale = False,
     rp_evidence = EvidenceLive, rp_status = ReportComplete, rp_compatibility_key = ''k''\<rparr>"

definition sample_terminal :: "string \<Rightarrow> string \<Rightarrow> terminal_ref" where
  "sample_terminal i agent = \<lparr>tm_run_id = i, tm_agent_id = agent, tm_workload_id = ''w'', tm_source = Online\<rparr>"

definition sample_run :: "string \<Rightarrow> run_record" where
  "sample_run i = \<lparr>rn_id = i, rn_started_at_ms = 5, rn_cursor = ''c'', rn_status = StatusSucceeded,
     rn_source = SourceLive, rn_platform = ''p'', rn_agents = [''a''], rn_workload = ''w'',
     rn_integrity = Verified, rn_concise_result = None\<rparr>"

definition sample_page :: recent_page where
  "sample_page = \<lparr>pg_request_cursor = None, pg_runs = [sample_run ''b'', sample_run ''a''],
     pg_next_cursor = None, pg_next_started_at_ms = None\<rparr>"

lemma sample_comparison: "\<exists>c. compare_reports [sample_report ''x'', sample_report ''y''] [''x'', ''y''] = Inr c
    \<and> cm_compatible c \<and> cm_excluded_measures c = []"
proof -
  have "case compare_reports [sample_report ''x'', sample_report ''y''] [''x'', ''y''] of Inl _ \<Rightarrow> False
    | Inr c \<Rightarrow> cm_compatible c \<and> cm_excluded_measures c = []" by code_simp
  then show ?thesis by (auto split: sum.splits)
qed


theorem shell_command_roundtrip_witness:
  "shell_words False None (''asb '' @ quote_char # ''run it'' @ [quote_char]) = Some [''asb'', ''run it'']"
proof -
  have "shell_command (sample_report ''x'') = Inr (''asb '' @ quote_char # ''run it'' @ [quote_char])" by code_simp
  from shell_command_roundtrip [OF this] show ?thesis by (simp add: sample_report_def)
qed

theorem replace_page_exact_witness:
  "\<exists>s. replace_page ''k'' sample_page recent_default = (Inr (), s) \<and> om_get (rr_pages s) ''k'' = Some sample_page"
proof -
  have "is_ok (fst (replace_page ''k'' sample_page recent_default))" by code_simp
  then obtain s where s: "replace_page ''k'' sample_page recent_default = (Inr (), s)"
    by (cases "replace_page ''k'' sample_page recent_default"; cases "fst (replace_page ''k'' sample_page recent_default)") auto
  show ?thesis
    using replace_page_exact [OF recent_default_inv s] s by (simp add: recent_default_def MAX_RETAINED_PAGES_def)
qed

theorem orchestration_covers_scope_witness:
  "\<exists>s0 r. comparison_new sample_fanout = Inr s0
     \<and> orchestrate [sample_report ''x'', sample_report ''y'']
         (run_calls add_terminal [sample_terminal ''x'' ''a'', sample_terminal ''y'' ''b''] s0) = Inr r
     \<and> distinct (or_selected_run_ids r) \<and> or_comparison r \<noteq> None"
proof -
  let ?ts = "[sample_terminal ''x'' ''a'', sample_terminal ''y'' ''b'']"
  let ?reports = "[sample_report ''x'', sample_report ''y'']"
  let ?s0 = "\<lparr>sc_selection = sample_fanout\<lparr>fs_agent_ids := [''a'', ''b'']\<rparr>, sc_terminals = []\<rparr>"
  have s0: "comparison_new sample_fanout = Inr ?s0" by code_simp
  have "is_ok (orchestrate ?reports (run_calls add_terminal ?ts ?s0))" by code_simp
  then obtain r where r: "orchestrate ?reports (run_calls add_terminal ?ts ?s0) = Inr r"
    by (metis is_ok_simps(2) sum.exhaust)
  have ids: "map tm_run_id (sc_terminals (run_calls add_terminal ?ts ?s0)) = [''x'', ''y'']" by code_simp
  have "ca_comparable (assess_comparison ?reports [''x'', ''y''])"
    using sample_comparison by (simp add: compare_compatible_iff comparable_iff)
  moreover have "or_assessment r = assess_comparison ?reports [''x'', ''y'']"
    using orchestrate_members(2,4) [OF compare_run.run_inv [OF comparison_new_inv [OF s0]] r] ids by simp
  ultimately have "distinct (or_selected_run_ids r) \<and> or_comparison r \<noteq> None"
    using orchestration_covers_scope [OF s0 refl, of ?reports ?ts] unfolding r by force
  then show ?thesis using s0 r by blast
qed

definition wide_fanout :: fanout_selection where
  "wide_fanout = sample_fanout\<lparr>fs_agent_ids := map (\<lambda>c. [c]) ''abcdefghijklmnopqrstuvwxyzABCDEFG'', fs_workload_ids := [''v'', ''w'']\<rparr>"

theorem wide_scope_never_compared_witness:
  "\<exists>s0. comparison_new wide_fanout = Inr s0
     \<and> orchestrate [] (run_calls add_terminal [sample_terminal ''x'' ''a''] s0) = Inl IncompleteSelection"
proof -
  have "case comparison_new wide_fanout of Inl _ \<Rightarrow> False
    | Inr s \<Rightarrow> MAX_COMPARISON_TERMINALS < card (set (fs_agent_ids (sc_selection s)) \<times> set (fs_workload_ids (sc_selection s)))"
    by code_simp
  then obtain s0 where "comparison_new wide_fanout = Inr s0"
    "MAX_COMPARISON_TERMINALS < card (set (fs_agent_ids (sc_selection s0)) \<times> set (fs_workload_ids (sc_selection s0)))"
    by (auto split: sum.splits)
  then show ?thesis using wide_scope_never_compared by blast
qed

end
