(* ===== verification/Benchmark_Selection.thy ===== *)
theory Benchmark_Selection
  imports Prelude
begin

text \<open>
  Model of the benchmark half of \<open>src/selection.rs\<close>: the nested catalog of pools, groups,
  benchmarks and measures, the choices made on it and the campaign handed to the runner.
  A \<open>BTreeSet\<close> is a set; where the code walks it in order the model takes its sorted list.
  The main result is that a handoff validates against the catalog it was made from, for every
  sequence of choices, and what replacing the catalog does to that.
\<close>

section \<open>The catalog\<close>

definition MAX_ID_BYTES :: nat where "MAX_ID_BYTES = 128"
definition MAX_TEXT_BYTES :: nat where "MAX_TEXT_BYTES = 256"
definition MAX_QUERY_BYTES :: nat where "MAX_QUERY_BYTES = 256"
definition MAX_MEASUREMENTS :: nat where "MAX_MEASUREMENTS = 128"
definition MAX_POOLS :: nat where "MAX_POOLS = 16"
definition MAX_BENCHMARK_GROUPS :: nat where "MAX_BENCHMARK_GROUPS = 64"
definition MAX_BENCHMARKS :: nat where "MAX_BENCHMARKS = 128"

datatype selection_error =
  EmptyField string | FieldTooLong string | NonPublicText string | DuplicateId
| TooManyMeasurements | UnknownMeasure | UnknownGroup | UnknownPool | UnknownBenchmark
| StaleCatalog | NoSelection | UnavailableMeasure

definition validate_field :: "string \<Rightarrow> string \<Rightarrow> nat \<Rightarrow> (selection_error, unit) result" where
  "validate_field s field limit =
     (if s = [] then Inl (EmptyField field)
      else if limit < length s then Inl (FieldTooLong field)
      else if \<not> is_ascii s \<or> list_ex is_ascii_control s then Inl (NonPublicText field)
      else Inr ())"

definition unique_strings :: "string list \<Rightarrow> (selection_error, unit) result" where
  "unique_strings xs = (if has_duplicate xs then Inl DuplicateId else Inr ())"

record benchmark_measure =
  bm_id :: string
  bm_name :: string
  bm_unit :: string
  bm_available :: bool

definition measure_new :: "string \<Rightarrow> string \<Rightarrow> string \<Rightarrow> bool \<Rightarrow> (selection_error, benchmark_measure) result" where
  "measure_new i nm u available =
     and_then (validate_field i ''measure_id'' MAX_ID_BYTES) (\<lambda>_.
     and_then (validate_field nm ''measure_name'' MAX_TEXT_BYTES) (\<lambda>_.
     and_then (validate_field u ''measure_unit'' MAX_TEXT_BYTES) (\<lambda>_.
       Inr \<lparr>bm_id = i, bm_name = nm, bm_unit = u, bm_available = available\<rparr>)))"

record benchmark_definition =
  bd_id :: string
  bd_name :: string
  bd_measures :: "benchmark_measure list"

definition definition_new :: "string \<Rightarrow> string \<Rightarrow> benchmark_measure list \<Rightarrow>
    (selection_error, benchmark_definition) result" where
  "definition_new i nm ms =
     and_then (validate_field i ''benchmark_id'' MAX_ID_BYTES) (\<lambda>_.
     and_then (validate_field nm ''benchmark_name'' MAX_TEXT_BYTES) (\<lambda>_.
       if ms = [] \<or> MAX_MEASUREMENTS < length ms then Inl TooManyMeasurements
       else and_then (unique_strings (map bm_id ms)) (\<lambda>_.
              Inr \<lparr>bd_id = i, bd_name = nm, bd_measures = ms\<rparr>)))"

record benchmark_group =
  bg_id :: string
  bg_name :: string
  bg_benchmarks :: "benchmark_definition list"

definition group_new :: "string \<Rightarrow> string \<Rightarrow> benchmark_definition list \<Rightarrow>
    (selection_error, benchmark_group) result" where
  "group_new i nm bs =
     and_then (validate_field i ''group_id'' MAX_ID_BYTES) (\<lambda>_.
     and_then (validate_field nm ''group_name'' MAX_TEXT_BYTES) (\<lambda>_.
       if bs = [] then Inl UnknownBenchmark
       else and_then (unique_strings (map bd_id bs)) (\<lambda>_.
              Inr \<lparr>bg_id = i, bg_name = nm, bg_benchmarks = bs\<rparr>)))"

record benchmark_pool =
  bp_id :: string
  bp_name :: string
  bp_groups :: "benchmark_group list"

definition pool_new :: "string \<Rightarrow> string \<Rightarrow> benchmark_group list \<Rightarrow>
    (selection_error, benchmark_pool) result" where
  "pool_new i nm gs =
     and_then (validate_field i ''pool_id'' MAX_ID_BYTES) (\<lambda>_.
     and_then (validate_field nm ''pool_name'' MAX_TEXT_BYTES) (\<lambda>_.
       if gs = [] then Inl UnknownGroup
       else and_then (unique_strings (map bg_id gs)) (\<lambda>_.
              Inr \<lparr>bp_id = i, bp_name = nm, bp_groups = gs\<rparr>)))"

record benchmark_catalog =
  bc_generation :: u64
  bc_digest :: string
  bc_pools :: "benchmark_pool list"

text \<open>The nested iterations of the code.\<close>

definition pool_benchmarks :: "benchmark_pool \<Rightarrow> benchmark_definition list" where
  "pool_benchmarks p = concat (map bg_benchmarks (bp_groups p))"

definition pool_measures :: "benchmark_pool \<Rightarrow> benchmark_measure list" where
  "pool_measures p = concat (map bd_measures (pool_benchmarks p))"

definition pools_benchmarks :: "benchmark_pool list \<Rightarrow> benchmark_definition list" where
  "pools_benchmarks ps = concat (map pool_benchmarks ps)"

definition pools_measures :: "benchmark_pool list \<Rightarrow> benchmark_measure list" where
  "pools_measures ps = concat (map pool_measures ps)"

definition catalog_new :: "u64 \<Rightarrow> string \<Rightarrow> benchmark_pool list \<Rightarrow>
    (selection_error, benchmark_catalog) result" where
  "catalog_new generation digest pools =
     (if generation = 0 \<or> pools = [] \<or> MAX_POOLS < length pools then Inl UnknownPool
      else and_then (validate_field digest ''catalog_digest'' MAX_ID_BYTES) (\<lambda>_.
           and_then (unique_strings (map bp_id pools)) (\<lambda>_.
             if has_duplicate (map bd_id (pools_benchmarks pools))
                \<or> has_duplicate (map bm_id (pools_measures pools))
             then Inl DuplicateId
             else if MAX_BENCHMARK_GROUPS < sum_list (map (\<lambda>p. length (bp_groups p)) pools)
                     \<or> MAX_BENCHMARKS < length (pools_benchmarks pools)
             then Inl TooManyMeasurements
             else Inr \<lparr>bc_generation = generation, bc_digest = digest, bc_pools = pools\<rparr>)))"

definition catalog_benchmark :: "benchmark_catalog \<Rightarrow> string \<Rightarrow> benchmark_definition option" where
  "catalog_benchmark c i = find (\<lambda>b. bd_id b = i) (pools_benchmarks (bc_pools c))"

definition all_measure_ids :: "benchmark_catalog \<Rightarrow> string list" where
  "all_measure_ids c = map bm_id (pools_measures (bc_pools c))"

record campaign_selection =
  cs_generation :: u64
  cs_catalog_digest :: string
  cs_pool_id :: string
  cs_group_ids :: "string list"
  cs_benchmark_ids :: "string list"
  cs_measure_ids :: "string list"

fun validate_measures :: "benchmark_measure list \<Rightarrow> string set \<Rightarrow> string list \<Rightarrow> (selection_error, unit) result" where
  "validate_measures ms seen [] = Inr ()"
| "validate_measures ms seen (i # is) =
     (if i \<in> seen then Inl DuplicateId
      else and_then (ok_or (find (\<lambda>m. bm_id m = i) ms) UnknownMeasure) (\<lambda>m.
             if \<not> bm_available m then Inl UnavailableMeasure
             else validate_measures ms (insert i seen) is))"

definition validate_campaign :: "benchmark_catalog \<Rightarrow> campaign_selection \<Rightarrow> (selection_error, unit) result" where
  "validate_campaign c campaign =
     (if cs_generation campaign \<noteq> bc_generation c \<or> cs_catalog_digest campaign \<noteq> bc_digest c
      then Inl StaleCatalog
      else and_then (ok_or (find (\<lambda>p. bp_id p = cs_pool_id campaign) (bc_pools c)) UnknownPool) (\<lambda>pool.
           and_then (check_all (\<lambda>i. ensure (i \<in> set (map bg_id (bp_groups pool))) UnknownGroup)
                       (cs_group_ids campaign)) (\<lambda>_.
           and_then (check_all (\<lambda>i. ensure (list_ex (\<lambda>b. bd_id b = i) (pool_benchmarks pool)) UnknownBenchmark)
                       (cs_benchmark_ids campaign)) (\<lambda>_.
           and_then (validate_measures (pool_measures pool) {} (cs_measure_ids campaign)) (\<lambda>_.
             if cs_measure_ids campaign = [] then Inl NoSelection else Inr ())))))"

section \<open>The selection\<close>

datatype node_selection = NodeNone | NodePartial | NodeAll

definition node_state :: "nat \<Rightarrow> nat \<Rightarrow> node_selection" where
  "node_state selected visible =
     (if selected = 0 then NodeNone
      else if selected = visible \<and> 0 < visible then NodeAll
      else NodePartial)"

record benchmark_selection =
  bs_catalog :: benchmark_catalog
  bs_pool_id :: string
  bs_selected_benchmarks :: "string set"
  bs_selected_measures :: "string set"
  bs_explicit_all :: bool
  bs_query :: string

definition selection_new :: "benchmark_catalog \<Rightarrow> (selection_error, benchmark_selection) result" where
  "selection_new c = (case bc_pools c of
       [] \<Rightarrow> Inl UnknownPool
     | p # _ \<Rightarrow> Inr \<lparr>bs_catalog = c, bs_pool_id = bp_id p, bs_selected_benchmarks = {},
                   bs_selected_measures = {}, bs_explicit_all = False, bs_query = ''''\<rparr>)"

definition active_pools :: "benchmark_selection \<Rightarrow> benchmark_pool list" where
  "active_pools s = filter (\<lambda>p. bp_id p = bs_pool_id s) (bc_pools (bs_catalog s))"

definition active_measure_ids :: "benchmark_selection \<Rightarrow> string list" where
  "active_measure_ids s = map bm_id (pools_measures (active_pools s))"

definition find_measure :: "benchmark_selection \<Rightarrow> string \<Rightarrow> benchmark_measure option" where
  "find_measure s i = find (\<lambda>m. bm_id m = i) (pools_measures (bc_pools (bs_catalog s)))"

definition measure_in_active_pool :: "benchmark_selection \<Rightarrow> string \<Rightarrow> bool" where
  "measure_in_active_pool s i \<longleftrightarrow>
     list_ex (\<lambda>p. bp_id p = bs_pool_id s \<and> list_ex (\<lambda>m. bm_id m = i) (pool_measures p))
       (bc_pools (bs_catalog s))"

definition benchmark_in_active_pool :: "benchmark_selection \<Rightarrow> string \<Rightarrow> bool" where
  "benchmark_in_active_pool s i \<longleftrightarrow>
     list_ex (\<lambda>p. bp_id p = bs_pool_id s \<and> list_ex (\<lambda>b. bd_id b = i) (pool_benchmarks p))
       (bc_pools (bs_catalog s))"

definition group_benchmark_pairs :: "benchmark_pool \<Rightarrow> (benchmark_group \<times> benchmark_definition) list" where
  "group_benchmark_pairs p = concat (map (\<lambda>g. map (\<lambda>b. (g, b)) (bg_benchmarks g)) (bp_groups p))"

definition measure_matches :: "benchmark_selection \<Rightarrow> string \<Rightarrow> bool" where
  "measure_matches s i =
     (let query = to_ascii_lowercase (bs_query s) in
      if query = [] then True
      else case find_measure s i of
             None \<Rightarrow> False
           | Some m \<Rightarrow>
               (case find (\<lambda>(g, b). list_ex (\<lambda>m'. bm_id m' = i) (bd_measures b))
                       (concat (map group_benchmark_pairs (active_pools s))) of
                  None \<Rightarrow> False
                | Some (g, b) \<Rightarrow>
                    list_ex (\<lambda>v. str_contains (to_ascii_lowercase v) query)
                      [bg_id g, bg_name g, bd_id b, bd_name b, bm_id m, bm_name m]))"

definition is_measure_selected :: "benchmark_selection \<Rightarrow> string \<Rightarrow> bool" where
  "is_measure_selected s i \<longleftrightarrow> i \<in> bs_selected_measures s"

definition selected_measure_ids :: "benchmark_selection \<Rightarrow> string list" where
  "selected_measure_ids s = filter (\<lambda>i. i \<in> bs_selected_measures s) (active_measure_ids s)"

definition visible_measure_ids :: "benchmark_selection \<Rightarrow> string list" where
  "visible_measure_ids s =
     (let query = to_ascii_lowercase (bs_query s) in
      map (\<lambda>(g, b, m). bm_id m)
        (filter (\<lambda>(g, b, m). query = []
             \<or> list_ex (\<lambda>v. str_contains (to_ascii_lowercase v) query)
                 [bg_id g, bg_name g, bd_id b, bd_name b, bm_id m, bm_name m])
          (concat (map (\<lambda>(g, b). map (\<lambda>m. (g, b, m)) (bd_measures b))
             (concat (map group_benchmark_pairs (active_pools s)))))))"

definition refresh_benchmark_flags :: "benchmark_selection \<Rightarrow> benchmark_selection" where
  "refresh_benchmark_flags s = s\<lparr>bs_selected_benchmarks := set (map bd_id
     (filter (\<lambda>b. 0 < length (filter bm_available (bd_measures b))
                \<and> list_all (\<lambda>m. is_measure_selected s (bm_id m)) (filter bm_available (bd_measures b)))
        (pools_benchmarks (active_pools s))))\<rparr>"

definition set_query :: "string \<Rightarrow> (benchmark_selection, selection_error, unit) call" where
  "set_query query s =
     (if MAX_QUERY_BYTES < char_count query then (Inl (FieldTooLong ''query''), s)
      else if has_control query then (Inl (NonPublicText ''query''), s)
      else (Inr (), s\<lparr>bs_query := query\<rparr>))"

definition select_pool :: "string \<Rightarrow> (benchmark_selection, selection_error, unit) call" where
  "select_pool i s =
     (if \<not> list_ex (\<lambda>p. bp_id p = i) (bc_pools (bs_catalog s)) then (Inl UnknownPool, s)
      else (Inr (), s\<lparr>bs_pool_id := i, bs_selected_benchmarks := {}, bs_selected_measures := {},
                      bs_explicit_all := False\<rparr>))"

definition set_explicit_all :: "bool \<Rightarrow> benchmark_selection \<Rightarrow> benchmark_selection" where
  "set_explicit_all enabled s =
     (let s = s\<lparr>bs_explicit_all := enabled\<rparr> in
      if enabled
      then refresh_benchmark_flags (s\<lparr>bs_selected_measures := set (filter
             (\<lambda>i. case find_measure s i of None \<Rightarrow> False | Some m \<Rightarrow> bm_available m)
             (active_measure_ids s))\<rparr>)
      else s\<lparr>bs_selected_measures := {}, bs_selected_benchmarks := {}\<rparr>)"

definition insert_or_remove :: "bool \<Rightarrow> string list \<Rightarrow> string set \<Rightarrow> string set" where
  "insert_or_remove selected ids S = (if selected then S \<union> set ids else S - set ids)"

definition set_benchmark_selected :: "string \<Rightarrow> bool \<Rightarrow> (benchmark_selection, selection_error, unit) call" where
  "set_benchmark_selected i selected s = (case catalog_benchmark (bs_catalog s) i of
       None \<Rightarrow> (Inl UnknownBenchmark, s)
     | Some b \<Rightarrow>
         let ids = map bm_id (bd_measures b) in
         if \<not> benchmark_in_active_pool s i then (Inl UnknownBenchmark, s)
         else if selected \<and> list_ex (\<lambda>j. \<not> measure_in_active_pool s j
                   \<or> (case find_measure s j of None \<Rightarrow> False | Some m \<Rightarrow> \<not> bm_available m)) ids
         then (Inl UnavailableMeasure, s)
         else (Inr (), s\<lparr>bs_explicit_all := False,
                 bs_selected_measures := insert_or_remove selected ids (bs_selected_measures s),
                 bs_selected_benchmarks := insert_or_remove selected [i] (bs_selected_benchmarks s)\<rparr>))"

definition set_measure_selected :: "string \<Rightarrow> bool \<Rightarrow> (benchmark_selection, selection_error, unit) call" where
  "set_measure_selected i selected s =
     (if \<not> measure_in_active_pool s i then (Inl UnknownMeasure, s)
      else case find_measure s i of
             None \<Rightarrow> (Inl UnknownMeasure, s)
           | Some m \<Rightarrow>
               if \<not> bm_available m \<and> selected then (Inl UnavailableMeasure, s)
               else (Inr (), s\<lparr>bs_explicit_all := False,
                      bs_selected_measures := insert_or_remove selected [i] (bs_selected_measures s)\<rparr>))"

definition benchmark_state :: "benchmark_selection \<Rightarrow> string \<Rightarrow> (selection_error, node_selection) result" where
  "benchmark_state s i =
     and_then (ok_or (catalog_benchmark (bs_catalog s) i) UnknownBenchmark) (\<lambda>b.
       if \<not> benchmark_in_active_pool s i then Inl UnknownBenchmark
       else let visible = filter (\<lambda>m. bm_available m \<and> measure_matches s (bm_id m)) (bd_measures b) in
            Inr (node_state (length (filter (\<lambda>m. is_measure_selected s (bm_id m)) visible))
                            (length visible)))"

definition active_group :: "benchmark_selection \<Rightarrow> string \<Rightarrow> (selection_error, benchmark_group) result" where
  "active_group s i = ok_or
     (case find (\<lambda>p. bp_id p = bs_pool_id s) (bc_pools (bs_catalog s)) of
        None \<Rightarrow> None
      | Some p \<Rightarrow> find (\<lambda>g. bg_id g = i) (bp_groups p)) UnknownGroup"

definition visible_group_measures :: "benchmark_selection \<Rightarrow> benchmark_group \<Rightarrow> benchmark_measure list" where
  "visible_group_measures s g =
     filter (\<lambda>m. bm_available m \<and> measure_matches s (bm_id m))
       (concat (map bd_measures (bg_benchmarks g)))"

definition group_state :: "benchmark_selection \<Rightarrow> string \<Rightarrow> (selection_error, node_selection) result" where
  "group_state s i = and_then (active_group s i) (\<lambda>g.
     let (selected, visible) = foldl (\<lambda>(sel, vis) m.
           (sel + of_bool (is_measure_selected s (bm_id m)), vis + 1)) (0, 0) (visible_group_measures s g)
     in Inr (node_state selected visible))"

definition set_group_selected :: "string \<Rightarrow> bool \<Rightarrow> (benchmark_selection, selection_error, unit) call" where
  "set_group_selected i selected s = (case active_group s i of
       Inl e \<Rightarrow> (Inl e, s)
     | Inr g \<Rightarrow> (Inr (), refresh_benchmark_flags (s\<lparr>bs_explicit_all := False,
          bs_selected_measures := insert_or_remove selected (map bm_id (visible_group_measures s g))
            (bs_selected_measures s)\<rparr>)))"

definition chosen_pairs :: "benchmark_selection \<Rightarrow> (benchmark_group \<times> benchmark_definition) list" where
  "chosen_pairs s = filter (\<lambda>(g, b). list_ex (\<lambda>m. bm_id m \<in> bs_selected_measures s) (bd_measures b))
     (concat (map group_benchmark_pairs (active_pools s)))"

definition campaign_handoff :: "benchmark_selection \<Rightarrow> u64 \<Rightarrow> (selection_error, campaign_selection) result" where
  "campaign_handoff s expected_generation =
     (if expected_generation \<noteq> bc_generation (bs_catalog s) then Inl StaleCatalog
      else let ids = selected_measure_ids s in
           if ids = [] then Inl NoSelection
           else Inr \<lparr>cs_generation = bc_generation (bs_catalog s),
                  cs_catalog_digest = bc_digest (bs_catalog s), cs_pool_id = bs_pool_id s,
                  cs_group_ids = sorted_list_of_set (set (map (\<lambda>(g, b). bg_id g) (chosen_pairs s))),
                  cs_benchmark_ids = sorted_list_of_set (set (map (\<lambda>(g, b). bd_id b) (chosen_pairs s))),
                  cs_measure_ids = ids\<rparr>)"

definition replace_catalog :: "benchmark_catalog \<Rightarrow> (benchmark_selection, selection_error, string list) call" where
  "replace_catalog c s =
     (if bc_generation c \<le> bc_generation (bs_catalog s) then (Inl StaleCatalog, s)
      else let previous = bs_selected_measures s;
               explicit_all = bs_explicit_all s;
               valid = set (all_measure_ids c);
               s = s\<lparr>bs_catalog := c\<rparr>
           in case bc_pools c of
                [] \<Rightarrow> (Inl UnknownPool, s)
              | p # _ \<Rightarrow>
                  let s = s\<lparr>bs_pool_id := bp_id p, bs_selected_measures := {i \<in> previous. i \<in> valid},
                            bs_selected_benchmarks := {}\<rparr>;
                      s = (if explicit_all then set_explicit_all True s else s)
                  in (Inr (sorted_list_of_set {i \<in> previous. i \<notin> valid}), s))"

text \<open>The choices a user makes, for sequences of them; a new catalog is a step of its own.\<close>

datatype selection_op =
  SetQuery string | SelectPool string | ExplicitAll bool | SetBenchmark string bool
| SetMeasure string bool | SetGroup string bool

fun selection_step :: "selection_op \<Rightarrow> (benchmark_selection, selection_error, unit) call" where
  "selection_step (SetQuery q) s = set_query q s"
| "selection_step (SelectPool i) s = select_pool i s"
| "selection_step (ExplicitAll b) s = (Inr (), set_explicit_all b s)"
| "selection_step (SetBenchmark i b) s = set_benchmark_selected i b s"
| "selection_step (SetMeasure i b) s = set_measure_selected i b s"
| "selection_step (SetGroup i b) s = set_group_selected i b s"

section \<open>Lemmas\<close>

definition catalog_ok :: "benchmark_catalog \<Rightarrow> bool" where
  "catalog_ok c \<longleftrightarrow> bc_pools c \<noteq> [] \<and> distinct (map bp_id (bc_pools c))
     \<and> distinct (map bd_id (pools_benchmarks (bc_pools c)))
     \<and> distinct (map bm_id (pools_measures (bc_pools c)))"

definition offered_ids :: "benchmark_selection \<Rightarrow> string set" where
  "offered_ids s = bm_id ` {m \<in> set (pools_measures (active_pools s)). bm_available m}"

definition sel_inv :: "benchmark_selection \<Rightarrow> bool" where
  "sel_inv s \<longleftrightarrow> catalog_ok (bs_catalog s) \<and> bs_pool_id s \<in> bp_id ` set (bc_pools (bs_catalog s))
     \<and> bs_selected_measures s \<subseteq> offered_ids s"

lemma catalog_new_ok: "catalog_new g d ps = Inr c \<Longrightarrow> catalog_ok c"
  by (auto simp: catalog_new_def catalog_ok_def unique_strings_def result_simps split: if_splits)

lemma set_pools_measures: "set (pools_measures ps) = (\<Union>p \<in> set ps. set (pool_measures p))"
  by (simp add: pools_measures_def)

lemma set_pool_measures:
  "set (pool_measures p) = (\<Union>g \<in> set (bp_groups p). \<Union>b \<in> set (bg_benchmarks g). set (bd_measures b))"
  by (simp add: pool_measures_def pool_benchmarks_def)

lemma active_measure_subset:
  "set (pools_measures (active_pools s)) \<subseteq> set (pools_measures (bc_pools (bs_catalog s)))"
  by (auto simp: set_pools_measures active_pools_def)

lemma measure_in_active_pool_iff:
  "measure_in_active_pool s i \<longleftrightarrow> i \<in> bm_id ` set (pools_measures (active_pools s))"
  by (auto simp: measure_in_active_pool_def set_pools_measures active_pools_def list_ex_iff)

lemma find_measure_active:
  assumes "catalog_ok (bs_catalog s)" "m \<in> set (pools_measures (active_pools s))"
  shows "find_measure s (bm_id m) = Some m"
  using assms active_measure_subset [of s]
  by (auto simp: find_measure_def catalog_ok_def intro!: find_distinct_key)

text \<open>The fields the flags do not touch.\<close>

lemma refresh_fields [simp]:
  "bs_catalog (refresh_benchmark_flags s) = bs_catalog s"
  "bs_pool_id (refresh_benchmark_flags s) = bs_pool_id s"
  "bs_selected_measures (refresh_benchmark_flags s) = bs_selected_measures s"
  "bs_query (refresh_benchmark_flags s) = bs_query s"
  "bs_explicit_all (refresh_benchmark_flags s) = bs_explicit_all s"
  by (simp_all add: refresh_benchmark_flags_def)

lemma active_pools_cong:
  "bs_catalog s = bs_catalog t \<Longrightarrow> bs_pool_id s = bs_pool_id t \<Longrightarrow> active_pools s = active_pools t"
  by (simp add: active_pools_def)

lemma offered_ids_cong:
  "bs_catalog s = bs_catalog t \<Longrightarrow> bs_pool_id s = bs_pool_id t \<Longrightarrow> offered_ids s = offered_ids t"
  using active_pools_cong [of s t] by (simp add: offered_ids_def)

lemma active_group_measures:
  assumes "active_group s i = Inr g"
  shows "set (concat (map bd_measures (bg_benchmarks g))) \<subseteq> set (pools_measures (active_pools s))"
proof -
  obtain p where p: "find (\<lambda>p. bp_id p = bs_pool_id s) (bc_pools (bs_catalog s)) = Some p"
    "find (\<lambda>g. bg_id g = i) (bp_groups p) = Some g"
    using assms by (auto simp: active_group_def result_simps split: option.splits)
  then have "p \<in> set (active_pools s)" "g \<in> set (bp_groups p)"
    using find_Some_in [OF p(1)] find_Some_in [OF p(2)] by (auto simp: active_pools_def)
  then show ?thesis by (fastforce simp: set_pools_measures set_pool_measures)
qed

lemma sel_inv_change:
  assumes "sel_inv s" "bs_catalog t = bs_catalog s" "bs_pool_id t = bs_pool_id s"
    "bs_selected_measures t \<subseteq> bs_selected_measures s \<union> offered_ids s"
  shows "sel_inv t"
  using assms offered_ids_cong [of t s] by (auto simp: sel_inv_def)

lemma in_insert_or_remove: "j \<in> insert_or_remove b ids S \<Longrightarrow> j \<in> S \<or> (b \<and> j \<in> set ids)"
  by (auto simp: insert_or_remove_def split: if_splits)

lemma sel_inv_explicit_all: "sel_inv s \<Longrightarrow> sel_inv (set_explicit_all b s)"
proof -
  assume inv: "sel_inv s"
  have "i \<in> offered_ids s"
    if "i \<in> set (active_measure_ids s)" "find_measure s i = Some m" "bm_available m" for i m
  proof -
    from that(1) obtain m' where m': "m' \<in> set (pools_measures (active_pools s))" "bm_id m' = i"
      by (auto simp: active_measure_ids_def)
    then have "m' = m" using inv that(2) find_measure_active [of s m'] by (simp add: sel_inv_def)
    with m' that(3) show ?thesis by (auto simp: offered_ids_def)
  qed
  moreover have "find_measure (s\<lparr>bs_explicit_all := b\<rparr>) i = find_measure s i"
    "active_measure_ids (s\<lparr>bs_explicit_all := b\<rparr>) = active_measure_ids s" for b i
    by (simp_all add: find_measure_def active_measure_ids_def active_pools_def)
  ultimately show ?thesis
    by (intro sel_inv_change [OF inv])
       (auto simp: set_explicit_all_def Let_def split: option.splits)
qed

lemma sel_inv_set_measure: "sel_inv s \<Longrightarrow> sel_inv (snd (set_measure_selected i b s))"
proof -
  assume inv: "sel_inv s"
  have "i \<in> offered_ids s" if act: "measure_in_active_pool s i" and f: "find_measure s i = Some m"
    and av: "bm_available m" for m
  proof -
    from act obtain m' where m': "m' \<in> set (pools_measures (active_pools s))" "bm_id m' = i"
      by (auto simp: measure_in_active_pool_iff)
    then have "m' = m" using inv f find_measure_active [of s m'] by (simp add: sel_inv_def)
    with m' av show ?thesis by (auto simp: offered_ids_def)
  qed
  then show ?thesis
    using inv
    by (auto simp: set_measure_selected_def split: option.splits
        intro!: sel_inv_change [OF inv] dest!: in_insert_or_remove)
qed

lemma sel_inv_set_benchmark: "sel_inv s \<Longrightarrow> sel_inv (snd (set_benchmark_selected i b s))"
proof -
  assume inv: "sel_inv s"
  have off: "j \<in> offered_ids s"
    if "(find_measure s j = None \<longrightarrow> measure_in_active_pool s j)
        \<and> (\<forall>m. find_measure s j = Some m \<longrightarrow> measure_in_active_pool s j \<and> bm_available m)" for j
  proof -
    have "measure_in_active_pool s j" using that by (cases "find_measure s j") auto
    then obtain m where m: "m \<in> set (pools_measures (active_pools s))" "bm_id m = j"
      by (auto simp: measure_in_active_pool_iff)
    then have "find_measure s j = Some m" using inv find_measure_active [of s m] by (simp add: sel_inv_def)
    with m that show ?thesis by (auto simp: offered_ids_def)
  qed
  show ?thesis
    using inv
    by (auto simp: set_benchmark_selected_def Let_def list_ex_iff split: option.splits
        intro!: sel_inv_change [OF inv] dest!: in_insert_or_remove) (use off in blast)
qed

lemma sel_inv_set_group: "sel_inv s \<Longrightarrow> sel_inv (snd (set_group_selected i b s))"
proof -
  assume inv: "sel_inv s"
  have "bm_id m \<in> offered_ids s"
    if "active_group s i = Inr g" "m \<in> set (visible_group_measures s g)" for g m
    using active_group_measures [OF that(1)] that(2)
    by (auto simp: visible_group_measures_def offered_ids_def)
  then show ?thesis
    using inv
    by (auto simp: set_group_selected_def split: sum.splits
        intro!: sel_inv_change [OF inv] dest!: in_insert_or_remove)
qed

lemma sel_inv_step: "sel_inv s \<Longrightarrow> sel_inv (snd (selection_step op s))"
proof (cases op)
  case (SelectPool i)
  assume "sel_inv s"
  with SelectPool show ?thesis by (auto simp: select_pool_def sel_inv_def list_ex_iff)
qed (auto simp: set_query_def intro: sel_inv_explicit_all sel_inv_set_measure sel_inv_set_benchmark
       sel_inv_set_group sel_inv_change)

interpretation selection: safe_machine selection_step sel_inv
  by unfold_locales (rule sel_inv_step)

interpretation selection_calls: fail_closed selection_step
proof
  fix op s e s'
  assume "selection_step op s = (Inl e, s')"
  then show "s' = s"
    by (cases op) (auto simp: set_query_def select_pool_def set_benchmark_selected_def
        set_measure_selected_def set_group_selected_def Let_def split: if_splits option.splits sum.splits)
qed

lemma selection_new_inv: "catalog_ok c \<Longrightarrow> selection_new c = Inr s \<Longrightarrow> sel_inv s"
  by (auto simp: selection_new_def sel_inv_def split: list.splits)

lemma active_pools_single:
  assumes "catalog_ok (bs_catalog s)" "bs_pool_id s \<in> bp_id ` set (bc_pools (bs_catalog s))"
  obtains p where "active_pools s = [p]" "p \<in> set (bc_pools (bs_catalog s))" "bp_id p = bs_pool_id s"
    "find (\<lambda>p. bp_id p = bs_pool_id s) (bc_pools (bs_catalog s)) = Some p"
proof -
  obtain p where p: "p \<in> set (bc_pools (bs_catalog s))" "bp_id p = bs_pool_id s" using assms(2) by auto
  have d: "distinct (map bp_id (bc_pools (bs_catalog s)))" using assms(1) by (simp add: catalog_ok_def)
  have "active_pools s = [p]" using filter_distinct_key [OF d p(1)] p(2) by (simp add: active_pools_def)
  with p that find_distinct_key [OF d p] show ?thesis by blast
qed

lemma distinct_pool_measures:
  "distinct (map bm_id (pools_measures ps)) \<Longrightarrow> p \<in> set ps \<Longrightarrow> distinct (map bm_id (pool_measures p))"
  by (induction ps) (auto simp: pools_measures_def)

lemma validate_measures_Inr:
  "distinct ids \<Longrightarrow> set ids \<inter> seen = {} \<Longrightarrow>
   (\<forall>i \<in> set ids. \<exists>m. find (\<lambda>m. bm_id m = i) ms = Some m \<and> bm_available m) \<Longrightarrow>
   validate_measures ms seen ids = Inr ()"
  by (induction ids arbitrary: seen) auto

lemma in_chosen_pairs:
  "(g, b) \<in> set (chosen_pairs s) \<Longrightarrow>
   \<exists>p \<in> set (active_pools s). g \<in> set (bp_groups p) \<and> b \<in> set (bg_benchmarks g)"
  by (auto simp: chosen_pairs_def group_benchmark_pairs_def)

lemma handoff_validates:
  assumes inv: "sel_inv s" and h: "campaign_handoff s generation = Inr campaign"
  shows "validate_campaign (bs_catalog s) campaign = Inr ()"
proof -
  have ok: "catalog_ok (bs_catalog s)" and pool: "bs_pool_id s \<in> bp_id ` set (bc_pools (bs_catalog s))"
    and sel: "bs_selected_measures s \<subseteq> offered_ids s" using inv by (simp_all add: sel_inv_def)
  obtain p where p: "active_pools s = [p]" "p \<in> set (bc_pools (bs_catalog s))" "bp_id p = bs_pool_id s"
    "find (\<lambda>p. bp_id p = bs_pool_id s) (bc_pools (bs_catalog s)) = Some p"
    using active_pools_single [OF ok pool] by blast
  have ids: "active_measure_ids s = map bm_id (pool_measures p)"
    by (simp add: active_measure_ids_def pools_measures_def p(1))
  have d: "distinct (map bm_id (pool_measures p))"
    using ok p(2) distinct_pool_measures by (auto simp: catalog_ok_def)
  have c: "selected_measure_ids s \<noteq> []" "campaign = \<lparr>cs_generation = bc_generation (bs_catalog s),
      cs_catalog_digest = bc_digest (bs_catalog s), cs_pool_id = bs_pool_id s,
      cs_group_ids = sorted_list_of_set (set (map (\<lambda>(g, b). bg_id g) (chosen_pairs s))),
      cs_benchmark_ids = sorted_list_of_set (set (map (\<lambda>(g, b). bd_id b) (chosen_pairs s))),
      cs_measure_ids = selected_measure_ids s\<rparr>"
    using h by (auto simp: campaign_handoff_def Let_def split: if_splits)
  have found: "\<exists>m. find (\<lambda>m. bm_id m = i) (pool_measures p) = Some m \<and> bm_available m"
    if "i \<in> bs_selected_measures s" for i
  proof -
    have "i \<in> offered_ids s" using that sel by blast
    then obtain m where m: "m \<in> set (pool_measures p)" "bm_id m = i" "bm_available m"
      by (auto simp: offered_ids_def p(1) pools_measures_def)
    then show ?thesis using find_distinct_key [OF d m(1,2)] by blast
  qed
  have "validate_measures (pool_measures p) {} (selected_measure_ids s) = Inr ()"
    using d found by (intro validate_measures_Inr) (auto simp: selected_measure_ids_def ids)
  moreover have "check_all (\<lambda>i. ensure (i \<in> set (map bg_id (bp_groups p))) UnknownGroup)
      (cs_group_ids campaign) = Inr ()"
    "check_all (\<lambda>i. ensure (list_ex (\<lambda>b. bd_id b = i) (pool_benchmarks p)) UnknownBenchmark)
      (cs_benchmark_ids campaign) = Inr ()"
    unfolding check_all_Inr_iff c(2)
    using in_chosen_pairs [of _ _ s] p(1)
    by (fastforce simp: list_ex_iff pool_benchmarks_def)+
  ultimately show ?thesis using c p(4) by (simp add: validate_campaign_def)
qed

lemma handoff_no_selection_iff:
  assumes "sel_inv s"
  shows "campaign_handoff s (bc_generation (bs_catalog s)) = Inl NoSelection \<longleftrightarrow> bs_selected_measures s = {}"
proof -
  have "i \<in> set (active_measure_ids s)" if "i \<in> bs_selected_measures s" for i
    using that assms by (auto simp: sel_inv_def offered_ids_def active_measure_ids_def)
  then show ?thesis
    by (auto simp: campaign_handoff_def Let_def selected_measure_ids_def filter_empty_conv)
qed

text \<open>Counting the selected measures of a group.\<close>

lemma group_count:
  "foldl (\<lambda>(sel, vis) m. (sel + of_bool (P m), vis + 1)) (a, b) ms
   = (a + length (filter P ms), b + length (ms :: benchmark_measure list))"
  by (induction ms arbitrary: a b) auto

lemma group_state_eq:
  "active_group s i = Inr g \<Longrightarrow> group_state s i =
     Inr (node_state (length (filter (\<lambda>m. is_measure_selected s (bm_id m)) (visible_group_measures s g)))
                     (length (visible_group_measures s g)))"
  using group_count [of "\<lambda>m. is_measure_selected s (bm_id m)" 0 0 "visible_group_measures s g"]
  by (simp add: group_state_def)

lemma visible_cong:
  assumes "bs_catalog s = bs_catalog t" "bs_pool_id s = bs_pool_id t" "bs_query s = bs_query t"
  shows "visible_group_measures s = visible_group_measures t" "active_group s = active_group t"
proof -
  have "measure_matches s = measure_matches t"
    using assms active_pools_cong [of s t]
    by (auto simp: measure_matches_def find_measure_def fun_eq_iff Let_def split: option.splits)
  then show "visible_group_measures s = visible_group_measures t"
    by (simp add: visible_group_measures_def fun_eq_iff)
  show "active_group s = active_group t" using assms by (simp add: active_group_def fun_eq_iff)
qed

section \<open>Properties\<close>

text \<open>
  C20: a handoff is always valid for its catalog. After any sequence of choices on a catalog
  that was built by its constructor, the campaign handed off passes the catalog's own
  validation, the handoff is refused for lack of a selection exactly when nothing is selected,
  and everything selected is an available measure of the active pool.
\<close>

theorem handoff_always_validates:
  fixes ops
  assumes "catalog_new generation digest pools = Inr c" and "selection_new c = Inr s0"
  defines "s \<equiv> run_calls selection_step ops s0"
  shows "(\<forall>g campaign. campaign_handoff s g = Inr campaign \<longrightarrow>
            g = bc_generation (bs_catalog s) \<and> validate_campaign (bs_catalog s) campaign = Inr ())
       \<and> (campaign_handoff s (bc_generation (bs_catalog s)) = Inl NoSelection
            \<longleftrightarrow> bs_selected_measures s = {})
       \<and> bs_selected_measures s \<subseteq> offered_ids s"
proof -
  have inv: "sel_inv s"
    unfolding s_def using selection.run_inv [OF selection_new_inv] catalog_new_ok assms(1,2) by blast
  have "g = bc_generation (bs_catalog s)" if "campaign_handoff s g = Inr campaign" for g campaign
    using that by (auto simp: campaign_handoff_def split: if_splits)
  then show ?thesis
    using handoff_validates [OF inv] handoff_no_selection_iff [OF inv] inv by (auto simp: sel_inv_def)
qed

definition sample_pool :: "bool \<Rightarrow> benchmark_pool" where
  "sample_pool available = \<lparr>bp_id = ''pool'', bp_name = ''Pool'', bp_groups =
     [\<lparr>bg_id = ''group'', bg_name = ''Group'', bg_benchmarks =
        [\<lparr>bd_id = ''bench'', bd_name = ''Bench'', bd_measures =
           [\<lparr>bm_id = ''cpu'', bm_name = ''CPU'', bm_unit = ''ms'', bm_available = available\<rparr>,
            \<lparr>bm_id = ''mem'', bm_name = ''Memory'', bm_unit = ''MB'', bm_available = True\<rparr>]\<rparr>]\<rparr>]\<rparr>"

definition sample_catalog :: "u64 \<Rightarrow> bool \<Rightarrow> benchmark_catalog" where
  "sample_catalog generation available =
     \<lparr>bc_generation = generation, bc_digest = ''d1'', bc_pools = [sample_pool available]\<rparr>"

definition sample_selection :: benchmark_selection where
  "sample_selection = \<lparr>bs_catalog = sample_catalog 1 True, bs_pool_id = ''pool'',
     bs_selected_benchmarks = {}, bs_selected_measures = {}, bs_explicit_all = False, bs_query = ''''\<rparr>"

lemma sample_catalog_new: "catalog_new 1 ''d1'' [sample_pool True] = Inr (sample_catalog 1 True)"
  by code_simp

lemma sample_selection_new: "selection_new (sample_catalog 1 True) = Inr sample_selection"
  by code_simp

definition handoff_cpu :: campaign_selection where
  "handoff_cpu = \<lparr>cs_generation = 1, cs_catalog_digest = ''d1'', cs_pool_id = ''pool'',
     cs_group_ids = [''group''], cs_benchmark_ids = [''bench''], cs_measure_ids = [''cpu'']\<rparr>"

theorem handoff_always_validates_witness:
  "validate_campaign (bs_catalog (run_calls selection_step [SetMeasure ''cpu'' True] sample_selection))
     handoff_cpu = Inr ()"
proof -
  have "campaign_handoff (run_calls selection_step [SetMeasure ''cpu'' True] sample_selection) 1
      = Inr handoff_cpu" by code_simp
  with handoff_always_validates [OF sample_catalog_new sample_selection_new,
      of "[SetMeasure ''cpu'' True]"] show ?thesis by blast
qed

text \<open>
  A newer catalog can invalidate the handoff. Replacing the catalog keeps a selected
  measure that the new catalog lists as unavailable; the handoff then succeeds and its campaign
  is refused by the new catalog as unavailable.
\<close>

theorem replaced_catalog_handoff_refused:
  "let s = run_calls selection_step [SetMeasure ''cpu'' True] sample_selection;
       (r, s') = replace_catalog (sample_catalog 2 False) s;
       campaign = handoff_cpu\<lparr>cs_generation := 2\<rparr>
   in r = Inr [] \<and> campaign_handoff s' 2 = Inr campaign
      \<and> validate_campaign (bs_catalog s') campaign = Inl UnavailableMeasure"
  by code_simp

text \<open>
  A group's tri-state follows its toggle. Selecting a group leaves it fully selected, or
  without a state when the query shows none of its available measures; clearing it leaves none
  selected; and no measure outside the visible ones of the group changes.
\<close>

theorem group_toggle_state:
  assumes "set_group_selected i b s = (Inr (), s')" and "active_group s i = Inr g"
  shows "group_state s' i = Inr (if b \<and> visible_group_measures s g \<noteq> [] then NodeAll else NodeNone)
       \<and> (\<forall>j. j \<notin> bm_id ` set (visible_group_measures s g) \<longrightarrow>
            is_measure_selected s' j = is_measure_selected s j)"
proof -
  let ?V = "visible_group_measures s g"
  have s': "bs_catalog s' = bs_catalog s" "bs_pool_id s' = bs_pool_id s" "bs_query s' = bs_query s"
    "bs_selected_measures s' = insert_or_remove b (map bm_id ?V) (bs_selected_measures s)"
    using assms by (auto simp: set_group_selected_def)
  have same: "visible_group_measures s' = visible_group_measures s" "active_group s' = active_group s"
    using visible_cong [OF s'(1-3)] by auto
  have "filter (\<lambda>m. is_measure_selected s' (bm_id m)) ?V = (if b then ?V else [])"
    by (auto simp: is_measure_selected_def s'(4) insert_or_remove_def filter_empty_conv
        intro: filter_True)
  then have "group_state s' i = Inr (node_state (if b then length ?V else 0) (length ?V))"
    using group_state_eq [of s' i g] assms(2) same by simp
  moreover have "is_measure_selected s' j = is_measure_selected s j" if "j \<notin> bm_id ` set ?V" for j
    using that by (auto simp: is_measure_selected_def s'(4) insert_or_remove_def)
  ultimately show ?thesis by (auto simp: node_state_def)
qed

theorem group_toggle_state_witness:
  "group_state (snd (set_group_selected ''group'' True sample_selection)) ''group'' = Inr NodeAll"
proof -
  obtain g where g: "active_group sample_selection ''group'' = Inr g" "visible_group_measures sample_selection g \<noteq> []"
  proof
    show "active_group sample_selection ''group'' = Inr (hd (bp_groups (sample_pool True)))" by code_simp
    show "visible_group_measures sample_selection (hd (bp_groups (sample_pool True))) \<noteq> []" by code_simp
  qed
  have "set_group_selected ''group'' True sample_selection
      = (Inr (), snd (set_group_selected ''group'' True sample_selection))"
    using g by (simp add: set_group_selected_def)
  from group_toggle_state [OF this g(1)] g(2) show ?thesis by simp
qed

end
