(* ===== verification/Benchmark_Route.thy ===== *)
theory Benchmark_Route
  imports Adapter_Catalog Reports Benchmark_Selection
begin

text \<open>
  Model of \<open>src/benchmark_route.rs\<close>: the guided benchmark journey from the choice of agents and
  measures through review to a launch or replay intent, and the catalogs of recorded cassettes
  it accepts. The campaign handed over by the benchmark picker is the one of
  \<open>Benchmark_Selection\<close>, the comparison of finished runs the one of \<open>Reports\<close>, and the adapter
  identities are those of the development catalog of \<open>Adapter_Catalog\<close>.
\<close>

section \<open>Data\<close>

definition MAX_ROUTE_ITEMS :: nat where "MAX_ROUTE_ITEMS = 64"
definition MAX_ROUTE_TEXT :: nat where "MAX_ROUTE_TEXT = 128"

datatype replay_mode = ReplayLive | ReplayRecord | OfflineReplay

datatype campaign_stage = StageSelection | StageReview | StageRunning | StageComplete | StageFailed

record guided_catalog =
  gc_workloads :: "string list"
  gc_agents :: "string list"
  gc_measures :: "string list"

record guided_campaign =
  gd_workload :: string
  gd_agents :: "string list"
  gd_measures :: "string list"
  gd_replay :: replay_mode
  gd_stage :: campaign_stage
  gd_catalog :: "guided_catalog option"
  gd_provider_profile_sha256 :: "string option"
  gd_adapter_id :: "string option"

record replay_choice =
  rc_cassette_id :: string
  rc_cassette_sha256 :: string

record replay_catalog =
  rl_provider_profile_sha256 :: string
  rl_agent_id :: string
  rl_compatible :: "replay_choice list"

text \<open>One record serves for the entry on the wire and for the authenticated entry: they have the same fields.\<close>

record cassette_entry =
  ce_cassette_id :: string
  ce_cassette_sha256 :: string
  ce_provider_profile_sha256 :: string
  ce_agent_id :: string
  ce_workload_id :: string
  ce_scorer_revision :: string

record cassette_catalog =
  cc_runner_instance_id :: string
  cc_generation :: u64
  cc_campaign_id :: string
  cc_entries :: "cassette_entry list"

datatype (plugins only: code size) campaign_error =
  MissingWorkload | MissingAgent | MissingMeasure | TooManyItems | RouteInvalidText | InvalidTransition
| OfflineRecordingRequired | LiveFallbackForbidden | RouteComparison compare_error | RouteStaleCatalog
| EmptyCatalogSelection | InvalidReplayCatalog | ReplayUnavailable | ReplayAgentMismatch
| ProviderProfileNotBound | ProviderProfileMismatch | ReplayGenerationMismatch | ReplayCampaignMismatch

record launch_intent =
  li_workload :: string
  li_agents :: "string list"
  li_measures :: "string list"
  li_replay :: replay_mode
  li_catalog_generation :: "u64 option"
  li_catalog_digest :: "string option"
  li_benchmark_ids :: "string list"
  li_adapter_id :: "string option"

record replay_intent =
  ri_workload :: string
  ri_agents :: "string list"
  ri_measures :: "string list"
  ri_recording_id :: string
  ri_cassette_sha256 :: "string option"
  ri_provider_profile_sha256 :: "string option"
  ri_offline_only :: bool
  ri_campaign_id :: "string option"
  ri_generation :: "u64 option"
  ri_adapter_id :: "string option"

section \<open>Validation\<close>

definition valid_identifier :: "string \<Rightarrow> bool" where
  "valid_identifier s \<longleftrightarrow> s \<noteq> [] \<and> length s \<le> MAX_ROUTE_TEXT
     \<and> list_all (\<lambda>b. is_ascii_alphanumeric b \<or> b \<in> {CHR ''.'', CHR ''_'', CHR ''-''}) s"

definition valid_digest :: "string \<Rightarrow> bool" where
  "valid_digest s \<longleftrightarrow> length s = 64 \<and> list_all is_lower_hexdigit s"

definition bounded :: "string \<Rightarrow> (campaign_error, string) result" where
  "bounded s = (if MAX_ROUTE_TEXT < length s \<or> has_control s then Inl RouteInvalidText else Inr s)"

definition push_unique :: "string list \<Rightarrow> string \<Rightarrow> (campaign_error, string list) result" where
  "push_unique xs x =
     (if x \<in> set xs then Inr xs
      else if MAX_ROUTE_ITEMS \<le> length xs then Inl TooManyItems else Inr (xs @ [x]))"

definition entry_valid :: "cassette_entry \<Rightarrow> (campaign_error, unit) result" where
  "entry_valid e =
     (if \<not> valid_identifier (ce_cassette_id e) \<or> \<not> valid_digest (ce_cassette_sha256 e)
         \<or> \<not> valid_digest (ce_provider_profile_sha256 e) \<or> \<not> valid_identifier (ce_agent_id e)
         \<or> \<not> valid_identifier (ce_workload_id e) \<or> \<not> valid_identifier (ce_scorer_revision e)
      then Inl InvalidReplayCatalog else Inr ())"

definition entry_key :: "cassette_entry \<Rightarrow> string \<times> string \<times> string" where
  "entry_key e = (ce_agent_id e, ce_workload_id e, ce_cassette_sha256 e)"

definition authenticate_cassettes :: "cassette_catalog \<Rightarrow> (campaign_error, cassette_catalog) result" where
  "authenticate_cassettes c =
     (if cc_generation c = 0 \<or> \<not> valid_identifier (cc_runner_instance_id c)
         \<or> \<not> valid_identifier (cc_campaign_id c) \<or> cc_entries c = []
         \<or> MAX_ROUTE_ITEMS * 4 < length (cc_entries c)
      then Inl InvalidReplayCatalog
      else and_then (check_all entry_valid (cc_entries c)) (\<lambda>_.
        if any_window2 (\<lambda>a b. entry_key a \<ge> entry_key b) (cc_entries c)
        then Inl InvalidReplayCatalog else Inr c))"

definition replay_catalog_new :: "string \<Rightarrow> string \<Rightarrow> replay_choice list \<Rightarrow> (campaign_error, replay_catalog) result" where
  "replay_catalog_new profile agent choices =
     (if \<not> valid_digest profile \<or> \<not> valid_identifier agent then Inl InvalidReplayCatalog
      else let compatible = sort_key (\<lambda>c. (rc_cassette_id c, rc_cassette_sha256 c)) choices in
        if any_window2 (=) compatible
           \<or> list_ex (\<lambda>c. \<not> valid_identifier (rc_cassette_id c) \<or> \<not> valid_digest (rc_cassette_sha256 c)) compatible
        then Inl InvalidReplayCatalog
        else Inr \<lparr>rl_provider_profile_sha256 = profile, rl_agent_id = agent, rl_compatible = compatible\<rparr>)"

definition guided_catalog_new :: "string list \<Rightarrow> string list \<Rightarrow> string list \<Rightarrow> (campaign_error, guided_catalog) result" where
  "guided_catalog_new workloads agents ms =
     (if workloads = [] \<or> agents = [] \<or> ms = [] \<or> MAX_ROUTE_ITEMS < length workloads
         \<or> MAX_ROUTE_ITEMS < length agents \<or> MAX_ROUTE_ITEMS < length ms
      then Inl MissingWorkload
      else and_then (check_all (\<lambda>v. and_then (bounded v) (\<lambda>v. if v = [] then Inl RouteInvalidText else Inr ()))
             (workloads @ agents @ ms)) (\<lambda>_.
        Inr \<lparr>gc_workloads = workloads, gc_agents = agents, gc_measures = ms\<rparr>))"

section \<open>The guided campaign\<close>

definition guided_new :: "string \<Rightarrow> (campaign_error, guided_campaign) result" where
  "guided_new workload = and_then (bounded workload) (\<lambda>w.
     if w = [] then Inl MissingWorkload
     else Inr \<lparr>gd_workload = w, gd_agents = [], gd_measures = [], gd_replay = ReplayLive,
       gd_stage = StageSelection, gd_catalog = None, gd_provider_profile_sha256 = None, gd_adapter_id = None\<rparr>)"

definition guided_with_catalog :: "string \<Rightarrow> guided_catalog \<Rightarrow> (campaign_error, guided_campaign) result" where
  "guided_with_catalog workload c = and_then (guided_new workload) (\<lambda>g.
     if gd_workload g \<notin> set (gc_workloads c) then Inl MissingWorkload
     else Inr (g\<lparr>gd_catalog := Some c\<rparr>))"

definition bind_provider_profile :: "string \<Rightarrow> (guided_campaign, campaign_error, unit) call" where
  "bind_provider_profile p g =
     (if \<not> valid_digest p then (Inl InvalidReplayCatalog, g)
      else (Inr (), g\<lparr>gd_provider_profile_sha256 := Some p\<rparr>))"

definition bind_adapter_id :: "string \<Rightarrow> (guided_campaign, campaign_error, unit) call" where
  "bind_adapter_id a g =
     (if \<not> valid_identifier a then (Inl RouteInvalidText, g)
      else case development_catalog of
        Inl _ \<Rightarrow> (Inl RouteInvalidText, g)
      | Inr c \<Rightarrow> if om_get (ad_records c) a = None then (Inl RouteInvalidText, g)
                 else (Inr (), g\<lparr>gd_adapter_id := Some a\<rparr>))"

definition ensure_selection :: "guided_campaign \<Rightarrow> (campaign_error, unit) result" where
  "ensure_selection g = ensure (gd_stage g = StageSelection) InvalidTransition"

definition add_agent :: "string \<Rightarrow> (guided_campaign, campaign_error, unit) call" where
  "add_agent a g =
     (case and_then (ensure_selection g) (\<lambda>_. and_then (bounded a) (\<lambda>a.
        if a = [] then Inl MissingAgent
        else if (case gd_catalog g of None \<Rightarrow> False | Some c \<Rightarrow> a \<notin> set (gc_agents c)) then Inl MissingAgent
        else push_unique (gd_agents g) a)) of
      Inl e \<Rightarrow> (Inl e, g) | Inr xs \<Rightarrow> (Inr (), g\<lparr>gd_agents := xs\<rparr>))"

definition add_measure :: "string \<Rightarrow> (guided_campaign, campaign_error, unit) call" where
  "add_measure m g =
     (case and_then (ensure_selection g) (\<lambda>_. and_then (bounded m) (\<lambda>m.
        if m = [] then Inl MissingMeasure
        else if (case gd_catalog g of None \<Rightarrow> False | Some c \<Rightarrow> m \<notin> set (gc_measures c)) then Inl MissingMeasure
        else push_unique (gd_measures g) m)) of
      Inl e \<Rightarrow> (Inl e, g) | Inr xs \<Rightarrow> (Inr (), g\<lparr>gd_measures := xs\<rparr>))"

definition set_replay_mode :: "replay_mode \<Rightarrow> (guided_campaign, campaign_error, unit) call" where
  "set_replay_mode r g =
     (case ensure_selection g of Inl e \<Rightarrow> (Inl e, g) | Inr _ \<Rightarrow> (Inr (), g\<lparr>gd_replay := r\<rparr>))"

definition guided_review :: "(guided_campaign, campaign_error, unit) call" where
  "guided_review g =
     (case and_then (ensure_selection g) (\<lambda>_. if gd_agents g = [] then Inl MissingAgent
        else if gd_measures g = [] then Inl MissingMeasure else Inr ()) of
      Inl e \<Rightarrow> (Inl e, g) | Inr _ \<Rightarrow> (Inr (), g\<lparr>gd_stage := StageReview\<rparr>))"

definition guided_start :: "(guided_campaign, campaign_error, launch_intent) call" where
  "guided_start g =
     (if gd_stage g \<noteq> StageReview then (Inl InvalidTransition, g)
      else if gd_replay g = OfflineReplay then (Inl OfflineRecordingRequired, g)
      else (Inr \<lparr>li_workload = gd_workload g, li_agents = gd_agents g, li_measures = gd_measures g,
              li_replay = gd_replay g, li_catalog_generation = None, li_catalog_digest = None,
              li_benchmark_ids = [], li_adapter_id = gd_adapter_id g\<rparr>, g\<lparr>gd_stage := StageRunning\<rparr>))"

definition start_with_handoff :: "campaign_selection \<Rightarrow> u64 \<Rightarrow> (guided_campaign, campaign_error, launch_intent) call" where
  "start_with_handoff h expected g =
     (case and_then (ensure_selection g) (\<lambda>_. if cs_generation h \<noteq> expected then Inl RouteStaleCatalog
        else if cs_catalog_digest h = [] \<or> cs_measure_ids h = [] then Inl EmptyCatalogSelection else Inr ()) of
      Inl e \<Rightarrow> (Inl e, g)
    | Inr _ \<Rightarrow>
        (case guided_review (g\<lparr>gd_measures := cs_measure_ids h\<rparr>) of
           (Inl e, g) \<Rightarrow> (Inl e, g)
         | (Inr _, g) \<Rightarrow>
             (Inr \<lparr>li_workload = gd_workload g, li_agents = gd_agents g, li_measures = gd_measures g,
                li_replay = gd_replay g, li_catalog_generation = Some (cs_generation h),
                li_catalog_digest = Some (cs_catalog_digest h), li_benchmark_ids = cs_benchmark_ids h,
                li_adapter_id = gd_adapter_id g\<rparr>, g\<lparr>gd_stage := StageRunning\<rparr>)))"

definition start_replay_selected :: "string \<Rightarrow> (guided_campaign, campaign_error, replay_intent) call" where
  "start_replay_selected recording g =
     (if gd_stage g \<noteq> StageReview \<or> gd_replay g \<noteq> OfflineReplay then (Inl InvalidTransition, g)
      else case bounded recording of
        Inl e \<Rightarrow> (Inl e, g)
      | Inr recording \<Rightarrow>
          if recording = [] then (Inl OfflineRecordingRequired, g)
          else (Inr \<lparr>ri_workload = gd_workload g, ri_agents = gd_agents g, ri_measures = gd_measures g,
                  ri_recording_id = recording, ri_cassette_sha256 = None, ri_provider_profile_sha256 = None,
                  ri_offline_only = True, ri_campaign_id = None, ri_generation = None,
                  ri_adapter_id = gd_adapter_id g\<rparr>, g\<lparr>gd_stage := StageRunning\<rparr>))"

definition start_replay_from_catalog :: "replay_catalog \<Rightarrow> string \<Rightarrow> (guided_campaign, campaign_error, replay_intent) call" where
  "start_replay_from_catalog c sha g =
     (if gd_agents g \<noteq> [rl_agent_id c] then (Inl ReplayAgentMismatch, g)
      else case gd_provider_profile_sha256 g of
        None \<Rightarrow> (Inl ProviderProfileNotBound, g)
      | Some profile \<Rightarrow>
          if profile \<noteq> rl_provider_profile_sha256 c then (Inl ProviderProfileMismatch, g)
          else case find (\<lambda>x. rc_cassette_sha256 x = sha) (rl_compatible c) of
            None \<Rightarrow> (Inl ReplayUnavailable, g)
          | Some x \<Rightarrow>
              (case start_replay_selected (rc_cassette_id x) g of
                 (Inl e, g) \<Rightarrow> (Inl e, g)
               | (Inr i, g) \<Rightarrow> (Inr (i\<lparr>ri_cassette_sha256 := Some (rc_cassette_sha256 x),
                     ri_provider_profile_sha256 := Some (rl_provider_profile_sha256 c)\<rparr>), g)))"

definition start_replay_authenticated :: "cassette_catalog \<Rightarrow> string \<Rightarrow> string \<Rightarrow>
    (guided_campaign, campaign_error, replay_intent) call" where
  "start_replay_authenticated c workload sha g =
     (if cc_generation c = 0 \<or> cc_campaign_id c = [] then (Inl InvalidReplayCatalog, g)
      else if length (gd_agents g) \<noteq> 1 then (Inl ReplayAgentMismatch, g)
      else case gd_provider_profile_sha256 g of
        None \<Rightarrow> (Inl ProviderProfileNotBound, g)
      | Some profile \<Rightarrow>
          (case find (\<lambda>e. ce_agent_id e = hd (gd_agents g) \<and> ce_workload_id e = workload
               \<and> ce_cassette_sha256 e = sha \<and> ce_provider_profile_sha256 e = profile) (cc_entries c) of
             None \<Rightarrow> (Inl ReplayUnavailable, g)
           | Some e \<Rightarrow>
               (case start_replay_selected (ce_cassette_id e) g of
                  (Inl err, g) \<Rightarrow> (Inl err, g)
                | (Inr i, g) \<Rightarrow> (Inr (i\<lparr>ri_cassette_sha256 := Some (ce_cassette_sha256 e),
                      ri_provider_profile_sha256 := Some (ce_provider_profile_sha256 e),
                      ri_campaign_id := Some (cc_campaign_id c), ri_generation := Some (cc_generation c),
                      ri_workload := workload\<rparr>), g))))"

definition guided_finish :: "bool \<Rightarrow> (guided_campaign, campaign_error, unit) call" where
  "guided_finish success g =
     (if gd_stage g \<noteq> StageRunning then (Inl InvalidTransition, g)
      else (Inr (), g\<lparr>gd_stage := (if success then StageComplete else StageFailed)\<rparr>))"

definition guided_compare :: "guided_campaign \<Rightarrow> report list \<Rightarrow> string list \<Rightarrow> (campaign_error, comparison) result" where
  "guided_compare g reports selected =
     (if gd_stage g \<noteq> StageComplete then Inl InvalidTransition
      else map_err RouteComparison (compare_reports reports selected))"

section \<open>Sequences of operations\<close>

datatype guided_op =
  BindProfile string | BindAdapter string | AddAgent string | AddMeasure string | SetReplay replay_mode
| Review | Start | StartHandoff campaign_selection u64 | StartReplay replay_catalog string
| StartAuthenticated cassette_catalog string string | Finish bool

datatype guided_output = Done | Launch launch_intent | Replay replay_intent

definition emit :: "('a \<Rightarrow> guided_output) \<Rightarrow> (campaign_error, 'a) result \<times> guided_campaign \<Rightarrow>
    (campaign_error, guided_output) result \<times> guided_campaign" where
  "emit f = (\<lambda>(r, g). (and_then r (\<lambda>x. Inr (f x)), g))"

fun guided_step :: "guided_op \<Rightarrow> (guided_campaign, campaign_error, guided_output) call" where
  "guided_step (BindProfile p) g = emit (\<lambda>_. Done) (bind_provider_profile p g)"
| "guided_step (BindAdapter a) g = emit (\<lambda>_. Done) (bind_adapter_id a g)"
| "guided_step (AddAgent a) g = emit (\<lambda>_. Done) (add_agent a g)"
| "guided_step (AddMeasure m) g = emit (\<lambda>_. Done) (add_measure m g)"
| "guided_step (SetReplay r) g = emit (\<lambda>_. Done) (set_replay_mode r g)"
| "guided_step Review g = emit (\<lambda>_. Done) (guided_review g)"
| "guided_step Start g = emit Launch (guided_start g)"
| "guided_step (StartHandoff h n) g = emit Launch (start_with_handoff h n g)"
| "guided_step (StartReplay c sha) g = emit Replay (start_replay_from_catalog c sha g)"
| "guided_step (StartAuthenticated c w sha) g = emit Replay (start_replay_authenticated c w sha g)"
| "guided_step (Finish b) g = emit (\<lambda>_. Done) (guided_finish b g)"

text \<open>The intents a sequence of operations emits.\<close>

fun intents :: "guided_op list \<Rightarrow> guided_campaign \<Rightarrow> guided_output list" where
  "intents [] g = []"
| "intents (op # ops) g =
     (case guided_step op g of
        (Inl _, g') \<Rightarrow> intents ops g'
      | (Inr x, g') \<Rightarrow> (if x = Done then [] else [x]) @ intents ops g')"

definition stage_rank :: "guided_campaign \<Rightarrow> nat" where
  "stage_rank g = (case gd_stage g of StageSelection \<Rightarrow> 0 | StageReview \<Rightarrow> 1 | StageRunning \<Rightarrow> 2
     | StageComplete \<Rightarrow> 3 | StageFailed \<Rightarrow> 3)"

lemmas guided_defs = bind_provider_profile_def bind_adapter_id_def add_agent_def add_measure_def
  set_replay_mode_def guided_review_def guided_start_def start_with_handoff_def start_replay_selected_def
  start_replay_from_catalog_def start_replay_authenticated_def guided_finish_def ensure_selection_def

definition agents_inv :: "guided_campaign \<Rightarrow> bool" where
  "agents_inv g \<longleftrightarrow> distinct (gd_agents g) \<and> length (gd_agents g) \<le> MAX_ROUTE_ITEMS
     \<and> (\<forall>a \<in> set (gd_agents g). a \<noteq> [] \<and> length a \<le> MAX_ROUTE_TEXT \<and> \<not> has_control a
          \<and> (case gd_catalog g of None \<Rightarrow> True | Some c \<Rightarrow> a \<in> set (gc_agents c)))
     \<and> (gd_stage g \<noteq> StageSelection \<longrightarrow> gd_agents g \<noteq> [] \<and> gd_measures g \<noteq> [])
     \<and> (\<forall>a. gd_adapter_id g = Some a \<longrightarrow> a \<in> set adapter_names)"

lemma bounded_Inr: "bounded s = Inr t \<longleftrightarrow> t = s \<and> length s \<le> MAX_ROUTE_TEXT \<and> \<not> has_control s"
  by (auto simp: bounded_def)

lemma emit_simps [simp]: "snd (emit f x) = snd x" "fst (emit f x) = and_then (fst x) (\<lambda>y. Inr (f y))"
  by (simp_all add: emit_def split_beta)

lemma push_unique_Inr:
  "push_unique xs x = Inr ys \<longleftrightarrow> ys = (if x \<in> set xs then xs else xs @ [x]) \<and> (x \<in> set xs \<or> length xs < MAX_ROUTE_ITEMS)"
  by (auto simp: push_unique_def)

lemma add_agent_inv: "agents_inv g \<Longrightarrow> agents_inv (snd (add_agent a g))"
  by (auto simp: add_agent_def agents_inv_def ensure_selection_def push_unique_Inr bounded_Inr result_simps
      split: sum.splits if_splits option.splits)

lemma bind_adapter_inv:
  assumes "agents_inv g"
  shows "agents_inv (snd (bind_adapter_id a g))"
proof -
  obtain c where c: "development_catalog = Inr c" "map fst (ad_records c) = adapter_names"
    using development_catalog_names by blast
  have "set adapter_names = fst ` set (ad_records c)" using arg_cong [OF c(2), of set] by simp
  then have "a \<in> set adapter_names" if "om_get (ad_records c) a \<noteq> None"
    using that by (simp add: map_of_eq_None_iff)
  then show ?thesis using assms by (simp add: bind_adapter_id_def c(1) agents_inv_def)
qed

interpretation guided: safe_machine guided_step agents_inv
proof unfold_locales
  fix g op assume g: "agents_inv g"
  show "agents_inv (snd (guided_step op g))"
  proof (cases op)
    case (AddAgent a)
    then show ?thesis using add_agent_inv [OF g, of a] by simp
  next
    case (BindAdapter a)
    then show ?thesis using bind_adapter_inv [OF g, of a] by simp
  qed (use g in \<open>auto simp: guided_defs agents_inv_def result_simps push_unique_def
         split: sum.splits if_splits option.splits prod.splits\<close>)
qed

lemma guided_review_Inr:
  "guided_review g = (Inr u, g') \<longleftrightarrow> gd_stage g = StageSelection \<and> gd_agents g \<noteq> [] \<and> gd_measures g \<noteq> []
     \<and> g' = g\<lparr>gd_stage := StageReview\<rparr>"
  by (auto simp: guided_review_def ensure_selection_def result_simps split: sum.splits if_splits)

lemma start_replay_selected_Inr:
  "start_replay_selected r g = (Inr i, g') \<Longrightarrow> gd_stage g = StageReview \<and> gd_replay g = OfflineReplay
     \<and> g' = g\<lparr>gd_stage := StageRunning\<rparr> \<and> r \<noteq> []
     \<and> i = \<lparr>ri_workload = gd_workload g, ri_agents = gd_agents g, ri_measures = gd_measures g,
         ri_recording_id = r, ri_cassette_sha256 = None, ri_provider_profile_sha256 = None,
         ri_offline_only = True, ri_campaign_id = None, ri_generation = None, ri_adapter_id = gd_adapter_id g\<rparr>"
  by (auto simp: start_replay_selected_def bounded_Inr split: sum.splits if_splits)

lemma start_replay_from_catalog_Inr:
  assumes "start_replay_from_catalog c sha g = (Inr i, g')"
  shows "gd_stage g = StageReview \<and> gd_replay g = OfflineReplay \<and> g' = g\<lparr>gd_stage := StageRunning\<rparr>
    \<and> gd_agents g = [rl_agent_id c] \<and> gd_provider_profile_sha256 g = Some (rl_provider_profile_sha256 c)
    \<and> (\<exists>x \<in> set (rl_compatible c). rc_cassette_sha256 x = sha \<and> ri_recording_id i = rc_cassette_id x)
    \<and> ri_cassette_sha256 i = Some sha \<and> ri_provider_profile_sha256 i = gd_provider_profile_sha256 g
    \<and> ri_offline_only i \<and> ri_agents i = gd_agents g \<and> ri_workload i = gd_workload g"
  using assms
  by (auto simp: start_replay_from_catalog_def dest!: find_Some_in start_replay_selected_Inr
      split: if_splits option.splits prod.splits sum.splits)

lemma start_replay_authenticated_Inr:
  assumes "start_replay_authenticated c w sha g = (Inr i, g')"
  obtains e where "gd_stage g = StageReview" "gd_replay g = OfflineReplay" "g' = g\<lparr>gd_stage := StageRunning\<rparr>"
    "e \<in> set (cc_entries c)" "gd_agents g = [ce_agent_id e]" "ce_workload_id e = w" "ce_cassette_sha256 e = sha"
    "gd_provider_profile_sha256 g = Some (ce_provider_profile_sha256 e)"
    "i = \<lparr>ri_workload = w, ri_agents = gd_agents g, ri_measures = gd_measures g,
       ri_recording_id = ce_cassette_id e, ri_cassette_sha256 = Some sha,
       ri_provider_profile_sha256 = gd_provider_profile_sha256 g, ri_offline_only = True,
       ri_campaign_id = Some (cc_campaign_id c), ri_generation = Some (cc_generation c),
       ri_adapter_id = gd_adapter_id g\<rparr>"
proof -
  have one: "length (gd_agents g) = 1"
    using assms by (auto simp: start_replay_authenticated_def split: if_splits)
  then obtain a where a: "gd_agents g = [a]" by (auto simp: length_Suc_conv)
  show thesis
    using assms a that
    by (auto simp: start_replay_authenticated_def dest!: find_Some_in start_replay_selected_Inr
        split: if_splits option.splits prod.splits sum.splits)
qed

lemma intent_stage:
  assumes "guided_step op g = (Inr x, g')" "x \<noteq> Done"
  shows "stage_rank g < 2 \<and> stage_rank g' = 2"
proof (cases op)
  case Start
  then show ?thesis using assms
    by (auto simp: guided_start_def emit_def stage_rank_def result_simps split: if_splits)
next
  case (StartHandoff h n)
  then show ?thesis using assms
    by (auto simp: start_with_handoff_def emit_def stage_rank_def result_simps ensure_selection_def guided_review_Inr
        split: sum.splits if_splits prod.splits)
next
  case (StartReplay c sha)
  then obtain i where "start_replay_from_catalog c sha g = (Inr i, g')"
    using assms by (auto simp: emit_def result_simps split: prod.splits)
  then show ?thesis using start_replay_from_catalog_Inr by (fastforce simp: stage_rank_def)
next
  case (StartAuthenticated c w sha)
  then obtain i where "start_replay_authenticated c w sha g = (Inr i, g')"
    using assms by (auto simp: emit_def result_simps split: prod.splits)
  then show ?thesis by (rule start_replay_authenticated_Inr) (simp add: stage_rank_def)
qed (use assms in \<open>auto simp: emit_def result_simps split: prod.splits\<close>)

lemma refused_replay:
  "start_replay_selected r g = (Inl e, g') \<Longrightarrow> g' = g"
  "start_replay_from_catalog c sha g = (Inl e, g') \<Longrightarrow> g' = g"
  "start_replay_authenticated c' w sha g = (Inl e, g') \<Longrightarrow> g' = g"
  by (auto simp: start_replay_selected_def start_replay_from_catalog_def start_replay_authenticated_def
      split: if_splits option.splits prod.splits sum.splits)

lemma same_stage:
  "gd_stage (snd (bind_provider_profile p g)) = gd_stage g" "gd_stage (snd (bind_adapter_id a g)) = gd_stage g"
  "gd_stage (snd (add_agent a g)) = gd_stage g" "gd_stage (snd (add_measure m g)) = gd_stage g"
  "gd_stage (snd (set_replay_mode r g)) = gd_stage g"
  by (simp_all add: bind_provider_profile_def bind_adapter_id_def add_agent_def add_measure_def
      set_replay_mode_def split: sum.splits)

lemma moved_stage:
  "gd_stage (snd (guided_review g)) = gd_stage g \<or> gd_stage g = StageSelection \<and> gd_stage (snd (guided_review g)) = StageReview"
  "gd_stage (snd (guided_finish b g)) = gd_stage g
     \<or> gd_stage g = StageRunning \<and> gd_stage (snd (guided_finish b g)) \<in> {StageComplete, StageFailed}"
  "fst (guided_start g) = Inl e \<Longrightarrow> gd_stage (snd (guided_start g)) = gd_stage g"
  "fst (start_with_handoff h n g) = Inl e \<Longrightarrow> gd_stage (snd (start_with_handoff h n g)) = gd_stage g"
  "fst (start_replay_from_catalog c sha g) = Inl e \<Longrightarrow> gd_stage (snd (start_replay_from_catalog c sha g)) = gd_stage g"
  "fst (start_replay_authenticated c' w sha g) = Inl e \<Longrightarrow> gd_stage (snd (start_replay_authenticated c' w sha g)) = gd_stage g"
  subgoal by (simp add: guided_review_def ensure_selection_def ensure_def split: sum.splits)
  subgoal by (simp add: guided_finish_def)
  subgoal by (simp add: guided_start_def split: if_splits)
  subgoal by (auto simp: start_with_handoff_def guided_review_def ensure_selection_def split: sum.splits if_splits)
  subgoal using refused_replay(2) by (metis prod.collapse)
  subgoal using refused_replay(3) by (metis prod.collapse)
  done

lemma emit_refused: "emit f x = (r, g') \<Longrightarrow> \<nexists>y. r = Inr y \<and> y \<noteq> Done \<Longrightarrow> (\<And>y. f y \<noteq> Done) \<Longrightarrow>
    \<exists>e. fst x = Inl e"
  by (cases "fst x") (auto simp: emit_def split_beta)

lemma done_step:
  assumes "guided_step op g = (r, g')" "\<nexists>x. r = Inr x \<and> x \<noteq> Done"
  shows "gd_stage g' = gd_stage g \<or> (gd_stage g, gd_stage g') \<in> {(StageSelection, StageReview),
    (StageRunning, StageComplete), (StageRunning, StageFailed)}"
proof -
  have g': "g' = snd (guided_step op g)" using assms(1) by simp
  show ?thesis
  proof (cases op)
    case Review
    then show ?thesis using moved_stage(1) [of g] by (auto simp: g')
  next
    case (Finish b)
    then show ?thesis using moved_stage(2) [of b g] by (auto simp: g')
  next
    case Start
    then show ?thesis using emit_refused [of Launch "guided_start g"] assms moved_stage(3) [of g] by (auto simp: g')
  next
    case (StartHandoff h n)
    then show ?thesis using emit_refused [of Launch "start_with_handoff h n g"] assms moved_stage(4) [of h n g]
      by (auto simp: g')
  next
    case (StartReplay c sha)
    then show ?thesis using emit_refused [of Replay "start_replay_from_catalog c sha g"] assms moved_stage(5) [of c sha g]
      by (auto simp: g')
  next
    case (StartAuthenticated c w sha)
    then show ?thesis
      using emit_refused [of Replay "start_replay_authenticated c w sha g"] assms moved_stage(6) [of c w sha g]
      by (auto simp: g')
  qed (simp_all add: g' same_stage)
qed

lemma done_stage: "stage_rank g \<le> stage_rank (snd (guided_step op g))"
proof -
  obtain r g' where s: "guided_step op g = (r, g')" by (cases "guided_step op g")
  show ?thesis
  proof (cases "\<exists>x. r = Inr x \<and> x \<noteq> Done")
    case True
    then show ?thesis using s intent_stage by fastforce
  next
    case False
    then have "gd_stage g' = gd_stage g \<or> (gd_stage g, gd_stage g') \<in> {(StageSelection, StageReview),
        (StageRunning, StageComplete), (StageRunning, StageFailed)}"
      using done_step [OF s] by blast
    then show ?thesis using s by (auto simp: stage_rank_def)
  qed
qed

interpretation guided_ranked: ranked_machine guided_step agents_inv stage_rank
  by unfold_locales (rule done_stage)

lemma intents_late: "2 \<le> stage_rank g \<Longrightarrow> intents ops g = []"
proof (induction ops arbitrary: g)
  case (Cons op ops)
  obtain r g' where s: "guided_step op g = (r, g')" by (cases "guided_step op g")
  have "2 \<le> stage_rank g'" using done_stage [of g op] Cons.prems s by simp
  moreover have "r = Inr x \<longrightarrow> x = Done" for x using intent_stage [of op g x g'] s Cons.prems by auto
  ultimately show ?case using Cons.IH s by (auto split: sum.splits)
qed simp

lemma intents_once: "length (intents ops g) \<le> 1"
proof (induction ops arbitrary: g)
  case (Cons op ops)
  obtain r g' where s: "guided_step op g = (r, g')" by (cases "guided_step op g")
  show ?case
  proof (cases "\<exists>x. r = Inr x \<and> x \<noteq> Done")
    case True
    then have "stage_rank g' = 2" using s intent_stage by blast
    then show ?thesis using True s intents_late [of g' ops] by auto
  next
    case False
    then show ?thesis using s Cons.IH [of g'] by (auto split: sum.splits)
  qed
qed simp

lemma entries_strict:
  assumes "\<not> any_window2 (\<lambda>a b. entry_key a \<ge> entry_key b) es"
  shows "sorted_wrt (\<lambda>a b. entry_key a < entry_key b) es"
  using assms
proof (induction es rule: induct_list012)
  case (3 x y xs)
  then have ih: "sorted_wrt (\<lambda>a b. entry_key a < entry_key b) (y # xs)" "entry_key x < entry_key y" by auto
  then have "\<forall>z \<in> set (y # xs). entry_key x < entry_key z" by (auto intro: order.strict_trans)
  then show ?case using ih(1) by simp
qed simp_all

lemma authenticated_unique:
  assumes "authenticate_cassettes wire = Inr c" "a \<in> set (cc_entries c)" "b \<in> set (cc_entries c)"
    "entry_key a = entry_key b"
  shows "a = b"
proof -
  have "sorted_wrt (\<lambda>a b. entry_key a < entry_key b) (cc_entries c)"
    using assms(1) entries_strict by (auto simp: authenticate_cassettes_def result_simps split: if_splits)
  then have "distinct (map entry_key (cc_entries c))"
    by (metis sorted_wrt_map strict_sorted_iff)
  then show ?thesis using assms(2-4) by (auto simp: distinct_map dest: inj_onD)
qed

section \<open>Properties\<close>

text \<open>
  C18: A guided campaign asks for at most one run. From a new campaign, with or without a catalog,
  any sequence of operations emits at most one launch or replay intent, the stage never goes
  back, and at every moment the agents are at most 64 distinct, non-empty identifiers of the
  attached catalog; once the campaign is past selection there is an agent and a measure.
\<close>

theorem campaign_asks_once:
  fixes g h ops
  assumes "guided_new w = Inr g \<or> guided_with_catalog w c = Inr g"
  defines "h \<equiv> run_calls guided_step ops g"
  shows "length (intents ops g) \<le> 1 \<and> stage_rank g \<le> stage_rank h
    \<and> distinct (gd_agents h) \<and> length (gd_agents h) \<le> MAX_ROUTE_ITEMS
    \<and> (\<forall>a \<in> set (gd_agents h). a \<noteq> [] \<and> (case gd_catalog h of None \<Rightarrow> True | Some c \<Rightarrow> a \<in> set (gc_agents c)))
    \<and> (gd_stage h \<noteq> StageSelection \<longrightarrow> gd_agents h \<noteq> [] \<and> gd_measures h \<noteq> [])"
proof -
  have inv: "agents_inv g"
    using assms(1)
    by (auto simp: guided_new_def guided_with_catalog_def agents_inv_def result_simps split: if_splits)
  then have "agents_inv h" "stage_rank g \<le> stage_rank h"
    unfolding h_def using guided.run_inv guided_ranked.run_rank by blast+
  then show ?thesis using intents_once [of ops g] by (auto simp: agents_inv_def)
qed

text \<open>
  C32: A replay names exactly one recorded cassette. When a replay starts from a catalog that passed
  authentication, the campaign was reviewed in offline mode, and there is exactly one entry of
  the catalog for its single agent, the asked workload and cassette digest; the entry has the
  bound provider profile, and the intent carries that entry's identity with the campaign and
  generation of the catalog and is marked offline only.
\<close>

theorem replay_names_one_cassette:
  assumes "authenticate_cassettes wire = Inr c" "start_replay_authenticated c w sha g = (Inr i, g')"
  shows "gd_stage g = StageReview \<and> gd_replay g = OfflineReplay \<and> g' = g\<lparr>gd_stage := StageRunning\<rparr>
    \<and> (\<exists>!e. e \<in> set (cc_entries c) \<and> gd_agents g = [ce_agent_id e] \<and> ce_workload_id e = w \<and> ce_cassette_sha256 e = sha)
    \<and> (\<exists>e \<in> set (cc_entries c). gd_agents g = [ce_agent_id e] \<and> ce_workload_id e = w \<and> ce_cassette_sha256 e = sha
        \<and> gd_provider_profile_sha256 g = Some (ce_provider_profile_sha256 e)
        \<and> i = \<lparr>ri_workload = w, ri_agents = gd_agents g, ri_measures = gd_measures g,
            ri_recording_id = ce_cassette_id e, ri_cassette_sha256 = Some sha,
            ri_provider_profile_sha256 = Some (ce_provider_profile_sha256 e), ri_offline_only = True,
            ri_campaign_id = Some (cc_campaign_id wire), ri_generation = Some (cc_generation wire),
            ri_adapter_id = gd_adapter_id g\<rparr>)"
proof -
  have wire: "c = wire" using assms(1) by (auto simp: authenticate_cassettes_def result_simps split: if_splits)
  obtain e where e: "gd_stage g = StageReview" "gd_replay g = OfflineReplay" "g' = g\<lparr>gd_stage := StageRunning\<rparr>"
    "e \<in> set (cc_entries c)" "gd_agents g = [ce_agent_id e]" "ce_workload_id e = w" "ce_cassette_sha256 e = sha"
    "gd_provider_profile_sha256 g = Some (ce_provider_profile_sha256 e)"
    "i = \<lparr>ri_workload = w, ri_agents = gd_agents g, ri_measures = gd_measures g,
       ri_recording_id = ce_cassette_id e, ri_cassette_sha256 = Some sha,
       ri_provider_profile_sha256 = gd_provider_profile_sha256 g, ri_offline_only = True,
       ri_campaign_id = Some (cc_campaign_id c), ri_generation = Some (cc_generation c),
       ri_adapter_id = gd_adapter_id g\<rparr>"
    using assms(2) by (rule start_replay_authenticated_Inr)
  have "x = e" if "x \<in> set (cc_entries c)" "gd_agents g = [ce_agent_id x]" "ce_workload_id x = w" "ce_cassette_sha256 x = sha" for x
    using authenticated_unique [OF assms(1) that(1) e(4)] that e(5-7) by (simp add: entry_key_def)
  then show ?thesis using e wire by (auto intro: ex1I [of _ e])
qed

text \<open>
  The plain start never launches in offline mode; the start with a picker handoff has no such
  guard. A reviewed campaign in offline mode is refused by \<open>start\<close> and left unchanged, while
  \<open>start_with_handoff\<close> launches a campaign in offline mode, with the measures of the handoff,
  whether or not the attached catalog lists them.
\<close>

theorem handoff_skips_offline_guard:
  "(gd_replay g = OfflineReplay \<longrightarrow> (\<exists>e. guided_start g = (Inl e, g)))
   \<and> (gd_stage g = StageSelection \<and> gd_agents g \<noteq> [] \<and> cs_generation h = n \<and> cs_catalog_digest h \<noteq> []
       \<and> cs_measure_ids h \<noteq> [] \<longrightarrow>
       (\<exists>i g'. start_with_handoff h n g = (Inr i, g') \<and> li_replay i = gd_replay g \<and> li_measures i = cs_measure_ids h
          \<and> gd_catalog g' = gd_catalog g))"
  by (auto simp: guided_start_def start_with_handoff_def guided_review_def ensure_selection_def)

text \<open>A refused handoff can change the campaign: without an agent the measures are replaced and the review then fails.\<close>

theorem refused_handoff_replaces_measures:
  assumes "gd_stage g = StageSelection" "gd_agents g = []" "cs_generation h = n" "cs_catalog_digest h \<noteq> []"
    "cs_measure_ids h \<noteq> []"
  shows "start_with_handoff h n g = (Inl MissingAgent, g\<lparr>gd_measures := cs_measure_ids h\<rparr>)"
  using assms by (simp add: start_with_handoff_def guided_review_def ensure_selection_def)

section \<open>Examples\<close>

definition sample_guided :: guided_campaign where
  "sample_guided = \<lparr>gd_workload = ''w'', gd_agents = [''a''], gd_measures = [''m''], gd_replay = OfflineReplay,
     gd_stage = StageReview, gd_catalog = None, gd_provider_profile_sha256 = Some (replicate 64 CHR ''1''),
     gd_adapter_id = None\<rparr>"

definition sample_cassettes :: cassette_catalog where
  "sample_cassettes = \<lparr>cc_runner_instance_id = ''r'', cc_generation = 3, cc_campaign_id = ''k'',
     cc_entries = [\<lparr>ce_cassette_id = ''t'', ce_cassette_sha256 = replicate 64 CHR ''2'',
       ce_provider_profile_sha256 = replicate 64 CHR ''1'', ce_agent_id = ''a'', ce_workload_id = ''w'',
       ce_scorer_revision = ''s''\<rparr>]\<rparr>"

theorem replay_names_one_cassette_witness:
  "\<exists>i g'. start_replay_authenticated sample_cassettes ''w'' (replicate 64 CHR ''2'') sample_guided = (Inr i, g')
     \<and> ri_recording_id i = ''t'' \<and> gd_stage g' = StageRunning"
proof -
  have ok: "is_ok (authenticate_cassettes sample_cassettes)"
    "is_ok (fst (start_replay_authenticated sample_cassettes ''w'' (replicate 64 CHR ''2'') sample_guided))"
    by code_simp+
  obtain c where c: "authenticate_cassettes sample_cassettes = Inr c" using ok(1) by (metis is_ok_simps(2) sum.exhaust)
  then have same: "c = sample_cassettes" by (auto simp: authenticate_cassettes_def result_simps split: if_splits)
  obtain i g' where i: "start_replay_authenticated sample_cassettes ''w'' (replicate 64 CHR ''2'') sample_guided = (Inr i, g')"
    using ok(2) by (metis is_ok_simps(2) prod.collapse sum.exhaust)
  show ?thesis
    using replay_names_one_cassette [OF c, unfolded same, OF i] i by (auto simp: sample_cassettes_def)
qed

theorem campaign_asks_once_witness:
  "\<exists>g. guided_new ''w'' = Inr g \<and> length (intents [AddAgent ''a'', AddMeasure ''m'', Review, Start, Start] g) = 1"
proof -
  have "case guided_new ''w'' of Inl _ \<Rightarrow> False
    | Inr g \<Rightarrow> intents [AddAgent ''a'', AddMeasure ''m'', Review, Start, Start] g \<noteq> []" by code_simp
  then obtain g where g: "guided_new ''w'' = Inr g" "intents [AddAgent ''a'', AddMeasure ''m'', Review, Start, Start] g \<noteq> []"
    by (auto split: sum.splits)
  from g(1) have "guided_new ''w'' = Inr g \<or> guided_with_catalog ''w'' undefined = Inr g" by simp
  from campaign_asks_once [OF this, of "[AddAgent ''a'', AddMeasure ''m'', Review, Start, Start]"]
  have "length (intents [AddAgent ''a'', AddMeasure ''m'', Review, Start, Start] g) \<le> 1" by blast
  then show ?thesis using g by (metis One_nat_def le_antisym length_0_conv less_one linorder_not_less)
qed

theorem handoff_skips_offline_guard_witness:
  "\<exists>i g'. start_with_handoff \<lparr>cs_generation = 1, cs_catalog_digest = ''d'', cs_pool_id = ''p'', cs_group_ids = [],
       cs_benchmark_ids = [], cs_measure_ids = [''m'']\<rparr> 1 (sample_guided\<lparr>gd_stage := StageSelection\<rparr>) = (Inr i, g')
     \<and> li_replay i = OfflineReplay"
  using handoff_skips_offline_guard [of "sample_guided\<lparr>gd_stage := StageSelection\<rparr>"
    "\<lparr>cs_generation = 1, cs_catalog_digest = ''d'', cs_pool_id = ''p'', cs_group_ids = [],
       cs_benchmark_ids = [], cs_measure_ids = [''m'']\<rparr>" 1] by (auto simp: sample_guided_def)

theorem refused_handoff_replaces_measures_witness:
  "start_with_handoff \<lparr>cs_generation = 1, cs_catalog_digest = ''d'', cs_pool_id = ''p'', cs_group_ids = [],
       cs_benchmark_ids = [], cs_measure_ids = [''x'']\<rparr> 1 (sample_guided\<lparr>gd_stage := StageSelection, gd_agents := []\<rparr>)
     = (Inl MissingAgent, sample_guided\<lparr>gd_stage := StageSelection, gd_agents := [], gd_measures := [''x'']\<rparr>)"
  by (subst refused_handoff_replaces_measures) (simp_all add: sample_guided_def)

end
