(* ===== verification/Provider_Setup.thy ===== *)
theory Provider_Setup
  imports Provider_Catalog
begin

text \<open>
  Model of \<open>src/provider_setup.rs\<close>: the reviewed provider draft of the wizard and the gate that
  lets it be applied once. The operation that
  crosses to the runner is the argument \<open>effect\<close>, which may fail.
\<close>

definition MAX_SETUP_ID_BYTES :: nat where "MAX_SETUP_ID_BYTES = 128"
definition MAX_DIGEST_BYTES :: nat where "MAX_DIGEST_BYTES = 64"
definition MAX_LABEL_BYTES :: nat where "MAX_LABEL_BYTES = 256"

datatype provider_setup_error = SetupInvalid string | SetupStaleCatalog | AlreadyApplied

record provider_setup_draft =
  st_selection :: configuration_selection
  st_catalog_generation :: u64
  st_catalog_digest :: string
  st_configuration_label :: string

record provider_setup_review =
  sv_agent_ids :: "string list"
  sv_provider_id :: string
  sv_model_id :: string
  sv_auth_method :: provider_auth_method
  sv_has_credential_reference :: bool
  sv_configuration_label :: string
  sv_catalog_generation :: u64

definition setup_safe_id :: "string \<Rightarrow> bool" where
  "setup_safe_id s \<longleftrightarrow> is_ascii s
     \<and> list_all (\<lambda>b. is_ascii_alphanumeric b \<or> b \<in> {CHR ''-'', CHR ''_'', CHR ''.''}) s"

definition setup_safe_model_id :: "string \<Rightarrow> bool" where
  "setup_safe_model_id s \<longleftrightarrow> is_ascii s
     \<and> list_all (\<lambda>b. is_ascii_alphanumeric b
          \<or> b \<in> {CHR ''-'', CHR ''_'', CHR ''.'', CHR ''/'', CHR '':'', CHR ''@''}) s"

definition bounded_id :: "string \<Rightarrow> string \<Rightarrow> (provider_setup_error, string) result" where
  "bounded_id field s =
     (let valid = (if field = ''model'' then setup_safe_model_id s else setup_safe_id s) in
      if s = [] \<or> MAX_SETUP_ID_BYTES < length s \<or> \<not> valid
      then Inl (SetupInvalid (field @ '' is not a supported identifier'')) else Inr s)"

definition bounded_label :: "string \<Rightarrow> (provider_setup_error, string) result" where
  "bounded_label s =
     (if MAX_LABEL_BYTES < length s \<or> has_control s
      then Inl (SetupInvalid ''configuration label is invalid'') else Inr s)"

definition credential_prefix :: string where
  "credential_prefix = ''credential_reference:''"

definition parse_auth :: "string \<Rightarrow> (provider_setup_error, provider_auth_method \<times> string option) result" where
  "parse_auth s =
     (if s = ''none'' then Inr (NoAuth, None)
      else if s = ''local_daemon'' then Inr (LocalDaemon, None)
      else if \<not> starts_with s credential_prefix
      then Inl (SetupInvalid ''authentication must use a supported non-secret reference'')
      else let digest = drop (length credential_prefix) s in
           if length digest \<noteq> MAX_DIGEST_BYTES \<or> \<not> list_all is_ascii_hexdigit digest
           then Inl (SetupInvalid ''credential reference must be a SHA-256 digest'')
           else Inr (CredentialReference, Some digest))"

definition from_selection_for_development :: "configuration_selection \<Rightarrow>
    (provider_setup_error, provider_setup_draft) result" where
  "from_selection_for_development s =
     (if sel_agent_ids s = [] \<or> 64 < length (sel_agent_ids s)
         \<or> list_ex (\<lambda>i. \<not> setup_safe_id i) (sel_agent_ids s)
      then Inl (SetupInvalid ''agent selection is invalid'')
      else and_then (bounded_id ''provider'' (sel_provider_id s)) (\<lambda>provider_id.
           and_then (bounded_id ''model'' (sel_model_id s)) (\<lambda>model_id.
             if (sel_auth_method s = CredentialReference) \<noteq> (sel_credential_reference_sha256 s \<noteq> None)
             then Inl (SetupInvalid ''credential reference does not match authentication method'')
             else if (case sel_credential_reference_sha256 s of
                        None \<Rightarrow> False
                      | Some d \<Rightarrow> length d \<noteq> MAX_DIGEST_BYTES \<or> \<not> list_all is_ascii_hexdigit d)
             then Inl (SetupInvalid ''credential reference must be a SHA-256 digest'')
             else Inr \<lparr>st_selection = s\<lparr>sel_provider_id := provider_id, sel_model_id := model_id\<rparr>,
                    st_catalog_generation = 1,
                    st_catalog_digest = replicate MAX_DIGEST_BYTES CHR ''0'',
                    st_configuration_label = ''development defaults''\<rparr>)))"

text \<open>The seven wizard values are given by their position.\<close>

definition from_wizard_values :: "(nat \<Rightarrow> string) \<Rightarrow> agent_catalog \<Rightarrow> provider_catalog \<Rightarrow>
    (provider_setup_error, provider_setup_draft) result" where
  "from_wizard_values values agents providers =
     (let agent_ids = filter (\<lambda>v. v \<noteq> []) (map trim (split_on (CHR '','') (values 0))) in
      and_then (parse_auth (trim (values 4))) (\<lambda>(auth_method, credential).
      and_then (map_err SetupInvalid (scope_selected agent_ids)) (\<lambda>scope.
      and_then (bounded_id ''provider'' (trim (values 1))) (\<lambda>provider_id.
      and_then (bounded_id ''model'' (trim (values 2))) (\<lambda>model_id.
      and_then (map_err SetupInvalid (into_selection
          \<lparr>dd_scope = scope, dd_provider_id = provider_id, dd_model_id = model_id,
           dd_auth_method = auth_method, dd_credential_reference_sha256 = credential\<rparr>
          agents providers)) (\<lambda>selection.
      and_then (bounded_label (trim (values 3))) (\<lambda>label.
        if pv_generation providers = 0
        then Inl (SetupInvalid ''provider catalog generation is missing'')
        else Inr \<lparr>st_selection = selection, st_catalog_generation = pv_generation providers,
                  st_catalog_digest = pv_catalog_sha256 providers,
                  st_configuration_label = label\<rparr>)))))))"

definition draft_review :: "provider_setup_draft \<Rightarrow> provider_setup_review" where
  "draft_review d = \<lparr>sv_agent_ids = sel_agent_ids (st_selection d),
     sv_provider_id = sel_provider_id (st_selection d), sv_model_id = sel_model_id (st_selection d),
     sv_auth_method = sel_auth_method (st_selection d),
     sv_has_credential_reference = (sel_credential_reference_sha256 (st_selection d) \<noteq> None),
     sv_configuration_label = st_configuration_label d,
     sv_catalog_generation = st_catalog_generation d\<rparr>"

record atomic_provider_setup =
  as_applied_generation :: "u64 option"

definition setup_apply :: "provider_setup_draft \<Rightarrow> u64 \<Rightarrow>
    (configuration_selection \<Rightarrow> (string, unit) result) \<Rightarrow>
    (atomic_provider_setup, provider_setup_error, provider_setup_review) call" where
  "setup_apply d current effect g =
     (if as_applied_generation g \<noteq> None then (Inl AlreadyApplied, g)
      else if st_catalog_generation d \<noteq> current then (Inl SetupStaleCatalog, g)
      else case effect (st_selection d) of
             Inl error \<Rightarrow> (Inl (SetupInvalid (''apply failed: '' @ error)), g)
           | Inr _ \<Rightarrow> (Inr (draft_review d), g\<lparr>as_applied_generation := Some current\<rparr>))"

definition setup_restart :: "atomic_provider_setup \<Rightarrow> atomic_provider_setup" where
  "setup_restart g = g\<lparr>as_applied_generation := None\<rparr>"

section \<open>Sequences of calls on the gate\<close>

datatype setup_op =
  SetupApply provider_setup_draft u64 "configuration_selection \<Rightarrow> (string, unit) result"
| SetupRestart

fun setup_step :: "setup_op \<Rightarrow> (atomic_provider_setup, provider_setup_error, unit) call" where
  "setup_step (SetupApply d current effect) g =
     (case setup_apply d current effect g of (r, g') \<Rightarrow> (and_then r (\<lambda>_. Inr ()), g'))"
| "setup_step SetupRestart g = (Inr (), setup_restart g)"

fun is_apply :: "setup_op \<Rightarrow> bool" where
  "is_apply (SetupApply _ _ _) = True"
| "is_apply SetupRestart = False"

interpretation setup_gate: fail_closed setup_step
proof
  fix op g e g'
  assume "setup_step op g = (Inl e, g')"
  then show "g' = g"
    by (cases op) (auto simp: setup_apply_def split: if_splits sum.splits)
qed

lemma applies_bounded:
  "length (filter is_apply (accepted setup_step ops g)) + of_bool (as_applied_generation g \<noteq> None)
   \<le> length (filter (\<lambda>op. \<not> is_apply op) ops) + 1"
proof (induction ops arbitrary: g)
  case (Cons op ops)
  show ?case
  proof (cases op)
    case (SetupApply d current effect)
    then show ?thesis
      using Cons [of "snd (setup_step op g)"]
      by (auto simp: setup_apply_def split: sum.splits if_splits)
  next
    case SetupRestart
    then show ?thesis using Cons [of "setup_restart g"] by (auto simp: setup_restart_def)
  qed
qed simp

lemma parse_auth_consistent:
  "parse_auth s = Inr (m, c) \<Longrightarrow>
   (m = CredentialReference \<longleftrightarrow> c \<noteq> None) \<and> (\<forall>d. c = Some d \<longrightarrow> length d = 64 \<and> list_all is_ascii_hexdigit d)"
  by (auto simp: parse_auth_def MAX_DIGEST_BYTES_def Let_def split: if_splits)

section \<open>Properties\<close>


text \<open>
  A draft taken from the wizard names a sorted selection without repeats of 1 to 64
  available agents, carries a credential digest of 64 hexadecimal digits exactly for credential
  authentication, and is bound to the generation and digest of the provider catalog.
\<close>

theorem wizard_draft_bound_to_catalog:
  assumes "from_wizard_values values agents providers = Inr d"
  shows "sorted (sel_agent_ids (st_selection d)) \<and> distinct (sel_agent_ids (st_selection d))
       \<and> 1 \<le> length (sel_agent_ids (st_selection d)) \<and> length (sel_agent_ids (st_selection d)) \<le> 64
       \<and> set (sel_agent_ids (st_selection d)) \<subseteq> set (available_agents agents)
       \<and> (sel_auth_method (st_selection d) = CredentialReference
            \<longleftrightarrow> sel_credential_reference_sha256 (st_selection d) \<noteq> None)
       \<and> (\<forall>c. sel_credential_reference_sha256 (st_selection d) = Some c \<longrightarrow> hex_digest c)
       \<and> st_catalog_generation d = pv_generation providers \<and> pv_generation providers \<noteq> 0
       \<and> st_catalog_digest d = pv_catalog_sha256 providers"
proof -
  from assms obtain m c ids scope dft where
    auth: "parse_auth (trim (values 4)) = Inr (m, c)"
    and scope: "scope_selected ids = Inr scope"
    and sel: "into_selection dft agents providers = Inr (st_selection d)"
    and dft: "dd_scope dft = scope" "dd_auth_method dft = m" "dd_credential_reference_sha256 dft = c"
    and cat: "st_catalog_generation d = pv_generation providers" "pv_generation providers \<noteq> 0"
      "st_catalog_digest d = pv_catalog_sha256 providers"
    unfolding from_wizard_values_def Let_def
    by (auto simp: result_simps split: if_splits)
  obtain ag: "scope_resolve scope agents = Inr (sel_agent_ids (st_selection d))"
    and s: "sel_auth_method (st_selection d) = m" "sel_credential_reference_sha256 (st_selection d) = c"
    using into_selection_Inr [OF sel] dft by (metis configuration_selection.select_convs(4,5))
  have sc: "scope = ScopeSelected (dedup (sort ids))" "ids \<noteq> []" "length (dedup (sort ids)) \<le> 64"
    using scope by (auto simp: scope_selected_Inr MAX_SCOPED_AGENTS_def)
  then have ids: "sel_agent_ids (st_selection d) = dedup (sort ids)"
    using ag by (auto simp: scope_resolve_def Let_def result_simps split: if_splits)
  have "sorted (dedup (sort ids))" "distinct (dedup (sort ids))" using sorted_dedup [of "sort ids"] by auto
  moreover have "1 \<le> length (dedup (sort ids))" using sc(2) by (simp add: Suc_le_eq sort_eq_Nil_iff)
  ultimately show ?thesis
    using cat s sc(3) parse_auth_consistent [OF auth] scope_resolve_Inr(2) [OF ag]
    by (simp add: ids hex_digest_def)
qed

definition sample_values :: "nat \<Rightarrow> string" where
  "sample_values n = (if n = 0 then ''agent-a,agent-a'' else if n = 1 then ''p'' else if n = 2 then ''m''
     else if n = 4 then ''none'' else '''')"

theorem wizard_draft_bound_to_catalog_witness:
  "\<exists>d. from_wizard_values sample_values sample_agents sample_providers = Inr d
     \<and> distinct (sel_agent_ids (st_selection d)) \<and> st_catalog_generation d = pv_generation sample_providers"
proof -
  have "is_ok (from_wizard_values sample_values sample_agents sample_providers)" by code_simp
  then obtain d where d: "from_wizard_values sample_values sample_agents sample_providers = Inr d"
    by (auto simp: is_ok_def split: sum.splits)
  from d wizard_draft_bound_to_catalog [OF d] show ?thesis by blast
qed

end
