(* ===== verification/Materialization.thy ===== *)
theory Materialization
  imports Provider_Setup Benchmark_Selection
begin

text \<open>
  Model of \<open>src/configuration_materialization.rs\<close>: the reviewed provider and benchmark choices
  become a canonical document that is bound to its own digest, and the document is kept in a
  private directory. The JSON writer and reader are the arguments \<open>to_string\<close> and \<open>from_slice\<close>.
  The directory is a pair of optional files; a file is a symbolic link or its bytes, and a
  crash leaves the directory as the operations done so far have left it, the file being
  written possibly cut short. Permissions and flushing change no bytes and are left out.
\<close>

section \<open>The document\<close>

definition MAX_MATERIAL_ID_BYTES :: nat where "MAX_MATERIAL_ID_BYTES = 128"
definition MAX_MATERIAL_TEXT_BYTES :: nat where "MAX_MATERIAL_TEXT_BYTES = 256"
definition MAX_LIST :: nat where "MAX_LIST = 256"
definition MAX_FILE_BYTES :: nat where "MAX_FILE_BYTES = 256 * 1024"
definition SCHEMA_VERSION :: u32 where "SCHEMA_VERSION = 1"

datatype execution_mode = LocalMock | Live

definition mode_label :: "execution_mode \<Rightarrow> string" where
  "mode_label m = (case m of LocalMock \<Rightarrow> ''local-mock'' | Live \<Rightarrow> ''live'')"

datatype materialization_error =
  MaterialInvalid string | StaleProviderCatalog | StaleBenchmarkCatalog | RawSecret

record materialization_input =
  mi_provider :: configuration_selection
  mi_provider_catalog_generation :: u64
  mi_provider_catalog_digest :: string
  mi_benchmark :: campaign_selection
  mi_asb_protocol :: string
  mi_asb_version :: string
  mi_execution_mode :: execution_mode

record materialized_provider =
  mp_agent_ids :: "string list"
  mp_provider_id :: string
  mp_model_id :: string
  mp_auth_method :: provider_auth_method
  mp_credential_reference_sha256 :: "string option"
  mp_catalog_generation :: u64
  mp_catalog_digest :: string
  mp_execution_mode :: execution_mode

record materialized_benchmark =
  mb_generation :: u64
  mb_catalog_digest :: string
  mb_pool_id :: string
  mb_group_ids :: "string list"
  mb_benchmark_ids :: "string list"
  mb_measure_ids :: "string list"

record materialized_configuration =
  mc_schema_version :: u32
  mc_asb_protocol :: string
  mc_asb_version :: string
  mc_provider :: materialized_provider
  mc_benchmark :: materialized_benchmark
  mc_configuration_digest_sha256 :: string

record materialized_bundle =
  bu_document :: materialized_configuration
  bu_canonical_json :: string
  bu_digest_sha256 :: string

record launch_binding =
  lb_materialization_digest_sha256 :: string
  lb_provider_catalog_generation :: u64
  lb_provider_catalog_digest :: string
  lb_benchmark_catalog_generation :: u64
  lb_benchmark_catalog_digest :: string
  lb_agent_ids :: "string list"
  lb_provider_id :: string
  lb_model_id :: string
  lb_pool_id :: string
  lb_group_ids :: "string list"
  lb_benchmark_ids :: "string list"
  lb_measure_ids :: "string list"
  lb_development_only :: bool
  lb_execution_mode :: execution_mode

record preflight_summary =
  ps_digest_sha256 :: string
  ps_provider_id :: string
  ps_model_id :: string
  ps_agent_count :: nat
  ps_pool_id :: string
  ps_measure_count :: nat
  ps_development_only :: bool
  ps_execution_mode :: execution_mode

type_synonym writer = "materialized_configuration \<Rightarrow> string option"
type_synonym reader = "string \<Rightarrow> materialized_configuration option"

definition write_json :: "writer \<Rightarrow> materialized_configuration \<Rightarrow> (materialization_error, string) result" where
  "write_json to_string d = ok_or (to_string d) (MaterialInvalid ''serialize'')"

text \<open>The digest over the document with an empty digest field, prefixed by its domain.\<close>

definition document_digest :: "writer \<Rightarrow> materialized_configuration \<Rightarrow> (materialization_error, string) result" where
  "document_digest to_string d =
     and_then (write_json to_string (d\<lparr>mc_configuration_digest_sha256 := ''''\<rparr>)) (\<lambda>canonical.
       Inr (digest_hex (as_bytes (''asb-tui.materialized.v1'' @ [char_of (0 :: nat)] @ canonical))))"

definition bundle_is_self_consistent :: "writer \<Rightarrow> materialized_bundle \<Rightarrow> (materialization_error, bool) result" where
  "bundle_is_self_consistent to_string b =
     and_then (document_digest to_string (bu_document b)) (\<lambda>expected.
       if bu_digest_sha256 b = expected \<and> mc_configuration_digest_sha256 (bu_document b) = expected
       then and_then (write_json to_string (bu_document b)) (\<lambda>json. Inr (bu_canonical_json b = json))
       else Inr False)"

definition validate_integrity :: "writer \<Rightarrow> materialized_bundle \<Rightarrow> (materialization_error, unit) result" where
  "validate_integrity to_string b = and_then (bundle_is_self_consistent to_string b) (\<lambda>ok.
     if ok then Inr () else Inl (MaterialInvalid ''bundle integrity''))"

definition bundle_launch_binding :: "materialized_bundle \<Rightarrow> launch_binding" where
  "bundle_launch_binding b = (let p = mc_provider (bu_document b); m = mc_benchmark (bu_document b) in
     \<lparr>lb_materialization_digest_sha256 = bu_digest_sha256 b,
      lb_provider_catalog_generation = mp_catalog_generation p,
      lb_provider_catalog_digest = mp_catalog_digest p,
      lb_benchmark_catalog_generation = mb_generation m,
      lb_benchmark_catalog_digest = mb_catalog_digest m,
      lb_agent_ids = mp_agent_ids p, lb_provider_id = mp_provider_id p, lb_model_id = mp_model_id p,
      lb_pool_id = mb_pool_id m, lb_group_ids = mb_group_ids m, lb_benchmark_ids = mb_benchmark_ids m,
      lb_measure_ids = mb_measure_ids m,
      lb_development_only = (mp_catalog_digest p = replicate 64 CHR ''0''),
      lb_execution_mode = mp_execution_mode p\<rparr>)"

definition bundle_preflight_summary :: "materialized_bundle \<Rightarrow> preflight_summary" where
  "bundle_preflight_summary b = (let p = mc_provider (bu_document b); m = mc_benchmark (bu_document b) in
     \<lparr>ps_digest_sha256 = bu_digest_sha256 b, ps_provider_id = mp_provider_id p,
      ps_model_id = mp_model_id p, ps_agent_count = length (mp_agent_ids p), ps_pool_id = mb_pool_id m,
      ps_measure_count = length (mb_measure_ids m),
      ps_development_only = (mp_catalog_digest p = replicate 64 CHR ''0''),
      ps_execution_mode = mp_execution_mode p\<rparr>)"

section \<open>Building a bundle\<close>

definition validate_text :: "string \<Rightarrow> nat \<Rightarrow> (materialization_error, unit) result" where
  "validate_text s limit =
     (if s = [] \<or> limit < length s \<or> has_control s then Inl (MaterialInvalid ''text'') else Inr ())"

definition material_digest :: "string \<Rightarrow> (materialization_error, unit) result" where
  "material_digest s =
     (if length s \<noteq> 64 \<or> \<not> list_all is_ascii_hexdigit s then Inl (MaterialInvalid ''digest'') else Inr ())"

definition validate_selection :: "configuration_selection \<Rightarrow> (materialization_error, unit) result" where
  "validate_selection s =
     (if sel_agent_ids s = [] \<or> MAX_LIST < length (sel_agent_ids s) then Inl (MaterialInvalid ''agents'')
      else and_then (check_all (\<lambda>v. validate_text v MAX_MATERIAL_ID_BYTES)
                       (sel_agent_ids s @ [sel_provider_id s, sel_model_id s])) (\<lambda>_.
        if (case sel_credential_reference_sha256 s of None \<Rightarrow> False | Some v \<Rightarrow> length v \<noteq> 64)
        then Inl RawSecret else Inr ()))"

definition unsigned_document :: "materialization_input \<Rightarrow> materialized_configuration" where
  "unsigned_document i = \<lparr>mc_schema_version = SCHEMA_VERSION, mc_asb_protocol = mi_asb_protocol i,
     mc_asb_version = mi_asb_version i,
     mc_provider = \<lparr>mp_agent_ids = sel_agent_ids (mi_provider i),
        mp_provider_id = sel_provider_id (mi_provider i), mp_model_id = sel_model_id (mi_provider i),
        mp_auth_method = sel_auth_method (mi_provider i),
        mp_credential_reference_sha256 = sel_credential_reference_sha256 (mi_provider i),
        mp_catalog_generation = mi_provider_catalog_generation i,
        mp_catalog_digest = mi_provider_catalog_digest i, mp_execution_mode = mi_execution_mode i\<rparr>,
     mc_benchmark = \<lparr>mb_generation = cs_generation (mi_benchmark i),
        mb_catalog_digest = cs_catalog_digest (mi_benchmark i), mb_pool_id = cs_pool_id (mi_benchmark i),
        mb_group_ids = cs_group_ids (mi_benchmark i), mb_benchmark_ids = cs_benchmark_ids (mi_benchmark i),
        mb_measure_ids = cs_measure_ids (mi_benchmark i)\<rparr>,
     mc_configuration_digest_sha256 = ''''\<rparr>"

definition bundle_build :: "writer \<Rightarrow> materialization_input \<Rightarrow> provider_setup_draft \<Rightarrow> benchmark_catalog \<Rightarrow>
    u64 \<Rightarrow> u64 \<Rightarrow> (materialization_error, materialized_bundle) result" where
  "bundle_build to_string i draft catalog expected_provider expected_benchmark =
     (if st_catalog_generation draft \<noteq> expected_provider
         \<or> mi_provider_catalog_generation i \<noteq> expected_provider
      then Inl StaleProviderCatalog
      else if cs_generation (mi_benchmark i) \<noteq> expected_benchmark then Inl StaleBenchmarkCatalog
      else and_then (map_err (\<lambda>_. StaleBenchmarkCatalog) (validate_campaign catalog (mi_benchmark i))) (\<lambda>_.
           and_then (validate_text (mi_asb_protocol i) MAX_MATERIAL_TEXT_BYTES) (\<lambda>_.
           and_then (validate_text (mi_asb_version i) MAX_MATERIAL_TEXT_BYTES) (\<lambda>_.
           and_then (material_digest (mi_provider_catalog_digest i)) (\<lambda>_.
           and_then (material_digest (cs_catalog_digest (mi_benchmark i))) (\<lambda>_.
           and_then (validate_selection (mi_provider i)) (\<lambda>_.
             if st_selection draft \<noteq> mi_provider i then Inl (MaterialInvalid ''provider review changed'')
             else if st_catalog_digest draft \<noteq> mi_provider_catalog_digest i then Inl StaleProviderCatalog
             else if (sel_auth_method (mi_provider i) = CredentialReference)
                       \<noteq> (sel_credential_reference_sha256 (mi_provider i) \<noteq> None)
             then Inl (MaterialInvalid ''credential reference'')
             else and_then (case sel_credential_reference_sha256 (mi_provider i) of
                              None \<Rightarrow> Inr () | Some d \<Rightarrow> material_digest d) (\<lambda>_.
                  if cs_measure_ids (mi_benchmark i) = [] then Inl (MaterialInvalid ''empty measures'')
                  else and_then (document_digest to_string (unsigned_document i)) (\<lambda>digest.
                       let document = (unsigned_document i)\<lparr>mc_configuration_digest_sha256 := digest\<rparr> in
                       and_then (write_json to_string document) (\<lambda>json.
                         Inr \<lparr>bu_document = document, bu_canonical_json = json,
                              bu_digest_sha256 = digest\<rparr>))))))))))"

section \<open>The store\<close>

text \<open>A symbolic link resolves or dangles; \<open>exists\<close> follows it, and the root, if a link, resolves.\<close>

datatype entry = Link bool | File string

definition existing :: "entry option \<Rightarrow> entry option" where
  "existing e = (case e of Some (Link resolves) \<Rightarrow> if resolves then e else None | _ \<Rightarrow> e)"

record store =
  root_is_link :: bool
  stage_file :: "entry option"
  target_file :: "entry option"

definition load_document :: "writer \<Rightarrow> reader \<Rightarrow> string \<Rightarrow> (materialization_error, materialized_bundle) result" where
  "load_document to_string from_slice bytes =
     (if MAX_FILE_BYTES < length bytes then Inl (MaterialInvalid ''bundle size'')
      else and_then (ok_or (from_slice bytes) (MaterialInvalid ''bundle json'')) (\<lambda>document.
           and_then (write_json to_string document) (\<lambda>json.
           and_then (document_digest to_string document) (\<lambda>expected.
             if mc_configuration_digest_sha256 document \<noteq> expected
             then Inl (MaterialInvalid ''bundle digest'')
             else Inr \<lparr>bu_document = document, bu_canonical_json = json,
                       bu_digest_sha256 = mc_configuration_digest_sha256 document\<rparr>))))"

definition store_load :: "writer \<Rightarrow> reader \<Rightarrow> (store, materialization_error, materialized_bundle option) call" where
  "store_load to_string from_slice d =
     (if root_is_link d then (Inl (MaterialInvalid ''symlink root''), d)
      else case (case existing (target_file d) of Some f \<Rightarrow> Some (f, False)
                 | None \<Rightarrow> (case existing (stage_file d) of Some f \<Rightarrow> Some (f, True) | None \<Rightarrow> None)) of
             None \<Rightarrow> (Inr None, d)
           | Some (Link _, _) \<Rightarrow> (Inl (MaterialInvalid ''symlink bundle''), d)
           | Some (File bytes, recover_stage) \<Rightarrow>
               (case load_document to_string from_slice bytes of
                  Inl e \<Rightarrow> (Inl e, d)
                | Inr b \<Rightarrow> (Inr (Some b),
                    if recover_stage then d\<lparr>stage_file := None, target_file := stage_file d\<rparr> else d)))"

text \<open>The part of \<open>apply\<close> before the directory is written, then the writes one by one.\<close>

definition store_prepare :: "writer \<Rightarrow> reader \<Rightarrow> materialized_bundle \<Rightarrow> (store, materialization_error, unit) call" where
  "store_prepare to_string from_slice b d =
     (case bundle_is_self_consistent to_string b of
        Inl e \<Rightarrow> (Inl e, d)
      | Inr ok \<Rightarrow>
          if \<not> ok then (Inl (MaterialInvalid ''bundle digest''), d)
          else if root_is_link d then (Inl (MaterialInvalid ''symlink root''), d)
          else if MAX_FILE_BYTES < length (bu_canonical_json b) then (Inl (MaterialInvalid ''bundle size''), d)
          else if stage_file d = Some (Link True) then (Inl (MaterialInvalid ''symlink stage''), d)
          else if target_file d = Some (Link True) then (Inl (MaterialInvalid ''symlink bundle''), d)
          else if existing (stage_file d) \<noteq> None \<and> existing (target_file d) = None
          then (case store_load to_string from_slice d of
                  (Inl e, d') \<Rightarrow> (Inl e, d')
                | (Inr _, d') \<Rightarrow> (Inr (), d'))
          else (Inr (), d))"

definition remove_stage :: "store \<Rightarrow> store" where
  "remove_stage d = d\<lparr>stage_file := None\<rparr>"

definition write_stage :: "string \<Rightarrow> store \<Rightarrow> store" where
  "write_stage bytes d = d\<lparr>stage_file := Some (File bytes)\<rparr>"

definition rename_stage :: "store \<Rightarrow> store" where
  "rename_stage d = d\<lparr>stage_file := None, target_file := stage_file d\<rparr>"

definition store_apply :: "writer \<Rightarrow> reader \<Rightarrow> materialized_bundle \<Rightarrow> (store, materialization_error, unit) call" where
  "store_apply to_string from_slice b d = (case store_prepare to_string from_slice b d of
       (Inl e, d) \<Rightarrow> (Inl e, d)
     | (Inr _, d) \<Rightarrow> (Inr (), rename_stage (write_stage (bu_canonical_json b) (remove_stage d))))"

text \<open>The directories a crash during the call can leave, a write being cut after any prefix.\<close>

definition crash_states :: "writer \<Rightarrow> reader \<Rightarrow> materialized_bundle \<Rightarrow> store \<Rightarrow> store set" where
  "crash_states to_string from_slice b d = (case store_prepare to_string from_slice b d of
       (Inl e, d') \<Rightarrow> {d, d'}
     | (Inr _, d') \<Rightarrow>
         {d, d', remove_stage d'}
         \<union> {write_stage (take k (bu_canonical_json b)) (remove_stage d') | k. k \<le> length (bu_canonical_json b)}
         \<union> {rename_stage (write_stage (bu_canonical_json b) (remove_stage d'))})"

section \<open>Lemmas\<close>

lemma existing_simps [simp]:
  "existing None = None" "existing (Some (File s)) = Some (File s)"
  "existing (Some (Link True)) = Some (Link True)" "existing (Some (Link False)) = None"
  by (simp_all add: existing_def)

lemma digest_ignores_field:
  "document_digest w (d\<lparr>mc_configuration_digest_sha256 := s\<rparr>) = document_digest w d"
  by (simp add: document_digest_def)

lemma document_digest_hex: "document_digest w d = Inr s \<Longrightarrow> lower_hex 64 s"
  by (auto simp: document_digest_def result_simps digest_hex_lower)

lemma self_consistent_iff:
  "bundle_is_self_consistent w b = Inr True \<longleftrightarrow>
     document_digest w (bu_document b) = Inr (bu_digest_sha256 b)
     \<and> mc_configuration_digest_sha256 (bu_document b) = bu_digest_sha256 b
     \<and> write_json w (bu_document b) = Inr (bu_canonical_json b)"
  by (auto simp: bundle_is_self_consistent_def result_simps split: if_splits)

lemma validate_integrity_Inr:
  "validate_integrity w b = Inr () \<longleftrightarrow> bundle_is_self_consistent w b = Inr True"
  by (auto simp: validate_integrity_def result_simps split: if_splits)

lemma bundle_build_Inr:
  assumes "bundle_build w i draft catalog ep eb = Inr b"
  shows "validate_campaign catalog (mi_benchmark i) = Inr ()"
    "validate_selection (mi_provider i) = Inr ()" "st_selection draft = mi_provider i"
    "st_catalog_generation draft = ep" "mi_provider_catalog_generation i = ep"
    "cs_generation (mi_benchmark i) = eb"
    "bu_document b = (unsigned_document i)\<lparr>mc_configuration_digest_sha256 := bu_digest_sha256 b\<rparr>"
    "document_digest w (unsigned_document i) = Inr (bu_digest_sha256 b)"
    "write_json w (bu_document b) = Inr (bu_canonical_json b)"
  using assms
  by (auto simp: bundle_build_def result_simps Let_def split: if_splits)

lemma built_self_consistent:
  "bundle_build w i draft catalog ep eb = Inr b \<Longrightarrow> bundle_is_self_consistent w b = Inr True"
  using bundle_build_Inr [of w i draft catalog ep eb b]
  by (simp add: self_consistent_iff digest_ignores_field)

lemma load_document_own:
  assumes "bundle_is_self_consistent w b = Inr True" "from_slice (bu_canonical_json b) = Some (bu_document b)"
    "length (bu_canonical_json b) \<le> MAX_FILE_BYTES"
  shows "load_document w from_slice (bu_canonical_json b) = Inr b"
  using assms by (simp add: load_document_def self_consistent_iff)

lemma store_load_target:
  "\<not> root_is_link d \<Longrightarrow> target_file d = Some (File bytes) \<Longrightarrow> load_document w r bytes = Inr b \<Longrightarrow>
   store_load w r d = (Inr (Some b), d)"
  by (simp add: store_load_def)

lemma store_load_root: "root_is_link (snd (store_load w r d)) = root_is_link d"
  by (auto simp: store_load_def split: option.splits entry.splits prod.splits sum.splits)

lemma store_prepare_Inr:
  assumes "store_prepare w r b d = (Inr (), d')"
  shows "bundle_is_self_consistent w b = Inr True" "length (bu_canonical_json b) \<le> MAX_FILE_BYTES"
    "\<not> root_is_link d'" "existing (target_file d) \<noteq> None \<Longrightarrow> d' = d"
    "existing (stage_file d) = None \<Longrightarrow> d' = d"
proof -
  let ?recover = "existing (stage_file d) \<noteq> None \<and> existing (target_file d) = None"
  have step: "bundle_is_self_consistent w b = Inr True \<and> \<not> root_is_link d
      \<and> length (bu_canonical_json b) \<le> MAX_FILE_BYTES
      \<and> (if ?recover then d' = snd (store_load w r d) else d' = d)"
    using assms
    by (auto simp: store_prepare_def not_less split: sum.splits if_splits prod.splits)
  then show "bundle_is_self_consistent w b = Inr True" "length (bu_canonical_json b) \<le> MAX_FILE_BYTES"
    "existing (target_file d) \<noteq> None \<Longrightarrow> d' = d" "existing (stage_file d) = None \<Longrightarrow> d' = d"
    by auto
  show "\<not> root_is_link d'" using step store_load_root [of w r d] by (cases ?recover) auto
qed

lemma store_prepare_Inl_target:
  "store_prepare w r b d = (Inl e, d') \<Longrightarrow> existing (target_file d) \<noteq> None \<Longrightarrow> d' = d"
  by (auto simp: store_prepare_def split: sum.splits if_splits)

lemma applied_loads:
  assumes "store_apply w r b d = (Inr (), d')" "r (bu_canonical_json b) = Some (bu_document b)"
  shows "store_load w r d' = (Inr (Some b), d')"
proof -
  obtain d1 where p: "store_prepare w r b d = (Inr (), d1)"
    and d': "d' = rename_stage (write_stage (bu_canonical_json b) (remove_stage d1))"
    using assms(1) by (auto simp: store_apply_def split: prod.splits sum.splits)
  note facts = store_prepare_Inr [OF p]
  show ?thesis
    using store_load_target [of d' "bu_canonical_json b" w r b] facts(3)
      load_document_own [of w b r] facts(1,2) assms(2)
    by (simp add: d' rename_stage_def write_stage_def remove_stage_def)
qed

lemma torn_write_possible:
  assumes "store_prepare w r b d = (Inr (), d')"
  shows "write_stage (take k (bu_canonical_json b)) (remove_stage d') \<in> crash_states w r b d"
proof -
  let ?n = "min k (length (bu_canonical_json b))"
  have "take k (bu_canonical_json b) = take ?n (bu_canonical_json b)" by (simp add: min_def)
  moreover have "?n \<le> length (bu_canonical_json b)" by simp
  ultimately have "write_stage (take k (bu_canonical_json b)) (remove_stage d')
      \<in> {write_stage (take k (bu_canonical_json b)) (remove_stage d') | k. k \<le> length (bu_canonical_json b)}"
    unfolding mem_Collect_eq by (intro exI [of _ ?n]) argo
  then show ?thesis unfolding crash_states_def assms by simp
qed

section \<open>Properties\<close>

text \<open>
  A bundle that was built is intact and says exactly what was reviewed: it passes its own
  integrity check, its digest is 64 lowercase hexadecimal digits, its campaign validates
  against the catalog, and its launch binding carries the reviewed provider selection and
  campaign at the expected generations.
\<close>

theorem built_bundle_intact:
  assumes "bundle_build to_string i draft catalog expected_provider expected_benchmark = Inr b"
  shows "validate_integrity to_string b = Inr () \<and> lower_hex 64 (bu_digest_sha256 b)
       \<and> validate_campaign catalog (mi_benchmark i) = Inr ()
       \<and> lb_materialization_digest_sha256 (bundle_launch_binding b) = mc_configuration_digest_sha256 (bu_document b)
       \<and> lb_provider_catalog_generation (bundle_launch_binding b) = expected_provider
       \<and> lb_benchmark_catalog_generation (bundle_launch_binding b) = expected_benchmark
       \<and> lb_agent_ids (bundle_launch_binding b) = sel_agent_ids (st_selection draft)
       \<and> lb_provider_id (bundle_launch_binding b) = sel_provider_id (st_selection draft)
       \<and> lb_model_id (bundle_launch_binding b) = sel_model_id (st_selection draft)
       \<and> lb_group_ids (bundle_launch_binding b) = cs_group_ids (mi_benchmark i)
       \<and> lb_benchmark_ids (bundle_launch_binding b) = cs_benchmark_ids (mi_benchmark i)
       \<and> lb_measure_ids (bundle_launch_binding b) = cs_measure_ids (mi_benchmark i)"
proof -
  note facts = bundle_build_Inr [OF assms]
  have "bundle_is_self_consistent to_string b = Inr True" using built_self_consistent [OF assms] .
  moreover have "lower_hex 64 (bu_digest_sha256 b)" using facts(8) document_digest_hex by blast
  ultimately show ?thesis
    using facts(1,3-6) by (simp add: validate_integrity_Inr bundle_launch_binding_def Let_def facts(7) unsigned_document_def)
qed

text \<open>
  C19: what is applied is what is loaded: after a successful apply the store loads the bundle,
  if the reader inverts the writer on its document.
\<close>

theorem applied_bundle_loads:
  assumes "store_apply to_string from_slice b d = (Inr (), d')"
    and "from_slice (bu_canonical_json b) = Some (bu_document b)"
  shows "store_load to_string from_slice d' = (Inr (Some b), d')"
  using applied_loads [OF assms] .

text \<open>
  C6: replacing a bundle is atomic. If the directory holds a bundle that loads, a crash at any
  point of an apply, a torn write included, leaves a directory that loads the old bundle or the
  new one.
\<close>

theorem replacement_is_atomic:
  assumes "\<not> root_is_link d" and "target_file d = Some (File bytes)"
    and "load_document to_string from_slice bytes = Inr old"
    and "from_slice (bu_canonical_json b) = Some (bu_document b)"
    and "d' \<in> crash_states to_string from_slice b d"
  shows "fst (store_load to_string from_slice d') \<in> {Inr (Some old), Inr (Some b)}"
proof -
  have keep: "fst (store_load to_string from_slice d2) = Inr (Some old)"
    if "root_is_link d2 = root_is_link d" "target_file d2 = target_file d" for d2
    using that assms(1-3) store_load_target [of d2 bytes to_string from_slice old] by simp
  obtain r d1 where p: "store_prepare to_string from_slice b d = (r, d1)" by fastforce
  show ?thesis
  proof (cases r)
    case (Inl e)
    then have "d1 = d" using p store_prepare_Inl_target assms(2) by fastforce
    with Inl p assms(5) keep [of d] show ?thesis by (auto simp: crash_states_def)
  next
    case (Inr u)
    then have pr: "store_prepare to_string from_slice b d = (Inr (), d1)" using p by simp
    have "d1 = d" using store_prepare_Inr(4) [OF pr] assms(2) by simp
    have "store_apply to_string from_slice b d
        = (Inr (), rename_stage (write_stage (bu_canonical_json b) (remove_stage d1)))"
      using pr by (simp add: store_apply_def)
    from applied_loads [OF this assms(4)] show ?thesis
      using assms(5) pr \<open>d1 = d\<close> keep
      by (auto simp: crash_states_def remove_stage_def write_stage_def)
  qed
qed


definition material_draft :: provider_setup_draft where
  "material_draft = \<lparr>st_selection = \<lparr>sel_agent_ids = [''agent-a''], sel_provider_id = ''p'', sel_model_id = ''m'',
       sel_auth_method = NoAuth, sel_credential_reference_sha256 = None\<rparr>,
     st_catalog_generation = 1, st_catalog_digest = replicate 64 CHR ''0'', st_configuration_label = ''''\<rparr>"

definition sample_input :: materialization_input where
  "sample_input = \<lparr>mi_provider = st_selection material_draft, mi_provider_catalog_generation = 1,
     mi_provider_catalog_digest = replicate 64 CHR ''0'',
     mi_benchmark = handoff_cpu\<lparr>cs_catalog_digest := replicate 64 CHR ''b''\<rparr>,
     mi_asb_protocol = ''asb-control'', mi_asb_version = ''1.0.0'', mi_execution_mode = LocalMock\<rparr>"

definition sample_writer :: writer where
  "sample_writer d = Some (concat (mp_agent_ids (mc_provider d)))"

definition sample_bundle :: materialized_bundle where
  "sample_bundle = (let s = digest_hex (as_bytes (''asb-tui.materialized.v1'' @ [char_of (0 :: nat)] @ ''agent-a''));
       d = (unsigned_document sample_input)\<lparr>mc_configuration_digest_sha256 := s\<rparr>
     in \<lparr>bu_document = d, bu_canonical_json = ''agent-a'', bu_digest_sha256 = s\<rparr>)"

definition sample_reader :: reader where
  "sample_reader s = (if s = ''agent-a'' then Some (bu_document sample_bundle) else None)"

definition fresh_store :: store where
  "fresh_store = \<lparr>root_is_link = False, stage_file = None, target_file = None\<rparr>"


lemma sample_build:
  "bundle_build sample_writer sample_input material_draft
     ((sample_catalog 1 True)\<lparr>bc_digest := replicate 64 CHR ''b''\<rparr>) 1 1 = Inr sample_bundle"
proof -
  let ?c = "(sample_catalog 1 True)\<lparr>bc_digest := replicate 64 CHR ''b''\<rparr>"
  have "validate_campaign ?c (mi_benchmark sample_input) = Inr ()"
    "validate_text (mi_asb_protocol sample_input) MAX_MATERIAL_TEXT_BYTES = Inr ()"
    "validate_text (mi_asb_version sample_input) MAX_MATERIAL_TEXT_BYTES = Inr ()"
    "material_digest (mi_provider_catalog_digest sample_input) = Inr ()"
    "material_digest (cs_catalog_digest (mi_benchmark sample_input)) = Inr ()"
    "validate_selection (mi_provider sample_input) = Inr ()"
    by code_simp+
  moreover have "document_digest sample_writer (unsigned_document sample_input)
      = Inr (bu_digest_sha256 sample_bundle)"
    by (simp add: document_digest_def write_json_def sample_writer_def unsigned_document_def
        sample_input_def material_draft_def sample_bundle_def Let_def ok_or_def)
  moreover have "write_json sample_writer (bu_document sample_bundle) = Inr (bu_canonical_json sample_bundle)"
    "(unsigned_document sample_input)\<lparr>mc_configuration_digest_sha256 := bu_digest_sha256 sample_bundle\<rparr>
      = bu_document sample_bundle"
    "\<lparr>bu_document = bu_document sample_bundle, bu_canonical_json = bu_canonical_json sample_bundle,
       bu_digest_sha256 = bu_digest_sha256 sample_bundle\<rparr> = sample_bundle"
    by (simp_all add: write_json_def sample_writer_def unsigned_document_def
        sample_input_def material_draft_def sample_bundle_def Let_def ok_or_def)
  ultimately show ?thesis
    by (simp add: bundle_build_def Let_def sample_input_def material_draft_def handoff_cpu_def)
qed

lemma sample_apply:
  "store_apply sample_writer sample_reader sample_bundle fresh_store
     = (Inr (), fresh_store\<lparr>target_file := Some (File ''agent-a'')\<rparr>)"
  using built_self_consistent [OF sample_build]
  by (simp add: store_apply_def store_prepare_def fresh_store_def sample_bundle_def Let_def MAX_FILE_BYTES_def
      rename_stage_def write_stage_def remove_stage_def)

lemma sample_reads_back: "sample_reader (bu_canonical_json sample_bundle) = Some (bu_document sample_bundle)"
  by (simp add: sample_reader_def sample_bundle_def Let_def)


theorem built_bundle_intact_witness:
  "validate_integrity sample_writer sample_bundle = Inr ()
   \<and> lb_measure_ids (bundle_launch_binding sample_bundle) = cs_measure_ids (mi_benchmark sample_input)"
  using built_bundle_intact [OF sample_build] by blast

theorem applied_bundle_loads_witness:
  "fst (store_load sample_writer sample_reader (fresh_store\<lparr>target_file := Some (File ''agent-a'')\<rparr>))
     = Inr (Some sample_bundle)"
  using applied_bundle_loads [OF sample_apply sample_reads_back] by simp

lemma sample_loads: "load_document sample_writer sample_reader ''agent-a'' = Inr sample_bundle"
  using load_document_own [of sample_writer sample_bundle sample_reader] built_self_consistent [OF sample_build]
    sample_reads_back by (simp add: sample_bundle_def Let_def MAX_FILE_BYTES_def)

theorem replacement_is_atomic_witness:
  "fst (store_load sample_writer sample_reader
      (write_stage ''age'' (fresh_store\<lparr>target_file := Some (File ''agent-a'')\<rparr>)))
   = Inr (Some sample_bundle)"
proof -
  let ?d = "fresh_store\<lparr>target_file := Some (File ''agent-a'')\<rparr>"
  have "write_stage ''age'' ?d = write_stage (take 3 (bu_canonical_json sample_bundle)) (remove_stage ?d)"
    "3 \<le> length (bu_canonical_json sample_bundle)"
    by (simp_all add: sample_bundle_def Let_def remove_stage_def fresh_store_def)
  moreover have "store_prepare sample_writer sample_reader sample_bundle ?d = (Inr (), ?d)"
    using built_self_consistent [OF sample_build]
    by (simp add: store_prepare_def fresh_store_def sample_bundle_def Let_def MAX_FILE_BYTES_def)
  ultimately have "write_stage ''age'' ?d \<in> crash_states sample_writer sample_reader sample_bundle ?d"
    unfolding crash_states_def by auto
  from replacement_is_atomic [OF _ _ sample_loads sample_reads_back this] show ?thesis
    by (simp add: fresh_store_def)
qed

text \<open>
  The first write is not recoverable from a torn stage file. If a crash cuts the first
  write to a prefix that does not load, that directory is a possible outcome of the call, and in
  it every later load and every later apply, of whatever bundle, fails and changes nothing.
\<close>

theorem torn_first_write_blocks:
  fixes k
  assumes "bundle_is_self_consistent to_string b = Inr True" and "length (bu_canonical_json b) \<le> MAX_FILE_BYTES"
    and "load_document to_string from_slice (take k (bu_canonical_json b)) = Inl e"
  defines "torn \<equiv> write_stage (take k (bu_canonical_json b)) fresh_store"
  shows "torn \<in> crash_states to_string from_slice b fresh_store
       \<and> store_load to_string from_slice torn = (Inl e, torn)
       \<and> (\<exists>error. store_apply to_string from_slice b' torn = (Inl error, torn))"
proof -
  have load: "store_load to_string from_slice torn = (Inl e, torn)"
    using assms(3) by (simp add: torn_def store_load_def fresh_store_def write_stage_def)
  have "store_prepare to_string from_slice b fresh_store = (Inr (), fresh_store)"
    using assms(1,2) by (simp add: store_prepare_def fresh_store_def)
  from torn_write_possible [OF this, of k] have "torn \<in> crash_states to_string from_slice b fresh_store"
    by (simp add: torn_def remove_stage_def fresh_store_def)
  moreover have "stage_file torn = Some (File (take k (bu_canonical_json b)))" "target_file torn = None"
    "\<not> root_is_link torn"
    by (simp_all add: torn_def write_stage_def fresh_store_def)
  then have "\<exists>error. store_apply to_string from_slice b' torn = (Inl error, torn)"
    using load by (auto simp: store_apply_def store_prepare_def split: sum.splits)
  ultimately show ?thesis using load by blast
qed

theorem torn_first_write_blocks_witness:
  "\<exists>error. store_apply sample_writer sample_reader sample_bundle (write_stage ''age'' fresh_store)
     = (Inl error, write_stage ''age'' fresh_store)"
proof -
  have json: "bu_canonical_json sample_bundle = ''agent-a''" by (simp add: sample_bundle_def Let_def)
  have "sample_reader ''age'' = None" by (simp add: sample_reader_def)
  then have "load_document sample_writer sample_reader (take 3 (bu_canonical_json sample_bundle))
      = Inl (MaterialInvalid ''bundle json'')"
    by (simp add: load_document_def json MAX_FILE_BYTES_def ok_or_def)
  moreover have "length (bu_canonical_json sample_bundle) \<le> MAX_FILE_BYTES"
    "take 3 (bu_canonical_json sample_bundle) = ''age''"
    by (simp_all add: json MAX_FILE_BYTES_def)
  ultimately show ?thesis using torn_first_write_blocks [OF built_self_consistent [OF sample_build], of sample_reader 3
      "MaterialInvalid ''bundle json''" sample_bundle] by simp
qed

end
