(* ===== verification/Launch_Statistics.thy ===== *)
theory Launch_Statistics
  imports Materialization
begin

text \<open>
  Model of \<open>src/launch_statistics.rs\<close>: the fences a reviewed bundle passes before anything is
  written to the runner, and the state of the run that is shown afterwards. Of the live
  snapshot (\<open>src/live_projection.rs\<close>) the record holds the four fields the fences read.
\<close>

section \<open>The live snapshot\<close>

record live_benchmark_entry =
  le_id :: string
  le_measure_ids :: "string list"

record live_benchmark_group =
  lg_id :: string
  lg_benchmarks :: "live_benchmark_entry list"

record live_benchmark_pool =
  lp_id :: string
  lp_groups :: "live_benchmark_group list"

record live_benchmark_catalog =
  lc_generation :: u64
  lc_catalog_sha256 :: string
  lc_pools :: "live_benchmark_pool list"

datatype live_connection = LiveDisconnected | LiveNegotiated

record configuration_snapshot =
  cf_runner_instance_id :: string
  cf_generation :: u64
  cf_configured :: bool
  cf_agent_ids :: "string list"
  cf_provider_id :: "string option"
  cf_model_id :: "string option"
  cf_auth_method :: "provider_auth_method option"
  cf_credential_reference_sha256 :: "string option"

record live_snapshot =
  sn_connection :: live_connection
  sn_benchmark_catalog :: "live_benchmark_catalog option"
  sn_provider_catalog :: "provider_catalog option"
  sn_configuration :: "configuration_snapshot option"

section \<open>Launch request\<close>

definition MAX_LAUNCH_ID_BYTES :: nat where "MAX_LAUNCH_ID_BYTES = 128"

datatype launch_validation_error =
  EmptyId string | InvalidId string | BindingDigestMismatch | ProviderCatalogUnavailable
  | ProviderCatalogGenerationMismatch | ProviderCatalogDigestMismatch | ConfigurationUnavailable
  | ConfigurationMismatch | LaunchDisconnected | InvalidBundle | InvalidBenchmarkSelection
  | BenchmarkCatalogUnavailable | BenchmarkCatalogGenerationMismatch

record launch_request =
  lr_binding :: launch_binding
  lr_idempotency_key :: string

definition validate_id :: "string \<Rightarrow> string \<Rightarrow> (launch_validation_error, unit) result" where
  "validate_id s field =
     (if s = [] then Inl (EmptyId field)
      else if MAX_LAUNCH_ID_BYTES < length s
        \<or> \<not> list_all (\<lambda>b. is_ascii_alphanumeric b \<or> b \<in> {CHR ''.'', CHR ''_'', CHR ''-''}) s
      then Inl (InvalidId field) else Inr ())"

text \<open>The three nested \<open>any\<close> loops over the selected groups, benchmarks and measures.\<close>

definition selection_outside_pool :: "launch_binding \<Rightarrow> live_benchmark_pool \<Rightarrow> bool" where
  "selection_outside_pool b pool = list_ex (\<lambda>group_id.
     case find (\<lambda>g. lg_id g = group_id) (lp_groups pool) of
       None \<Rightarrow> True
     | Some g \<Rightarrow> list_ex (\<lambda>benchmark_id.
         case find (\<lambda>e. le_id e = benchmark_id) (lg_benchmarks g) of
           None \<Rightarrow> True
         | Some e \<Rightarrow> list_ex (\<lambda>m. m \<notin> set (le_measure_ids e)) (lb_measure_ids b)) (lb_benchmark_ids b))
     (lb_group_ids b)"

definition launch_validate_binding :: "writer \<Rightarrow> materialized_bundle \<Rightarrow> live_snapshot \<Rightarrow>
    (launch_validation_error, unit) result" where
  "launch_validate_binding to_string bundle s =
     and_then (map_err (\<lambda>_. InvalidBundle) (validate_integrity to_string bundle)) (\<lambda>_.
     let b = bundle_launch_binding bundle in
     if lb_materialization_digest_sha256 b \<noteq> bu_digest_sha256 bundle
        \<or> mc_configuration_digest_sha256 (bu_document bundle) \<noteq> bu_digest_sha256 bundle
     then Inl BindingDigestMismatch
     else and_then (ok_or (sn_provider_catalog s) ProviderCatalogUnavailable) (\<lambda>provider.
       if pv_generation provider \<noteq> lb_provider_catalog_generation b
       then Inl ProviderCatalogGenerationMismatch
       else if pv_catalog_sha256 provider \<noteq> lb_provider_catalog_digest b
       then Inl ProviderCatalogDigestMismatch
       else if lb_benchmark_catalog_generation b = 0 \<or> length (lb_benchmark_catalog_digest b) \<noteq> 64
         \<or> lb_pool_id b = [] \<or> lb_group_ids b = [] \<or> lb_benchmark_ids b = [] \<or> lb_measure_ids b = []
         \<or> has_duplicate (lb_group_ids b) \<or> has_duplicate (lb_benchmark_ids b)
         \<or> has_duplicate (lb_measure_ids b)
       then Inl InvalidBenchmarkSelection
       else and_then (ok_or (sn_benchmark_catalog s) BenchmarkCatalogUnavailable) (\<lambda>catalog.
         if lc_generation catalog \<noteq> lb_benchmark_catalog_generation b
         then Inl BenchmarkCatalogGenerationMismatch
         else if lc_catalog_sha256 catalog \<noteq> lb_benchmark_catalog_digest b
         then Inl InvalidBenchmarkSelection
         else case find (\<lambda>p. lp_id p = lb_pool_id b) (lc_pools catalog) of
           None \<Rightarrow> Inl InvalidBenchmarkSelection
         | Some pool \<Rightarrow>
             if selection_outside_pool b pool then Inl InvalidBenchmarkSelection
             else if sn_connection s \<noteq> LiveNegotiated then Inl LaunchDisconnected
             else and_then (ok_or (sn_configuration s) ConfigurationUnavailable) (\<lambda>c.
               if \<not> cf_configured c \<or> cf_provider_id c \<noteq> Some (lb_provider_id b)
                  \<or> cf_model_id c \<noteq> Some (lb_model_id b) \<or> cf_agent_ids c \<noteq> lb_agent_ids b
               then Inl ConfigurationMismatch else Inr ()))))"

definition launch_request_new :: "writer \<Rightarrow> materialized_bundle \<Rightarrow> live_snapshot \<Rightarrow> string \<Rightarrow>
    (launch_validation_error, launch_request) result" where
  "launch_request_new to_string bundle s key =
     and_then (validate_id key ''idempotency key'') (\<lambda>_.
     and_then (launch_validate_binding to_string bundle s) (\<lambda>_.
       Inr \<lparr>lr_binding = bundle_launch_binding bundle, lr_idempotency_key = key\<rparr>))"

section \<open>Run state\<close>

datatype public_run_state =
  PublicPlanned | PublicPrepared | PublicRunning | PublicCollecting | PublicCompleted | PublicFailed
  | PublicCancelled | NeedsReconciliation

datatype statistics_provenance = DevelopmentMock | Replayed | LiveProvenance | StatisticsUnavailable

record live_statistics =
  stat_run_id :: string
  stat_attempt_id :: string
  stat_generation :: u64
  stat_state :: public_run_state
  stat_completed_measures :: u16
  stat_total_measures :: u16
  stat_failed_measures :: u16
  stat_throughput_per_second :: "u32 option"
  stat_latency_millis :: "u32 option"
  stat_provenance :: statistics_provenance
  stat_unavailable_reason :: "string option"

text \<open>\<open>as u8\<close> keeps the low byte of the 32-bit quotient.\<close>

definition bounded_progress_percent :: "live_statistics \<Rightarrow> u8" where
  "bounded_progress_percent st =
     (if stat_total_measures st = 0 then 0
      else let completed = ucast (min (stat_completed_measures st) (stat_total_measures st)) :: u32
           in ucast (completed * 100 div ucast (stat_total_measures st)))"

record live_run_event =
  re_revision :: u64
  re_run_id :: string
  re_attempt_id :: string
  re_generation :: u64
  re_state :: public_run_state
  re_completed_measures :: u16
  re_total_measures :: u16
  re_failed_measures :: u16
  re_throughput_per_second :: "u32 option"
  re_latency_millis :: "u32 option"
  re_provenance :: statistics_provenance
  re_unavailable_reason :: "string option"

datatype run_connection = RunConnected | RunReconnecting | RunDisconnected

datatype run_state =
  RunIdle | RunLaunching | RunRunning | RunCancelling | RunCompleted | RunFailed | RunCancelled | RunUnavailable

datatype run_event_error =
  WrongRun | WrongAttempt | StaleRevision | StaleGeneration | ProgressOutOfBounds
  | InvalidUnavailableState | TerminalRegression

record launch_state =
  ln_binding :: launch_binding
  ln_run_id :: "string option"
  ln_attempt_id :: "string option"
  ln_generation :: u64
  ln_connection :: run_connection
  ln_state :: run_state
  ln_last_revision :: "u64 option"
  ln_statistics :: "live_statistics option"

record run_summary =
  sum_run_id :: string
  sum_attempt_id :: string
  sum_state :: public_run_state
  sum_created_revision :: u64
  sum_revision :: u64
  sum_plan_sha256 :: string

definition state_for_public :: "public_run_state \<Rightarrow> run_state" where
  "state_for_public s = (case s of
       PublicPlanned \<Rightarrow> RunLaunching | PublicPrepared \<Rightarrow> RunLaunching
     | PublicRunning \<Rightarrow> RunRunning | PublicCollecting \<Rightarrow> RunRunning
     | PublicCompleted \<Rightarrow> RunCompleted | PublicFailed \<Rightarrow> RunFailed
     | PublicCancelled \<Rightarrow> RunCancelled | NeedsReconciliation \<Rightarrow> RunUnavailable)"

definition is_terminal :: "run_state \<Rightarrow> bool" where
  "is_terminal s \<longleftrightarrow> s \<in> {RunCompleted, RunFailed, RunCancelled, RunUnavailable}"

definition launch_state_new :: "launch_binding \<Rightarrow> launch_state" where
  "launch_state_new b = \<lparr>ln_binding = b, ln_run_id = None, ln_attempt_id = None,
     ln_generation = lb_benchmark_catalog_generation b, ln_connection = RunConnected,
     ln_state = RunIdle, ln_last_revision = None, ln_statistics = None\<rparr>"

definition begin_launch :: "(launch_state, run_event_error, unit) call" where
  "begin_launch s =
     (if ln_connection s \<noteq> RunConnected \<or> ln_state s \<noteq> RunIdle then (Inl StaleRevision, s)
      else (Inr (), s\<lparr>ln_state := RunLaunching\<rparr>))"

definition request_cancel :: "(launch_state, run_event_error, unit) call" where
  "request_cancel s =
     (if ln_state s \<notin> {RunLaunching, RunRunning} then (Inl StaleRevision, s)
      else (Inr (), s\<lparr>ln_state := RunCancelling\<rparr>))"

definition mark_failed :: "launch_state \<Rightarrow> launch_state" where
  "mark_failed s = (if is_terminal (ln_state s) then s else s\<lparr>ln_state := RunFailed\<rparr>)"

definition reconnect_started :: "launch_state \<Rightarrow> launch_state" where
  "reconnect_started s = s\<lparr>ln_connection := RunReconnecting\<rparr>"

definition reconnect_complete :: "u64 option \<Rightarrow> launch_state \<Rightarrow> launch_state" where
  "reconnect_complete latest s =
     (let s = s\<lparr>ln_connection := RunConnected\<rparr> in
      case latest of None \<Rightarrow> s
      | Some revision \<Rightarrow>
          if (case ln_last_revision s of None \<Rightarrow> True | Some known \<Rightarrow> known < revision)
          then s\<lparr>ln_last_revision := Some revision\<rparr> else s)"

definition disconnected :: "launch_state \<Rightarrow> launch_state" where
  "disconnected s = s\<lparr>ln_connection := RunDisconnected\<rparr>"

text \<open>Adoption of the run and attempt identities, then the checks that follow it.\<close>

definition apply_event :: "live_run_event \<Rightarrow> (launch_state, run_event_error, unit) call" where
  "apply_event ev s =
     (if ln_connection s = RunDisconnected then (Inl StaleRevision, s)
      else if (case ln_last_revision s of None \<Rightarrow> False | Some known \<Rightarrow> re_revision ev \<le> known)
      then (Inl StaleRevision, s)
      else if re_generation ev \<noteq> ln_generation s then (Inl StaleGeneration, s)
      else let next_state = state_for_public (re_state ev) in
      if is_terminal (ln_state s) \<and> ln_state s \<noteq> next_state then (Inl TerminalRegression, s)
      else if (case ln_run_id s of None \<Rightarrow> False | Some r \<Rightarrow> r \<noteq> re_run_id ev) then (Inl WrongRun, s)
      else let s = s\<lparr>ln_run_id := Some (re_run_id ev)\<rparr> in
      if (case ln_attempt_id s of None \<Rightarrow> False | Some a \<Rightarrow> a \<noteq> re_attempt_id ev) then (Inl WrongAttempt, s)
      else let s = s\<lparr>ln_attempt_id := Some (re_attempt_id ev)\<rparr> in
      if re_total_measures ev < re_completed_measures ev \<or> re_total_measures ev < re_failed_measures ev
      then (Inl ProgressOutOfBounds, s)
      else if re_provenance ev = StatisticsUnavailable \<and> re_unavailable_reason ev = None
      then (Inl InvalidUnavailableState, s)
      else (Inr (), s\<lparr>ln_last_revision := Some (re_revision ev), ln_state := next_state,
        ln_statistics := Some \<lparr>stat_run_id = re_run_id ev, stat_attempt_id = re_attempt_id ev,
          stat_generation = re_generation ev, stat_state = re_state ev,
          stat_completed_measures = re_completed_measures ev, stat_total_measures = re_total_measures ev,
          stat_failed_measures = re_failed_measures ev,
          stat_throughput_per_second = re_throughput_per_second ev,
          stat_latency_millis = re_latency_millis ev, stat_provenance = re_provenance ev,
          stat_unavailable_reason = re_unavailable_reason ev\<rparr>\<rparr>))"

definition u16_try_from :: "nat \<Rightarrow> u16 option" where
  "u16_try_from n = (if n \<le> 65535 then Some (word_of_nat n) else None)"

definition summary_event :: "run_summary \<Rightarrow> launch_state \<Rightarrow> live_run_event" where
  "summary_event summary s =
     (let total_measures = (case u16_try_from (length (lb_measure_ids (ln_binding s))) of
                     None \<Rightarrow> 65535 | Some n \<Rightarrow> n);
          terminal = (sum_state summary \<in> {PublicCompleted, PublicFailed, PublicCancelled}) in
      \<lparr>re_revision = sum_revision summary, re_run_id = sum_run_id summary,
       re_attempt_id = sum_attempt_id summary, re_generation = ln_generation s,
       re_state = sum_state summary, re_completed_measures = (if terminal then total_measures else 0),
       re_total_measures = total_measures,
       re_failed_measures = (if sum_state summary = PublicFailed then 1 else 0),
       re_throughput_per_second = None, re_latency_millis = None,
       re_provenance = StatisticsUnavailable,
       re_unavailable_reason = Some ''runner did not publish detailed live statistics''\<rparr>)"

definition observe_summary :: "run_summary \<Rightarrow> (launch_state, run_event_error, unit) call" where
  "observe_summary summary s = apply_event (summary_event summary s) s"

definition active_run_attempt :: "launch_state \<Rightarrow> (string \<times> string) option" where
  "active_run_attempt s = (case (ln_run_id s, ln_attempt_id s) of
     (Some r, Some a) \<Rightarrow> Some (r, a) | _ \<Rightarrow> None)"

text \<open>The calls of the single writer, as steps of one machine.\<close>

datatype run_op =
  OpBegin | OpCancel | OpFail | OpReconnectStarted | OpReconnectComplete "u64 option" | OpDisconnected
  | OpEvent live_run_event | OpSummary run_summary

fun run_step :: "run_op \<Rightarrow> (launch_state, run_event_error, unit) call" where
  "run_step OpBegin s = begin_launch s"
| "run_step OpCancel s = request_cancel s"
| "run_step OpFail s = (Inr (), mark_failed s)"
| "run_step OpReconnectStarted s = (Inr (), reconnect_started s)"
| "run_step (OpReconnectComplete latest) s = (Inr (), reconnect_complete latest s)"
| "run_step OpDisconnected s = (Inr (), disconnected s)"
| "run_step (OpEvent ev) s = apply_event ev s"
| "run_step (OpSummary summary) s = observe_summary summary s"


section \<open>Lemmas\<close>

text \<open>What an accepted call says of the run: its revision and the identity it names.\<close>

fun op_revisions :: "run_op \<Rightarrow> u64 list" where
  "op_revisions (OpEvent ev) = [re_revision ev]"
| "op_revisions (OpSummary summary) = [sum_revision summary]"
| "op_revisions _ = []"

fun op_identities :: "run_op \<Rightarrow> (string \<times> string) list" where
  "op_identities (OpEvent ev) = [(re_run_id ev, re_attempt_id ev)]"
| "op_identities (OpSummary summary) = [(sum_run_id summary, sum_attempt_id summary)]"
| "op_identities _ = []"

fun op_begins :: "run_op \<Rightarrow> nat" where
  "op_begins OpBegin = 1"
| "op_begins _ = 0"

definition statistics_ok :: "launch_state \<Rightarrow> bool" where
  "statistics_ok s \<longleftrightarrow> (case ln_statistics s of None \<Rightarrow> True | Some st \<Rightarrow>
     stat_completed_measures st \<le> stat_total_measures st \<and> stat_failed_measures st \<le> stat_total_measures st
     \<and> stat_generation st = ln_generation s \<and> ln_run_id s = Some (stat_run_id st)
     \<and> ln_attempt_id s = Some (stat_attempt_id st)
     \<and> (stat_provenance st = StatisticsUnavailable \<longrightarrow> stat_unavailable_reason st \<noteq> None))"

lemmas run_op_defs = begin_launch_def request_cancel_def mark_failed_def reconnect_started_def
  reconnect_complete_def disconnected_def Let_def

definition event_statistics :: "live_run_event \<Rightarrow> live_statistics" where
  "event_statistics ev = \<lparr>stat_run_id = re_run_id ev, stat_attempt_id = re_attempt_id ev,
     stat_generation = re_generation ev, stat_state = re_state ev,
     stat_completed_measures = re_completed_measures ev, stat_total_measures = re_total_measures ev,
     stat_failed_measures = re_failed_measures ev,
     stat_throughput_per_second = re_throughput_per_second ev,
     stat_latency_millis = re_latency_millis ev, stat_provenance = re_provenance ev,
     stat_unavailable_reason = re_unavailable_reason ev\<rparr>"

lemma apply_event_accepted:
  assumes "apply_event ev s = (Inr u, s')"
  shows "s' = s\<lparr>ln_run_id := Some (re_run_id ev), ln_attempt_id := Some (re_attempt_id ev),
      ln_last_revision := Some (re_revision ev), ln_state := state_for_public (re_state ev),
      ln_statistics := Some (event_statistics ev)\<rparr>"
    "ln_last_revision s = None \<or> (\<exists>known. ln_last_revision s = Some known \<and> known < re_revision ev)"
    "re_generation ev = ln_generation s" "\<not> is_terminal (ln_state s) \<or> ln_state s = state_for_public (re_state ev)"
    "ln_run_id s \<in> {None, Some (re_run_id ev)}" "ln_attempt_id s \<in> {None, Some (re_attempt_id ev)}"
    "re_completed_measures ev \<le> re_total_measures ev" "re_failed_measures ev \<le> re_total_measures ev"
    "re_provenance ev \<noteq> StatisticsUnavailable \<or> re_unavailable_reason ev \<noteq> None"
  using assms unfolding apply_event_def Let_def event_statistics_def
  by (simp_all add: not_le not_less split: if_split_asm option.split_asm)

lemma apply_event_Inr:
  assumes "apply_event ev s = (Inr u, s')"
  shows "ln_last_revision s' = Some (re_revision ev)"
    "\<And>known. ln_last_revision s = Some known \<Longrightarrow> known < re_revision ev"
    "ln_run_id s' = Some (re_run_id ev)" "ln_attempt_id s' = Some (re_attempt_id ev)"
    "\<And>r. ln_run_id s = Some r \<Longrightarrow> r = re_run_id ev"
    "\<And>a. ln_attempt_id s = Some a \<Longrightarrow> a = re_attempt_id ev"
    "ln_state s' = state_for_public (re_state ev)"
    "is_terminal (ln_state s) \<Longrightarrow> ln_state s' = ln_state s"
    "statistics_ok s'" "ln_binding s' = ln_binding s" "ln_generation s' = ln_generation s"
    "map_option stat_completed_measures (ln_statistics s') = Some (re_completed_measures ev)"
    "map_option stat_total_measures (ln_statistics s') = Some (re_total_measures ev)"
  using apply_event_accepted [OF assms] by (auto simp: statistics_ok_def event_statistics_def)

lemma apply_event_refused:
  assumes "apply_event ev s = (Inl e, s')"
  shows "s' = s \<or> ln_run_id s \<in> {None, Some (re_run_id ev)} \<and> s' = s\<lparr>ln_run_id := Some (re_run_id ev)\<rparr>
    \<or> ln_run_id s \<in> {None, Some (re_run_id ev)} \<and> ln_attempt_id s \<in> {None, Some (re_attempt_id ev)}
      \<and> s' = s\<lparr>ln_run_id := Some (re_run_id ev), ln_attempt_id := Some (re_attempt_id ev)\<rparr>"
  using assms unfolding apply_event_def Let_def by (simp split: if_split_asm option.split_asm)

lemma apply_event_Inl:
  assumes "apply_event ev s = (Inl e, s')"
  shows "ln_last_revision s' = ln_last_revision s" "ln_state s' = ln_state s"
    "ln_statistics s' = ln_statistics s" "ln_generation s' = ln_generation s"
    "ln_binding s' = ln_binding s"
    "\<And>r. ln_run_id s = Some r \<Longrightarrow> ln_run_id s' = Some r"
    "\<And>a. ln_attempt_id s = Some a \<Longrightarrow> ln_attempt_id s' = Some a"
  using apply_event_refused [OF assms] by auto

lemma state_for_public_busy: "state_for_public p \<noteq> RunIdle"
  by (cases p) (simp_all add: state_for_public_def)

lemma summary_event_fields:
  "re_revision (summary_event x s) = sum_revision x" "re_run_id (summary_event x s) = sum_run_id x"
  "re_attempt_id (summary_event x s) = sum_attempt_id x" "re_state (summary_event x s) = sum_state x"
  by (simp_all add: summary_event_def Let_def)

text \<open>The calls that bring no event change no identity, and leave the revision and the outcome alone.\<close>

lemma local_step_keeps:
  assumes "op_revisions op = []"
  shows "ln_run_id (snd (run_step op s)) = ln_run_id s \<and> ln_attempt_id (snd (run_step op s)) = ln_attempt_id s
     \<and> ln_statistics (snd (run_step op s)) = ln_statistics s
     \<and> ln_generation (snd (run_step op s)) = ln_generation s"
  using assms by (cases op) (simp_all add: run_op_defs split: option.split)

lemma local_step_revision:
  "op_revisions op = [] \<Longrightarrow> ln_last_revision s = Some known \<Longrightarrow>
   \<exists>k. ln_last_revision (snd (run_step op s)) = Some k \<and> known \<le> k"
  by (cases op) (simp_all add: run_op_defs less_imp_le split: option.split)

lemma local_step_terminal:
  "op_revisions op = [] \<Longrightarrow> is_terminal (ln_state s) \<Longrightarrow> ln_state (snd (run_step op s)) = ln_state s"
  by (cases op) (auto simp: run_op_defs is_terminal_def split: option.split)

lemma local_step_busy:
  "op_revisions op = [] \<Longrightarrow> ln_state s \<noteq> RunIdle \<Longrightarrow> ln_state (snd (run_step op s)) \<noteq> RunIdle"
  by (cases op) (simp_all add: run_op_defs split: option.split)

lemma accepted_begin:
  "is_ok (fst (run_step op s)) \<Longrightarrow> 0 < op_begins op \<Longrightarrow>
   ln_state s = RunIdle \<and> ln_state (snd (run_step op s)) \<noteq> RunIdle \<and> op_begins op = 1"
  by (cases op) (simp_all add: begin_launch_def split: if_splits)

lemma run_step_event:
  assumes "op_revisions op \<noteq> []"
  obtains ev where "run_step op s = apply_event ev s" "op_revisions op = [re_revision ev]"
    "op_identities op = [(re_run_id ev, re_attempt_id ev)]" "op_begins op = 0"
proof (cases op)
  case (OpSummary x)
  then show ?thesis using that [of "summary_event x s"]
    by (simp add: observe_summary_def summary_event_fields)
qed (use assms that in simp_all)

lemma no_revision_no_identity: "op_revisions op = [] \<Longrightarrow> op_identities op = []"
  by (cases op) simp_all


lemma step_cases:
  assumes "run_step op s = (r, s')"
  obtains (local) "op_revisions op = []" "op_identities op = []"
  | (taken) ev where "apply_event ev s = (Inr (), s')" "r = Inr ()" "op_revisions op = [re_revision ev]"
      "op_identities op = [(re_run_id ev, re_attempt_id ev)]" "op_begins op = 0"
  | (refused) ev e where "apply_event ev s = (Inl e, s')" "r = Inl e"
proof (cases "op_revisions op = []")
  case True
  then show ?thesis using local no_revision_no_identity by blast
next
  case False
  then obtain ev where ev: "run_step op s = apply_event ev s" "op_revisions op = [re_revision ev]"
    "op_identities op = [(re_run_id ev, re_attempt_id ev)]" "op_begins op = 0"
    by (rule run_step_event)
  with assms show ?thesis using taken [of ev] refused [of ev] by (cases r) auto
qed

lemma step_revision:
  assumes "run_step op s = (r, s')" "ln_last_revision s = Some known"
  shows "\<exists>k. ln_last_revision s' = Some k \<and> known \<le> k"
  using assms(1)
proof (cases rule: step_cases)
  case local
  then show ?thesis using local_step_revision [of op s known] assms by simp
next
  case taken
  then show ?thesis using apply_event_Inr(1,2) assms(2) less_imp_le by blast
next
  case refused
  then show ?thesis using apply_event_Inl(1) assms(2) by auto
qed

lemma accepted_revision:
  assumes "run_step op s = (Inr u, s')" "k \<in> set (op_revisions op)"
  shows "ln_last_revision s' = Some k \<and> (\<forall>known. ln_last_revision s = Some known \<longrightarrow> known < k)"
  using assms(1)
proof (cases rule: step_cases)
  case (taken ev)
  then show ?thesis using apply_event_Inr(1,2) [OF taken(1)] assms(2) by auto
qed (use assms in auto)

lemma step_identity:
  assumes "run_step op s = (r, s')"
  shows "(\<forall>i. ln_run_id s = Some i \<longrightarrow> ln_run_id s' = Some i) \<and> (\<forall>i. ln_attempt_id s = Some i \<longrightarrow> ln_attempt_id s' = Some i)"
  using assms
proof (cases rule: step_cases)
  case local
  then show ?thesis using local_step_keeps [of op s] assms by simp
next
  case taken
  then show ?thesis using apply_event_Inr(3-6) by metis
next
  case refused
  then show ?thesis using apply_event_Inl(6,7) by metis
qed

lemma accepted_identity:
  assumes "run_step op s = (Inr u, s')" "(i, j) \<in> set (op_identities op)"
  shows "ln_run_id s' = Some i \<and> ln_attempt_id s' = Some j
    \<and> (\<forall>r. ln_run_id s = Some r \<longrightarrow> r = i) \<and> (\<forall>a. ln_attempt_id s = Some a \<longrightarrow> a = j)"
  using assms(1)
proof (cases rule: step_cases)
  case (taken ev)
  then show ?thesis using apply_event_Inr(3-6) [OF taken(1)] assms(2) by auto
qed (use assms in auto)

lemma step_terminal:
  assumes "run_step op s = (r, s')" "is_terminal (ln_state s)"
  shows "ln_state s' = ln_state s"
  using assms(1)
proof (cases rule: step_cases)
  case local
  then show ?thesis using local_step_terminal [of op s] assms by simp
next
  case taken
  then show ?thesis using apply_event_Inr(8) assms(2) by blast
next
  case refused
  then show ?thesis using apply_event_Inl(2) by blast
qed

lemma step_busy:
  assumes "run_step op s = (r, s')" "ln_state s \<noteq> RunIdle"
  shows "ln_state s' \<noteq> RunIdle"
  using assms(1)
proof (cases rule: step_cases)
  case local
  then show ?thesis using local_step_busy [of op s] assms by simp
next
  case taken
  then show ?thesis using apply_event_Inr(7) state_for_public_busy by metis
next
  case refused
  then show ?thesis using apply_event_Inl(2) assms(2) by metis
qed

lemma statistics_ok_cong:
  "ln_statistics s' = ln_statistics s \<Longrightarrow> ln_generation s' = ln_generation s \<Longrightarrow> ln_run_id s' = ln_run_id s \<Longrightarrow>
   ln_attempt_id s' = ln_attempt_id s \<Longrightarrow> statistics_ok s' = statistics_ok s"
  by (simp add: statistics_ok_def split: option.split)

definition run_inv :: "u64 \<Rightarrow> launch_state \<Rightarrow> bool" where
  "run_inv g s \<longleftrightarrow> statistics_ok s \<and> ln_generation s = g"

lemma step_run_inv:
  assumes "run_step op s = (r, s')" "run_inv g s"
  shows "run_inv g s'"
  using assms(1)
proof (cases rule: step_cases)
  case local
  then show ?thesis using local_step_keeps [of op s] assms statistics_ok_cong [of s' s]
    by (simp add: run_inv_def)
next
  case taken
  then show ?thesis using apply_event_Inr(9,11) assms(2) by (auto simp: run_inv_def)
next
  case refused
  then show ?thesis using apply_event_Inl [OF refused(1)] assms(2)
    by (auto simp: run_inv_def statistics_ok_def split: option.splits)
qed

interpretation run: safe_machine run_step "run_inv g" for g
  by unfold_locales (metis step_run_inv prod.collapse)


lemma accepted_revisions_increase:
  "sorted_wrt (<) (concat (map op_revisions (accepted run_step ops s)))
   \<and> (\<forall>known k. ln_last_revision s = Some known \<longrightarrow>
        k \<in> set (concat (map op_revisions (accepted run_step ops s))) \<longrightarrow> known < k)"
proof (induction ops arbitrary: s)
  case (Cons op ops)
  obtain r s' where st: "run_step op s = (r, s')" by fastforce
  let ?rest = "concat (map op_revisions (accepted run_step ops s'))"
  note IH = Cons [of s']
  have rest: "known < k" if "ln_last_revision s = Some known" "k \<in> set ?rest" for known k
    using step_revision [OF st that(1)] IH that(2) by (auto intro: le_less_trans)
  show ?case
  proof (cases r)
    case (Inl e)
    then show ?thesis using IH rest st by simp
  next
    case (Inr u)
    have own: "ln_last_revision s' = Some k \<and> (\<forall>known. ln_last_revision s = Some known \<longrightarrow> known < k)"
      if "k \<in> set (op_revisions op)" for k
      using accepted_revision st Inr that by blast
    have "sorted_wrt (<) (op_revisions op)" by (cases op) simp_all
    then have "sorted_wrt (<) (op_revisions op @ ?rest)"
      using IH own by (auto simp: sorted_wrt_append)
    then show ?thesis using st Inr own rest by auto
  qed
qed simp

lemma accepted_identities_fixed:
  "ln_run_id s = Some r \<Longrightarrow> ln_attempt_id s = Some a \<Longrightarrow>
   set (concat (map op_identities (accepted run_step ops s))) \<subseteq> {(r, a)}"
proof (induction ops arbitrary: s)
  case (Cons op ops)
  obtain v s' where st: "run_step op s = (v, s')" by fastforce
  then have "set (concat (map op_identities (accepted run_step ops s'))) \<subseteq> {(r, a)}"
    using step_identity [OF st] Cons by blast
  moreover have "(i, j) = (r, a)" if "v = Inr u" "(i, j) \<in> set (op_identities op)" for u i j
    using accepted_identity [of op s u s' i j] st that Cons.prems by blast
  then have "set (op_identities op) \<subseteq> {(r, a)}" if "v = Inr u" for u
    using that by auto
  ultimately show ?case using st by (cases v) auto
qed simp

lemma accepted_identities_agree:
  "\<exists>i. set (concat (map op_identities (accepted run_step ops s))) \<subseteq> {i}"
proof (induction ops arbitrary: s)
  case (Cons op ops)
  obtain v s' where st: "run_step op s = (v, s')" by fastforce
  show ?case
  proof (cases "is_ok v \<and> op_identities op \<noteq> []")
    case True
    then obtain i j where ij: "v = Inr ()" "op_identities op = [(i, j)]"
      by (cases op; cases v) simp_all
    then have "ln_run_id s' = Some i \<and> ln_attempt_id s' = Some j"
      using accepted_identity [of op s "()" s' i j] st by simp
    then show ?thesis using accepted_identities_fixed [of s' i j ops] st ij by auto
  next
    case False
    then show ?thesis using Cons [of s'] st by (cases v) auto
  qed
qed simp

lemma accepted_begins:
  "sum_list (map op_begins (accepted run_step ops s)) \<le> (if ln_state s = RunIdle then 1 else 0)"
proof (induction ops arbitrary: s)
  case (Cons op ops)
  obtain v s' where st: "run_step op s = (v, s')" by fastforce
  let ?n = "sum_list (map op_begins (accepted run_step ops s'))"
  have "?n \<le> 1" using Cons [of s'] by (rule order_trans) simp
  moreover have "?n = 0" if "ln_state s' \<noteq> RunIdle" using Cons [of s'] that by simp
  ultimately have rest: "?n \<le> 1" "ln_state s' \<noteq> RunIdle \<Longrightarrow> ?n = 0" by blast+
  have busy: "ln_state s \<noteq> RunIdle \<Longrightarrow> ln_state s' \<noteq> RunIdle" using step_busy [OF st] by blast
  have own: "is_ok v \<Longrightarrow> 0 < op_begins op \<Longrightarrow>
      ln_state s = RunIdle \<and> ln_state s' \<noteq> RunIdle \<and> op_begins op = 1"
    using accepted_begin [of op s] st by simp
  have "?n \<le> (if ln_state s = RunIdle then 1 else 0)" using rest busy by (simp split: if_split)
  moreover have "accepted run_step (op # ops) s = (if is_ok v then [op] else []) @ accepted run_step ops s'"
    using st by simp
  then have "sum_list (map op_begins (accepted run_step (op # ops) s)) = (if is_ok v then op_begins op else 0) + ?n"
    by (simp only: map_append sum_list_append) simp
  ultimately show ?case
    using own rest(2) by (cases "is_ok v \<and> 0 < op_begins op") (auto simp del: accepted.simps sum_list_eq_0_iff)
qed simp

lemma terminal_stays: "is_terminal (ln_state s) \<Longrightarrow> ln_state (run_calls run_step ops s) = ln_state s"
proof (induction ops arbitrary: s)
  case (Cons op ops)
  obtain v s' where st: "run_step op s = (v, s')" by fastforce
  then show ?case using step_terminal [OF st] Cons by simp
qed simp

lemma identity_stays:
  "ln_run_id s = Some i \<Longrightarrow> ln_run_id (run_calls run_step ops s) = Some i"
proof (induction ops arbitrary: s)
  case (Cons op ops)
  obtain v s' where st: "run_step op s = (v, s')" by fastforce
  then show ?case using step_identity [OF st] Cons by simp
qed simp

section \<open>Progress\<close>

lemma percent_quotient:
  fixes c t :: u16
  assumes "c \<le> t" "t \<noteq> 0"
  shows "unat (ucast ((ucast c :: u32) * 100 div ucast t) :: u8) = unat c * 100 div unat t
    \<and> unat c * 100 div unat t \<le> 100"
proof -
  have t: "unat t < 65536" "0 < unat t" using assms unsigned_less [of t] by (simp_all add: unat_gt_0)
  have ct: "unat c \<le> unat t" using assms by (simp add: word_le_nat_alt)
  have up: "unat (ucast w :: u32) = unat w" for w :: u16
  proof -
    have "unat w < 2 ^ 16" using unsigned_less [of w] by simp
    then show ?thesis by (simp add: unsigned_ucast_eq take_bit_nat_eq_self_iff)
  qed
  have q: "unat c * 100 div unat t \<le> 100"
    using ct t(2) by (metis div_le_mono nonzero_mult_div_cancel_left mult.commute mult_le_mono1 neq0_conv)
  have "unat c * 100 < 2 ^ 32" using ct t by simp
  then have "unat ((ucast c :: u32) * 100) = unat c * 100"
    by (simp add: unat_word_ariths up)
  then have "unat ((ucast c :: u32) * 100 div ucast t) = unat c * 100 div unat t"
    by (simp add: unat_div up)
  then show ?thesis using q by (simp add: unsigned_ucast_eq take_bit_nat_eq_self_iff)
qed

lemma percent_value:
  "stat_total_measures st \<noteq> 0 \<Longrightarrow> unat (bounded_progress_percent st) =
     unat (min (stat_completed_measures st) (stat_total_measures st)) * 100 div unat (stat_total_measures st)"
  using percent_quotient [of "min (stat_completed_measures st) (stat_total_measures st)" "stat_total_measures st"]
  by (simp add: bounded_progress_percent_def Let_def)

lemma percent_bounded: "unat (bounded_progress_percent st) \<le> 100"
  using percent_quotient [of "min (stat_completed_measures st) (stat_total_measures st)" "stat_total_measures st"]
  by (cases "stat_total_measures st = 0") (simp_all add: percent_value, simp add: bounded_progress_percent_def)

lemma percent_full:
  "stat_total_measures st \<noteq> 0 \<Longrightarrow> stat_completed_measures st = stat_total_measures st \<Longrightarrow>
   bounded_progress_percent st = 100"
proof -
  assume st: "stat_total_measures st \<noteq> 0" "stat_completed_measures st = stat_total_measures st"
  then have "unat (bounded_progress_percent st) = unat (100 :: u8)" using percent_value [of st] by (simp add: unat_gt_0)
  then show "bounded_progress_percent st = 100" by (simp only: word_unat_eq_iff)
qed

section \<open>Fences\<close>

lemma selection_inside_pool:
  assumes "\<not> selection_outside_pool b pool" "g \<in> set (lb_group_ids b)" "i \<in> set (lb_benchmark_ids b)"
  shows "\<exists>group entry. group \<in> set (lp_groups pool) \<and> lg_id group = g
     \<and> entry \<in> set (lg_benchmarks group) \<and> le_id entry = i \<and> set (lb_measure_ids b) \<subseteq> set (le_measure_ids entry)"
proof -
  obtain group where g: "find (\<lambda>x. lg_id x = g) (lp_groups pool) = Some group"
    using assms(1,2) by (force simp: selection_outside_pool_def list_ex_iff split: option.splits)
  then obtain entry where e: "find (\<lambda>x. le_id x = i) (lg_benchmarks group) = Some entry"
    using assms by (force simp: selection_outside_pool_def list_ex_iff split: option.splits)
  have "set (lb_measure_ids b) \<subseteq> set (le_measure_ids entry)"
    using assms g e by (force simp: selection_outside_pool_def list_ex_iff split: option.splits)
  with find_Some_in [OF g] find_Some_in [OF e] show ?thesis by auto
qed

lemma launch_validate_Inr:
  assumes "launch_validate_binding to_string bundle s = Inr u"
  defines "b \<equiv> bundle_launch_binding bundle"
  obtains provider catalog pool c where
    "validate_integrity to_string bundle = Inr ()"
    "sn_provider_catalog s = Some provider" "pv_generation provider = lb_provider_catalog_generation b"
    "pv_catalog_sha256 provider = lb_provider_catalog_digest b"
    "sn_benchmark_catalog s = Some catalog" "lc_generation catalog = lb_benchmark_catalog_generation b"
    "lc_catalog_sha256 catalog = lb_benchmark_catalog_digest b" "lc_generation catalog \<noteq> 0"
    "pool \<in> set (lc_pools catalog)" "lp_id pool = lb_pool_id b" "\<not> selection_outside_pool b pool"
    "lb_group_ids b \<noteq> []" "lb_benchmark_ids b \<noteq> []" "lb_measure_ids b \<noteq> []"
    "distinct (lb_group_ids b)" "distinct (lb_benchmark_ids b)" "distinct (lb_measure_ids b)"
    "sn_connection s = LiveNegotiated" "sn_configuration s = Some c" "cf_configured c"
    "cf_provider_id c = Some (lb_provider_id b)" "cf_model_id c = Some (lb_model_id b)"
    "cf_agent_ids c = lb_agent_ids b"
proof -
  note launch_validate_binding_def [unfolded Let_def, simp]
  from assms(1) obtain provider catalog pool c where
    1: "validate_integrity to_string bundle = Inr ()" and
    2: "sn_provider_catalog s = Some provider" and 3: "sn_benchmark_catalog s = Some catalog" and
    4: "find (\<lambda>p. lp_id p = lb_pool_id b) (lc_pools catalog) = Some pool" and
    5: "sn_configuration s = Some c"
    unfolding b_def [symmetric] by (auto simp: result_simps b_def split: if_splits option.splits)
  show ?thesis
    using assms(1) that [OF 1 2 _ _ 3 _ _ _ _ _ _ _ _ _ _ _ _ _ 5] 1 2 3 4 5 find_Some_in [OF 4]
    unfolding b_def by (auto split: if_splits)
qed


section \<open>Properties\<close>

text \<open>
  C2: nothing is launched on stale or foreign ground. A launch request is made only for an
  intact bundle, under a well-formed key, over a negotiated connection, with the provider and
  benchmark catalogs of exactly the reviewed generation and digest, a runner configured with the
  reviewed provider, model and agents, and a selection without repeats every part of which the
  live pool offers.
\<close>

theorem launch_request_fenced:
  assumes "launch_request_new to_string bundle s key = Inr request"
  shows "lr_binding request = bundle_launch_binding bundle \<and> lr_idempotency_key request = key
       \<and> key \<noteq> [] \<and> length key \<le> 128 \<and> validate_integrity to_string bundle = Inr ()
       \<and> sn_connection s = LiveNegotiated
       \<and> (\<exists>provider. sn_provider_catalog s = Some provider
            \<and> pv_generation provider = lb_provider_catalog_generation (lr_binding request)
            \<and> pv_catalog_sha256 provider = lb_provider_catalog_digest (lr_binding request))
       \<and> (\<exists>c. sn_configuration s = Some c \<and> cf_configured c
            \<and> cf_provider_id c = Some (lb_provider_id (lr_binding request))
            \<and> cf_model_id c = Some (lb_model_id (lr_binding request))
            \<and> cf_agent_ids c = lb_agent_ids (lr_binding request))
       \<and> distinct (lb_measure_ids (lr_binding request))
       \<and> (\<exists>catalog pool. sn_benchmark_catalog s = Some catalog
            \<and> lc_generation catalog = lb_benchmark_catalog_generation (lr_binding request)
            \<and> lc_catalog_sha256 catalog = lb_benchmark_catalog_digest (lr_binding request)
            \<and> pool \<in> set (lc_pools catalog) \<and> lp_id pool = lb_pool_id (lr_binding request)
            \<and> (\<forall>g i m. g \<in> set (lb_group_ids (lr_binding request))
                 \<and> i \<in> set (lb_benchmark_ids (lr_binding request))
                 \<and> m \<in> set (lb_measure_ids (lr_binding request)) \<longrightarrow>
                 (\<exists>group \<in> set (lp_groups pool). lg_id group = g
                    \<and> (\<exists>entry \<in> set (lg_benchmarks group). le_id entry = i
                         \<and> m \<in> set (le_measure_ids entry)))))"
proof -
  from assms have key: "validate_id key ''idempotency key'' = Inr ()"
    and ok: "launch_validate_binding to_string bundle s = Inr ()"
    and req: "request = \<lparr>lr_binding = bundle_launch_binding bundle, lr_idempotency_key = key\<rparr>"
    by (auto simp: launch_request_new_def result_simps)
  have "key \<noteq> [] \<and> length key \<le> 128"
    using key by (auto simp: validate_id_def MAX_LAUNCH_ID_BYTES_def split: if_splits)
  moreover obtain provider catalog pool c where f:
    "validate_integrity to_string bundle = Inr ()"
    "sn_provider_catalog s = Some provider"
    "pv_generation provider = lb_provider_catalog_generation (bundle_launch_binding bundle)"
    "pv_catalog_sha256 provider = lb_provider_catalog_digest (bundle_launch_binding bundle)"
    "sn_benchmark_catalog s = Some catalog"
    "lc_generation catalog = lb_benchmark_catalog_generation (bundle_launch_binding bundle)"
    "lc_catalog_sha256 catalog = lb_benchmark_catalog_digest (bundle_launch_binding bundle)"
    "pool \<in> set (lc_pools catalog)" "lp_id pool = lb_pool_id (bundle_launch_binding bundle)"
    "\<not> selection_outside_pool (bundle_launch_binding bundle) pool"
    "distinct (lb_measure_ids (bundle_launch_binding bundle))"
    "sn_connection s = LiveNegotiated" "sn_configuration s = Some c" "cf_configured c"
    "cf_provider_id c = Some (lb_provider_id (bundle_launch_binding bundle))"
    "cf_model_id c = Some (lb_model_id (bundle_launch_binding bundle))"
    "cf_agent_ids c = lb_agent_ids (bundle_launch_binding bundle)"
    using ok by (rule launch_validate_Inr)
  moreover have "\<exists>group \<in> set (lp_groups pool). lg_id group = g
      \<and> (\<exists>entry \<in> set (lg_benchmarks group). le_id entry = i \<and> m \<in> set (le_measure_ids entry))"
    if "g \<in> set (lb_group_ids (bundle_launch_binding bundle))"
      "i \<in> set (lb_benchmark_ids (bundle_launch_binding bundle))"
      "m \<in> set (lb_measure_ids (bundle_launch_binding bundle))" for g i m
    using selection_inside_pool [OF f(10) that(1,2)] that(3) by blast
  ultimately show ?thesis unfolding req by (simp, blast)
qed

text \<open>
  C3: the history of a run is the history of one attempt. In any sequence of calls on a fresh
  state the launch begins at most once, the accepted events carry strictly increasing revisions
  and all name the same run and attempt, and the statistics shown stay within their bounds, at
  the generation of the launched catalog, with a percentage of at most 100.
\<close>

theorem run_history_is_one_attempt:
  fixes ops and b
  defines "history \<equiv> accepted run_step ops (launch_state_new b)"
    and "s \<equiv> run_calls run_step ops (launch_state_new b)"
  shows "sum_list (map op_begins history) \<le> 1
       \<and> sorted_wrt (<) (concat (map op_revisions history))
       \<and> (\<exists>i. set (concat (map op_identities history)) \<subseteq> {i})
       \<and> statistics_ok s \<and> ln_generation s = lb_benchmark_catalog_generation b
       \<and> (\<forall>st. ln_statistics s = Some st \<longrightarrow> unat (bounded_progress_percent st) \<le> 100)"
proof -
  have "run_inv (lb_benchmark_catalog_generation b) (launch_state_new b)"
    by (simp add: run_inv_def statistics_ok_def launch_state_new_def)
  from run.run_inv [OF this, of ops] show ?thesis
    using accepted_begins [of ops "launch_state_new b"] accepted_revisions_increase [of ops "launch_state_new b"]
      accepted_identities_agree [of ops "launch_state_new b"] percent_bounded
    by (simp add: history_def s_def run_inv_def launch_state_new_def)
qed

text \<open>
  The outcome of a run is final: once it is completed, failed, cancelled or unavailable, no
  sequence of calls, reconnects and late events included, changes it.
\<close>

theorem run_outcome_final:
  assumes "is_terminal (ln_state s)"
  shows "ln_state (run_calls run_step ops s) = ln_state s"
  using terminal_stays [OF assms] .

text \<open>
  A refused event can decide the run. An event that is refused only for its bounds has
  already set the run identity, and from then on no event of any other run is accepted.
\<close>

theorem refused_event_binds_run:
  fixes ops
  assumes "apply_event ev (launch_state_new b) = (Inl ProgressOutOfBounds, s)"
    and "re_run_id other \<noteq> re_run_id ev"
  shows "\<not> is_ok (fst (apply_event other (run_calls run_step ops s)))"
proof -
  have "ln_run_id s = Some (re_run_id ev)"
    using assms(1) by (auto simp: apply_event_def launch_state_new_def Let_def split: if_splits)
  then have "ln_run_id (run_calls run_step ops s) = Some (re_run_id ev)" by (rule identity_stays)
  then show ?thesis
    using assms(2) apply_event_Inr(5) [of other "run_calls run_step ops s"]
    by (cases "apply_event other (run_calls run_step ops s)"; cases "fst (apply_event other (run_calls run_step ops s))")
      (auto simp: is_ok_def)
qed

text \<open>
  A run that failed or was cancelled is shown as fully complete when only its summary is
  known: the projected progress is 100 percent whatever was measured.
\<close>

theorem failed_summary_shows_full_progress:
  assumes "sum_state summary \<in> {PublicFailed, PublicCancelled}" and "lb_measure_ids (ln_binding s) \<noteq> []"
    and "observe_summary summary s = (Inr (), s')"
  shows "\<exists>st. ln_statistics s' = Some st \<and> bounded_progress_percent st = 100"
proof -
  let ?ev = "summary_event summary s"
  have ap: "apply_event ?ev s = (Inr (), s')" using assms(3) by (simp add: observe_summary_def)
  obtain st where st: "ln_statistics s' = Some st" "stat_completed_measures st = re_completed_measures ?ev"
    "stat_total_measures st = re_total_measures ?ev"
    using apply_event_Inr(12,13) [OF ap] by auto
  have "re_completed_measures ?ev = re_total_measures ?ev"
    using assms(1) by (auto simp: summary_event_def Let_def)
  moreover have "re_total_measures ?ev \<noteq> 0"
  proof (cases "length (lb_measure_ids (ln_binding s)) \<le> 65535")
    case True
    then have "unat (word_of_nat (length (lb_measure_ids (ln_binding s))) :: u16)
        = length (lb_measure_ids (ln_binding s))"
      by (simp add: unat_of_nat)
    then have "(word_of_nat (length (lb_measure_ids (ln_binding s))) :: u16) \<noteq> 0"
      using assms(2) by (metis length_0_conv unsigned_0)
    with True show ?thesis by (simp add: summary_event_def Let_def u16_try_from_def)
  next
    case False
    then show ?thesis by (simp add: summary_event_def Let_def u16_try_from_def)
  qed
  ultimately show ?thesis using st percent_full [of st] by simp
qed


section \<open>Examples\<close>

definition sample_snapshot :: live_snapshot where
  "sample_snapshot = \<lparr>sn_connection = LiveNegotiated,
     sn_benchmark_catalog = Some \<lparr>lc_generation = 1, lc_catalog_sha256 = replicate 64 CHR ''b'',
       lc_pools = [\<lparr>lp_id = ''pool'', lp_groups = [\<lparr>lg_id = ''group'', lg_benchmarks =
         [\<lparr>le_id = ''bench'', le_measure_ids = [''cpu'', ''mem'']\<rparr>]\<rparr>]\<rparr>]\<rparr>,
     sn_provider_catalog = Some (sample_providers\<lparr>pv_generation := 1, pv_catalog_sha256 := replicate 64 CHR ''0''\<rparr>),
     sn_configuration = Some \<lparr>cf_runner_instance_id = ''runner'', cf_generation = 1, cf_configured = True,
       cf_agent_ids = [''agent-a''], cf_provider_id = Some ''p'', cf_model_id = Some ''m'',
       cf_auth_method = Some NoAuth, cf_credential_reference_sha256 = None\<rparr>\<rparr>"

definition sample_event :: "public_run_state \<Rightarrow> u16 \<Rightarrow> live_run_event" where
  "sample_event state completed = \<lparr>re_revision = 5, re_run_id = ''run'', re_attempt_id = ''attempt'',
     re_generation = 1, re_state = state, re_completed_measures = completed, re_total_measures = 2,
     re_failed_measures = 0, re_throughput_per_second = None, re_latency_millis = None,
     re_provenance = LiveProvenance, re_unavailable_reason = None\<rparr>"

definition sample_summary :: run_summary where
  "sample_summary = \<lparr>sum_run_id = ''run'', sum_attempt_id = ''attempt'', sum_state = PublicCancelled,
     sum_created_revision = 1, sum_revision = 2, sum_plan_sha256 = ''''\<rparr>"

definition sample_binding :: launch_binding where
  "sample_binding = \<lparr>lb_materialization_digest_sha256 = '''', lb_provider_catalog_generation = 1,
      lb_provider_catalog_digest = '''', lb_benchmark_catalog_generation = 1,
      lb_benchmark_catalog_digest = '''', lb_agent_ids = [''agent-a''], lb_provider_id = ''p'', lb_model_id = ''m'',
      lb_pool_id = ''pool'', lb_group_ids = [''group''], lb_benchmark_ids = [''bench''],
      lb_measure_ids = [''cpu''], lb_development_only = False, lb_execution_mode = Live\<rparr>"

definition sample_request :: launch_request where
  "sample_request = \<lparr>lr_binding = bundle_launch_binding sample_bundle, lr_idempotency_key = ''key''\<rparr>"

lemma sample_bundle_binding:
  "bundle_launch_binding sample_bundle = \<lparr>lb_materialization_digest_sha256 = bu_digest_sha256 sample_bundle,
      lb_provider_catalog_generation = 1, lb_provider_catalog_digest = replicate 64 CHR ''0'',
      lb_benchmark_catalog_generation = 1, lb_benchmark_catalog_digest = replicate 64 CHR ''b'',
      lb_agent_ids = [''agent-a''], lb_provider_id = ''p'', lb_model_id = ''m'',
      lb_pool_id = ''pool'', lb_group_ids = [''group''], lb_benchmark_ids = [''bench''],
      lb_measure_ids = [''cpu''], lb_development_only = True, lb_execution_mode = LocalMock\<rparr>"
  by (simp add: bundle_launch_binding_def sample_bundle_def Let_def unsigned_document_def sample_input_def
      material_draft_def handoff_cpu_def)

lemma sample_request_made:
  "launch_request_new sample_writer sample_bundle sample_snapshot ''key'' = Inr sample_request"
proof -
  have "validate_integrity sample_writer sample_bundle = Inr ()"
    using built_self_consistent [OF sample_build] by (simp add: validate_integrity_Inr)
  moreover have "mc_configuration_digest_sha256 (bu_document sample_bundle) = bu_digest_sha256 sample_bundle"
    by (simp add: sample_bundle_def Let_def)
  moreover have "validate_id ''key'' ''idempotency key'' = Inr ()"
    by (simp add: validate_id_def MAX_LAUNCH_ID_BYTES_def text_defs)
  ultimately show ?thesis
    by (simp add: launch_request_new_def launch_validate_binding_def Let_def sample_bundle_binding
        sample_snapshot_def sample_request_def selection_outside_pool_def)
qed

theorem launch_request_fenced_witness:
  "lr_idempotency_key sample_request = ''key'' \<and> sn_connection sample_snapshot = LiveNegotiated"
  using launch_request_fenced [OF sample_request_made] by simp

theorem run_history_is_one_attempt_witness:
  "sorted_wrt (<) (concat (map op_revisions
     (accepted run_step [OpBegin, OpSummary sample_summary, OpEvent (sample_event PublicCancelled 1)]
        (launch_state_new sample_binding))))"
  using run_history_is_one_attempt
    [of "[OpBegin, OpSummary sample_summary, OpEvent (sample_event PublicCancelled 1)]" sample_binding]
  by blast

theorem run_outcome_final_witness:
  "ln_state (run_calls run_step [OpEvent (sample_event PublicRunning 1)]
     ((launch_state_new sample_binding)\<lparr>ln_state := RunCancelled\<rparr>)) = RunCancelled"
  using run_outcome_final [of "(launch_state_new sample_binding)\<lparr>ln_state := RunCancelled\<rparr>"]
  by (simp add: is_terminal_def del: run_calls.simps)

theorem refused_event_binds_run_witness:
  "\<not> is_ok (fst (apply_event ((sample_event PublicRunning 1)\<lparr>re_run_id := ''other''\<rparr>)
     ((launch_state_new sample_binding)\<lparr>ln_run_id := Some ''run'', ln_attempt_id := Some ''attempt''\<rparr>)))"
proof -
  have "apply_event (sample_event PublicRunning 3) (launch_state_new sample_binding)
      = (Inl ProgressOutOfBounds,
         (launch_state_new sample_binding)\<lparr>ln_run_id := Some ''run'', ln_attempt_id := Some ''attempt''\<rparr>)"
    by code_simp
  from refused_event_binds_run [OF this, of "(sample_event PublicRunning 1)\<lparr>re_run_id := ''other''\<rparr>" "[]"]
  show ?thesis by (simp add: sample_event_def)
qed

theorem failed_summary_shows_full_progress_witness:
  "\<exists>st. ln_statistics (snd (observe_summary sample_summary (launch_state_new sample_binding))) = Some st
     \<and> bounded_progress_percent st = 100"
proof -
  have "is_ok (fst (observe_summary sample_summary (launch_state_new sample_binding)))"
    by (simp add: observe_summary_def summary_event_def u16_try_from_def apply_event_def Let_def
        sample_summary_def sample_binding_def launch_state_new_def is_terminal_def)
  then have "observe_summary sample_summary (launch_state_new sample_binding)
      = (Inr (), snd (observe_summary sample_summary (launch_state_new sample_binding)))"
    by (cases "observe_summary sample_summary (launch_state_new sample_binding)") (auto simp: is_ok_def split: sum.splits)
  from failed_summary_shows_full_progress [OF _ _ this] show ?thesis
    by (simp add: sample_summary_def launch_state_new_def sample_binding_def)
qed

end
