(* ===== verification/Asb_Lifecycle.thy ===== *)
theory Asb_Lifecycle
  imports Agent_Catalog
begin

text \<open>
  Model of \<open>src/asb_lifecycle.rs\<close>: the lifecycle messages of the control protocol 1.5. Every
  request names the agent, the runner and the digest of the catalog it was chosen from; the
  properties relate this binding to the catalog's own validation and say which responses are
  accepted.
\<close>

datatype agent_lifecycle_state = Pending | Staging | Active | Cancelled | Failed | Removed

datatype agent_lifecycle_failure =
  StaleCatalog | UnauthenticatedCatalog | VerificationFailed | IncompatibleTarget
| SelfTestFailed | Busy | NeedsReconciliation

record agent_lifecycle_binding =
  lb_agent_id :: string
  lb_runner_instance_id :: string
  lb_catalog_sha256 :: string

record agent_install_request =
  ai_binding :: agent_lifecycle_binding
  ai_catalog_generation :: u64
  ai_idempotency_key :: string

record agent_status_request =
  as_binding :: agent_lifecycle_binding
  as_operation_id :: "string option"

record agent_cancel_request =
  ak_binding :: agent_lifecycle_binding
  ak_operation_id :: string
  ak_idempotency_key :: string

record agent_retry_request =
  ay_binding :: agent_lifecycle_binding
  ay_operation_id :: string
  ay_idempotency_key :: string

record agent_remove_request =
  am_binding :: agent_lifecycle_binding
  am_idempotency_key :: string

record agent_lifecycle_response =
  al_binding :: agent_lifecycle_binding
  al_operation_id :: string
  al_state :: agent_lifecycle_state
  al_generation :: u64
  al_progress_percent :: u8
  al_failure :: "agent_lifecycle_failure option"

section \<open>Validation\<close>

definition lifecycle_agent_id :: "string \<Rightarrow> (string, unit) result" where
  "lifecycle_agent_id s =
     (if s = [] \<or> 128 < length s
         \<or> \<not> list_all (\<lambda>b. is_ascii_lowercase b \<or> is_ascii_digit b \<or> b = CHR ''-'') s
      then Inl ''invalid agent id'' else Inr ())"

definition valid_identity :: "string \<Rightarrow> bool" where
  "valid_identity s \<longleftrightarrow> s \<noteq> [] \<and> length s \<le> 128
     \<and> list_all (\<lambda>b. is_ascii_alphanumeric b \<or> b \<in> {CHR ''.'', CHR ''_'', CHR '':'', CHR ''-''}) s"

definition valid_digest :: "string \<Rightarrow> bool" where
  "valid_digest s \<longleftrightarrow> length s = 64 \<and> list_all (\<lambda>b. is_ascii_hexdigit b \<and> \<not> is_ascii_uppercase b) s"

definition validate_binding :: "agent_lifecycle_binding \<Rightarrow> (string, unit) result" where
  "validate_binding b =
     (if \<not> is_ok (lifecycle_agent_id (lb_agent_id b)) \<or> \<not> valid_identity (lb_runner_instance_id b)
         \<or> \<not> valid_digest (lb_catalog_sha256 b)
      then Inl ''invalid lifecycle binding'' else Inr ())"

definition validate_mutation :: "agent_lifecycle_binding \<Rightarrow> string \<Rightarrow> string \<Rightarrow> (string, unit) result" where
  "validate_mutation binding operation_id key =
     and_then (validate_binding binding) (\<lambda>_.
       if \<not> valid_identity operation_id \<or> \<not> valid_identity key
       then Inl ''invalid lifecycle mutation identity'' else Inr ())"

definition install_validate :: "agent_install_request \<Rightarrow> (string, unit) result" where
  "install_validate r = and_then (validate_binding (ai_binding r)) (\<lambda>_.
     if \<not> valid_identity (ai_idempotency_key r) then Inl ''invalid install idempotency key'' else Inr ())"

definition status_validate :: "agent_status_request \<Rightarrow> (string, unit) result" where
  "status_validate r = and_then (validate_binding (as_binding r)) (\<lambda>_.
     if (case as_operation_id r of None \<Rightarrow> False | Some i \<Rightarrow> \<not> valid_identity i)
     then Inl ''invalid status operation id'' else Inr ())"

definition cancel_validate :: "agent_cancel_request \<Rightarrow> (string, unit) result" where
  "cancel_validate r = validate_mutation (ak_binding r) (ak_operation_id r) (ak_idempotency_key r)"

definition retry_validate :: "agent_retry_request \<Rightarrow> (string, unit) result" where
  "retry_validate r = validate_mutation (ay_binding r) (ay_operation_id r) (ay_idempotency_key r)"

definition remove_validate :: "agent_remove_request \<Rightarrow> (string, unit) result" where
  "remove_validate r = and_then (validate_binding (am_binding r)) (\<lambda>_.
     if \<not> valid_identity (am_idempotency_key r) then Inl ''invalid remove idempotency key'' else Inr ())"

definition validate_identity :: "string \<Rightarrow> (string, unit) result" where
  "validate_identity s =
     (if s = [] \<or> 128 < length s
         \<or> \<not> list_all (\<lambda>b. is_ascii_alphanumeric b \<or> b \<in> {CHR ''.'', CHR ''_'', CHR '':'', CHR ''-''}) s
      then Inl ''invalid lifecycle identity'' else Inr ())"

definition lifecycle_digest :: "string \<Rightarrow> (string, unit) result" where
  "lifecycle_digest s =
     (if length s \<noteq> 64 \<or> \<not> list_all (\<lambda>b. is_ascii_hexdigit b \<and> \<not> is_ascii_uppercase b) s
      then Inl ''invalid lifecycle digest'' else Inr ())"

definition response_validate :: "agent_lifecycle_response \<Rightarrow> (string, unit) result" where
  "response_validate v =
     and_then (lifecycle_agent_id (lb_agent_id (al_binding v))) (\<lambda>_.
     and_then (validate_identity (lb_runner_instance_id (al_binding v))) (\<lambda>_.
     and_then (lifecycle_digest (lb_catalog_sha256 (al_binding v))) (\<lambda>_.
     and_then (validate_identity (al_operation_id v)) (\<lambda>_.
       if 100 < al_progress_percent v then Inl ''invalid lifecycle progress''
       else if al_state v = Failed \<and> al_failure v = None
       then Inl ''failed lifecycle response has no reason''
       else if al_state v \<noteq> Failed \<and> al_failure v \<noteq> None
       then Inl ''non-failed lifecycle response has a failure''
       else if al_state v \<in> {Active, Cancelled, Removed} \<and> al_progress_percent v \<noteq> 100
       then Inl ''terminal lifecycle response is incomplete''
       else Inr ()))))"

section \<open>The calls on the wire\<close>

definition binding_to_value :: "agent_lifecycle_binding \<Rightarrow> json" where
  "binding_to_value b = struct
     [(''agent_id'', JString (lb_agent_id b)),
      (''runner_instance_id'', JString (lb_runner_instance_id b)),
      (''catalog_sha256'', JString (lb_catalog_sha256 b))]"

definition encode_call ::
    "(json \<Rightarrow> (string, string) result) \<Rightarrow> u64 \<Rightarrow> u64 \<Rightarrow> string \<Rightarrow> json \<Rightarrow> (string, string) result" where
  "encode_call to_string request_id timeout_ms rpc_method params =
     (if timeout_ms = 0 \<or> 300000 < timeout_ms then Inl ''invalid lifecycle timeout''
      else map_err (\<lambda>error. ''cannot encode lifecycle request: '' @ error)
             (to_string (rpc_call_value request_id timeout_ms rpc_method params)))"

definition encode_install_request ::
    "(json \<Rightarrow> (string, string) result) \<Rightarrow> u64 \<Rightarrow> u64 \<Rightarrow> agent_install_request \<Rightarrow> (string, string) result" where
  "encode_install_request to_string request_id timeout_ms r =
     and_then (validate_binding (ai_binding r)) (\<lambda>_.
       if \<not> valid_identity (ai_idempotency_key r) then Inl ''invalid install idempotency key''
       else encode_call to_string request_id timeout_ms ''agent_install''
         (struct [(''binding'', binding_to_value (ai_binding r)),
                  (''catalog_generation'', JNumber (unat (ai_catalog_generation r))),
                  (''idempotency_key'', JString (ai_idempotency_key r))]))"

definition encode_status_request ::
    "(json \<Rightarrow> (string, string) result) \<Rightarrow> u64 \<Rightarrow> u64 \<Rightarrow> agent_status_request \<Rightarrow> (string, string) result" where
  "encode_status_request to_string request_id timeout_ms r =
     and_then (validate_binding (as_binding r)) (\<lambda>_.
       if (case as_operation_id r of None \<Rightarrow> False | Some i \<Rightarrow> \<not> valid_identity i)
       then Inl ''invalid status operation id''
       else encode_call to_string request_id timeout_ms ''agent_status''
         (struct [(''binding'', binding_to_value (as_binding r)),
                  (''operation_id'', json_option JString (as_operation_id r))]))"

definition mutation_value :: "agent_lifecycle_binding \<Rightarrow> string \<Rightarrow> string \<Rightarrow> json" where
  "mutation_value binding operation_id key = struct
     [(''binding'', binding_to_value binding), (''operation_id'', JString operation_id),
      (''idempotency_key'', JString key)]"

definition encode_cancel_request ::
    "(json \<Rightarrow> (string, string) result) \<Rightarrow> u64 \<Rightarrow> u64 \<Rightarrow> agent_cancel_request \<Rightarrow> (string, string) result" where
  "encode_cancel_request to_string request_id timeout_ms r =
     and_then (validate_mutation (ak_binding r) (ak_operation_id r) (ak_idempotency_key r)) (\<lambda>_.
       encode_call to_string request_id timeout_ms ''agent_cancel''
         (mutation_value (ak_binding r) (ak_operation_id r) (ak_idempotency_key r)))"

definition encode_retry_request ::
    "(json \<Rightarrow> (string, string) result) \<Rightarrow> u64 \<Rightarrow> u64 \<Rightarrow> agent_retry_request \<Rightarrow> (string, string) result" where
  "encode_retry_request to_string request_id timeout_ms r =
     and_then (validate_mutation (ay_binding r) (ay_operation_id r) (ay_idempotency_key r)) (\<lambda>_.
       encode_call to_string request_id timeout_ms ''agent_retry''
         (mutation_value (ay_binding r) (ay_operation_id r) (ay_idempotency_key r)))"

definition encode_remove_request ::
    "(json \<Rightarrow> (string, string) result) \<Rightarrow> u64 \<Rightarrow> u64 \<Rightarrow> agent_remove_request \<Rightarrow> (string, string) result" where
  "encode_remove_request to_string request_id timeout_ms r =
     and_then (validate_binding (am_binding r)) (\<lambda>_.
       if \<not> valid_identity (am_idempotency_key r) then Inl ''invalid remove idempotency key''
       else encode_call to_string request_id timeout_ms ''agent_remove''
         (struct [(''binding'', binding_to_value (am_binding r)),
                  (''idempotency_key'', JString (am_idempotency_key r))]))"

definition parse_lifecycle_response ::
    "(string \<Rightarrow> (string, agent_lifecycle_response rpc_response) result) \<Rightarrow>
     string \<Rightarrow> (string, agent_lifecycle_response) result" where
  "parse_lifecycle_response from_str input =
     and_then (map_err (\<lambda>error. ''invalid lifecycle response: '' @ error) (from_str input)) (\<lambda>response.
       let operation = rp_result response; envelope = ro_value operation in
       and_then (lifecycle_digest (rv_request_sha256 envelope)) (\<lambda>_.
         if rp_jsonrpc response \<noteq> ''2.0'' \<or> ro_kind operation \<noteq> ''operation''
            \<or> rr_kind (rv_result envelope) \<noteq> ''agent_lifecycle''
         then Inl ''unsupported lifecycle response envelope''
         else let v = rr_value (rv_result envelope) in
              and_then (response_validate v) (\<lambda>_. Inr v)))"

section \<open>Lemmas\<close>

lemma lifecycle_agent_id_catalog:
  "lifecycle_agent_id s = Inr () \<longleftrightarrow> validate_agent_id s field = Inr ()"
  by (simp add: lifecycle_agent_id_def validate_agent_id_def MAX_STRING_BYTES_def)

lemma valid_digest_iff: "valid_digest s \<longleftrightarrow> lower_hex 64 s"
  by (simp add: valid_digest_def lower_hex_def lower_hexdigit_iff)

lemma lifecycle_digest_iff: "lifecycle_digest s = Inr () \<longleftrightarrow> lower_hex 64 s"
  by (simp add: lifecycle_digest_def lower_hex_def lower_hexdigit_iff)

lemma validate_identity_iff: "validate_identity s = Inr () \<longleftrightarrow> valid_identity s"
  by (auto simp: validate_identity_def valid_identity_def)

lemma token_is_identity:
  "valid_token s \<Longrightarrow> valid_identity s \<longleftrightarrow> CHR ''+'' \<notin> set s"
proof -
  have plus: "\<not> is_ascii_alphanumeric CHR ''+''" by (simp add: text_defs)
  assume "valid_token s"
  then show ?thesis using plus
    by (fastforce simp: valid_token_def valid_identity_def list_all_iff MAX_STRING_BYTES_def)
qed

lemma validate_binding_iff:
  "validate_binding b = Inr () \<longleftrightarrow>
     lifecycle_agent_id (lb_agent_id b) = Inr () \<and> valid_identity (lb_runner_instance_id b)
     \<and> lower_hex 64 (lb_catalog_sha256 b)"
  by (auto simp: validate_binding_def valid_digest_iff is_ok_def split: sum.splits)

lemma encode_call_is_ok:
  "is_ok (encode_call to_string i t m p) \<longleftrightarrow>
     t \<noteq> 0 \<and> t \<le> 300000 \<and> is_ok (to_string (rpc_call_value i t m p))"
  by (auto simp: encode_call_def is_ok_def map_err_def not_less split: sum.splits)

lemma encode_call_timeout:
  "is_ok (encode_call (\<lambda>v. Inr (w v)) i t m p) \<longleftrightarrow> 1 \<le> t \<and> t \<le> 300000"
proof -
  have "t \<noteq> 0 \<longleftrightarrow> 1 \<le> t" by (simp add: word_le_nat_alt Suc_le_eq unat_gt_0)
  then show ?thesis by (simp add: encode_call_is_ok)
qed

lemma is_ok_and_then: "is_ok (and_then (c :: (string, unit) result) f) \<longleftrightarrow> is_ok c \<and> is_ok (f ())"
  by (cases c) auto

lemma response_validate_Inr:
  "response_validate v = Inr () \<longleftrightarrow>
     lifecycle_agent_id (lb_agent_id (al_binding v)) = Inr ()
     \<and> valid_identity (lb_runner_instance_id (al_binding v))
     \<and> lower_hex 64 (lb_catalog_sha256 (al_binding v)) \<and> valid_identity (al_operation_id v)
     \<and> al_progress_percent v \<le> 100 \<and> (al_failure v \<noteq> None \<longleftrightarrow> al_state v = Failed)
     \<and> (al_state v \<in> {Active, Cancelled, Removed} \<longrightarrow> al_progress_percent v = 100)"
  unfolding response_validate_def
  by (auto simp: result_simps validate_identity_iff lifecycle_digest_iff not_less split: if_splits)

section \<open>Properties\<close>

text \<open>
  A response accepted from the wire reports a progress of at most 100 percent, carries a
  failure exactly when its state is failed, is complete when it says the operation is active,
  cancelled or removed, and names a well-formed agent, runner, catalog and operation.
\<close>

theorem accepted_lifecycle_response:
  assumes "parse_lifecycle_response from_str input = Inr v"
  shows "al_progress_percent v \<le> 100
       \<and> (al_failure v \<noteq> None \<longleftrightarrow> al_state v = Failed)
       \<and> (al_state v \<in> {Active, Cancelled, Removed} \<longrightarrow> al_progress_percent v = 100)
       \<and> validate_binding (al_binding v) = Inr () \<and> valid_identity (al_operation_id v)"
proof -
  from assms have "response_validate v = Inr ()"
    by (auto simp: parse_lifecycle_response_def result_simps Let_def split: if_splits)
  then show ?thesis by (simp add: response_validate_Inr validate_binding_iff)
qed

definition sample_response :: agent_lifecycle_response where
  "sample_response =
     \<lparr>al_binding = \<lparr>lb_agent_id = ''agent-a'', lb_runner_instance_id = ''runner:1'',
        lb_catalog_sha256 = replicate 64 CHR ''0''\<rparr>,
      al_operation_id = ''op-1'', al_state = Active, al_generation = 3,
      al_progress_percent = 100, al_failure = None\<rparr>"

definition sample_envelope :: "agent_lifecycle_response rpc_response" where
  "sample_envelope = \<lparr>rp_jsonrpc = ''2.0'', rp_id = 7, rp_result =
     \<lparr>ro_kind = ''operation'', ro_value = \<lparr>rv_request_sha256 = replicate 64 CHR ''a'',
       rv_result = \<lparr>rr_kind = ''agent_lifecycle'', rr_value = sample_response\<rparr>\<rparr>\<rparr>\<rparr>"

theorem accepted_lifecycle_response_witness:
  "parse_lifecycle_response (\<lambda>_. Inr sample_envelope) '''' = Inr sample_response
   \<and> validate_binding (al_binding sample_response) = Inr ()"
proof -
  have ok: "parse_lifecycle_response (\<lambda>_. Inr sample_envelope) '''' = Inr sample_response" by code_simp
  from ok accepted_lifecycle_response [OF ok] show ?thesis by blast
qed

text \<open>
  A request is sent only if it validates and its timeout is between 1 and 300,000 ms, and
  then only the writer can still fail: for each of the five calls the encoder accepts exactly
  the requests that the request's own \<open>validate\<close> accepts.
\<close>

theorem encoders_agree_with_validation:
  "(is_ok (encode_install_request (\<lambda>v. Inr (w v)) i t r1) \<longleftrightarrow>
      is_ok (install_validate r1) \<and> 1 \<le> t \<and> t \<le> 300000)
   \<and> (is_ok (encode_status_request (\<lambda>v. Inr (w v)) i t r2) \<longleftrightarrow>
      is_ok (status_validate r2) \<and> 1 \<le> t \<and> t \<le> 300000)
   \<and> (is_ok (encode_cancel_request (\<lambda>v. Inr (w v)) i t r3) \<longleftrightarrow>
      is_ok (cancel_validate r3) \<and> 1 \<le> t \<and> t \<le> 300000)
   \<and> (is_ok (encode_retry_request (\<lambda>v. Inr (w v)) i t r4) \<longleftrightarrow>
      is_ok (retry_validate r4) \<and> 1 \<le> t \<and> t \<le> 300000)
   \<and> (is_ok (encode_remove_request (\<lambda>v. Inr (w v)) i t r5) \<longleftrightarrow>
      is_ok (remove_validate r5) \<and> 1 \<le> t \<and> t \<le> 300000)"
  by (intro conjI)
     (simp_all add: encode_install_request_def install_validate_def encode_status_request_def
        status_validate_def encode_cancel_request_def cancel_validate_def encode_retry_request_def
        retry_validate_def encode_remove_request_def remove_validate_def is_ok_and_then
        encode_call_timeout split: option.splits)

text \<open>
  An agent of a validated catalog can be bound by a lifecycle request exactly when the
  runner identity has no plus sign: the catalog's tokens admit it and the lifecycle identities
  do not, while agent identities and digests have the same form in both.
\<close>

theorem catalog_agent_bindable:
  assumes "validate_catalog to_vec c = Inr c'" and "e \<in> set (ac_agents c)"
  shows "validate_binding \<lparr>lb_agent_id = ae_agent_id e,
            lb_runner_instance_id = ac_runner_instance_id c,
            lb_catalog_sha256 = ac_catalog_sha256 c\<rparr> = Inr ()
         \<longleftrightarrow> CHR ''+'' \<notin> set (ac_runner_instance_id c)"
proof -
  note facts = validate_catalog_Inr [OF assms(1)]
  have "entry_ok (ac_target c) e" using validate_entries_Inr [OF facts(4)] assms(2) by blast
  then have "lifecycle_agent_id (ae_agent_id e) = Inr ()"
    using lifecycle_agent_id_catalog [of "ae_agent_id e" "''agent id''"] by (simp add: entry_ok_def)
  then show ?thesis
    using facts(6,7) token_is_identity by (simp add: validate_binding_iff)
qed

theorem catalog_agent_bindable_witness:
  "validate_binding \<lparr>lb_agent_id = ''agent-a'',
      lb_runner_instance_id = ac_runner_instance_id sealed_catalog,
      lb_catalog_sha256 = ac_catalog_sha256 sealed_catalog\<rparr> = Inr ()"
proof -
  have agent: "hd (ac_agents sealed_catalog) \<in> set (ac_agents sealed_catalog)"
    "ae_agent_id (hd (ac_agents sealed_catalog)) = ''agent-a''"
    "CHR ''+'' \<notin> set (ac_runner_instance_id sealed_catalog)"
    by (simp_all add: sealed_catalog_def sample_catalog_def)
  with catalog_agent_bindable [OF sealed_catalog_valid agent(1)] show ?thesis by simp
qed

end
