(* ===== verification/Control_Messages.thy ===== *)
theory Control_Messages
  imports Wire_Catalogs Recording_Campaign Benchmark_Route Fanout_Dispatch Launch_Statistics Asb_Lifecycle Provider_Catalog
begin

text \<open>
  The messages of \<open>src/control_codec.rs\<close>: the versions and limits of the wire, the calls with their
  parameters, the results and the responses, and the matrix of operations and versions of
  \<open>src/protocol_compatibility.rs\<close>. Identifiers are texts, a \<open>Revision\<close> or \<open>RequestId\<close> is a 64-bit
  word. The codec has its own version and limit types, distinct from those of the control client.
  Structures that other components own are imported from their theories.
\<close>

section \<open>Versions and limits\<close>

definition JSONRPC_VERSION :: string where "JSONRPC_VERSION = ''2.0''"
definition MAX_WIRE_FRAME_BYTES :: nat where "MAX_WIRE_FRAME_BYTES = 1024 * 1024"
definition MAX_PUBLIC_STRING_BYTES :: nat where "MAX_PUBLIC_STRING_BYTES = 4096"
definition MAX_WIRE_ID_BYTES :: nat where "MAX_WIRE_ID_BYTES = 128"
definition MAX_CATALOG_STRING_BYTES :: nat where "MAX_CATALOG_STRING_BYTES = 128"
definition MAX_WIRE_PAGE_ITEMS :: u16 where "MAX_WIRE_PAGE_ITEMS = 256"
definition MAX_ANALYSIS_RUNS :: nat where "MAX_ANALYSIS_RUNS = 256"
definition MAX_JSON_NODES :: nat where "MAX_JSON_NODES = 4096"
definition MAX_JSON_DEPTH :: nat where "MAX_JSON_DEPTH = 16"
definition MAX_MEASUREMENT_GROUPS :: nat where "MAX_MEASUREMENT_GROUPS = 7"
definition MAX_MEASUREMENTS :: nat where "MAX_MEASUREMENTS = 128"
definition MAX_MEASUREMENT_CATALOG_WIRE_BYTES :: nat where "MAX_MEASUREMENT_CATALOG_WIRE_BYTES = 256 * 1024"

record wire_limits =
  wl_max_frame_bytes :: u32
  wl_max_timeout_ms :: u64
  wl_max_page_items :: u16
  wl_max_in_flight :: u16

definition wire_limits_default :: wire_limits where
  "wire_limits_default = \<lparr>wl_max_frame_bytes = 256 * 1024, wl_max_timeout_ms = 30000, wl_max_page_items = 100,
     wl_max_in_flight = 16\<rparr>"

section \<open>Parameters of the calls\<close>

record negotiate_params =
  np_versions :: "wire_version list"
  np_limits :: wire_limits

record auth_enroll_params =
  en_provider :: string
  en_endpoint_identity_sha256 :: string
  en_credential_locator_sha256 :: string
  en_idempotency_key :: string

record auth_rotate_params =
  ro_provider :: string
  ro_credential_locator_sha256 :: string
  ro_idempotency_key :: string

record auth_revoke_params =
  rv_provider :: string
  rv_idempotency_key :: string

record auth_helper_invoke_params =
  hi_provider :: string
  hi_profile :: json
  hi_idempotency_key :: string

record cancel_params =
  ca_run_id :: string
  ca_attempt_id :: string
  ca_idempotency_key :: string

record fanout_params =
  fp_idempotency_key :: string
  fp_requests :: "json list"

record fanout_cancel_params =
  fc_idempotency_key :: string
  fc_members :: "cancel_params list"

datatype (plugins only: code size) provider_catalog_action = CatalogStatus | CatalogRefresh

record provider_catalog_request =
  pq_action :: provider_catalog_action
  pq_runner_instance_id :: string
  pq_known_generation :: "u64 option"

record configuration_apply_params =
  ap_idempotency_key :: string
  ap_expected_generation :: u64
  ap_selection :: configuration_selection

record campaign_plan_params =
  pp_idempotency_key :: string
  pp_expected_generation :: u64
  pp_runner_instance_id :: string
  pp_provider_id :: string
  pp_model_id :: string
  pp_agent_ids :: "string list"
  pp_workload_ids :: "string list"

record campaign_estimate_request =
  eq_runner_instance_id :: string
  eq_provider_id :: string
  eq_model_id :: string
  eq_agent_ids :: "string list"
  eq_workload_ids :: "string list"

text \<open>
  The execute, cancel, reconcile and offline-default structures have the same four fields; seal,
  reopen and retry are aliases of the last.
\<close>

record campaign_mutation_params =
  cm_idempotency_key :: string
  cm_expected_generation :: u64
  cm_runner_instance_id :: string
  cm_campaign_id :: string

record campaign_remove_params = campaign_mutation_params +
  cm_cassette_sha256 :: string

record campaign_progress_request =
  gp_runner_instance_id :: string
  gp_campaign_id :: string

record cassette_catalog_request =
  cq_runner_instance_id :: string
  cq_campaign_id :: string
  cq_expected_generation :: u64

record mutation_params =
  mu_idempotency_key :: string
  mu_definition :: json

record launch_params =
  lp_idempotency_key :: string
  lp_plan_id :: string

record repeat_params =
  rp_run_id :: string
  rp_idempotency_key :: string

record page_params =
  pg_after :: "u64 option"
  pg_limit :: u16

datatype (plugins only: code size) control_call =
  CallNegotiate negotiate_params
| CallCapabilities
| CallMeasurementCatalog
| CallBenchmarkCatalog
| CallAgentCatalog agent_catalog_request
| CallAgentInstall agent_install_request
| CallAgentStatus agent_status_request
| CallAgentCancel agent_cancel_request
| CallAgentRetry agent_retry_request
| CallAgentRemove agent_remove_request
| CallAuthEnroll auth_enroll_params
| CallAuthStatus string
| CallAuthRotate auth_rotate_params
| CallAuthRevoke auth_revoke_params
| CallAuthHelperInvoke auth_helper_invoke_params
| CallValidateSettings json
| CallCreatePlan mutation_params
| CallLaunch launch_params
| CallStatus string
| CallCancel cancel_params
| CallHistory page_params
| CallRepeat repeat_params
| CallAnalyze "string list"
| CallEvents page_params
| CallArtifactMetadata string string
| CallFanout fanout_params
| CallFanoutCancel fanout_cancel_params
| CallProviderCatalog provider_catalog_request
| CallConfigurationStatus string
| CallConfigurationApply configuration_apply_params
| CallCampaignPlan campaign_plan_params
| CallCampaignStatus string
| CallCampaignEstimate campaign_estimate_request
| CallCampaignExecute campaign_mutation_params
| CallCampaignProgress campaign_progress_request
| CallCampaignCancel campaign_mutation_params
| CallCampaignReconcile campaign_mutation_params
| CallCampaignOfflineDefault campaign_mutation_params
| CallCampaignSeal campaign_mutation_params
| CallCampaignReopen campaign_mutation_params
| CallCampaignRemove campaign_remove_params
| CallCampaignRetry campaign_mutation_params
| CallCassetteCatalog cassette_catalog_request
| CallReplayDispatch replay_dispatch_params

record control_request =
  cr_jsonrpc :: string
  cr_id :: u64
  cr_timeout_ms :: u64
  cr_call :: control_call

definition operation_name :: "control_call \<Rightarrow> string" where
  "operation_name c = (case c of
     CallNegotiate _ \<Rightarrow> ''negotiate'' | CallCapabilities \<Rightarrow> ''capabilities''
   | CallMeasurementCatalog \<Rightarrow> ''measurement_catalog'' | CallBenchmarkCatalog \<Rightarrow> ''benchmark_catalog''
   | CallAgentCatalog _ \<Rightarrow> ''agent_catalog'' | CallAgentInstall _ \<Rightarrow> ''agent_install''
   | CallAgentStatus _ \<Rightarrow> ''agent_status'' | CallAgentCancel _ \<Rightarrow> ''agent_cancel''
   | CallAgentRetry _ \<Rightarrow> ''agent_retry'' | CallAgentRemove _ \<Rightarrow> ''agent_remove''
   | CallAuthEnroll _ \<Rightarrow> ''auth_enroll'' | CallAuthStatus _ \<Rightarrow> ''auth_status''
   | CallAuthRotate _ \<Rightarrow> ''auth_rotate'' | CallAuthRevoke _ \<Rightarrow> ''auth_revoke''
   | CallAuthHelperInvoke _ \<Rightarrow> ''auth_helper_invoke'' | CallValidateSettings _ \<Rightarrow> ''validate_settings''
   | CallCreatePlan _ \<Rightarrow> ''create_plan'' | CallLaunch _ \<Rightarrow> ''launch'' | CallStatus _ \<Rightarrow> ''status''
   | CallCancel _ \<Rightarrow> ''cancel'' | CallHistory _ \<Rightarrow> ''history'' | CallRepeat _ \<Rightarrow> ''repeat''
   | CallAnalyze _ \<Rightarrow> ''analyze'' | CallEvents _ \<Rightarrow> ''events'' | CallArtifactMetadata _ _ \<Rightarrow> ''artifact_metadata''
   | CallProviderCatalog _ \<Rightarrow> ''provider_catalog'' | CallConfigurationStatus _ \<Rightarrow> ''configuration_status''
   | CallConfigurationApply _ \<Rightarrow> ''configuration_apply'' | CallCampaignPlan _ \<Rightarrow> ''recording_campaign_plan''
   | CallCampaignStatus _ \<Rightarrow> ''recording_campaign_status'' | CallCampaignEstimate _ \<Rightarrow> ''recording_campaign_estimate''
   | CallCampaignExecute _ \<Rightarrow> ''recording_campaign_execute'' | CallCampaignProgress _ \<Rightarrow> ''recording_campaign_progress''
   | CallCampaignCancel _ \<Rightarrow> ''recording_campaign_cancel'' | CallCampaignReconcile _ \<Rightarrow> ''recording_campaign_reconcile''
   | CallCampaignOfflineDefault _ \<Rightarrow> ''recording_campaign_offline_default''
   | CallCampaignSeal _ \<Rightarrow> ''recording_campaign_seal'' | CallCampaignReopen _ \<Rightarrow> ''recording_campaign_reopen''
   | CallCampaignRemove _ \<Rightarrow> ''recording_campaign_remove'' | CallCampaignRetry _ \<Rightarrow> ''recording_campaign_retry''
   | CallCassetteCatalog _ \<Rightarrow> ''recording_cassette_catalog'' | CallReplayDispatch _ \<Rightarrow> ''recording_replay_dispatch''
   | CallFanout _ \<Rightarrow> ''fanout'' | CallFanoutCancel _ \<Rightarrow> ''fanout_cancel'')"

definition minimum_version :: "control_call \<Rightarrow> wire_version option" where
  "minimum_version c = (case c of
     CallMeasurementCatalog \<Rightarrow> Some W1_2 | CallBenchmarkCatalog \<Rightarrow> Some W1_10
   | CallProviderCatalog _ \<Rightarrow> Some W1_7 | CallConfigurationStatus _ \<Rightarrow> Some W1_7
   | CallConfigurationApply _ \<Rightarrow> Some W1_7 | CallCampaignEstimate _ \<Rightarrow> Some W1_7
   | CallCampaignPlan _ \<Rightarrow> Some W1_7 | CallCampaignStatus _ \<Rightarrow> Some W1_7
   | CallCampaignExecute _ \<Rightarrow> Some W1_8 | CallCampaignProgress _ \<Rightarrow> Some W1_8
   | CallCampaignCancel _ \<Rightarrow> Some W1_8 | CallCampaignReconcile _ \<Rightarrow> Some W1_8
   | CallCampaignOfflineDefault _ \<Rightarrow> Some W1_8
   | CallCassetteCatalog _ \<Rightarrow> Some W1_12 | CallReplayDispatch _ \<Rightarrow> Some W1_12
   | CallCampaignSeal _ \<Rightarrow> Some W1_13 | CallCampaignReopen _ \<Rightarrow> Some W1_13
   | CallCampaignRemove _ \<Rightarrow> Some W1_13 | CallCampaignRetry _ \<Rightarrow> Some W1_13
   | CallFanout _ \<Rightarrow> Some W1_14 | CallFanoutCancel _ \<Rightarrow> Some W1_14
   | CallAgentCatalog _ \<Rightarrow> Some W1_4
   | CallAgentInstall _ \<Rightarrow> Some W1_5 | CallAgentStatus _ \<Rightarrow> Some W1_5 | CallAgentCancel _ \<Rightarrow> Some W1_5
   | CallAgentRetry _ \<Rightarrow> Some W1_5 | CallAgentRemove _ \<Rightarrow> Some W1_5
   | CallAuthEnroll _ \<Rightarrow> Some W1_6 | CallAuthStatus _ \<Rightarrow> Some W1_6 | CallAuthRotate _ \<Rightarrow> Some W1_6
   | CallAuthRevoke _ \<Rightarrow> Some W1_6 | CallAuthHelperInvoke _ \<Rightarrow> Some W1_10
   | _ \<Rightarrow> None)"


section \<open>Results\<close>

record auth_status_response =
  au_provider :: string
  au_endpoint_identity_sha256 :: string
  au_credential_locator_sha256 :: string
  au_generation :: u64
  au_status :: string

datatype (plugins only: code size) provider_catalog_mode = ModeStatic | ModeDynamic | ModeUnavailable

datatype (plugins only: code size) provider_catalog_diagnostic =
  DiagnosticUnavailable | DiagnosticHttpStatus u16 | DiagnosticTooLarge | DiagnosticMalformed

definition diagnostic_code :: "provider_catalog_diagnostic \<Rightarrow> string" where
  "diagnostic_code d = (case d of DiagnosticUnavailable \<Rightarrow> ''unavailable''
     | DiagnosticHttpStatus n \<Rightarrow> (if n = 401 \<or> n = 403 then ''authentication_required''
         else if n = 429 then ''quota_unavailable'' else ''http_status'')
     | DiagnosticTooLarge \<Rightarrow> ''catalog_too_large'' | DiagnosticMalformed \<Rightarrow> ''catalog_malformed'')"

record openrouter_projection =
  op_catalog_sha256 :: string
  op_mode :: provider_catalog_mode
  op_models :: "provider_model list"
  op_diagnostic :: "provider_catalog_diagnostic option"

record dynamic_provider_catalog =
  dy_catalog :: provider_catalog
  dy_openrouter :: openrouter_projection

record campaign_status =
  cs_runner_instance_id :: string
  cs_generation :: u64
  cs_campaign :: "recording_campaign_lifecycle option"

record campaign_estimate =
  ce_runner_instance_id :: string
  ce_generation :: u64
  ce_tuple_count :: u16
  ce_complete_coverage :: bool
  ce_offline_ready :: bool
  ce_unavailable_reason :: "string option"

record replay_dispatch =
  rd_runner_instance_id :: string
  rd_generation :: u64
  rd_campaign_id :: string
  rd_provider_profile_sha256 :: string
  rd_agent_id :: string
  rd_workload_id :: string
  rd_cassette_sha256 :: string
  rd_offline_only :: bool

datatype (plugins only: code size) settings_issue = InvalidFormat | UnsupportedCapability | UnverifiedComponent | InvalidResourceBound

record settings_validation =
  sv_valid :: bool
  sv_issues :: "settings_issue list"

record wire_capabilities =
  wcap_validate_settings :: bool
  wcap_run_control :: bool
  wcap_repeat :: bool
  wcap_analysis :: bool
  wcap_events :: bool

record plan_reference =
  pr_plan_id :: string
  pr_plan_sha256 :: string

record analysis_summary =
  an_run_count :: u16
  an_analysis_sha256 :: string

datatype (plugins only: code size) artifact_sensitivity = SensitivityPublic | SensitivitySensitive

record artifact_metadata =
  am_sha256 :: string
  am_size_bytes :: u64
  am_sensitivity :: artifact_sensitivity

datatype (plugins only: code size) wire_event_kind = EventRunnerReady | EventPlanCreated | EventRunStarted | EventRunUpdated
| EventRunCompleted | EventRunFailed | EventRunCancelled | EventReconciliationRequired

record wire_event =
  ev_revision :: u64
  ev_kind :: wire_event_kind
  ev_run_id :: "string option"
  ev_attempt_id :: "string option"

record 'a page =
  pa_items :: "'a list"
  pa_next :: "u64 option"
  pa_has_more :: bool

section \<open>Responses\<close>

datatype (plugins only: code size) control_result =
  ResCapabilities wire_capabilities
| ResMeasurementCatalog measurement_publication
| ResBenchmarkCatalog benchmark_publication
| ResAgentCatalog agent_catalog
| ResAgentLifecycle agent_lifecycle_response
| ResSettingsValidation settings_validation
| ResPlan plan_reference
| ResLaunch run_summary
| ResStatus run_summary
| ResAcknowledged bool
| ResAuthStatus auth_status_response
| ResHistory "run_summary page"
| ResEvents "wire_event page"
| ResAnalysis analysis_summary
| ResArtifactMetadata artifact_metadata
| ResProviderCatalog provider_catalog
| ResDynamicProviderCatalog dynamic_provider_catalog
| ResConfiguration configuration_snapshot
| ResCampaign recording_campaign_plan
| ResCampaignStatus campaign_status
| ResCampaignEstimate campaign_estimate
| ResCampaignLifecycle recording_campaign_lifecycle
| ResCassetteCatalog cassette_catalog
| ResReplayDispatch replay_dispatch
| ResFanout fanout_admission

record wire_negotiated =
  wn_version :: wire_version
  wn_limits :: wire_limits
  wn_runner_instance_id :: string
  wn_oldest_revision :: u64
  wn_latest_revision :: u64

text \<open>The digest of the request and the result bound to it.\<close>

datatype (plugins only: code size) control_success = SuccessNegotiated wire_negotiated | SuccessOperation string control_result

datatype (plugins only: code size) control_response =
  ResponseSuccess string u64 control_success
| ResponseFailure string u64 int string

definition response_id :: "control_response \<Rightarrow> u64" where
  "response_id r = (case r of ResponseSuccess _ i _ \<Rightarrow> i | ResponseFailure _ i _ _ \<Rightarrow> i)"

text \<open>The kinds of result, and those that answer a call.\<close>

datatype (plugins only: code size) result_kind = KCapabilities | KMeasurementCatalog | KBenchmarkCatalog | KAgentCatalog | KAgentLifecycle
| KSettingsValidation | KPlan | KLaunch | KStatus | KAcknowledged | KAuthStatus | KHistory | KEvents | KAnalysis
| KArtifactMetadata | KProviderCatalog | KDynamicProviderCatalog | KConfiguration | KCampaign | KCampaignStatus
| KCampaignEstimate | KCampaignLifecycle | KCassetteCatalog | KReplayDispatch | KFanout

definition result_kind_of :: "control_result \<Rightarrow> result_kind" where
  "result_kind_of r = (case r of ResCapabilities _ \<Rightarrow> KCapabilities | ResMeasurementCatalog _ \<Rightarrow> KMeasurementCatalog
     | ResBenchmarkCatalog _ \<Rightarrow> KBenchmarkCatalog | ResAgentCatalog _ \<Rightarrow> KAgentCatalog
     | ResAgentLifecycle _ \<Rightarrow> KAgentLifecycle | ResSettingsValidation _ \<Rightarrow> KSettingsValidation
     | ResPlan _ \<Rightarrow> KPlan | ResLaunch _ \<Rightarrow> KLaunch | ResStatus _ \<Rightarrow> KStatus | ResAcknowledged _ \<Rightarrow> KAcknowledged
     | ResAuthStatus _ \<Rightarrow> KAuthStatus | ResHistory _ \<Rightarrow> KHistory | ResEvents _ \<Rightarrow> KEvents | ResAnalysis _ \<Rightarrow> KAnalysis
     | ResArtifactMetadata _ \<Rightarrow> KArtifactMetadata | ResProviderCatalog _ \<Rightarrow> KProviderCatalog
     | ResDynamicProviderCatalog _ \<Rightarrow> KDynamicProviderCatalog | ResConfiguration _ \<Rightarrow> KConfiguration
     | ResCampaign _ \<Rightarrow> KCampaign | ResCampaignStatus _ \<Rightarrow> KCampaignStatus
     | ResCampaignEstimate _ \<Rightarrow> KCampaignEstimate | ResCampaignLifecycle _ \<Rightarrow> KCampaignLifecycle
     | ResCassetteCatalog _ \<Rightarrow> KCassetteCatalog | ResReplayDispatch _ \<Rightarrow> KReplayDispatch | ResFanout _ \<Rightarrow> KFanout)"

definition answer_kinds :: "control_call \<Rightarrow> result_kind list" where
  "answer_kinds c = (case c of
     CallNegotiate _ \<Rightarrow> [] | CallCapabilities \<Rightarrow> [KCapabilities] | CallMeasurementCatalog \<Rightarrow> [KMeasurementCatalog]
   | CallBenchmarkCatalog \<Rightarrow> [KBenchmarkCatalog] | CallAgentCatalog _ \<Rightarrow> [KAgentCatalog]
   | CallAgentInstall _ \<Rightarrow> [KAgentLifecycle] | CallAgentStatus _ \<Rightarrow> [KAgentLifecycle]
   | CallAgentCancel _ \<Rightarrow> [KAgentLifecycle] | CallAgentRetry _ \<Rightarrow> [KAgentLifecycle]
   | CallAgentRemove _ \<Rightarrow> [KAgentLifecycle] | CallAuthEnroll _ \<Rightarrow> [KAcknowledged]
   | CallAuthRotate _ \<Rightarrow> [KAcknowledged] | CallAuthRevoke _ \<Rightarrow> [KAcknowledged]
   | CallAuthHelperInvoke _ \<Rightarrow> [KAuthStatus] | CallAuthStatus _ \<Rightarrow> [KAuthStatus]
   | CallValidateSettings _ \<Rightarrow> [KSettingsValidation] | CallCreatePlan _ \<Rightarrow> [KPlan] | CallLaunch _ \<Rightarrow> [KLaunch]
   | CallStatus _ \<Rightarrow> [KStatus] | CallCancel _ \<Rightarrow> [KAcknowledged] | CallFanout _ \<Rightarrow> [KFanout]
   | CallFanoutCancel _ \<Rightarrow> [KAcknowledged] | CallHistory _ \<Rightarrow> [KHistory] | CallRepeat _ \<Rightarrow> [KPlan]
   | CallAnalyze _ \<Rightarrow> [KAnalysis] | CallEvents _ \<Rightarrow> [KEvents] | CallArtifactMetadata _ _ \<Rightarrow> [KArtifactMetadata]
   | CallProviderCatalog _ \<Rightarrow> [KProviderCatalog, KDynamicProviderCatalog]
   | CallConfigurationStatus _ \<Rightarrow> [KConfiguration] | CallConfigurationApply _ \<Rightarrow> [KConfiguration]
   | CallCampaignPlan _ \<Rightarrow> [KCampaign] | CallCampaignStatus _ \<Rightarrow> [KCampaignStatus]
   | CallCampaignEstimate _ \<Rightarrow> [KCampaignEstimate] | CallCampaignExecute _ \<Rightarrow> [KCampaignLifecycle]
   | CallCampaignProgress _ \<Rightarrow> [KCampaignLifecycle] | CallCampaignCancel _ \<Rightarrow> [KCampaignLifecycle]
   | CallCampaignReconcile _ \<Rightarrow> [KCampaignLifecycle] | CallCampaignOfflineDefault _ \<Rightarrow> [KCampaignLifecycle]
   | CallCampaignSeal _ \<Rightarrow> [KCampaignLifecycle] | CallCampaignReopen _ \<Rightarrow> [KCampaignLifecycle]
   | CallCampaignRemove _ \<Rightarrow> [KCampaignLifecycle] | CallCampaignRetry _ \<Rightarrow> [KCampaignLifecycle]
   | CallCassetteCatalog _ \<Rightarrow> [KCassetteCatalog] | CallReplayDispatch _ \<Rightarrow> [KReplayDispatch])"

definition result_matches :: "control_result \<Rightarrow> control_call \<Rightarrow> bool" where
  "result_matches r c \<longleftrightarrow> result_kind_of r \<in> set (answer_kinds c)"

section \<open>The matrix of operations\<close>

definition MATRIX_SCHEMA_VERSION :: u16 where "MATRIX_SCHEMA_VERSION = 1"

definition SUPPORTED_CONTROL_VERSIONS :: "wire_version list" where
  "SUPPORTED_CONTROL_VERSIONS = [W1_0, W1_2, W1_3, W1_4, W1_5, W1_6, W1_7, W1_8, W1_10, W1_12, W1_13, W1_14, W1_15]"

definition operation_matrix :: "(string \<times> wire_version) list" where
  "operation_matrix = [(''negotiate'', W1_0), (''capabilities'', W1_0), (''measurement_catalog'', W1_2),
     (''benchmark_catalog'', W1_10), (''agent_catalog'', W1_4), (''agent_install'', W1_5), (''agent_status'', W1_5),
     (''agent_cancel'', W1_5), (''agent_retry'', W1_5), (''agent_remove'', W1_5), (''auth_enroll'', W1_6),
     (''auth_status'', W1_6), (''auth_rotate'', W1_6), (''auth_revoke'', W1_6), (''auth_helper_invoke'', W1_10),
     (''validate_settings'', W1_0), (''create_plan'', W1_0), (''launch'', W1_0), (''status'', W1_0), (''cancel'', W1_0),
     (''history'', W1_0), (''repeat'', W1_0), (''analyze'', W1_0), (''events'', W1_0), (''artifact_metadata'', W1_0),
     (''provider_catalog'', W1_7), (''configuration_status'', W1_7), (''configuration_apply'', W1_7),
     (''recording_campaign_plan'', W1_7), (''recording_campaign_status'', W1_7), (''recording_campaign_estimate'', W1_7),
     (''recording_campaign_execute'', W1_8), (''recording_campaign_progress'', W1_8),
     (''recording_campaign_cancel'', W1_8), (''recording_campaign_reconcile'', W1_8),
     (''recording_campaign_offline_default'', W1_8), (''recording_cassette_catalog'', W1_12),
     (''recording_replay_dispatch'', W1_12), (''recording_campaign_seal'', W1_13), (''recording_campaign_reopen'', W1_13),
     (''recording_campaign_remove'', W1_13), (''recording_campaign_retry'', W1_13)]"

datatype (plugins only: code size) compatibility_error = UnsupportedSchema | UnsupportedControlVersion | OperationUnavailable

definition validate_schema :: "u16 \<Rightarrow> (compatibility_error, unit) result" where
  "validate_schema n = ensure (n = MATRIX_SCHEMA_VERSION) UnsupportedSchema"

definition validate_version :: "wire_version \<Rightarrow> (compatibility_error, unit) result" where
  "validate_version v = ensure (v \<in> set SUPPORTED_CONTROL_VERSIONS) UnsupportedControlVersion"

definition validate_operation :: "wire_version \<Rightarrow> control_call \<Rightarrow> (compatibility_error, unit) result" where
  "validate_operation v c = and_then (validate_version v) (\<lambda>_.
     case minimum_version c of None \<Rightarrow> Inr ()
     | Some least \<Rightarrow> if v < least then Inl OperationUnavailable else Inr ())"

definition operation_minimum :: "control_call \<Rightarrow> wire_version" where
  "operation_minimum c = (case minimum_version c of None \<Rightarrow> W1_0 | Some v \<Rightarrow> v)"

text \<open>
  The matrix is synchronised with the calls: it has one row for every operation but the two fan-out
  calls, with the version the call needs; names are unique; and a version admits an operation exactly
  when it is supported and the matrix, where it has a row, asks for no newer one.
\<close>

definition is_fanout :: "control_call \<Rightarrow> bool" where
  "is_fanout c \<longleftrightarrow> (case c of CallFanout _ \<Rightarrow> True | CallFanoutCancel _ \<Rightarrow> True | _ \<Rightarrow> False)"

lemma matrix_rows:
  "map (map_of operation_matrix) (map fst [(''negotiate'', Some W1_0), (''capabilities'', Some W1_0), (''measurement_catalog'', Some W1_2),
     (''benchmark_catalog'', Some W1_10), (''agent_catalog'', Some W1_4), (''agent_install'', Some W1_5),
     (''agent_status'', Some W1_5), (''agent_cancel'', Some W1_5), (''agent_retry'', Some W1_5),
     (''agent_remove'', Some W1_5), (''auth_enroll'', Some W1_6), (''auth_status'', Some W1_6),
     (''auth_rotate'', Some W1_6), (''auth_revoke'', Some W1_6), (''auth_helper_invoke'', Some W1_10),
     (''validate_settings'', Some W1_0), (''create_plan'', Some W1_0), (''launch'', Some W1_0), (''status'',
     Some W1_0), (''cancel'', Some W1_0), (''history'', Some W1_0), (''repeat'', Some W1_0), (''analyze'',
     Some W1_0), (''events'', Some W1_0), (''artifact_metadata'', Some W1_0), (''provider_catalog'', Some
     W1_7), (''configuration_status'', Some W1_7), (''configuration_apply'', Some W1_7),
     (''recording_campaign_plan'', Some W1_7), (''recording_campaign_status'', Some W1_7),
     (''recording_campaign_estimate'', Some W1_7), (''recording_campaign_execute'', Some W1_8),
     (''recording_campaign_progress'', Some W1_8), (''recording_campaign_cancel'', Some W1_8),
     (''recording_campaign_reconcile'', Some W1_8), (''recording_campaign_offline_default'', Some W1_8),
     (''recording_campaign_seal'', Some W1_13), (''recording_campaign_reopen'', Some W1_13),
     (''recording_campaign_remove'', Some W1_13), (''recording_campaign_retry'', Some W1_13),
     (''recording_cassette_catalog'', Some W1_12), (''recording_replay_dispatch'', Some W1_12), (''fanout'',
     None), (''fanout_cancel'', None)])
   = map snd [(''negotiate'', Some W1_0), (''capabilities'', Some W1_0), (''measurement_catalog'', Some W1_2),
     (''benchmark_catalog'', Some W1_10), (''agent_catalog'', Some W1_4), (''agent_install'', Some W1_5),
     (''agent_status'', Some W1_5), (''agent_cancel'', Some W1_5), (''agent_retry'', Some W1_5),
     (''agent_remove'', Some W1_5), (''auth_enroll'', Some W1_6), (''auth_status'', Some W1_6),
     (''auth_rotate'', Some W1_6), (''auth_revoke'', Some W1_6), (''auth_helper_invoke'', Some W1_10),
     (''validate_settings'', Some W1_0), (''create_plan'', Some W1_0), (''launch'', Some W1_0), (''status'',
     Some W1_0), (''cancel'', Some W1_0), (''history'', Some W1_0), (''repeat'', Some W1_0), (''analyze'',
     Some W1_0), (''events'', Some W1_0), (''artifact_metadata'', Some W1_0), (''provider_catalog'', Some
     W1_7), (''configuration_status'', Some W1_7), (''configuration_apply'', Some W1_7),
     (''recording_campaign_plan'', Some W1_7), (''recording_campaign_status'', Some W1_7),
     (''recording_campaign_estimate'', Some W1_7), (''recording_campaign_execute'', Some W1_8),
     (''recording_campaign_progress'', Some W1_8), (''recording_campaign_cancel'', Some W1_8),
     (''recording_campaign_reconcile'', Some W1_8), (''recording_campaign_offline_default'', Some W1_8),
     (''recording_campaign_seal'', Some W1_13), (''recording_campaign_reopen'', Some W1_13),
     (''recording_campaign_remove'', Some W1_13), (''recording_campaign_retry'', Some W1_13),
     (''recording_cassette_catalog'', Some W1_12), (''recording_replay_dispatch'', Some W1_12), (''fanout'',
     None), (''fanout_cancel'', None)]"
  by code_simp

lemma matrix_row:
  "map_of operation_matrix (operation_name c) = (if is_fanout c then None else Some (operation_minimum c))"
  using matrix_rows
  by (cases c) (simp_all only: list.map list.inject fst_conv snd_conv operation_name_def operation_minimum_def
      minimum_version_def is_fanout_def control_call.case option.case if_True if_False refl simp_thms)

end
