(* ===== verification/Control_Codec.thy ===== *)
theory Control_Codec
  imports Control_Messages
begin

text \<open>
  Model of the validation in \<open>src/control_codec.rs\<close>: frames, requests with their calls, responses
  with their results, and the check that a response answers a request. The JSON library is an
  argument: a \<open>wire\<close> has the serializers whose bytes are hashed or measured and the conversion
  of a provider catalog into a JSON value, \<open>None\<close> when serialisation fails.
\<close>

section \<open>Primitive values\<close>

datatype (plugins only: code size) codec_error = CodecLimit string | CodecVersion | CodecUnsupportedVersion | CodecValue string
| CodecJsonTooLarge | CodecFrameTooLarge | CodecTruncatedFrame | CodecMalformedFrame | CodecSerialization
| CodecResponseIdMismatch | CodecResultMismatch

record wire =
  wi_provider_catalog :: "provider_catalog \<Rightarrow> json option"
  wi_measurement_address :: "u16 \<Rightarrow> wire_group list \<Rightarrow> wire_measurement list \<Rightarrow> u8 list option"
  wi_measurement_publication :: "measurement_publication \<Rightarrow> u8 list option"
  wi_benchmark_address :: "u64 \<Rightarrow> wire_benchmark_pool list \<Rightarrow> u8 list option"
  wi_json :: "json \<Rightarrow> u8 list option"

text \<open>A sequence of checks with \<open>?\<close> after each.\<close>

definition checks :: "(codec_error, unit) result list \<Rightarrow> (codec_error, unit) result" where
  "checks rs = check_all (\<lambda>r. r) rs"

lemma checks_Inr [result_simps]: "checks rs = Inr u \<longleftrightarrow> (\<forall>r \<in> set rs. r = Inr ())"
  by (simp add: checks_def result_simps)

definition wire_limits_validate :: "wire_limits \<Rightarrow> (codec_error, unit) result" where
  "wire_limits_validate l =
     (if wl_max_frame_bytes l = 0 \<or> MAX_WIRE_FRAME_BYTES < unat (wl_max_frame_bytes l)
      then Inl (CodecLimit ''max_frame_bytes'')
      else if wl_max_timeout_ms l = 0 \<or> 300000 < wl_max_timeout_ms l then Inl (CodecLimit ''max_timeout_ms'')
      else if wl_max_page_items l = 0 \<or> MAX_WIRE_PAGE_ITEMS < wl_max_page_items l then Inl (CodecLimit ''max_page_items'')
      else if wl_max_in_flight l = 0 \<or> 64 < wl_max_in_flight l then Inl (CodecLimit ''max_in_flight'')
      else Inr ())"

definition validate_id :: "string \<Rightarrow> (codec_error, unit) result" where
  "validate_id s = ensure (s \<noteq> [] \<and> length s \<le> MAX_WIRE_ID_BYTES \<and> is_ascii s \<and> \<not> has_control s) (CodecValue ''identity'')"

definition validate_catalog_string :: "string \<Rightarrow> (codec_error, unit) result" where
  "validate_catalog_string s = ensure (s \<noteq> [] \<and> length s \<le> MAX_CATALOG_STRING_BYTES
     \<and> list_all (\<lambda>b. is_ascii_alphanumeric b \<or> b \<in> {CHR ''.'', CHR ''_'', CHR '':'', CHR ''-'', CHR ''/''}) s)
     (CodecValue ''catalog string'')"

definition validate_wire_digest :: "string \<Rightarrow> (codec_error, unit) result" where
  "validate_wire_digest s = ensure (length s = 64
     \<and> list_all (\<lambda>b. is_ascii_hexdigit b \<and> \<not> is_ascii_uppercase b) s) (CodecValue ''sha256'')"

text \<open>
  The walk over a JSON value counts the nodes in a variable shared by the whole recursion: the
  functions return the count after the visit.
\<close>

fun walk_json :: "json \<Rightarrow> nat \<Rightarrow> nat \<Rightarrow> (codec_error, nat) result"
and walk_items :: "json list \<Rightarrow> nat \<Rightarrow> nat \<Rightarrow> (codec_error, nat) result"
and walk_members :: "(string \<times> json) list \<Rightarrow> nat \<Rightarrow> nat \<Rightarrow> (codec_error, nat) result" where
  "walk_json v depth nodes =
     (let nodes = nodes + 1 in
      if MAX_JSON_NODES < nodes \<or> MAX_JSON_DEPTH < depth then Inl CodecJsonTooLarge
      else case v of
        JArray vs \<Rightarrow> walk_items vs (depth + 1) nodes
      | JObject ms \<Rightarrow> walk_members ms (depth + 1) nodes
      | _ \<Rightarrow> Inr nodes)"
| "walk_items [] depth nodes = Inr nodes"
| "walk_items (v # vs) depth nodes = and_then (walk_json v depth nodes) (walk_items vs depth)"
| "walk_members [] depth nodes = Inr nodes"
| "walk_members ((k, v) # ms) depth nodes = and_then (walk_json v depth nodes) (walk_members ms depth)"

definition validate_json :: "json \<Rightarrow> (codec_error, unit) result" where
  "validate_json v = and_then (walk_json v 0 0) (\<lambda>_. Inr ())"

definition validate_sorted_ids :: "string list \<Rightarrow> (codec_error, unit) result" where
  "validate_sorted_ids ids =
     (if ids = [] \<or> 32 < length ids then Inl (CodecValue ''ids'')
      else if list_ex (\<lambda>i. \<not> is_ok (validate_id i)) ids \<or> any_window2 (\<ge>) ids then Inl (CodecValue ''ids'')
      else Inr ())"

text \<open>\<open>canonical_json\<close>: objects with their members in the order of the keys, at every level.\<close>

fun canonical_json :: "json \<Rightarrow> json"
and canonical_items :: "json list \<Rightarrow> json list"
and canonical_members :: "(string \<times> json) list \<Rightarrow> (string \<times> json) list" where
  "canonical_json (JArray vs) = JArray (canonical_items vs)"
| "canonical_json (JObject ms) = JObject (om_collect (canonical_members ms))"
| "canonical_json JNull = JNull"
| "canonical_json (JBool b) = JBool b"
| "canonical_json (JNumber n) = JNumber n"
| "canonical_json (JString s) = JString s"
| "canonical_items [] = []"
| "canonical_items (v # vs) = canonical_json v # canonical_items vs"
| "canonical_members [] = []"
| "canonical_members ((k, v) # ms) = (k, canonical_json v) # canonical_members ms"

section \<open>Calls\<close>

definition validate_wire_selection :: "configuration_selection \<Rightarrow> (codec_error, unit) result" where
  "validate_wire_selection v = checks
     [validate_sorted_ids (sel_agent_ids v), validate_catalog_string (sel_provider_id v),
      validate_catalog_string (sel_model_id v),
      case (sel_auth_method v, sel_credential_reference_sha256 v) of
        (CredentialReference, Some d) \<Rightarrow> validate_wire_digest d
      | (CredentialReference, None) \<Rightarrow> Inl (CodecValue ''credential_reference_sha256'')
      | (_, Some _) \<Rightarrow> Inl (CodecValue ''credential_reference_sha256'')
      | (_, None) \<Rightarrow> Inr ()]"

definition positive_generation :: "u64 \<Rightarrow> (codec_error, unit) result" where
  "positive_generation g = ensure (g \<noteq> 0) (CodecValue ''expected_generation'')"

definition validate_campaign_read :: "string \<Rightarrow> string \<Rightarrow> (codec_error, unit) result" where
  "validate_campaign_read runner campaign = checks [validate_id runner, validate_id campaign]"

definition validate_campaign_mutation :: "string \<Rightarrow> u64 \<Rightarrow> string \<Rightarrow> string \<Rightarrow> (codec_error, unit) result" where
  "validate_campaign_mutation key generation runner campaign =
     checks [validate_id key, positive_generation generation, validate_campaign_read runner campaign]"

definition validate_mutation_params :: "'a campaign_mutation_params_scheme \<Rightarrow> (codec_error, unit) result" where
  "validate_mutation_params v = validate_campaign_mutation (cm_idempotency_key v) (cm_expected_generation v)
     (cm_runner_instance_id v) (cm_campaign_id v)"

definition lift_agent :: "string \<Rightarrow> ('e, unit) result \<Rightarrow> (codec_error, unit) result" where
  "lift_agent name r = map_err (\<lambda>_. CodecValue name) r"

definition validate_page :: "page_params \<Rightarrow> (codec_error, unit) result" where
  "validate_page v = ensure (pg_limit v \<noteq> 0 \<and> pg_limit v \<le> MAX_WIRE_PAGE_ITEMS) (CodecLimit ''limit'')"

definition validate_call :: "control_call \<Rightarrow> (codec_error, unit) result" where
  "validate_call c = (case c of
     CallNegotiate v \<Rightarrow>
       (if np_versions v = [] \<or> list_ex (\<lambda>x. x \<notin> set SUPPORTED_CONTROL_VERSIONS) (np_versions v)
        then Inl CodecUnsupportedVersion else wire_limits_validate (np_limits v))
   | CallValidateSettings settings \<Rightarrow> validate_json settings
   | CallCreatePlan v \<Rightarrow> checks [validate_id (mu_idempotency_key v), validate_json (mu_definition v)]
   | CallLaunch v \<Rightarrow> checks [validate_id (lp_idempotency_key v), validate_id (lp_plan_id v)]
   | CallStatus run_id \<Rightarrow> validate_id run_id
   | CallCancel v \<Rightarrow> checks [validate_id (ca_run_id v), validate_id (ca_attempt_id v), validate_id (ca_idempotency_key v)]
   | CallHistory v \<Rightarrow> validate_page v
   | CallEvents v \<Rightarrow> validate_page v
   | CallRepeat v \<Rightarrow> checks [validate_id (rp_run_id v), validate_id (rp_idempotency_key v)]
   | CallAnalyze run_ids \<Rightarrow> checks
       [ensure (run_ids \<noteq> [] \<and> length run_ids \<le> MAX_ANALYSIS_RUNS) (CodecValue ''run_ids''),
        check_all validate_id run_ids, ensure (\<not> has_duplicate run_ids) (CodecValue ''run_ids'')]
   | CallArtifactMetadata run_id digest \<Rightarrow> checks [validate_id run_id, validate_wire_digest digest]
   | CallFanout v \<Rightarrow> checks [validate_id (fp_idempotency_key v),
       ensure (fp_requests v \<noteq> [] \<and> length (fp_requests v) \<le> 64) (CodecValue ''fanout.requests''),
       check_all validate_json (fp_requests v)]
   | CallFanoutCancel v \<Rightarrow> checks [validate_id (fc_idempotency_key v),
       ensure (fc_members v \<noteq> [] \<and> length (fc_members v) \<le> 64) (CodecValue ''fanout.members''),
       check_all (\<lambda>m. checks [validate_id (ca_run_id m), validate_id (ca_attempt_id m)]) (fc_members v)]
   | CallCapabilities \<Rightarrow> Inr ()
   | CallMeasurementCatalog \<Rightarrow> Inr ()
   | CallBenchmarkCatalog \<Rightarrow> Inr ()
   | CallAgentCatalog v \<Rightarrow> lift_agent ''agent_catalog'' (request_validate v)
   | CallAgentInstall v \<Rightarrow> lift_agent ''agent_install'' (install_validate v)
   | CallAgentStatus v \<Rightarrow> lift_agent ''agent_status'' (status_validate v)
   | CallAgentCancel v \<Rightarrow> lift_agent ''agent_cancel'' (cancel_validate v)
   | CallAgentRetry v \<Rightarrow> lift_agent ''agent_retry'' (retry_validate v)
   | CallAgentRemove v \<Rightarrow> lift_agent ''agent_remove'' (remove_validate v)
   | CallAuthEnroll v \<Rightarrow> checks [validate_id (en_provider v), validate_wire_digest (en_endpoint_identity_sha256 v),
       validate_wire_digest (en_credential_locator_sha256 v), validate_id (en_idempotency_key v)]
   | CallAuthStatus provider \<Rightarrow> validate_id provider
   | CallAuthRotate v \<Rightarrow> checks [validate_id (ro_provider v), validate_wire_digest (ro_credential_locator_sha256 v),
       validate_id (ro_idempotency_key v)]
   | CallAuthRevoke v \<Rightarrow> checks [validate_id (rv_provider v), validate_id (rv_idempotency_key v)]
   | CallAuthHelperInvoke v \<Rightarrow> checks [validate_id (hi_provider v), validate_id (hi_idempotency_key v),
       validate_json (hi_profile v)]
   | CallProviderCatalog v \<Rightarrow> validate_id (pq_runner_instance_id v)
   | CallConfigurationStatus runner \<Rightarrow> validate_id runner
   | CallConfigurationApply v \<Rightarrow> checks [validate_id (ap_idempotency_key v),
       positive_generation (ap_expected_generation v), validate_wire_selection (ap_selection v)]
   | CallCampaignPlan v \<Rightarrow> checks [validate_id (pp_idempotency_key v), validate_id (pp_runner_instance_id v),
       positive_generation (pp_expected_generation v), validate_id (pp_provider_id v), validate_id (pp_model_id v),
       validate_sorted_ids (pp_agent_ids v), validate_sorted_ids (pp_workload_ids v),
       (let tuples = length (pp_agent_ids v) * length (pp_workload_ids v) in
        ensure (tuples \<noteq> 0 \<and> tuples \<le> 256) (CodecValue ''campaign tuple count''))]
   | CallCampaignStatus runner \<Rightarrow> validate_id runner
   | CallCassetteCatalog v \<Rightarrow> checks [validate_id (cq_runner_instance_id v), validate_id (cq_campaign_id v),
       positive_generation (cq_expected_generation v)]
   | CallReplayDispatch v \<Rightarrow> checks [validate_id (dp_idempotency_key v), validate_id (dp_runner_instance_id v),
       validate_id (dp_campaign_id v), positive_generation (dp_expected_generation v),
       validate_wire_digest (dp_provider_profile_sha256 v), validate_wire_digest (dp_cassette_sha256 v),
       validate_catalog_string (dp_agent_id v), validate_catalog_string (dp_workload_id v)]
   | CallCampaignEstimate v \<Rightarrow> checks [validate_id (eq_runner_instance_id v), validate_catalog_string (eq_provider_id v),
       validate_catalog_string (eq_model_id v), validate_sorted_ids (eq_agent_ids v), validate_sorted_ids (eq_workload_ids v)]
   | CallCampaignExecute v \<Rightarrow> validate_mutation_params v
   | CallCampaignCancel v \<Rightarrow> validate_mutation_params v
   | CallCampaignReconcile v \<Rightarrow> validate_mutation_params v
   | CallCampaignOfflineDefault v \<Rightarrow> validate_mutation_params v
   | CallCampaignSeal v \<Rightarrow> validate_mutation_params v
   | CallCampaignReopen v \<Rightarrow> validate_mutation_params v
   | CallCampaignRemove v \<Rightarrow> checks [validate_mutation_params v, validate_wire_digest (cm_cassette_sha256 v)]
   | CallCampaignRetry v \<Rightarrow> validate_mutation_params v
   | CallCampaignProgress v \<Rightarrow> validate_campaign_read (gp_runner_instance_id v) (gp_campaign_id v))"

definition request_validate_wire :: "control_request \<Rightarrow> wire_limits \<Rightarrow> (codec_error, unit) result" where
  "request_validate_wire r limits =
     (if cr_jsonrpc r \<noteq> JSONRPC_VERSION then Inl CodecVersion
      else and_then (wire_limits_validate limits) (\<lambda>_.
        if cr_timeout_ms r = 0 \<or> wl_max_timeout_ms limits < cr_timeout_ms r then Inl (CodecLimit ''timeout_ms'')
        else validate_call (cr_call r)))"


section \<open>Published catalogs\<close>

definition group_rank :: "measurement_group_id \<Rightarrow> nat" where
  "group_rank g = (case g of GroupSystemResources \<Rightarrow> 0 | GroupSchedulingContention \<Rightarrow> 1 | GroupLatency \<Rightarrow> 2
     | GroupQualityReliability \<Rightarrow> 3 | GroupFairness \<Rightarrow> 4 | GroupCost \<Rightarrow> 5 | GroupProvenance \<Rightarrow> 6)"

definition validate_catalog_text :: "string \<Rightarrow> nat \<Rightarrow> (codec_error, unit) result" where
  "validate_catalog_text s limit =
     ensure (s \<noteq> [] \<and> length s \<le> limit \<and> \<not> has_control s) (CodecValue ''measurement_catalog.text'')"

definition validate_catalog_id :: "string \<Rightarrow> (codec_error, unit) result" where
  "validate_catalog_id s = ensure (3 \<le> length s \<and> length s \<le> MAX_WIRE_ID_BYTES \<and> is_ascii s
     \<and> list_all (\<lambda>b. is_ascii_alphanumeric b \<or> b \<in> {CHR ''.'', CHR ''_'', CHR ''-''}) s
     \<and> is_ascii_lowercase (s ! 0)) (CodecValue ''measurement_catalog.id'')"

text \<open>The loop over the groups: the set of ids seen and the previous id; it returns the set.\<close>

fun validate_groups :: "wire_group list \<Rightarrow> measurement_group_id set \<Rightarrow> measurement_group_id option \<Rightarrow>
    (codec_error, measurement_group_id set) result" where
  "validate_groups [] seen previous = Inr seen"
| "validate_groups (g # gs) seen previous =
     and_then (validate_catalog_text (wg_label g) MAX_PUBLIC_STRING_BYTES) (\<lambda>_.
     and_then (validate_catalog_text (wg_description g) MAX_PUBLIC_STRING_BYTES) (\<lambda>_.
       if wg_id g \<in> seen then Inl (CodecValue ''measurement_catalog.groups'')
       else if (case previous of None \<Rightarrow> False | Some p \<Rightarrow> group_rank (wg_id g) \<le> group_rank p)
       then Inl (CodecValue ''measurement_catalog.groups'')
       else validate_groups gs (insert (wg_id g) seen) (Some (wg_id g))))"

fun validate_measurements :: "measurement_group_id set \<Rightarrow> wire_measurement list \<Rightarrow> string set \<Rightarrow> string option \<Rightarrow>
    (codec_error, unit) result" where
  "validate_measurements groups [] seen previous = Inr ()"
| "validate_measurements groups (d # ds) seen previous =
     and_then (checks [validate_catalog_id (wd_id d), validate_catalog_text (wd_name d) MAX_PUBLIC_STRING_BYTES,
         validate_catalog_text (wd_description d) MAX_PUBLIC_STRING_BYTES, validate_catalog_text (wd_unit d) 32]) (\<lambda>_.
       if wd_group d \<notin> groups \<or> wd_id d \<in> seen
          \<or> (case previous of None \<Rightarrow> False | Some p \<Rightarrow> wd_id d \<le> p)
          \<or> wd_platforms d = [] \<or> 8 < length (wd_platforms d) \<or> 4 < length (wd_evidence_limits d)
          \<or> mo_minimum_interval_ns (wd_overhead d) = 0
       then Inl (CodecValue ''measurement_catalog.measurements'')
       else validate_measurements groups ds (insert (wd_id d) seen) (Some (wd_id d)))"

definition zero_terminated :: "string \<Rightarrow> u8 list" where
  "zero_terminated s = as_bytes s @ [0]"

definition measurement_digest :: "wire \<Rightarrow> wire_measurement_catalog \<Rightarrow> (codec_error, string) result" where
  "measurement_digest w c =
     and_then (ok_or (wi_measurement_address w (wmc_schema_version c) (wmc_groups c) (wmc_measurements c))
         CodecSerialization) (\<lambda>address.
       Inr (digest_hex (zero_terminated ''asb-measurement-catalog-v1'' @ address)))"

definition measurement_publication_validate :: "wire \<Rightarrow> measurement_publication \<Rightarrow> (codec_error, unit) result" where
  "measurement_publication_validate w p =
     (let c = mpb_catalog p in
      if mpb_version p \<noteq> W1_2 \<or> wmc_schema_version c \<noteq> 1 \<or> MAX_MEASUREMENT_GROUPS < length (wmc_groups c)
         \<or> MAX_MEASUREMENTS < length (wmc_measurements c)
      then Inl (CodecValue ''measurement_catalog'')
      else and_then (validate_wire_digest (wmc_catalog_sha256 c)) (\<lambda>_.
        and_then (validate_groups (wmc_groups c) {} None) (\<lambda>groups.
        and_then (validate_measurements groups (wmc_measurements c) {} None) (\<lambda>_.
        and_then (measurement_digest w c) (\<lambda>computed.
          if computed \<noteq> wmc_catalog_sha256 c then Inl (CodecValue ''measurement_catalog.digest'')
          else and_then (ok_or (wi_measurement_publication w p) CodecSerialization) (\<lambda>encoded.
            if MAX_MEASUREMENT_CATALOG_WIRE_BYTES < length encoded then Inl CodecFrameTooLarge else Inr ()))))))"

definition benchmark_digest :: "wire \<Rightarrow> benchmark_publication \<Rightarrow> (codec_error, string) result" where
  "benchmark_digest w p =
     and_then (ok_or (wi_benchmark_address w (bpb_generation p) (bpb_pools p)) CodecSerialization) (\<lambda>address.
       Inr (digest_hex (zero_terminated ''asb-benchmark-catalog-v1'' @ address)))"

text \<open>Each level inserts its ids into a set: an empty or repeated id, or an empty level below, is an error.\<close>

fun validate_level :: "('a \<Rightarrow> string) \<Rightarrow> ('a \<Rightarrow> bool) \<Rightarrow> ('a \<Rightarrow> (codec_error, unit) result) \<Rightarrow> string \<Rightarrow>
    'a list \<Rightarrow> string set \<Rightarrow> (codec_error, unit) result" where
  "validate_level key hollow inner name [] seen = Inr ()"
| "validate_level key hollow inner name (x # xs) seen =
     (if key x = [] \<or> key x \<in> seen \<or> hollow x then Inl (CodecValue name)
      else and_then (inner x) (\<lambda>_. validate_level key hollow inner name xs (insert (key x) seen)))"

definition validate_benchmark_measures :: "wire_benchmark \<Rightarrow> (codec_error, unit) result" where
  "validate_benchmark_measures b =
     ensure (\<not> (list_ex (\<lambda>i. i = []) (wb_measure_ids b) \<or> has_duplicate (wb_measure_ids b)))
       (CodecValue ''benchmark_catalog.measure'')"

definition benchmark_publication_validate :: "wire \<Rightarrow> benchmark_publication \<Rightarrow> (codec_error, unit) result" where
  "benchmark_publication_validate w p =
     (if bpb_generation p = 0 \<or> bpb_pools p = [] \<or> 16 < length (bpb_pools p)
      then Inl (CodecValue ''benchmark_catalog.digest'')
      else and_then (benchmark_digest w p) (\<lambda>computed.
        if bpb_catalog_sha256 p \<noteq> computed then Inl (CodecValue ''benchmark_catalog.digest'')
        else validate_level wbp_id (\<lambda>pool. wbp_groups pool = [])
          (\<lambda>pool. validate_level wbg_id (\<lambda>g. wbg_benchmarks g = [])
            (\<lambda>g. validate_level wb_id (\<lambda>b. wb_measure_ids b = []) validate_benchmark_measures
               ''benchmark_catalog.benchmark'' (wbg_benchmarks g) {})
            ''benchmark_catalog.group'' (wbp_groups pool) {})
          ''benchmark_catalog.pool'' (bpb_pools p) {}))"

definition provider_sha256 :: "wire \<Rightarrow> provider_catalog \<Rightarrow> (codec_error, string) result" where
  "provider_sha256 w c = and_then (ok_or (wi_provider_catalog w c) CodecSerialization) (\<lambda>v. case v of
     JObject ms \<Rightarrow> and_then (ok_or (wi_json w (canonical_json (JObject (om_remove ''catalog_sha256'' ms)))) CodecSerialization)
       (\<lambda>bytes. Inr (digest_hex bytes))
   | _ \<Rightarrow> Inl CodecSerialization)"

definition dynamic_placeholder :: "provider_catalog_entry \<Rightarrow> bool" where
  "dynamic_placeholder p \<longleftrightarrow> pe_provider_id p = ''openrouter'' \<and> pe_models p = []
     \<and> (case pe_availability p of ProviderUnavailable r \<Rightarrow>
          r \<in> {''dynamic-catalog-not-ready'', ''dynamic-catalog-unavailable'', ''dynamic-catalog-empty''} | _ \<Rightarrow> False)"

definition validate_provider_entry :: "provider_catalog_entry \<Rightarrow> (codec_error, unit) result" where
  "validate_provider_entry p = checks [validate_id (pe_provider_id p), validate_id (pe_display_name p),
     ensure (pe_auth_methods p \<noteq> [] \<and> length (pe_auth_methods p) \<le> 8) (CodecValue ''provider entry''),
     ensure (\<not> ((pe_models p = [] \<and> \<not> dynamic_placeholder p) \<or> 64 < length (pe_models p))) (CodecValue ''provider entry''),
     ensure (\<not> any_window2 (\<ge>) (map pm_model_id (pe_models p))) (CodecValue ''provider model ordering''),
     check_all (\<lambda>m. checks [validate_id (pm_model_id m), validate_id (pm_revision m)]) (pe_models p)]"

definition validate_provider_catalog :: "provider_catalog \<Rightarrow> (codec_error, unit) result" where
  "validate_provider_catalog c = checks [validate_id (pv_runner_instance_id c), validate_wire_digest (pv_catalog_sha256 c),
     ensure (pv_generation c \<noteq> 0 \<and> pv_providers c \<noteq> [] \<and> length (pv_providers c) \<le> 32) (CodecValue ''provider catalog''),
     ensure (\<not> any_window2 (\<ge>) (map pe_provider_id (pv_providers c))) (CodecValue ''provider ordering''),
     check_all validate_provider_entry (pv_providers c)]"

definition zero_digest :: string where "zero_digest = replicate 64 (CHR ''0'')"

definition validate_projection :: "openrouter_projection \<Rightarrow> (codec_error, unit) result" where
  "validate_projection v = (case op_mode v of
     ModeStatic \<Rightarrow> ensure (op_catalog_sha256 v = zero_digest \<and> op_models v = [] \<and> op_diagnostic v = None)
       (CodecValue ''static provider catalog projection'')
   | ModeUnavailable \<Rightarrow> ensure (op_catalog_sha256 v = zero_digest \<and> op_models v = [] \<and> op_diagnostic v \<noteq> None)
       (CodecValue ''unavailable provider catalog projection'')
   | ModeDynamic \<Rightarrow> ensure (op_catalog_sha256 v \<noteq> zero_digest \<and> op_diagnostic v = None)
       (CodecValue ''dynamic provider catalog projection''))"

definition validate_dynamic_catalog :: "wire \<Rightarrow> dynamic_provider_catalog \<Rightarrow> (codec_error, unit) result" where
  "validate_dynamic_catalog w v =
     (let o1 = dy_openrouter v; c = dy_catalog v in checks
     [validate_provider_catalog c,
      and_then (provider_sha256 w c) (\<lambda>d.
        ensure (pv_catalog_sha256 c = d) (CodecValue ''dynamic provider catalog digest'')),
      validate_wire_digest (op_catalog_sha256 o1),
      ensure (length (op_models o1) \<le> 64) (CodecValue ''dynamic provider catalog''),
      ensure (\<not> any_window2 (\<ge>) (map pm_model_id (op_models o1))) (CodecValue ''dynamic provider model ordering''),
      check_all (\<lambda>m. checks [validate_catalog_string (pm_model_id m), validate_catalog_string (pm_revision m)]) (op_models o1),
      and_then (ok_or (find (\<lambda>p. pe_provider_id p = ''openrouter'') (pv_providers c)) (CodecValue ''dynamic provider catalog''))
        (\<lambda>p. ensure (pe_models p = op_models o1) (CodecValue ''dynamic provider model identity'')),
      validate_projection o1])"

section \<open>Results\<close>

definition validate_summary :: "run_summary \<Rightarrow> (codec_error, unit) result" where
  "validate_summary v = checks [validate_id (sum_run_id v), validate_id (sum_attempt_id v),
     validate_wire_digest (sum_plan_sha256 v),
     ensure (sum_created_revision v \<le> sum_revision v) (CodecValue ''revision'')]"

definition validate_event :: "wire_event \<Rightarrow> (codec_error, unit) result" where
  "validate_event v =
     (let associated = (ev_run_id v \<noteq> None \<and> ev_attempt_id v \<noteq> None) in
      if ev_kind v \<in> {EventRunnerReady, EventPlanCreated} \<and> associated then Inl (CodecValue ''event association'')
      else if ev_kind v \<notin> {EventRunnerReady, EventPlanCreated} \<and> \<not> associated then Inl (CodecValue ''event association'')
      else checks [case ev_run_id v of None \<Rightarrow> Inr () | Some i \<Rightarrow> validate_id i,
        case ev_attempt_id v of None \<Rightarrow> Inr () | Some i \<Rightarrow> validate_id i])"

definition validate_configuration :: "configuration_snapshot \<Rightarrow> (codec_error, unit) result" where
  "validate_configuration v = checks [validate_id (cf_runner_instance_id v),
     ensure (cf_generation v \<noteq> 0) (CodecValue ''configuration generation''),
     (if cf_configured v then checks [validate_sorted_ids (cf_agent_ids v),
        and_then (ok_or (cf_provider_id v) (CodecValue ''provider_id'')) validate_id,
        and_then (ok_or (cf_model_id v) (CodecValue ''model_id'')) validate_id,
        ensure (cf_auth_method v \<noteq> None) (CodecValue ''auth_method'')]
      else ensure (cf_agent_ids v = [] \<and> cf_provider_id v = None \<and> cf_model_id v = None \<and> cf_auth_method v = None
        \<and> cf_credential_reference_sha256 v = None) (CodecValue ''unconfigured state'')),
     (case cf_credential_reference_sha256 v of None \<Rightarrow> Inr () | Some d \<Rightarrow> validate_wire_digest d)]"

definition validate_campaign_plan :: "recording_campaign_plan \<Rightarrow> (codec_error, unit) result" where
  "validate_campaign_plan v = checks [validate_id (rcp_runner_instance_id v), validate_id (rcp_campaign_id v),
     validate_id (rcp_provider_id v), validate_id (rcp_model_id v), validate_sorted_ids (rcp_agent_ids v),
     validate_sorted_ids (rcp_workload_ids v),
     ensure (rcp_generation v \<noteq> 0 \<and> unat (rcp_tuple_count v) = length (rcp_agent_ids v) * length (rcp_workload_ids v)
       \<and> rcp_state v = ''planned'' \<and> \<not> rcp_offline_ready v \<and> rcp_unavailable_reason v = Some ''recording-required'')
       (CodecValue ''campaign plan'')]"

definition validate_campaign_lifecycle :: "recording_campaign_lifecycle \<Rightarrow> (codec_error, unit) result" where
  "validate_campaign_lifecycle v = checks [validate_id (rcl_runner_instance_id v), validate_id (rcl_campaign_id v),
     validate_catalog_string (rcl_provider_id v), validate_catalog_string (rcl_model_id v),
     validate_sorted_ids (rcl_agent_ids v), validate_sorted_ids (rcl_workload_ids v),
     ensure (rcl_generation v \<noteq> 0 \<and> unat (rcl_tuple_count v) = length (rcl_agent_ids v) * length (rcl_workload_ids v)
       \<and> rcl_covered_tuple_count v \<le> rcl_tuple_count v
       \<and> rcl_state v \<in> {''planned'', ''recording'', ''needs_reconciliation'', ''complete'', ''cancelled'', ''failed''}
       \<and> rcl_offline_ready v = (rcl_state v = ''complete'' \<and> rcl_covered_tuple_count v = rcl_tuple_count v)
       \<and> rcl_offline_ready v = (rcl_unavailable_reason v = None)
       \<and> \<not> (\<not> rcl_offline_ready v \<and> rcl_unavailable_reason v = None)) (CodecValue ''campaign lifecycle''),
     (case rcl_unavailable_reason v of None \<Rightarrow> Inr () | Some r \<Rightarrow> validate_catalog_string r)]"

definition validate_campaign_status :: "campaign_status \<Rightarrow> (codec_error, unit) result" where
  "validate_campaign_status v = checks [validate_id (cs_runner_instance_id v),
     ensure (cs_generation v \<noteq> 0) (CodecValue ''campaign status generation''),
     (case cs_campaign v of None \<Rightarrow> Inr () | Some c \<Rightarrow> checks [validate_campaign_lifecycle c,
        ensure (rcl_runner_instance_id c = cs_runner_instance_id v \<and> rcl_generation c = cs_generation v)
          (CodecValue ''campaign status identity'')])]"

definition validate_campaign_estimate :: "campaign_estimate \<Rightarrow> (codec_error, unit) result" where
  "validate_campaign_estimate v = checks [validate_id (ce_runner_instance_id v),
     ensure (ce_generation v \<noteq> 0 \<and> ce_tuple_count v \<noteq> 0) (CodecValue ''campaign estimate''),
     ensure (\<not> (ce_offline_ready v \<and> (\<not> ce_complete_coverage v \<or> ce_unavailable_reason v \<noteq> None))) (CodecValue ''campaign estimate''),
     ensure (\<not> (\<not> ce_offline_ready v \<and> ce_unavailable_reason v = None)) (CodecValue ''campaign estimate''),
     (case ce_unavailable_reason v of None \<Rightarrow> Inr () | Some r \<Rightarrow> validate_catalog_string r)]"

definition validate_cassette_catalog :: "cassette_catalog \<Rightarrow> (codec_error, unit) result" where
  "validate_cassette_catalog v = checks [validate_id (cc_runner_instance_id v), validate_id (cc_campaign_id v),
     ensure (cc_generation v \<noteq> 0 \<and> cc_entries v \<noteq> [] \<and> length (cc_entries v) \<le> 256) (CodecValue ''cassette catalog''),
     check_all (\<lambda>e. checks [validate_id (ce_cassette_id e), validate_wire_digest (ce_cassette_sha256 e),
        validate_wire_digest (ce_provider_profile_sha256 e), validate_catalog_string (ce_agent_id e),
        validate_catalog_string (ce_workload_id e), validate_catalog_string (ce_scorer_revision e)]) (cc_entries v),
     ensure (\<not> any_window2 (\<ge>) (map entry_key (cc_entries v))) (CodecValue ''cassette ordering'')]"

definition validate_replay_dispatch :: "replay_dispatch \<Rightarrow> (codec_error, unit) result" where
  "validate_replay_dispatch v = checks [validate_id (rd_runner_instance_id v), validate_id (rd_campaign_id v),
     ensure (rd_generation v \<noteq> 0 \<and> rd_offline_only v) (CodecValue ''replay dispatch''),
     validate_wire_digest (rd_provider_profile_sha256 v), validate_wire_digest (rd_cassette_sha256 v),
     validate_catalog_string (rd_agent_id v), validate_catalog_string (rd_workload_id v)]"

definition validate_result :: "wire \<Rightarrow> control_result \<Rightarrow> wire_limits \<Rightarrow> (codec_error, unit) result" where
  "validate_result w r limits = (case r of
     ResCapabilities _ \<Rightarrow> Inr ()
   | ResMeasurementCatalog v \<Rightarrow> measurement_publication_validate w v
   | ResBenchmarkCatalog v \<Rightarrow> benchmark_publication_validate w v
   | ResAgentCatalog v \<Rightarrow> lift_agent ''agent_catalog'' (catalog_validate (wi_json w) v)
   | ResAgentLifecycle v \<Rightarrow> lift_agent ''agent_lifecycle'' (response_validate v)
   | ResSettingsValidation v \<Rightarrow> ensure (length (sv_issues v) \<le> unat (wl_max_page_items limits)
       \<and> sv_valid v = (sv_issues v = []) \<and> \<not> has_duplicate (sv_issues v)) (CodecValue ''settings validation'')
   | ResPlan v \<Rightarrow> checks [validate_id (pr_plan_id v), validate_wire_digest (pr_plan_sha256 v)]
   | ResLaunch v \<Rightarrow> validate_summary v
   | ResStatus v \<Rightarrow> validate_summary v
   | ResAcknowledged ok \<Rightarrow> ensure ok (CodecValue ''accepted'')
   | ResAuthStatus v \<Rightarrow> checks [validate_id (au_provider v), validate_wire_digest (au_endpoint_identity_sha256 v),
       validate_wire_digest (au_credential_locator_sha256 v),
       ensure (au_generation v \<noteq> 0 \<and> au_status v \<in> {''active'', ''revoked'', ''pending''}) (CodecValue ''auth status'')]
   | ResHistory v \<Rightarrow> checks [ensure (length (pa_items v) \<le> unat (wl_max_page_items limits)) (CodecValue ''history.items''),
       check_all validate_summary (pa_items v)]
   | ResEvents v \<Rightarrow> checks [ensure (length (pa_items v) \<le> unat (wl_max_page_items limits)) (CodecValue ''events.items''),
       check_all validate_event (pa_items v)]
   | ResAnalysis v \<Rightarrow> checks [ensure (an_run_count v \<noteq> 0 \<and> unat (an_run_count v) \<le> MAX_ANALYSIS_RUNS) (CodecValue ''run_count''),
       validate_wire_digest (an_analysis_sha256 v)]
   | ResArtifactMetadata v \<Rightarrow> validate_wire_digest (am_sha256 v)
   | ResFanout v \<Rightarrow> checks [validate_id (fa_idempotency_key v),
       ensure (fa_members v \<noteq> [] \<and> length (fa_members v) \<le> unat (wl_max_in_flight limits)) (CodecValue ''fanout.members''),
       check_all (\<lambda>m. checks [validate_id (me_run_id m), validate_id (me_attempt_id m)]) (fa_members v)]
   | ResProviderCatalog v \<Rightarrow> validate_provider_catalog v
   | ResDynamicProviderCatalog v \<Rightarrow> validate_dynamic_catalog w v
   | ResConfiguration v \<Rightarrow> validate_configuration v
   | ResCampaign v \<Rightarrow> validate_campaign_plan v
   | ResCampaignStatus v \<Rightarrow> validate_campaign_status v
   | ResCampaignEstimate v \<Rightarrow> validate_campaign_estimate v
   | ResCampaignLifecycle v \<Rightarrow> validate_campaign_lifecycle v
   | ResCassetteCatalog v \<Rightarrow> validate_cassette_catalog v
   | ResReplayDispatch v \<Rightarrow> validate_replay_dispatch v)"

definition validate_success :: "wire \<Rightarrow> control_success \<Rightarrow> wire_limits \<Rightarrow> (codec_error, unit) result" where
  "validate_success w s limits = (case s of
     SuccessNegotiated v \<Rightarrow> checks
       [ensure (wn_version v \<in> set SUPPORTED_CONTROL_VERSIONS \<and> wn_oldest_revision v \<le> wn_latest_revision v) CodecVersion,
        wire_limits_validate (wn_limits v), validate_id (wn_runner_instance_id v)]
   | SuccessOperation request_sha256 r \<Rightarrow> checks [validate_wire_digest request_sha256, validate_result w r limits])"

definition response_validate_wire :: "wire \<Rightarrow> control_response \<Rightarrow> wire_limits \<Rightarrow> (codec_error, unit) result" where
  "response_validate_wire w r limits = (case r of
     ResponseSuccess version _ result \<Rightarrow>
       if version \<noteq> JSONRPC_VERSION then Inl CodecVersion else validate_success w result limits
   | ResponseFailure version _ _ message \<Rightarrow>
       if version \<noteq> JSONRPC_VERSION then Inl CodecVersion
       else ensure (\<not> (MAX_PUBLIC_STRING_BYTES < length message \<or> has_control message)) (CodecValue ''error.message''))"

definition validate_for :: "wire \<Rightarrow> control_response \<Rightarrow> control_request \<Rightarrow> wire_limits \<Rightarrow> (codec_error, unit) result" where
  "validate_for w r request limits =
     and_then (response_validate_wire w r limits) (\<lambda>_.
       if response_id r \<noteq> cr_id request then Inl CodecResponseIdMismatch
       else case r of
         ResponseSuccess _ _ (SuccessOperation _ result) \<Rightarrow>
           if \<not> result_matches result (cr_call request) then Inl CodecResultMismatch else Inr ()
       | _ \<Rightarrow> Inr ())"

section \<open>Frames\<close>

definition wire_encode :: "('a \<Rightarrow> u8 list option) \<Rightarrow> 'a \<Rightarrow> nat \<Rightarrow> (codec_error, u8 list) result" where
  "wire_encode to_vec x max_frame =
     and_then (ok_or (to_vec x) CodecSerialization) (\<lambda>body.
       if body = [] \<or> max_frame < length body \<or> MAX_WIRE_FRAME_BYTES < length body then Inl CodecFrameTooLarge
       else Inr (u32_to_be_bytes (word_of_nat (length body)) @ body))"

definition wire_decode :: "(u8 list \<Rightarrow> 'a option) \<Rightarrow> u8 list \<Rightarrow> nat \<Rightarrow> (codec_error, 'a) result" where
  "wire_decode from_slice frame max_frame =
     (if length frame < 4 then Inl CodecTruncatedFrame
      else let n = unat (from_be_bytes (take 4 frame)) in
        if n = 0 \<or> max_frame < n \<or> MAX_WIRE_FRAME_BYTES < n then Inl CodecFrameTooLarge
        else if length frame \<noteq> n + 4 then Inl CodecTruncatedFrame
        else ok_or (from_slice (drop 4 frame)) CodecMalformedFrame)"


section \<open>Bounded JSON\<close>

text \<open>The number of values in a JSON value and the number of its levels.\<close>

fun json_nodes :: "json \<Rightarrow> nat" and items_nodes :: "json list \<Rightarrow> nat" and members_nodes :: "(string \<times> json) list \<Rightarrow> nat" where
  "json_nodes (JArray vs) = Suc (items_nodes vs)"
| "json_nodes (JObject ms) = Suc (members_nodes ms)"
| "json_nodes JNull = 1"
| "json_nodes (JBool b) = 1"
| "json_nodes (JNumber n) = 1"
| "json_nodes (JString s) = 1"
| "items_nodes [] = 0"
| "items_nodes (v # vs) = json_nodes v + items_nodes vs"
| "members_nodes [] = 0"
| "members_nodes ((k, v) # ms) = json_nodes v + members_nodes ms"

fun json_levels :: "json \<Rightarrow> nat" and items_levels :: "json list \<Rightarrow> nat" and members_levels :: "(string \<times> json) list \<Rightarrow> nat" where
  "json_levels (JArray vs) = Suc (items_levels vs)"
| "json_levels (JObject ms) = Suc (members_levels ms)"
| "json_levels JNull = 1"
| "json_levels (JBool b) = 1"
| "json_levels (JNumber n) = 1"
| "json_levels (JString s) = 1"
| "items_levels [] = 0"
| "items_levels (v # vs) = max (json_levels v) (items_levels vs)"
| "members_levels [] = 0"
| "members_levels ((k, v) # ms) = max (json_levels v) (members_levels ms)"

lemma json_measures_positive [simp]: "0 < json_nodes v" "0 < json_levels v"
  by (cases v; simp)+

definition within_limits :: "nat \<Rightarrow> nat \<Rightarrow> nat \<Rightarrow> nat \<Rightarrow> bool" where
  "within_limits n d nodes levels \<longleftrightarrow> n + nodes \<le> MAX_JSON_NODES \<and> d + levels \<le> MAX_JSON_DEPTH + 1"

lemma walk_exact:
  "n \<le> MAX_JSON_NODES \<Longrightarrow> d \<le> MAX_JSON_DEPTH + 1 \<Longrightarrow>
     walk_json v d n = (if within_limits n d (json_nodes v) (json_levels v) then Inr (n + json_nodes v) else Inl CodecJsonTooLarge)"
  "n \<le> MAX_JSON_NODES \<Longrightarrow> d \<le> MAX_JSON_DEPTH + 1 \<Longrightarrow>
     walk_items vs d n = (if within_limits n d (items_nodes vs) (items_levels vs) then Inr (n + items_nodes vs) else Inl CodecJsonTooLarge)"
  "n \<le> MAX_JSON_NODES \<Longrightarrow> d \<le> MAX_JSON_DEPTH + 1 \<Longrightarrow>
     walk_members ms d n = (if within_limits n d (members_nodes ms) (members_levels ms) then Inr (n + members_nodes ms) else Inl CodecJsonTooLarge)"
proof (induction v d n and vs d n and ms d n rule: walk_json_walk_items_walk_members.induct)
  case (1 v d n)
  show ?case
  proof (cases "n + 1 \<le> MAX_JSON_NODES \<and> d \<le> MAX_JSON_DEPTH")
    case True
    with 1 show ?thesis
      by (cases v) (auto simp: within_limits_def Let_def simp del: walk_json.simps simp: walk_json.simps)
  next
    case False
    moreover have "\<not> within_limits n d (json_nodes v) (json_levels v)"
      using False json_measures_positive [of v] unfolding within_limits_def by linarith
    ultimately show ?thesis by (auto simp: Let_def)
  qed
next
  case (3 v vs d n)
  then show ?case by (auto simp: within_limits_def simp del: walk_json.simps)
next
  case (5 k v ms d n)
  then show ?case by (auto simp: within_limits_def simp del: walk_json.simps)
qed (simp_all add: within_limits_def)

text \<open>
  The limits on JSON payloads: a payload is refused exactly when it has more than 4096 values or more
  than 17 levels of nesting, and the counter of the walk is then never past the limit by more than one.
\<close>

theorem json_limits_exact:
  "validate_json v = (if json_nodes v \<le> 4096 \<and> json_levels v \<le> 17 then Inr () else Inl CodecJsonTooLarge)"
  by (simp add: validate_json_def walk_exact within_limits_def MAX_JSON_NODES_def MAX_JSON_DEPTH_def del: walk_json.simps)

section \<open>Canonical JSON\<close>

text \<open>Two values that differ only in the order of the members of their objects.\<close>

lemma canonical_items_map: "canonical_items vs = map canonical_json vs"
  by (induction vs) auto

lemma canonical_members_map: "canonical_members ms = map (apsnd canonical_json) ms"
  by (induction ms) auto

lemma om_get_collect: "om_get (om_collect kvs) = om_get (rev kvs)"
proof -
  have "om_sorted m \<Longrightarrow> om_get (foldl (\<lambda>m (k, v). om_insert k v m) m kvs) = om_get m ++ om_get (rev kvs)" for m
  proof (induction kvs arbitrary: m)
    case (Cons kv kvs)
    obtain k v where kv: "kv = (k, v)" by (cases kv)
    have "om_get (om_insert k v m) = (om_get m)(k \<mapsto> v)"
      using Cons.prems by (auto simp: om_get_insert)
    with Cons kv om_insert_sorted [OF Cons.prems, of k v] show ?case
      by (auto simp: map_add_def fun_eq_iff split: option.splits)
  qed simp
  from this [of "[]"] show ?thesis by (simp add: om_collect_def)
qed

lemma om_collect_permuted:
  assumes "distinct (map fst ms)" "mset ms = mset ms'"
  shows "om_collect ms = om_collect ms'"
proof (rule om.entries_ext)
  have "distinct (map fst ms')"
    using assms by (metis mset_map mset_eq_imp_distinct_iff)
  then have "om_get (rev ms) = om_get (rev ms')"
    using assms map_of_inject_set [of "rev ms" "rev ms'"] mset_eq_setD [of ms ms'] by (simp add: rev_map [symmetric])
  then show "om_get (om_collect ms) k = om_get (om_collect ms') k" for k by (simp add: om_get_collect)
qed (rule om_collect_sorted)+

lemma canonical_members_order:
  assumes "distinct (map fst ms)" "mset ms = mset ms'"
  shows "canonical_json (JObject ms) = canonical_json (JObject ms')"
proof -
  have "mset (canonical_members ms) = mset (canonical_members ms')"
    using assms(2) by (simp add: canonical_members_map)
  moreover have "distinct (map fst (canonical_members ms))"
    using assms(1) by (simp add: canonical_members_map)
  ultimately show ?thesis using om_collect_permuted by simp
qed


text \<open>
  The digest of a provider catalog does not depend on the order in which the JSON library lists the
  members of its object, nor on the digest the catalog carries.
\<close>

lemma provider_digest_canonical:
  assumes "wi_provider_catalog w c = Some (JObject ms)" "wi_provider_catalog w c' = Some (JObject ms')"
    and "distinct (map fst ms)" "mset (om_remove ''catalog_sha256'' ms) = mset (om_remove ''catalog_sha256'' ms')"
  shows "provider_sha256 w c = provider_sha256 w c'"
proof -
  have "distinct (map fst (om_remove ''catalog_sha256'' ms))"
    using assms(3) by (simp add: om_remove_def distinct_map_filter)
  from canonical_members_order [OF this assms(4)] assms(1,2) show ?thesis
    by (simp add: provider_sha256_def del: canonical_json.simps)
qed

section \<open>Campaigns on the wire\<close>

lemma validate_id_Inr [result_simps]:
  "validate_id s = Inr u \<longleftrightarrow> s \<noteq> [] \<and> length s \<le> 128 \<and> is_ascii s \<and> \<not> has_control s"
  by (simp add: validate_id_def MAX_WIRE_ID_BYTES_def result_simps)

lemma sorted_ids_Inr: "validate_sorted_ids ids = Inr u \<Longrightarrow> ids \<noteq> [] \<and> length ids \<le> 32"
  by (simp add: validate_sorted_ids_def split: if_splits)

lemma accepted_lifecycle_facts:
  assumes "validate_campaign_lifecycle l = Inr ()"
  shows "rcl_generation l \<noteq> 0" "rcl_tuple_count l \<noteq> 0" "rcl_covered_tuple_count l \<le> rcl_tuple_count l"
    "rcl_state l \<in> {''planned'', ''recording'', ''needs_reconciliation'', ''complete'', ''cancelled'', ''failed''}"
    "rcl_offline_ready l \<longleftrightarrow> rcl_state l = ''complete'' \<and> rcl_covered_tuple_count l = rcl_tuple_count l"
    "unat (rcl_tuple_count l) = length (rcl_agent_ids l) * length (rcl_workload_ids l)"
proof -
  have ids: "rcl_agent_ids l \<noteq> []" "rcl_workload_ids l \<noteq> []"
    using assms sorted_ids_Inr by (auto simp: validate_campaign_lifecycle_def result_simps)
  have guard: "rcl_generation l \<noteq> 0 \<and> unat (rcl_tuple_count l) = length (rcl_agent_ids l) * length (rcl_workload_ids l)
      \<and> rcl_covered_tuple_count l \<le> rcl_tuple_count l
      \<and> rcl_state l \<in> {''planned'', ''recording'', ''needs_reconciliation'', ''complete'', ''cancelled'', ''failed''}
      \<and> rcl_offline_ready l = (rcl_state l = ''complete'' \<and> rcl_covered_tuple_count l = rcl_tuple_count l)"
    using assms by (simp add: validate_campaign_lifecycle_def result_simps)
  from guard show "rcl_generation l \<noteq> 0" "rcl_covered_tuple_count l \<le> rcl_tuple_count l"
    "rcl_state l \<in> {''planned'', ''recording'', ''needs_reconciliation'', ''complete'', ''cancelled'', ''failed''}"
    "rcl_offline_ready l \<longleftrightarrow> rcl_state l = ''complete'' \<and> rcl_covered_tuple_count l = rcl_tuple_count l"
    "unat (rcl_tuple_count l) = length (rcl_agent_ids l) * length (rcl_workload_ids l)" by blast+
  from guard ids show "rcl_tuple_count l \<noteq> 0" by auto
qed

lemma wire_phase_recognised:
  assumes "s \<in> {''planned'', ''recording'', ''needs_reconciliation'', ''complete'', ''cancelled'', ''failed''}"
  obtains p where "lifecycle_phase s = Some p" "p \<noteq> NoCampaign" "p \<noteq> campaign_phase.Removed" "p = Complete \<longleftrightarrow> s = ''complete''"
  using assms by (auto simp: lifecycle_phase_def)

text \<open>
  C26: What a lifecycle answer that the codec accepts becomes in the campaign model: it is observed exactly
  when the campaign id is an identifier of the model (the codec admits any printable ASCII), the
  observation is offline ready exactly when it is complete with full coverage, and it is never the
  phase after a removal: the codec refuses the states \<open>sealed\<close> and \<open>removed\<close> that the model maps.
\<close>

theorem accepted_lifecycle_observed:
  assumes "validate_campaign_lifecycle l = Inr ()"
  shows "(is_ok (observe_lifecycle l) \<longleftrightarrow> valid_id (rcl_campaign_id l))
    \<and> (\<forall>o1. observe_lifecycle l = Inr o1 \<longrightarrow> observation_validate o1 = Inr ()
         \<and> co_campaign_id o1 = Some (rcl_campaign_id l) \<and> co_phase o1 \<noteq> campaign_phase.Removed \<and> co_phase o1 \<noteq> NoCampaign
         \<and> (co_offline_ready o1 \<longleftrightarrow> co_phase o1 = Complete \<and> coverage_is_complete (co_coverage o1)))
    \<and> rcl_state l \<notin> {''sealed'', ''removed''}"
proof -
  note facts = accepted_lifecycle_facts [OF assms]
  obtain p where p: "lifecycle_phase (rcl_state l) = Some p" "p \<noteq> NoCampaign" "p \<noteq> campaign_phase.Removed"
    "p = Complete \<longleftrightarrow> rcl_state l = ''complete''"
    using wire_phase_recognised [OF facts(4)] by blast
  let ?o = "\<lparr>co_generation = rcl_generation l, co_campaign_id = Some (rcl_campaign_id l), co_phase = p,
    co_coverage = \<lparr>cv_requested = rcl_tuple_count l, cv_complete = rcl_covered_tuple_count l\<rparr>,
    co_offline_ready = rcl_offline_ready l\<rparr>"
  have count: "0 < rcl_tuple_count l" "\<not> rcl_tuple_count l < rcl_covered_tuple_count l"
    using facts(2,3) by (simp_all add: word_gt_0)
  have ok: "observation_validate ?o = (if valid_id (rcl_campaign_id l) then Inr () else Inl InvalidObservation)"
    using p facts(1,2,5) count
    by (auto simp: observation_validate_def coverage_validate_def coverage_is_complete_def)
  have observed: "observe_lifecycle l = (if valid_id (rcl_campaign_id l) then Inr ?o else Inl InvalidObservation)"
    using p(1) ok by (simp add: observe_lifecycle_def)
  show ?thesis
    using observed ok p facts(4,5) count by (auto simp: coverage_is_complete_def)
qed

definition wire_lifecycle :: recording_campaign_lifecycle where
  "wire_lifecycle = \<lparr>rcl_runner_instance_id = ''r'', rcl_generation = 3, rcl_campaign_id = ''campaign-1'',
     rcl_provider_id = ''p'', rcl_model_id = ''m'', rcl_agent_ids = [''a''], rcl_workload_ids = [''w''],
     rcl_tuple_count = 1, rcl_covered_tuple_count = 1, rcl_state = ''complete'', rcl_offline_ready = True,
     rcl_unavailable_reason = None\<rparr>"

theorem accepted_lifecycle_observed_witness:
  "is_ok (observe_lifecycle wire_lifecycle)"
proof -
  have "validate_campaign_lifecycle wire_lifecycle = Inr ()" "valid_id (rcl_campaign_id wire_lifecycle)"
    by (simp_all add: validate_campaign_lifecycle_def result_simps validate_catalog_string_def validate_sorted_ids_def
        wire_lifecycle_def valid_id_def text_defs MAX_CATALOG_STRING_BYTES_def MAX_WIRE_ID_BYTES_def Control_Codec.validate_id_def)
  from accepted_lifecycle_observed [OF this(1)] this(2) show ?thesis by blast
qed


section \<open>Cassette catalogs on the wire\<close>

definition entry_identifiers :: "cassette_entry \<Rightarrow> string list" where
  "entry_identifiers e = [ce_cassette_id e, ce_agent_id e, ce_workload_id e, ce_scorer_revision e]"

lemma wire_digest_valid: "validate_wire_digest d = Inr () \<longleftrightarrow> Benchmark_Route.valid_digest d"
proof -
  have "(is_ascii_hexdigit b \<and> \<not> is_ascii_uppercase b) = is_lower_hexdigit b" for b
    by (auto simp: is_ascii_hexdigit_def is_ascii_uppercase_def is_lower_hexdigit_def is_ascii_digit_def)
  then show ?thesis by (simp add: validate_wire_digest_def Benchmark_Route.valid_digest_def result_simps)
qed

lemma window_of_keys: "any_window2 (\<ge>) (map f xs) = any_window2 (\<lambda>a b. f a \<ge> f b) xs"
  by (induction "\<lambda>a b. f a \<ge> f b" xs rule: any_window2.induct) auto

text \<open>
  The replay catalog checks what the codec has checked: a cassette catalog that the codec accepts is
  authenticated exactly when its ids are identifiers of the replay route, which exclude the colon and
  the slash that the codec admits.
\<close>

lemma accepted_cassettes_authenticated:
  assumes "validate_cassette_catalog c = Inr ()"
  shows "is_ok (authenticate_cassettes c) \<longleftrightarrow>
    (\<forall>i \<in> set (cc_runner_instance_id c # cc_campaign_id c # concat (map entry_identifiers (cc_entries c))). valid_identifier i)"
proof -
  have facts: "cc_generation c \<noteq> 0" "cc_entries c \<noteq> []" "length (cc_entries c) \<le> 256"
    "\<not> any_window2 (\<lambda>a b. entry_key a \<ge> entry_key b) (cc_entries c)"
    "\<And>e. e \<in> set (cc_entries c) \<Longrightarrow> Benchmark_Route.valid_digest (ce_cassette_sha256 e) \<and> Benchmark_Route.valid_digest (ce_provider_profile_sha256 e)"
    using assms by (auto simp: validate_cassette_catalog_def result_simps window_of_keys wire_digest_valid)
  have entries: "check_all entry_valid (cc_entries c) = Inr () \<longleftrightarrow>
      (\<forall>e \<in> set (cc_entries c). \<forall>i \<in> set (entry_identifiers e). valid_identifier i)"
    using facts(5) by (auto simp: result_simps entry_valid_def entry_identifiers_def split: if_splits)
  have "is_ok (authenticate_cassettes c) \<longleftrightarrow> valid_identifier (cc_runner_instance_id c)
      \<and> valid_identifier (cc_campaign_id c) \<and> check_all entry_valid (cc_entries c) = Inr ()"
    using facts(1-4)
    by (cases "check_all entry_valid (cc_entries c)") (auto simp: authenticate_cassettes_def MAX_ROUTE_ITEMS_def)
  then show ?thesis unfolding entries by auto
qed

section \<open>Answers\<close>

lemma validate_for_Inr:
  "validate_for w r q limits = Inr u \<longleftrightarrow> response_validate_wire w r limits = Inr () \<and> response_id r = cr_id q
     \<and> (case r of ResponseSuccess _ _ (SuccessOperation _ result) \<Rightarrow> result_matches result (cr_call q) | _ \<Rightarrow> True)"
  by (auto simp: validate_for_def result_simps split: control_response.splits control_success.splits if_splits)


lemma negotiation_answers_any_call:
  assumes "validate_for w (ResponseSuccess version i (SuccessNegotiated n)) q limits = Inr ()"
  shows "validate_for w (ResponseSuccess version i (SuccessNegotiated n)) (q\<lparr>cr_call := c\<rparr>) limits = Inr ()"
  using assms by (simp add: validate_for_Inr)

section \<open>Frames round trip\<close>

lemma wire_encode_Inr:
  assumes "wire_encode to_vec x limit = Inr frame"
  obtains body where "to_vec x = Some body" "frame = u32_to_be_bytes (word_of_nat (length body)) @ body"
    "body \<noteq> []" "length body \<le> limit" "length body \<le> MAX_WIRE_FRAME_BYTES"
    "unat (word_of_nat (length body) :: u32) = length body"
proof -
  obtain body where body: "to_vec x = Some body" "body \<noteq> []" "length body \<le> limit" "length body \<le> MAX_WIRE_FRAME_BYTES"
    "frame = u32_to_be_bytes (word_of_nat (length body)) @ body"
    using assms by (auto simp: wire_encode_def result_simps split: if_splits)
  moreover from body(4) have "length body < 2 ^ 32" by (simp add: MAX_WIRE_FRAME_BYTES_def)
  ultimately show ?thesis using that by (simp add: unat_of_nat take_bit_nat_eq_self)
qed

text \<open>
  A frame that was encoded is decoded to its message under any limit the body fits, and no proper
  prefix and no extension of it is decoded.
\<close>

lemma wire_frame_round_trip:
  assumes "wire_encode to_vec x limit = Inr frame" "\<And>b. to_vec x = Some b \<Longrightarrow> from_slice b = Some x"
  shows "wire_decode from_slice frame limit = Inr x"
    and "k < length frame \<Longrightarrow> wire_decode from_slice (take k frame) limit = Inl CodecTruncatedFrame"
    and "extra \<noteq> [] \<Longrightarrow> wire_decode from_slice (frame @ extra) limit = Inl CodecTruncatedFrame"
proof -
  from assms(1) obtain body where body: "to_vec x = Some body" "frame = u32_to_be_bytes (word_of_nat (length body)) @ body"
    "body \<noteq> []" "length body \<le> limit" "length body \<le> MAX_WIRE_FRAME_BYTES"
    "unat (word_of_nat (length body) :: u32) = length body" by (rule wire_encode_Inr)
  from body assms(2) show "wire_decode from_slice frame limit = Inr x"
    by (simp add: wire_decode_def from_be_bytes_u32 Let_def)
  from body show "wire_decode from_slice (frame @ extra) limit = Inl CodecTruncatedFrame" if "extra \<noteq> []"
    using that by (simp add: wire_decode_def from_be_bytes_u32 Let_def)
  from body show "wire_decode from_slice (take k frame) limit = Inl CodecTruncatedFrame" if "k < length frame"
    using that by (cases "k < 4") (auto simp: wire_decode_def from_be_bytes_u32 Let_def)
qed


section \<open>Versions\<close>

text \<open>
  A negotiated version admits an operation exactly when it is supported and no older than the row of
  the operation in the published matrix; the matrix has such a row for every operation but the two
  fan-out calls, which are gated by their own minimum without being published.
\<close>

theorem matrix_decides_operations:
  "validate_operation v c = Inr () \<longleftrightarrow> v \<in> set SUPPORTED_CONTROL_VERSIONS
     \<and> (case map_of operation_matrix (operation_name c) of
          Some least \<Rightarrow> least \<le> v
        | None \<Rightarrow> is_fanout c \<and> operation_minimum c \<le> v)"
proof -
  have "list_all ((\<le>) W1_0) SUPPORTED_CONTROL_VERSIONS" by code_simp
  then have "W1_0 \<le> v" if "v \<in> set SUPPORTED_CONTROL_VERSIONS" using that by (simp add: list_all_iff)
  then show ?thesis
    by (auto simp: matrix_row validate_operation_def validate_version_def operation_minimum_def result_simps not_less
        split: option.splits if_splits)
qed

end
