(* ===== verification/Recording_Dispatch.thy ===== *)
theory Recording_Dispatch
  imports Launch_Statistics Recording_Campaign Benchmark_Route
begin

text \<open>
  Model of \<open>src/recording_dispatch.rs\<close>: the seam between the actions of the user interface and
  the authenticated session. The trait \<open>RecordingBackend\<close> becomes two arguments over a state
  \<open>'b\<close> that holds the session and its projection: \<open>session\<close> takes a request, one constructor per
  method of the trait whose result the dispatch ignores, and \<open>fetch\<close> is the method that returns
  the cassette catalog. The snapshot of the projection is the argument \<open>snap\<close>; of its fields
  the record holds those that the dispatch reads. The gate on the campaign phase is the model
  of \<open>Recording_Campaign\<close> and the cassette catalog is authenticated as in \<open>Benchmark_Route\<close>.
\<close>

section \<open>Data\<close>

datatype (plugins only: code size) ui_action =
  UiQuit | UiGoBack | UiOpenLanding | UiOpenConfiguration | UiOpenMeasurementSelection | UiOpenRunControl
| UiOpenRecentRuns | UiOpenReports | UiOpenHelp | UiReconnect | UiFocusSearch | UiToggleAllMeasures
| UiToggleMeasure | UiToggleGroup | UiFocusBenchmarkSearch | UiSelectBenchmarkPool | UiToggleBenchmark
| UiStartRun | UiCancelRun | UiAdmitFanout | UiCancelFanout | UiRefreshRuns | UiCompareRuns
| UiRefreshProviderCatalog | UiEstimateRecording | UiPlanRecording | UiConfirmRecordingCapture
| UiProgressRecording | UiCancelRecording | UiReconcileRecording | UiActivateOfflineDefault | UiSealRecording
| UiReopenRecording | UiRemoveRecordingCassette | UiRetryRun | UiCompareLiveOffline | UiReplaySelected
| UiSelectOfflineCassette | UiWizardDevelopmentEnroll | UiWizardDevelopmentTest | UiWizardDevelopmentRotate
| UiWizardDevelopmentReset | UiWizardDevelopmentSelectFixture | UiWizardDevelopmentSelectNone
| UiWizardDevelopmentRestart | UiOpenPreflight | UiApplyPreflight | UiOpenDevelopmentHandoff
| UiMaterializeDevelopment | UiCancelDevelopment | UiRetryDevelopment

datatype (plugins only: code size) backend_request =
  RepeatRun string string
| CompareLiveOffline "string list"
| RefreshProviderCatalog
| EstimateCampaign string string "string list" "string list"
| PlanCampaign string string "string list" "string list" string
| ExecuteCampaign string string
| ProgressCampaign string
| CancelCampaign string string
| ReconcileCampaign string string
| SetOfflineDefault string string
| DispatchReplay replay_dispatch_params
| SealCampaign string string
| ReopenCampaign string string
| RemoveCampaign string string string
| RetryCampaign string string

record dispatch_snapshot = live_snapshot +
  sn_recording_campaign :: "recording_campaign_plan option"
  sn_recording_campaign_lifecycle :: "recording_campaign_lifecycle option"

record recording_dispatch_state =
  ds_adapter_id :: "string option"
  ds_provider_id :: string
  ds_model_id :: string
  ds_agent_ids :: "string list"
  ds_workload_scope :: workload_scope
  ds_capture_armed :: bool
  ds_authenticated_catalog :: "cassette_catalog option"
  ds_selected_cassette_sha256 :: "string option"
  ds_progress_requests :: u16
  ds_progress_campaign_id :: "string option"
  ds_offline_default_requested :: "(string \<times> u64) option"
  ds_selected_run_id :: "string option"
  ds_comparison_run_ids :: "string list"
  ds_remove_confirmation_required :: bool

datatype (plugins only: code size) dispatch_outcome =
  ProviderCatalogRefreshed | EstimateRequested | PlanRequested | CaptureConfirmationNeeded | CaptureRequested
| ProgressRequested | DispatchCancelRequested | ReconcileRequested | OfflineDefaultRequested | SealRequested
| ReopenRequested | RemoveRequested | RemovalConfirmationNeeded | RetryRequested | ComparisonRequested
| ReplayDispatched | CassetteSelected

datatype 'e dispatch_error =
  DispatchModel recording_model_error | DispatchTransport 'e | MissingCampaign | InvalidWorkloadScope
| WorkloadCatalogUnavailable | ProgressLimitReached | InvalidCassetteCatalog

definition MAX_PROGRESS_REQUESTS :: u16 where "MAX_PROGRESS_REQUESTS = 256"

section \<open>The dispatch state\<close>

definition dispatch_new :: "string \<Rightarrow> string \<Rightarrow> string list \<Rightarrow> workload_scope \<Rightarrow>
    (recording_model_error, recording_dispatch_state) result" where
  "dispatch_new provider model agents scope = and_then (canonical scope) (\<lambda>scope.
     Inr \<lparr>ds_adapter_id = None, ds_provider_id = provider, ds_model_id = model, ds_agent_ids = agents,
       ds_workload_scope = scope, ds_capture_armed = False, ds_authenticated_catalog = None,
       ds_selected_cassette_sha256 = None, ds_progress_requests = 0, ds_progress_campaign_id = None,
       ds_offline_default_requested = None, ds_selected_run_id = None, ds_comparison_run_ids = [],
       ds_remove_confirmation_required = False\<rparr>)"

definition dispatch_with_agent_scope :: "string \<Rightarrow> string \<Rightarrow> agent_scope \<Rightarrow> agent_catalog \<Rightarrow> workload_scope \<Rightarrow>
    (recording_model_error, recording_dispatch_state) result" where
  "dispatch_with_agent_scope provider model scope agents workloads =
     and_then (map_err (\<lambda>_. InvalidScope) (scope_resolve scope agents)) (\<lambda>ids.
       dispatch_new provider model ids workloads)"

definition progress_available :: "recording_dispatch_state \<Rightarrow> bool" where
  "progress_available s \<longleftrightarrow> ds_progress_requests s < MAX_PROGRESS_REQUESTS"

definition authenticated_cassette_count :: "recording_dispatch_state \<Rightarrow> nat" where
  "authenticated_cassette_count s = (case ds_authenticated_catalog s of None \<Rightarrow> 0 | Some c \<Rightarrow> length (cc_entries c))"

definition select_cassette :: "string \<Rightarrow> recording_dispatch_state \<Rightarrow> recording_dispatch_state" where
  "select_cassette sha s = s\<lparr>ds_selected_cassette_sha256 := Some sha\<rparr>"

definition dispatch_bind_adapter :: "string \<Rightarrow> (recording_dispatch_state, string, unit) call" where
  "dispatch_bind_adapter a s =
     (case development_catalog of
        Inl _ \<Rightarrow> (Inl ''unknown coding-agent adapter'', s)
      | Inr c \<Rightarrow> if om_get (ad_records c) a = None then (Inl ''unknown coding-agent adapter'', s)
                 else (Inr (), s\<lparr>ds_adapter_id := Some a\<rparr>))"

section \<open>Readings of the snapshot\<close>

definition push_new :: "string list \<Rightarrow> string \<Rightarrow> string list" where
  "push_new ids i = (if i \<in> set ids then ids else ids @ [i])"

text \<open>\<open>None\<close> is the error \<open>WorkloadCatalogUnavailable\<close> here and \<open>MissingCampaign\<close> in the two readings below.\<close>

definition workload_ids :: "workload_scope \<Rightarrow> live_benchmark_catalog option \<Rightarrow> string list option" where
  "workload_ids scope catalog =
     (case scope of Selected ids \<Rightarrow> Some ids
      | AllWorkloads \<Rightarrow> Option.bind catalog (\<lambda>c.
          let ids = foldl push_new [] (concat (map (\<lambda>p. concat (map (\<lambda>g. map le_id (lg_benchmarks g)) (lp_groups p))) (lc_pools c)))
          in if ids = [] \<or> MAX_WORKLOADS < length ids then None else Some (sort ids)))"

definition snapshot_observation :: "dispatch_snapshot \<Rightarrow> (recording_model_error, campaign_observation) result" where
  "snapshot_observation n =
     (case sn_recording_campaign_lifecycle n of
        Some l \<Rightarrow> observe_lifecycle l
      | None \<Rightarrow>
          (case sn_recording_campaign n of
             Some p \<Rightarrow> observe_plan p
           | None \<Rightarrow> Inr \<lparr>co_generation = (case sn_configuration n of None \<Rightarrow> 1 | Some c \<Rightarrow> cf_generation c),
               co_campaign_id = None, co_phase = NoCampaign,
               co_coverage = \<lparr>cv_requested = 0, cv_complete = 0\<rparr>, co_offline_ready = False\<rparr>))"

definition model_for_snapshot :: "recording_dispatch_state \<Rightarrow> dispatch_snapshot \<Rightarrow>
    (recording_model_error, recording_campaign_model) result" where
  "model_for_snapshot s n = and_then (snapshot_observation n) (model_new (ds_workload_scope s))"

definition snapshot_campaign_id :: "dispatch_snapshot \<Rightarrow> string option" where
  "snapshot_campaign_id n = (case sn_recording_campaign_lifecycle n of Some l \<Rightarrow> Some (rcl_campaign_id l)
     | None \<Rightarrow> map_option rcp_campaign_id (sn_recording_campaign n))"

definition snapshot_generation :: "dispatch_snapshot \<Rightarrow> u64 option" where
  "snapshot_generation n = (case sn_recording_campaign_lifecycle n of Some l \<Rightarrow> Some (rcl_generation l)
     | None \<Rightarrow> map_option rcp_generation (sn_recording_campaign n))"

section \<open>Dispatch\<close>

type_synonym ('b, 'e) recording_session = "backend_request \<Rightarrow> ('b, 'e, unit) call"
type_synonym ('b, 'e) cassette_fetch = "string \<Rightarrow> u64 \<Rightarrow> ('b, 'e, cassette_catalog) call"
type_synonym ('b, 'e) dispatch_call =
  "recording_dispatch_state \<times> 'b \<Rightarrow> ('e dispatch_error, dispatch_outcome) result \<times> (recording_dispatch_state \<times> 'b)"

definition request_gate :: "recording_action \<Rightarrow> recording_campaign_model \<Rightarrow> (recording_model_error, unit) result" where
  "request_gate a m = and_then (fst (model_request a m)) (\<lambda>_. Inr ())"

text \<open>Send the request when it could be formed; record the change of the state when it succeeds.\<close>

definition send :: "('b, 'e) recording_session \<Rightarrow> ('e dispatch_error, backend_request) result \<Rightarrow>
    (recording_dispatch_state \<Rightarrow> recording_dispatch_state) \<Rightarrow> dispatch_outcome \<Rightarrow> ('b, 'e) dispatch_call" where
  "send session req update outcome = (\<lambda>(s, b).
     case req of Inl e \<Rightarrow> (Inl e, s, b)
     | Inr r \<Rightarrow> (case session r b of
         (Inl e, b) \<Rightarrow> (Inl (DispatchTransport e), s, b)
       | (Inr _, b) \<Rightarrow> (Inr outcome, update s, b)))"

text \<open>A gated request about the current campaign, the shape of most arms.\<close>

definition campaign_request :: "recording_action \<Rightarrow> recording_campaign_model \<Rightarrow> dispatch_snapshot \<Rightarrow>
    (string \<Rightarrow> backend_request) \<Rightarrow> ('e dispatch_error, backend_request) result" where
  "campaign_request a m n mk = and_then (map_err DispatchModel (request_gate a m)) (\<lambda>_.
     and_then (ok_or (snapshot_campaign_id n) MissingCampaign) (\<lambda>c. Inr (mk c)))"

definition confirm_capture :: "('b, 'e) recording_session \<Rightarrow> recording_campaign_model \<Rightarrow> dispatch_snapshot \<Rightarrow> string \<Rightarrow>
    ('b, 'e) dispatch_call" where
  "confirm_capture session m n key = (\<lambda>(s, b).
     case arm_capture_confirmation m of
       (Inl e, _) \<Rightarrow> (Inl (DispatchModel e), s, b)
     | (Inr _, m) \<Rightarrow>
         if \<not> ds_capture_armed s then (Inr CaptureConfirmationNeeded, s\<lparr>ds_capture_armed := True\<rparr>, b)
         else send session (campaign_request ConfirmCapture m n (\<lambda>c. ExecuteCampaign c key))
                (\<lambda>s. s\<lparr>ds_capture_armed := False\<rparr>) CaptureRequested (s, b))"

definition progress_recording :: "('b, 'e) recording_session \<Rightarrow> recording_campaign_model \<Rightarrow> dispatch_snapshot \<Rightarrow>
    ('b, 'e) dispatch_call" where
  "progress_recording session m n = (\<lambda>(s, b).
     case and_then (map_err DispatchModel (request_gate Progress m)) (\<lambda>_. ok_or (snapshot_campaign_id n) MissingCampaign) of
       Inl e \<Rightarrow> (Inl e, s, b)
     | Inr c \<Rightarrow>
         let requests = (if ds_progress_campaign_id s = Some c then ds_progress_requests s else 0) in
         if MAX_PROGRESS_REQUESTS \<le> requests then (Inl ProgressLimitReached, s, b)
         else send session (Inr (ProgressCampaign c))
           (\<lambda>s. if ds_progress_campaign_id s \<noteq> Some c
                then s\<lparr>ds_progress_campaign_id := Some c, ds_progress_requests := 1\<rparr>
                else s\<lparr>ds_progress_requests := saturating_succ requests\<rparr>) ProgressRequested (s, b))"

definition fetch_catalog :: "('b, 'e) cassette_fetch \<Rightarrow> string \<Rightarrow> u64 \<Rightarrow> ('b, 'e) dispatch_call" where
  "fetch_catalog fetch c g = (\<lambda>(s, b).
     case fetch c g b of
       (Inl e, b) \<Rightarrow> (Inl (DispatchTransport e), s, b)
     | (Inr wire, b) \<Rightarrow>
         (case authenticate_cassettes wire of
            Inl _ \<Rightarrow> (Inl InvalidCassetteCatalog, s, b)
          | Inr catalog \<Rightarrow> (Inr OfflineDefaultRequested, s\<lparr>ds_authenticated_catalog := Some catalog\<rparr>, b)))"

definition activate_offline :: "('b, 'e) recording_session \<Rightarrow> ('b, 'e) cassette_fetch \<Rightarrow> recording_campaign_model \<Rightarrow>
    dispatch_snapshot \<Rightarrow> string \<Rightarrow> ('b, 'e) dispatch_call" where
  "activate_offline session fetch m n key = (\<lambda>(s, b).
     case and_then (ok_or (snapshot_campaign_id n) MissingCampaign) (\<lambda>c. and_then (ok_or (snapshot_generation n) MissingCampaign) (\<lambda>g. Inr (c, g))) of
       Inl e \<Rightarrow> (Inl e, s, b)
     | Inr (c, g) \<Rightarrow>
         if ds_offline_default_requested s = Some (c, g)
         then if ds_authenticated_catalog s \<noteq> None then (Inr OfflineDefaultRequested, s, b)
              else fetch_catalog fetch c g (s, b)
         else (case send session (and_then (map_err DispatchModel (request_gate ActivateOfflineDefault m)) (\<lambda>_. Inr (SetOfflineDefault c key)))
                   (\<lambda>s. s\<lparr>ds_offline_default_requested := Some (c, g)\<rparr>) OfflineDefaultRequested (s, b) of
                 (Inl e, s, b) \<Rightarrow> (Inl e, s, b)
               | (Inr _, s, b) \<Rightarrow> fetch_catalog fetch c g (s, b)))"

definition remove_cassette :: "('b, 'e) recording_session \<Rightarrow> recording_campaign_model \<Rightarrow> dispatch_snapshot \<Rightarrow> string \<Rightarrow>
    ('b, 'e) dispatch_call" where
  "remove_cassette session m n key = (\<lambda>(s, b).
     case and_then (map_err DispatchModel (request_gate Remove m)) (\<lambda>_. ok_or (ds_selected_cassette_sha256 s) InvalidWorkloadScope) of
       Inl e \<Rightarrow> (Inl e, s, b)
     | Inr selected \<Rightarrow>
         if (case ds_authenticated_catalog s of None \<Rightarrow> True
             | Some c \<Rightarrow> \<not> list_ex (\<lambda>e. ce_cassette_sha256 e = selected) (cc_entries c))
         then (Inl InvalidWorkloadScope, s, b)
         else if \<not> ds_remove_confirmation_required s
         then (Inr RemovalConfirmationNeeded, s\<lparr>ds_remove_confirmation_required := True\<rparr>, b)
         else send session (and_then (ok_or (snapshot_campaign_id n) MissingCampaign) (\<lambda>c. Inr (RemoveCampaign c key selected))) id
                RemoveRequested (s\<lparr>ds_remove_confirmation_required := False\<rparr>, b))"

definition replay_request :: "recording_dispatch_state \<Rightarrow> dispatch_snapshot \<Rightarrow> string \<Rightarrow> cassette_catalog \<Rightarrow> cassette_entry \<Rightarrow>
    ('e dispatch_error, backend_request) result" where
  "replay_request s n key c e = and_then (ok_or (snapshot_campaign_id n) MissingCampaign) (\<lambda>campaign.
     if cc_campaign_id c \<noteq> campaign then Inl InvalidWorkloadScope
     else Inr (DispatchReplay \<lparr>dp_idempotency_key = key, dp_runner_instance_id = cc_runner_instance_id c,
       dp_expected_generation = cc_generation c, dp_campaign_id = cc_campaign_id c,
       dp_provider_profile_sha256 = ce_provider_profile_sha256 e, dp_agent_id = ce_agent_id e,
       dp_workload_id = ce_workload_id e, dp_cassette_sha256 = ce_cassette_sha256 e\<rparr>))"

definition replay_selected :: "('b, 'e) recording_session \<Rightarrow> dispatch_snapshot \<Rightarrow> string \<Rightarrow> bool \<Rightarrow> ('b, 'e) dispatch_call" where
  "replay_selected session n key only_select = (\<lambda>(s, b).
     case and_then (ok_or (ds_selected_cassette_sha256 s) InvalidWorkloadScope) (\<lambda>selected.
          and_then (ok_or (ds_authenticated_catalog s) InvalidWorkloadScope) (\<lambda>c.
          and_then (ok_or (find (\<lambda>e. ce_cassette_sha256 e = selected) (cc_entries c)) InvalidWorkloadScope) (\<lambda>e.
            Inr (c, e)))) of
       Inl err \<Rightarrow> (Inl err, s, b)
     | Inr (c, e) \<Rightarrow>
         if only_select then (Inr CassetteSelected, s, b)
         else send session (replay_request s n key c e) id ReplayDispatched (s, b))"

definition dispatch_with_backend :: "('b \<Rightarrow> dispatch_snapshot) \<Rightarrow> ('b, 'e) recording_session \<Rightarrow> ('b, 'e) cassette_fetch \<Rightarrow>
    ui_action \<Rightarrow> string \<Rightarrow> ('b, 'e) dispatch_call" where
  "dispatch_with_backend snap session fetch action key = (\<lambda>(s, b).
     if action = UiRefreshProviderCatalog
     then send session (Inr RefreshProviderCatalog) id ProviderCatalogRefreshed (s, b)
     else let n = snap b in
       case model_for_snapshot s n of
         Inl e \<Rightarrow> (Inl (DispatchModel e), s, b)
       | Inr m \<Rightarrow>
          (case action of
             UiEstimateRecording \<Rightarrow>
               send session (and_then (ok_or (workload_ids (ds_workload_scope s) (sn_benchmark_catalog n)) WorkloadCatalogUnavailable) (\<lambda>workloads.
                 and_then (map_err DispatchModel (request_gate Estimate m)) (\<lambda>_.
                   Inr (EstimateCampaign (ds_provider_id s) (ds_model_id s) (ds_agent_ids s) workloads))))
                 id EstimateRequested (s, b)
           | UiPlanRecording \<Rightarrow>
               send session (and_then (ok_or (workload_ids (ds_workload_scope s) (sn_benchmark_catalog n)) WorkloadCatalogUnavailable) (\<lambda>workloads.
                 and_then (map_err DispatchModel (request_gate Plan m)) (\<lambda>_.
                   Inr (PlanCampaign (ds_provider_id s) (ds_model_id s) (ds_agent_ids s) workloads key))))
                 id PlanRequested (s, b)
           | UiConfirmRecordingCapture \<Rightarrow> confirm_capture session m n key (s, b)
           | UiProgressRecording \<Rightarrow> progress_recording session m n (s, b)
           | UiCancelRecording \<Rightarrow>
               send session (campaign_request Cancel m n (\<lambda>c. CancelCampaign c key)) id DispatchCancelRequested (s, b)
           | UiReconcileRecording \<Rightarrow>
               send session (campaign_request Reconcile m n (\<lambda>c. ReconcileCampaign c key)) id ReconcileRequested (s, b)
           | UiActivateOfflineDefault \<Rightarrow> activate_offline session fetch m n key (s, b)
           | UiSealRecording \<Rightarrow>
               send session (campaign_request Seal m n (\<lambda>c. SealCampaign c key)) id SealRequested (s, b)
           | UiReopenRecording \<Rightarrow>
               send session (campaign_request Reopen m n (\<lambda>c. ReopenCampaign c key)) id ReopenRequested (s, b)
           | UiRemoveRecordingCassette \<Rightarrow> remove_cassette session m n key (s, b)
           | UiRetryRun \<Rightarrow>
               send session (and_then (ok_or (ds_selected_run_id s) MissingCampaign) (\<lambda>i. Inr (RepeatRun i key)))
                 id RetryRequested (s, b)
           | UiCompareLiveOffline \<Rightarrow>
               send session (if length (ds_comparison_run_ids s) \<noteq> 2 then Inl InvalidWorkloadScope
                 else Inr (CompareLiveOffline (ds_comparison_run_ids s))) id ComparisonRequested (s, b)
           | UiReplaySelected \<Rightarrow> replay_selected session n key False (s, b)
           | UiSelectOfflineCassette \<Rightarrow> replay_selected session n key True (s, b)
           | _ \<Rightarrow> (Inl InvalidWorkloadScope, s, b)))"

section \<open>What is sent\<close>

text \<open>The session with a log of the requests it was given.\<close>

definition logged :: "('b, 'e) recording_session \<Rightarrow> ('b \<times> backend_request list, 'e) recording_session" where
  "logged session r = (\<lambda>(b, log). case session r b of (x, b') \<Rightarrow> (x, b', log @ [r]))"

definition logged_fetch :: "('b, 'e) cassette_fetch \<Rightarrow> ('b \<times> backend_request list, 'e) cassette_fetch" where
  "logged_fetch fetch c g = (\<lambda>(b, log). case fetch c g b of (x, b') \<Rightarrow> (x, b', log))"

definition dispatch_logged :: "('b \<Rightarrow> dispatch_snapshot) \<Rightarrow> ('b, 'e) recording_session \<Rightarrow> ('b, 'e) cassette_fetch \<Rightarrow>
    ui_action \<Rightarrow> string \<Rightarrow> recording_dispatch_state \<Rightarrow> 'b \<Rightarrow>
    ('e dispatch_error, dispatch_outcome) result \<times> recording_dispatch_state \<times> 'b \<times> backend_request list" where
  "dispatch_logged snap session fetch action key s b =
     dispatch_with_backend (snap \<circ> fst) (logged session) (logged_fetch fetch) action key (s, b, [])"

definition sent :: "('e dispatch_error, dispatch_outcome) result \<times> recording_dispatch_state \<times> 'b \<times> backend_request list \<Rightarrow>
    backend_request list" where
  "sent x = snd (snd (snd x))"

text \<open>The phases of the campaign in which a request belongs, the campaign it is about, and its key.\<close>

definition request_fits :: "campaign_observation \<Rightarrow> backend_request \<Rightarrow> bool" where
  "request_fits o1 r = (let phase = co_phase o1; full = coverage_is_complete (co_coverage o1) in case r of
       EstimateCampaign _ _ _ _ \<Rightarrow> phase \<in> {NoCampaign, Cancelled, Failed}
     | PlanCampaign _ _ _ _ _ \<Rightarrow> phase \<in> {NoCampaign, Cancelled, Failed}
     | ExecuteCampaign _ _ \<Rightarrow> phase = Planned
     | ProgressCampaign _ \<Rightarrow> phase \<in> {Recording, NeedsReconciliation}
     | CancelCampaign _ _ \<Rightarrow> phase \<in> {Planned, Recording, NeedsReconciliation}
     | ReconcileCampaign _ _ \<Rightarrow> phase = NeedsReconciliation
     | SetOfflineDefault _ _ \<Rightarrow> phase = Complete \<and> full
     | SealCampaign _ _ \<Rightarrow> phase = Complete \<and> full
     | ReopenCampaign _ _ \<Rightarrow> phase \<in> {Complete, Failed, Cancelled, NeedsReconciliation}
     | RemoveCampaign _ _ _ \<Rightarrow> phase = Complete
     | RetryCampaign _ _ \<Rightarrow> False
     | _ \<Rightarrow> True)"

definition request_campaign :: "backend_request \<Rightarrow> string option" where
  "request_campaign r = (case r of ExecuteCampaign c _ \<Rightarrow> Some c | ProgressCampaign c \<Rightarrow> Some c
     | CancelCampaign c _ \<Rightarrow> Some c | ReconcileCampaign c _ \<Rightarrow> Some c | SetOfflineDefault c _ \<Rightarrow> Some c
     | DispatchReplay p \<Rightarrow> Some (dp_campaign_id p) | SealCampaign c _ \<Rightarrow> Some c | ReopenCampaign c _ \<Rightarrow> Some c
     | RemoveCampaign c _ _ \<Rightarrow> Some c | RetryCampaign c _ \<Rightarrow> Some c | _ \<Rightarrow> None)"

definition request_key :: "backend_request \<Rightarrow> string option" where
  "request_key r = (case r of RepeatRun _ k \<Rightarrow> Some k | PlanCampaign _ _ _ _ k \<Rightarrow> Some k | ExecuteCampaign _ k \<Rightarrow> Some k
     | CancelCampaign _ k \<Rightarrow> Some k | ReconcileCampaign _ k \<Rightarrow> Some k | SetOfflineDefault _ k \<Rightarrow> Some k
     | DispatchReplay p \<Rightarrow> Some (dp_idempotency_key p) | SealCampaign _ k \<Rightarrow> Some k | ReopenCampaign _ k \<Rightarrow> Some k
     | RemoveCampaign _ k _ \<Rightarrow> Some k | RetryCampaign _ k \<Rightarrow> Some k | _ \<Rightarrow> None)"

lemma sent_send:
  "sent (send (logged session) req f out (s, b, [])) = (case req of Inl _ \<Rightarrow> [] | Inr r \<Rightarrow> [r])"
  by (auto simp: send_def logged_def sent_def split: sum.splits prod.splits)

lemma sent_fetch: "sent (fetch_catalog (logged_fetch fetch) c g (s, b, log)) = log"
  by (auto simp: fetch_catalog_def logged_fetch_def sent_def split: sum.splits prod.splits)

lemma request_gate_Inr:
  "request_gate a m = Inr u \<longleftrightarrow> (\<exists>i. fst (model_request a m) = Inr i)"
  by (auto simp: request_gate_def result_simps)

lemma snapshot_campaign_id_observation:
  assumes "model_for_snapshot s n = Inr m" "snapshot_campaign_id n = Some c"
  shows "co_campaign_id (rm_observation m) = Some c"
  using assms
  by (auto simp: model_for_snapshot_def snapshot_observation_def snapshot_campaign_id_def model_new_def
      observe_lifecycle_def observe_plan_def result_simps Let_def split: option.splits)

lemma sent_confirm:
  "sent (confirm_capture (logged session) m n key (s, b, [])) =
     (if co_phase (rm_observation m) = Planned \<and> ds_capture_armed s
      then (case snapshot_campaign_id n of None \<Rightarrow> [] | Some c \<Rightarrow> [ExecuteCampaign c key]) else [])"
  by (auto simp: confirm_capture_def arm_capture_confirmation_def sent_send campaign_request_def request_gate_def
      model_request_def sent_def [of "(_, _, _, _)"] Let_def ok_or_def split: sum.splits option.splits)

lemma sent_progress:
  "sent (progress_recording (logged session) m n (s, b, [])) =
     (case snapshot_campaign_id n of None \<Rightarrow> []
      | Some c \<Rightarrow> if \<not> is_ok (request_gate Progress m) \<or> MAX_PROGRESS_REQUESTS \<le> (if ds_progress_campaign_id s = Some c then ds_progress_requests s else 0)
                 then [] else [ProgressCampaign c])"
  by (cases "request_gate Progress m"; cases "snapshot_campaign_id n")
     (simp_all add: progress_recording_def sent_send sent_def [of "(_, _, _, _)"] Let_def)

lemma sent_activate:
  "sent (activate_offline (logged session) (logged_fetch fetch) m n key (s, b, [])) =
     (case (snapshot_campaign_id n, snapshot_generation n) of
        (Some c, Some g) \<Rightarrow>
          if ds_offline_default_requested s = Some (c, g) \<or> \<not> is_ok (request_gate ActivateOfflineDefault m) then []
          else [SetOfflineDefault c key]
      | _ \<Rightarrow> [])"
proof (cases "snapshot_campaign_id n"; cases "snapshot_generation n")
  fix c g assume cg: "snapshot_campaign_id n = Some c" "snapshot_generation n = Some g"
  obtain r b1 where e: "logged session (SetOfflineDefault c key) (b, []) = (r, b1, [SetOfflineDefault c key])"
    by (cases "session (SetOfflineDefault c key) b") (simp add: logged_def)
  show ?thesis
    using cg by (cases "request_gate ActivateOfflineDefault m"; cases r)
      (simp_all add: activate_offline_def send_def e sent_fetch sent_def [of "(_, _, _, _)"])
qed (simp_all add: activate_offline_def sent_def)

lemma sent_remove:
  "set (sent (remove_cassette (logged session) m n key (s, b, []))) \<subseteq>
     {r. is_ok (request_gate Remove m) \<and> ds_remove_confirmation_required s
        \<and> (\<exists>c x sha. r = RemoveCampaign c key sha \<and> snapshot_campaign_id n = Some c
             \<and> ds_selected_cassette_sha256 s = Some sha \<and> ds_authenticated_catalog s = Some x
             \<and> (\<exists>e \<in> set (cc_entries x). ce_cassette_sha256 e = sha))}
   \<and> length (sent (remove_cassette (logged session) m n key (s, b, []))) \<le> 1"
  by (cases "request_gate Remove m"; cases "snapshot_campaign_id n"; cases "ds_selected_cassette_sha256 s";
      cases "ds_authenticated_catalog s")
     (auto simp: remove_cassette_def sent_send sent_def [of "(_, _, _, _)"] list_ex_iff)

lemma sent_replay:
  "set (sent (replay_selected (logged session) n key only (s, b, []))) \<subseteq>
     {r. \<not> only \<and> (\<exists>c e sha. ds_selected_cassette_sha256 s = Some sha \<and> ds_authenticated_catalog s = Some c
         \<and> find (\<lambda>e. ce_cassette_sha256 e = sha) (cc_entries c) = Some e \<and> snapshot_campaign_id n = Some (cc_campaign_id c)
         \<and> r = DispatchReplay \<lparr>dp_idempotency_key = key, dp_runner_instance_id = cc_runner_instance_id c,
             dp_expected_generation = cc_generation c, dp_campaign_id = cc_campaign_id c,
             dp_provider_profile_sha256 = ce_provider_profile_sha256 e, dp_agent_id = ce_agent_id e,
             dp_workload_id = ce_workload_id e, dp_cassette_sha256 = ce_cassette_sha256 e\<rparr>)}
   \<and> length (sent (replay_selected (logged session) n key only (s, b, []))) \<le> 1"
proof (cases "ds_selected_cassette_sha256 s"; cases "ds_authenticated_catalog s")
  fix sha c assume sel: "ds_selected_cassette_sha256 s = Some sha" "ds_authenticated_catalog s = Some c"
  show ?thesis
    using sel
    by (cases "find (\<lambda>e. ce_cassette_sha256 e = sha) (cc_entries c)"; cases "snapshot_campaign_id n")
       (auto simp: replay_selected_def replay_request_def sent_send sent_def [of "(_, _, _, _)"])
qed (simp_all add: replay_selected_def sent_def)

lemma gate_simps:
  "is_ok (request_gate Estimate m) \<longleftrightarrow> co_phase (rm_observation m) \<in> {NoCampaign, Cancelled, Failed}"
  "is_ok (request_gate Plan m) \<longleftrightarrow> co_phase (rm_observation m) \<in> {NoCampaign, Cancelled, Failed}"
  "is_ok (request_gate Progress m) \<longleftrightarrow> co_phase (rm_observation m) \<in> {Recording, NeedsReconciliation}"
  "is_ok (request_gate Cancel m) \<longleftrightarrow> co_phase (rm_observation m) \<in> {Planned, Recording, NeedsReconciliation}"
  "is_ok (request_gate Reconcile m) \<longleftrightarrow> co_phase (rm_observation m) = NeedsReconciliation"
  "is_ok (request_gate ActivateOfflineDefault m)
     \<longleftrightarrow> co_phase (rm_observation m) = Complete \<and> coverage_is_complete (co_coverage (rm_observation m))"
  "is_ok (request_gate Seal m)
     \<longleftrightarrow> co_phase (rm_observation m) = Complete \<and> coverage_is_complete (co_coverage (rm_observation m))"
  "is_ok (request_gate Reopen m)
     \<longleftrightarrow> co_phase (rm_observation m) \<in> {Complete, Failed, Cancelled, NeedsReconciliation}"
  "is_ok (request_gate Remove m) \<longleftrightarrow> co_phase (rm_observation m) = Complete"
  by (simp_all add: request_gate_def model_request_def Let_def)

lemma sent_campaign:
  "sent (send (logged session) (campaign_request a m n mk) f out (s, b, [])) =
     (case snapshot_campaign_id n of None \<Rightarrow> [] | Some c \<Rightarrow> if is_ok (request_gate a m) then [mk c] else [])"
  by (cases "request_gate a m"; cases "snapshot_campaign_id n") (simp_all add: sent_send campaign_request_def)

lemma sent_gated:
  "sent (send (logged session) (and_then (ok_or ws e) (\<lambda>w. and_then (map_err DispatchModel (request_gate a m)) (\<lambda>_. Inr (mk w)))) f out (s, b, [])) =
     (case ws of None \<Rightarrow> [] | Some w \<Rightarrow> if is_ok (request_gate a m) then [mk w] else [])"
  by (cases "request_gate a m"; cases ws) (simp_all add: sent_send)

lemma sent_simple:
  "sent (send (logged session) (and_then (ok_or x e) (\<lambda>i. Inr (mk i))) f out (s, b, []))
     = (case x of None \<Rightarrow> [] | Some i \<Rightarrow> [mk i])"
  "sent (send (logged session) (if P then Inl e' else Inr r) f out (s, b, [])) = (if P then [] else [r])"
  by (cases x; simp add: sent_send)+

text \<open>A request that a dispatch in state \<open>s\<close> on the observation \<open>o1\<close> may send.\<close>

definition justified :: "recording_dispatch_state \<Rightarrow> dispatch_snapshot \<Rightarrow> string \<Rightarrow> campaign_observation \<Rightarrow> backend_request \<Rightarrow> bool" where
  "justified s n key o1 r \<longleftrightarrow> request_fits o1 r
     \<and> (request_campaign r \<noteq> None \<longrightarrow> request_campaign r = co_campaign_id o1)
     \<and> (request_key r \<noteq> None \<longrightarrow> request_key r = Some key)
     \<and> (case r of ExecuteCampaign _ _ \<Rightarrow> ds_capture_armed s
        | SetOfflineDefault c _ \<Rightarrow> (\<exists>g. snapshot_generation n = Some g \<and> ds_offline_default_requested s \<noteq> Some (c, g))
        | RemoveCampaign _ _ sha \<Rightarrow> ds_remove_confirmation_required s \<and> ds_selected_cassette_sha256 s = Some sha
            \<and> (\<exists>x. ds_authenticated_catalog s = Some x \<and> (\<exists>e \<in> set (cc_entries x). ce_cassette_sha256 e = sha))
        | DispatchReplay p \<Rightarrow> ds_selected_cassette_sha256 s = Some (dp_cassette_sha256 p)
            \<and> (\<exists>x. ds_authenticated_catalog s = Some x \<and> dp_runner_instance_id p = cc_runner_instance_id x
                 \<and> dp_expected_generation p = cc_generation x \<and> dp_campaign_id p = cc_campaign_id x
                 \<and> (\<exists>e \<in> set (cc_entries x). ce_cassette_sha256 e = dp_cassette_sha256 p
                      \<and> ce_agent_id e = dp_agent_id p \<and> ce_workload_id e = dp_workload_id p
                      \<and> ce_provider_profile_sha256 e = dp_provider_profile_sha256 p))
        | EstimateCampaign p m a _ \<Rightarrow> p = ds_provider_id s \<and> m = ds_model_id s \<and> a = ds_agent_ids s
        | PlanCampaign p m a _ _ \<Rightarrow> p = ds_provider_id s \<and> m = ds_model_id s \<and> a = ds_agent_ids s
        | _ \<Rightarrow> True)"

definition all_justified :: "recording_dispatch_state \<Rightarrow> dispatch_snapshot \<Rightarrow> string \<Rightarrow> campaign_observation \<Rightarrow>
    backend_request list \<Rightarrow> bool" where
  "all_justified s n key o1 rs \<longleftrightarrow> length rs \<le> 1 \<and> (\<forall>r \<in> set rs. justified s n key o1 r)"

lemma all_justified_simps [simp]:
  "all_justified s n key o1 []" "all_justified s n key o1 [r] = justified s n key o1 r"
  by (simp_all add: all_justified_def)

lemma sent_nothing [simp]: "sent (e, s, b, []) = []"
  by (simp add: sent_def)

lemma dispatch_justified:
  assumes "model_for_snapshot s n = Inr m"
  defines "o1 \<equiv> rm_observation m"
  shows "all_justified s n key o1 (sent (confirm_capture (logged session) m n key (s, b, [])))"
    and "all_justified s n key o1 (sent (progress_recording (logged session) m n (s, b, [])))"
    and "all_justified s n key o1 (sent (activate_offline (logged session) (logged_fetch fetch) m n key (s, b, [])))"
    and "all_justified s n key o1 (sent (remove_cassette (logged session) m n key (s, b, [])))"
    and "all_justified s n key o1 (sent (replay_selected (logged session) n key only (s, b, [])))"
proof -
  note c = snapshot_campaign_id_observation [OF assms(1), folded o1_def]
  note just = justified_def request_fits_def request_campaign_def request_key_def
  note gates = gate_simps [of m, folded o1_def]
  show "all_justified s n key o1 (sent (confirm_capture (logged session) m n key (s, b, [])))"
    unfolding sent_confirm using c by (simp add: just o1_def split: option.splits)
  show "all_justified s n key o1 (sent (progress_recording (logged session) m n (s, b, [])))"
    unfolding sent_progress using c by (simp add: just gates split: option.splits)
  show "all_justified s n key o1 (sent (activate_offline (logged session) (logged_fetch fetch) m n key (s, b, [])))"
    unfolding sent_activate using c by (simp add: just gates split: option.splits)
  show "all_justified s n key o1 (sent (remove_cassette (logged session) m n key (s, b, [])))"
    using sent_remove [of session m n key s b] c
    unfolding all_justified_def by (fastforce simp: just gates)
  show "all_justified s n key o1 (sent (replay_selected (logged session) n key only (s, b, [])))"
    unfolding all_justified_def
  proof (intro conjI ballI)
    fix r assume "r \<in> set (sent (replay_selected (logged session) n key only (s, b, [])))"
    then obtain x e sha where x: "ds_selected_cassette_sha256 s = Some sha" "ds_authenticated_catalog s = Some x"
      "find (\<lambda>e. ce_cassette_sha256 e = sha) (cc_entries x) = Some e" "snapshot_campaign_id n = Some (cc_campaign_id x)"
      "r = DispatchReplay \<lparr>dp_idempotency_key = key, dp_runner_instance_id = cc_runner_instance_id x,
         dp_expected_generation = cc_generation x, dp_campaign_id = cc_campaign_id x,
         dp_provider_profile_sha256 = ce_provider_profile_sha256 e, dp_agent_id = ce_agent_id e,
         dp_workload_id = ce_workload_id e, dp_cassette_sha256 = ce_cassette_sha256 e\<rparr>"
      using sent_replay [of session n key only s b] by blast
    have "e \<in> set (cc_entries x)" "ce_cassette_sha256 e = sha" using find_Some_in [OF x(3)] by auto
    then show "justified s n key o1 r" using x c by (auto simp: just)
  qed (use sent_replay [of session n key only s b] in blast)
qed

lemma dispatch_arm:
  assumes "model_for_snapshot s (snap b) = Inr m" "action \<noteq> UiRefreshProviderCatalog"
  shows "all_justified s (snap b) key (rm_observation m) (sent (dispatch_logged snap session fetch action key s b))"
proof -
  note c = snapshot_campaign_id_observation [OF assms(1)]
  note just = justified_def request_fits_def request_campaign_def request_key_def
  note arms = dispatch_logged_def dispatch_with_backend_def assms(1) sent_campaign sent_gated sent_simple Let_def
  show ?thesis
    by (cases action)
       (use assms(2) c in \<open>simp_all add: arms dispatch_justified [OF assms(1)] just gate_simps
          split: option.splits\<close>)
qed

section \<open>Sequences of actions\<close>

text \<open>Between two dispatches the user may select a cassette, and the projection may receive anything.\<close>

datatype 'b dispatch_op = DispatchAction ui_action string | ChooseCassette string | Environment "'b \<Rightarrow> 'b"

fun dispatch_run :: "('b \<Rightarrow> dispatch_snapshot) \<Rightarrow> ('b, 'e) recording_session \<Rightarrow> ('b, 'e) cassette_fetch \<Rightarrow>
    'b dispatch_op list \<Rightarrow> recording_dispatch_state \<times> 'b \<Rightarrow> dispatch_outcome list \<times> (recording_dispatch_state \<times> 'b)" where
  "dispatch_run snap session fetch [] w = ([], w)"
| "dispatch_run snap session fetch (DispatchAction a key # ops) w =
     (case dispatch_with_backend snap session fetch a key w of
        (Inl _, w) \<Rightarrow> dispatch_run snap session fetch ops w
      | (Inr x, w) \<Rightarrow> (case dispatch_run snap session fetch ops w of (xs, w) \<Rightarrow> (x # xs, w)))"
| "dispatch_run snap session fetch (ChooseCassette sha # ops) w =
     dispatch_run snap session fetch ops (select_cassette sha (fst w), snd w)"
| "dispatch_run snap session fetch (Environment f # ops) w = dispatch_run snap session fetch ops (fst w, f (snd w))"

text \<open>What one dispatch does to the two confirmations and to the count of progress requests.\<close>

definition confirmations_step :: "('e dispatch_error, dispatch_outcome) result \<Rightarrow> recording_dispatch_state \<Rightarrow>
    recording_dispatch_state \<Rightarrow> bool" where
  "confirmations_step r s s' \<longleftrightarrow>
     (if r = Inr CaptureRequested then ds_capture_armed s \<and> \<not> ds_capture_armed s'
      else if r = Inr CaptureConfirmationNeeded then \<not> ds_capture_armed s \<and> ds_capture_armed s'
      else ds_capture_armed s' = ds_capture_armed s)
   \<and> (if r = Inr RemoveRequested then ds_remove_confirmation_required s \<and> \<not> ds_remove_confirmation_required s'
      else if r = Inr RemovalConfirmationNeeded then \<not> ds_remove_confirmation_required s
      else ds_remove_confirmation_required s' \<longrightarrow> ds_remove_confirmation_required s)"

definition progress_count :: "string \<Rightarrow> recording_dispatch_state \<Rightarrow> nat" where
  "progress_count c s = (if ds_progress_campaign_id s = Some c then unat (ds_progress_requests s) else 0)"

definition progress_step :: "('e dispatch_error, dispatch_outcome) result \<Rightarrow> string option \<Rightarrow> recording_dispatch_state \<Rightarrow>
    recording_dispatch_state \<Rightarrow> bool" where
  "progress_step r campaign s s' \<longleftrightarrow>
     (if r = Inr ProgressRequested
      then \<exists>c. campaign = Some c \<and> progress_count c s < 256 \<and> ds_progress_campaign_id s' = Some c
             \<and> progress_count c s' = Suc (progress_count c s)
      else ds_progress_campaign_id s' = ds_progress_campaign_id s \<and> ds_progress_requests s' = ds_progress_requests s)"

lemma send_cases:
  assumes "send session req f out (s, b) = (r, s', b')"
  obtains (refused) e where "r = Inl e" "s' = s" | (granted) "r = Inr out" "s' = f s"
  using assms by (auto simp: send_def split: sum.splits prod.splits)

lemma fetch_cases:
  assumes "fetch_catalog fetch c g (s, b) = (r, s', b')"
  obtains (refused) e where "r = Inl e" "s' = s"
  | (granted) x where "r = Inr OfflineDefaultRequested" "s' = s\<lparr>ds_authenticated_catalog := Some x\<rparr>"
  using assms by (auto simp: fetch_catalog_def split: sum.splits prod.splits)

lemma plain_send:
  assumes "send session req id out (s, b) = (r, s', b')"
    "out \<notin> {CaptureRequested, CaptureConfirmationNeeded, RemoveRequested, RemovalConfirmationNeeded, ProgressRequested}"
  shows "confirmations_step r s s' \<and> progress_step r c s s'"
  using assms by (auto elim!: send_cases simp: confirmations_step_def progress_step_def)

lemma confirm_step:
  assumes "confirm_capture session m n key (s, b) = (r, s', b')"
  shows "confirmations_step r s s' \<and> progress_step r c s s'"
  using assms
  by (auto simp: confirm_capture_def confirmations_step_def progress_step_def elim!: send_cases
      split: sum.splits prod.splits if_splits)

lemma remove_step:
  assumes "remove_cassette session m n key (s, b) = (r, s', b')"
  shows "confirmations_step r s s' \<and> progress_step r c s s'"
  using assms
  by (auto simp: remove_cassette_def confirmations_step_def progress_step_def elim!: send_cases
      split: sum.splits prod.splits if_splits)

lemma replay_step:
  assumes "replay_selected session n key only (s, b) = (r, s', b')"
  shows "confirmations_step r s s' \<and> progress_step r c s s'"
  using assms
  by (auto simp: replay_selected_def confirmations_step_def progress_step_def elim!: send_cases
      split: sum.splits prod.splits if_splits)

definition same_counters :: "recording_dispatch_state \<Rightarrow> recording_dispatch_state \<Rightarrow> bool" where
  "same_counters s s' \<longleftrightarrow> ds_capture_armed s' = ds_capture_armed s
     \<and> ds_remove_confirmation_required s' = ds_remove_confirmation_required s
     \<and> ds_progress_campaign_id s' = ds_progress_campaign_id s \<and> ds_progress_requests s' = ds_progress_requests s"

lemma fetch_counters:
  assumes "fetch_catalog fetch c g (s, b) = (r, s', b')"
  shows "same_counters s s' \<and> ((\<exists>e. r = Inl e) \<or> r = Inr OfflineDefaultRequested)"
  using assms by (cases rule: fetch_cases) (auto simp: same_counters_def)

lemma activate_changes:
  assumes "activate_offline session fetch m n key (s, b) = (r, s', b')"
  shows "same_counters s s' \<and> ((\<exists>e. r = Inl e) \<or> r = Inr OfflineDefaultRequested)"
proof (cases "snapshot_campaign_id n"; cases "snapshot_generation n")
  fix c g assume cg: "snapshot_campaign_id n = Some c" "snapshot_generation n = Some g"
  obtain r1 s1 b1 where x: "send session (and_then (map_err DispatchModel (request_gate ActivateOfflineDefault m))
      (\<lambda>_. Inr (SetOfflineDefault c key))) (\<lambda>s. s\<lparr>ds_offline_default_requested := Some (c, g)\<rparr>)
      OfflineDefaultRequested (s, b) = (r1, s1, b1)"
    by (rule prod_cases3)
  then have s1: "same_counters s s1" by (cases rule: send_cases) (auto simp: same_counters_def)
  have self: "same_counters s s" by (simp add: same_counters_def)
  show ?thesis
  proof (cases "ds_offline_default_requested s = Some (c, g)")
    case True
    then show ?thesis using assms cg fetch_counters [of fetch c g s b r s' b'] self
      by (cases "ds_authenticated_catalog s") (auto simp: activate_offline_def)
  next
    case False
    then show ?thesis using assms cg x s1 fetch_counters [of fetch c g s1 b1 r s' b']
      by (cases r1) (auto simp: activate_offline_def same_counters_def)
  qed
qed (use assms in \<open>auto simp: activate_offline_def same_counters_def\<close>)

lemma activate_step:
  assumes "activate_offline session fetch m n key (s, b) = (r, s', b')"
  shows "confirmations_step r s s' \<and> progress_step r c s s'"
  using activate_changes [OF assms] by (auto simp: confirmations_step_def progress_step_def same_counters_def)

lemma progress_recording_step:
  assumes "progress_recording session m n (s, b) = (r, s', b')"
  shows "confirmations_step r s s' \<and> progress_step r (snapshot_campaign_id n) s s'"
proof (cases "is_ok (request_gate Progress m) \<and> snapshot_campaign_id n \<noteq> None")
  case False
  then show ?thesis using assms
    by (cases "request_gate Progress m"; cases "snapshot_campaign_id n")
       (auto simp: progress_recording_def confirmations_step_def progress_step_def)
next
  case True
  then obtain c where c: "snapshot_campaign_id n = Some c" "request_gate Progress m = Inr ()"
    by (cases "request_gate Progress m") auto
  define k where "k = (if ds_progress_campaign_id s = Some c then ds_progress_requests s else 0)"
  have count: "progress_count c s = unat k" by (simp add: progress_count_def k_def)
  show ?thesis
  proof (cases "MAX_PROGRESS_REQUESTS \<le> k")
    case True
    then show ?thesis using assms c
      by (auto simp: progress_recording_def confirmations_step_def progress_step_def Let_def k_def)
  next
    case False
    then have small: "unat k < 256" by (simp add: MAX_PROGRESS_REQUESTS_def word_le_nat_alt not_le)
    then have "k \<noteq> - 1" by (auto simp: unsigned_minus_1_eq_mask mask_eq_exp_minus_1)
    then have succ: "unat (saturating_succ k) = Suc (unat k)"
      by (simp add: saturating_succ_def unat_succ_not_max)
    from assms c False have "send session (Inr (ProgressCampaign c))
      (\<lambda>s. if ds_progress_campaign_id s \<noteq> Some c
           then s\<lparr>ds_progress_campaign_id := Some c, ds_progress_requests := 1\<rparr>
           else s\<lparr>ds_progress_requests := saturating_succ k\<rparr>) ProgressRequested (s, b) = (r, s', b')"
      unfolding k_def by (simp add: progress_recording_def Let_def)
    then show ?thesis
      by (cases rule: send_cases)
         (use small succ count c k_def in \<open>auto simp: confirmations_step_def progress_step_def progress_count_def\<close>)
  qed
qed

lemma refused_step: "confirmations_step (Inl e) s s" "progress_step (Inl e) c s s"
  by (simp_all add: confirmations_step_def progress_step_def)

lemma dispatch_step:
  assumes "dispatch_with_backend snap session fetch action key (s, b) = (r, s', b')"
  shows "confirmations_step r s s' \<and> progress_step r (snapshot_campaign_id (snap b)) s s'"
proof -
  show ?thesis
  proof (cases "action = UiRefreshProviderCatalog")
    case True
    then show ?thesis using assms by (auto simp: dispatch_with_backend_def intro!: plain_send)
  next
    case other: False
    show ?thesis
    proof (cases "model_for_snapshot s (snap b)")
      case (Inl e)
      then show ?thesis using assms other by (auto simp: dispatch_with_backend_def refused_step)
    next
      case (Inr m)
      show ?thesis
        using assms other Inr
        by (cases action)
           (simp_all add: dispatch_with_backend_def Let_def,
            (erule confirm_step | erule remove_step | erule replay_step | erule activate_step
             | erule progress_recording_step | (erule plain_send, simp) | (clarsimp simp: refused_step))+)
    qed
  qed
qed

lemma select_cassette_counts [simp]:
  "progress_count c (select_cassette sha s) = progress_count c s"
  "ds_capture_armed (select_cassette sha s) = ds_capture_armed s"
  "ds_remove_confirmation_required (select_cassette sha s) = ds_remove_confirmation_required s"
  by (cases s; simp add: select_cassette_def progress_count_def)+

lemma run_action:
  fixes session :: "('b, 'e) recording_session"
  assumes "dispatch_run snap session fetch (DispatchAction a key # ops) w = (outs, w')"
  obtains r :: "('e dispatch_error, dispatch_outcome) result" and s1 b1 xs where "confirmations_step r (fst w) s1"
    "progress_step r (snapshot_campaign_id (snap (snd w))) (fst w) s1"
    "dispatch_run snap session fetch ops (s1, b1) = (xs, w')"
    "outs = (case r of Inl _ \<Rightarrow> xs | Inr x \<Rightarrow> x # xs)"
proof -
  obtain s b where w: "w = (s, b)" by (cases w)
  obtain r s1 b1 where d: "dispatch_with_backend snap session fetch a key (s, b) = (r, s1, b1)" by (rule prod_cases3)
  obtain xs w2 where rest: "dispatch_run snap session fetch ops (s1, b1) = (xs, w2)" by (rule prod.exhaust)
  have "w2 = w'" "outs = (case r of Inl _ \<Rightarrow> xs | Inr x \<Rightarrow> x # xs)"
    using assms w d rest by (cases r; simp)+
  then show thesis using that [of r s1 b1 xs] dispatch_step [OF d] w rest by simp
qed

abbreviation flag :: "bool \<Rightarrow> nat" where
  "flag b \<equiv> of_bool b"

lemma count_outcome:
  "count_list (case r of Inl _ \<Rightarrow> xs | Inr x \<Rightarrow> x # xs) y = flag (r = Inr y) + count_list xs y"
  by (cases r) auto

lemma confirmations_arith:
  assumes "confirmations_step r s s'"
  shows "flag (r = Inr CaptureRequested) + flag (ds_capture_armed s')
      = flag (r = Inr CaptureConfirmationNeeded) + flag (ds_capture_armed s)"
    and "flag (r = Inr RemoveRequested) + flag (ds_remove_confirmation_required s')
      \<le> flag (r = Inr RemovalConfirmationNeeded) + flag (ds_remove_confirmation_required s)"
  using assms by (auto simp: confirmations_step_def of_bool_def split: if_splits)

lemma run_confirmations:
  fixes session :: "('b, 'e) recording_session"
  assumes "dispatch_run snap session fetch ops w = (outs, w')"
  shows "count_list outs CaptureRequested + flag (ds_capture_armed (fst w'))
      = count_list outs CaptureConfirmationNeeded + flag (ds_capture_armed (fst w))
    \<and> count_list outs RemoveRequested + flag (ds_remove_confirmation_required (fst w'))
      \<le> count_list outs RemovalConfirmationNeeded + flag (ds_remove_confirmation_required (fst w))"
  using assms
proof (induction ops arbitrary: w outs)
  case (Cons op ops)
  show ?case
  proof (cases op)
    case (DispatchAction a key)
    obtain r :: "('e dispatch_error, dispatch_outcome) result" and s1 b1 xs where step: "confirmations_step r (fst w) s1"
      and rest: "dispatch_run snap session fetch ops (s1, b1) = (xs, w')"
      and o: "outs = (case r of Inl _ \<Rightarrow> xs | Inr x \<Rightarrow> x # xs)"
      using Cons.prems unfolding DispatchAction by (rule run_action) blast
    show ?thesis using Cons.IH [OF rest] confirmations_arith [OF step] unfolding o count_outcome fst_conv by linarith
  next
    case (ChooseCassette sha)
    then show ?thesis
      using Cons.IH [of "(select_cassette sha (fst w), snd w)" outs] Cons.prems by simp
  next
    case (Environment f)
    then show ?thesis using Cons.IH [of "(fst w, f (snd w))" outs] Cons.prems by simp
  qed
qed simp

lemma run_progress:
  fixes session :: "('b, 'e) recording_session"
  assumes "dispatch_run snap session fetch ops w = (outs, w')" "\<And>b. snapshot_campaign_id (snap b) = Some c"
    "progress_count c (fst w) \<le> 256"
  shows "count_list outs ProgressRequested + progress_count c (fst w) = progress_count c (fst w')
    \<and> progress_count c (fst w') \<le> 256"
  using assms(1,3)
proof (induction ops arbitrary: w outs)
  case (Cons op ops)
  show ?case
  proof (cases op)
    case (DispatchAction a key)
    obtain r :: "('e dispatch_error, dispatch_outcome) result" and s1 b1 xs where step: "progress_step r (snapshot_campaign_id (snap (snd w))) (fst w) s1"
      and rest: "dispatch_run snap session fetch ops (s1, b1) = (xs, w')"
      and o: "outs = (case r of Inl _ \<Rightarrow> xs | Inr x \<Rightarrow> x # xs)"
      using Cons.prems(1) unfolding DispatchAction by (rule run_action) blast
    have s1: "progress_count c s1 = flag (r = Inr ProgressRequested) + progress_count c (fst w)" "progress_count c s1 \<le> 256"
      using step Cons.prems(2) unfolding assms(2) by (auto simp: progress_step_def progress_count_def split: if_splits)
    show ?thesis using Cons.IH [OF rest] s1 unfolding o count_outcome fst_conv by linarith
  next
    case (ChooseCassette sha)
    then show ?thesis
      using Cons.IH [of "(select_cassette sha (fst w), snd w)" outs] Cons.prems by simp
  next
    case (Environment f)
    then show ?thesis using Cons.IH [of "(fst w, f (snd w))" outs] Cons.prems by simp
  qed
qed simp

section \<open>Properties\<close>


text \<open>
  C5: Each capture and each removal was confirmed. From a new dispatch state and through any
  sequence of actions, cassette choices and changes of the projection, the captures granted by
  the runner are at most as many as the times a confirmation was asked for, and the same holds
  for removals.
\<close>

theorem every_capture_confirmed:
  assumes "dispatch_new provider model agents scope = Inr s" "dispatch_run snap session fetch ops (s, b) = (outs, w)"
  shows "count_list outs CaptureRequested \<le> count_list outs CaptureConfirmationNeeded
    \<and> count_list outs RemoveRequested \<le> count_list outs RemovalConfirmationNeeded"
proof -
  have "\<not> ds_capture_armed s" "\<not> ds_remove_confirmation_required s"
    using assms(1) by (auto simp: dispatch_new_def result_simps)
  then show ?thesis using run_confirmations [OF assms(2)] by simp
qed


text \<open>
  A removal confirmation is not bound to the cassette it was asked for: after the confirmation
  was asked for one cassette, another cassette of the catalog can be selected and the next
  removal is sent for it without a further confirmation.
\<close>

theorem removal_confirmation_transfers:
  assumes "ds_remove_confirmation_required s" "ds_authenticated_catalog s = Some x" "e \<in> set (cc_entries x)"
    "model_for_snapshot s (snap b) = Inr m" "co_phase (rm_observation m) = Complete" "snapshot_campaign_id (snap b) = Some c"
  shows "sent (dispatch_logged snap session fetch UiRemoveRecordingCassette key (select_cassette (ce_cassette_sha256 e) s) b)
    = [RemoveCampaign c key (ce_cassette_sha256 e)]"
proof -
  have gate: "request_gate Remove m = Inr ()"
    using gate_simps(9) [of m] assms(5) by (cases "request_gate Remove m") auto
  have "model_for_snapshot (select_cassette (ce_cassette_sha256 e) s) (snap b) = Inr m"
    using assms(4) by (simp add: model_for_snapshot_def select_cassette_def)
  then show ?thesis using assms gate
    by (auto simp: dispatch_logged_def dispatch_with_backend_def remove_cassette_def select_cassette_def sent_send list_ex_iff)
qed

text \<open>
  A catalog that could not be fetched is never fetched again once an older one is held: when the
  activation was acknowledged for the current campaign and generation and any catalog is in the
  state, a further activation reports success, sends nothing and keeps that catalog, even if it
  belongs to another campaign; a replay from it is then refused.
\<close>

theorem stale_catalog_is_kept:
  assumes "model_for_snapshot s (snap b) = Inr m" "snapshot_campaign_id (snap b) = Some c"
    "snapshot_generation (snap b) = Some g" "ds_offline_default_requested s = Some (c, g)"
    "ds_authenticated_catalog s = Some old" "cc_campaign_id old \<noteq> c"
  shows "dispatch_with_backend snap session fetch UiActivateOfflineDefault key (s, b) = (Inr OfflineDefaultRequested, s, b)
    \<and> (\<exists>err. dispatch_with_backend snap session fetch UiReplaySelected key (s, b) = (Inl err, s, b))"
proof -
  have "\<exists>err. replay_selected session (snap b) key False (s, b) = (Inl err, s, b)"
    using assms(2,5,6)
    by (cases "ds_selected_cassette_sha256 s"; cases "find (\<lambda>e. ce_cassette_sha256 e = the (ds_selected_cassette_sha256 s)) (cc_entries old)")
       (auto simp: replay_selected_def replay_request_def send_def)
  then show ?thesis using assms by (simp add: dispatch_with_backend_def activate_offline_def)
qed

section \<open>Examples\<close>

definition sample_lifecycle :: "string \<Rightarrow> recording_campaign_lifecycle" where
  "sample_lifecycle state = \<lparr>rcl_runner_instance_id = ''r'', rcl_generation = 3, rcl_campaign_id = ''k'', rcl_provider_id = ''p'',
     rcl_model_id = ''m'', rcl_agent_ids = [''a''], rcl_workload_ids = [''w''], rcl_tuple_count = 1,
     rcl_covered_tuple_count = 1, rcl_state = state, rcl_offline_ready = False, rcl_unavailable_reason = None\<rparr>"

definition recorded_snapshot :: "string \<Rightarrow> dispatch_snapshot" where
  "recorded_snapshot state = \<lparr>sn_connection = LiveNegotiated, sn_benchmark_catalog = None, sn_provider_catalog = None,
     sn_configuration = None, sn_recording_campaign = None, sn_recording_campaign_lifecycle = Some (sample_lifecycle state)\<rparr>"

definition recorded_session :: "(nat, string) recording_session" where
  "recorded_session r n = (Inr (), Suc n)"

definition sample_fetch :: "(nat, string) cassette_fetch" where
  "sample_fetch c g n = (Inl ''offline'', n)"

definition sample_dispatch :: recording_dispatch_state where
  "sample_dispatch = \<lparr>ds_adapter_id = None, ds_provider_id = ''p'', ds_model_id = ''m'', ds_agent_ids = [''a''],
     ds_workload_scope = AllWorkloads, ds_capture_armed = False, ds_authenticated_catalog = Some sample_cassettes,
     ds_selected_cassette_sha256 = Some (replicate 64 CHR ''2''), ds_progress_requests = 0, ds_progress_campaign_id = None,
     ds_offline_default_requested = None, ds_selected_run_id = None, ds_comparison_run_ids = [],
     ds_remove_confirmation_required = True\<rparr>"

lemma sample_campaign: "snapshot_campaign_id (recorded_snapshot state) = Some ''k''"
  by (simp add: snapshot_campaign_id_def recorded_snapshot_def sample_lifecycle_def)

text \<open>The evaluations that the witnesses below rest on, in one pass of the simplifier.\<close>

lemma sample_evaluations:
  "(let x = dispatch_logged (\<lambda>_. recorded_snapshot ''complete'') recorded_session sample_fetch UiReplaySelected ''key'' sample_dispatch 0
    in length (sent x) = 1 \<and> RefreshProviderCatalog \<notin> set (sent x))
   \<and> (case dispatch_new ''p'' ''m'' [''a''] AllWorkloads of Inl _ \<Rightarrow> False
      | Inr s \<Rightarrow> count_list (fst (dispatch_run (\<lambda>_. recorded_snapshot ''planned'') recorded_session sample_fetch
            (replicate 3 (DispatchAction UiConfirmRecordingCapture ''key'')) (s, 0))) CaptureRequested = 1
          \<and> count_list (fst (dispatch_run (\<lambda>_. recorded_snapshot ''recording'') recorded_session sample_fetch
            (replicate 2 (DispatchAction UiProgressRecording ''key'')) (s, 0))) ProgressRequested = 2)
   \<and> (case snapshot_observation (recorded_snapshot ''complete'') of Inl _ \<Rightarrow> False
      | Inr o1 \<Rightarrow> co_phase o1 = Complete \<and> is_ok (model_new AllWorkloads o1))"
  by code_simp

lemma sample_model:
  assumes "ds_workload_scope s = AllWorkloads"
  obtains m where "model_for_snapshot s (recorded_snapshot ''complete'') = Inr m" "co_phase (rm_observation m) = Complete"
proof -
  obtain o1 where o1: "snapshot_observation (recorded_snapshot ''complete'') = Inr o1" "co_phase o1 = Complete"
    "is_ok (model_new AllWorkloads o1)"
    using sample_evaluations by (auto split: sum.splits)
  then obtain m where m: "model_new AllWorkloads o1 = Inr m" by (cases "model_new AllWorkloads o1") auto
  then have "rm_observation m = o1" by (auto simp: model_new_def result_simps)
  with that o1 m assms show ?thesis by (simp add: model_for_snapshot_def)
qed


theorem every_capture_confirmed_witness:
  "\<exists>s. dispatch_new ''p'' ''m'' [''a''] AllWorkloads = Inr s
     \<and> count_list (fst (dispatch_run (\<lambda>_. recorded_snapshot ''planned'') recorded_session sample_fetch
          (replicate 3 (DispatchAction UiConfirmRecordingCapture ''key'')) (s, 0))) CaptureRequested
       \<le> count_list (fst (dispatch_run (\<lambda>_. recorded_snapshot ''planned'') recorded_session sample_fetch
          (replicate 3 (DispatchAction UiConfirmRecordingCapture ''key'')) (s, 0))) CaptureConfirmationNeeded
     \<and> count_list (fst (dispatch_run (\<lambda>_. recorded_snapshot ''planned'') recorded_session sample_fetch
          (replicate 3 (DispatchAction UiConfirmRecordingCapture ''key'')) (s, 0))) CaptureRequested = 1"
proof -
  let ?run = "\<lambda>s. dispatch_run (\<lambda>_. recorded_snapshot ''planned'') recorded_session sample_fetch
    (replicate 3 (DispatchAction UiConfirmRecordingCapture ''key'')) (s, 0)"
  obtain s where s: "dispatch_new ''p'' ''m'' [''a''] AllWorkloads = Inr s"
    "count_list (fst (?run s)) CaptureRequested = 1" using sample_evaluations by (auto split: sum.splits)
  have "?run s = (fst (?run s), snd (?run s))" by simp
  from every_capture_confirmed [OF s(1) this] show ?thesis using s by blast
qed


theorem removal_confirmation_transfers_witness:
  "sent (dispatch_logged (\<lambda>_. recorded_snapshot ''complete'') recorded_session sample_fetch UiRemoveRecordingCassette ''key''
     (select_cassette (replicate 64 CHR ''2'') (sample_dispatch\<lparr>ds_selected_cassette_sha256 := Some ''x''\<rparr>)) 0)
   = [RemoveCampaign ''k'' ''key'' (replicate 64 CHR ''2'')]"
proof -
  let ?s = "sample_dispatch\<lparr>ds_selected_cassette_sha256 := Some ''x''\<rparr>"
  obtain m where m: "model_for_snapshot ?s (recorded_snapshot ''complete'') = Inr m" "co_phase (rm_observation m) = Complete"
    using sample_model [of ?s] by (auto simp: sample_dispatch_def)
  have e: "ds_remove_confirmation_required ?s" "ds_authenticated_catalog ?s = Some sample_cassettes"
    "hd (cc_entries sample_cassettes) \<in> set (cc_entries sample_cassettes)"
    "ce_cassette_sha256 (hd (cc_entries sample_cassettes)) = replicate 64 CHR ''2''"
    by (simp_all add: sample_dispatch_def sample_cassettes_def)
  show ?thesis
    using removal_confirmation_transfers [where snap = "\<lambda>_. recorded_snapshot ''complete''" and b = 0 and
      session = recorded_session and fetch = sample_fetch and key = "''key''", OF e(1-3) m sample_campaign] e(4) by simp
qed

theorem stale_catalog_is_kept_witness:
  "dispatch_with_backend (\<lambda>_. recorded_snapshot ''complete'') recorded_session sample_fetch UiActivateOfflineDefault ''key''
     (sample_dispatch\<lparr>ds_offline_default_requested := Some (''k'', 3),
        ds_authenticated_catalog := Some (sample_cassettes\<lparr>cc_campaign_id := ''old''\<rparr>)\<rparr>, 0)
   = (Inr OfflineDefaultRequested, sample_dispatch\<lparr>ds_offline_default_requested := Some (''k'', 3),
        ds_authenticated_catalog := Some (sample_cassettes\<lparr>cc_campaign_id := ''old''\<rparr>)\<rparr>, 0)"
proof -
  let ?s = "sample_dispatch\<lparr>ds_offline_default_requested := Some (''k'', 3),
        ds_authenticated_catalog := Some (sample_cassettes\<lparr>cc_campaign_id := ''old''\<rparr>)\<rparr>"
  obtain m where m: "model_for_snapshot ?s (recorded_snapshot ''complete'') = Inr m"
    using sample_model [of ?s] by (auto simp: sample_dispatch_def)
  have g: "snapshot_generation (recorded_snapshot ''complete'') = Some 3"
    by (simp add: snapshot_generation_def recorded_snapshot_def sample_lifecycle_def)
  show ?thesis
    using stale_catalog_is_kept [where snap = "\<lambda>_. recorded_snapshot ''complete''" and s = ?s and b = 0
      and session = recorded_session and fetch = sample_fetch and key = "''key''", OF m sample_campaign g] by simp
qed

end
