(* ===== verification/Live_Projection.thy ===== *)
theory Live_Projection
  imports Control_Codec Recording_Dispatch
begin

text \<open>
  Model of \<open>src/live_projection.rs\<close>: the state that the front end keeps of the runner's answers. An
  answer is validated against its request by the codec, gated by the negotiated version and runner,
  fenced against older generations, and only then becomes part of the snapshot that the launch fences
  (\<open>Launch_Statistics\<close>) and the recording dispatch (\<open>Recording_Dispatch\<close>) read.
\<close>

section \<open>State\<close>

definition MAX_PROJECTED_RUNS :: nat where "MAX_PROJECTED_RUNS = 256"

datatype dynamic_catalog_state = DynamicUnsupported | DynamicCatalog dynamic_provider_catalog

datatype projection_error = InvalidResponse | UnexpectedResult | StaleBenchmarkCatalog | StaleProviderCatalog
| StaleRun | TooManyRuns

record control_projection =
  cp_connection :: live_connection
  cp_negotiated :: "wire_negotiated option"
  cp_capabilities :: "wire_capabilities option"
  cp_measurement_catalog :: "wire_measurement_catalog option"
  cp_benchmark_catalog :: "live_benchmark_catalog option"
  cp_agent_catalog :: "agent_catalog option"
  cp_agent_lifecycle :: "agent_lifecycle_response option"
  cp_provider_catalog :: "provider_catalog option"
  cp_dynamic_provider_catalog :: "dynamic_catalog_state option"
  cp_configuration :: "configuration_snapshot option"
  cp_auth_status :: "auth_status_response option"
  cp_auth_unavailable :: bool
  cp_auth_development_only :: bool
  cp_auth_unavailable_reason :: "string option"
  cp_recording_campaign :: "recording_campaign_plan option"
  cp_recording_estimate :: "campaign_estimate option"
  cp_recording_campaign_lifecycle :: "recording_campaign_lifecycle option"
  cp_fanout :: "fanout_admission option"
  cp_runs :: "(string \<times> run_summary) list"
  cp_analysis :: "analysis_summary option"

definition projection_default :: control_projection where
  "projection_default = \<lparr>cp_connection = LiveDisconnected, cp_negotiated = None, cp_capabilities = None,
     cp_measurement_catalog = None, cp_benchmark_catalog = None, cp_agent_catalog = None, cp_agent_lifecycle = None,
     cp_provider_catalog = None, cp_dynamic_provider_catalog = None, cp_configuration = None, cp_auth_status = None,
     cp_auth_unavailable = False, cp_auth_development_only = False, cp_auth_unavailable_reason = None,
     cp_recording_campaign = None, cp_recording_estimate = None, cp_recording_campaign_lifecycle = None,
     cp_fanout = None, cp_runs = [], cp_analysis = None\<rparr>"

definition accept_negotiated :: "wire_negotiated \<Rightarrow> control_projection \<Rightarrow> control_projection" where
  "accept_negotiated n s = s\<lparr>cp_connection := LiveNegotiated, cp_negotiated := Some n\<rparr>"

definition mark_auth_unavailable :: "string \<Rightarrow> bool \<Rightarrow> control_projection \<Rightarrow> control_projection" where
  "mark_auth_unavailable reason development_only s = s\<lparr>cp_auth_status := None, cp_auth_unavailable := True,
     cp_auth_development_only := development_only, cp_auth_unavailable_reason := Some reason\<rparr>"

definition projection_disconnect :: "control_projection \<Rightarrow> control_projection" where
  "projection_disconnect s = s\<lparr>cp_connection := LiveDisconnected\<rparr>"

section \<open>Gates\<close>

type_synonym projection_check = "(projection_error, unit) result"

definition require_version :: "control_projection \<Rightarrow> wire_version \<Rightarrow> projection_check" where
  "require_version s least = ensure (case cp_negotiated s of None \<Rightarrow> False | Some n \<Rightarrow> \<not> wn_version n < least) UnexpectedResult"

definition require_runner :: "control_projection \<Rightarrow> string \<Rightarrow> projection_check" where
  "require_runner s runner = ensure (case cp_negotiated s of None \<Rightarrow> False | Some n \<Rightarrow> wn_runner_instance_id n = runner) UnexpectedResult"

text \<open>The generation of the lifecycle, else of the estimate, else of the plan.\<close>

definition recording_generation :: "control_projection \<Rightarrow> u64 option" where
  "recording_generation s = (case cp_recording_campaign_lifecycle s of Some l \<Rightarrow> Some (rcl_generation l)
     | None \<Rightarrow> (case cp_recording_estimate s of Some e \<Rightarrow> Some (ce_generation e)
     | None \<Rightarrow> map_option rcp_generation (cp_recording_campaign s)))"

definition require_monotonic_generation :: "control_projection \<Rightarrow> u64 \<Rightarrow> projection_check" where
  "require_monotonic_generation s g =
     ensure (case recording_generation s of None \<Rightarrow> True | Some previous \<Rightarrow> \<not> g < previous) StaleRun"

definition provider_fresh :: "control_projection \<Rightarrow> u64 option \<Rightarrow> provider_catalog \<Rightarrow> projection_check" where
  "provider_fresh s known c =
     (if (case known of None \<Rightarrow> False | Some k \<Rightarrow> pv_generation c < k) then Inl StaleProviderCatalog
      else case cp_provider_catalog s of
        Some current \<Rightarrow>
          if pv_generation c < pv_generation current
             \<or> pv_generation c = pv_generation current \<and> pv_catalog_sha256 c \<noteq> pv_catalog_sha256 current
          then Inl StaleProviderCatalog
          else ensure (case cp_negotiated s of None \<Rightarrow> True | Some n \<Rightarrow> pv_runner_instance_id c = wn_runner_instance_id n) UnexpectedResult
      | None \<Rightarrow> ensure (case cp_negotiated s of None \<Rightarrow> True | Some n \<Rightarrow> pv_runner_instance_id c = wn_runner_instance_id n) UnexpectedResult)"

definition first_error :: "projection_check list \<Rightarrow> projection_check" where
  "first_error rs = check_all (\<lambda>r. r) rs"

lemma first_error_Inr [result_simps]: "first_error rs = Inr u \<longleftrightarrow> (\<forall>r \<in> set rs. r = Inr ())"
  by (simp add: first_error_def result_simps)

text \<open>A state change behind checks.\<close>

definition commit_after :: "projection_check list \<Rightarrow> (control_projection \<Rightarrow> control_projection) \<Rightarrow>
    (control_projection, projection_error, unit) call" where
  "commit_after cs f s = (case first_error cs of Inl e \<Rightarrow> (Inl e, s) | Inr _ \<Rightarrow> (Inr (), f s))"

section \<open>Runs\<close>

definition insert_run :: "run_summary \<Rightarrow> (control_projection, projection_error, unit) call" where
  "insert_run r s =
     (let key = sum_run_id r in
      if (case om_get (cp_runs s) key of None \<Rightarrow> False | Some previous \<Rightarrow> sum_revision r < sum_revision previous)
      then (Inl StaleRun, s)
      else if om_get (cp_runs s) key = None \<and> MAX_PROJECTED_RUNS \<le> length (cp_runs s) then (Inl TooManyRuns, s)
      else (Inr (), s\<lparr>cp_runs := om_insert key r (cp_runs s)\<rparr>))"

fun insert_runs :: "run_summary list \<Rightarrow> (control_projection, projection_error, unit) call" where
  "insert_runs [] s = (Inr (), s)"
| "insert_runs (r # rs) s = (case insert_run r s of (Inl e, s') \<Rightarrow> (Inl e, s') | (Inr _, s') \<Rightarrow> insert_runs rs s')"

section \<open>Results\<close>

definition live_catalog :: "benchmark_publication \<Rightarrow> live_benchmark_catalog" where
  "live_catalog v = \<lparr>lc_generation = bpb_generation v, lc_catalog_sha256 = bpb_catalog_sha256 v,
     lc_pools = map (\<lambda>p. \<lparr>lp_id = wbp_id p,
       lp_groups = map (\<lambda>g. \<lparr>lg_id = wbg_id g,
         lg_benchmarks = map (\<lambda>b. \<lparr>le_id = wb_id b, le_measure_ids = wb_measure_ids b\<rparr>) (wbg_benchmarks g)\<rparr>) (wbp_groups p)\<rparr>)
       (bpb_pools v)\<rparr>"

definition is_agent_lifecycle_call :: "control_call \<Rightarrow> bool" where
  "is_agent_lifecycle_call c = (case c of CallAgentInstall _ \<Rightarrow> True | CallAgentStatus _ \<Rightarrow> True | CallAgentCancel _ \<Rightarrow> True
     | CallAgentRetry _ \<Rightarrow> True | CallAgentRemove _ \<Rightarrow> True | _ \<Rightarrow> False)"

definition is_agent_catalog_call :: "control_call \<Rightarrow> bool" where
  "is_agent_catalog_call c = (case c of CallAgentCatalog _ \<Rightarrow> True | _ \<Rightarrow> False)"

definition is_configuration_call :: "control_call \<Rightarrow> bool" where
  "is_configuration_call c = (case c of CallConfigurationStatus _ \<Rightarrow> True | CallConfigurationApply _ \<Rightarrow> True | _ \<Rightarrow> False)"

definition is_fanout_call :: "control_call \<Rightarrow> bool" where
  "is_fanout_call c = (case c of CallFanout _ \<Rightarrow> True | _ \<Rightarrow> False)"

definition is_auth_status_call :: "control_call \<Rightarrow> bool" where
  "is_auth_status_call c = (case c of CallAuthHelperInvoke _ \<Rightarrow> True | CallAuthStatus _ \<Rightarrow> True | _ \<Rightarrow> False)"

definition is_plan_call :: "control_call \<Rightarrow> bool" where
  "is_plan_call c = (case c of CallCampaignPlan _ \<Rightarrow> True | _ \<Rightarrow> False)"

definition is_estimate_call :: "control_call \<Rightarrow> bool" where
  "is_estimate_call c = (case c of CallCampaignEstimate _ \<Rightarrow> True | _ \<Rightarrow> False)"

definition is_campaign_status_call :: "control_call \<Rightarrow> bool" where
  "is_campaign_status_call c = (case c of CallCampaignStatus _ \<Rightarrow> True | _ \<Rightarrow> False)"

definition is_history_call :: "control_call \<Rightarrow> bool" where
  "is_history_call c = (case c of CallHistory _ \<Rightarrow> True | _ \<Rightarrow> False)"

definition is_status_call :: "control_call \<Rightarrow> bool" where
  "is_status_call c = (case c of CallStatus _ \<Rightarrow> True | _ \<Rightarrow> False)"

definition is_launch_call :: "control_call \<Rightarrow> bool" where
  "is_launch_call c = (case c of CallLaunch _ \<Rightarrow> True | _ \<Rightarrow> False)"

definition is_negotiate_call :: "control_call \<Rightarrow> bool" where
  "is_negotiate_call c = (case c of CallNegotiate _ \<Rightarrow> True | _ \<Rightarrow> False)"

definition provider_request :: "control_call \<Rightarrow> provider_catalog_request option" where
  "provider_request c = (case c of CallProviderCatalog q \<Rightarrow> Some q | _ \<Rightarrow> None)"

definition analyzed_runs :: "control_call \<Rightarrow> string list option" where
  "analyzed_runs c = (case c of CallAnalyze ids \<Rightarrow> Some ids | _ \<Rightarrow> None)"

text \<open>The campaign of a lifecycle call, and the generation its answer may not fall behind.\<close>

definition lifecycle_fence :: "control_call \<Rightarrow> (u64 option \<times> string) option" where
  "lifecycle_fence c = (case c of
     CallCampaignExecute p \<Rightarrow> Some (Some (cm_expected_generation p), cm_campaign_id p)
   | CallCampaignCancel p \<Rightarrow> Some (Some (cm_expected_generation p), cm_campaign_id p)
   | CallCampaignReconcile p \<Rightarrow> Some (Some (cm_expected_generation p), cm_campaign_id p)
   | CallCampaignOfflineDefault p \<Rightarrow> Some (Some (cm_expected_generation p), cm_campaign_id p)
   | CallCampaignSeal p \<Rightarrow> Some (Some (cm_expected_generation p), cm_campaign_id p)
   | CallCampaignReopen p \<Rightarrow> Some (Some (cm_expected_generation p), cm_campaign_id p)
   | CallCampaignRetry p \<Rightarrow> Some (Some (cm_expected_generation p), cm_campaign_id p)
   | CallCampaignRemove p \<Rightarrow> Some (Some (cm_expected_generation p), cm_campaign_id p)
   | CallCampaignProgress p \<Rightarrow> Some (None, gp_campaign_id p)
   | _ \<Rightarrow> None)"


definition apply_provider :: "provider_catalog_request \<Rightarrow> provider_catalog \<Rightarrow> (control_projection, projection_error, unit) call" where
  "apply_provider q v s = commit_after [require_version s W1_7, provider_fresh s (pq_known_generation q) v]
     (\<lambda>s. s\<lparr>cp_provider_catalog := Some v,
        cp_dynamic_provider_catalog := (case cp_negotiated s of
            Some n \<Rightarrow> if wn_version n < W1_15 then Some DynamicUnsupported else None
          | None \<Rightarrow> None)\<rparr>) s"

definition apply_dynamic_provider :: "provider_catalog_request \<Rightarrow> dynamic_provider_catalog \<Rightarrow>
    (control_projection, projection_error, unit) call" where
  "apply_dynamic_provider q v s = commit_after [require_version s W1_15,
      ensure (pv_refreshed (dy_catalog v) = (pq_action q = CatalogRefresh)) UnexpectedResult,
      provider_fresh s (pq_known_generation q) (dy_catalog v)]
     (\<lambda>s. s\<lparr>cp_provider_catalog := Some (dy_catalog v), cp_dynamic_provider_catalog := Some (DynamicCatalog v)\<rparr>) s"

definition apply_lifecycle :: "u64 option \<Rightarrow> string \<Rightarrow> recording_campaign_lifecycle \<Rightarrow>
    (control_projection, projection_error, unit) call" where
  "apply_lifecycle expected campaign v s = commit_after [require_version s W1_8, require_runner s (rcl_runner_instance_id v),
      ensure (case expected of None \<Rightarrow> True | Some g \<Rightarrow> \<not> rcl_generation v < g) StaleRun,
      ensure (rcl_campaign_id v = campaign) UnexpectedResult,
      require_monotonic_generation s (rcl_generation v)]
     (\<lambda>s. s\<lparr>cp_recording_campaign_lifecycle := Some v\<rparr>) s"

definition apply_status :: "campaign_status \<Rightarrow> (control_projection, projection_error, unit) call" where
  "apply_status v s = commit_after [require_version s W1_7, require_runner s (cs_runner_instance_id v),
      require_monotonic_generation s (cs_generation v),
      (case cs_campaign v of None \<Rightarrow> Inr ()
       | Some c \<Rightarrow> ensure (rcl_runner_instance_id c = cs_runner_instance_id v \<and> rcl_generation c = cs_generation v) UnexpectedResult)]
     (\<lambda>s. case cs_campaign v of None \<Rightarrow> s | Some c \<Rightarrow> s\<lparr>cp_recording_campaign_lifecycle := Some c\<rparr>) s"

definition apply_result :: "wire \<Rightarrow> control_call \<Rightarrow> control_result \<Rightarrow> (control_projection, projection_error, unit) call" where
  "apply_result w c r s = (case r of
     ResCapabilities v \<Rightarrow> if c = CallCapabilities then (Inr (), s\<lparr>cp_capabilities := Some v\<rparr>) else (Inr (), s)
   | ResMeasurementCatalog v \<Rightarrow> if c = CallMeasurementCatalog
       then commit_after [require_version s W1_2] (\<lambda>s. s\<lparr>cp_measurement_catalog := Some (mpb_catalog v)\<rparr>) s else (Inr (), s)
   | ResBenchmarkCatalog v \<Rightarrow> if c = CallBenchmarkCatalog
       then commit_after [map_err (\<lambda>_. InvalidResponse) (benchmark_publication_validate w v),
           ensure (case cp_benchmark_catalog s of None \<Rightarrow> True | Some previous \<Rightarrow> \<not> bpb_generation v < lc_generation previous)
             StaleBenchmarkCatalog]
         (\<lambda>s. s\<lparr>cp_benchmark_catalog := Some (live_catalog v)\<rparr>) s else (Inr (), s)
   | ResAgentCatalog v \<Rightarrow> if is_agent_catalog_call c
       then commit_after [require_version s W1_4] (\<lambda>s. s\<lparr>cp_agent_catalog := Some v\<rparr>) s else (Inr (), s)
   | ResAgentLifecycle v \<Rightarrow> if is_agent_lifecycle_call c
       then commit_after [require_version s W1_5] (\<lambda>s. s\<lparr>cp_agent_lifecycle := Some v\<rparr>) s else (Inr (), s)
   | ResProviderCatalog v \<Rightarrow> (case provider_request c of Some q \<Rightarrow> apply_provider q v s | None \<Rightarrow> (Inr (), s))
   | ResDynamicProviderCatalog v \<Rightarrow> (case provider_request c of Some q \<Rightarrow> apply_dynamic_provider q v s | None \<Rightarrow> (Inr (), s))
   | ResConfiguration v \<Rightarrow> if is_configuration_call c
       then commit_after [require_version s W1_7] (\<lambda>s. s\<lparr>cp_configuration := Some v\<rparr>) s else (Inr (), s)
   | ResFanout v \<Rightarrow> if is_fanout_call c
       then commit_after [require_version s W1_14] (\<lambda>s. s\<lparr>cp_fanout := Some v\<rparr>) s else (Inr (), s)
   | ResAuthStatus v \<Rightarrow> if is_auth_status_call c
       then commit_after [require_version s W1_6] (\<lambda>s. s\<lparr>cp_auth_status := Some v, cp_auth_unavailable := False,
           cp_auth_development_only := False, cp_auth_unavailable_reason := None\<rparr>) s else (Inr (), s)
   | ResCampaign v \<Rightarrow> if is_plan_call c
       then commit_after [require_version s W1_7, require_runner s (rcp_runner_instance_id v),
           require_monotonic_generation s (rcp_generation v)] (\<lambda>s. s\<lparr>cp_recording_campaign := Some v\<rparr>) s else (Inr (), s)
   | ResCampaignEstimate v \<Rightarrow> if is_estimate_call c
       then commit_after [require_version s W1_7, require_runner s (ce_runner_instance_id v),
           require_monotonic_generation s (ce_generation v)] (\<lambda>s. s\<lparr>cp_recording_estimate := Some v\<rparr>) s else (Inr (), s)
   | ResCampaignLifecycle v \<Rightarrow> (case lifecycle_fence c of
       Some (expected, campaign) \<Rightarrow> apply_lifecycle expected campaign v s | None \<Rightarrow> (Inr (), s))
   | ResCampaignStatus v \<Rightarrow> if is_campaign_status_call c then apply_status v s else (Inr (), s)
   | ResHistory page \<Rightarrow> if is_history_call c
       then if MAX_PROJECTED_RUNS < length (cp_runs s) + length (pa_items page) then (Inl TooManyRuns, s)
            else insert_runs (pa_items page) s else (Inr (), s)
   | ResAnalysis v \<Rightarrow> (case analyzed_runs c of
       Some ids \<Rightarrow> commit_after [ensure (unat (an_run_count v) = length ids
           \<and> list_all (\<lambda>i. om_get (cp_runs s) i \<noteq> None) ids) UnexpectedResult] (\<lambda>s. s\<lparr>cp_analysis := Some v\<rparr>) s
     | None \<Rightarrow> (Inr (), s))
   | ResStatus r \<Rightarrow> if is_status_call c then insert_run r s else (Inr (), s)
   | ResLaunch r \<Rightarrow> if is_launch_call c then insert_run r s else (Inr (), s)
   | _ \<Rightarrow> (Inr (), s))"

definition projection_apply :: "wire \<Rightarrow> control_request \<Rightarrow> control_response \<Rightarrow> wire_limits \<Rightarrow>
    (control_projection, projection_error, unit) call" where
  "projection_apply w q r limits s = (case validate_for w r q limits of
     Inl _ \<Rightarrow> (Inl InvalidResponse, s)
   | Inr _ \<Rightarrow> (case r of
       ResponseFailure _ _ _ _ \<Rightarrow> (Inr (), s)
     | ResponseSuccess _ _ success \<Rightarrow>
         if \<not> is_negotiate_call (cr_call q) \<and> cp_connection s \<noteq> LiveNegotiated then (Inl UnexpectedResult, s)
         else (case success of
             SuccessNegotiated n \<Rightarrow> if is_negotiate_call (cr_call q) then (Inr (), accept_negotiated n s) else (Inl UnexpectedResult, s)
           | SuccessOperation _ result \<Rightarrow> apply_result w (cr_call q) result s)))"

section \<open>The snapshot\<close>

record projected_snapshot = dispatch_snapshot +
  ps_runner_instance_id :: "string option"
  ps_latest_revision :: "u64 option"
  ps_capabilities :: "wire_capabilities option"
  ps_measurement_catalog :: "wire_measurement_catalog option"
  ps_agent_catalog :: "agent_catalog option"
  ps_agent_lifecycle :: "agent_lifecycle_response option"
  ps_dynamic_provider_catalog :: "dynamic_catalog_state option"
  ps_auth_status :: "auth_status_response option"
  ps_auth_unavailable :: bool
  ps_auth_development_only :: bool
  ps_auth_unavailable_reason :: "string option"
  ps_recording_estimate :: "campaign_estimate option"
  ps_fanout :: "fanout_admission option"
  ps_runs :: "run_summary list"
  ps_analysis :: "analysis_summary option"

text \<open>Newest revision first, then by run id; the sort of the source is stable.\<close>

definition newest_first :: "run_summary list \<Rightarrow> run_summary list" where
  "newest_first rs = sort_key (\<lambda>r. (- uint (sum_revision r), sum_run_id r)) rs"

definition projection_snapshot :: "control_projection \<Rightarrow> projected_snapshot" where
  "projection_snapshot s = \<lparr>sn_connection = cp_connection s, sn_benchmark_catalog = cp_benchmark_catalog s,
     sn_provider_catalog = cp_provider_catalog s, sn_configuration = cp_configuration s,
     sn_recording_campaign = cp_recording_campaign s, sn_recording_campaign_lifecycle = cp_recording_campaign_lifecycle s,
     ps_runner_instance_id = map_option wn_runner_instance_id (cp_negotiated s),
     ps_latest_revision = map_option wn_latest_revision (cp_negotiated s), ps_capabilities = cp_capabilities s,
     ps_measurement_catalog = cp_measurement_catalog s, ps_agent_catalog = cp_agent_catalog s,
     ps_agent_lifecycle = cp_agent_lifecycle s, ps_dynamic_provider_catalog = cp_dynamic_provider_catalog s,
     ps_auth_status = cp_auth_status s, ps_auth_unavailable = cp_auth_unavailable s,
     ps_auth_development_only = cp_auth_development_only s, ps_auth_unavailable_reason = cp_auth_unavailable_reason s,
     ps_recording_estimate = cp_recording_estimate s, ps_fanout = cp_fanout s,
     ps_runs = newest_first (map snd (cp_runs s)), ps_analysis = cp_analysis s\<rparr>"

definition run_count :: "control_projection \<Rightarrow> nat" where
  "run_count s = length (cp_runs s)"

section \<open>What the projection keeps\<close>

lemma commit_after_Inl: "commit_after cs f s = (Inl e, s') \<Longrightarrow> s' = s"
  by (simp add: commit_after_def split: sum.splits)

lemma commit_after_rule:
  assumes "P s" "(\<And>c. c \<in> set cs \<Longrightarrow> c = Inr ()) \<Longrightarrow> P (f s)"
  shows "P (snd (commit_after cs f s))"
  using assms first_error_Inr [of cs] by (cases "first_error cs") (auto simp: commit_after_def)

datatype projection_event =
  ProjectionNegotiated wire_negotiated | ProjectionAuthUnavailable string bool
| ProjectionAnswer control_request control_response wire_limits | ProjectionDisconnect

definition projection_step :: "wire \<Rightarrow> projection_event \<Rightarrow> (control_projection, projection_error, unit) call" where
  "projection_step w ev s = (case ev of
     ProjectionNegotiated n \<Rightarrow> (Inr (), accept_negotiated n s)
   | ProjectionAuthUnavailable reason development_only \<Rightarrow> (Inr (), mark_auth_unavailable reason development_only s)
   | ProjectionAnswer q r limits \<Rightarrow> projection_apply w q r limits s
   | ProjectionDisconnect \<Rightarrow> (Inr (), projection_disconnect s))"

definition runs_ok :: "(string \<times> run_summary) list \<Rightarrow> bool" where
  "runs_ok rs \<longleftrightarrow> om_sorted rs \<and> length rs \<le> MAX_PROJECTED_RUNS
     \<and> (\<forall>k r. om_get rs k = Some r \<longrightarrow> sum_run_id r = k \<and> validate_summary r = Inr ())"

definition projection_ok :: "wire \<Rightarrow> control_projection \<Rightarrow> bool" where
  "projection_ok w s \<longleftrightarrow> runs_ok (cp_runs s)
     \<and> (\<forall>c. cp_benchmark_catalog s = Some c \<longrightarrow> (\<exists>v. benchmark_publication_validate w v = Inr () \<and> c = live_catalog v))
     \<and> (\<forall>c. cp_provider_catalog s = Some c \<longrightarrow> validate_provider_catalog c = Inr ())
     \<and> (\<forall>p. cp_recording_campaign s = Some p \<longrightarrow> validate_campaign_plan p = Inr ())
     \<and> (\<forall>l. cp_recording_campaign_lifecycle s = Some l \<longrightarrow> validate_campaign_lifecycle l = Inr ())
     \<and> (\<forall>c. cp_configuration s = Some c \<longrightarrow> validate_configuration c = Inr ())"

text \<open>What is fenced: the generations of the two catalogs and the revision of every run.\<close>

datatype fenced = FencedProvider | FencedBenchmark | FencedRun string

definition generation_rank :: "u64 option \<Rightarrow> nat" where
  "generation_rank g = (case g of None \<Rightarrow> 0 | Some v \<Rightarrow> Suc (unat v))"

definition fenced_rank :: "control_projection \<Rightarrow> fenced \<Rightarrow> nat" where
  "fenced_rank s k = generation_rank (case k of
     FencedProvider \<Rightarrow> map_option pv_generation (cp_provider_catalog s)
   | FencedBenchmark \<Rightarrow> map_option lc_generation (cp_benchmark_catalog s)
   | FencedRun i \<Rightarrow> map_option sum_revision (om_get (cp_runs s) i))"

definition keeps :: "wire \<Rightarrow> control_projection \<Rightarrow> control_projection \<Rightarrow> bool" where
  "keeps w s s' \<longleftrightarrow> projection_ok w s' \<and> fenced_rank s \<le> fenced_rank s'"

lemma keeps_refl: "projection_ok w s \<Longrightarrow> keeps w s s"
  by (simp add: keeps_def)

lemma keeps_trans: "keeps w s t \<Longrightarrow> keeps w t u \<Longrightarrow> keeps w s u"
  by (auto simp: keeps_def intro: order_trans)

lemma generation_rank_le [simp]: "generation_rank (Some a) \<le> generation_rank (Some b) \<longleftrightarrow> a \<le> b"
  by (simp add: generation_rank_def word_le_nat_alt)

lemma generation_rank_None [simp]: "generation_rank None \<le> n"
  by (simp add: generation_rank_def)

lemma keepsI:
  assumes "projection_ok w s" "projection_ok w s'" "cp_provider_catalog s' = cp_provider_catalog s"
    "cp_benchmark_catalog s' = cp_benchmark_catalog s" "cp_runs s' = cp_runs s"
  shows "keeps w s s'"
proof -
  have "fenced_rank s' k = fenced_rank s k" for k using assms(3-5) by (cases k) (simp_all add: fenced_rank_def)
  with assms(2) show ?thesis by (simp add: keeps_def le_fun_def)
qed

lemma om_insert_bound: "length (om_insert k v m) \<le> Suc (length m)"
  by (induction m) auto

lemma om_insert_length_known: "om_sorted m \<Longrightarrow> om_get m k \<noteq> None \<Longrightarrow> length (om_insert k v m) = length m"
proof (induction m)
  case (Cons kv m)
  obtain k' v' where kv: "kv = (k', v')" by (cases kv)
  have "om_sorted m" and above: "\<forall>j \<in> fst ` set m. k' < j" using Cons.prems(1) kv by (auto simp: om_sorted_def)
  moreover have "om_get m k \<noteq> None" if "k \<noteq> k'" using Cons.prems(2) kv that by (simp split: if_splits)
  moreover have "k' < k" if "k \<noteq> k'"
    using above calculation(3) [OF that] by (metis domI dom_map_of_conv_image_fst option.exhaust)
  ultimately show ?case using Cons.IH kv by (auto simp: not_less_iff_gr_or_eq)
qed simp

lemma insert_run_accepted:
  assumes "insert_run r s = (Inr u, s')"
  shows "s' = s\<lparr>cp_runs := om_insert (sum_run_id r) r (cp_runs s)\<rparr>"
    "om_get (cp_runs s) (sum_run_id r) = Some p \<Longrightarrow> sum_revision p \<le> sum_revision r"
    "om_get (cp_runs s) (sum_run_id r) = None \<Longrightarrow> length (cp_runs s) < MAX_PROJECTED_RUNS"
proof -
  show "s' = s\<lparr>cp_runs := om_insert (sum_run_id r) r (cp_runs s)\<rparr>"
    using assms unfolding insert_run_def Let_def by (metis Pair_inject sum.distinct(1))
  show "om_get (cp_runs s) (sum_run_id r) = Some p \<Longrightarrow> sum_revision p \<le> sum_revision r"
    "om_get (cp_runs s) (sum_run_id r) = None \<Longrightarrow> length (cp_runs s) < MAX_PROJECTED_RUNS"
    using assms unfolding insert_run_def Let_def by (simp_all split: if_splits)
qed

lemma insert_run_refused: "insert_run r s = (Inl e, s') \<Longrightarrow> s' = s"
  unfolding insert_run_def Let_def by (metis Pair_inject sum.distinct(1))

lemma insert_run_keeps:
  assumes "projection_ok w s" "validate_summary r = Inr ()"
  shows "keeps w s (snd (insert_run r s))"
proof (cases "insert_run r s")
  case (Pair q s')
  show ?thesis
  proof (cases q)
  case (Inr u)
  note run = Pair [unfolded Inr]
  let ?k = "sum_run_id r" and ?m = "cp_runs s"
  let ?s = "s\<lparr>cp_runs := om_insert ?k r ?m\<rparr>"
  have runs: "om_sorted ?m" "length ?m \<le> MAX_PROJECTED_RUNS"
    "\<And>k r. om_get ?m k = Some r \<Longrightarrow> sum_run_id r = k \<and> validate_summary r = Inr ()"
    using assms(1) by (auto simp: projection_ok_def runs_ok_def)
  note newer = insert_run_accepted(2) [OF run] and room = insert_run_accepted(3) [OF run]
  have "length (om_insert ?k r ?m) \<le> MAX_PROJECTED_RUNS"
    using om_insert_bound [of ?k r ?m] om_insert_length_known [OF runs(1), of ?k r] room runs(2)
    by (cases "om_get ?m ?k") auto
  then have "runs_ok (om_insert ?k r ?m)"
    using runs assms(2) by (auto simp: runs_ok_def om_insert_sorted om_get_insert)
  then have "projection_ok w ?s" using assms(1) by (simp add: projection_ok_def)
  moreover have "fenced_rank s k \<le> fenced_rank ?s k" for k
    using runs(1) newer by (cases k; cases "om_get ?m ?k") (auto simp: fenced_rank_def om_get_insert)
  ultimately show ?thesis using Pair insert_run_accepted(1) [OF run] by (simp add: keeps_def le_fun_def)
  qed (use Pair insert_run_refused assms(1) keeps_refl in fastforce)
qed

lemma insert_runs_keeps:
  "projection_ok w s \<Longrightarrow> \<forall>r \<in> set rs. validate_summary r = Inr () \<Longrightarrow> keeps w s (snd (insert_runs rs s))"
proof (induction rs arbitrary: s)
  case (Cons r rs)
  obtain u s1 where step: "insert_run r s = (u, s1)" by (cases "insert_run r s")
  have "keeps w s s1" using insert_run_keeps [of w s r] Cons.prems step by simp
  moreover from this have "keeps w s1 (snd (insert_runs rs s1))"
    using Cons.IH [of s1] Cons.prems(2) by (simp add: keeps_def)
  ultimately show ?case using step keeps_trans by (cases u) auto
qed (simp add: keeps_refl)

lemma commit_keeps:
  assumes "projection_ok w s" "\<forall>c \<in> set cs. c = Inr () \<Longrightarrow> keeps w s (f s)"
  shows "keeps w s (snd (commit_after cs f s))"
  using assms first_error_Inr [of cs "()"] by (cases "first_error cs") (auto simp: commit_after_def keeps_refl)

lemma provider_keeps:
  assumes "projection_ok w s" "validate_provider_catalog v = Inr ()" "provider_fresh s known v = Inr ()"
  shows "keeps w s (s\<lparr>cp_provider_catalog := Some v, cp_dynamic_provider_catalog := d\<rparr>)"
proof -
  have "pv_generation c \<le> pv_generation v" if "cp_provider_catalog s = Some c" for c
    using assms(3) that by (auto simp: provider_fresh_def split: if_splits)
  then have "fenced_rank s k \<le> fenced_rank (s\<lparr>cp_provider_catalog := Some v, cp_dynamic_provider_catalog := d\<rparr>) k" for k
    by (cases k; cases "cp_provider_catalog s") (auto simp: fenced_rank_def)
  with assms(1,2) show ?thesis by (auto simp: keeps_def le_fun_def projection_ok_def)
qed

lemma benchmark_keeps:
  assumes "projection_ok w s" "benchmark_publication_validate w v = Inr ()"
    "case cp_benchmark_catalog s of None \<Rightarrow> True | Some previous \<Rightarrow> \<not> bpb_generation v < lc_generation previous"
  shows "keeps w s (s\<lparr>cp_benchmark_catalog := Some (live_catalog v)\<rparr>)"
proof -
  have "fenced_rank s k \<le> fenced_rank (s\<lparr>cp_benchmark_catalog := Some (live_catalog v)\<rparr>) k" for k
    using assms(3) by (cases k; cases "cp_benchmark_catalog s") (auto simp: fenced_rank_def live_catalog_def)
  with assms(1,2) show ?thesis by (auto simp: keeps_def le_fun_def projection_ok_def)
qed

lemma apply_provider_keeps:
  "projection_ok w s \<Longrightarrow> validate_provider_catalog v = Inr () \<Longrightarrow> keeps w s (snd (apply_provider q v s))"
  unfolding apply_provider_def by (rule commit_keeps) (auto intro: provider_keeps)

lemma apply_dynamic_provider_keeps:
  "projection_ok w s \<Longrightarrow> validate_dynamic_catalog w v = Inr () \<Longrightarrow> keeps w s (snd (apply_dynamic_provider q v s))"
  unfolding apply_dynamic_provider_def
  by (rule commit_keeps) (auto intro!: provider_keeps simp: validate_dynamic_catalog_def Let_def result_simps)

lemma apply_lifecycle_keeps:
  "projection_ok w s \<Longrightarrow> validate_campaign_lifecycle v = Inr () \<Longrightarrow> keeps w s (snd (apply_lifecycle expected campaign v s))"
  unfolding apply_lifecycle_def by (rule commit_keeps) (auto intro!: keepsI simp: projection_ok_def)

lemma apply_status_keeps:
  "projection_ok w s \<Longrightarrow> validate_campaign_status v = Inr () \<Longrightarrow> keeps w s (snd (apply_status v s))"
  unfolding apply_status_def
  by (rule commit_keeps)
     (auto intro!: keepsI simp: projection_ok_def validate_campaign_status_def result_simps split: option.splits)

lemmas applied_keeps = commit_keeps apply_provider_keeps apply_dynamic_provider_keeps apply_lifecycle_keeps apply_status_keeps
  insert_run_keeps insert_runs_keeps benchmark_keeps keeps_refl

lemma apply_result_keeps:
  assumes "projection_ok w s" "validate_result w r limits = Inr ()"
  shows "keeps w s (snd (apply_result w c r s))"
proof -
  have plain: "projection_ok w s' \<Longrightarrow> cp_provider_catalog s' = cp_provider_catalog s \<Longrightarrow>
      cp_benchmark_catalog s' = cp_benchmark_catalog s \<Longrightarrow> cp_runs s' = cp_runs s \<Longrightarrow> keeps w s s'" for s'
    using assms(1) by (rule keepsI)
  show ?thesis
    using assms
    by (cases r)
       (auto simp: apply_result_def validate_result_def result_simps projection_ok_def
         intro!: applied_keeps plain split: if_splits option.splits prod.splits)
qed

lemma projection_step_keeps:
  assumes "projection_ok w s"
  shows "keeps w s (snd (projection_step w ev s))"
proof (cases ev)
  case (ProjectionAnswer q r limits)
  show ?thesis
  proof (cases "validate_for w r q limits")
    case (Inr u)
    then show ?thesis
    proof (cases r)
      case (ResponseSuccess version i success)
      show ?thesis
      proof (cases success)
        case (SuccessNegotiated n)
        then show ?thesis using ResponseSuccess Inr ProjectionAnswer assms
          by (auto simp: projection_step_def projection_apply_def accept_negotiated_def keeps_refl
              intro!: keepsI) (auto simp: projection_ok_def)
      next
        case (SuccessOperation d result)
        then have "validate_result w result limits = Inr ()"
          using Inr ResponseSuccess
          by (simp add: validate_for_Inr response_validate_wire_def validate_success_def result_simps split: if_splits)
        then show ?thesis using SuccessOperation ResponseSuccess Inr ProjectionAnswer assms
          by (simp add: projection_step_def projection_apply_def keeps_refl apply_result_keeps)
      qed
    qed (use Inr ProjectionAnswer assms in \<open>simp add: projection_step_def projection_apply_def keeps_refl\<close>)
  qed (use ProjectionAnswer assms in \<open>simp add: projection_step_def projection_apply_def keeps_refl\<close>)
qed (use assms in \<open>auto simp: projection_step_def accept_negotiated_def mark_auth_unavailable_def projection_disconnect_def
     projection_ok_def intro!: keepsI\<close>)

interpretation live: ranked_machine "projection_step w" "projection_ok w" fenced_rank for w
  using projection_step_keeps by unfold_locales (auto simp: keeps_def)

lemma projection_default_ok: "projection_ok w projection_default"
  by (simp add: projection_ok_def projection_default_def runs_ok_def)

section \<open>Properties\<close>


lemma insert_run_room:
  assumes "insert_run r s = (q, s')" "length (cp_runs s) < MAX_PROJECTED_RUNS"
  shows "q = Inl StaleRun \<or> q = Inr () \<and> length (cp_runs s') \<le> Suc (length (cp_runs s))"
proof (cases q)
  case (Inl e)
  then show ?thesis using assms unfolding insert_run_def Let_def by (simp split: if_splits)
next
  case (Inr u)
  then show ?thesis using insert_run_accepted(1) [of r s u s'] assms(1) om_insert_bound [of "sum_run_id r" r "cp_runs s"] by simp
qed

lemma insert_runs_stale:
  "insert_runs rs s = (Inl e, s') \<Longrightarrow> length (cp_runs s) + length rs \<le> MAX_PROJECTED_RUNS \<Longrightarrow> e = StaleRun"
proof (induction rs arbitrary: s)
  case (Cons r rs)
  obtain q s1 where step: "insert_run r s = (q, s1)" by (cases "insert_run r s")
  from insert_run_room [OF step] Cons.prems(2) have "q = Inl StaleRun \<or> q = Inr () \<and> length (cp_runs s1) \<le> Suc (length (cp_runs s))"
    by simp
  then show ?case using Cons.IH [of s1] Cons.prems step by auto
qed simp

lemma apply_result_refused:
  assumes "apply_result w c r s = (Inl e, s')"
  shows "s' = s \<or> is_history_call c \<and> e = StaleRun"
  using assms
  by (cases r)
     (auto simp: apply_result_def apply_provider_def apply_dynamic_provider_def apply_lifecycle_def apply_status_def
       dest: commit_after_Inl insert_run_refused insert_runs_stale split: if_splits option.splits prod.splits)

text \<open>
  C16: A refused answer leaves the projection as it was, with one exception: a history page that is refused for an
  older run keeps the runs before it.
\<close>

theorem refused_answer_kept_out:
  assumes "projection_apply w q r limits s = (Inl e, s')" "\<not> is_history_call (cr_call q) \<or> e \<noteq> StaleRun"
  shows "s' = s"
  using assms
  by (auto simp: projection_apply_def split: sum.splits control_response.splits control_success.splits if_splits
      dest: apply_result_refused)

text \<open>A JSON library that serialises nothing.\<close>

definition silent_wire :: wire where
  "silent_wire = \<lparr>wi_provider_catalog = (\<lambda>_. None), wi_measurement_address = (\<lambda>_ _ _. None), wi_measurement_publication = (\<lambda>_. None),
     wi_benchmark_address = (\<lambda>_ _. None), wi_json = (\<lambda>_. None)\<rparr>"

theorem refused_answer_kept_out_witness:
  "snd (projection_apply silent_wire \<lparr>cr_jsonrpc = ''2.0'', cr_id = 7, cr_timeout_ms = 100, cr_call = CallCapabilities\<rparr>
     (ResponseSuccess ''1.0'' 7 (SuccessOperation [] (ResAcknowledged True))) wire_limits_default projection_default) = projection_default"
proof -
  let ?run = "projection_apply silent_wire \<lparr>cr_jsonrpc = ''2.0'', cr_id = 7, cr_timeout_ms = 100, cr_call = CallCapabilities\<rparr>
     (ResponseSuccess ''1.0'' 7 (SuccessOperation [] (ResAcknowledged True))) wire_limits_default projection_default"
  have "?run = (Inl InvalidResponse, snd ?run)"
    by (simp add: projection_apply_def validate_for_def response_validate_wire_def JSONRPC_VERSION_def)
  from refused_answer_kept_out [OF this] show ?thesis by simp
qed

end
