(* ===== verification/Choice_To_Launch.thy ===== *)
theory Choice_To_Launch
  imports Launch_Statistics
begin

text \<open>
  The path of a choice through the components: measures chosen in \<open>Benchmark_Selection\<close>, handed off,
  materialised and stored by \<open>Materialization\<close>, and launched by \<open>Launch_Statistics\<close>.
\<close>

section \<open>From the choice to the launch\<close>

text \<open>Every live benchmark comes from a benchmark of the catalog the selection was made on.\<close>

definition offered_from :: "benchmark_catalog \<Rightarrow> live_benchmark_catalog \<Rightarrow> bool" where
  "offered_from c live \<longleftrightarrow> (\<forall>p \<in> set (lc_pools live). \<forall>g \<in> set (lp_groups p). \<forall>e \<in> set (lg_benchmarks g).
     \<exists>p' \<in> set (bc_pools c). \<exists>g' \<in> set (bp_groups p'). \<exists>d \<in> set (bg_benchmarks g').
       bp_id p' = lp_id p \<and> bg_id g' = lg_id g \<and> bd_id d = le_id e
       \<and> set (le_measure_ids e) \<subseteq> bm_id ` set (bd_measures d))"

lemma distinct_concat_key:
  assumes "distinct (map f (concat (map h xs)))" "x \<in> set xs" "y \<in> set xs"
    and "a \<in> set (h x)" "b \<in> set (h y)" "f a = f b"
  shows "x = y"
  using assms
proof (induction xs)
  case (Cons z xs)
  have "f ` set (h z) \<inter> f ` (\<Union>v \<in> set xs. set (h v)) = {}" using Cons.prems(1) by (auto simp: image_UN)
  then have apart: "f u \<noteq> f v" if "u \<in> set (h z)" "v \<in> set (h w)" "w \<in> set xs" for u v w
    using that by blast
  show ?case using Cons apart by (auto dest: sym)
qed simp

lemma pools_benchmarks_by_group:
  "pools_benchmarks ps = concat (map bg_benchmarks (concat (map bp_groups ps)))"
  by (induction ps) (simp_all add: pools_benchmarks_def pool_benchmarks_def)

lemma pools_measures_by_benchmark: "pools_measures ps = concat (map bd_measures (pools_benchmarks ps))"
  by (induction ps) (simp_all add: pools_measures_def pool_measures_def pools_benchmarks_def)

lemma single_element:
  assumes "xs \<noteq> []" "distinct xs" "\<And>x y. x \<in> set xs \<Longrightarrow> y \<in> set xs \<Longrightarrow> x = y"
  shows "length xs = 1"
proof -
  have "set xs = {hd xs}" using assms(1) assms(3) [OF _ hd_in_set [OF assms(1)]] hd_in_set [OF assms(1)] by blast
  then show ?thesis using distinct_card [OF assms(2)] by simp
qed

lemma inside_single:
  assumes "catalog_ok c" "offered_from c live" "pool \<in> set (lc_pools live)" "\<not> selection_outside_pool b pool"
    and "lb_measure_ids b \<noteq> []" "g1 \<in> set (lb_group_ids b)" "g2 \<in> set (lb_group_ids b)"
    "i1 \<in> set (lb_benchmark_ids b)" "i2 \<in> set (lb_benchmark_ids b)"
  shows "g1 = g2 \<and> i1 = i2"
proof -
  let ?G = "concat (map bp_groups (bc_pools c))"
  have at: "\<exists>g' d. g' \<in> set ?G \<and> bg_id g' = g \<and> d \<in> set (bg_benchmarks g') \<and> bd_id d = i
      \<and> set (lb_measure_ids b) \<subseteq> bm_id ` set (bd_measures d)"
    if "g \<in> set (lb_group_ids b)" "i \<in> set (lb_benchmark_ids b)" for g i
  proof -
    from selection_inside_pool [OF assms(4) that] obtain group entry where
      "group \<in> set (lp_groups pool)" "lg_id group = g" "entry \<in> set (lg_benchmarks group)" "le_id entry = i"
      "set (lb_measure_ids b) \<subseteq> set (le_measure_ids entry)" by blast
    with assms(2,3) show ?thesis unfolding offered_from_def set_concat by fastforce
  qed
  obtain h1 d1 where 1: "h1 \<in> set ?G" "bg_id h1 = g1" "d1 \<in> set (bg_benchmarks h1)" "bd_id d1 = i1"
    "set (lb_measure_ids b) \<subseteq> bm_id ` set (bd_measures d1)" using at [OF assms(6,8)] by blast
  obtain h2 d2 where 2: "h2 \<in> set ?G" "bg_id h2 = g2" "d2 \<in> set (bg_benchmarks h2)" "bd_id d2 = i2"
    "set (lb_measure_ids b) \<subseteq> bm_id ` set (bd_measures d2)" using at [OF assms(7,9)] by blast
  obtain m where "m \<in> set (lb_measure_ids b)" using assms(5) by fastforce
  then obtain m1 m2 where m: "m1 \<in> set (bd_measures d1)" "m2 \<in> set (bd_measures d2)" "bm_id m1 = bm_id m2"
    using subsetD [OF 1(5)] subsetD [OF 2(5)] by (metis imageE)
  have ok: "distinct (map bd_id (concat (map bg_benchmarks ?G)))"
    "distinct (map bm_id (concat (map bd_measures (pools_benchmarks (bc_pools c)))))"
    using assms(1) unfolding catalog_ok_def pools_measures_by_benchmark pools_benchmarks_by_group by blast+
  have "d1 \<in> set (pools_benchmarks (bc_pools c))" "d2 \<in> set (pools_benchmarks (bc_pools c))"
    using 1(1,3) 2(1,3) unfolding pools_benchmarks_by_group by auto
  then have "d1 = d2" using distinct_concat_key [OF ok(2)] m by blast
  moreover from this have "h1 = h2" using distinct_concat_key [OF ok(1) 1(1) 2(1) 1(3) 2(3)] by simp
  ultimately show ?thesis using 1 2 by simp
qed

text \<open>
  Only one benchmark can be launched at a time. The launch fence asks every selected group
  for every selected benchmark, and every selected benchmark for every selected measure; since
  a catalog lists no benchmark and no measure twice, a selection that spans two groups or two
  benchmarks of it never becomes a launch request.
\<close>

theorem only_single_benchmark_launches:
  assumes "catalog_new generation digest pools = Inr c"
    and "sn_benchmark_catalog s = Some live" and "offered_from c live"
    and "launch_request_new to_string bundle s key = Inr request"
  shows "length (lb_group_ids (lr_binding request)) = 1 \<and> length (lb_benchmark_ids (lr_binding request)) = 1"
proof -
  let ?b = "bundle_launch_binding bundle"
  from assms(4) have v: "launch_validate_binding to_string bundle s = Inr ()"
    and req: "lr_binding request = ?b"
    by (auto simp: launch_request_new_def result_simps)
  obtain catalog pool where f: "sn_benchmark_catalog s = Some catalog" "pool \<in> set (lc_pools catalog)"
    "\<not> selection_outside_pool ?b pool" "lb_group_ids ?b \<noteq> []" "lb_benchmark_ids ?b \<noteq> []" "lb_measure_ids ?b \<noteq> []"
    "distinct (lb_group_ids ?b)" "distinct (lb_benchmark_ids ?b)"
    using v by (rule launch_validate_Inr)
  have "pool \<in> set (lc_pools live)" using f assms(2) by simp
  note one = inside_single [OF catalog_new_ok [OF assms(1)] assms(3) this f(3,6)]
  have "x = y" if "x \<in> set (lb_group_ids ?b)" "y \<in> set (lb_group_ids ?b)" for x y
    using one [OF that hd_in_set [OF f(5)] hd_in_set [OF f(5)]] ..
  moreover have "x = y" if "x \<in> set (lb_benchmark_ids ?b)" "y \<in> set (lb_benchmark_ids ?b)" for x y
    using one [OF hd_in_set [OF f(4)] hd_in_set [OF f(4)] that] ..
  ultimately show ?thesis
    unfolding req using single_element f(4,5,7,8) by blast
qed

lemma sample_offered: "sn_benchmark_catalog sample_snapshot = Some live \<Longrightarrow> offered_from (sample_catalog 1 True) live"
  by (auto simp: sample_snapshot_def offered_from_def sample_catalog_def sample_pool_def)

theorem only_single_benchmark_launches_witness:
  "length (lb_group_ids (lr_binding sample_request)) = 1"
proof -
  obtain live where "sn_benchmark_catalog sample_snapshot = Some live" by (simp add: sample_snapshot_def)
  from only_single_benchmark_launches [OF sample_catalog_new this sample_offered [OF this] sample_request_made]
  show ?thesis by blast
qed

lemma selected_measure_ids_set: "sel_inv s \<Longrightarrow> set (selected_measure_ids s) = bs_selected_measures s"
  using active_measure_subset
  by (auto simp: selected_measure_ids_def active_measure_ids_def is_measure_selected_def sel_inv_def offered_ids_def)

text \<open>
  C1: what the user chose is what is launched. Measures chosen by any sequence of selections,
  handed off, built into a bundle with the reviewed provider draft, applied to the store and
  loaded back, become a launch request for exactly these measures, this pool, provider, model
  and agents, and only while the live catalogs are at the generations that were reviewed.
\<close>

theorem reviewed_choice_reaches_launch:
  fixes ops
  assumes "catalog_new generation digest pools = Inr c" and "selection_new c = Inr s0"
  defines "s \<equiv> run_calls selection_step ops s0"
  assumes "campaign_handoff s g = Inr (mi_benchmark i)"
    and "bundle_build to_string i draft (bs_catalog s) expected_provider expected_benchmark = Inr b"
    and "store_apply to_string from_slice b d = (Inr (), d')"
    and "from_slice (bu_canonical_json b) = Some (bu_document b)"
    and "store_load to_string from_slice d' = (Inr (Some loaded), d'')"
    and "launch_request_new to_string loaded snapshot key = Inr request"
  shows "set (lb_measure_ids (lr_binding request)) = bs_selected_measures s
       \<and> lb_benchmark_catalog_generation (lr_binding request) = bc_generation (bs_catalog s)
       \<and> lb_pool_id (lr_binding request) = bs_pool_id s
       \<and> lb_provider_id (lr_binding request) = sel_provider_id (st_selection draft)
       \<and> lb_model_id (lr_binding request) = sel_model_id (st_selection draft)
       \<and> lb_agent_ids (lr_binding request) = sel_agent_ids (st_selection draft)
       \<and> map_option pv_generation (sn_provider_catalog snapshot) = Some (st_catalog_generation draft)
       \<and> map_option lc_generation (sn_benchmark_catalog snapshot) = Some (bc_generation (bs_catalog s))"
proof -
  have inv: "sel_inv s"
    unfolding s_def using selection.run_inv [OF selection_new_inv] catalog_new_ok assms(1,2) by blast
  have loaded: "loaded = b"
    using applied_loads [OF assms(6,7)] assms(8) by simp
  have handoff: "cs_measure_ids (mi_benchmark i) = selected_measure_ids s"
    "campaign_selection.cs_generation (mi_benchmark i) = bc_generation (bs_catalog s)" "cs_pool_id (mi_benchmark i) = bs_pool_id s"
    using assms(4) by (auto simp: campaign_handoff_def Let_def split: if_splits dest: sym)
  note built = bundle_build_Inr [OF assms(5)]
  have req: "lr_binding request = bundle_launch_binding b"
    and v: "launch_validate_binding to_string b snapshot = Inr ()"
    using assms(9) loaded by (auto simp: launch_request_new_def result_simps)
  obtain provider catalog where live: "sn_provider_catalog snapshot = Some provider"
    "pv_generation provider = lb_provider_catalog_generation (bundle_launch_binding b)"
    "sn_benchmark_catalog snapshot = Some catalog"
    "lc_generation catalog = lb_benchmark_catalog_generation (bundle_launch_binding b)"
    using v by (rule launch_validate_Inr)
  show ?thesis
    using live handoff built(3-6) selected_measure_ids_set [OF inv]
    by (simp add: req bundle_launch_binding_def Let_def built(7) unsigned_document_def)
qed

theorem reviewed_choice_reaches_launch_witness:
  "set (lb_measure_ids (lr_binding sample_request)) = {''cpu''}"
proof -
  let ?digest = "replicate 64 CHR ''b''" and ?ops = "[SetMeasure ''cpu'' True]"
  let ?c = "(sample_catalog 1 True)\<lparr>bc_digest := ?digest\<rparr>"
  let ?s0 = "sample_selection\<lparr>bs_catalog := ?c\<rparr>"
  have 1: "catalog_new 1 ?digest [sample_pool True] = Inr ?c" by code_simp
  have 2: "selection_new ?c = Inr ?s0" by code_simp
  have 3: "campaign_handoff (run_calls selection_step ?ops ?s0) 1 = Inr (mi_benchmark sample_input)"
    by code_simp
  have "bs_catalog (run_calls selection_step ?ops ?s0) = ?c" by code_simp
  then have 4: "bundle_build sample_writer sample_input material_draft
      (bs_catalog (run_calls selection_step ?ops ?s0)) 1 1 = Inr sample_bundle"
    using sample_build by simp
  have "bs_selected_measures (run_calls selection_step ?ops ?s0) = {''cpu''}" by code_simp
  with reviewed_choice_reaches_launch [OF 1 2 3 4 sample_apply sample_reads_back
      applied_loads [OF sample_apply sample_reads_back] sample_request_made]
  show ?thesis by blast
qed

end
