(* ===== verification/Wizard_Catalog.thy ===== *)
theory Wizard_Catalog
  imports Provider_Catalog
begin

text \<open>
  Model of \<open>src/wizard_catalog.rs\<close>: the bounded options of the setup wizard, the catalog that ties
  providers to agents and models to providers, and the picker that filters and selects them; of the
  conversion of a provider catalog into options (\<open>wizard_options\<close> of \<open>src/provider_catalog.rs\<close>);
  and of \<open>src/selection_control.rs\<close>, the text of the rows and summaries. Dashes outside ASCII are
  written as their UTF-8 bytes.
\<close>

section \<open>Options\<close>

definition MAX_OPTIONS :: nat where "MAX_OPTIONS = 64"
definition MAX_OPTION_ID_BYTES :: nat where "MAX_OPTION_ID_BYTES = 128"
definition MAX_LABEL_BYTES :: nat where "MAX_LABEL_BYTES = 256"
definition MAX_QUERY_BYTES :: nat where "MAX_QUERY_BYTES = 128"

datatype option_kind = KindAgent | KindProvider | KindModel

record wizard_option =
  wo_id :: string
  wo_label :: string
  wo_available :: bool
  wo_unavailable_reason :: "string option"
  wo_compatible_ids :: "string list"

definition option_id_ok :: "string \<Rightarrow> bool" where
  "option_id_ok i \<longleftrightarrow> i \<noteq> [] \<and> length i \<le> MAX_OPTION_ID_BYTES \<and> is_ascii i \<and> \<not> has_control i"

definition option_text_ok :: "string \<Rightarrow> bool" where
  "option_text_ok s \<longleftrightarrow> trim s \<noteq> [] \<and> length s \<le> MAX_LABEL_BYTES \<and> is_ascii s \<and> \<not> has_control s"

text \<open>The loop over the compatible ids stops at the first that is malformed or repeated.\<close>

definition validate_option :: "wizard_option \<Rightarrow> (string, unit) result" where
  "validate_option o1 =
     (if \<not> option_id_ok (wo_id o1) then Inl ''invalid wizard catalog option id''
      else if \<not> option_text_ok (wo_label o1) then Inl ''invalid wizard catalog option label''
      else if wo_available o1 \<and> wo_unavailable_reason o1 \<noteq> None
      then Inl ''available wizard catalog option has an unavailable reason''
      else if (case wo_unavailable_reason o1 of None \<Rightarrow> False | Some r \<Rightarrow> \<not> option_text_ok r)
      then Inl ''invalid wizard catalog unavailable reason''
      else if list_ex (\<lambda>i. \<not> option_id_ok i) (wo_compatible_ids o1) \<or> has_duplicate (wo_compatible_ids o1)
      then Inl ''invalid wizard catalog compatibility id'' else Inr ())"

definition option_new :: "string \<Rightarrow> string \<Rightarrow> bool \<Rightarrow> (string, wizard_option) result" where
  "option_new i label available =
     (let o1 = \<lparr>wo_id = i, wo_label = label, wo_available = available, wo_unavailable_reason = None,
        wo_compatible_ids = []\<rparr> in and_then (validate_option o1) (\<lambda>_. Inr o1))"

definition compatible_with :: "string list \<Rightarrow> wizard_option \<Rightarrow> (string, wizard_option) result" where
  "compatible_with ids o1 =
     (let o2 = o1\<lparr>wo_compatible_ids := ids\<rparr> in and_then (validate_option o2) (\<lambda>_. Inr o2))"

definition with_unavailable_reason :: "string \<Rightarrow> wizard_option \<Rightarrow> (string, wizard_option) result" where
  "with_unavailable_reason reason o1 =
     (let o2 = o1\<lparr>wo_unavailable_reason := Some reason\<rparr> in and_then (validate_option o2) (\<lambda>_. Inr o2))"

fun validate_options_loop :: "string \<Rightarrow> wizard_option list \<Rightarrow> string set \<Rightarrow> (string, unit) result" where
  "validate_options_loop name [] seen = Inr ()"
| "validate_options_loop name (o1 # os) seen =
     and_then (validate_option o1) (\<lambda>_.
       if wo_id o1 \<in> seen then Inl (''duplicate '' @ name @ '' catalog option'')
       else validate_options_loop name os (insert (wo_id o1) seen))"

definition validate_options :: "wizard_option list \<Rightarrow> string \<Rightarrow> (string, unit) result" where
  "validate_options os name =
     (if MAX_OPTIONS < length os
      then Inl (name @ '' catalog exceeds '' @ show_nat MAX_OPTIONS @ '' options'')
      else validate_options_loop name os {})"

section \<open>The catalog\<close>

record wizard_catalog =
  wc_agents :: "wizard_option list"
  wc_providers :: "wizard_option list"
  wc_models :: "wizard_option list"

definition references_complete :: "wizard_option list \<Rightarrow> wizard_option list \<Rightarrow> bool" where
  "references_complete targets os \<longleftrightarrow>
     list_all (\<lambda>o1. wo_compatible_ids o1 \<noteq> []
       \<and> list_all (\<lambda>i. i \<in> set (map wo_id targets)) (wo_compatible_ids o1)) os"

definition wizard_catalog_new :: "wizard_option list \<Rightarrow> wizard_option list \<Rightarrow> wizard_option list \<Rightarrow>
    (string, wizard_catalog) result" where
  "wizard_catalog_new agents providers models =
     and_then (validate_options agents ''agents'') (\<lambda>_.
     and_then (validate_options providers ''providers'') (\<lambda>_.
     and_then (validate_options models ''models'') (\<lambda>_.
       if \<not> references_complete agents providers then Inl ''provider compatibility references are incomplete''
       else if \<not> references_complete providers models then Inl ''model compatibility references are incomplete''
       else Inr \<lparr>wc_agents = agents, wc_providers = providers, wc_models = models\<rparr>)))"

definition wizard_development_catalog :: "(string, wizard_catalog) result" where
  "wizard_development_catalog =
     and_then (option_new ''fake-alpha'' ''fake-alpha'' True) (\<lambda>alpha.
     and_then (option_new ''fake-beta'' ''fake-beta'' True) (\<lambda>beta.
     and_then (option_new ''development'' ''Development fixture'' True) (\<lambda>provider.
     and_then (compatible_with [''fake-alpha'', ''fake-beta''] provider) (\<lambda>provider.
     and_then (option_new ''fixture-model'' ''Development fixture model'' True) (\<lambda>model.
     and_then (compatible_with [''development''] model) (\<lambda>model.
       wizard_catalog_new [alpha, beta] [provider] [model]))))))"

definition catalog_options :: "wizard_catalog \<Rightarrow> option_kind \<Rightarrow> wizard_option list" where
  "catalog_options c k = (case k of KindAgent \<Rightarrow> wc_agents c | KindProvider \<Rightarrow> wc_providers c
     | KindModel \<Rightarrow> wc_models c)"

text \<open>The options of a connected provider catalog.\<close>

definition model_option :: "string \<Rightarrow> bool \<Rightarrow> provider_model \<Rightarrow> (string, wizard_option) result" where
  "model_option provider_id provider_available m =
     (let available = (provider_available \<and> pm_availability m = ProviderAvailable) in
      and_then (option_new (pm_model_id m)
        (if available then pm_model_id m else pm_model_id m @ '' (unavailable)'') available) (\<lambda>o1.
      compatible_with [provider_id] o1))"

definition provider_option :: "provider_catalog_entry \<Rightarrow> (string, wizard_option) result" where
  "provider_option p =
     (let available = (pe_availability p = ProviderAvailable) in
      option_new (pe_provider_id p)
        (if available then pe_display_name p else pe_display_name p @ '' (unavailable)'') available)"

text \<open>\<open>collect::<Result<Vec<_>, _>>()\<close>: the first error is the result.\<close>

fun collect_results :: "('e, 'a) result list \<Rightarrow> ('e, 'a list) result" where
  "collect_results [] = Inr []"
| "collect_results (r # rs) = and_then r (\<lambda>x. and_then (collect_results rs) (\<lambda>xs. Inr (x # xs)))"

definition wizard_options :: "provider_catalog \<Rightarrow> (string, wizard_option list \<times> wizard_option list) result" where
  "wizard_options pc =
     and_then (collect_results (map provider_option (pv_providers pc))) (\<lambda>providers.
     and_then (collect_results (concat (map (\<lambda>p. map (model_option (pe_provider_id p)
         (pe_availability p = ProviderAvailable)) (pe_models p)) (pv_providers pc)))) (\<lambda>models.
       Inr (providers, models)))"

section \<open>The picker\<close>

record wizard_catalog_state =
  wk_catalog :: wizard_catalog
  wk_kind :: option_kind
  wk_cursor :: nat
  wk_query :: string
  wk_agents :: "string list"
  wk_all_agents :: bool
  wk_agent :: "string option"
  wk_provider :: "string option"
  wk_model :: "string option"

definition picker_new :: "wizard_catalog \<Rightarrow> option_kind \<Rightarrow> wizard_catalog_state" where
  "picker_new c k = \<lparr>wk_catalog = c, wk_kind = k, wk_cursor = 0, wk_query = [], wk_agents = [],
     wk_all_agents = False, wk_agent = None, wk_provider = None, wk_model = None\<rparr>"

definition set_kind :: "option_kind \<Rightarrow> wizard_catalog_state \<Rightarrow> wizard_catalog_state" where
  "set_kind k s = s\<lparr>wk_kind := k, wk_query := [], wk_cursor := 0\<rparr>"

definition reset_draft :: "wizard_catalog_state \<Rightarrow> wizard_catalog_state" where
  "reset_draft s = s\<lparr>wk_query := [], wk_cursor := 0, wk_agents := [], wk_all_agents := False,
     wk_agent := None, wk_provider := None, wk_model := None, wk_kind := KindAgent\<rparr>"

definition picker_selected :: "wizard_catalog_state \<Rightarrow> option_kind \<Rightarrow> string option" where
  "picker_selected s k = (case k of KindAgent \<Rightarrow> wk_agent s | KindProvider \<Rightarrow> wk_provider s
     | KindModel \<Rightarrow> wk_model s)"

definition picker_selected_ids :: "wizard_catalog_state \<Rightarrow> option_kind \<Rightarrow> string list" where
  "picker_selected_ids s k = (case k of KindAgent \<Rightarrow> wk_agents s
     | KindProvider \<Rightarrow> (case wk_provider s of None \<Rightarrow> [] | Some i \<Rightarrow> [i])
     | KindModel \<Rightarrow> (case wk_model s of None \<Rightarrow> [] | Some i \<Rightarrow> [i]))"

definition option_compatible :: "wizard_catalog_state \<Rightarrow> wizard_option \<Rightarrow> bool" where
  "option_compatible s o1 = (case wk_kind s of
       KindAgent \<Rightarrow> True
     | KindProvider \<Rightarrow> wk_agents s \<noteq> [] \<and> list_all (\<lambda>i. i \<in> set (wo_compatible_ids o1)) (wk_agents s)
     | KindModel \<Rightarrow> (case wk_provider s of None \<Rightarrow> False | Some i \<Rightarrow> i \<in> set (wo_compatible_ids o1)))"

definition option_matches :: "string \<Rightarrow> wizard_option \<Rightarrow> bool" where
  "option_matches q o1 \<longleftrightarrow> q = [] \<or> str_contains (to_ascii_lowercase (wo_id o1)) q
     \<or> str_contains (to_ascii_lowercase (wo_label o1)) q"

definition visible_options :: "wizard_catalog_state \<Rightarrow> wizard_option list" where
  "visible_options s =
     (let q = to_ascii_lowercase (wk_query s) in
      filter (\<lambda>o1. option_compatible s o1 \<and> option_matches q o1) (catalog_options (wk_catalog s) (wk_kind s)))"

definition set_query :: "string \<Rightarrow> (wizard_catalog_state, string, unit) call" where
  "set_query q s =
     (if MAX_QUERY_BYTES < length q \<or> \<not> is_ascii q \<or> has_control q
      then (Inl ''invalid wizard catalog query'', s)
      else (Inr (), s\<lparr>wk_query := q, wk_cursor := 0\<rparr>))"

text \<open>
  \<open>saturating_add_signed\<close> stops at zero and at the largest \<open>usize\<close>; the second bound is above every
  count, so the minimum with the last visible index hides it.
\<close>

definition move_cursor :: "int \<Rightarrow> wizard_catalog_state \<Rightarrow> wizard_catalog_state" where
  "move_cursor offset s =
     (let count = length (visible_options s) in
      if count = 0 then s\<lparr>wk_cursor := 0\<rparr>
      else s\<lparr>wk_cursor := min (nat (int (wk_cursor s) + offset)) (count - 1)\<rparr>)"

definition set_selected :: "string \<Rightarrow> wizard_catalog_state \<Rightarrow> wizard_catalog_state" where
  "set_selected i s = (case wk_kind s of
       KindAgent \<Rightarrow> s\<lparr>wk_agents := [i], wk_all_agents := False, wk_agent := Some i, wk_provider := None,
         wk_model := None\<rparr>
     | KindProvider \<Rightarrow> s\<lparr>wk_provider := Some i, wk_model := None\<rparr>
     | KindModel \<Rightarrow> s\<lparr>wk_model := Some i\<rparr>)"

definition at_cursor :: "wizard_catalog_state \<Rightarrow> wizard_option option" where
  "at_cursor s = (let os = visible_options s in
     if wk_cursor s < length os then Some (os ! wk_cursor s) else None)"

definition select_cursor :: "(wizard_catalog_state, string, unit) call" where
  "select_cursor s =
     (case at_cursor s of
        None \<Rightarrow> (Inl ''no wizard catalog option is visible'', s)
      | Some o1 \<Rightarrow> if \<not> wo_available o1 then (Inl ''wizard catalog option is unavailable'', s)
                  else (Inr (), set_selected (wo_id o1) s))"

definition first_of :: "'a list \<Rightarrow> 'a option" where
  "first_of xs = (case xs of [] \<Rightarrow> None | x # _ \<Rightarrow> Some x)"

definition toggle_agent_cursor :: "(wizard_catalog_state, string, unit) call" where
  "toggle_agent_cursor s =
     (if wk_kind s \<noteq> KindAgent then (Inl ''agent multi-selection is only available on the agent step'', s)
      else case at_cursor s of
        None \<Rightarrow> (Inl ''no wizard catalog option is visible'', s)
      | Some o1 \<Rightarrow>
          if \<not> wo_available o1 then (Inl ''wizard catalog option is unavailable'', s)
          else let agents = (if wo_id o1 \<in> set (wk_agents s) then remove1 (wo_id o1) (wk_agents s)
                             else sort (wk_agents s @ [wo_id o1]))
               in (Inr (), s\<lparr>wk_all_agents := False, wk_agents := agents, wk_agent := first_of agents,
                     wk_provider := None, wk_model := None\<rparr>))"

fun push_missing :: "'a list \<Rightarrow> 'a list \<Rightarrow> 'a list" where
  "push_missing xs [] = xs"
| "push_missing xs (y # ys) = push_missing (if y \<in> set xs then xs else xs @ [y]) ys"

definition available_ids :: "wizard_option list \<Rightarrow> string list" where
  "available_ids os = map wo_id (filter wo_available os)"

definition toggle_visible_agents :: "(wizard_catalog_state, string, unit) call" where
  "toggle_visible_agents s =
     (if wk_kind s \<noteq> KindAgent then (Inl ''all-agent selection is only available on the agent step'', s)
      else let visible = available_ids (visible_options s) in
        if visible = [] then (Inl ''no available agents are present in the catalog'', s)
        else let clear = list_all (\<lambda>i. i \<in> set (wk_agents s)) visible;
                 agents = (if clear then filter (\<lambda>i. i \<notin> set visible) (wk_agents s)
                           else sort (push_missing (wk_agents s) visible));
                 every = list_all (\<lambda>i. i \<in> set agents) (available_ids (wc_agents (wk_catalog s)))
             in (Inr (), s\<lparr>wk_agents := agents, wk_all_agents := every, wk_agent := first_of agents,
                   wk_provider := None, wk_model := None\<rparr>))"

definition selected_for_active_kind :: "wizard_catalog_state \<Rightarrow> string option" where
  "selected_for_active_kind s = picker_selected s (wk_kind s)"

text \<open>The calls of a picker, for sequences of them.\<close>

datatype picker_call =
  PickKind option_kind | PickReset | PickQuery string | PickMove int | PickCursor | PickToggle | PickAll

definition picker_step :: "picker_call \<Rightarrow> (wizard_catalog_state, string, unit) call" where
  "picker_step c s = (case c of
       PickKind k \<Rightarrow> (Inr (), set_kind k s)
     | PickReset \<Rightarrow> (Inr (), reset_draft s)
     | PickQuery q \<Rightarrow> set_query q s
     | PickMove n \<Rightarrow> (Inr (), move_cursor n s)
     | PickCursor \<Rightarrow> select_cursor s
     | PickToggle \<Rightarrow> toggle_agent_cursor s
     | PickAll \<Rightarrow> toggle_visible_agents s)"

section \<open>Rows and summaries\<close>

datatype selection_mode = SelectSingle | SelectMultiple

record selection_row =
  sr_label :: string
  sr_selected :: bool
  sr_focused :: bool
  sr_enabled :: bool
  sr_disabled_reason :: "string option"

definition row_enabled :: "string \<Rightarrow> bool \<Rightarrow> bool \<Rightarrow> selection_row" where
  "row_enabled label selected focused = \<lparr>sr_label = label, sr_selected = selected, sr_focused = focused,
     sr_enabled = True, sr_disabled_reason = None\<rparr>"

definition row_disabled :: "string \<Rightarrow> bool \<Rightarrow> string \<Rightarrow> selection_row" where
  "row_disabled label focused reason = \<lparr>sr_label = label, sr_selected = False, sr_focused = focused,
     sr_enabled = False, sr_disabled_reason = Some reason\<rparr>"

definition em_dash :: string where
  "em_dash = [CHR 0xE2, CHR 0x80, CHR 0x94]"

definition row_text :: "selection_row \<Rightarrow> string" where
  "row_text r =
     (let cursor = (if sr_focused r then ''>'' else '' '');
          check = (if sr_selected r then ''[x]'' else ''[ ]'');
          base = cursor @ '' '' @ check @ '' '' @ sr_label r
      in if sr_enabled r then base
         else case sr_disabled_reason r of
           Some reason \<Rightarrow> base @ '' '' @ em_dash @ '' unavailable: '' @ reason
         | None \<Rightarrow> base @ '' '' @ em_dash @ '' unavailable'')"

definition summary_text :: "string \<Rightarrow> string list \<Rightarrow> selection_mode \<Rightarrow> string list" where
  "summary_text title selected mode =
     (let noun = (case mode of SelectSingle \<Rightarrow> ''choice'' | SelectMultiple \<Rightarrow> ''choices'')
      in if selected = [] then [title @ '': none selected'', ''0 '' @ noun]
         else [title @ '': '' @ show_nat (length selected) @ '' selected'', join '', '' selected])"

definition compact_action_hint :: "selection_mode \<Rightarrow> string" where
  "compact_action_hint mode = (case mode of SelectSingle \<Rightarrow> ''Enter selects focused choice.''
     | SelectMultiple \<Rightarrow> ''Space toggle; A select/clear visible.'')"

definition action_hint :: "selection_mode \<Rightarrow> string" where
  "action_hint mode = (case mode of SelectSingle \<Rightarrow> ''Enter selects the focused available choice.''
     | SelectMultiple \<Rightarrow> ''Space toggles; A selects all or clears all visible choices.'')"


section \<open>What a picker guarantees\<close>

text \<open>A chosen provider or model is an available option of the catalog for what it depends on.\<close>

definition offers :: "wizard_option list \<Rightarrow> string \<Rightarrow> string set \<Rightarrow> bool" where
  "offers os i needed \<longleftrightarrow>
     list_ex (\<lambda>o1. wo_id o1 = i \<and> wo_available o1 \<and> needed \<subseteq> set (wo_compatible_ids o1)) os"

definition choice_ok :: "wizard_catalog \<Rightarrow> string list \<Rightarrow> string option \<Rightarrow> string option \<Rightarrow> bool" where
  "choice_ok c agents provider model \<longleftrightarrow>
     (case provider of None \<Rightarrow> model = None
      | Some p \<Rightarrow> agents \<noteq> [] \<and> offers (wc_providers c) p (set agents)
          \<and> (case model of None \<Rightarrow> True | Some m \<Rightarrow> offers (wc_models c) m {p}))"

definition picker_ok :: "wizard_catalog \<Rightarrow> wizard_catalog_state \<Rightarrow> bool" where
  "picker_ok c s \<longleftrightarrow> wk_catalog s = c
     \<and> sorted (wk_agents s) \<and> distinct (wk_agents s)
     \<and> set (wk_agents s) \<subseteq> set (available_ids (wc_agents c))
     \<and> wk_agent s = first_of (wk_agents s)
     \<and> (wk_all_agents s \<longrightarrow> set (available_ids (wc_agents c)) \<subseteq> set (wk_agents s))
     \<and> choice_ok c (wk_agents s) (wk_provider s) (wk_model s)
     \<and> (wk_cursor s = 0 \<or> wk_cursor s < length (visible_options s))"

lemma push_missing_set [simp]: "set (push_missing xs ys) = set xs \<union> set ys"
  by (induction xs ys rule: push_missing.induct) auto

lemma push_missing_distinct [simp]: "distinct (push_missing xs ys) \<longleftrightarrow> distinct xs"
  by (induction xs ys rule: push_missing.induct) auto

lemma choice_ok_None [simp]: "choice_ok c agents None None"
  by (simp add: choice_ok_def)

lemma visible_options_agent:
  "wk_kind s = KindAgent \<Longrightarrow> visible_options s =
     filter (option_matches (to_ascii_lowercase (wk_query s))) (wc_agents (wk_catalog s))"
  by (simp add: visible_options_def option_compatible_def catalog_options_def)

lemma at_cursor_visible: "at_cursor s = Some o1 \<Longrightarrow> o1 \<in> set (visible_options s)"
  by (auto simp: at_cursor_def Let_def split: if_splits)

lemma available_visible:
  "wk_kind s = KindAgent \<Longrightarrow> set (available_ids (visible_options s)) \<subseteq> set (available_ids (wc_agents (wk_catalog s)))"
  by (auto simp: visible_options_agent available_ids_def)

lemma cursor_agent:
  assumes "at_cursor s = Some o1" "wo_available o1" "wk_kind s = KindAgent"
  shows "wo_id o1 \<in> set (available_ids (wc_agents (wk_catalog s)))"
  using at_cursor_visible [OF assms(1)] assms(2,3)
  by (auto simp: visible_options_agent available_ids_def)

text \<open>Selecting what is visible meets the dependency the visibility was computed from.\<close>

lemma visible_offers:
  assumes "o1 \<in> set (visible_options s)" "wo_available o1"
  shows "(wk_kind s = KindProvider \<longrightarrow> wk_agents s \<noteq> []
            \<and> offers (wc_providers (wk_catalog s)) (wo_id o1) (set (wk_agents s)))
       \<and> (wk_kind s = KindModel \<longrightarrow> (\<exists>p. wk_provider s = Some p
            \<and> offers (wc_models (wk_catalog s)) (wo_id o1) {p}))"
  using assms
  by (auto simp: visible_options_def option_compatible_def catalog_options_def offers_def list_ex_iff
      list_all_iff subset_iff split: option.splits)

lemma visible_only_depends:
  assumes "wk_kind s' = wk_kind s" "wk_query s' = wk_query s" "wk_catalog s' = wk_catalog s"
    and "wk_kind s = KindProvider \<Longrightarrow> wk_agents s' = wk_agents s"
    and "wk_kind s = KindModel \<Longrightarrow> wk_provider s' = wk_provider s"
  shows "visible_options s' = visible_options s"
  using assms by (cases "wk_kind s") (simp_all add: visible_options_def option_compatible_def)

lemma select_cursor_ok:
  assumes "picker_ok c s" shows "picker_ok c (snd (select_cursor s))"
proof (cases "at_cursor s")
  case (Some o1)
  note vis = visible_offers [OF at_cursor_visible [OF Some]]
  show ?thesis
  proof (cases "wo_available o1")
    case True
    have same: "visible_options (set_selected (wo_id o1) s) = visible_options s"
      by (rule visible_only_depends) (simp_all add: set_selected_def split: option_kind.splits)
    show ?thesis
    proof (cases "wk_kind s")
      case KindAgent
      then show ?thesis using assms Some True same cursor_agent [OF Some True KindAgent]
        by (simp add: picker_ok_def select_cursor_def set_selected_def first_of_def)
    next
      case KindProvider
      then show ?thesis using assms Some True same vis [OF True]
        by (simp add: picker_ok_def select_cursor_def set_selected_def choice_ok_def)
    next
      case KindModel
      then show ?thesis using assms Some True same vis [OF True]
        by (auto simp: picker_ok_def select_cursor_def set_selected_def choice_ok_def)
    qed
  qed (use assms Some in \<open>simp add: select_cursor_def\<close>)
qed (use assms in \<open>simp add: select_cursor_def\<close>)


lemma toggle_agent_ok:
  assumes "picker_ok c s" shows "picker_ok c (snd (toggle_agent_cursor s))"
proof (cases "wk_kind s = KindAgent \<and> (\<exists>o1. at_cursor s = Some o1 \<and> wo_available o1)")
  case True
  then obtain o1 where o1: "wk_kind s = KindAgent" "at_cursor s = Some o1" "wo_available o1" by auto
  have "visible_options (snd (toggle_agent_cursor s)) = visible_options s"
    by (rule visible_only_depends) (use o1 in \<open>simp_all add: toggle_agent_cursor_def Let_def\<close>)
  then show ?thesis using assms o1 cursor_agent [OF o1(2,3,1)]
    by (auto simp: picker_ok_def toggle_agent_cursor_def Let_def sorted_remove1)
next
  case False
  then have "snd (toggle_agent_cursor s) = s"
    by (auto simp: toggle_agent_cursor_def split: option.splits)
  then show ?thesis using assms by simp
qed

lemma toggle_visible_ok:
  assumes "picker_ok c s" shows "picker_ok c (snd (toggle_visible_agents s))"
proof (cases "wk_kind s = KindAgent \<and> available_ids (visible_options s) \<noteq> []")
  case True
  have "visible_options (snd (toggle_visible_agents s)) = visible_options s"
    by (rule visible_only_depends) (use True in \<open>simp_all add: toggle_visible_agents_def Let_def\<close>)
  moreover have "set (available_ids (visible_options s)) \<subseteq> set (available_ids (wc_agents c))"
    using True available_visible [of s] assms by (simp add: picker_ok_def)
  ultimately show ?thesis using assms True
    by (auto simp: picker_ok_def toggle_visible_agents_def Let_def sorted_wrt_filter list_all_iff)
next
  case False
  then have "snd (toggle_visible_agents s) = s"
    by (auto simp: toggle_visible_agents_def Let_def)
  then show ?thesis using assms by simp
qed

lemma picker_step_ok: "picker_ok c s \<Longrightarrow> picker_ok c (snd (picker_step call s))"
proof (cases call)
  case (PickMove n)
  have "visible_options (move_cursor n s) = visible_options s"
    by (rule visible_only_depends) (simp_all add: move_cursor_def Let_def)
  moreover assume "picker_ok c s"
  ultimately show ?thesis using PickMove
    by (auto simp: picker_step_def picker_ok_def move_cursor_def Let_def split: if_splits)
next
  case (PickQuery q)
  moreover assume "picker_ok c s"
  ultimately show ?thesis by (simp add: picker_step_def picker_ok_def set_query_def)
next
  case (PickKind k)
  moreover assume "picker_ok c s"
  ultimately show ?thesis by (simp add: picker_step_def picker_ok_def set_kind_def)
next
  case PickReset
  moreover assume "picker_ok c s"
  ultimately show ?thesis by (simp add: picker_step_def picker_ok_def reset_draft_def first_of_def)
qed (simp_all add: picker_step_def select_cursor_ok toggle_agent_ok toggle_visible_ok)

interpretation picker: safe_machine picker_step "picker_ok c" for c
  by unfold_locales (rule picker_step_ok)

interpretation picker: fail_closed picker_step
proof
  fix call s e s'
  assume "picker_step call s = (Inl e, s')"
  then show "s' = s"
    by (cases call) (auto simp: picker_step_def set_query_def select_cursor_def toggle_agent_cursor_def
        toggle_visible_agents_def Let_def split: if_splits option.splits)
qed

lemma picker_new_ok: "picker_ok c (picker_new c k)"
  by (simp add: picker_ok_def picker_new_def first_of_def)


section \<open>Properties\<close>


text \<open>
  The bulk toggle of the visible agents: it adds the visible available agents unless all of them are
  selected already and then removes them; hidden agents keep their state; and a second toggle clears
  what the first one selected.
\<close>

theorem visible_agents_toggle_exact:
  assumes "toggle_visible_agents s = (Inr u, s')"
  defines "visible \<equiv> set (available_ids (visible_options s))"
  shows "set (wk_agents s') = (if visible \<subseteq> set (wk_agents s) then set (wk_agents s) - visible
                               else set (wk_agents s) \<union> visible)
     \<and> visible_options s' = visible_options s
     \<and> set (wk_agents s') - visible = set (wk_agents s) - visible
     \<and> (\<not> visible \<subseteq> set (wk_agents s) \<longrightarrow>
          set (wk_agents (snd (toggle_visible_agents s'))) = set (wk_agents s) - visible)"
proof -
  have k: "wk_kind s = KindAgent" and ne: "available_ids (visible_options s) \<noteq> []"
    and s': "s' = snd (toggle_visible_agents s)"
    using assms(1) by (auto simp: toggle_visible_agents_def Let_def split: if_splits)
  have k': "wk_kind s' = KindAgent" and same: "visible_options s' = visible_options s"
    unfolding s' using k
    by (auto intro!: visible_only_depends simp: toggle_visible_agents_def Let_def)
  have agents: "set (wk_agents s') = (if visible \<subseteq> set (wk_agents s) then set (wk_agents s) - visible
      else set (wk_agents s) \<union> visible)"
    unfolding s' visible_def using k ne
    by (auto simp: toggle_visible_agents_def Let_def list_all_iff)
  have "set (wk_agents (snd (toggle_visible_agents s'))) = set (wk_agents s) - visible"
    if "\<not> visible \<subseteq> set (wk_agents s)"
    using that agents k' same ne unfolding visible_def
    by (auto simp: toggle_visible_agents_def Let_def list_all_iff)
  then show ?thesis using agents same by auto
qed

text \<open>
  Every row state has its own text: the focus, the selection and the availability of a row can be
  read back from its first characters and its end.
\<close>

lemma row_text_distinguishes:
  assumes "sr_label r = sr_label r'" "sr_disabled_reason r = sr_disabled_reason r'"
    and "row_text r = row_text r'"
  shows "sr_focused r = sr_focused r' \<and> sr_selected r = sr_selected r' \<and> sr_enabled r = sr_enabled r'"
  using assms
  by (auto simp: row_text_def Let_def em_dash_def split: if_splits option.splits)

text \<open>The catalog constructor and its invariants.\<close>

lemma validate_options_loop_Inr:
  "validate_options_loop name os seen = Inr u \<longleftrightarrow>
     (\<forall>o1 \<in> set os. validate_option o1 = Inr ()) \<and> distinct (map wo_id os) \<and> set (map wo_id os) \<inter> seen = {}"
  by (induction name os seen rule: validate_options_loop.induct) (auto simp: result_simps)

lemma validate_options_Inr:
  "validate_options os name = Inr u \<longleftrightarrow>
     length os \<le> MAX_OPTIONS \<and> (\<forall>o1 \<in> set os. validate_option o1 = Inr ()) \<and> distinct (map wo_id os)"
  by (auto simp: validate_options_def validate_options_loop_Inr)

lemma wizard_catalog_new_Inr:
  "wizard_catalog_new as ps ms = Inr c \<longleftrightarrow>
     validate_options as ''agents'' = Inr () \<and> validate_options ps ''providers'' = Inr ()
     \<and> validate_options ms ''models'' = Inr () \<and> references_complete as ps \<and> references_complete ps ms
     \<and> c = \<lparr>wc_agents = as, wc_providers = ps, wc_models = ms\<rparr>"
  by (auto simp: wizard_catalog_new_def result_simps)

text \<open>
  An accepted catalog names every agent and provider its options refer to, and an available
  provider of it that supports some agents is offered once these agents are chosen.
\<close>

lemma development_catalog_accepted: "is_ok wizard_development_catalog"
  by code_simp

theorem catalog_references_resolve:
  assumes "wizard_catalog_new as ps ms = Inr c"
  shows "(\<forall>p \<in> set (wc_providers c). \<exists>a \<in> set (wc_agents c). wo_id a \<in> set (wo_compatible_ids p))
     \<and> (\<forall>m \<in> set (wc_models c). \<exists>p \<in> set (wc_providers c). wo_id p \<in> set (wo_compatible_ids m))
     \<and> distinct (map wo_id (wc_agents c)) \<and> distinct (map wo_id (wc_providers c))
     \<and> distinct (map wo_id (wc_models c))"
proof -
  have "\<exists>a \<in> set ts. wo_id a \<in> set (wo_compatible_ids p)"
    if "references_complete ts os" "p \<in> set os" for ts os p
  proof -
    from that obtain i rest where "wo_compatible_ids p = i # rest" "i \<in> wo_id ` set ts"
      by (cases "wo_compatible_ids p") (auto simp: references_complete_def list_all_iff)
    then show ?thesis by auto
  qed
  then show ?thesis using assms by (auto simp: wizard_catalog_new_Inr validate_options_Inr)
qed

section \<open>Witnesses\<close>

definition option_for :: "string \<Rightarrow> bool \<Rightarrow> string list \<Rightarrow> wizard_option" where
  "option_for i available ids = \<lparr>wo_id = i, wo_label = i, wo_available = available,
     wo_unavailable_reason = None, wo_compatible_ids = ids\<rparr>"

definition setup_catalog :: wizard_catalog where
  "setup_catalog = \<lparr>wc_agents = [option_for ''a'' True [], option_for ''b'' True []],
     wc_providers = [option_for ''p'' True [''a'', ''b''], option_for ''q'' True [''b'']],
     wc_models = [option_for ''m'' True [''p''], option_for ''n'' True [''q'']]\<rparr>"

theorem visible_agents_toggle_exact_witness:
  "set (wk_agents (snd (toggle_visible_agents (picker_new setup_catalog KindAgent)))) = {''a'', ''b''}"
proof -
  have "toggle_visible_agents (picker_new setup_catalog KindAgent)
      = (Inr (), snd (toggle_visible_agents (picker_new setup_catalog KindAgent)))" by code_simp
  from visible_agents_toggle_exact [OF this] show ?thesis
    by (auto simp: visible_options_agent picker_new_def setup_catalog_def option_for_def option_matches_def
        available_ids_def to_ascii_lowercase_def)
qed

theorem catalog_references_resolve_witness:
  "wizard_catalog_new (wc_agents setup_catalog) (wc_providers setup_catalog) (wc_models setup_catalog)
     = Inr setup_catalog \<and> distinct (map wo_id (wc_models setup_catalog))"
proof -
  have "wizard_catalog_new (wc_agents setup_catalog) (wc_providers setup_catalog) (wc_models setup_catalog)
     = Inr setup_catalog" by code_simp
  with catalog_references_resolve [OF this] show ?thesis by simp
qed

end
