(* ===== verification/Development_Auth.thy ===== *)
theory Development_Auth
  imports Sha256
begin

text \<open>
  Model of \<open>src/development_auth.rs\<close>: the development-only enrollment of the setup wizard, which
  creates digests from the provider name and a generation and never holds a secret. The generation
  is a 64-bit word whose increments saturate.
\<close>

section \<open>The flow\<close>

definition MAX_PROVIDER_BYTES :: nat where "MAX_PROVIDER_BYTES = 128"

datatype development_auth_method = LocalFixture | NoMethod

datatype development_auth_status = Unconfigured | Enrolled | Tested | Rotated | AuthReset

datatype development_auth_error = InvalidProvider | UnsupportedMethod | NotEnrolled | AlreadyReset

record development_auth_flow =
  da_provider :: string
  da_method :: development_auth_method
  da_status :: development_auth_status
  da_generation :: u64
  da_endpoint_identity_sha256 :: "string option"
  da_credential_locator_sha256 :: "string option"
  da_signature_sha256 :: "string option"

record development_auth_snapshot = development_auth_flow +
  da_warning :: string
  da_development_only :: bool

definition auth_flow :: "string \<Rightarrow> development_auth_flow" where
  "auth_flow provider = \<lparr>da_provider = provider, da_method = LocalFixture, da_status = Unconfigured,
     da_generation = 0, da_endpoint_identity_sha256 = None, da_credential_locator_sha256 = None,
     da_signature_sha256 = None\<rparr>"

definition auth_new :: "string \<Rightarrow> (development_auth_error, development_auth_flow) result" where
  "auth_new provider =
     (if provider = [] \<or> MAX_PROVIDER_BYTES < length provider \<or> \<not> is_ascii provider \<or> has_control provider
      then Inl InvalidProvider else Inr (auth_flow provider))"

definition auth_snapshot :: "development_auth_flow \<Rightarrow> development_auth_snapshot" where
  "auth_snapshot f = \<lparr>da_provider = da_provider f, da_method = da_method f, da_status = da_status f,
     da_generation = da_generation f, da_endpoint_identity_sha256 = da_endpoint_identity_sha256 f,
     da_credential_locator_sha256 = da_credential_locator_sha256 f, da_signature_sha256 = da_signature_sha256 f,
     da_warning = ''Development-only local fixture; authentication, signature validation, and key management are not production guarantees.'',
     da_development_only = True\<rparr>"

definition auth_digest :: "development_auth_flow \<Rightarrow> string \<Rightarrow> string" where
  "auth_digest f kind = digest_hex (as_bytes (''asb-tui-development-fixture:v1:'' @ da_provider f @ '':''
     @ show_nat (unat (da_generation f)) @ '':'' @ kind))"

text \<open>The four assignments that \<open>enroll\<close> and \<open>rotate\<close> share after the new generation is set.\<close>

definition issue_digests :: "development_auth_status \<Rightarrow> development_auth_flow \<Rightarrow> development_auth_flow" where
  "issue_digests status f = f\<lparr>da_endpoint_identity_sha256 := Some (auth_digest f ''endpoint''),
     da_credential_locator_sha256 := Some (auth_digest f ''locator''),
     da_signature_sha256 := Some (auth_digest f ''signature''), da_status := status\<rparr>"

definition clear_digests :: "development_auth_status \<Rightarrow> development_auth_flow \<Rightarrow> development_auth_flow" where
  "clear_digests status f = f\<lparr>da_endpoint_identity_sha256 := None, da_credential_locator_sha256 := None,
     da_signature_sha256 := None, da_status := status\<rparr>"

definition auth_reset :: "development_auth_flow \<Rightarrow> development_auth_flow" where
  "auth_reset f = clear_digests AuthReset (f\<lparr>da_generation := saturating_succ (da_generation f)\<rparr>)"

definition auth_restart :: "development_auth_flow \<Rightarrow> development_auth_flow" where
  "auth_restart f = clear_digests Unconfigured f"

definition select_method :: "development_auth_method \<Rightarrow> (development_auth_flow, development_auth_error, unit) call" where
  "select_method m f =
     (if m = NoMethod then (Inr (), auth_reset (f\<lparr>da_method := m\<rparr>)) else (Inr (), f\<lparr>da_method := m\<rparr>))"

definition enroll :: "(development_auth_flow, development_auth_error, unit) call" where
  "enroll f =
     (if da_method f \<noteq> LocalFixture then (Inl UnsupportedMethod, f)
      else (Inr (), issue_digests Enrolled
        (f\<lparr>da_generation := max (saturating_succ (da_generation f)) 1\<rparr>)))"

definition require_enrolled :: "development_auth_flow \<Rightarrow> (development_auth_error, unit) result" where
  "require_enrolled f = ensure (da_endpoint_identity_sha256 f \<noteq> None) NotEnrolled"

definition auth_test :: "(development_auth_flow, development_auth_error, unit) call" where
  "auth_test f = (case require_enrolled f of Inl e \<Rightarrow> (Inl e, f)
     | Inr _ \<Rightarrow> (Inr (), f\<lparr>da_status := Tested\<rparr>))"

definition rotate_credential :: "(development_auth_flow, development_auth_error, unit) call" where
  "rotate_credential f = (case require_enrolled f of Inl e \<Rightarrow> (Inl e, f)
     | Inr _ \<Rightarrow> (Inr (), issue_digests Rotated (f\<lparr>da_generation := saturating_succ (da_generation f)\<rparr>)))"

datatype auth_call = CallMethod development_auth_method | CallEnroll | CallTest | CallRotate | CallReset | CallRestart

definition auth_step :: "auth_call \<Rightarrow> (development_auth_flow, development_auth_error, unit) call" where
  "auth_step c f = (case c of CallMethod m \<Rightarrow> select_method m f | CallEnroll \<Rightarrow> enroll f | CallTest \<Rightarrow> auth_test f
     | CallRotate \<Rightarrow> rotate_credential f | CallReset \<Rightarrow> (Inr (), auth_reset f) | CallRestart \<Rightarrow> (Inr (), auth_restart f))"

section \<open>What the flow guarantees\<close>

text \<open>
  The three digests are present together, exactly while the fixture is enrolled, tested or rotated,
  and they are those of the current generation.
\<close>

definition auth_ok :: "string \<Rightarrow> development_auth_flow \<Rightarrow> bool" where
  "auth_ok provider f \<longleftrightarrow> da_provider f = provider
     \<and> (if da_status f \<in> {Enrolled, Tested, Rotated}
        then da_method f = LocalFixture \<and> 1 \<le> da_generation f
          \<and> da_endpoint_identity_sha256 f = Some (auth_digest f ''endpoint'')
          \<and> da_credential_locator_sha256 f = Some (auth_digest f ''locator'')
          \<and> da_signature_sha256 f = Some (auth_digest f ''signature'')
        else da_endpoint_identity_sha256 f = None \<and> da_credential_locator_sha256 f = None
          \<and> da_signature_sha256 f = None)"

lemma auth_digest_simps [simp]:
  "auth_digest (f\<lparr>da_method := m\<rparr>) = auth_digest f"
  "auth_digest (f\<lparr>da_status := st\<rparr>) = auth_digest f"
  "auth_digest (f\<lparr>da_endpoint_identity_sha256 := x\<rparr>) = auth_digest f"
  "auth_digest (f\<lparr>da_credential_locator_sha256 := x\<rparr>) = auth_digest f"
  "auth_digest (f\<lparr>da_signature_sha256 := x\<rparr>) = auth_digest f"
  by (simp_all add: auth_digest_def fun_eq_iff)

lemma not_no_method [simp]: "m \<noteq> NoMethod \<longleftrightarrow> m = LocalFixture"
  by (cases m) simp_all

lemma auth_flow_ok: "auth_ok provider (auth_flow provider)"
  by (simp add: auth_ok_def auth_flow_def)

lemma saturating_succ_ge_1: "1 \<le> w \<Longrightarrow> 1 \<le> saturating_succ (w :: 'a::len word)"
  using saturating_succ_le order_trans by blast

lemma auth_step_ok: "auth_ok provider f \<Longrightarrow> auth_ok provider (snd (auth_step c f))"
  by (cases c)
     (auto simp: auth_step_def auth_ok_def select_method_def enroll_def auth_test_def rotate_credential_def
        auth_reset_def auth_restart_def issue_digests_def clear_digests_def
        require_enrolled_def ensure_def saturating_succ_ge_1 split: if_splits)

lemma auth_step_generation: "da_generation f \<le> da_generation (snd (auth_step c f))"
  by (cases c)
     (auto simp: auth_step_def select_method_def enroll_def auth_test_def rotate_credential_def auth_reset_def
        auth_restart_def issue_digests_def clear_digests_def require_enrolled_def ensure_def
        saturating_succ_le le_max_iff_disj)

interpretation auth: ranked_machine auth_step "auth_ok provider" da_generation for provider
  by unfold_locales (simp_all add: auth_step_ok auth_step_generation)

interpretation auth: fail_closed auth_step
proof
  fix c f e f'
  assume "auth_step c f = (Inl e, f')"
  then show "f' = f"
    by (cases c) (auto simp: auth_step_def select_method_def enroll_def auth_test_def rotate_credential_def
        require_enrolled_def ensure_def split: if_splits)
qed

text \<open>
  The locator a flow shows is a digest of 64 hexadecimal digits and never shown for the method that
  has no credential.
\<close>

lemma locator_form:
  "auth_ok provider f \<Longrightarrow> da_credential_locator_sha256 f = Some d \<Longrightarrow>
     lower_hex 64 d \<and> da_method f = LocalFixture"
  using digest_hex_lower by (auto simp: auth_ok_def auth_digest_def split: if_splits)

text \<open>
  The metadata of a development credential: after any calls the three digests are present together or
  not at all, they are those of the provider and the current generation, they are never shown for the
  method without a credential, the generation never decreases, and a refused call changes nothing.
\<close>

theorem development_credential_metadata:
  "let f = run_calls auth_step calls (auth_flow provider) in
     (da_endpoint_identity_sha256 f = None \<longleftrightarrow> da_credential_locator_sha256 f = None)
     \<and> (da_signature_sha256 f = None \<longleftrightarrow> da_credential_locator_sha256 f = None)
     \<and> da_credential_locator_sha256 f \<in> {None, Some (auth_digest f ''locator'')}
     \<and> (da_credential_locator_sha256 f = None \<or> da_method f = LocalFixture \<and> 1 \<le> da_generation f)
     \<and> da_provider f = provider
     \<and> da_generation f \<le> da_generation (run_calls auth_step later f)
     \<and> f = run_calls auth_step (accepted auth_step calls (auth_flow provider)) (auth_flow provider)"
  using auth.run_inv [OF auth_flow_ok, of provider calls]
    auth.run_rank [OF auth.run_inv [OF auth_flow_ok, of provider calls], of later]
    auth.run_accepted [of calls "auth_flow provider"]
  by (auto simp: auth_ok_def Let_def split: if_splits)

text \<open>
  At the largest generation a rotation succeeds and issues the digests that were there before.
\<close>

lemma saturated_rotation_keeps_digests:
  assumes "auth_ok provider f" "da_generation f = - 1" "require_enrolled f = Inr ()"
  shows "fst (rotate_credential f) = Inr ()
     \<and> da_credential_locator_sha256 (snd (rotate_credential f)) = da_credential_locator_sha256 f"
  using assms
  by (auto simp: rotate_credential_def issue_digests_def auth_ok_def auth_digest_def saturating_succ_def
      require_enrolled_def split: if_splits)

end
