(* ===== verification/Setup_Wizard.thy ===== *)
theory Setup_Wizard
  imports Adapter_Catalog Wizard_Catalog Development_Auth
begin

text \<open>
  Model of \<open>src/wizard.rs\<close> and \<open>src/wizard_stepper.rs\<close>: the draft of the setup wizard with its seven
  fields, the steps, the catalog picker and the development credential behind them, the event
  interpreter that checks every event against the documented transitions, and the texts of the
  progress line, the review and the plain fallback. The document (\<open>docs/ui-state-model.json\<close>) is an
  argument: \<open>None\<close> when its text does not parse, and \<open>wizard_document\<close> is the part of the file about
  the wizard. A \<open>Catalog\<close> error that prints an adapter error keeps that error instead of its text.
  The layout of the widgets is not modelled.
\<close>

section \<open>Progress\<close>

datatype wizard_step = StepAgent | StepProvider | StepModel | StepConfiguration | StepAuthentication
| StepRecording | StepReplay | StepReview

datatype journey_stage = JAgent | JProvider | JModel | JConfiguration | JCredentialReference | JWorkload
| JMeasures | JRecording | JReplay | JPlanReview | JExecution | JResults | JComparison

definition stage_label :: "journey_stage \<Rightarrow> string" where
  "stage_label g = (case g of JAgent \<Rightarrow> ''Agent'' | JProvider \<Rightarrow> ''Provider'' | JModel \<Rightarrow> ''Model''
     | JConfiguration \<Rightarrow> ''Setup'' | JCredentialReference \<Rightarrow> ''Credentials'' | JWorkload \<Rightarrow> ''Workloads''
     | JMeasures \<Rightarrow> ''Measures'' | JRecording \<Rightarrow> ''Recording'' | JReplay \<Rightarrow> ''Replay''
     | JPlanReview \<Rightarrow> ''Review'' | JExecution \<Rightarrow> ''Run'' | JResults \<Rightarrow> ''Results'' | JComparison \<Rightarrow> ''Compare'')"

definition stage_element_id :: "journey_stage \<Rightarrow> string" where
  "stage_element_id g = (case g of JAgent \<Rightarrow> ''wizard.agent'' | JProvider \<Rightarrow> ''wizard.provider''
     | JModel \<Rightarrow> ''wizard.model'' | JConfiguration \<Rightarrow> ''wizard.configuration''
     | JCredentialReference \<Rightarrow> ''wizard.authentication'' | JWorkload \<Rightarrow> ''wizard.workload_stage''
     | JMeasures \<Rightarrow> ''wizard.measure_stage'' | JRecording \<Rightarrow> ''wizard.recording'' | JReplay \<Rightarrow> ''wizard.replay''
     | JPlanReview \<Rightarrow> ''wizard.review'' | JExecution \<Rightarrow> ''wizard.execution_stage''
     | JResults \<Rightarrow> ''wizard.results_stage'' | JComparison \<Rightarrow> ''wizard.comparison_stage'')"

definition JOURNEY_STAGES :: "journey_stage list" where
  "JOURNEY_STAGES = [JAgent, JProvider, JModel, JConfiguration, JCredentialReference, JWorkload, JMeasures,
     JRecording, JReplay, JPlanReview, JExecution, JResults, JComparison]"

datatype step_state = StateComplete | StateCurrent | StateFuture | StateUnavailable

definition marker :: "step_state \<Rightarrow> string" where
  "marker t = (case t of StateComplete \<Rightarrow> ''[x]'' | StateCurrent \<Rightarrow> ''[>]'' | StateFuture \<Rightarrow> ''[ ]''
     | StateUnavailable \<Rightarrow> ''[-]'')"

record step_presentation =
  sp_stage :: journey_stage
  sp_state :: step_state
  sp_unavailable_reason :: "string option"

datatype stepper_layout = LayoutHorizontal | LayoutCompact | LayoutTiny

datatype wizard_pane = PaneProgress | PaneChoices | PaneSummary | PaneControls

definition pane_next :: "wizard_pane \<Rightarrow> wizard_pane" where
  "pane_next p = (case p of PaneProgress \<Rightarrow> PaneChoices | PaneChoices \<Rightarrow> PaneSummary
     | PaneSummary \<Rightarrow> PaneControls | PaneControls \<Rightarrow> PaneProgress)"

definition stepper_from_dimensions :: "u16 \<Rightarrow> u16 \<Rightarrow> stepper_layout" where
  "stepper_from_dimensions columns lines =
     (if columns < 40 \<or> lines < 10 then LayoutTiny
      else if columns < 176 \<or> lines < 16 then LayoutCompact else LayoutHorizontal)"

definition runner_owned_reason :: "journey_stage \<Rightarrow> string option" where
  "runner_owned_reason g =
     (if g \<in> {JWorkload, JMeasures} then Some ''requires an authoritative ASB catalog''
      else if g = JExecution then Some ''requires an authoritative ASB plan and launch''
      else if g \<in> {JResults, JComparison} then Some ''requires completed authoritative ASB runs''
      else None)"

definition stage_of :: "wizard_step \<Rightarrow> journey_stage" where
  "stage_of s = (case s of StepAgent \<Rightarrow> JAgent | StepProvider \<Rightarrow> JProvider | StepModel \<Rightarrow> JModel
     | StepConfiguration \<Rightarrow> JConfiguration | StepAuthentication \<Rightarrow> JCredentialReference
     | StepRecording \<Rightarrow> JRecording | StepReplay \<Rightarrow> JReplay | StepReview \<Rightarrow> JPlanReview)"

text \<open>\<open>position\<close>: the index of the first element with a property.\<close>

fun position :: "('a \<Rightarrow> bool) \<Rightarrow> 'a list \<Rightarrow> nat option" where
  "position P [] = None"
| "position P (x # xs) = (if P x then Some 0 else map_option Suc (position P xs))"

text \<open>The current stage is in the list, so the \<open>expect\<close> on its position does not panic.\<close>

definition wizard_progress :: "wizard_step \<Rightarrow> step_presentation list" where
  "wizard_progress s =
     (let current = the (position (\<lambda>g. g = stage_of s) JOURNEY_STAGES) in
      map (\<lambda>(i, g). \<lparr>sp_stage = g,
             sp_state = (if runner_owned_reason g \<noteq> None then StateUnavailable
                         else if i < current then StateComplete
                         else if i = current then StateCurrent else StateFuture),
             sp_unavailable_reason = runner_owned_reason g\<rparr>)
        (enumerate 0 JOURNEY_STAGES))"

definition box_dash :: string where "box_dash = [CHR 0xE2, CHR 0x94, CHR 0x80]"
definition middle_dot :: string where "middle_dot = [CHR 0xC2, CHR 0xB7]"

text \<open>\<open>None\<close> stands for the panic of the \<open>expect\<close> when no stage is current.\<close>

definition render_text :: "step_presentation list \<Rightarrow> stepper_layout \<Rightarrow> string option" where
  "render_text stages layout =
     (case position (\<lambda>p. sp_state p = StateCurrent) stages of
        None \<Rightarrow> None
      | Some current \<Rightarrow>
          let item = stages ! current in
          Some (case layout of
            LayoutHorizontal \<Rightarrow> join ('' '' @ box_dash @ '' '')
              (map (\<lambda>p. marker (sp_state p) @ '' '' @ stage_label (sp_stage p)) stages)
          | LayoutCompact \<Rightarrow> ''Step '' @ show_nat (current + 1) @ ''/'' @ show_nat (length stages) @ '': ''
              @ marker (sp_state item) @ '' '' @ stage_label (sp_stage item) @ '' '' @ middle_dot
              @ '' [-] ASB catalog/plan/completed runs''
          | LayoutTiny \<Rightarrow> show_nat (current + 1) @ ''/'' @ show_nat (length stages) @ '' ''
              @ stage_label (sp_stage item)))"

section \<open>The wizard\<close>

definition OPENROUTER_CREDENTIAL_REFERENCE :: string where
  "OPENROUTER_CREDENTIAL_REFERENCE = ''OPENROUTER_API_KEY''"

definition CONFIGURATION_PRESETS :: "(string \<times> string) list" where
  "CONFIGURATION_PRESETS = [(''Shared benchmark defaults'', ''all defaults'')]"

definition AUTHENTICATION_PRESETS :: "(string \<times> string) list" where
  "AUTHENTICATION_PRESETS = [(''OpenRouter environment reference (OPENROUTER_API_KEY)'',
     OPENROUTER_CREDENTIAL_REFERENCE)]"

definition RECORDING_PRESETS :: "(string \<times> string) list" where
  "RECORDING_PRESETS = [(''Live provider recording'', ''live''), (''Local deterministic mock'', ''local-mock'')]"

definition REPLAY_PRESETS :: "(string \<times> string) list" where
  "REPLAY_PRESETS = [(''Strict offline replay'', ''strict offline replay'')]"

datatype startup_route = RouteWizard | RouteLanding

definition startup_route_of :: "bool \<Rightarrow> startup_route" where
  "startup_route_of asb_setup_ready = (if asb_setup_ready then RouteLanding else RouteWizard)"

definition step_element_id :: "wizard_step \<Rightarrow> string" where
  "step_element_id s = (case s of StepAgent \<Rightarrow> ''wizard.agent'' | StepProvider \<Rightarrow> ''wizard.provider''
     | StepModel \<Rightarrow> ''wizard.model'' | StepConfiguration \<Rightarrow> ''wizard.configuration''
     | StepAuthentication \<Rightarrow> ''wizard.authentication'' | StepRecording \<Rightarrow> ''wizard.recording''
     | StepReplay \<Rightarrow> ''wizard.replay'' | StepReview \<Rightarrow> ''wizard.review'')"

datatype wizard_error = WizardMissing | WizardAtStart | WizardAtEnd | WizardInvalidValue | WizardTooLong
| WizardInvalidModel | WizardCatalogError string | WizardAdapterError selection_error

datatype wizard_mode = ModeDevelopment | ModeStable

record wizard =
  wz_step :: wizard_step
  wz_values :: "string list"
  wz_cancelled :: bool
  wz_catalog :: "wizard_catalog_state option"
  wz_development_auth :: development_auth_flow
  wz_adapter_selection :: "selection_session option"
  wz_mode :: wizard_mode
  wz_provider_catalog :: "provider_catalog option"

text \<open>\<open>step as usize\<close>.\<close>

definition step_index :: "wizard_step \<Rightarrow> nat" where
  "step_index s = (case s of StepAgent \<Rightarrow> 0 | StepProvider \<Rightarrow> 1 | StepModel \<Rightarrow> 2 | StepConfiguration \<Rightarrow> 3
     | StepAuthentication \<Rightarrow> 4 | StepRecording \<Rightarrow> 5 | StepReplay \<Rightarrow> 6 | StepReview \<Rightarrow> 7)"

definition blank_values :: "string list" where "blank_values = replicate 7 []"

text \<open>
  The two constructors with \<open>expect\<close>: \<open>development_catalog_names\<close> shows that the development adapter
  catalog is accepted, so the \<open>None\<close> of the first is never taken.
\<close>

definition development_session :: "selection_session option" where
  "development_session = (case development_catalog of Inr c \<Rightarrow> Some (session_new c) | Inl _ \<Rightarrow> None)"

definition wizard_default :: wizard where
  "wizard_default = \<lparr>wz_step = StepAgent, wz_values = blank_values, wz_cancelled = False, wz_catalog = None,
     wz_development_auth = auth_flow ''development'', wz_adapter_selection = development_session,
     wz_mode = ModeDevelopment, wz_provider_catalog = None\<rparr>"

definition wizard_with_catalog :: "wizard_catalog \<Rightarrow> wizard" where
  "wizard_with_catalog c = wizard_default\<lparr>wz_catalog := Some (picker_new c KindAgent)\<rparr>"

definition wizard_stable :: wizard where
  "wizard_stable = wizard_default\<lparr>wz_adapter_selection := None, wz_mode := ModeStable\<rparr>"

definition stable_with_adapter_catalog :: "adapter_catalog \<Rightarrow> wizard" where
  "stable_with_adapter_catalog c =
     wizard_default\<lparr>wz_adapter_selection := Some (session_new c), wz_mode := ModeStable\<rparr>"

definition stable_with_catalog_and_adapter :: "wizard_catalog \<Rightarrow> adapter_catalog \<Rightarrow> wizard" where
  "stable_with_catalog_and_adapter c a = wizard_default\<lparr>wz_catalog := Some (picker_new c KindAgent),
     wz_adapter_selection := Some (session_new a), wz_mode := ModeStable\<rparr>"

definition bounded_choices :: "wizard_step \<Rightarrow> (string \<times> string) list" where
  "bounded_choices s = (case s of StepConfiguration \<Rightarrow> CONFIGURATION_PRESETS
     | StepAuthentication \<Rightarrow> AUTHENTICATION_PRESETS | StepRecording \<Rightarrow> RECORDING_PRESETS
     | StepReplay \<Rightarrow> REPLAY_PRESETS | _ \<Rightarrow> [])"

definition reference_prefix :: string where "reference_prefix = ''credential_reference:''"

definition bounded_value :: "wizard_step \<Rightarrow> string \<Rightarrow> string" where
  "bounded_value s v = (if s = StepAuthentication
     then reference_prefix @ digest_hex (as_bytes (''environment:'' @ v)) else v)"

definition has_bounded_choices :: "wizard \<Rightarrow> bool" where
  "has_bounded_choices w \<longleftrightarrow> wz_step w \<in> {StepConfiguration, StepAuthentication, StepRecording, StepReplay}"

definition current_value :: "wizard \<Rightarrow> string" where
  "current_value w = (let i = step_index (wz_step w) in
     if i < length (wz_values w) then wz_values w ! i else [])"

definition bounded_choice_labels :: "wizard \<Rightarrow> string list" where
  "bounded_choice_labels w = map fst (bounded_choices (wz_step w))"

definition bounded_selected_index :: "wizard \<Rightarrow> nat option" where
  "bounded_selected_index w =
     (let choices = bounded_choices (wz_step w) in
      if choices = [] then None
      else position (\<lambda>(_, v). bounded_value (wz_step w) v = current_value w) choices)"

definition put_value :: "wizard_step \<Rightarrow> string \<Rightarrow> wizard \<Rightarrow> wizard" where
  "put_value s v w = w\<lparr>wz_values := (wz_values w)[step_index s := v]\<rparr>"

text \<open>\<open>current as isize + offset\<close> panics on overflow; it does not for the offsets a key sends.\<close>

definition move_bounded_choice :: "int \<Rightarrow> (wizard, wizard_error, unit) call" where
  "move_bounded_choice offset w =
     (let choices = bounded_choices (wz_step w) in
      if choices = [] then (Inl WizardInvalidValue, w)
      else let current = (case bounded_selected_index w of None \<Rightarrow> 0 | Some i \<Rightarrow> i);
               nxt = nat ((int current + offset) mod int (length choices))
           in (Inr (), put_value (wz_step w) (bounded_value (wz_step w) (snd (choices ! nxt))) w))"

section \<open>Adapters and providers\<close>

definition connected_provider_options :: "wizard \<Rightarrow> (wizard_error, wizard_option list \<times> wizard_option list) result" where
  "connected_provider_options w =
     and_then (ok_or (wz_provider_catalog w) (WizardCatalogError ''provider catalog unavailable'')) (\<lambda>c.
       map_err WizardCatalogError (wizard_options c))"

definition set_provider_catalog :: "provider_catalog \<Rightarrow> wizard \<Rightarrow> wizard" where
  "set_provider_catalog c w = w\<lparr>wz_provider_catalog := Some c\<rparr>"

text \<open>The provider field is written before the authentication method is matched.\<close>

definition begin_provider_edit :: "provider_profile \<Rightarrow> (wizard, wizard_error, unit) call" where
  "begin_provider_edit p w =
     (case profile_validate p of
        Inl e \<Rightarrow> (Inl (WizardCatalogError e), w)
      | Inr _ \<Rightarrow>
          let w = put_value StepProvider (pf_provider_id p) w in
          case (pf_auth_method p, pf_credential_reference_sha256 p) of
            (CredentialReference, Some digest) \<Rightarrow> (Inr (), put_value StepAuthentication (reference_prefix @ digest) w)
          | (LocalDaemon, _) \<Rightarrow> (Inr (), put_value StepAuthentication ''local_daemon'' w)
          | (NoAuth, _) \<Rightarrow> (Inr (), put_value StepAuthentication ''none'' w)
          | _ \<Rightarrow> (Inl WizardInvalidValue, w))"

definition wizard_adapter_options :: "wizard \<Rightarrow> adapter_option list" where
  "wizard_adapter_options w = (case wz_adapter_selection w of None \<Rightarrow> []
     | Some s \<Rightarrow> adapter_options (ss_catalog s))"

definition selected_adapter_id :: "wizard \<Rightarrow> string option" where
  "selected_adapter_id w = (case wz_adapter_selection w of None \<Rightarrow> None
     | Some s \<Rightarrow> map_option as_adapter_id (ss_committed s))"

definition no_adapter_catalog :: wizard_error where
  "no_adapter_catalog = WizardCatalogError ''authoritative adapter catalog is unavailable''"

definition adapter_compatibility_for :: "string \<Rightarrow> string option \<Rightarrow> wizard \<Rightarrow>
    (wizard_error, compatibility_options) result" where
  "adapter_compatibility_for adapter provider w =
     and_then (ok_or (wz_adapter_selection w) no_adapter_catalog) (\<lambda>s.
       map_err WizardAdapterError (compatibility_options_for (ss_catalog s) adapter provider))"

definition wizard_select_adapter :: "adapter_selection \<Rightarrow> (wizard, wizard_error, unit) call" where
  "wizard_select_adapter x w =
     (case wz_adapter_selection w of
        None \<Rightarrow> (Inl no_adapter_catalog, w)
      | Some s \<Rightarrow>
          (case session_select x (session_begin s) of
             (Inl e, s') \<Rightarrow> (Inl (WizardAdapterError e), w\<lparr>wz_adapter_selection := Some s'\<rparr>)
           | (Inr _, s') \<Rightarrow>
               (case session_commit s' of
                  (Inl e, s'') \<Rightarrow> (Inl (WizardAdapterError e), w\<lparr>wz_adapter_selection := Some s''\<rparr>)
                | (Inr _, s'') \<Rightarrow> (Inr (), w\<lparr>wz_adapter_selection := Some s''\<rparr>))))"

definition adapter_diagnostics :: "adapter_selection \<Rightarrow> wizard \<Rightarrow> string" where
  "adapter_diagnostics x w = (case wz_adapter_selection w of
       None \<Rightarrow> ''authoritative adapter catalog is unavailable''
     | Some s \<Rightarrow> diagnostics (ss_catalog s) x)"

section \<open>The development credential\<close>

definition sync_development_auth_value :: "wizard \<Rightarrow> wizard" where
  "sync_development_auth_value w =
     (case da_credential_locator_sha256 (wz_development_auth w) of None \<Rightarrow> w
      | Some locator \<Rightarrow> put_value StepAuthentication (reference_prefix @ locator) w)"

definition on_flow :: "(development_auth_flow, development_auth_error, unit) call \<Rightarrow>
    (wizard, development_auth_error, unit) call" where
  "on_flow f w = (case f (wz_development_auth w) of (r, d) \<Rightarrow> (r, w\<lparr>wz_development_auth := d\<rparr>))"

definition enroll_development_credential :: "(wizard, development_auth_error, unit) call" where
  "enroll_development_credential w = (case on_flow enroll w of
       (Inl e, w') \<Rightarrow> (Inl e, w') | (Inr _, w') \<Rightarrow> (Inr (), sync_development_auth_value w'))"

definition test_development_credential :: "(wizard, development_auth_error, unit) call" where
  "test_development_credential w = on_flow auth_test w"

definition rotate_development_credential :: "(wizard, development_auth_error, unit) call" where
  "rotate_development_credential w = (case on_flow rotate_credential w of
       (Inl e, w') \<Rightarrow> (Inl e, w') | (Inr _, w') \<Rightarrow> (Inr (), sync_development_auth_value w'))"

definition reset_development_credential :: "wizard \<Rightarrow> wizard" where
  "reset_development_credential w =
     put_value StepAuthentication [] (w\<lparr>wz_development_auth := auth_reset (wz_development_auth w)\<rparr>)"

definition select_development_fixture :: "(wizard, development_auth_error, unit) call" where
  "select_development_fixture w = (case on_flow (select_method LocalFixture) w of
       (Inl e, w') \<Rightarrow> (Inl e, w') | (Inr _, w') \<Rightarrow> (Inr (), put_value StepAuthentication [] w'))"

definition select_development_none :: "(wizard, development_auth_error, unit) call" where
  "select_development_none w = (case on_flow (select_method NoMethod) w of
       (Inl e, w') \<Rightarrow> (Inl e, w') | (Inr _, w') \<Rightarrow> (Inr (), put_value StepAuthentication ''none'' w'))"

definition restart_development_credential :: "wizard \<Rightarrow> wizard" where
  "restart_development_credential w =
     put_value StepAuthentication [] (w\<lparr>wz_development_auth := auth_restart (wz_development_auth w)\<rparr>)"


section \<open>Fields and steps\<close>

definition set_value :: "string \<Rightarrow> (wizard, wizard_error, unit) call" where
  "set_value v w =
     (if wz_step w = StepReview then (Inl WizardInvalidValue, w)
      else if 256 < char_count v then (Inl WizardTooLong, w)
      else if has_control v then (Inl WizardInvalidValue, w)
      else (Inr (), put_value (wz_step w) v w))"

definition restore_values :: "string list \<Rightarrow> (wizard, wizard_error, unit) call" where
  "restore_values vs w =
     (if list_ex (\<lambda>v. 256 < char_count v \<or> has_control v) vs then (Inl WizardInvalidValue, w)
      else (Inr (), w\<lparr>wz_values := vs, wz_cancelled := False\<rparr>))"

definition no_wizard_catalog :: wizard_error where
  "no_wizard_catalog = WizardCatalogError ''wizard catalog is unavailable''"

definition set_catalog_query :: "string \<Rightarrow> (wizard, wizard_error, unit) call" where
  "set_catalog_query q w = (case wz_catalog w of None \<Rightarrow> (Inl no_wizard_catalog, w)
     | Some k \<Rightarrow> (case set_query q k of (r, k') \<Rightarrow> (map_err WizardCatalogError r, w\<lparr>wz_catalog := Some k'\<rparr>)))"

definition move_catalog_cursor :: "int \<Rightarrow> (wizard, wizard_error, unit) call" where
  "move_catalog_cursor offset w = (case wz_catalog w of None \<Rightarrow> (Inl no_wizard_catalog, w)
     | Some k \<Rightarrow> (Inr (), w\<lparr>wz_catalog := Some (move_cursor offset k)\<rparr>))"

definition select_catalog_cursor :: "(wizard, wizard_error, unit) call" where
  "select_catalog_cursor w =
     (case wz_catalog w of None \<Rightarrow> (Inl no_wizard_catalog, w)
      | Some k \<Rightarrow>
          if wk_kind k = KindAgent
          then (case toggle_agent_cursor k of
              (Inl e, k') \<Rightarrow> (Inl (WizardCatalogError e), w\<lparr>wz_catalog := Some k'\<rparr>)
            | (Inr _, k') \<Rightarrow> set_value (join '','' (picker_selected_ids k' KindAgent)) (w\<lparr>wz_catalog := Some k'\<rparr>))
          else (case select_cursor k of
              (Inl e, k') \<Rightarrow> (Inl (WizardCatalogError e), w\<lparr>wz_catalog := Some k'\<rparr>)
            | (Inr _, k') \<Rightarrow>
                let v = (case selected_for_active_kind k' of None \<Rightarrow> [] | Some v \<Rightarrow> v);
                    w' = w\<lparr>wz_catalog := Some k'\<rparr>;
                    w' = (if wk_kind k' = KindProvider \<and> v \<noteq> []
                          then (case auth_new v of Inr flow \<Rightarrow> w'\<lparr>wz_development_auth := flow\<rparr> | Inl _ \<Rightarrow> w')
                          else w')
                in set_value v w'))"

definition wizard_toggle_visible_agents :: "(wizard, wizard_error, unit) call" where
  "wizard_toggle_visible_agents w =
     (case wz_catalog w of None \<Rightarrow> (Inl no_wizard_catalog, w)
      | Some k \<Rightarrow>
          (case toggle_visible_agents k of
             (Inl e, k') \<Rightarrow> (Inl (WizardCatalogError e), w\<lparr>wz_catalog := Some k'\<rparr>)
           | (Inr _, k') \<Rightarrow> set_value (join '','' (picker_selected_ids k' KindAgent)) (w\<lparr>wz_catalog := Some k'\<rparr>)))"

definition select_kind_for_step :: "wizard \<Rightarrow> wizard" where
  "select_kind_for_step w =
     (case wz_catalog w of None \<Rightarrow> w
      | Some k \<Rightarrow>
          (case wz_step w of
             StepAgent \<Rightarrow> w\<lparr>wz_catalog := Some (set_kind KindAgent k)\<rparr>
           | StepProvider \<Rightarrow> w\<lparr>wz_catalog := Some (set_kind KindProvider k)\<rparr>
           | StepModel \<Rightarrow> w\<lparr>wz_catalog := Some (set_kind KindModel k)\<rparr>
           | _ \<Rightarrow> w))"

definition ensure_bounded_default :: "wizard \<Rightarrow> wizard" where
  "ensure_bounded_default w =
     (if has_bounded_choices w \<and> current_value w = []
      then (case bounded_choices (wz_step w) of [] \<Rightarrow> w
            | (_, v) # _ \<Rightarrow> put_value (wz_step w) (bounded_value (wz_step w) v) w)
      else w)"

definition authentication_ok :: "string \<Rightarrow> bool" where
  "authentication_ok v \<longleftrightarrow> v \<in> {''none'', ''local_daemon''}
     \<or> (starts_with v reference_prefix \<and> (let digest = drop (length reference_prefix) v in
          length digest = 64 \<and> list_all is_ascii_hexdigit digest))"

definition validate_bounded_values :: "wizard \<Rightarrow> (wizard_error, unit) result" where
  "validate_bounded_values w = check_all (\<lambda>s.
     let v = wz_values w ! step_index s in
     if s = StepAuthentication then ensure (authentication_ok v) WizardInvalidValue
     else ensure (list_ex (\<lambda>(_, candidate). bounded_value s candidate = v) (bounded_choices s)) WizardInvalidValue)
     [StepConfiguration, StepAuthentication, StepRecording, StepReplay]"

definition step_after :: "wizard_step \<Rightarrow> wizard_step option" where
  "step_after s = (case s of StepAgent \<Rightarrow> Some StepProvider | StepProvider \<Rightarrow> Some StepModel
     | StepModel \<Rightarrow> Some StepConfiguration | StepConfiguration \<Rightarrow> Some StepAuthentication
     | StepAuthentication \<Rightarrow> Some StepRecording | StepRecording \<Rightarrow> Some StepReplay
     | StepReplay \<Rightarrow> Some StepReview | StepReview \<Rightarrow> None)"

definition step_before :: "wizard_step \<Rightarrow> wizard_step option" where
  "step_before s = (case s of StepAgent \<Rightarrow> None | StepProvider \<Rightarrow> Some StepAgent
     | StepModel \<Rightarrow> Some StepProvider | StepConfiguration \<Rightarrow> Some StepModel
     | StepAuthentication \<Rightarrow> Some StepConfiguration | StepRecording \<Rightarrow> Some StepAuthentication
     | StepReplay \<Rightarrow> Some StepRecording | StepReview \<Rightarrow> Some StepReplay)"

definition wizard_advance :: "(wizard, wizard_error, unit) call" where
  "wizard_advance w =
     (if wz_step w \<noteq> StepReview \<and> trim (wz_values w ! step_index (wz_step w)) = [] then (Inl WizardMissing, w)
      else case step_after (wz_step w) of None \<Rightarrow> (Inl WizardAtEnd, w)
        | Some s \<Rightarrow> (Inr (), ensure_bounded_default (select_kind_for_step (w\<lparr>wz_step := s\<rparr>))))"

definition wizard_back :: "(wizard, wizard_error, unit) call" where
  "wizard_back w = (case step_before (wz_step w) of None \<Rightarrow> (Inl WizardAtStart, w)
     | Some s \<Rightarrow> (Inr (), select_kind_for_step (w\<lparr>wz_step := s\<rparr>)))"

definition wizard_cancel :: "wizard \<Rightarrow> wizard" where
  "wizard_cancel w = restart_development_credential (w\<lparr>wz_cancelled := True, wz_step := StepAgent,
     wz_values := blank_values, wz_catalog := map_option reset_draft (wz_catalog w)\<rparr>)"

definition draft_auth :: "string \<Rightarrow> auth_method option" where
  "draft_auth v = (if v = ''none'' then Some AuthNone else if v = ''local_daemon'' then Some AuthLocalDaemon
     else if starts_with v reference_prefix then Some AuthCredentialReference else None)"

definition select_openrouter_adapter :: "wizard \<Rightarrow> (wizard_error, unit) result" where
  "select_openrouter_adapter w =
     and_then (ok_or (draft_auth (wz_values w ! step_index StepAuthentication)) WizardInvalidValue) (\<lambda>auth.
       if wz_mode w = ModeStable \<and> auth = AuthNone then Inl WizardInvalidValue
       else and_then (ok_or (wz_adapter_selection w) no_adapter_catalog) (\<lambda>s.
         map_err WizardAdapterError (validate_selection (ss_catalog s)
           \<lparr>as_adapter_id = ''opencode'', as_provider_id = ''openrouter'',
            as_model_id = trim (wz_values w ! step_index StepModel), as_auth = auth\<rparr>)))"

definition wizard_complete :: "wizard \<Rightarrow> (wizard_error, unit) result" where
  "wizard_complete w =
     and_then (validate_bounded_values w) (\<lambda>_.
     and_then (case wz_adapter_selection w of
         Some s \<Rightarrow> (case ss_committed s of
             Some x \<Rightarrow> map_err WizardAdapterError (validate_selection (ss_catalog s) x)
           | None \<Rightarrow> if trim (wz_values w ! step_index StepProvider) = ''openrouter''
                     then select_openrouter_adapter w else Inr ())
       | None \<Rightarrow> if trim (wz_values w ! step_index StepProvider) = ''openrouter''
                 then select_openrouter_adapter w else Inr ()) (\<lambda>_.
     ensure (wz_step w = StepReview) WizardAtEnd))"

section \<open>Events\<close>

datatype (plugins only: code size) wizard_event =
  OpenWizard | AutoOpenWizard | WizardNext | WizardBack | WizardComplete | WizardCancel
| WizardSetValue string | CatalogQuery string | CatalogMove int | CatalogSelect | CatalogToggleVisibleAgents
| CyclePane | BoundedChoiceMove int | DevelopmentEnroll | DevelopmentTest | DevelopmentRotate
| DevelopmentReset | DevelopmentSelectFixture | DevelopmentSelectNone | DevelopmentRestart

record wizard_transition =
  wt_event :: string
  wt_from :: string
  wt_to :: string
  wt_effects :: "string list"

record wizard_model =
  wm_routes :: "string list"
  wm_transitions :: "wizard_transition list"

record wizard_formal_state =
  wf_route :: startup_route
  wf_wizard :: wizard
  wf_pane :: wizard_pane

definition wizard_validate_model :: "wizard_model option \<Rightarrow> (wizard_error, unit) result" where
  "wizard_validate_model parsed =
     (case parsed of None \<Rightarrow> Inl WizardInvalidModel
      | Some m \<Rightarrow>
          if list_ex (\<lambda>r. r \<notin> set (wm_routes m)) [''wizard'', ''landing''] then Inl WizardInvalidModel
          else check_all (\<lambda>t. ensure (\<not> (wt_event t = [] \<or> wt_from t \<notin> set (wm_routes m)
            \<or> wt_to t \<notin> set (wm_routes m) \<or> wt_effects t = [])) WizardInvalidModel) (wm_transitions m))"

definition formal_new_with_wizard :: "wizard_model option \<Rightarrow> wizard \<Rightarrow> (wizard_error, wizard_formal_state) result" where
  "formal_new_with_wizard parsed w =
     and_then (wizard_validate_model parsed) (\<lambda>_.
       Inr \<lparr>wf_route = RouteLanding, wf_wizard = w, wf_pane = PaneChoices\<rparr>)"

definition formal_restore_values :: "string list \<Rightarrow> (wizard_formal_state, wizard_error, unit) call" where
  "formal_restore_values vs s =
     (case restore_values vs (wf_wizard s) of (Inl e, _) \<Rightarrow> (Inl e, s)
      | (Inr _, w) \<Rightarrow> (Inr (), s\<lparr>wf_wizard := w\<rparr>))"

definition event_target :: "wizard_event \<Rightarrow> string \<times> string" where
  "event_target ev = (case ev of
       OpenWizard \<Rightarrow> (''open_wizard'', ''wizard'')
     | AutoOpenWizard \<Rightarrow> (''startup_auto_open_wizard'', ''wizard'')
     | WizardNext \<Rightarrow> (''wizard_next'', ''wizard'')
     | WizardBack \<Rightarrow> (''wizard_back'', ''wizard'')
     | WizardComplete \<Rightarrow> (''complete_wizard'', ''landing'')
     | WizardCancel \<Rightarrow> (''cancel_wizard'', ''landing'')
     | WizardSetValue _ \<Rightarrow> (''wizard_set_value'', ''wizard'')
     | CatalogQuery _ \<Rightarrow> (''wizard_catalog_query'', ''wizard'')
     | CatalogMove _ \<Rightarrow> (''wizard_catalog_move'', ''wizard'')
     | CatalogSelect \<Rightarrow> (''wizard_catalog_select'', ''wizard'')
     | CatalogToggleVisibleAgents \<Rightarrow> (''wizard_catalog_toggle_visible_agents'', ''wizard'')
     | CyclePane \<Rightarrow> (''wizard_cycle_pane'', ''wizard'')
     | BoundedChoiceMove _ \<Rightarrow> (''wizard_bounded_choice_move'', ''wizard'')
     | DevelopmentEnroll \<Rightarrow> (''wizard_development_enroll'', ''wizard'')
     | DevelopmentTest \<Rightarrow> (''wizard_development_test'', ''wizard'')
     | DevelopmentRotate \<Rightarrow> (''wizard_development_rotate'', ''wizard'')
     | DevelopmentReset \<Rightarrow> (''wizard_development_reset'', ''wizard'')
     | DevelopmentSelectFixture \<Rightarrow> (''wizard_development_select_fixture'', ''wizard'')
     | DevelopmentSelectNone \<Rightarrow> (''wizard_development_select_none'', ''wizard'')
     | DevelopmentRestart \<Rightarrow> (''wizard_development_restart'', ''wizard''))"

definition startup_route_id :: "startup_route \<Rightarrow> string" where
  "startup_route_id r = (case r of RouteWizard \<Rightarrow> ''wizard'' | RouteLanding \<Rightarrow> ''landing'')"

definition wizard_expected_effects :: "wizard_event \<Rightarrow> string list" where
  "wizard_expected_effects ev =
     (if ev \<in> {WizardNext, WizardBack} then [''wizard_step_changed'', ''focus_reset'']
      else case ev of
        WizardSetValue _ \<Rightarrow> [''wizard_draft_changed'', ''focus_reset'']
      | CatalogQuery _ \<Rightarrow> [''wizard_catalog_changed'', ''focus_reset'']
      | CatalogMove _ \<Rightarrow> [''wizard_catalog_changed'', ''focus_reset'']
      | CatalogSelect \<Rightarrow> [''wizard_catalog_changed'', ''wizard_draft_changed'', ''focus_reset'']
      | CatalogToggleVisibleAgents \<Rightarrow> [''wizard_catalog_changed'', ''wizard_draft_changed'', ''focus_reset'']
      | CyclePane \<Rightarrow> [''wizard_pane_changed'']
      | BoundedChoiceMove _ \<Rightarrow> [''wizard_bounded_choice_changed'', ''wizard_draft_changed'', ''focus_reset'']
      | WizardCancel \<Rightarrow> [''route_changed'', ''focus_reset'', ''wizard_draft_cleared'', ''wizard_catalog_reset'',
          ''development_auth_restarted'']
      | _ \<Rightarrow> (if ev \<in> {DevelopmentEnroll, DevelopmentTest, DevelopmentRotate, DevelopmentReset,
              DevelopmentSelectFixture, DevelopmentSelectNone, DevelopmentRestart}
              then [''wizard_auth_changed'', ''focus_reset''] else [''route_changed'', ''focus_reset'']))"

definition wizard_find_transition :: "wizard_model \<Rightarrow> string \<Rightarrow> string \<Rightarrow> string \<Rightarrow> wizard_transition option" where
  "wizard_find_transition m event from to =
     find (\<lambda>t. wt_event t = event \<and> wt_from t = from \<and> wt_to t = to) (wm_transitions m)"

text \<open>The change of the wizard an event asks for while the wizard is open.\<close>

definition wizard_change :: "wizard_event \<Rightarrow> (wizard, wizard_error, unit) call" where
  "wizard_change ev w =
     (let auth = (\<lambda>(r, w'). (map_err (\<lambda>_. WizardInvalidValue) r, w')) in
      case ev of
        WizardSetValue v \<Rightarrow> set_value v w
      | CatalogQuery q \<Rightarrow> set_catalog_query q w
      | CatalogMove n \<Rightarrow> move_catalog_cursor n w
      | CatalogSelect \<Rightarrow> select_catalog_cursor w
      | CatalogToggleVisibleAgents \<Rightarrow> wizard_toggle_visible_agents w
      | BoundedChoiceMove n \<Rightarrow> move_bounded_choice n w
      | DevelopmentEnroll \<Rightarrow> auth (enroll_development_credential w)
      | DevelopmentTest \<Rightarrow> auth (test_development_credential w)
      | DevelopmentRotate \<Rightarrow> auth (rotate_development_credential w)
      | DevelopmentReset \<Rightarrow> (Inr (), reset_development_credential w)
      | DevelopmentSelectFixture \<Rightarrow> auth (select_development_fixture w)
      | DevelopmentSelectNone \<Rightarrow> auth (select_development_none w)
      | DevelopmentRestart \<Rightarrow> (Inr (), restart_development_credential w)
      | WizardNext \<Rightarrow> wizard_advance w
      | WizardBack \<Rightarrow> wizard_back w
      | WizardComplete \<Rightarrow> (wizard_complete w, w)
      | WizardCancel \<Rightarrow> (Inr (), wizard_cancel w)
      | _ \<Rightarrow> (Inr (), w))"

definition wizard_effect :: "wizard_event \<Rightarrow> wizard_formal_state \<Rightarrow> (wizard_error, wizard_formal_state) result" where
  "wizard_effect ev s =
     (if ev \<in> {OpenWizard, AutoOpenWizard}
      then (if wf_route s = RouteLanding then Inr (s\<lparr>wf_route := RouteWizard\<rparr>) else Inl WizardInvalidModel)
      else if wf_route s \<noteq> RouteWizard then Inl WizardInvalidModel
      else if ev = CyclePane then Inr (s\<lparr>wf_pane := pane_next (wf_pane s)\<rparr>)
      else case wizard_change ev (wf_wizard s) of
          (Inl e, _) \<Rightarrow> Inl e
        | (Inr _, w) \<Rightarrow> Inr (s\<lparr>wf_wizard := w,
            wf_route := (if ev \<in> {WizardComplete, WizardCancel} then RouteLanding else wf_route s)\<rparr>))"

text \<open>The event is applied to a clone that replaces the state only on success.\<close>

definition wizard_apply :: "wizard_model option \<Rightarrow> wizard_event \<Rightarrow> (wizard_formal_state, wizard_error, unit) call" where
  "wizard_apply parsed ev s =
     (case parsed of None \<Rightarrow> (Inl WizardInvalidModel, s)
      | Some m \<Rightarrow>
          (case wizard_find_transition m (fst (event_target ev)) (startup_route_id (wf_route s)) (snd (event_target ev)) of
             None \<Rightarrow> (Inl WizardInvalidModel, s)
           | Some t \<Rightarrow>
               if wt_effects t \<noteq> wizard_expected_effects ev then (Inl WizardInvalidModel, s)
               else (case wizard_effect ev s of Inl e \<Rightarrow> (Inl e, s) | Inr s' \<Rightarrow> (Inr (), s'))))"


section \<open>Texts\<close>

definition step_title :: "wizard_step \<Rightarrow> string" where
  "step_title s = (case s of StepAgent \<Rightarrow> ''Agent'' | StepProvider \<Rightarrow> ''Provider'' | StepModel \<Rightarrow> ''Model''
     | StepConfiguration \<Rightarrow> ''Configuration'' | StepAuthentication \<Rightarrow> ''Authentication''
     | StepRecording \<Rightarrow> ''Recording'' | StepReplay \<Rightarrow> ''Offline replay'' | StepReview \<Rightarrow> ''Review'')"

definition step_prompt :: "wizard_step \<Rightarrow> string" where
  "step_prompt s = (case s of StepAgent \<Rightarrow> ''Choose the agent used for this benchmark.''
     | StepProvider \<Rightarrow> ''Choose the model provider.''
     | StepModel \<Rightarrow> ''Choose the provider model.''
     | StepConfiguration \<Rightarrow> ''Choose a supported benchmark configuration preset.''
     | StepAuthentication \<Rightarrow> ''Choose the local development fixture to enroll, test, rotate, or reset; it creates digest-only metadata and never a provider secret. Production enrollment still uses the approved keychain/helper and credential_helper:<endpoint_sha256>:<locator_sha256>; never paste an API key.''
     | StepRecording \<Rightarrow> ''Choose the explicit provider execution and recording mode.''
     | StepReplay \<Rightarrow> ''Choose a supported offline replay policy without live fallback.''
     | StepReview \<Rightarrow> ''Review all choices before continuing.'')"

definition newline :: string where "newline = [CHR 0x0A]"

definition wizard_plain_text :: "wizard \<Rightarrow> string option" where
  "wizard_plain_text w =
     map_option (\<lambda>location. ''ASB setup wizard'' @ newline @ ''location: '' @ location @ newline
       @ ''unavailable: workloads/measures need ASB catalog; run needs ASB plan; results/compare need runs'' @ newline
       @ ''step: '' @ step_title (wz_step w) @ newline @ ''field: '' @ step_title (wz_step w) @ newline
       @ ''controls: Enter next | Esc back | q cancel'' @ newline)
       (render_text (wizard_progress (wz_step w)) LayoutTiny)"

definition unavailable_reason_lines :: "wizard_step \<Rightarrow> string list" where
  "unavailable_reason_lines s = List.map_filter (\<lambda>p. map_option
     (\<lambda>reason. ''[-] '' @ stage_label (sp_stage p) @ '': '' @ reason) (sp_unavailable_reason p)) (wizard_progress s)"

definition selected_or_missing :: "string \<Rightarrow> string" where
  "selected_or_missing v = (if v = [] then ''Not selected'' else v)"

definition authentication_class :: "string \<Rightarrow> string" where
  "authentication_class v =
     (if starts_with v reference_prefix then ''Credential reference'' else if v = ''local_daemon'' then ''Local daemon''
      else if v = ''none'' then ''No credential'' else if v = [] then ''Not selected'' else ''Configured reference'')"

definition review_values :: "wizard \<Rightarrow> (string \<times> string) list" where
  "review_values w =
     (let field = (\<lambda>s. wz_values w ! step_index s) in
      [(''Agents'', selected_or_missing (field StepAgent)),
       (''Provider'', selected_or_missing (field StepProvider)),
       (''Model'', selected_or_missing (field StepModel)),
       (''Configuration'', selected_or_missing (field StepConfiguration)),
       (''Authentication'', authentication_class (field StepAuthentication)),
       (''Recording'', selected_or_missing (field StepRecording)),
       (''Replay'', selected_or_missing (field StepReplay))])"

text \<open>The lines of the details, those of the summary, and the compact hint.\<close>

type_synonym wizard_body = "string list \<times> string list \<times> string"

definition review_presentation :: "wizard \<Rightarrow> wizard_body" where
  "review_presentation w =
     (let fields = map (\<lambda>(label, v). label @ '': '' @ v) (review_values w) in
      ([''Step: Review'', step_prompt StepReview] @ fields,
       [''Review all seven setup choices''] @ fields @ unavailable_reason_lines StepReview,
       ''Enter confirm; Esc revise''))"

definition auth_status_name :: "development_auth_status \<Rightarrow> string" where
  "auth_status_name t = (case t of Unconfigured \<Rightarrow> ''Unconfigured'' | Enrolled \<Rightarrow> ''Enrolled'' | Tested \<Rightarrow> ''Tested''
     | Rotated \<Rightarrow> ''Rotated'' | AuthReset \<Rightarrow> ''Reset'')"

definition auth_method_name :: "development_auth_method \<Rightarrow> string" where
  "auth_method_name m = (case m of LocalFixture \<Rightarrow> ''LocalFixture'' | NoMethod \<Rightarrow> ''None'')"

definition fixture_line :: "wizard \<Rightarrow> string" where
  "fixture_line w = (let f = wz_development_auth w in
     ''Development fixture: '' @ auth_status_name (da_status f) @ '' / '' @ auth_method_name (da_method f)
     @ '' / generation '' @ show_nat (unat (da_generation f)))"

definition heading_lines :: "wizard \<Rightarrow> string list" where
  "heading_lines w = [''Step: '' @ step_title (wz_step w), step_prompt (wz_step w)]"

definition bounded_body :: "wizard \<Rightarrow> wizard_body" where
  "bounded_body w =
     (let selected = bounded_selected_index w;
          labels = bounded_choice_labels w;
          rows = map (\<lambda>(i, label). row_text (row_enabled label (Some i = selected) (Some i = selected)))
                   (enumerate 0 labels);
          shown = (case selected of None \<Rightarrow> [] | Some i \<Rightarrow> if i < length labels then [labels ! i] else [])
      in (heading_lines w @ rows @ (if wz_step w = StepAuthentication then [fixture_line w] else []),
          summary_text (step_title (wz_step w)) shown SelectSingle @ unavailable_reason_lines (wz_step w),
          compact_action_hint SelectSingle))"

definition CATALOG_VIEWPORT_ROWS :: nat where "CATALOG_VIEWPORT_ROWS = 8"

definition catalog_window :: "wizard_catalog_state \<Rightarrow> nat \<times> nat" where
  "catalog_window k = (let first = wk_cursor k - (CATALOG_VIEWPORT_ROWS - 1)
     in (first, min (first + CATALOG_VIEWPORT_ROWS) (length (visible_options k))))"

definition catalog_row :: "wizard_catalog_state \<Rightarrow> bool \<Rightarrow> wizard_option \<Rightarrow> selection_row" where
  "catalog_row k cursor o1 =
     (if wo_available o1 then row_enabled (wo_label o1) (wo_id o1 \<in> set (picker_selected_ids k (wk_kind k))) cursor
      else row_disabled (wo_label o1) cursor (case wo_unavailable_reason o1 of Some r \<Rightarrow> r
        | None \<Rightarrow> ''Unavailable; refresh the setup catalog.''))"

text \<open>\<open>None\<close> is the panic of the slice \<open>options[first..last]\<close> when it is out of range.\<close>

definition catalog_rows :: "wizard_catalog_state \<Rightarrow> selection_row list option" where
  "catalog_rows k =
     (let (first, past) = catalog_window k; os = visible_options k in
      if past < first \<or> length os < past then None
      else Some (map (\<lambda>(i, o1). catalog_row k (wk_cursor k = first + i) o1)
        (enumerate 0 (take (past - first) (drop first os)))))"

definition adapter_lines :: "wizard \<Rightarrow> string list" where
  "adapter_lines w =
     (if wz_step w = StepAgent \<and> wizard_adapter_options w \<noteq> []
      then [''Coding-agent adapters (selection-driven):'']
        @ map (\<lambda>x. ''  '' @ (if selected_adapter_id w = Some (ao_id x) then ''>'' else '' '') @ '' '' @ ao_label x
            @ (case ao_reason x of None \<Rightarrow> [] | Some r \<Rightarrow> '' ('' @ r @ '')'')) (wizard_adapter_options w)
        @ [if wz_mode w = ModeDevelopment
           then ''Development-only adapters may use generated fixtures; stable mode requires an authoritative catalog.''
           else ''Stable adapters require an authoritative catalog and compatible authentication.'']
      else [])"

definition selected_labels :: "wizard_catalog_state \<Rightarrow> option_kind \<Rightarrow> string list" where
  "selected_labels k kind = List.map_filter (\<lambda>i. map_option wo_label
     (find (\<lambda>o1. wo_id o1 = i) (catalog_options (wk_catalog k) kind))) (picker_selected_ids k kind)"

definition catalog_body :: "wizard \<Rightarrow> wizard_catalog_state \<Rightarrow> wizard_body option" where
  "catalog_body w k = map_option (\<lambda>rows.
     let os = visible_options k;
         (first, past) = catalog_window k;
         mode = (if wk_kind k = KindAgent then SelectMultiple else SelectSingle)
     in (heading_lines w @ [''Search: '' @ wk_query k,
            if wk_kind k = KindAgent
            then ''Agents selected: '' @ show_nat (length (picker_selected_ids k KindAgent))
              @ (if wk_all_agents k then '' (all)'' else [])
            else ''Choose one compatible option'']
          @ (if CATALOG_VIEWPORT_ROWS < length os
             then [''Choices '' @ show_nat (first + 1) @ ''-'' @ show_nat past @ '' of '' @ show_nat (length os)] else [])
          @ map row_text rows
          @ (if os \<noteq> [] \<and> list_all (\<lambda>o1. \<not> wo_available o1) os
             then [''No selectable choices. Refresh or install an eligible agent, then try again.''] else [])
          @ adapter_lines w,
         summary_text (step_title (wz_step w)) (selected_labels k (wk_kind k)) mode
           @ unavailable_reason_lines (wz_step w) @ [action_hint mode],
         compact_action_hint mode)) (catalog_rows k)"

definition free_body :: "wizard \<Rightarrow> wizard_body" where
  "free_body w =
     (heading_lines w @ [if wz_step w = StepAuthentication then fixture_line w else [],
        ''Value: '' @ current_value w] @ unavailable_reason_lines (wz_step w),
      summary_text (step_title (wz_step w)) (if current_value w = [] then [] else [current_value w]) SelectSingle
        @ unavailable_reason_lines (wz_step w),
      compact_action_hint SelectSingle)"

definition wizard_body_of :: "wizard \<Rightarrow> wizard_body option" where
  "wizard_body_of w =
     (if wz_step w = StepReview then Some (review_presentation w)
      else if has_bounded_choices w then Some (bounded_body w)
      else case wz_catalog w of Some k \<Rightarrow> catalog_body w k | None \<Rightarrow> Some (free_body w))"

definition narrow_selected_line :: "wizard \<Rightarrow> string" where
  "narrow_selected_line w =
     (if wz_step w = StepReview
      then (let vs = map snd (review_values w) in ''Selected: '' @ vs ! 0 @ '' / '' @ vs ! 1 @ '' / '' @ vs ! 2)
      else if wz_step w = StepAgent
      then (case wz_catalog w of
          Some k \<Rightarrow> ''Selected: '' @ (let ls = selected_labels k KindAgent in
            if ls = [] then ''none'' else join '', '' ls)
        | None \<Rightarrow> ''Selected: none'')
      else ''Selected: '' @ (if current_value w = [] then ''none'' else current_value w))"

definition controls_text :: "wizard \<Rightarrow> string" where
  "controls_text w =
     (if wz_step w = StepAgent
      then ''Space select/unselect  |  A select/clear visible  |  Enter continue  |  Esc back  |  q cancel''
      else if wz_step w = StepAuthentication
      then ''Up/Down choose  |  F fixture  |  N no auth  |  Enter continue  |  ? help''
      else if has_bounded_choices w
      then ''Up/Down choose  |  Enter continue  |  Esc back  |  ? help  |  q cancel''
      else ''Enter select/continue  |  Esc back  |  ? help  |  q cancel'')"

text \<open>The layout of the progress line for a region of some width.\<close>

definition step_region_layout :: "wizard_step \<Rightarrow> u16 \<Rightarrow> stepper_layout" where
  "step_region_layout s width =
     (if width < 40 then LayoutTiny
      else case render_text (wizard_progress s) LayoutHorizontal of
        Some horizontal \<Rightarrow> if char_count horizontal + 2 \<le> unat width then LayoutHorizontal else LayoutCompact
      | None \<Rightarrow> LayoutCompact)"

fun ascii_replace :: "string \<Rightarrow> string" where
  "ascii_replace [] = []"
| "ascii_replace (c # s) =
     (if starts_with (c # s) box_dash \<or> starts_with (c # s) em_dash then CHR ''-'' # ascii_replace (drop 2 s)
      else if starts_with (c # s) middle_dot then CHR ''-'' # ascii_replace (drop 1 s)
      else c # ascii_replace s)"

definition ascii_fallback :: "bool \<Rightarrow> string \<Rightarrow> string" where
  "ascii_fallback unicode v = (if unicode then v else ascii_replace v)"

datatype semantic_role = RoleSurface | RoleText | RoleMuted | RoleAccent | RoleFocus | RoleSelected
| RoleStepComplete | RoleSuccess | RoleWarning | RoleError | RoleDisabled | RoleStale

definition choice_role :: "selection_row \<Rightarrow> semantic_role" where
  "choice_role r = (if \<not> sr_enabled r then RoleDisabled else if sr_focused r then RoleFocus
     else if sr_selected r then RoleSelected else RoleText)"

definition stepper_role :: "step_presentation \<Rightarrow> semantic_role" where
  "stepper_role p = (case sp_state p of StateComplete \<Rightarrow> RoleStepComplete | StateCurrent \<Rightarrow> RoleFocus
     | StateFuture \<Rightarrow> RoleMuted | StateUnavailable \<Rightarrow> RoleDisabled)"


section \<open>Well-formed drafts\<close>

definition text_ok :: "string \<Rightarrow> bool" where
  "text_ok v \<longleftrightarrow> char_count v \<le> 256 \<and> \<not> has_control v"

definition graphic :: "char \<Rightarrow> bool" where
  "graphic c \<longleftrightarrow> 33 \<le> byte c \<and> byte c < 127"

lemma trim_end_rev_graphic: "xs \<noteq> [] \<Longrightarrow> graphic (last xs) \<Longrightarrow> trim_end_rev xs \<noteq> []"
proof (induction xs rule: length_induct)
  case (1 xs)
  then obtain c s where xs: "xs = c # s" by (cases xs) auto
  have IH: "ys \<noteq> [] \<Longrightarrow> length ys < length xs \<Longrightarrow> last ys = last xs \<Longrightarrow> trim_end_rev ys \<noteq> []" for ys
    using 1 by metis
  have space2: "t \<noteq> []" if "s = d # t" "is_space2 d c" for d t
    using that 1(3) xs by (auto simp: graphic_def is_space2_def)
  have space3: "u \<noteq> []" if "s = d # e # u" "is_space3 e d c" for d e u
    using that 1(3) xs by (auto simp: graphic_def is_space3_def)
  have one: "is_space1 c \<Longrightarrow> s \<noteq> []" using 1(3) xs by (auto simp: graphic_def is_space1_def)
  note del = trim_end_rev.simps(2) [simp del]
  show ?case
    unfolding xs by (subst trim_end_rev.simps)
      (use IH [of s] IH [of "tl s"] IH [of "tl (tl s)"] one space2 space3 xs in
        \<open>auto split: list.splits\<close>)
qed

lemma trim_start_graphic: "graphic c \<Longrightarrow> trim_start (c # s) = c # s"
  by (auto simp: graphic_def is_space1_def is_space2_def is_space3_def split: list.splits)

lemma trim_graphic: "graphic c \<Longrightarrow> trim (c # s) \<noteq> []"
  using trim_end_rev_graphic [of "rev (c # s)"]
  by (simp only: trim_def trim_start_graphic) (auto simp: last_rev)

lemma char_count_le: "char_count v \<le> length v"
  by (simp add: char_count_def)

lemma public_text_append [simp]: "public_text (a @ b) \<longleftrightarrow> public_text a \<and> public_text b"
  by (simp add: public_text_def)

lemma lower_hex_public: "lower_hex n s \<Longrightarrow> public_text s"
  by (auto simp: text_defs list_all_iff)

lemma text_ok_public: "public_text v \<Longrightarrow> length v \<le> 256 \<Longrightarrow> text_ok v"
  using char_count_le [of v] by (simp add: text_ok_def public_text_iff)

lemma reference_text:
  assumes "lower_hex 64 d"
  shows "text_ok (reference_prefix @ d)" "trim (reference_prefix @ d) \<noteq> []" "authentication_ok (reference_prefix @ d)"
proof -
  have len: "length d = 64" and hex: "list_all is_lower_hexdigit d" using assms by (simp_all add: lower_hex_def)
  have "public_text reference_prefix" by (simp add: reference_prefix_def public_text_def)
  then show "text_ok (reference_prefix @ d)"
    using lower_hex_public [OF assms] len
    by (intro text_ok_public) (simp_all, simp add: reference_prefix_def)
  show "trim (reference_prefix @ d) \<noteq> []"
    using trim_graphic [of "CHR ''c''"] by (simp add: reference_prefix_def graphic_def)
  show "authentication_ok (reference_prefix @ d)"
    using len hex by (auto simp: authentication_ok_def starts_with_iff Let_def text_defs list_all_iff)
qed

lemma bounded_value_text:
  assumes "(label, v) \<in> set (bounded_choices s)"
  shows "text_ok (bounded_value s v) \<and> trim (bounded_value s v) \<noteq> []"
proof (cases "s = StepAuthentication")
  case True
  then show ?thesis using reference_text [OF digest_hex_lower] by (simp add: bounded_value_def)
next
  case False
  have "text_ok ''all defaults'' \<and> trim ''all defaults'' \<noteq> []" "text_ok ''live'' \<and> trim ''live'' \<noteq> []"
    "text_ok ''local-mock'' \<and> trim ''local-mock'' \<noteq> []"
    "text_ok ''strict offline replay'' \<and> trim ''strict offline replay'' \<noteq> []"
    by code_simp+
  with False assms show ?thesis
    by (cases s) (auto simp: bounded_choices_def bounded_value_def CONFIGURATION_PRESETS_def
        RECORDING_PRESETS_def REPLAY_PRESETS_def)
qed

lemma text_ok_Nil [simp]: "text_ok []"
  by (simp add: text_ok_def char_count_def)

lemma text_ok_none [simp]: "text_ok ''none''"
  by code_simp

text \<open>
  The draft: seven texts the field editor would accept, every field before the current step filled
  in but the authentication, which the development events may clear; the picker and the development
  credential as they guarantee; no committed adapter.
\<close>

definition draft_ok :: "wizard_step \<Rightarrow> string list \<Rightarrow> bool" where
  "draft_ok s vs \<longleftrightarrow> length vs = 7 \<and> (\<forall>v \<in> set vs. text_ok v)
     \<and> (\<forall>i < step_index s. i \<noteq> step_index StepAuthentication \<longrightarrow> trim (vs ! i) \<noteq> [])"

definition wizard_ok :: "wizard \<Rightarrow> bool" where
  "wizard_ok w \<longleftrightarrow> draft_ok (wz_step w) (wz_values w)
     \<and> (\<forall>k. wz_catalog w = Some k \<longrightarrow> picker_ok (wk_catalog k) k)
     \<and> auth_ok (da_provider (wz_development_auth w)) (wz_development_auth w)
     \<and> (\<forall>s. wz_adapter_selection w = Some s \<longrightarrow> ss_committed s = None)"

lemma step_index_le [simp]: "step_index s \<le> 7"
  by (cases s) (simp_all add: step_index_def)

lemma step_index_review: "step_index s < 7 \<longleftrightarrow> s \<noteq> StepReview"
  by (cases s) (simp_all add: step_index_def)

lemma draft_put:
  assumes "draft_ok s vs" "text_ok v" "i = step_index StepAuthentication \<or> step_index s \<le> i"
  shows "draft_ok s (vs[i := v])"
  using assms by (auto simp: draft_ok_def nth_list_update dest: set_update_subset_insert [THEN subsetD])

lemma put_value_ok:
  "wizard_ok w \<Longrightarrow> text_ok v \<Longrightarrow> s = StepAuthentication \<or> s = wz_step w \<Longrightarrow> wizard_ok (put_value s v w)"
  by (auto simp: wizard_ok_def put_value_def intro!: draft_put)

lemma set_value_ok: "wizard_ok w \<Longrightarrow> wizard_ok (snd (set_value v w))"
  by (simp add: set_value_def put_value_ok text_ok_def)

lemma picker_keeps_catalog: "picker_ok (wk_catalog k) k \<Longrightarrow>
    picker_ok (wk_catalog (snd (picker_step c k))) (snd (picker_step c k))"
  using picker_step_ok [of "wk_catalog k" k c] by (simp add: picker_ok_def)

lemma catalog_put_ok:
  "wizard_ok w \<Longrightarrow> wz_catalog w = Some k \<Longrightarrow> wizard_ok (w\<lparr>wz_catalog := Some (snd (picker_step c k))\<rparr>)"
  by (simp add: wizard_ok_def picker_keeps_catalog)

lemma auth_put_ok:
  "wizard_ok w \<Longrightarrow> auth_ok (da_provider f) f \<Longrightarrow> wizard_ok (w\<lparr>wz_development_auth := f\<rparr>)"
  by (simp add: wizard_ok_def)

lemma auth_step_keeps: "auth_ok (da_provider f) f \<Longrightarrow>
    auth_ok (da_provider (snd (auth_step c f))) (snd (auth_step c f))"
  using auth_step_ok [of "da_provider f" f c] by (simp add: auth_ok_def)

lemma on_flow_ok: "wizard_ok w \<Longrightarrow> wizard_ok (snd (on_flow (auth_step c) w))"
  by (simp add: on_flow_def split_beta auth_put_ok auth_step_keeps wizard_ok_def)

lemma sync_ok: "wizard_ok w \<Longrightarrow> wizard_ok (sync_development_auth_value w)"
  using locator_form [of "da_provider (wz_development_auth w)" "wz_development_auth w"]
  by (auto simp: sync_development_auth_value_def wizard_ok_def [of w] reference_text
      intro!: put_value_ok split: option.splits)


lemma picker_calls:
  "set_query q k = picker_step (PickQuery q) k" "move_cursor n k = snd (picker_step (PickMove n) k)"
  "toggle_agent_cursor k = picker_step PickToggle k" "select_cursor k = picker_step PickCursor k"
  "toggle_visible_agents k = picker_step PickAll k" "set_kind kind k = snd (picker_step (PickKind kind) k)"
  "reset_draft k = snd (picker_step PickReset k)"
  by (simp_all add: picker_step_def)

lemma select_cursor_case_ok:
  assumes "wizard_ok w" shows "wizard_ok (snd (select_catalog_cursor w))"
proof (cases "wz_catalog w")
  case (Some k)
  note put = catalog_put_ok [OF assms Some]
  show ?thesis
  proof (cases "wk_kind k = KindAgent")
    case True
    then show ?thesis using Some put [of PickToggle]
      by (cases "picker_step PickToggle k"; cases "fst (picker_step PickToggle k)")
         (auto simp: select_catalog_cursor_def picker_calls(3) intro: set_value_ok)
  next
    case False
    have flow: "wizard_ok (case auth_new v of Inr flow \<Rightarrow> w'\<lparr>wz_development_auth := flow\<rparr> | Inl _ \<Rightarrow> w')"
      if "wizard_ok w'" for v w'
      using that auth_flow_ok [of v]
      by (auto simp: auth_new_def intro!: auth_put_ok) (simp_all add: auth_flow_def)
    show ?thesis using False Some put [of PickCursor] flow
      by (cases "picker_step PickCursor k"; cases "fst (picker_step PickCursor k)")
         (auto simp: select_catalog_cursor_def picker_calls(4) Let_def intro!: set_value_ok)
  qed
qed (use assms in \<open>simp add: select_catalog_cursor_def\<close>)

lemma toggle_visible_case_ok:
  assumes "wizard_ok w" shows "wizard_ok (snd (wizard_toggle_visible_agents w))"
proof (cases "wz_catalog w")
  case (Some k)
  then show ?thesis using catalog_put_ok [OF assms Some, of PickAll]
    by (cases "picker_step PickAll k"; cases "fst (picker_step PickAll k)")
       (auto simp: wizard_toggle_visible_agents_def picker_calls(5) intro: set_value_ok)
qed (use assms in \<open>simp add: wizard_toggle_visible_agents_def\<close>)

lemma kind_for_step_ok: "wizard_ok w \<Longrightarrow> wizard_ok (select_kind_for_step w)"
  using catalog_put_ok [of w _ "PickKind _"]
  by (cases "wz_step w"; cases "wz_catalog w") (simp_all add: select_kind_for_step_def picker_calls(6))

lemma bounded_default_ok: "wizard_ok w \<Longrightarrow> wizard_ok (ensure_bounded_default w)"
  using bounded_value_text
  by (auto simp: ensure_bounded_default_def split: list.splits intro!: put_value_ok) force

lemma step_after_index: "step_after s = Some s' \<Longrightarrow> step_index s' = Suc (step_index s)"
  by (cases s) (auto simp: step_after_def step_index_def)

lemma step_before_index: "step_before s = Some s' \<Longrightarrow> step_index s' < step_index s"
  by (cases s) (auto simp: step_before_def step_index_def)

lemma advance_ok:
  assumes "wizard_ok w" shows "wizard_ok (snd (wizard_advance w))"
proof (cases "wz_step w \<noteq> StepReview \<and> trim (wz_values w ! step_index (wz_step w)) = []
    \<or> step_after (wz_step w) = None")
  case False
  then obtain s where s: "step_after (wz_step w) = Some s" by auto
  then have "trim (wz_values w ! step_index (wz_step w)) \<noteq> []"
    using False by (auto simp: step_after_def)
  then have "wizard_ok (w\<lparr>wz_step := s\<rparr>)"
    using assms step_after_index [OF s] by (auto simp: wizard_ok_def draft_ok_def less_Suc_eq)
  then show ?thesis using False s by (auto simp: wizard_advance_def intro!: bounded_default_ok kind_for_step_ok)
qed (use assms in \<open>auto simp: wizard_advance_def\<close>)

lemma back_ok:
  assumes "wizard_ok w" shows "wizard_ok (snd (wizard_back w))"
proof (cases "step_before (wz_step w)")
  case (Some s)
  have "wizard_ok (w\<lparr>wz_step := s\<rparr>)"
    using assms step_before_index [OF Some] by (auto simp: wizard_ok_def draft_ok_def)
  then show ?thesis using Some by (simp add: wizard_back_def kind_for_step_ok)
qed (use assms in \<open>simp add: wizard_back_def\<close>)

lemma flow_calls:
  "enroll = auth_step CallEnroll" "auth_test = auth_step CallTest" "rotate_credential = auth_step CallRotate"
  "select_method m = auth_step (CallMethod m)" "auth_reset f = snd (auth_step CallReset f)"
  "auth_restart f = snd (auth_step CallRestart f)"
  by (simp_all add: auth_step_def fun_eq_iff)

lemma cancel_ok: "wizard_ok w \<Longrightarrow> wizard_ok (wizard_cancel w)"
  unfolding wizard_cancel_def restart_development_credential_def
  by (rule put_value_ok)
     (auto simp: wizard_ok_def draft_ok_def blank_values_def step_index_def picker_keeps_catalog
        flow_calls(6) auth_step_keeps picker_calls(7))

lemma flow_event_ok:
  assumes "wizard_ok w"
  shows "wizard_ok (snd (enroll_development_credential w))" "wizard_ok (snd (test_development_credential w))"
    "wizard_ok (snd (rotate_development_credential w))" "wizard_ok (reset_development_credential w)"
    "wizard_ok (snd (select_development_fixture w))" "wizard_ok (snd (select_development_none w))"
    "wizard_ok (restart_development_credential w)"
proof -
  note flow = on_flow_ok [OF assms]
  show "wizard_ok (snd (enroll_development_credential w))" using flow [of CallEnroll]
    by (cases "on_flow enroll w"; cases "fst (on_flow enroll w)")
       (auto simp: enroll_development_credential_def flow_calls sync_ok)
  show "wizard_ok (snd (test_development_credential w))" using flow [of CallTest]
    by (simp add: test_development_credential_def flow_calls)
  show "wizard_ok (snd (rotate_development_credential w))" using flow [of CallRotate]
    by (cases "on_flow rotate_credential w"; cases "fst (on_flow rotate_credential w)")
       (auto simp: rotate_development_credential_def flow_calls sync_ok)
  show "wizard_ok (snd (select_development_fixture w))" using flow [of "CallMethod LocalFixture"]
    by (cases "on_flow (select_method LocalFixture) w"; cases "fst (on_flow (select_method LocalFixture) w)")
       (auto simp: select_development_fixture_def flow_calls put_value_ok)
  show "wizard_ok (snd (select_development_none w))" using flow [of "CallMethod NoMethod"]
    by (cases "on_flow (select_method NoMethod) w"; cases "fst (on_flow (select_method NoMethod) w)")
       (auto simp: select_development_none_def flow_calls put_value_ok)
  have "wizard_ok (w\<lparr>wz_development_auth := snd (auth_step c (wz_development_auth w))\<rparr>)" for c
    using assms auth_step_keeps by (auto intro!: auth_put_ok simp: wizard_ok_def)
  then show "wizard_ok (reset_development_credential w)" "wizard_ok (restart_development_credential w)"
    by (simp_all add: reset_development_credential_def restart_development_credential_def flow_calls put_value_ok)
qed

lemma bounded_move_ok:
  assumes "wizard_ok w" shows "wizard_ok (snd (move_bounded_choice n w))"
proof (cases "bounded_choices (wz_step w) = []")
  case False
  let ?cs = "bounded_choices (wz_step w)"
  have "text_ok (bounded_value (wz_step w) (snd (?cs ! nat (x mod int (length ?cs)))))" for x
  proof -
    have "nat (x mod int (length ?cs)) < length ?cs" using False by (simp add: nat_less_iff)
    then have "?cs ! nat (x mod int (length ?cs)) \<in> set ?cs" by (rule nth_mem)
    then show ?thesis using bounded_value_text by (metis prod.collapse)
  qed
  then show ?thesis using assms False by (simp add: move_bounded_choice_def Let_def put_value_ok)
qed (use assms in \<open>simp add: move_bounded_choice_def\<close>)

lemma wizard_change_ok:
  assumes "wizard_ok w" shows "wizard_ok (snd (wizard_change ev w))"
proof (cases ev)
  case (CatalogQuery q)
  then show ?thesis using assms catalog_put_ok [of w _ "PickQuery q"]
    by (cases "wz_catalog w") (auto simp: wizard_change_def set_catalog_query_def picker_calls(1) split_beta)
next
  case (CatalogMove n)
  then show ?thesis using assms catalog_put_ok [of w _ "PickMove n"]
    by (cases "wz_catalog w") (auto simp: wizard_change_def move_catalog_cursor_def picker_calls(2))
qed (use assms flow_event_ok [OF assms] in \<open>simp_all add: wizard_change_def split_beta set_value_ok
  select_cursor_case_ok toggle_visible_case_ok bounded_move_ok advance_ok back_ok cancel_ok\<close>)


section \<open>The documented transitions\<close>

definition transition :: "string \<Rightarrow> string \<Rightarrow> string \<Rightarrow> string list \<Rightarrow> wizard_transition" where
  "transition event from to effects = \<lparr>wt_event = event, wt_from = from, wt_to = to, wt_effects = effects\<rparr>"

text \<open>The transitions of \<open>docs/ui-state-model.json\<close> that leave or enter the wizard, in its order.\<close>

definition WIZARD_TRANSITIONS :: "wizard_transition list" where
  "WIZARD_TRANSITIONS = [
     transition ''resize'' ''wizard'' ''wizard'' [''dimensions_changed'', ''layout_recomputed'', ''focus_preserved''],
     transition ''open_wizard'' ''landing'' ''wizard'' [''route_changed'', ''focus_reset''],
     transition ''startup_auto_open_wizard'' ''landing'' ''wizard'' [''route_changed'', ''focus_reset''],
     transition ''wizard_next'' ''wizard'' ''wizard'' [''wizard_step_changed'', ''focus_reset''],
     transition ''wizard_back'' ''wizard'' ''wizard'' [''wizard_step_changed'', ''focus_reset''],
     transition ''wizard_cycle_pane'' ''wizard'' ''wizard'' [''wizard_pane_changed''],
     transition ''wizard_set_value'' ''wizard'' ''wizard'' [''wizard_draft_changed'', ''focus_reset''],
     transition ''wizard_catalog_query'' ''wizard'' ''wizard'' [''wizard_catalog_changed'', ''focus_reset''],
     transition ''wizard_catalog_move'' ''wizard'' ''wizard'' [''wizard_catalog_changed'', ''focus_reset''],
     transition ''wizard_bounded_choice_move'' ''wizard'' ''wizard'' [''wizard_bounded_choice_changed'', ''wizard_draft_changed'', ''focus_reset''],
     transition ''wizard_catalog_select'' ''wizard'' ''wizard'' [''wizard_catalog_changed'', ''wizard_draft_changed'', ''focus_reset''],
     transition ''wizard_catalog_toggle_visible_agents'' ''wizard'' ''wizard'' [''wizard_catalog_changed'', ''wizard_draft_changed'', ''focus_reset''],
     transition ''wizard_development_enroll'' ''wizard'' ''wizard'' [''wizard_auth_changed'', ''focus_reset''],
     transition ''wizard_development_test'' ''wizard'' ''wizard'' [''wizard_auth_changed'', ''focus_reset''],
     transition ''wizard_development_rotate'' ''wizard'' ''wizard'' [''wizard_auth_changed'', ''focus_reset''],
     transition ''wizard_development_reset'' ''wizard'' ''wizard'' [''wizard_auth_changed'', ''focus_reset''],
     transition ''wizard_development_select_fixture'' ''wizard'' ''wizard'' [''wizard_auth_changed'', ''focus_reset''],
     transition ''wizard_development_select_none'' ''wizard'' ''wizard'' [''wizard_auth_changed'', ''focus_reset''],
     transition ''wizard_development_restart'' ''wizard'' ''wizard'' [''wizard_auth_changed'', ''focus_reset''],
     transition ''complete_wizard'' ''wizard'' ''landing'' [''route_changed'', ''focus_reset''],
     transition ''cancel_wizard'' ''wizard'' ''landing'' [''route_changed'', ''focus_reset'', ''wizard_draft_cleared'', ''wizard_catalog_reset'', ''development_auth_restarted''],
     transition ''open_context_help'' ''wizard'' ''wizard'' [''context_help_opened'', ''focus_saved'', ''draft_preserved''],
     transition ''move_context_help'' ''wizard'' ''wizard'' [''context_help_selection_changed'', ''focus_preserved'', ''draft_preserved''],
     transition ''close_context_help'' ''wizard'' ''wizard'' [''context_help_closed'', ''focus_restored'', ''draft_preserved'']]"

definition documents_wizard :: "wizard_model \<Rightarrow> bool" where
  "documents_wizard m \<longleftrightarrow>
     filter (\<lambda>t. wt_from t = ''wizard'' \<or> wt_to t = ''wizard'') (wm_transitions m) = WIZARD_TRANSITIONS"

definition wizard_document :: wizard_model where
  "wizard_document = \<lparr>wm_routes = [''landing'', ''wizard'', ''measurement_selection'', ''configuration'', ''run_control'',
     ''recent_runs'', ''reports'', ''help''], wm_transitions = WIZARD_TRANSITIONS\<rparr>"

lemma find_in_filter: "(\<And>x. P x \<Longrightarrow> Q x) \<Longrightarrow> find P (filter Q xs) = find P xs"
  by (induction xs) auto

lemma documented_find:
  assumes "documents_wizard m" "from = ''wizard'' \<or> to = ''wizard''"
  shows "wizard_find_transition m event from to =
    find (\<lambda>t. wt_event t = event \<and> wt_from t = from \<and> wt_to t = to) WIZARD_TRANSITIONS"
  unfolding wizard_find_transition_def assms(1) [unfolded documents_wizard_def, symmetric]
  by (rule find_in_filter [symmetric]) (use assms(2) in auto)

text \<open>Every event is documented for the route it is meant for, with the effects the interpreter expects.\<close>

definition right_route :: "wizard_event \<Rightarrow> startup_route" where
  "right_route ev = (if ev \<in> {OpenWizard, AutoOpenWizard} then RouteLanding else RouteWizard)"

lemma documented_event:
  "map_option wt_effects (find (\<lambda>t. wt_event t = fst (event_target ev) \<and> wt_from t = startup_route_id r
      \<and> wt_to t = snd (event_target ev)) WIZARD_TRANSITIONS)
   = (if r = right_route ev then Some (wizard_expected_effects ev) else None)"
  by (cases ev; cases r; hypsubst; code_simp)


lemma wrong_route: "wf_route s \<noteq> right_route ev \<Longrightarrow> wizard_effect ev s = Inl WizardInvalidModel"
  by (cases "wf_route s") (auto simp: wizard_effect_def right_route_def split: if_splits)

section \<open>What the wizard guarantees\<close>

interpretation wizard_run: fail_closed "wizard_apply parsed" for parsed
proof
  fix ev s e s'
  assume "wizard_apply parsed ev s = (Inl e, s')"
  then show "s' = s"
    by (auto simp: wizard_apply_def split: option.splits if_splits sum.splits)
qed

lemma wizard_effect_ok:
  assumes "wizard_ok (wf_wizard s)" "wizard_effect ev s = Inr s'"
  shows "wizard_ok (wf_wizard s')"
proof (cases "ev \<in> {OpenWizard, AutoOpenWizard, CyclePane}")
  case True
  then show ?thesis using assms by (auto simp: wizard_effect_def split: if_splits)
next
  case False
  then obtain r w where w: "wizard_change ev (wf_wizard s) = (Inr r, w)" "wf_wizard s' = w"
    using assms(2)
    by (cases "wizard_change ev (wf_wizard s)"; cases "fst (wizard_change ev (wf_wizard s))")
       (auto simp: wizard_effect_def split: if_splits)
  then show ?thesis using wizard_change_ok [OF assms(1), of ev] by simp
qed

interpretation wizard_run: safe_machine "wizard_apply parsed" "\<lambda>s. wizard_ok (wf_wizard s)" for parsed
proof
  fix s :: wizard_formal_state and ev
  assume "wizard_ok (wf_wizard s)"
  then show "wizard_ok (wf_wizard (snd (wizard_apply parsed ev s)))"
    using wizard_effect_ok [of s ev]
    by (auto simp: wizard_apply_def split: option.splits sum.splits)
qed

text \<open>The wizards the program starts from.\<close>

definition fresh_wizard :: "wizard \<Rightarrow> bool" where
  "fresh_wizard w \<longleftrightarrow> w \<in> {wizard_default, wizard_stable} \<or> (\<exists>c. w = wizard_with_catalog c)
     \<or> (\<exists>a. w = stable_with_adapter_catalog a) \<or> (\<exists>c a. w = stable_with_catalog_and_adapter c a)"

lemma fresh_wizard_ok: "fresh_wizard w \<Longrightarrow> wizard_ok w"
proof -
  have "wizard_ok wizard_default"
    using auth_flow_ok [of "''development''"]
    by (auto simp: wizard_ok_def wizard_default_def draft_ok_def blank_values_def step_index_def
        development_session_def session_new_def auth_flow_def split: sum.splits)
  moreover have "picker_ok (wk_catalog (picker_new c k)) (picker_new c k)" for c k
    using picker_new_ok by (simp add: picker_new_def)
  ultimately show "fresh_wizard w \<Longrightarrow> wizard_ok w"
    by (auto simp: fresh_wizard_def wizard_stable_def wizard_with_catalog_def stable_with_adapter_catalog_def
        stable_with_catalog_and_adapter_def wizard_ok_def session_new_def)
qed

lemma formal_new_Inr: "formal_new_with_wizard parsed w = Inr s \<Longrightarrow> wf_wizard s = w \<and> wf_route s = RouteLanding"
  by (auto simp: formal_new_with_wizard_def result_simps)

lemma authentication_nonblank: "authentication_ok v \<Longrightarrow> trim v \<noteq> []"
  using trim_graphic [of "CHR ''c''"] trim_graphic [of "CHR ''n''"] trim_graphic [of "CHR ''l''"]
  by (auto simp: authentication_ok_def starts_with_iff reference_prefix_def graphic_def)

lemma bounded_values_Inr:
  "validate_bounded_values w = Inr u \<longleftrightarrow>
     wz_values w ! step_index StepConfiguration = ''all defaults''
     \<and> authentication_ok (wz_values w ! step_index StepAuthentication)
     \<and> wz_values w ! step_index StepRecording \<in> {''live'', ''local-mock''}
     \<and> wz_values w ! step_index StepReplay = ''strict offline replay''"
  by (auto simp: validate_bounded_values_def Let_def result_simps bounded_choices_def bounded_value_def
      CONFIGURATION_PRESETS_def RECORDING_PRESETS_def REPLAY_PRESETS_def)

lemma reviewed_nonblank:
  assumes "draft_ok StepReview vs" "authentication_ok (vs ! step_index StepAuthentication)" "v \<in> set vs"
  shows "trim v \<noteq> [] \<and> text_ok v"
proof -
  from assms obtain i where i: "i < 7" "v = vs ! i" by (auto simp: draft_ok_def in_set_conv_nth)
  have "trim (vs ! i) \<noteq> []"
    using i assms authentication_nonblank [OF assms(2)]
    by (cases "i = step_index StepAuthentication") (auto simp: draft_ok_def step_index_def)
  then show ?thesis using i assms by (auto simp: draft_ok_def)
qed

text \<open>
  C23: A setup is completed only at the review step with a full draft: seven fields that are not blank,
  at most 256 characters and free of control characters, the configuration, recording and replay
  presets, an authentication of a known form, and for OpenRouter a provider, model and
  authentication that the adapter catalog accepts, never without a credential in stable mode.
  This holds for every document and every sequence of events from a fresh wizard.
\<close>

theorem completed_setup_reviewed:
  assumes "fresh_wizard w0" "formal_new_with_wizard parsed w0 = Inr s0"
    and "fst (wizard_apply parsed WizardComplete (run_calls (wizard_apply parsed) evs s0)) = Inr ()"
  defines "w \<equiv> wf_wizard (run_calls (wizard_apply parsed) evs s0)"
  shows "wz_step w = StepReview \<and> length (wz_values w) = 7
     \<and> (\<forall>v \<in> set (wz_values w). trim v \<noteq> [] \<and> char_count v \<le> 256 \<and> \<not> has_control v)
     \<and> wz_values w ! step_index StepConfiguration = ''all defaults''
     \<and> wz_values w ! step_index StepRecording \<in> {''live'', ''local-mock''}
     \<and> wz_values w ! step_index StepReplay = ''strict offline replay''
     \<and> authentication_ok (wz_values w ! step_index StepAuthentication)
     \<and> (trim (wz_values w ! step_index StepProvider) = ''openrouter'' \<longrightarrow>
          (\<exists>session auth. wz_adapter_selection w = Some session
            \<and> draft_auth (wz_values w ! step_index StepAuthentication) = Some auth
            \<and> validate_selection (ss_catalog session) \<lparr>as_adapter_id = ''opencode'', as_provider_id = ''openrouter'',
                as_model_id = trim (wz_values w ! step_index StepModel), as_auth = auth\<rparr> = Inr ()
            \<and> (wz_mode w = ModeStable \<longrightarrow> auth \<noteq> AuthNone)))"
proof -
  let ?s = "run_calls (wizard_apply parsed) evs s0"
  have ok: "wizard_ok w"
    unfolding w_def using formal_new_Inr [OF assms(2)] fresh_wizard_ok [OF assms(1)]
    by (intro wizard_run.run_inv) simp
  have "is_ok (wizard_effect WizardComplete ?s)"
    using assms(3) by (auto simp: wizard_apply_def is_ok_def split: option.splits if_splits sum.splits)
  then have complete: "wizard_complete w = Inr ()"
    unfolding w_def by (auto simp: wizard_effect_def wizard_change_def is_ok_def split: if_splits sum.splits)
  then have bounded: "validate_bounded_values w = Inr ()" and review: "wz_step w = StepReview"
    by (auto simp: wizard_complete_def result_simps)
  have "select_openrouter_adapter w = Inr ()" if "trim (wz_values w ! step_index StepProvider) = ''openrouter''"
    using complete ok that
    by (auto simp: wizard_complete_def wizard_ok_def result_simps split: option.splits)
  then have adapter: "\<exists>session auth. wz_adapter_selection w = Some session
            \<and> draft_auth (wz_values w ! step_index StepAuthentication) = Some auth
            \<and> validate_selection (ss_catalog session) \<lparr>as_adapter_id = ''opencode'', as_provider_id = ''openrouter'',
                as_model_id = trim (wz_values w ! step_index StepModel), as_auth = auth\<rparr> = Inr ()
            \<and> (wz_mode w = ModeStable \<longrightarrow> auth \<noteq> AuthNone)"
    if "trim (wz_values w ! step_index StepProvider) = ''openrouter''"
    using that by (auto simp: select_openrouter_adapter_def result_simps split: if_splits)
  have "draft_ok StepReview (wz_values w)" using ok review by (simp add: wizard_ok_def)
  with bounded reviewed_nonblank have "\<forall>v \<in> set (wz_values w). trim v \<noteq> [] \<and> text_ok v"
    by (auto simp: bounded_values_Inr)
  then show ?thesis using review bounded adapter ok
    by (simp add: bounded_values_Inr text_ok_def wizard_ok_def draft_ok_def)
qed

text \<open>
  C24: With the documented transitions the interpreter never refuses an event because of the document:
  an event has its effect on the draft, or it is refused for the route or by the draft itself, and
  then nothing changes.
\<close>

theorem documented_events_interpreted:
  assumes "documents_wizard m"
  shows "wizard_apply (Some m) ev s =
     (case wizard_effect ev s of Inl e \<Rightarrow> (Inl e, s) | Inr s' \<Rightarrow> (Inr (), s'))"
proof (cases "wf_route s = right_route ev")
  case True
  then have "startup_route_id (wf_route s) = ''wizard'' \<or> snd (event_target ev) = ''wizard''"
    by (cases ev) (simp_all add: right_route_def startup_route_id_def event_target_def)
  from documented_find [OF assms this] True documented_event [of ev "wf_route s"]
  show ?thesis by (auto simp: wizard_apply_def)
next
  case False
  then show ?thesis by (auto simp: wizard_apply_def wrong_route split: option.splits)
qed


text \<open>A wizard that is open at a step with some fields and no committed adapter.\<close>

definition open_at :: "wizard_formal_state \<Rightarrow> wizard_step \<Rightarrow> string list \<Rightarrow> bool" where
  "open_at s st vs \<longleftrightarrow> wf_route s = RouteWizard \<and> wz_step (wf_wizard s) = st \<and> wz_values (wf_wizard s) = vs
     \<and> selected_adapter_id (wf_wizard s) = None"

definition fill_default :: "wizard_step \<Rightarrow> string list \<Rightarrow> string list" where
  "fill_default st vs = (case bounded_choices st of [] \<Rightarrow> vs
     | (_, v) # _ \<Rightarrow> if vs ! step_index st = [] then vs[step_index st := bounded_value st v] else vs)"

lemma bounded_iff: "has_bounded_choices w \<longleftrightarrow> bounded_choices (wz_step w) \<noteq> []"
  by (cases "wz_step w") (simp_all add: has_bounded_choices_def bounded_choices_def CONFIGURATION_PRESETS_def
      AUTHENTICATION_PRESETS_def RECORDING_PRESETS_def REPLAY_PRESETS_def)

lemma kind_for_step_keeps [simp]:
  "wz_values (select_kind_for_step w) = wz_values w" "wz_step (select_kind_for_step w) = wz_step w"
  "wz_adapter_selection (select_kind_for_step w) = wz_adapter_selection w"
  by (simp_all add: select_kind_for_step_def split: option.splits wizard_step.splits)

lemma bounded_default_view:
  "length (wz_values w) = 7 \<Longrightarrow> wz_values (ensure_bounded_default w) = fill_default (wz_step w) (wz_values w)
     \<and> wz_step (ensure_bounded_default w) = wz_step w
     \<and> wz_adapter_selection (ensure_bounded_default w) = wz_adapter_selection w"
  by (cases "wz_step w")
     (auto simp: ensure_bounded_default_def bounded_iff fill_default_def current_value_def put_value_def
        step_index_def bounded_choices_def CONFIGURATION_PRESETS_def AUTHENTICATION_PRESETS_def
        RECORDING_PRESETS_def REPLAY_PRESETS_def)

lemma next_at:
  assumes "documents_wizard m" "open_at s st vs" "step_after st = Some nxt" "length vs = 7"
    "trim (vs ! step_index st) \<noteq> []"
  shows "is_ok (fst (wizard_apply (Some m) WizardNext s))
    \<and> open_at (snd (wizard_apply (Some m) WizardNext s)) nxt (fill_default nxt vs)"
  using assms(2-5) bounded_default_view [of "select_kind_for_step (wf_wizard s\<lparr>wz_step := nxt\<rparr>)"]
  by (simp add: documented_events_interpreted [OF assms(1)] wizard_effect_def wizard_change_def
      wizard_advance_def open_at_def selected_adapter_id_def)

lemma complete_at:
  assumes "documents_wizard m" "open_at s StepReview vs" "validate_bounded_values (wf_wizard s) = Inr ()"
    "trim (vs ! step_index StepProvider) \<noteq> ''openrouter''"
  shows "wizard_apply (Some m) WizardComplete s = (Inr (), s\<lparr>wf_route := RouteLanding\<rparr>)"
  using assms(2-4)
  by (auto simp: documented_events_interpreted [OF assms(1)] wizard_effect_def wizard_change_def
      wizard_complete_def open_at_def selected_adapter_id_def split: option.splits)



text \<open>
  A cancelled setup leaves nothing of its draft: blank fields, the picker as new, no credential
  metadata.
\<close>

lemma cancelled_draft_forgotten:
  "wz_values (wizard_cancel w) = blank_values \<and> wz_step (wizard_cancel w) = StepAgent
   \<and> wz_catalog (wizard_cancel w) = map_option (\<lambda>k. picker_new (wk_catalog k) KindAgent) (wz_catalog w)
   \<and> da_credential_locator_sha256 (wz_development_auth (wizard_cancel w)) = None"
  by (cases "wz_catalog w")
     (simp_all add: wizard_cancel_def restart_development_credential_def put_value_def blank_values_def
        reset_draft_def picker_new_def auth_restart_def clear_digests_def step_index_def eval_nat_numeral)

text \<open>
  The progress line is truthful at every step: all thirteen stages in order, one of them current, the
  stages the runner owns never complete but unavailable with their reason, and the text never panics.
\<close>

theorem progress_truthful:
  "map sp_stage (wizard_progress s) = JOURNEY_STAGES
   \<and> map sp_stage (filter (\<lambda>p. sp_state p = StateCurrent) (wizard_progress s)) = [stage_of s]
   \<and> (\<forall>p \<in> set (wizard_progress s). (sp_state p = StateUnavailable) = (runner_owned_reason (sp_stage p) \<noteq> None)
        \<and> sp_unavailable_reason p = runner_owned_reason (sp_stage p))
   \<and> map sp_stage (filter (\<lambda>p. sp_state p = StateComplete) (wizard_progress s))
      = filter (\<lambda>g. runner_owned_reason g = None) (takeWhile (\<lambda>g. g \<noteq> stage_of s) JOURNEY_STAGES)
   \<and> render_text (wizard_progress s) layout \<noteq> None"
  by (cases s) (simp_all add: wizard_progress_def JOURNEY_STAGES_def stage_of_def runner_owned_reason_def
      render_text_def Let_def)

text \<open>
  The review never shows a credential reference: two drafts that differ only in the digest of the
  reference have the same review, the same narrow line and the same plain text.
\<close>

definition with_reference :: "string \<Rightarrow> wizard \<Rightarrow> wizard" where
  "with_reference digest w = put_value StepAuthentication (reference_prefix @ digest) w"

theorem review_hides_reference:
  "review_presentation (with_reference d w) = review_presentation (with_reference d' w)
   \<and> wizard_plain_text (with_reference d w) = wizard_plain_text (with_reference d' w)
   \<and> (wz_step w = StepAuthentication
      \<or> narrow_selected_line (with_reference d w) = narrow_selected_line (with_reference d' w))"
proof -
  have nth: "wz_values (with_reference x w) ! i = wz_values w ! i" if "i \<noteq> 4" for x i
    using that by (simp add: with_reference_def put_value_def step_index_def)
  have class1: "authentication_class (wz_values (with_reference x w) ! 4)
      = (if 4 < length (wz_values w) then ''Credential reference'' else authentication_class (wz_values w ! 4))" for x
  proof (cases "4 < length (wz_values w)")
    case True
    have "starts_with (reference_prefix @ x) reference_prefix" by (simp add: starts_with_iff)
    with True show ?thesis by (simp add: with_reference_def put_value_def step_index_def authentication_class_def)
  qed (simp add: with_reference_def put_value_def step_index_def list_update_beyond)
  have same: "review_values (with_reference d w) = review_values (with_reference d' w)"
    by (simp add: review_values_def Let_def step_index_def nth class1)
  have keep: "wz_step (with_reference x w) = wz_step w" "wz_catalog (with_reference x w) = wz_catalog w"
    "length (wz_values (with_reference x w)) = length (wz_values w)" for x
    by (simp_all add: with_reference_def put_value_def)
  have "current_value (with_reference x w) = current_value w" if "wz_step w \<noteq> StepAuthentication" for x
    using that by (simp add: current_value_def Let_def keep nth step_index_def split: wizard_step.splits)
  then show ?thesis using same
    by (cases "wz_step w = StepAuthentication")
       (simp_all add: review_presentation_def wizard_plain_text_def narrow_selected_line_def keep Let_def)
qed

lemma filter_nth: "filter P xs = map ((!) xs) (filter (\<lambda>i. P (xs ! i)) [0..<length xs])"
  using filter_map [of P "(!) xs" "[0..<length xs]"] by (simp add: map_nth comp_def)

text \<open>
  The window over the options: whatever was done with the picker, the slice of the options is in
  range, it has at most eight rows, and when an option is visible exactly one row is focused, that of
  the cursor.
\<close>

theorem window_shows_cursor:
  "case catalog_rows (run_calls picker_step calls (picker_new c k)) of
     None \<Rightarrow> False
   | Some rows \<Rightarrow> length rows \<le> CATALOG_VIEWPORT_ROWS
       \<and> (visible_options (run_calls picker_step calls (picker_new c k)) = [] \<or> length (filter sr_focused rows) = 1)"
proof -
  define s where "s = run_calls picker_step calls (picker_new c k)"
  have cursor: "wk_cursor s = 0 \<or> wk_cursor s < length (visible_options s)"
    using picker.run_inv [OF picker_new_ok] unfolding s_def by (simp add: picker_ok_def)
  obtain first past where win: "catalog_window s = (first, past)" by fastforce
  let ?os = "take (past - first) (drop first (visible_options s))"
  have first: "first = wk_cursor s - 7" and past: "past = min (first + 8) (length (visible_options s))"
    using win by (auto simp: catalog_window_def Let_def CATALOG_VIEWPORT_ROWS_def)
  have range: "first \<le> past" "past \<le> length (visible_options s)" using first past cursor by auto
  define rows where "rows = map (\<lambda>(i, o1). catalog_row s (wk_cursor s = first + i) o1) (enumerate 0 ?os)"
  have rows: "catalog_rows s = Some rows"
    using range by (simp add: catalog_rows_def win rows_def)
  have len: "length rows = past - first" using range by (simp add: rows_def)
  have focus: "sr_focused (rows ! i) \<longleftrightarrow> wk_cursor s = first + i" if "i < past - first" for i
    using that range
    by (simp add: rows_def nth_enumerate_eq catalog_row_def row_enabled_def row_disabled_def)
  have "filter sr_focused rows = [rows ! (wk_cursor s - first)]" if "visible_options s \<noteq> []"
  proof -
    have at: "wk_cursor s - first < past - first" "first \<le> wk_cursor s"
      using that cursor first past by auto
    have "filter sr_focused rows = map ((!) rows) (filter (\<lambda>i. sr_focused (rows ! i)) [0..<length rows])"
      by (rule filter_nth)
    also have "filter (\<lambda>i. sr_focused (rows ! i)) [0..<length rows] = filter (\<lambda>i. i = wk_cursor s - first) [0..<length rows]"
      using at by (intro filter_cong) (auto simp: len focus)
    also have "\<dots> = [wk_cursor s - first]"
      using at len filter_distinct_key [of "\<lambda>i. i" "[0..<length rows]" "wk_cursor s - first"] by simp
    finally show ?thesis by simp
  qed
  then show ?thesis using rows len past unfolding s_def [symmetric]
    by (cases "visible_options s = []") (simp_all add: CATALOG_VIEWPORT_ROWS_def)
qed


text \<open>On a narrow terminal the authentication step shows the reference with its digest.\<close>

lemma narrow_line_shows_reference:
  "wz_step w = StepAuthentication \<Longrightarrow> 4 < length (wz_values w) \<Longrightarrow>
     narrow_selected_line (with_reference d w) = ''Selected: '' @ reference_prefix @ d"
  by (simp add: narrow_selected_line_def with_reference_def put_value_def current_value_def step_index_def
      reference_prefix_def)

section \<open>A stale provider\<close>

text \<open>
  The events of a user who picks agent b, its provider q and its model n, goes back, exchanges the
  agent for a, walks forward over the fields that are still filled in, and completes the setup.
\<close>

definition exchange_events :: "wizard_event list" where
  "exchange_events = [OpenWizard, CatalogMove 1, CatalogSelect, WizardNext, CatalogMove 1, CatalogSelect, WizardNext,
     CatalogSelect, WizardBack, WizardBack, CatalogMove 1, CatalogSelect, CatalogMove (- 1), CatalogSelect,
     WizardNext, WizardNext, WizardNext, DevelopmentSelectNone, WizardNext, WizardNext, WizardNext, WizardNext,
     WizardComplete]"

fun run_effects :: "wizard_event list \<Rightarrow> wizard_formal_state \<Rightarrow> wizard_formal_state option" where
  "run_effects [] s = Some s"
| "run_effects (ev # evs) s = (case wizard_effect ev s of Inl _ \<Rightarrow> None | Inr s' \<Rightarrow> run_effects evs s')"

lemma run_effects_accepted:
  "documents_wizard m \<Longrightarrow> run_effects evs s = Some s' \<Longrightarrow>
     all_accepted (wizard_apply (Some m)) evs s \<and> run_calls (wizard_apply (Some m)) evs s = s'"
  by (induction evs arbitrary: s) (auto simp: documented_events_interpreted split: sum.splits)

definition exchange_start :: wizard_formal_state where
  "exchange_start = \<lparr>wf_route = RouteLanding,
     wf_wizard = wizard_with_catalog (setup_catalog\<lparr>wc_providers := [option_for ''p'' True [''a''], option_for ''q'' True [''b'']]\<rparr>),
     wf_pane = PaneChoices\<rparr>"

lemma exchange_run:
  "map_option (\<lambda>s. (take 3 (wz_values (wf_wizard s)), map_option wk_agents (wz_catalog (wf_wizard s)),
      map_option wk_provider (wz_catalog (wf_wizard s)), wf_route s)) (run_effects exchange_events exchange_start)
   = Some ([''a'', ''q'', ''n''], Some [''a''], Some None, RouteLanding)"
  by code_simp


lemma wizard_document_ok: "documents_wizard wizard_document"
  by (simp add: documents_wizard_def wizard_document_def WIZARD_TRANSITIONS_def transition_def)

text \<open>
  The wizard drops the choice of a provider when the agents change, but not the provider field of the
  draft: a setup completes with a provider that the catalog does not offer for its agent.
\<close>

theorem stale_provider_completes:
  "let s = run_calls (wizard_apply (Some wizard_document)) exchange_events exchange_start in
     all_accepted (wizard_apply (Some wizard_document)) exchange_events exchange_start
     \<and> wf_route s = RouteLanding \<and> take 3 (wz_values (wf_wizard s)) = [''a'', ''q'', ''n'']
     \<and> (\<exists>k. wz_catalog (wf_wizard exchange_start) = Some k \<and> \<not> offers (wc_providers (wk_catalog k)) ''q'' {''a''})"
proof -
  obtain s where s: "run_effects exchange_events exchange_start = Some s"
    "take 3 (wz_values (wf_wizard s)) = [''a'', ''q'', ''n'']" "wf_route s = RouteLanding"
    using exchange_run by (auto simp: map_option_eq_Some)
  from run_effects_accepted [OF wizard_document_ok s(1)] s(2,3) show ?thesis
    by (simp add: exchange_start_def wizard_with_catalog_def picker_new_def setup_catalog_def option_for_def
        offers_def)
qed

section \<open>Witnesses\<close>

theorem documented_events_interpreted_witness:
  "wf_route (snd (wizard_apply (Some wizard_document) OpenWizard exchange_start)) = RouteWizard"
  using documented_events_interpreted [OF wizard_document_ok, of OpenWizard exchange_start]
  by (simp add: wizard_effect_def exchange_start_def)

lemma exchange_formal: "formal_new_with_wizard (Some wizard_document) (wf_wizard exchange_start) = Inr exchange_start"
  by (simp add: formal_new_with_wizard_def wizard_validate_model_def wizard_document_def WIZARD_TRANSITIONS_def
      transition_def exchange_start_def)

theorem completed_setup_reviewed_witness:
  "wz_step (wf_wizard (run_calls (wizard_apply (Some wizard_document)) (butlast exchange_events) exchange_start)) = StepReview"
proof -
  obtain s where "run_effects (butlast exchange_events @ [last exchange_events]) exchange_start = Some s"
    using exchange_run by (auto simp: exchange_events_def)
  from run_effects_accepted [OF wizard_document_ok this]
  have "is_ok (fst (wizard_apply (Some wizard_document) (last exchange_events)
      (run_calls (wizard_apply (Some wizard_document)) (butlast exchange_events) exchange_start)))"
    by (simp add: exchange_events_def)
  then have "fst (wizard_apply (Some wizard_document) WizardComplete
      (run_calls (wizard_apply (Some wizard_document)) (butlast exchange_events) exchange_start)) = Inr ()"
    by (auto simp: exchange_events_def is_ok_def split: sum.splits)
  moreover have "fresh_wizard (wf_wizard exchange_start)" by (auto simp: fresh_wizard_def exchange_start_def)
  ultimately show ?thesis using completed_setup_reviewed [OF _ exchange_formal] by blast
qed

definition filled_state :: wizard_formal_state where
  "filled_state = \<lparr>wf_route = RouteWizard, wf_wizard = wizard_default\<lparr>wz_values := [''a'', ''p'', ''m'', [], [], [], []]\<rparr>,
     wf_pane = PaneChoices\<rparr>"


theorem progress_truthful_witness:
  "sp_state (wizard_progress StepReview ! 5) = StateUnavailable"
proof -
  have "length (wizard_progress StepReview) = 13" by code_simp
  then have "wizard_progress StepReview ! 5 \<in> set (wizard_progress StepReview)" by simp
  with progress_truthful [of StepReview LayoutTiny]
  have "(sp_state (wizard_progress StepReview ! 5) = StateUnavailable)
      = (runner_owned_reason (sp_stage (wizard_progress StepReview ! 5)) \<noteq> None)" by blast
  moreover have "sp_stage (wizard_progress StepReview ! 5) = JWorkload" by code_simp
  ultimately show ?thesis by (simp add: runner_owned_reason_def)
qed

end
