(* ===== verification/Terminal_Policy.thy ===== *)
theory Terminal_Policy
  imports Prelude
begin

text \<open>
  Model of \<open>src/terminal.rs\<close>: which frame sizes the renderer may allocate, the responsive
  layout class, validation of the environment's hints, and the render policy selected from
  them. The environment itself is an argument: \<open>var\<close> is \<open>env::var\<close> (a value that is valid
  UTF-8) and \<open>present\<close> is \<open>env::var_os(..).is_some()\<close>.
\<close>

section \<open>Frame dimensions and layout\<close>

definition MAX_TERMINAL_DIMENSION :: u16 where
  "MAX_TERMINAL_DIMENSION = 4096"

definition MAX_TERMINAL_CELLS :: u32 where
  "MAX_TERMINAL_CELLS = 262144"

definition frame_dimensions_are_safe :: "u16 \<Rightarrow> u16 \<Rightarrow> bool" where
  "frame_dimensions_are_safe columns lines \<longleftrightarrow>
     0 < columns \<and> 0 < lines
     \<and> columns \<le> MAX_TERMINAL_DIMENSION \<and> lines \<le> MAX_TERMINAL_DIMENSION
     \<and> (ucast columns :: u32) * (ucast lines :: u32) \<le> MAX_TERMINAL_CELLS"

datatype layout_class = Compact | Standard | Wide

record responsive_layout =
  rl_columns :: u16
  rl_lines :: u16
  rl_class :: layout_class

definition layout_from_dimensions :: "u16 option \<Rightarrow> u16 option \<Rightarrow> responsive_layout" where
  "layout_from_dimensions columns lines =
     (let (c, l) = (case (columns, lines) of
                      (Some c, Some l) \<Rightarrow> if frame_dimensions_are_safe c l then (c, l) else (1, 1)
                    | _ \<Rightarrow> (1, 1));
          cls = (if c < 40 \<or> l < 8 then Compact else if c < 100 \<or> l < 20 then Standard else Wide)
      in \<lparr>rl_columns = c, rl_lines = l, rl_class = cls\<rparr>)"

section \<open>Terminal evidence\<close>

datatype terminal_error = InvalidEvidence

record terminal_evidence =
  te_tty :: bool
  te_term :: "string option"
  te_term_program :: "string option"
  te_color_term :: "string option"
  te_ssh :: bool
  te_tmux :: bool
  te_screen :: bool
  te_no_color :: bool
  te_columns :: "u16 option"
  te_lines :: "u16 option"

definition bounded_env :: "(string \<Rightarrow> string option) \<Rightarrow> string \<Rightarrow> string option" where
  "bounded_env var name =
     (case var name of
        None \<Rightarrow> None
      | Some v \<Rightarrow> if v \<noteq> [] \<and> length v \<le> 128 \<and> \<not> has_control v then Some v else None)"

definition bounded_dimension :: "(string \<Rightarrow> string option) \<Rightarrow> string \<Rightarrow> u16 option" where
  "bounded_dimension var name =
     (case var name of
        None \<Rightarrow> None
      | Some v \<Rightarrow>
          (case parse_unsigned 65535 v of
             None \<Rightarrow> None
           | Some n \<Rightarrow>
               (let w = (word_of_nat n :: u16)
                in if 0 < w \<and> w \<le> MAX_TERMINAL_DIMENSION then Some w else None)))"

definition evidence_from_environment ::
  "bool \<Rightarrow> (string \<Rightarrow> string option) \<Rightarrow> (string \<Rightarrow> bool) \<Rightarrow> terminal_evidence" where
  "evidence_from_environment tty var present =
     \<lparr>te_tty = tty,
      te_term = bounded_env var ''TERM'',
      te_term_program = bounded_env var ''TERM_PROGRAM'',
      te_color_term = bounded_env var ''COLORTERM'',
      te_ssh = (present ''SSH_CONNECTION'' \<or> present ''SSH_TTY''),
      te_tmux = present ''TMUX'',
      te_screen = present ''STY'',
      te_no_color = present ''NO_COLOR'',
      te_columns = bounded_dimension var ''COLUMNS'',
      te_lines = bounded_dimension var ''LINES''\<rparr>"

definition option_values :: "'a option list \<Rightarrow> 'a list" where
  "option_values ms = List.map_filter id ms"

definition evidence_validate :: "terminal_evidence \<Rightarrow> (terminal_error, unit) result" where
  "evidence_validate e =
     (if list_ex (\<lambda>v. v = [] \<or> 128 < length v \<or> has_control v)
           (option_values [te_term e, te_term_program e, te_color_term e])
      then Inl InvalidEvidence
      else if list_ex (\<lambda>d. d = 0 \<or> MAX_TERMINAL_DIMENSION < d)
                (option_values [te_columns e, te_lines e])
      then Inl InvalidEvidence
      else (case (te_columns e, te_lines e) of
              (Some c, Some l) \<Rightarrow>
                if \<not> frame_dimensions_are_safe c l then Inl InvalidEvidence else Inr ()
            | _ \<Rightarrow> Inr ()))"

section \<open>Render policy\<close>

datatype capability_tier = Plain | BasicColor | IndexedColor | TrueColor

record render_policy =
  rp_tier :: capability_tier
  rp_unicode :: bool
  rp_mouse :: bool
  rp_focus :: bool
  rp_bracketed_paste :: bool
  rp_synchronized_output :: bool
  rp_alternate_screen :: bool

definition eq_ignore_ascii_case :: "string \<Rightarrow> string \<Rightarrow> bool" where
  "eq_ignore_ascii_case a b \<longleftrightarrow> to_ascii_lowercase a = to_ascii_lowercase b"

definition unwrap_or :: "'a \<Rightarrow> 'a option \<Rightarrow> 'a" where
  "unwrap_or d m = (case m of None \<Rightarrow> d | Some x \<Rightarrow> x)"

definition unknown_terminal :: "terminal_evidence \<Rightarrow> bool" where
  "unknown_terminal e \<longleftrightarrow>
     (let term = unwrap_or [] (te_term e) in term = [] \<or> eq_ignore_ascii_case term ''dumb'')"

definition select_tier :: "terminal_evidence \<Rightarrow> capability_tier" where
  "select_tier e =
     (let term = unwrap_or [] (te_term e);
          color = unwrap_or [] (te_color_term e);
          indexed = (str_contains term ''256color'' \<or> eq_ignore_ascii_case color ''256'');
          truecolor = (eq_ignore_ascii_case color ''truecolor''
                       \<or> eq_ignore_ascii_case color ''24bit''
                       \<or> str_contains term ''direct'')
      in if \<not> te_tty e \<or> te_no_color e \<or> unknown_terminal e then Plain
         else if truecolor then TrueColor
         else if indexed then IndexedColor
         else BasicColor)"

definition policy_from_evidence :: "terminal_evidence \<Rightarrow> (terminal_error, render_policy) result" where
  "policy_from_evidence e =
     and_then (evidence_validate e) (\<lambda>_.
       let tier = select_tier e;
           enhanced = ((tier = IndexedColor \<or> tier = TrueColor) \<and> te_tty e
                       \<and> \<not> te_ssh e \<and> \<not> te_tmux e \<and> \<not> te_screen e)
       in Inr \<lparr>rp_tier = tier,
               rp_unicode = (te_tty e \<and> \<not> unknown_terminal e \<and> \<not> te_no_color e),
               rp_mouse = enhanced,
               rp_focus = enhanced,
               rp_bracketed_paste = enhanced,
               rp_synchronized_output = (tier = TrueColor \<and> \<not> te_ssh e),
               rp_alternate_screen = (te_tty e \<and> \<not> unknown_terminal e)\<rparr>)"

definition tier_name :: "capability_tier \<Rightarrow> string" where
  "tier_name t = (case t of Plain \<Rightarrow> ''plain'' | BasicColor \<Rightarrow> ''basic_color''
     | IndexedColor \<Rightarrow> ''indexed_color'' | TrueColor \<Rightarrow> ''true_color'')"

definition channel :: "terminal_evidence \<Rightarrow> string" where
  "channel e = (if te_tmux e then ''tmux'' else if te_screen e then ''screen''
     else if te_ssh e then ''ssh'' else if te_tty e then ''local-tty'' else ''non-tty'')"

definition show_dimension :: "u16 option \<Rightarrow> string" where
  "show_dimension d = (case d of None \<Rightarrow> ''?'' | Some v \<Rightarrow> show_nat (unat v))"

definition doctor_line :: "render_policy \<Rightarrow> terminal_evidence \<Rightarrow> string" where
  "doctor_line p e =
     ''tier='' @ tier_name (rp_tier p) @ '' tty='' @ show_bool (te_tty e)
     @ '' channel='' @ channel e
     @ '' size='' @ show_dimension (te_columns e) @ ''x'' @ show_dimension (te_lines e)
     @ '' unicode='' @ show_bool (rp_unicode p) @ '' mouse='' @ show_bool (rp_mouse p)
     @ '' focus='' @ show_bool (rp_focus p) @ '' no_color='' @ show_bool (te_no_color e)"

definition doctor :: "terminal_evidence \<Rightarrow> (terminal_error, string) result" where
  "doctor e = and_then (policy_from_evidence e) (\<lambda>p. Inr (doctor_line p e))"

section \<open>Lemmas\<close>

text \<open>A product of two 16-bit values fits 32 bits, so the cell count is exact.\<close>

lemma unat_cells:
  "unat ((ucast (c :: u16) :: u32) * (ucast (l :: u16) :: u32)) = unat c * unat l"
proof -
  have c: "unat c \<le> 65535" and l: "unat l \<le> 65535"
    using unsigned_less [of c, where 'a = nat] unsigned_less [of l, where 'a = nat] by simp_all
  have "unat c * unat l \<le> 65535 * 65535" using mult_le_mono [OF c l] .
  then have "unat c * unat l < 2 ^ 32" by simp
  moreover have c': "take_bit 32 (unat c) = unat c" and l': "take_bit 32 (unat l) = unat l"
    using c l by (simp_all add: take_bit_nat_eq_self)
  ultimately show ?thesis by (simp add: unat_word_ariths unsigned_ucast_eq take_bit_nat_eq_self c' l')
qed

lemma frame_dimensions_are_safe_iff:
  "frame_dimensions_are_safe c l \<longleftrightarrow>
     1 \<le> unat c \<and> 1 \<le> unat l \<and> unat c \<le> 4096 \<and> unat l \<le> 4096 \<and> unat c * unat l \<le> 262144"
  by (simp add: frame_dimensions_are_safe_def MAX_TERMINAL_DIMENSION_def MAX_TERMINAL_CELLS_def
      word_le_nat_alt word_less_nat_alt unat_cells Suc_le_eq)

lemma layout_safe:
  "frame_dimensions_are_safe (rl_columns (layout_from_dimensions c l))
     (rl_lines (layout_from_dimensions c l))"
  by (auto simp: layout_from_dimensions_def Let_def frame_dimensions_are_safe_iff
      split: option.splits)

lemma layout_of_safe:
  "frame_dimensions_are_safe c l \<Longrightarrow>
   rl_columns (layout_from_dimensions (Some c) (Some l)) = c \<and>
   rl_lines (layout_from_dimensions (Some c) (Some l)) = l"
  by (simp add: layout_from_dimensions_def Let_def)

lemma bounded_env_Some:
  "bounded_env var n = Some v \<Longrightarrow> v \<noteq> [] \<and> length v \<le> 128 \<and> \<not> has_control v"
  by (auto simp: bounded_env_def split: option.splits if_splits)

lemma bounded_dimension_Some:
  "bounded_dimension var n = Some d \<Longrightarrow> d \<noteq> 0 \<and> d \<le> MAX_TERMINAL_DIMENSION"
  by (auto simp: bounded_dimension_def Let_def split: option.splits if_splits)

lemma evidence_validate_cells:
  "evidence_validate e = Inr u \<Longrightarrow> te_columns e = Some c \<Longrightarrow> te_lines e = Some l \<Longrightarrow>
   frame_dimensions_are_safe c l"
  by (auto simp: evidence_validate_def split: if_splits)

text \<open>
  What the environment reader accepts passes validation, up to the joint cell budget that only
  validation checks.
\<close>

lemma environment_validates:
  assumes "\<And>c l. te_columns e = Some c \<Longrightarrow> te_lines e = Some l \<Longrightarrow> frame_dimensions_are_safe c l"
    and "e = evidence_from_environment tty var present"
  shows "evidence_validate e = Inr ()"
  using assms bounded_env_Some bounded_dimension_Some
  by (auto simp: evidence_validate_def evidence_from_environment_def option_values_def
      List.map_filter_def linorder_not_less split: option.splits)

lemma policy_validated: "policy_from_evidence e = Inr p \<Longrightarrow> evidence_validate e = Inr ()"
  by (auto simp: policy_from_evidence_def result_simps)

lemma select_tier_plain:
  "\<not> te_tty e \<or> te_no_color e \<or> unknown_terminal e \<Longrightarrow> select_tier e = Plain"
  by (simp add: select_tier_def Let_def)

lemma unknown_terminal_cases:
  "te_term e = None \<or> te_term e = Some ''dumb'' \<Longrightarrow> unknown_terminal e"
  by (auto simp: unknown_terminal_def unwrap_or_def eq_ignore_ascii_case_def)

lemma doctor_returns: "doctor e = Inr s \<longleftrightarrow> (\<exists>p. policy_from_evidence e = Inr p \<and> s = doctor_line p e)"
  by (auto simp: doctor_def result_simps)

section \<open>Properties\<close>

text \<open>
  A frame the renderer is allowed to allocate has between 1 and 4096 columns and lines and
  at most 262144 cells, with the 32-bit product computed without wrap-around; every layout, also
  for missing or oversized dimensions, describes such a frame.
\<close>

theorem frame_budget:
  "(frame_dimensions_are_safe c l \<longleftrightarrow>
      1 \<le> unat c \<and> 1 \<le> unat l \<and> unat c \<le> 4096 \<and> unat l \<le> 4096 \<and> unat c * unat l \<le> 262144)
   \<and> unat (rl_columns (layout_from_dimensions mc ml)) * unat (rl_lines (layout_from_dimensions mc ml))
       \<le> 262144
   \<and> 1 \<le> unat (rl_columns (layout_from_dimensions mc ml))
   \<and> 1 \<le> unat (rl_lines (layout_from_dimensions mc ml))"
  using layout_safe [of mc ml] by (simp add: frame_dimensions_are_safe_iff)



end
