(* ===== verification/App_Shell.thy ===== *)
theory App_Shell
  imports Terminal_Policy "HOL-Library.Option_ord"
begin

text \<open>
  Model of \<open>src/app.rs\<close> and \<open>src/shell.rs\<close>, with the capability set of \<open>src/lib.rs\<close>: the
  single-writer frontend state that accepts control events only in the order of their durable
  revisions, and the shell that owns the route and gates it by the negotiated capabilities.
\<close>

section \<open>Capabilities\<close>

record capabilities =
  cap_analysis :: bool
  cap_artifacts :: bool
  cap_cancel :: bool
  cap_events :: bool
  cap_history :: bool
  cap_launch :: bool
  cap_planning :: bool
  cap_repeat :: bool

definition supports_tui :: "capabilities \<Rightarrow> bool" where
  "supports_tui c \<longleftrightarrow> cap_analysis c \<and> cap_artifacts c \<and> cap_cancel c \<and> cap_events c
     \<and> cap_history c \<and> cap_launch c \<and> cap_planning c \<and> cap_repeat c"

section \<open>Application state\<close>

datatype control_event_kind =
  RunnerReady | PlanCreated | RunStarted | RunUpdated | RunCompleted | RunFailed
| RunCancelled | ReconciliationRequired

record control_event =
  ev_revision :: u64
  ev_kind :: control_event_kind

datatype app_action =
  Resize u16 u16
| Control control_event
| Connected u64
| Disconnected
| Quit

datatype app_error = InvalidDimensions | InvalidEventOrder | ControlUnavailable

record app_state =
  as_layout :: responsive_layout
  as_connected :: bool
  as_quit :: bool
  as_last_revision :: "u64 option"
  as_last_event :: "control_event_kind option"

definition app_new :: "u16 \<Rightarrow> u16 \<Rightarrow> (app_error, app_state) result" where
  "app_new columns lines =
     (if \<not> frame_dimensions_are_safe columns lines then Inl InvalidDimensions
      else Inr \<lparr>as_layout = layout_from_dimensions (Some columns) (Some lines),
                as_connected = False, as_quit = False,
                as_last_revision = None, as_last_event = None\<rparr>)"

definition expected_revision :: "u64 option \<Rightarrow> u64 option" where
  "expected_revision known = (case known of None \<Rightarrow> Some 1 | Some r \<Rightarrow> checked_succ r)"

fun app_apply :: "app_action \<Rightarrow> (app_state, app_error, unit) call" where
  "app_apply (Resize columns lines) s =
     (if \<not> frame_dimensions_are_safe columns lines then (Inl InvalidDimensions, s)
      else (Inr (), s\<lparr>as_layout := layout_from_dimensions (Some columns) (Some lines)\<rparr>))"
| "app_apply (Control ev) s =
     (if \<not> as_connected s then (Inl ControlUnavailable, s)
      else if expected_revision (as_last_revision s) \<noteq> Some (ev_revision ev)
      then (Inl InvalidEventOrder, s)
      else (Inr (), s\<lparr>as_last_revision := Some (ev_revision ev), as_last_event := Some (ev_kind ev)\<rparr>))"
| "app_apply (Connected baseline) s =
     (if (case as_last_revision s of None \<Rightarrow> False | Some known \<Rightarrow> baseline < known)
      then (Inl InvalidEventOrder, s)
      else (Inr (),
            (if (case as_last_revision s of None \<Rightarrow> False | Some known \<Rightarrow> known < baseline)
             then s\<lparr>as_last_event := None\<rparr> else s)
              \<lparr>as_last_revision := Some baseline, as_connected := True\<rparr>))"
| "app_apply Disconnected s = (Inr (), s\<lparr>as_connected := False\<rparr>)"
| "app_apply Quit s = (Inr (), s\<lparr>as_quit := True\<rparr>)"

definition event_name :: "control_event_kind \<Rightarrow> string" where
  "event_name k = (case k of RunnerReady \<Rightarrow> ''runner_ready'' | PlanCreated \<Rightarrow> ''plan_created''
     | RunStarted \<Rightarrow> ''run_started'' | RunUpdated \<Rightarrow> ''run_updated''
     | RunCompleted \<Rightarrow> ''run_completed'' | RunFailed \<Rightarrow> ''run_failed''
     | RunCancelled \<Rightarrow> ''run_cancelled'' | ReconciliationRequired \<Rightarrow> ''reconciliation_required'')"

record frame_model =
  fm_title :: string
  fm_connection :: string
  fm_last_event :: string
  fm_layout :: string
  fm_ownership :: string

definition app_frame_model :: "app_state \<Rightarrow> frame_model" where
  "app_frame_model s =
     \<lparr>fm_title = ''Agent Systems Benchmark'',
      fm_connection = (if as_connected s then ''connected'' else ''disconnected''),
      fm_last_event = (case as_last_event s of None \<Rightarrow> ''none'' | Some k \<Rightarrow> event_name k),
      fm_layout = (case rl_class (as_layout s) of
                     Compact \<Rightarrow> ''compact'' | Standard \<Rightarrow> ''standard'' | Wide \<Rightarrow> ''wide''),
      fm_ownership = ''runner ownership remains external''\<rparr>"

definition newline :: string where
  "newline = [char_of (10 :: nat)]"

definition app_plain_text :: "app_state \<Rightarrow> string" where
  "app_plain_text s =
     (let f = app_frame_model s
      in fm_title f @ newline @ ''connection: '' @ fm_connection f @ newline
         @ ''last event: '' @ fm_last_event f @ newline @ fm_ownership f @ newline)"

section \<open>Application shell\<close>

datatype route =
  Landing | Configuration | MeasurementSelection | RunControl | RecentRuns | Reports | Help

datatype disabled_reason =
  NotNegotiated | NoAnalysis | NoCancel | NoEvents | NoHistory | NoLaunch | NoPlanning

datatype route_availability = Available | Disabled disabled_reason

definition availability :: "route \<Rightarrow> capabilities option \<Rightarrow> route_availability" where
  "availability r caps =
     (if r = Landing \<or> r = Configuration \<or> r = Help then Available
      else case caps of
        None \<Rightarrow> Disabled NotNegotiated
      | Some c \<Rightarrow>
          (case r of
             MeasurementSelection \<Rightarrow> if \<not> cap_planning c then Disabled NoPlanning else Available
           | RunControl \<Rightarrow>
               if \<not> cap_launch c then Disabled NoLaunch
               else if \<not> cap_cancel c then Disabled NoCancel
               else if \<not> cap_events c then Disabled NoEvents
               else Available
           | RecentRuns \<Rightarrow> if \<not> cap_history c then Disabled NoHistory else Available
           | Reports \<Rightarrow>
               if \<not> cap_analysis c then Disabled NoAnalysis
               else if \<not> cap_history c then Disabled NoHistory
               else Available
           | _ \<Rightarrow> Available))"

definition route_available :: "route \<Rightarrow> capabilities \<Rightarrow> bool" where
  "route_available r c \<longleftrightarrow> availability r (Some c) = Available"

datatype connection_state =
  ConnDisconnected | ConnConnecting | ConnConnected | ConnReconnecting | ConnIncompatible

datatype shell_action =
  ShellQuit
| Navigate route
| ShellResize u16 u16
| ShellConnected u64
| ShellControl control_event
| ShellDisconnected
| Reconnect

record application_shell =
  sh_state :: app_state
  sh_route :: route
  sh_connection :: connection_state
  sh_capabilities :: "capabilities option"

definition shell_new :: "u16 \<Rightarrow> u16 \<Rightarrow> (app_error, application_shell) result" where
  "shell_new columns lines =
     and_then (app_new columns lines) (\<lambda>st.
       Inr \<lparr>sh_state = st, sh_route = Landing, sh_connection = ConnDisconnected,
            sh_capabilities = None\<rparr>)"

text \<open>The inner call \<open>self.state.apply(action)?\<close>: it writes the state whether it fails or not.\<close>

definition with_app :: "app_action \<Rightarrow> (application_shell \<Rightarrow> application_shell) \<Rightarrow>
    (application_shell, app_error, unit) call" where
  "with_app a after sh =
     (case app_apply a (sh_state sh) of
        (Inl e, st) \<Rightarrow> (Inl e, sh\<lparr>sh_state := st\<rparr>)
      | (Inr _, st) \<Rightarrow> (Inr (), after (sh\<lparr>sh_state := st\<rparr>)))"

fun shell_apply :: "shell_action \<Rightarrow> (application_shell, app_error, unit) call" where
  "shell_apply ShellQuit sh = with_app Quit id sh"
| "shell_apply (ShellResize c l) sh = with_app (Resize c l) id sh"
| "shell_apply (ShellControl ev) sh = with_app (Control ev) id sh"
| "shell_apply (ShellConnected b) sh =
     with_app (Connected b) (\<lambda>s. s\<lparr>sh_connection := ConnConnected\<rparr>) sh"
| "shell_apply ShellDisconnected sh =
     with_app Disconnected (\<lambda>s. s\<lparr>sh_connection := ConnDisconnected\<rparr>) sh"
| "shell_apply Reconnect sh =
     with_app Disconnected (\<lambda>s. s\<lparr>sh_connection := ConnReconnecting\<rparr>) sh"
| "shell_apply (Navigate r) sh =
     (Inr (), if availability r (sh_capabilities sh) = Available then sh\<lparr>sh_route := r\<rparr> else sh)"

definition set_capabilities :: "capabilities \<Rightarrow> application_shell \<Rightarrow> application_shell" where
  "set_capabilities c sh =
     (if \<not> route_available (sh_route sh) c then sh\<lparr>sh_route := Landing\<rparr> else sh)
       \<lparr>sh_capabilities := Some c\<rparr>"

text \<open>Everything that writes the shell: its actions and a finished negotiation.\<close>

datatype shell_input = Act shell_action | Negotiated capabilities

fun shell_step :: "shell_input \<Rightarrow> (application_shell, app_error, unit) call" where
  "shell_step (Act a) sh = shell_apply a sh"
| "shell_step (Negotiated c) sh = (Inr (), set_capabilities c sh)"

section \<open>Contracts\<close>

definition shell_inv :: "application_shell \<Rightarrow> bool" where
  "shell_inv sh \<longleftrightarrow>
     availability (sh_route sh) (sh_capabilities sh) = Available
     \<and> (sh_connection sh = ConnConnected \<longleftrightarrow> as_connected (sh_state sh))
     \<and> frame_dimensions_are_safe (rl_columns (as_layout (sh_state sh))) (rl_lines (as_layout (sh_state sh)))"

lemma expected_revision_less: "expected_revision m = Some r \<Longrightarrow> m < Some r"
  by (auto simp: expected_revision_def dest: checked_succ_less split: option.splits)

lemma app_rank: "as_last_revision s \<le> as_last_revision (snd (app_apply a s))"
proof (cases a)
  case (Control ev)
  then show ?thesis
    using expected_revision_less [of "as_last_revision s" "ev_revision ev"] by auto
next
  case (Connected b)
  then show ?thesis by (auto split: option.splits)
qed auto

lemma app_rejected: "app_apply a s = (Inl e, s') \<Longrightarrow> s' = s"
  by (cases a) (auto split: if_splits)

lemma app_connected:
  "as_connected (snd (app_apply a s)) \<longleftrightarrow>
     (case a of Connected b \<Rightarrow> is_ok (fst (app_apply a s)) \<or> as_connected s
      | Disconnected \<Rightarrow> False | _ \<Rightarrow> as_connected s)"
  by (cases a) (auto split: option.splits)

lemma app_layout_safe:
  "frame_dimensions_are_safe (rl_columns (as_layout s)) (rl_lines (as_layout s)) \<Longrightarrow>
   frame_dimensions_are_safe (rl_columns (as_layout (snd (app_apply a s))))
     (rl_lines (as_layout (snd (app_apply a s))))"
  by (cases a) (auto simp: layout_safe)

interpretation app: fail_closed app_apply
  by unfold_locales (rule app_rejected)

interpretation app: ranked_machine app_apply "\<lambda>_. True" as_last_revision
  by unfold_locales (auto simp: app_rank)

lemma with_app_rejected: "with_app a f sh = (Inl e, sh') \<Longrightarrow> sh' = sh"
  by (auto simp: with_app_def split: prod.splits sum.splits dest: app_rejected)

lemma shell_step_rejected: "shell_step i sh = (Inl e, sh') \<Longrightarrow> sh' = sh"
proof (cases i)
  case (Act a)
  then show "shell_step i sh = (Inl e, sh') \<Longrightarrow> sh' = sh"
    by (cases a) (auto dest: with_app_rejected)
qed auto

lemma with_app_keeps:
  assumes "frame_dimensions_are_safe (rl_columns (as_layout (sh_state sh))) (rl_lines (as_layout (sh_state sh)))"
    and "\<And>s. sh_state (f s) = sh_state s \<and> sh_route (f s) = sh_route s
             \<and> sh_capabilities (f s) = sh_capabilities s"
  shows "sh_route (snd (with_app a f sh)) = sh_route sh
       \<and> sh_capabilities (snd (with_app a f sh)) = sh_capabilities sh
       \<and> sh_state (snd (with_app a f sh)) = snd (app_apply a (sh_state sh))"
  using assms(2) by (auto simp: with_app_def split: prod.splits sum.splits)

lemma shell_apply_inv: "shell_inv sh \<Longrightarrow> shell_inv (snd (shell_apply a sh))"
proof (cases a)
  case (Navigate r)
  then show "shell_inv sh \<Longrightarrow> ?thesis" by (auto simp: shell_inv_def)
next
  case (ShellConnected b)
  then show "shell_inv sh \<Longrightarrow> ?thesis"
    using app_layout_safe [of "sh_state sh" "Connected b"]
    by (auto simp: shell_inv_def with_app_def layout_safe split: prod.splits sum.splits option.splits if_splits)
next
  case (ShellControl ev)
  then show "shell_inv sh \<Longrightarrow> ?thesis"
    by (auto simp: shell_inv_def with_app_def split: prod.splits sum.splits if_splits)
qed (auto simp: shell_inv_def with_app_def layout_safe split: prod.splits sum.splits if_splits)

lemma set_capabilities_inv: "shell_inv sh \<Longrightarrow> shell_inv (set_capabilities c sh)"
  by (auto simp: shell_inv_def set_capabilities_def route_available_def availability_def)

lemma shell_step_inv: "shell_inv sh \<Longrightarrow> shell_inv (snd (shell_step i sh))"
  by (cases i) (auto intro: shell_apply_inv set_capabilities_inv)

interpretation shell: fail_closed shell_step
  by unfold_locales (rule shell_step_rejected)

interpretation shell: safe_machine shell_step shell_inv
  by unfold_locales (rule shell_step_inv)

lemma shell_new_inv: "shell_new c l = Inr sh \<Longrightarrow> shell_inv sh"
  by (auto simp: shell_new_def app_new_def shell_inv_def availability_def result_simps
      layout_safe split: if_splits)

lemma shell_control_accepted:
  "is_ok (fst (shell_apply (ShellControl ev) sh)) \<longleftrightarrow> is_ok (fst (app_apply (Control ev) (sh_state sh)))"
  by (auto simp: with_app_def split: prod.splits sum.splits)

text \<open>Accepted control events are the successor of the last revision, one after the other.\<close>

lemma control_step:
  assumes "as_connected s" and "as_last_revision s = Some b"
  shows "is_ok (fst (app_apply (Control ev) s)) \<longleftrightarrow> unat (ev_revision ev) = Suc (unat b)"
  using assms by (simp add: expected_revision_def checked_succ_Some_iff)

lemma control_run:
  assumes "as_connected s" and "as_last_revision s = Some b"
  shows "all_accepted app_apply (map Control evs) s \<longleftrightarrow>
         map (unat \<circ> ev_revision) evs = [Suc (unat b) ..< Suc (unat b) + length evs]"
  using assms
proof (induction evs arbitrary: s b)
  case (Cons ev evs)
  show ?case
  proof (cases "unat (ev_revision ev) = Suc (unat b)")
    case True
    with Cons.prems have "expected_revision (as_last_revision s) = Some (ev_revision ev)"
      by (simp add: expected_revision_def checked_succ_Some_iff)
    with True Cons.prems Cons.IH [of "snd (app_apply (Control ev) s)" "ev_revision ev"]
    show ?thesis by (simp add: upt_conv_Cons)
  next
    case False
    with Cons.prems have "\<not> is_ok (fst (app_apply (Control ev) s))" using control_step by blast
    moreover have "[Suc (unat b) ..< Suc (unat b) + length (ev # evs)]
        = Suc (unat b) # [Suc (Suc (unat b)) ..< Suc (unat b) + length (ev # evs)]"
      by (simp add: upt_conv_Cons del: upt_Suc)
    ultimately show ?thesis using False by (simp del: app_apply.simps upt_Suc)
  qed
qed simp

section \<open>Properties\<close>

text \<open>
  On a connection that negotiated the baseline \<open>b\<close>, a sequence of control events is accepted
  without an error exactly when its revisions are \<open>b + 1, b + 2, \<dots>\<close> without a gap, a repeat
  or a wrap-around of the 64-bit counter.
\<close>

theorem control_events_contiguous:
  assumes "as_connected s" and "as_last_revision s = Some b"
  shows "all_accepted app_apply (map Control evs) s \<longleftrightarrow>
         map (unat \<circ> ev_revision) evs = [Suc (unat b) ..< Suc (unat b) + length evs]"
  using assms by (rule control_run)

theorem control_events_contiguous_witness:
  "all_accepted app_apply
     (map Control [\<lparr>ev_revision = 91, ev_kind = RunnerReady\<rparr>, \<lparr>ev_revision = 92, ev_kind = RunStarted\<rparr>])
     \<lparr>as_layout = layout_from_dimensions (Some 80) (Some 24), as_connected = True, as_quit = False,
      as_last_revision = Some 90, as_last_event = None\<rparr>"
  by (subst control_events_contiguous [where b = 90]) (simp_all add: upt_rec)

text \<open>
  The frontend state fails closed. After any sequence of actions the state is the one the
  accepted actions alone produce, and the last known revision has never moved backwards (with no
  revision below every revision).
\<close>

theorem app_actions_atomic_monotone:
  "run_calls app_apply acts s = run_calls app_apply (accepted app_apply acts s) s
   \<and> all_accepted app_apply (accepted app_apply acts s) s
   \<and> as_last_revision s \<le> as_last_revision (run_calls app_apply acts s)"
  using app.run_accepted app.accepted_accepted app.run_rank by blast

text \<open>
  From a new shell, after any interleaving of actions and capability negotiations, the
  current route is available under the current capabilities, the shell shows itself connected
  exactly when the frontend state is, and the frame in use fits the allocation budget.
\<close>

theorem shell_route_always_available:
  assumes "shell_new columns lines = Inr sh"
  shows "shell_inv (run_calls shell_step inputs sh)"
  using shell.run_inv [OF shell_new_inv [OF assms]] .

theorem shell_route_always_available_witness:
  "\<exists>sh. shell_new 80 24 = Inr sh
      \<and> shell_inv (run_calls shell_step
          [Act (Navigate Reports), Act (ShellConnected 3), Act Reconnect, Act (Navigate Help)] sh)
      \<and> sh_route (run_calls shell_step
          [Act (Navigate Reports), Act (ShellConnected 3), Act Reconnect, Act (Navigate Help)] sh) = Help"
proof -
  obtain sh where sh: "shell_new 80 24 = Inr sh"
    by (simp add: shell_new_def app_new_def frame_dimensions_are_safe_iff)
  have "sh_route (run_calls shell_step
      [Act (Navigate Reports), Act (ShellConnected 3), Act Reconnect, Act (Navigate Help)] sh) = Help"
    by (auto simp: with_app_def availability_def split: prod.splits sum.splits)
  with shell_route_always_available [OF sh] sh show ?thesis by blast
qed

end
