(* ===== verification/Formal_State.thy ===== *)
theory Formal_State
  imports App_Shell
begin

text \<open>
  Model of \<open>src/formal_state.rs\<close>: the interpreter of the documented state graph of the user
  interface, the fence of the offline-default action and the contextual-help layer. The graph is
  the checked-in file \<open>docs/ui-state-model.json\<close>; its parsed form is the argument \<open>parsed\<close>, an
  error when the reader refuses the text. An \<open>isize\<close> is an \<open>int\<close>: rows are counted by list
  lengths, far below its bounds.
\<close>

section \<open>The document\<close>

record document_route =
  dr_id :: string
  dr_elements :: "string list"

record document_element =
  el_id :: string
  el_route :: string
  el_role :: string
  el_help_id :: string
  el_focusable :: bool
  el_hoverable :: bool

record document_transition =
  tr_event :: string
  tr_from :: string
  tr_to :: string
  tr_effects :: "string list"

record document =
  do_schema_version :: u64
  do_model :: string
  do_initial :: string
  do_routes :: "document_route list"
  do_elements :: "document_element list"
  do_transitions :: "document_transition list"

text \<open>The effects a transition must document, by its event.\<close>

definition documented_effects :: "string \<Rightarrow> string list" where
  "documented_effects event =
     (if event = ''resize'' then [''dimensions_changed'', ''layout_recomputed'', ''focus_preserved'']
      else if event = ''save_configuration'' then [''configuration_persisted'', ''focus_reset'']
      else if event = ''open_preflight'' then [''preflight_opened'', ''focus_reset'']
      else if event = ''apply_preflight'' then [''configuration_materialized'', ''focus_reset'']
      else if event = ''open_development_handoff'' then [''development_handoff_opened'', ''focus_reset'']
      else if event \<in> {''materialize_development'', ''cancel_development'', ''retry_development''}
      then [''development_handoff_changed'', ''focus_reset'']
      else if event \<in> {''edit_configuration'', ''backspace_configuration''}
      then [''configuration_draft_changed'']
      else if event = ''commit_configuration_edit'' then [''configuration_draft_changed'', ''focus_reset'']
      else if event \<in> {''wizard_next'', ''wizard_back''} then [''wizard_step_changed'', ''focus_reset'']
      else if event = ''wizard_cycle_pane'' then [''wizard_pane_changed'']
      else if event = ''wizard_set_value'' then [''wizard_draft_changed'', ''focus_reset'']
      else if event = ''wizard_bounded_choice_move''
      then [''wizard_bounded_choice_changed'', ''wizard_draft_changed'', ''focus_reset'']
      else if event \<in> {''wizard_catalog_query'', ''wizard_catalog_move''}
      then [''wizard_catalog_changed'', ''focus_reset'']
      else if event \<in> {''wizard_catalog_select'', ''wizard_catalog_toggle_visible_agents''}
      then [''wizard_catalog_changed'', ''wizard_draft_changed'', ''focus_reset'']
      else if event \<in> {''wizard_development_enroll'', ''wizard_development_test'',
                       ''wizard_development_rotate'', ''wizard_development_reset'',
                       ''wizard_development_select_fixture'', ''wizard_development_select_none'',
                       ''wizard_development_restart''}
      then [''wizard_auth_changed'', ''focus_reset'']
      else if event = ''go_back'' then [''route_restored'', ''focus_reset'']
      else if event = ''toggle_all_measures'' then [''selection_changed'', ''explicit_all_reconciled'']
      else if event = ''open_help'' then [''return_route_saved'', ''route_changed'', ''focus_reset'']
      else if event = ''open_context_help''
      then [''context_help_opened'', ''focus_saved'', ''draft_preserved'']
      else if event = ''move_context_help''
      then [''context_help_selection_changed'', ''focus_preserved'', ''draft_preserved'']
      else if event = ''close_context_help''
      then [''context_help_closed'', ''focus_restored'', ''draft_preserved'']
      else if event = ''cancel_wizard''
      then [''route_changed'', ''focus_reset'', ''wizard_draft_cleared'', ''wizard_catalog_reset'',
            ''development_auth_restarted'']
      else if event \<in> {''start_run'', ''cancel_run'', ''reconnect''} then [''run_state_changed'']
      else [''route_changed'', ''focus_reset''])"

text \<open>
  The reachability loop: one pass over the transitions inserts the targets of the routes reached
  so far, in place, until a pass adds nothing.
\<close>

fun reach_pass :: "document_transition list \<Rightarrow> string set \<Rightarrow> string set" where
  "reach_pass [] reached = reached"
| "reach_pass (t # ts) reached =
     reach_pass ts (if tr_from t \<in> reached then insert (tr_to t) reached else reached)"

lemma reach_pass_increases: "reached \<subseteq> reach_pass ts reached"
  by (induction ts reached rule: reach_pass.induct) auto

lemma reach_pass_targets: "reach_pass ts reached \<subseteq> reached \<union> tr_to ` set ts"
  by (induction ts reached rule: reach_pass.induct) (auto split: if_splits)

function reach_loop :: "document_transition list \<Rightarrow> string set \<Rightarrow> string set" where
  "reach_loop ts reached =
     (let after = reach_pass ts reached in
      if card after = card reached then reached else reach_loop ts after)"
  by pat_completeness auto
termination
proof (relation "measure (\<lambda>(ts, reached). card (tr_to ` set ts - reached))")
  fix ts :: "document_transition list" and reached after
  assume after: "after = reach_pass ts reached" and "card after \<noteq> card reached"
  then have "after \<noteq> reached" by blast
  then obtain x where x: "x \<in> after" "x \<notin> reached" using after reach_pass_increases [of reached ts] by blast
  have "tr_to ` set ts - after \<subset> tr_to ` set ts - reached"
    using x reach_pass_increases [of reached ts] reach_pass_targets [of ts reached] after by blast
  then show "((ts, after), ts, reached) \<in> measure (\<lambda>(ts, reached). card (tr_to ` set ts - reached))"
    by (simp add: psubset_card_mono)
qed simp

declare reach_loop.simps [simp del]

fun check_routes :: "document_route list \<Rightarrow> string set \<Rightarrow> (string, string set) result" where
  "check_routes [] ids = Inr ids"
| "check_routes (r # rs) ids =
     (if dr_id r \<in> ids then Inl (''duplicate route '' @ dr_id r)
      else check_routes rs (insert (dr_id r) ids))"

definition check_element :: "document \<Rightarrow> document_element \<Rightarrow> (string, unit) result" where
  "check_element d e =
     (if el_id e = [] \<or> trim (el_help_id e) = [] \<or> el_role e = []
      then Inl (''incomplete element '' @ el_id e)
      else if \<not> list_ex (\<lambda>r. list_ex (\<lambda>i. i = el_id e) (dr_elements r)) (do_routes d)
      then Inl (''element '' @ el_id e @ '' is not placed'') else Inr ())"

definition check_placement :: "document \<Rightarrow> document_route \<Rightarrow> (string, unit) result" where
  "check_placement d r = check_all (\<lambda>i.
     if i \<noteq> ''navigation'' \<and> \<not> list_ex (\<lambda>e. el_id e = i) (do_elements d)
     then Inl (''route '' @ dr_id r @ '' references unknown element '' @ i) else Inr ()) (dr_elements r)"

definition check_transition :: "string set \<Rightarrow> document_transition \<Rightarrow> (string, unit) result" where
  "check_transition ids t =
     (if tr_from t \<notin> ids \<or> tr_to t \<notin> ids \<or> tr_event t = [] \<or> tr_effects t = []
      then Inl (''invalid transition '' @ tr_event t)
      else if tr_effects t \<noteq> documented_effects (tr_event t)
      then Inl (''invalid effects for transition '' @ tr_event t) else Inr ())"

definition validate_document :: "document \<Rightarrow> (string, unit) result" where
  "validate_document d =
     (if do_schema_version d \<noteq> 1 \<or> do_model d \<noteq> ''asb-tui.ui-state''
      then Inl ''unsupported UI model identity''
      else if do_initial d \<noteq> ''landing'' \<or> do_routes d = [] then Inl ''invalid UI model entry''
      else and_then (check_routes (do_routes d) {}) (\<lambda>ids.
           and_then (check_all (check_element d) (do_elements d)) (\<lambda>_.
           and_then (check_all (check_placement d) (do_routes d)) (\<lambda>_.
           and_then (check_all (check_transition ids) (do_transitions d)) (\<lambda>_.
             if card (reach_loop (do_transitions d) {do_initial d}) \<noteq> length (do_routes d)
             then Inl ''UI model contains unreachable routes'' else Inr ())))))"

definition validate_model :: "(string, document) result \<Rightarrow> (string, unit) result" where
  "validate_model parsed = and_then parsed validate_document"

section \<open>The interpreter\<close>

datatype visible_measure_action = SelectVisible | ClearVisible
datatype visible_measure_scope = ActivePool | Filtered

datatype (plugins only: code size) formal_event =
  OpenLanding | OpenConfiguration | OpenMeasurementSelection
| ToggleAllMeasures visible_measure_action visible_measure_scope
| OpenRunControl | OpenRecentRuns | OpenReports | OpenHelp | OpenDevelopmentHandoff
| MaterializeDevelopment | CancelDevelopment | RetryDevelopment | GoBack | SaveConfiguration
| OpenPreflight | ApplyPreflight | StartRun | CancelRun | ReconnectEvent | OpenContextHelp
| MoveContextHelp "8 word" nat | CloseContextHelp | ResizeEvent u16 u16 | FocusEvent string

fun event_id :: "formal_event \<Rightarrow> string option" where
  "event_id OpenLanding = Some ''open_landing''"
| "event_id OpenConfiguration = Some ''open_configuration''"
| "event_id OpenMeasurementSelection = Some ''open_measurement_selection''"
| "event_id (ToggleAllMeasures _ _) = Some ''toggle_all_measures''"
| "event_id OpenRunControl = Some ''open_run_control''"
| "event_id OpenRecentRuns = Some ''open_recent_runs''"
| "event_id OpenReports = Some ''open_reports''"
| "event_id OpenHelp = Some ''open_help''"
| "event_id OpenDevelopmentHandoff = Some ''open_development_handoff''"
| "event_id MaterializeDevelopment = Some ''materialize_development''"
| "event_id CancelDevelopment = Some ''cancel_development''"
| "event_id RetryDevelopment = Some ''retry_development''"
| "event_id GoBack = Some ''go_back''"
| "event_id SaveConfiguration = Some ''save_configuration''"
| "event_id OpenPreflight = Some ''open_preflight''"
| "event_id ApplyPreflight = Some ''apply_preflight''"
| "event_id StartRun = Some ''start_run''"
| "event_id CancelRun = Some ''cancel_run''"
| "event_id ReconnectEvent = Some ''reconnect''"
| "event_id OpenContextHelp = Some ''open_context_help''"
| "event_id (MoveContextHelp _ _) = Some ''move_context_help''"
| "event_id CloseContextHelp = Some ''close_context_help''"
| "event_id (ResizeEvent _ _) = None"
| "event_id (FocusEvent _) = None"

datatype formal_error =
  InvalidModel string | UnknownElement string | ElementNotFocusable string
| InvalidSize app_error | UnknownTransition route string | RouteUnavailable route
| InvalidContextHelpState

definition route_id :: "route \<Rightarrow> string" where
  "route_id r = (case r of Landing \<Rightarrow> ''landing'' | Configuration \<Rightarrow> ''configuration''
     | MeasurementSelection \<Rightarrow> ''measurement_selection'' | RunControl \<Rightarrow> ''run_control''
     | RecentRuns \<Rightarrow> ''recent_runs'' | Reports \<Rightarrow> ''reports'' | Help \<Rightarrow> ''help'')"

definition route_from_id :: "string \<Rightarrow> route option" where
  "route_from_id i =
     (if i = ''landing'' then Some Landing else if i = ''configuration'' then Some Configuration
      else if i = ''measurement_selection'' then Some MeasurementSelection
      else if i = ''run_control'' then Some RunControl else if i = ''recent_runs'' then Some RecentRuns
      else if i = ''reports'' then Some Reports else if i = ''help'' then Some Help else None)"

definition available_or_unnegotiated :: "route \<Rightarrow> capabilities option \<Rightarrow> bool" where
  "available_or_unnegotiated r caps \<longleftrightarrow> availability r caps = Available"

record formal_ui_state =
  fu_route :: route
  fu_return_route :: route
  fu_focus :: "string option"
  fu_columns :: u16
  fu_lines :: u16
  fu_connection :: connection_state
  fu_explicit_all :: bool

definition formal_new :: "(string, document) result \<Rightarrow> u16 \<Rightarrow> u16 \<Rightarrow> (formal_error, formal_ui_state) result" where
  "formal_new parsed columns lines =
     and_then (map_err InvalidModel (validate_model parsed)) (\<lambda>_.
     and_then (map_err InvalidSize (app_new columns lines)) (\<lambda>_.
       Inr \<lparr>fu_route = Landing, fu_return_route = Landing, fu_focus = None, fu_columns = columns,
            fu_lines = lines, fu_connection = ConnDisconnected, fu_explicit_all = False\<rparr>))"

text \<open>The effects the interpreter expects of the transition of a navigation event.\<close>

definition expected_effects :: "formal_event \<Rightarrow> string list" where
  "expected_effects event =
     (if event = SaveConfiguration then [''configuration_persisted'', ''focus_reset'']
      else if event = OpenPreflight then [''preflight_opened'', ''focus_reset'']
      else if event = ApplyPreflight then [''configuration_materialized'', ''focus_reset'']
      else if event = OpenDevelopmentHandoff then [''development_handoff_opened'', ''focus_reset'']
      else if event \<in> {MaterializeDevelopment, CancelDevelopment, RetryDevelopment}
      then [''development_handoff_changed'', ''focus_reset'']
      else if event = GoBack then [''route_restored'', ''focus_reset'']
      else if (case event of ToggleAllMeasures _ _ \<Rightarrow> True | _ \<Rightarrow> False)
      then [''selection_changed'', ''explicit_all_reconciled'']
      else if event = OpenHelp then [''return_route_saved'', ''route_changed'', ''focus_reset'']
      else if event \<in> {StartRun, CancelRun, ReconnectEvent} then [''run_state_changed'']
      else [''route_changed'', ''focus_reset''])"

definition find_transition :: "document \<Rightarrow> string \<Rightarrow> string \<Rightarrow> document_transition option" where
  "find_transition d from event = find (\<lambda>t. tr_from t = from \<and> tr_event t = event) (do_transitions d)"

definition apply_resize :: "document \<Rightarrow> u16 \<Rightarrow> u16 \<Rightarrow> (formal_ui_state, formal_error, unit) call" where
  "apply_resize d columns lines s =
     (case app_new columns lines of
        Inl e \<Rightarrow> (Inl (InvalidSize e), s)
      | Inr _ \<Rightarrow>
          (case find_transition d (route_id (fu_route s)) ''resize'' of
             None \<Rightarrow> (Inl (UnknownTransition (fu_route s) ''resize''), s)
           | Some t \<Rightarrow>
               if tr_to t \<noteq> route_id (fu_route s)
                  \<or> tr_effects t \<noteq> [''dimensions_changed'', ''layout_recomputed'', ''focus_preserved'']
               then (Inl (InvalidModel ''resize transition effects do not match interpreter semantics''), s)
               else (Inr (), s\<lparr>fu_columns := columns, fu_lines := lines\<rparr>)))"

definition find_element :: "document \<Rightarrow> string \<Rightarrow> string \<Rightarrow> document_element option" where
  "find_element d route i =
     find (\<lambda>e. el_id e = i \<and> (el_route e = route \<or> el_route e = ''global'')) (do_elements d)"

definition apply_focus :: "document \<Rightarrow> string \<Rightarrow> (formal_ui_state, formal_error, unit) call" where
  "apply_focus d i s =
     (case find_element d (route_id (fu_route s)) i of
        None \<Rightarrow> (Inl (UnknownElement i), s)
      | Some e \<Rightarrow> if \<not> el_focusable e then (Inl (ElementNotFocusable i), s)
                  else (Inr (), s\<lparr>fu_focus := Some i\<rparr>))"

definition apply_navigation :: "document \<Rightarrow> capabilities option \<Rightarrow> formal_event \<Rightarrow> string \<Rightarrow>
    (formal_ui_state, formal_error, unit) call" where
  "apply_navigation d caps event i s =
     (case find_transition d (route_id (fu_route s)) i of
        None \<Rightarrow> (Inl (UnknownTransition (fu_route s) i), s)
      | Some t \<Rightarrow>
          if tr_effects t \<noteq> expected_effects event
          then (Inl (InvalidModel (''effects for '' @ tr_event t @ '' do not match interpreter semantics'')), s)
          else (case route_from_id (tr_to t) of
             None \<Rightarrow> (Inl (InvalidModel (''unknown target '' @ tr_to t)), s)
           | Some destination \<Rightarrow>
               if \<not> available_or_unnegotiated destination caps
               then (Inl (RouteUnavailable destination), s)
               else let s = (if destination = Help then s\<lparr>fu_return_route := fu_route s\<rparr> else s);
                        s = s\<lparr>fu_route := (if event = GoBack \<and> fu_route s = Help then fu_return_route s
                                          else destination)\<rparr>;
                        s = (case event of
                               ToggleAllMeasures action scope \<Rightarrow>
                                 s\<lparr>fu_explicit_all := (action = SelectVisible \<and> scope = ActivePool)\<rparr>
                             | _ \<Rightarrow> s)
                    in (Inr (), s\<lparr>fu_focus := None\<rparr>)))"

definition formal_apply :: "(string, document) result \<Rightarrow> formal_event \<Rightarrow> capabilities option \<Rightarrow>
    (formal_ui_state, formal_error, unit) call" where
  "formal_apply parsed event caps s =
     (case parsed of
        Inl e \<Rightarrow> (Inl (InvalidModel e), s)
      | Inr d \<Rightarrow>
          (case event of
             ResizeEvent columns lines \<Rightarrow> apply_resize d columns lines s
           | FocusEvent i \<Rightarrow> apply_focus d i s
           | _ \<Rightarrow> apply_navigation d caps event (the (event_id event)) s))"


section \<open>Offline default\<close>

datatype offline_default_readiness = Ready | Premature | Malformed | StaleReadiness | UnavailableReadiness

record offline_default_identity =
  od_campaign :: string
  od_generation :: u64

datatype offline_default_effect = MutationAndCatalog | CatalogOnly | NoOp | RejectNoIo

datatype offline_default_phase = MutationPending | CatalogPending | OfflineComplete

record offline_default_state =
  of_identity :: "offline_default_identity option"
  of_phase :: "offline_default_phase option"

definition offline_default :: offline_default_state where
  "offline_default = \<lparr>of_identity = None, of_phase = None\<rparr>"

definition offline_request :: "offline_default_readiness \<Rightarrow> offline_default_identity \<Rightarrow>
    offline_default_state \<Rightarrow> offline_default_effect \<times> offline_default_state" where
  "offline_request readiness identity s =
     (if readiness \<noteq> Ready then (RejectNoIo, s)
      else if of_identity s \<noteq> Some identity
      then (MutationAndCatalog, s\<lparr>of_identity := Some identity, of_phase := Some MutationPending\<rparr>)
      else case of_phase s of
             Some MutationPending \<Rightarrow> (NoOp, s)
           | Some CatalogPending \<Rightarrow> (CatalogOnly, s)
           | Some OfflineComplete \<Rightarrow> (NoOp, s)
           | None \<Rightarrow> (MutationAndCatalog, s\<lparr>of_phase := Some MutationPending\<rparr>))"

definition mutation_acknowledged :: "offline_default_identity \<Rightarrow> offline_default_state \<Rightarrow>
    bool \<times> offline_default_state" where
  "mutation_acknowledged identity s =
     (if of_identity s = Some identity \<and> of_phase s = Some MutationPending
      then (True, s\<lparr>of_phase := Some CatalogPending\<rparr>) else (False, s))"

definition catalog_failed :: "offline_default_identity \<Rightarrow> offline_default_state \<Rightarrow> bool" where
  "catalog_failed identity s \<longleftrightarrow> of_identity s = Some identity \<and> of_phase s = Some CatalogPending"

definition catalog_loaded :: "offline_default_identity \<Rightarrow> offline_default_state \<Rightarrow>
    bool \<times> offline_default_state" where
  "catalog_loaded identity s =
     (if of_identity s = Some identity \<and> of_phase s = Some CatalogPending
      then (True, s\<lparr>of_phase := Some OfflineComplete\<rparr>) else (False, s))"

text \<open>A session: user requests and the answers of the runner, in the order they arrive.\<close>

datatype offline_op =
  OfflineRequest offline_default_readiness offline_default_identity
| OfflineAck offline_default_identity
| OfflineLoaded offline_default_identity

fun offline_effects :: "offline_op list \<Rightarrow> offline_default_state \<Rightarrow> offline_default_effect list" where
  "offline_effects [] s = []"
| "offline_effects (OfflineRequest r i # ops) s =
     (case offline_request r i s of (e, s') \<Rightarrow> e # offline_effects ops s')"
| "offline_effects (OfflineAck i # ops) s = offline_effects ops (snd (mutation_acknowledged i s))"
| "offline_effects (OfflineLoaded i # ops) s = offline_effects ops (snd (catalog_loaded i s))"

fun ready_identities :: "offline_op list \<Rightarrow> offline_default_identity list" where
  "ready_identities [] = []"
| "ready_identities (OfflineRequest r i # ops) =
     (if r = Ready then i # ready_identities ops else ready_identities ops)"
| "ready_identities (op # ops) = ready_identities ops"

section \<open>Contextual help\<close>

record context_help_state =
  ch_route :: string
  ch_open :: bool
  ch_selection :: nat
  ch_focus :: "string option"
  ch_return_focus :: "string option"

definition context_help_new :: "(string, document) result \<Rightarrow> string \<Rightarrow> string option \<Rightarrow>
    (formal_error, context_help_state) result" where
  "context_help_new parsed route focus =
     and_then (map_err InvalidModel parsed) (\<lambda>d.
       if \<not> list_ex (\<lambda>r. dr_id r = route) (do_routes d)
       then Inl (InvalidModel (''unknown context-help route '' @ route))
       else and_then (case focus of None \<Rightarrow> Inr ()
              | Some i \<Rightarrow> (case find_element d route i of
                             None \<Rightarrow> Inl (UnknownElement i)
                           | Some e \<Rightarrow> if \<not> el_focusable e then Inl (ElementNotFocusable i) else Inr ()))
            (\<lambda>_. Inr \<lparr>ch_route = route, ch_open = False, ch_selection = 0, ch_focus = focus,
                     ch_return_focus = None\<rparr>))"

definition context_help_event :: "formal_event \<Rightarrow> (string \<times> string list) option" where
  "context_help_event event = (case event of
       OpenContextHelp \<Rightarrow> Some (''open_context_help'', [''context_help_opened'', ''focus_saved'', ''draft_preserved''])
     | MoveContextHelp _ _ \<Rightarrow> Some (''move_context_help'',
         [''context_help_selection_changed'', ''focus_preserved'', ''draft_preserved''])
     | CloseContextHelp \<Rightarrow> Some (''close_context_help'', [''context_help_closed'', ''focus_restored'', ''draft_preserved''])
     | _ \<Rightarrow> None)"

definition context_help_change :: "formal_event \<Rightarrow> (context_help_state, formal_error, unit) call" where
  "context_help_change event s = (case event of
       OpenContextHelp \<Rightarrow>
         if ch_open s then (Inl InvalidContextHelpState, s)
         else (Inr (), s\<lparr>ch_return_focus := ch_focus s, ch_open := True, ch_selection := 0\<rparr>)
     | MoveContextHelp delta item_count \<Rightarrow>
         if ch_open s \<and> 0 < item_count
         then (Inr (), s\<lparr>ch_selection := nat ((int (ch_selection s) + sint delta) mod int item_count)\<rparr>)
         else (Inl InvalidContextHelpState, s)
     | CloseContextHelp \<Rightarrow>
         if ch_open s
         then (Inr (), s\<lparr>ch_open := False, ch_selection := 0, ch_focus := ch_return_focus s,
                        ch_return_focus := None\<rparr>)
         else (Inl InvalidContextHelpState, s)
     | _ \<Rightarrow> (Inl InvalidContextHelpState, s))"

definition context_help_apply :: "(string, document) result \<Rightarrow> string \<Rightarrow> formal_event \<Rightarrow>
    (context_help_state, formal_error, unit) call" where
  "context_help_apply parsed current_route event s =
     (case context_help_event event of
        None \<Rightarrow> (Inl (UnknownTransition Landing ''non-context-help event''), s)
      | Some (i, effects) \<Rightarrow>
          if current_route \<noteq> ch_route s then (Inl InvalidContextHelpState, s)
          else (case parsed of
             Inl e \<Rightarrow> (Inl (InvalidModel e), s)
           | Inr d \<Rightarrow>
               (case find_transition d (ch_route s) i of
                  None \<Rightarrow> (Inl (InvalidModel (''missing '' @ i @ '' transition for '' @ ch_route s)), s)
                | Some t \<Rightarrow>
                    if tr_to t \<noteq> ch_route s \<or> tr_effects t \<noteq> effects
                    then (Inl (InvalidModel (i @ '' transition does not match interpreter semantics'')), s)
                    else context_help_change event s)))"


section \<open>Lemmas\<close>

subsection \<open>Reachability\<close>

definition edges :: "document_transition list \<Rightarrow> (string \<times> string) set" where
  "edges ts = (\<lambda>t. (tr_from t, tr_to t)) ` set ts"

lemma reach_pass_fixed:
  "reach_pass ts reached = reached \<Longrightarrow> t \<in> set ts \<Longrightarrow> tr_from t \<in> reached \<Longrightarrow> tr_to t \<in> reached"
proof (induction ts reached rule: reach_pass.induct)
  case (2 u ts reached)
  let ?r = "if tr_from u \<in> reached then insert (tr_to u) reached else reached"
  have "reached \<subseteq> ?r" by auto
  moreover have "?r \<subseteq> reached" using "2.prems"(1) reach_pass_increases [of ?r ts] by simp
  ultimately have "?r = reached" by blast
  with 2 show ?case by (auto split: if_splits)
qed simp

lemma reach_pass_least:
  "reached \<subseteq> S \<Longrightarrow> edges ts `` S \<subseteq> S \<Longrightarrow> reach_pass ts reached \<subseteq> S"
proof (induction ts reached rule: reach_pass.induct)
  case (2 t ts reached)
  have closed: "edges ts `` S \<subseteq> S" "tr_from t \<in> S \<Longrightarrow> tr_to t \<in> S"
    using "2.prems"(2) by (auto simp: edges_def)
  then have "(if tr_from t \<in> reached then insert (tr_to t) reached else reached) \<subseteq> S"
    using "2.prems"(1) by auto
  from "2.IH" [OF this closed(1)] show ?case by simp
qed simp

lemma finite_reach_pass: "finite reached \<Longrightarrow> finite (reach_pass ts reached)"
  using finite_subset [OF reach_pass_targets] by blast

lemma reach_loop_closure: "finite A \<Longrightarrow> reach_loop ts A = (edges ts)\<^sup>* `` A"
proof (induction ts A rule: reach_loop.induct)
  case (1 ts A)
  let ?after = "reach_pass ts A"
  have sub: "A \<subseteq> ?after" by (rule reach_pass_increases)
  have "edges ts `` ((edges ts)\<^sup>* `` A) \<subseteq> (edges ts)\<^sup>* `` A" by (auto intro: rtrancl_into_rtrancl)
  then have least: "?after \<subseteq> (edges ts)\<^sup>* `` A" by (intro reach_pass_least) auto
  show ?case
  proof (cases "card ?after = card A")
    case True
    then have "?after = A" using sub "1.prems" finite_reach_pass card_subset_eq by metis
    then have "edges ts `` A \<subseteq> A" using reach_pass_fixed [of ts A] by (auto simp: edges_def)
    then have "(edges ts)\<^sup>* `` A = A" by (rule Image_closed_trancl)
    then show ?thesis using True by (simp add: reach_loop.simps)
  next
    case False
    then have "reach_loop ts A = (edges ts)\<^sup>* `` ?after"
      using "1.IH" [OF refl False finite_reach_pass [OF "1.prems"]] by (simp add: reach_loop.simps Let_def)
    also have "\<dots> = (edges ts)\<^sup>* `` A"
      using sub least by (blast intro: rtrancl_trans)
    finally show ?thesis .
  qed
qed

lemma check_routes_Inr:
  "check_routes rs ids = Inr ids' \<Longrightarrow>
   ids' = ids \<union> dr_id ` set rs \<and> distinct (map dr_id rs) \<and> dr_id ` set rs \<inter> ids = {}"
  by (induction rs ids rule: check_routes.induct) (auto split: if_splits)

lemma validate_document_Inr:
  assumes "validate_document d = Inr ()"
  shows "distinct (map dr_id (do_routes d))" "do_initial d = ''landing''"
    "\<And>t. t \<in> set (do_transitions d) \<Longrightarrow> tr_from t \<in> dr_id ` set (do_routes d)
        \<and> tr_to t \<in> dr_id ` set (do_routes d) \<and> tr_effects t = documented_effects (tr_event t)"
    "card ((edges (do_transitions d))\<^sup>* `` {do_initial d}) = length (do_routes d)"
proof -
  from assms obtain ids where ids: "check_routes (do_routes d) {} = Inr ids"
    "\<forall>t \<in> set (do_transitions d). check_transition ids t = Inr ()"
    "card (reach_loop (do_transitions d) {do_initial d}) = length (do_routes d)" "do_initial d = ''landing''"
    by (auto simp: validate_document_def result_simps split: if_splits)
  then show "distinct (map dr_id (do_routes d))" "do_initial d = ''landing''"
    "card ((edges (do_transitions d))\<^sup>* `` {do_initial d}) = length (do_routes d)"
    using check_routes_Inr [OF ids(1)] by (simp_all add: reach_loop_closure)
  fix t assume "t \<in> set (do_transitions d)"
  with ids check_routes_Inr [OF ids(1)]
  show "tr_from t \<in> dr_id ` set (do_routes d) \<and> tr_to t \<in> dr_id ` set (do_routes d)
      \<and> tr_effects t = documented_effects (tr_event t)"
    by (auto simp: check_transition_def split: if_splits)
qed

lemma unreachable_stays: "edges ts `` {x} = {} \<Longrightarrow> (edges ts)\<^sup>* `` {x} = {x}"
  by (auto elim: converse_rtranclE)

subsection \<open>The interpreter\<close>

lemma effects_agree:
  "event_id event = Some i \<Longrightarrow> context_help_event event = None \<Longrightarrow> expected_effects event = documented_effects i"
  by (cases event; clarsimp simp: context_help_event_def expected_effects_def) (code_simp+)

definition formal_step :: "(string, document) result \<Rightarrow> formal_event \<times> capabilities option \<Rightarrow>
    (formal_ui_state, formal_error, unit) call" where
  "formal_step parsed = (\<lambda>(event, caps). formal_apply parsed event caps)"

lemmas formal_apply_defs = formal_apply_def apply_resize_def apply_focus_def apply_navigation_def Let_def

lemma formal_rejected: "formal_apply parsed event caps s = (Inl e, s') \<Longrightarrow> s' = s"
  unfolding formal_apply_defs
  by (auto split: sum.splits formal_event.splits option.splits if_splits)

interpretation formal: fail_closed "formal_step parsed" for parsed
  by unfold_locales (auto simp: formal_step_def dest: formal_rejected split: prod.splits)

lemma formal_apply_navigation:
  "event_id event = Some i \<Longrightarrow> formal_apply (Inr d) event caps s = apply_navigation d caps event i s"
  by (cases event) (auto simp: formal_apply_def)

lemma quiet_keeps:
  assumes "event_id event = None"
  shows "fu_route (snd (formal_apply parsed event caps s)) = fu_route s
     \<and> fu_return_route (snd (formal_apply parsed event caps s)) = fu_return_route s
     \<and> fu_explicit_all (snd (formal_apply parsed event caps s)) = fu_explicit_all s"
  using assms unfolding formal_apply_defs
  by (cases event) (auto split: sum.splits option.splits)

lemma route_from_id_route_id [simp]: "route_from_id (route_id r) = Some r"
  by (cases r) (simp_all add: route_id_def route_from_id_def)

lemma route_from_id_Some: "route_from_id i = Some r \<longleftrightarrow> i = route_id r"
  by (auto simp: route_from_id_def route_id_def split: route.splits if_splits)

lemma apply_navigation_Inr:
  assumes "apply_navigation d caps event i s = (Inr u, s')"
  obtains t destination where "find_transition d (route_id (fu_route s)) i = Some t"
    "tr_effects t = expected_effects event" "tr_to t = route_id destination"
    "available_or_unnegotiated destination caps" "fu_focus s' = None"
    "fu_return_route s' = (if destination = Help then fu_route s else fu_return_route s)"
    "fu_route s' = (if event = GoBack \<and> fu_route s = Help then fu_return_route s' else destination)"
  using assms unfolding apply_navigation_def Let_def
  by (auto simp: route_from_id_Some split: option.splits if_splits formal_event.splits)

lemma find_transition_Some:
  "find_transition d from event = Some t \<Longrightarrow> t \<in> set (do_transitions d) \<and> tr_from t = from \<and> tr_event t = event"
  unfolding find_transition_def by (auto dest: find_Some_in)


subsection \<open>Offline default\<close>

definition offline_ok :: "offline_default_state \<Rightarrow> bool" where
  "offline_ok s \<longleftrightarrow> (of_identity s = None \<longleftrightarrow> of_phase s = None)"

lemma remdups_adj_head:
  "length (remdups_adj (i # j # xs)) = (if i = j then 0 else 1) + length (remdups_adj (j # xs))"
  by simp

lemma offline_mutations_from:
  "of_identity s = Some i \<Longrightarrow> of_phase s \<noteq> None \<Longrightarrow>
   Suc (count_list (offline_effects ops s) MutationAndCatalog) = length (remdups_adj (i # ready_identities ops))"
proof (induction ops s arbitrary: i rule: offline_effects.induct)
  case (2 r j ops s)
  obtain e s' where req: "offline_request r j s = (e, s')" by fastforce
  have s': "of_phase s' \<noteq> None \<and> of_identity s' = Some (if r = Ready then j else i)
      \<and> (e = MutationAndCatalog \<longleftrightarrow> r = Ready \<and> i \<noteq> j)"
    using req "2.prems"
    by (auto simp: offline_request_def split: if_splits option.splits offline_default_phase.splits)
  then have "Suc (count_list (offline_effects ops s') MutationAndCatalog)
      = length (remdups_adj ((if r = Ready then j else i) # ready_identities ops))"
    using "2.IH" [OF req [symmetric]] by blast
  then show ?case using req s' by (cases "r = Ready") (simp_all add: remdups_adj_head del: remdups_adj.simps)
next
  case (3 j ops s)
  then show ?case by (auto simp: mutation_acknowledged_def)
next
  case (4 j ops s)
  then show ?case by (auto simp: catalog_loaded_def)
qed simp

subsection \<open>Contextual help\<close>

lemma context_help_apply_cases:
  assumes "context_help_apply parsed route event s = (r, s')"
  shows "s' = s \<or> context_help_change event s = (Inr (), s')"
  using assms unfolding context_help_apply_def context_help_change_def
  by (auto split: option.splits prod.splits if_splits sum.splits formal_event.splits)

definition help_step :: "(string, document) result \<Rightarrow> string \<times> formal_event \<Rightarrow>
    (context_help_state, formal_error, unit) call" where
  "help_step parsed = (\<lambda>(route, event). context_help_apply parsed route event)"

definition help_inv :: "string option \<Rightarrow> context_help_state \<Rightarrow> bool" where
  "help_inv f s \<longleftrightarrow> ch_focus s = f \<and> (ch_open s \<longrightarrow> ch_return_focus s = f) \<and> (\<not> ch_open s \<longrightarrow> ch_selection s = 0)"

lemma help_step_inv:
  assumes "help_inv f s"
  shows "help_inv f (snd (help_step parsed ev s))"
proof -
  obtain route event where ev: "ev = (route, event)" by fastforce
  obtain r s' where st: "context_help_apply parsed route event s = (r, s')" by fastforce
  have "help_inv f s'" if "context_help_change event s = (Inr (), s')"
    using assms that unfolding context_help_change_def help_inv_def
    by (auto split: formal_event.splits if_splits)
  then show ?thesis using context_help_apply_cases [OF st] assms st by (auto simp: ev help_step_def)
qed

interpretation ctx_help: safe_machine "help_step parsed" "help_inv f" for parsed f
  by unfold_locales (rule help_step_inv)

section \<open>Properties\<close>

text \<open>
  C34: the validator accepts only graphs without dead screens. In a validated document of at
  least two routes the loop computes exactly the routes that documented transitions lead to from
  the landing route, and these are all the routes.
\<close>

theorem validated_routes_reachable:
  assumes "validate_document d = Inr ()" and "2 \<le> length (do_routes d)"
  shows "dr_id ` set (do_routes d) = (edges (do_transitions d))\<^sup>* `` {''landing''}
       \<and> reach_loop (do_transitions d) {''landing''} = (edges (do_transitions d))\<^sup>* `` {''landing''}"
proof -
  let ?R = "(edges (do_transitions d))\<^sup>* `` {''landing''}" and ?ids = "dr_id ` set (do_routes d)"
  note v = validate_document_Inr [OF assms(1)]
  have card_ids: "card ?ids = length (do_routes d)" using distinct_card [OF v(1)] by simp
  have card: "card ?R = length (do_routes d)" using v(2,4) by simp
  have "''landing'' \<in> ?ids"
  proof (rule ccontr)
    assume "''landing'' \<notin> ?ids"
    then have "edges (do_transitions d) `` {''landing''} = {}" using v(3) by (fastforce simp: edges_def)
    from unreachable_stays [OF this] card assms(2) show False by simp
  qed
  moreover have "edges (do_transitions d) `` ?ids \<subseteq> ?ids" using v(3) by (fastforce simp: edges_def)
  ultimately have "?R \<subseteq> ?ids" using Image_closed_trancl [of "edges (do_transitions d)" ?ids] by blast
  then have "?R = ?ids" using card card_ids by (intro card_subset_eq) auto
  then show ?thesis by (simp add: reach_loop_closure)
qed


text \<open>
  Help returns to where it was opened. After help is entered from a route, any number of
  resizes and focus changes and an accepted step back, the interpreter is on that route again.
\<close>

theorem help_returns_to_its_route:
  assumes "formal_apply (Inr d) OpenHelp caps s = (Inr (), s1)" and "fu_route s1 = Help"
    and "\<forall>(event, c) \<in> set quiet. event_id event = None"
    and "formal_apply (Inr d) GoBack caps' (run_calls (formal_step (Inr d)) quiet s1) = (Inr (), s2)"
    and "find_transition d ''help'' ''go_back'' = Some t" and "tr_to t \<noteq> ''help''"
  shows "fu_route s2 = fu_route s"
proof -
  have saved: "fu_return_route s1 = fu_route s"
  proof -
    have "apply_navigation d caps OpenHelp ''open_help'' s = (Inr (), s1)"
      using assms(1) formal_apply_navigation [of OpenHelp "''open_help''" d] by simp
    then show ?thesis by (rule apply_navigation_Inr) (use assms(2) in auto)
  qed
  have "fu_route (run_calls (formal_step (Inr d)) quiet s1) = fu_route s1
      \<and> fu_return_route (run_calls (formal_step (Inr d)) quiet s1) = fu_return_route s1"
    using assms(3)
  proof (induction quiet arbitrary: s1)
    case (Cons p quiet)
    obtain event c where p: "p = (event, c)" by fastforce
    show ?case using Cons.IH [of "snd (formal_step (Inr d) p s1)"] Cons.prems quiet_keeps [of event "Inr d" c s1]
      by (simp add: p formal_step_def)
  qed simp
  then have at: "fu_route (run_calls (formal_step (Inr d)) quiet s1) = Help"
    "fu_return_route (run_calls (formal_step (Inr d)) quiet s1) = fu_route s" using assms(2) saved by auto
  have "apply_navigation d caps' GoBack ''go_back'' (run_calls (formal_step (Inr d)) quiet s1) = (Inr (), s2)"
    using assms(4) formal_apply_navigation [of GoBack "''go_back''" d] by simp
  then show ?thesis
  proof (rule apply_navigation_Inr)
    fix u destination
    assume "find_transition d (route_id (fu_route (run_calls (formal_step (Inr d)) quiet s1))) ''go_back'' = Some u"
      and "tr_to u = route_id destination"
      and "fu_return_route s2 = (if destination = Help then fu_route (run_calls (formal_step (Inr d)) quiet s1)
             else fu_return_route (run_calls (formal_step (Inr d)) quiet s1))"
      and "fu_route s2 = (if GoBack = GoBack \<and> fu_route (run_calls (formal_step (Inr d)) quiet s1) = Help
             then fu_return_route s2 else destination)"
    with at assms(5,6) show ?thesis by (auto simp: route_id_def)
  qed
qed

text \<open>
  The offline default is sent once per identity in a row. Over any session the number of
  mutations admitted is the number of runs of equal identities among the requests that were
  ready; repeated requests, acknowledgements and failures never add one.
\<close>

theorem offline_mutation_once_per_identity:
  "count_list (offline_effects ops offline_default) MutationAndCatalog = length (remdups_adj (ready_identities ops))"
proof (induction ops)
  case (Cons op ops)
  show ?case
  proof (cases op)
    case (OfflineRequest r i)
    then show ?thesis
      using Cons offline_mutations_from
        [of "\<lparr>of_identity = Some i, of_phase = Some MutationPending\<rparr>" i ops]
      by (cases "r = Ready") (simp_all add: offline_request_def offline_default_def)
  qed (use Cons in \<open>simp_all add: mutation_acknowledged_def catalog_loaded_def offline_default_def\<close>)
qed simp

text \<open>
  Contextual help never loses the focus. From a fresh layer, whatever events arrive on
  whatever route, the focus is the one it was created with, a closed layer selects the first row,
  and an accepted move selects one of the rows shown.
\<close>

theorem context_help_keeps_focus:
  assumes "context_help_new parsed route focus = Inr s"
  shows "help_inv focus (run_calls (help_step parsed) evs s)
       \<and> (\<forall>delta item_count current s'.
            context_help_apply parsed current (MoveContextHelp delta item_count)
              (run_calls (help_step parsed) evs s) = (Inr (), s') \<longrightarrow> ch_selection s' < item_count)"
proof -
  have "help_inv focus s"
    using assms by (auto simp: context_help_new_def help_inv_def result_simps split: if_splits)
  then have inv: "help_inv focus (run_calls (help_step parsed) evs s)" by (rule ctx_help.run_inv)
  have "ch_selection s' < item_count"
    if "context_help_apply parsed current (MoveContextHelp delta item_count) s0 = (Inr (), s')"
    for delta item_count current s' s0
  proof -
    have "context_help_change (MoveContextHelp delta item_count) s0 = (Inr (), s')"
      using that by (auto simp: context_help_apply_def split: option.splits prod.splits if_splits sum.splits)
    then show ?thesis by (auto simp: context_help_change_def nat_less_iff split: if_splits)
  qed
  with inv show ?thesis by blast
qed


text \<open>
  Going back from help is not guarded by the capabilities: the documented target of the step is
  checked, and then the saved route is entered whether it is still available or not.
\<close>

theorem help_return_unguarded:
  assumes "find_transition d ''help'' ''go_back'' = Some t" and "tr_to t = ''landing''"
    and "tr_effects t = [''route_restored'', ''focus_reset'']" and "fu_route s = Help"
  shows "fst (formal_apply (Inr d) GoBack caps s) = Inr ()
       \<and> fu_route (snd (formal_apply (Inr d) GoBack caps s)) = fu_return_route s"
  using assms
  by (simp add: formal_apply_def apply_navigation_def expected_effects_def route_id_def route_from_id_def
      available_or_unnegotiated_def availability_def Let_def)

section \<open>Examples\<close>

definition sample_transition :: "string \<Rightarrow> string \<Rightarrow> string \<Rightarrow> document_transition" where
  "sample_transition event from to =
     \<lparr>tr_event = event, tr_from = from, tr_to = to, tr_effects = documented_effects event\<rparr>"

definition sample_document :: document where
  "sample_document = \<lparr>do_schema_version = 1, do_model = ''asb-tui.ui-state'', do_initial = ''landing'',
     do_routes = [\<lparr>dr_id = ''landing'', dr_elements = [''navigation'', ''header'']\<rparr>,
       \<lparr>dr_id = ''run_control'', dr_elements = [''header'']\<rparr>, \<lparr>dr_id = ''help'', dr_elements = []\<rparr>],
     do_elements = [\<lparr>el_id = ''header'', el_route = ''global'', el_role = ''text'', el_help_id = ''h'',
       el_focusable = True, el_hoverable = False\<rparr>],
     do_transitions = [sample_transition ''open_run_control'' ''landing'' ''run_control'',
       sample_transition ''open_help'' ''run_control'' ''help'', sample_transition ''go_back'' ''help'' ''landing'',
       sample_transition ''resize'' ''help'' ''help'',
       sample_transition ''open_context_help'' ''landing'' ''landing'',
       sample_transition ''move_context_help'' ''landing'' ''landing'']\<rparr>"

definition full_capabilities :: capabilities where
  "full_capabilities = \<lparr>cap_analysis = True, cap_artifacts = True, cap_cancel = True, cap_events = True,
     cap_history = True, cap_launch = True, cap_planning = True, cap_repeat = True\<rparr>"

definition on_run_control :: formal_ui_state where
  "on_run_control = \<lparr>fu_route = RunControl, fu_return_route = Landing, fu_focus = None, fu_columns = 80,
     fu_lines = 24, fu_connection = ConnDisconnected, fu_explicit_all = False\<rparr>"

lemma sample_document_valid: "validate_document sample_document = Inr ()"
  by code_simp

theorem validated_routes_reachable_witness:
  "dr_id ` set (do_routes sample_document) = (edges (do_transitions sample_document))\<^sup>* `` {''landing''}"
  using validated_routes_reachable [OF sample_document_valid] by (simp add: sample_document_def)


theorem help_returns_to_its_route_witness:
  "fu_route (run_calls (formal_step (Inr sample_document))
     [(OpenHelp, Some full_capabilities), (ResizeEvent 100 30, None), (GoBack, None)] on_run_control) = RunControl"
proof -
  let ?S = "formal_apply (Inr sample_document)"
  let ?s1 = "snd (?S OpenHelp (Some full_capabilities) on_run_control)"
  let ?s2 = "run_calls (formal_step (Inr sample_document)) [(ResizeEvent 100 30, None)] ?s1"
  have 1: "?S OpenHelp (Some full_capabilities) on_run_control = (Inr (), ?s1)" by code_simp
  have 2: "fu_route ?s1 = Help" by code_simp
  have 3: "?S GoBack None ?s2 = (Inr (), snd (?S GoBack None ?s2))" by code_simp
  have "find_transition sample_document ''help'' ''go_back'' = Some (sample_transition ''go_back'' ''help'' ''landing'')"
    by code_simp
  with help_returns_to_its_route [OF 1 2 _ 3] show ?thesis
    by (simp add: formal_step_def sample_transition_def on_run_control_def)
qed

theorem context_help_keeps_focus_witness:
  "help_inv (Some ''header'') (run_calls (help_step (Inr sample_document))
     [(''landing'', OpenContextHelp), (''landing'', MoveContextHelp (- 1) 3)]
     \<lparr>ch_route = ''landing'', ch_open = False, ch_selection = 0, ch_focus = Some ''header'', ch_return_focus = None\<rparr>)"
proof -
  have "context_help_new (Inr sample_document) ''landing'' (Some ''header'')
      = Inr \<lparr>ch_route = ''landing'', ch_open = False, ch_selection = 0, ch_focus = Some ''header'', ch_return_focus = None\<rparr>"
    by code_simp
  from context_help_keeps_focus [OF this] show ?thesis by blast
qed

end
