(* ===== verification/Agent_Lifecycle.thy ===== *)
theory Agent_Lifecycle
  imports Agent_Catalog
begin

text \<open>
  Model of \<open>src/agent_lifecycle.rs\<close>: the catalog-bound state machine of one local agent, and
  of its contract \<open>formal/agent_lifecycle/AgentLifecycle.tla\<close>. \<open>apply\<close> consumes the state and
  returns the next one or an error; a run is a sequence of accepted events. The lemmas give
  the bounds kept by every run, the events that must have happened before an agent counts as
  installed, and which of the transitions the contract allows.
\<close>

section \<open>The state machine\<close>

definition MAX_REASON_BYTES :: nat where "MAX_REASON_BYTES = 128"
definition MAX_PROGRESS_UNITS :: u64 where "MAX_PROGRESS_UNITS = 1000000"

datatype lifecycle_state =
  Disconnected
| Ready agent_catalog
| Refreshing u64
| Installing string u64 u64 u64
| Installed string u64
| Cancelling string u64
| Removing string u64
| Reconnecting u64
| Stale u64
| Failed u64 string

datatype lifecycle_event =
  RefreshRequested
| CatalogAccepted agent_catalog
| InstallRequested string u64
| Progress u64 u64 u64
| InstallSucceeded u64
| InstallFailed u64 string
| CancelRequested
| Cancelled u64
| RemoveRequested
| RemoveSucceeded u64
| ReconnectRequested
| Reconnected agent_catalog
| RetryRequested

text \<open>The error text of the last arm prints the event, which is kept instead of its printout.\<close>

datatype lifecycle_error = Rejected string | InvalidEvent lifecycle_event

definition find_available :: "agent_catalog \<Rightarrow> string \<Rightarrow> (lifecycle_error, agent_catalog_entry) result" where
  "find_available catalog i =
     and_then (ok_or (find (\<lambda>a. ae_agent_id a = i) (ac_agents catalog)) (Rejected ''unknown agent id''))
       (\<lambda>agent. if ae_availability agent = Available then Inr agent
                else Inl (Rejected ''agent is unavailable''))"

definition validate_total :: "u64 \<Rightarrow> (lifecycle_error, unit) result" where
  "validate_total tot =
     ensure (1 \<le> tot \<and> tot \<le> MAX_PROGRESS_UNITS) (Rejected ''invalid lifecycle progress total'')"

definition validate_reason :: "string \<Rightarrow> (lifecycle_error, unit) result" where
  "validate_reason reason =
     ensure (reason \<noteq> [] \<and> length reason \<le> MAX_REASON_BYTES \<and> is_ascii reason
             \<and> \<not> list_ex is_ascii_control reason)
       (Rejected ''invalid lifecycle failure reason'')"

definition lifecycle_apply :: "lifecycle_state \<Rightarrow> lifecycle_event \<Rightarrow> (lifecycle_error, lifecycle_state) result" where
  "lifecycle_apply s e = (let invalid = Inl (InvalidEvent e) in case s of
       Disconnected \<Rightarrow> (case e of
           RefreshRequested \<Rightarrow> Inr (Refreshing 0)
         | _ \<Rightarrow> invalid)
     | Refreshing g \<Rightarrow> (case e of
           CatalogAccepted catalog \<Rightarrow>
             if g = 0 \<or> g = ac_generation catalog then Inr (Ready catalog)
             else Inr (Stale (ac_generation catalog))
         | _ \<Rightarrow> invalid)
     | Ready catalog \<Rightarrow> (case e of
           InstallRequested agent_id tot \<Rightarrow>
             and_then (find_available catalog agent_id) (\<lambda>agent.
             and_then (validate_total tot) (\<lambda>_.
               Inr (Installing (ae_agent_id agent) (ac_generation catalog) 0 tot)))
         | ReconnectRequested \<Rightarrow> Inr (Reconnecting (ac_generation catalog))
         | RefreshRequested \<Rightarrow> Inr (Refreshing (ac_generation catalog))
         | _ \<Rightarrow> invalid)
     | Installing agent_id g completed tot \<Rightarrow> (case e of
           Progress eg nxt etotal \<Rightarrow>
             if g \<noteq> eg \<or> tot \<noteq> etotal \<or> nxt < completed \<or> tot < nxt
             then Inl (Rejected ''stale or invalid lifecycle progress'')
             else Inr (Installing agent_id g nxt tot)
         | CancelRequested \<Rightarrow> Inr (Cancelling agent_id g)
         | InstallSucceeded eg \<Rightarrow>
             if g = eg \<and> completed = tot then Inr (Installed agent_id g) else invalid
         | InstallFailed eg reason \<Rightarrow>
             if g = eg then and_then (validate_reason reason) (\<lambda>_. Inr (Failed g reason))
             else invalid
         | _ \<Rightarrow> invalid)
     | Cancelling _ g \<Rightarrow> (case e of
           Cancelled eg \<Rightarrow> if g = eg then Inr Disconnected else invalid
         | _ \<Rightarrow> invalid)
     | Failed g _ \<Rightarrow> (case e of
           RetryRequested \<Rightarrow> Inr (Refreshing g)
         | _ \<Rightarrow> invalid)
     | Installed agent_id g \<Rightarrow> (case e of
           RemoveRequested \<Rightarrow> Inr (Removing agent_id g)
         | ReconnectRequested \<Rightarrow> Inr (Reconnecting g)
         | RefreshRequested \<Rightarrow> Inr (Refreshing g)
         | _ \<Rightarrow> invalid)
     | Removing _ g \<Rightarrow> (case e of
           RemoveSucceeded eg \<Rightarrow> if g = eg then Inr (Reconnecting g) else invalid
         | _ \<Rightarrow> invalid)
     | Reconnecting g \<Rightarrow> (case e of
           Reconnected catalog \<Rightarrow>
             if ac_generation catalog = g then Inr (Ready catalog)
             else Inr (Stale (ac_generation catalog))
         | _ \<Rightarrow> invalid)
     | Stale _ \<Rightarrow> invalid)"

fun lifecycle_run :: "lifecycle_state \<Rightarrow> lifecycle_event list \<Rightarrow> (lifecycle_error, lifecycle_state) result" where
  "lifecycle_run s [] = Inr s"
| "lifecycle_run s (e # es) = and_then (lifecycle_apply s e) (\<lambda>s'. lifecycle_run s' es)"

section \<open>The contract of the TLA+ module\<close>

datatype tla_phase =
  TDisconnected | TReady | TRefreshing | TInstalling | TInstalled | TCancelling
| TRemoving | TReconnecting | TStale | TFailed

record tla_state =
  tla_phase :: tla_phase
  tla_progress :: nat
  tla_total :: nat

inductive tla_next :: "tla_state \<Rightarrow> tla_state \<Rightarrow> bool" where
  Refresh: "tla_phase a \<in> {TDisconnected, TReady, TInstalled, TFailed} \<Longrightarrow>
     tla_next a (a\<lparr>tla_phase := TRefreshing\<rparr>)"
| CatalogAccepted: "tla_phase a = TRefreshing \<Longrightarrow> tla_next a (a\<lparr>tla_phase := TReady\<rparr>)"
| Install: "tla_phase a = TReady \<Longrightarrow> 1 \<le> t \<Longrightarrow> t \<le> 1000000 \<Longrightarrow>
     tla_next a \<lparr>tla_phase = TInstalling, tla_progress = 0, tla_total = t\<rparr>"
| Progress: "tla_phase a = TInstalling \<Longrightarrow> tla_progress a \<le> p \<Longrightarrow> p \<le> tla_total a \<Longrightarrow>
     tla_next a (a\<lparr>tla_progress := p\<rparr>)"
| InstallSuccess: "tla_phase a = TInstalling \<Longrightarrow> tla_progress a = tla_total a \<Longrightarrow>
     tla_next a (a\<lparr>tla_phase := TInstalled\<rparr>)"
| Cancel: "tla_phase a = TInstalling \<Longrightarrow> tla_next a (a\<lparr>tla_phase := TCancelling\<rparr>)"
| Cancelled: "tla_phase a = TCancelling \<Longrightarrow> tla_next a (a\<lparr>tla_phase := TDisconnected\<rparr>)"
| Remove: "tla_phase a = TInstalled \<Longrightarrow> tla_next a (a\<lparr>tla_phase := TRemoving\<rparr>)"
| RemoveSuccess: "tla_phase a = TRemoving \<Longrightarrow> tla_next a (a\<lparr>tla_phase := TReconnecting\<rparr>)"
| Reconnect: "tla_phase a \<in> {TReconnecting, TReady, TInstalled} \<Longrightarrow>
     tla_next a (a\<lparr>tla_phase := TReconnecting\<rparr>)"
| Failure: "tla_phase a = TInstalling \<Longrightarrow> tla_next a (a\<lparr>tla_phase := TFailed\<rparr>)"

inductive_cases tla_nextE: "tla_next a b"

definition phase_of :: "lifecycle_state \<Rightarrow> tla_phase" where
  "phase_of s = (case s of
       Disconnected \<Rightarrow> TDisconnected | Ready _ \<Rightarrow> TReady | Refreshing _ \<Rightarrow> TRefreshing
     | Installing _ _ _ _ \<Rightarrow> TInstalling | Installed _ _ \<Rightarrow> TInstalled
     | Cancelling _ _ \<Rightarrow> TCancelling | Removing _ _ \<Rightarrow> TRemoving
     | Reconnecting _ \<Rightarrow> TReconnecting | Stale _ \<Rightarrow> TStale | Failed _ _ \<Rightarrow> TFailed)"

text \<open>The relation between a state of the code and one of the contract.\<close>

definition simulates :: "lifecycle_state \<Rightarrow> tla_state \<Rightarrow> bool" where
  "simulates s a \<longleftrightarrow> tla_phase a = phase_of s \<and> tla_progress a \<le> tla_total a
     \<and> tla_total a \<le> 1000000
     \<and> (case s of Installing _ _ completed tot \<Rightarrow>
            tla_progress a = unat completed \<and> tla_total a = unat tot
          | _ \<Rightarrow> True)"

text \<open>The code's answers to a catalog, which the contract has no action for.\<close>

definition beyond_contract :: "lifecycle_state \<Rightarrow> lifecycle_state \<Rightarrow> bool" where
  "beyond_contract s s' \<longleftrightarrow>
     phase_of s' = TStale \<or> (phase_of s = TReconnecting \<and> phase_of s' = TReady)"

section \<open>Lemmas\<close>

text \<open>The accepted transitions, one disjunct per arm of the match.\<close>

inductive lifecycle_step :: "lifecycle_state \<Rightarrow> lifecycle_event \<Rightarrow> lifecycle_state \<Rightarrow> bool" where
  s_refresh: "lifecycle_step Disconnected RefreshRequested (Refreshing 0)"
| s_accept: "g = 0 \<or> g = ac_generation c \<Longrightarrow> lifecycle_step (Refreshing g) (CatalogAccepted c) (Ready c)"
| s_accept_stale: "g \<noteq> 0 \<Longrightarrow> g \<noteq> ac_generation c \<Longrightarrow>
     lifecycle_step (Refreshing g) (CatalogAccepted c) (Stale (ac_generation c))"
| s_install: "find_available c i = Inr a \<Longrightarrow> 1 \<le> t \<Longrightarrow> t \<le> MAX_PROGRESS_UNITS \<Longrightarrow>
     lifecycle_step (Ready c) (InstallRequested i t) (Installing (ae_agent_id a) (ac_generation c) 0 t)"
| s_progress: "n \<le> p \<Longrightarrow> p \<le> t \<Longrightarrow>
     lifecycle_step (Installing i g n t) (Progress g p t) (Installing i g p t)"
| s_cancel: "lifecycle_step (Installing i g n t) CancelRequested (Cancelling i g)"
| s_cancelled: "lifecycle_step (Cancelling i g) (Cancelled g) Disconnected"
| s_success: "lifecycle_step (Installing i g t t) (InstallSucceeded g) (Installed i g)"
| s_failed: "validate_reason r = Inr () \<Longrightarrow>
     lifecycle_step (Installing i g n t) (InstallFailed g r) (Failed g r)"
| s_retry: "lifecycle_step (Failed g r) RetryRequested (Refreshing g)"
| s_remove: "lifecycle_step (Installed i g) RemoveRequested (Removing i g)"
| s_removed: "lifecycle_step (Removing i g) (RemoveSucceeded g) (Reconnecting g)"
| s_reconnected: "lifecycle_step (Reconnecting (ac_generation c)) (Reconnected c) (Ready c)"
| s_reconnect_stale: "g \<noteq> ac_generation c \<Longrightarrow>
     lifecycle_step (Reconnecting g) (Reconnected c) (Stale (ac_generation c))"
| s_ready_reconnect: "lifecycle_step (Ready c) ReconnectRequested (Reconnecting (ac_generation c))"
| s_installed_reconnect: "lifecycle_step (Installed i g) ReconnectRequested (Reconnecting g)"
| s_ready_refresh: "lifecycle_step (Ready c) RefreshRequested (Refreshing (ac_generation c))"
| s_installed_refresh: "lifecycle_step (Installed i g) RefreshRequested (Refreshing g)"

lemma lifecycle_apply_step: "lifecycle_apply s e = Inr s' \<Longrightarrow> lifecycle_step s e s'"
  by (cases s; cases e)
     (auto simp: lifecycle_apply_def result_simps validate_total_def
        intro: lifecycle_step.intros split: if_splits)

lemma lifecycle_step_apply: "lifecycle_step s e s' \<Longrightarrow> lifecycle_apply s e = Inr s'"
  by (induction rule: lifecycle_step.induct)
     (auto simp: lifecycle_apply_def validate_total_def)

lemma lifecycle_step_iff: "lifecycle_step s e s' \<longleftrightarrow> lifecycle_apply s e = Inr s'"
  using lifecycle_apply_step lifecycle_step_apply by blast

lemma find_available_Inr:
  "find_available c i = Inr a \<Longrightarrow>
   a \<in> set (ac_agents c) \<and> ae_agent_id a = i \<and> ae_availability a = Available"
  by (auto simp: find_available_def result_simps dest: find_Some_in split: if_splits)

text \<open>A run over a longer list of events is the run of the prefix, then the last event.\<close>

lemma lifecycle_run_snoc:
  "lifecycle_run s (es @ [e]) = and_then (lifecycle_run s es) (\<lambda>s'. lifecycle_apply s' e)"
  by (induction es arbitrary: s) (auto simp: and_then_def split: sum.splits)

text \<open>What the events so far must contain for the state to be as it is.\<close>

definition offered :: "lifecycle_event set \<Rightarrow> string \<Rightarrow> u64 \<Rightarrow> bool" where
  "offered es i g \<longleftrightarrow> (\<exists>c a. (CatalogAccepted c \<in> es \<or> Reconnected c \<in> es) \<and> ac_generation c = g
     \<and> a \<in> set (ac_agents c) \<and> ae_agent_id a = i \<and> ae_availability a = Available)"

definition completed_install :: "lifecycle_event set \<Rightarrow> u64 \<Rightarrow> bool" where
  "completed_install es g \<longleftrightarrow> InstallSucceeded g \<in> es
     \<and> (\<exists>n. 1 \<le> n \<and> n \<le> MAX_PROGRESS_UNITS \<and> Progress g n n \<in> es)"

definition justified :: "lifecycle_event set \<Rightarrow> lifecycle_state \<Rightarrow> bool" where
  "justified es s = (case s of
       Ready c \<Rightarrow> CatalogAccepted c \<in> es \<or> Reconnected c \<in> es
     | Installing i g n t \<Rightarrow> offered es i g \<and> 1 \<le> t \<and> t \<le> MAX_PROGRESS_UNITS \<and> n \<le> t
         \<and> (n \<noteq> 0 \<longrightarrow> Progress g n t \<in> es)
     | Installed i g \<Rightarrow> offered es i g \<and> completed_install es g
     | Removing i g \<Rightarrow> offered es i g \<and> completed_install es g
     | Cancelling i g \<Rightarrow> offered es i g
     | Failed g r \<Rightarrow> r \<noteq> [] \<and> length r \<le> MAX_REASON_BYTES \<and> public_text r
     | _ \<Rightarrow> True)"

lemma offered_mono: "offered es i g \<Longrightarrow> offered (insert e es) i g"
  by (auto simp: offered_def)

lemma completed_install_mono: "completed_install es g \<Longrightarrow> completed_install (insert e es) g"
  by (auto simp: completed_install_def)

lemma validate_reason_public:
  "validate_reason r = Inr () \<Longrightarrow> r \<noteq> [] \<and> length r \<le> MAX_REASON_BYTES \<and> public_text r"
  by (auto simp: validate_reason_def public_text_iff has_control_ascii)

lemma justified_step:
  assumes "lifecycle_step s e s'" "justified es s"
  shows "justified (insert e es) s'"
  using assms
proof (cases rule: lifecycle_step.cases)
  case (s_install c i a t)
  then show ?thesis using assms(2) find_available_Inr [of c i a]
    by (auto simp: justified_def offered_def)
next
  case (s_success i g t)
  then show ?thesis using assms(2) offered_mono
    by (auto simp: justified_def completed_install_def)
next
  case (s_failed r i g n t)
  then show ?thesis using validate_reason_public by (simp add: justified_def)
qed (auto simp: justified_def intro: offered_mono completed_install_mono)

lemma justified_run:
  "lifecycle_run Disconnected es = Inr s \<Longrightarrow> justified (set es) s"
proof (induction es arbitrary: s rule: rev_induct)
  case Nil
  then show ?case by (simp add: justified_def)
next
  case (snoc e es)
  then obtain s0 where "lifecycle_run Disconnected es = Inr s0" "lifecycle_step s0 e s"
    by (auto simp: lifecycle_run_snoc result_simps lifecycle_step_iff)
  with snoc.IH justified_step show ?case by fastforce
qed

lemma bounded_units: "t \<le> MAX_PROGRESS_UNITS \<Longrightarrow> unat t \<le> 1000000"
  by (simp add: MAX_PROGRESS_UNITS_def word_le_nat_alt)

lemma simulates_phase:
  "simulates s a \<Longrightarrow> phase_of s' \<noteq> TInstalling \<Longrightarrow> simulates s' (a\<lparr>tla_phase := phase_of s'\<rparr>)"
  by (cases s') (auto simp: simulates_def phase_of_def)

lemma simulates_same_phase: "simulates s a \<Longrightarrow> tla_phase a = phase_of s"
  by (simp add: simulates_def)

text \<open>The actions that change nothing but the phase.\<close>

definition plain_moves :: "(tla_phase \<times> tla_phase) set" where
  "plain_moves = {(TDisconnected, TRefreshing), (TReady, TRefreshing), (TInstalled, TRefreshing),
     (TFailed, TRefreshing), (TRefreshing, TReady), (TInstalling, TCancelling),
     (TCancelling, TDisconnected), (TInstalled, TRemoving), (TRemoving, TReconnecting),
     (TReady, TReconnecting), (TInstalled, TReconnecting), (TInstalling, TFailed)}"

lemma tla_phase_move: "(tla_phase a, q) \<in> plain_moves \<Longrightarrow> tla_next a (a\<lparr>tla_phase := q\<rparr>)"
  unfolding plain_moves_def by (auto intro: tla_next.intros)

text \<open>Every transition that stays within the contract changes the phase as one of its actions does.\<close>

lemma simulation_step:
  assumes step: "lifecycle_step s e s'" and sim: "simulates s a" and within: "\<not> beyond_contract s s'"
  shows "\<exists>a'. tla_next a a' \<and> simulates s' a'"
proof -
  note ph = simulates_same_phase [OF sim]
  have phase: "tla_next a (a\<lparr>tla_phase := phase_of s'\<rparr>) \<Longrightarrow> phase_of s' \<noteq> TInstalling \<Longrightarrow> ?thesis"
    using simulates_phase [OF sim] by blast
  from step show ?thesis
  proof (cases rule: lifecycle_step.cases)
    case (s_install c i ag t)
    then have "simulates s' \<lparr>tla_phase = TInstalling, tla_progress = 0, tla_total = unat t\<rparr>"
      by (simp add: simulates_def phase_of_def bounded_units)
    moreover have "1 \<le> unat t" using s_install by (simp add: word_le_nat_alt)
    ultimately show ?thesis using s_install ph tla_next.Install [of a "unat t"]
      by (auto simp: phase_of_def bounded_units)
  next
    case (s_progress n p t i g)
    then have "simulates s' (a\<lparr>tla_progress := unat p\<rparr>)"
      using sim by (simp add: simulates_def phase_of_def word_le_nat_alt)
    moreover have "tla_next a (a\<lparr>tla_progress := unat p\<rparr>)"
      using s_progress sim ph
      by (intro tla_next.Progress) (auto simp: simulates_def phase_of_def word_le_nat_alt)
    ultimately show ?thesis by blast
  next
    case (s_success i g t)
    then have "tla_next a (a\<lparr>tla_phase := TInstalled\<rparr>)"
      using sim ph by (intro tla_next.InstallSuccess) (auto simp: simulates_def phase_of_def)
    then show ?thesis using phase s_success by (simp add: phase_of_def)
  qed (rule phase, (rule tla_phase_move)?;
       use ph within in \<open>auto simp: phase_of_def beyond_contract_def plain_moves_def\<close>)+
qed

section \<open>Properties\<close>

text \<open>
  C37: every state reached from the disconnected one is justified by the events of the run.
  A state that names an agent was offered by an accepted catalog of the same generation in
  which the agent is available, progress is between 0 and a total of 1 to 1,000,000 units, an
  installed agent was preceded by a progress report of all its units and a success event of
  its generation, and a failure reason is 1 to 128 bytes of printable ASCII.
\<close>

theorem lifecycle_state_justified:
  assumes "lifecycle_run Disconnected es = Inr s"
  shows "(\<forall>i g n t. s = Installing i g n t \<longrightarrow>
            offered (set es) i g \<and> 1 \<le> t \<and> t \<le> 1000000 \<and> n \<le> t)
       \<and> (\<forall>i g. s = Installed i g \<or> s = Removing i g \<longrightarrow>
            offered (set es) i g \<and> completed_install (set es) g)
       \<and> (\<forall>g r. s = Failed g r \<longrightarrow> r \<noteq> [] \<and> length r \<le> 128 \<and> public_text r)"
  using justified_run [OF assms]
  by (auto simp: justified_def MAX_PROGRESS_UNITS_def MAX_REASON_BYTES_def)

definition available_agent :: agent_catalog_entry where
  "available_agent = \<lparr>ae_agent_id = ''agent-a'', ae_target = sample_target, ae_package = None,
     ae_provenance = None, ae_capabilities = [''chat''], ae_availability = Available\<rparr>"

definition install_run :: "lifecycle_event list" where
  "install_run = [RefreshRequested,
     CatalogAccepted (sample_catalog\<lparr>ac_agents := [available_agent]\<rparr>),
     InstallRequested ''agent-a'' 2, Progress 1 1 2, Progress 1 2 2, InstallSucceeded 1]"

theorem lifecycle_state_justified_witness:
  "lifecycle_run Disconnected install_run = Inr (Installed ''agent-a'' 1)
   \<and> offered (set install_run) ''agent-a'' 1 \<and> completed_install (set install_run) 1"
proof -
  have run: "lifecycle_run Disconnected install_run = Inr (Installed ''agent-a'' 1)" by code_simp
  from run lifecycle_state_justified [OF run] show ?thesis by blast
qed

text \<open>
  C36: the machine refines its TLA+ contract. From related states, every accepted event that
  does not answer with a stale generation or bring a reconnecting agent back to ready is
  matched by an action of the contract, and the states stay related.
\<close>

theorem lifecycle_refines_tla:
  assumes "lifecycle_apply s e = Inr s'" and "simulates s a" and "\<not> beyond_contract s s'"
  shows "\<exists>a'. tla_next a a' \<and> simulates s' a'"
  using assms simulation_step by (simp add: lifecycle_step_iff)

theorem lifecycle_refines_tla_witness:
  "\<exists>a'. tla_next \<lparr>tla_phase = TInstalling, tla_progress = 1, tla_total = 2\<rparr> a'
      \<and> simulates (Installing ''a'' 1 2 2) a'"
  by (rule lifecycle_refines_tla [of "Installing ''a'' 1 1 2" "Progress 1 2 2"])
     (auto simp: lifecycle_apply_def simulates_def phase_of_def beyond_contract_def)

text \<open>
  What the code does beyond its contract. The contract has no action that leads to a
  stale state, none that leads from reconnecting to ready and none that leaves a stale state;
  the code does the first two, and once stale it rejects every event.
\<close>

theorem lifecycle_contract_gap:
  "(\<forall>a a'. tla_next a a' \<longrightarrow> tla_phase a' = TStale \<longrightarrow> tla_phase a = TStale)
   \<and> (\<forall>a a'. tla_next a a' \<longrightarrow> tla_phase a = TReconnecting \<longrightarrow> tla_phase a' = TReconnecting)
   \<and> lifecycle_apply (Reconnecting (ac_generation c)) (Reconnected c) = Inr (Ready c)
   \<and> lifecycle_apply (Reconnecting (ac_generation c + 1)) (Reconnected c) = Inr (Stale (ac_generation c))
   \<and> lifecycle_apply (Stale g) e = Inl (InvalidEvent e)"
proof -
  have "tla_phase a = TStale" if "tla_next a a'" "tla_phase a' = TStale" for a a'
    using that by (cases rule: tla_next.cases) auto
  moreover have "tla_phase a' = TReconnecting" if "tla_next a a'" "tla_phase a = TReconnecting" for a a'
    using that by (cases rule: tla_next.cases) auto
  ultimately show ?thesis by (auto simp: lifecycle_apply_def)
qed

theorem lifecycle_contract_gap_witness:
  "tla_next \<lparr>tla_phase = TReconnecting, tla_progress = 0, tla_total = 0\<rparr>
            \<lparr>tla_phase = TReconnecting, tla_progress = 0, tla_total = 0\<rparr>
   \<and> lifecycle_apply (Reconnecting 1) (Reconnected sample_catalog) = Inr (Ready sample_catalog)"
proof -
  have "tla_next \<lparr>tla_phase = TReconnecting, tla_progress = 0, tla_total = 0\<rparr>
                 \<lparr>tla_phase = TReconnecting, tla_progress = 0, tla_total = 0\<rparr>"
    using tla_next.Reconnect [of "\<lparr>tla_phase = TReconnecting, tla_progress = 0, tla_total = 0\<rparr>"] by simp
  with lifecycle_contract_gap [of sample_catalog] show ?thesis by (simp add: sample_catalog_def)
qed

end
