(* ===== verification/Revision_Ledger.thy ===== *)
theory Revision_Ledger
  imports Prelude
begin

text \<open>
  Model of \<open>src/revision.rs\<close>: the ledger of draft and committed revisions that the wizard and
  the runner handoff share. Records are found by scanning for the first one with an identity,
  as the code does; the invariant gives each status its unique owner as long as the 64-bit
  counter has not saturated.
\<close>

section \<open>Identities and records\<close>

definition MAX_IDENTITY_PART :: nat where "MAX_IDENTITY_PART = 128"

record revision_identity =
  ri_catalog_generation :: u64
  ri_channel_revision :: string
  ri_provider_revision :: string
  ri_model_revision :: string
  ri_source_revision :: string

datatype revision_status = Provisional | Committed | Stale | Superseded | Unavailable

record revision_record =
  rr_id :: u64
  rr_identity :: revision_identity
  rr_status :: revision_status

datatype revision_error = RevisionUnavailable | NotFound | NotProvisional | NotCommitted

definition identity_validate :: "revision_identity \<Rightarrow> (revision_error, revision_identity) result" where
  "identity_validate i =
     (if ri_catalog_generation i = 0
         \<or> list_ex (\<lambda>v. v = [] \<or> MAX_IDENTITY_PART < length v \<or> \<not> is_ascii v)
             [ri_channel_revision i, ri_provider_revision i, ri_model_revision i, ri_source_revision i]
      then Inl RevisionUnavailable else Inr i)"

definition identity_new :: "u64 \<Rightarrow> string \<Rightarrow> string \<Rightarrow> string \<Rightarrow> string \<Rightarrow>
    (revision_error, revision_identity) result" where
  "identity_new generation channel provider model source =
     identity_validate \<lparr>ri_catalog_generation = generation, ri_channel_revision = channel,
       ri_provider_revision = provider, ri_model_revision = model, ri_source_revision = source\<rparr>"

definition status_code :: "revision_status \<Rightarrow> string" where
  "status_code s = (case s of Provisional \<Rightarrow> ''provisional'' | Committed \<Rightarrow> ''committed''
     | Stale \<Rightarrow> ''stale'' | Superseded \<Rightarrow> ''superseded'' | Unavailable \<Rightarrow> ''unavailable'')"

definition error_code :: "revision_error \<Rightarrow> string" where
  "error_code e = (case e of RevisionUnavailable \<Rightarrow> ''revision_unavailable''
     | NotFound \<Rightarrow> ''revision_not_found'' | NotProvisional \<Rightarrow> ''revision_not_provisional''
     | NotCommitted \<Rightarrow> ''revision_not_committed'')"

section \<open>The ledger\<close>

record revision_ledger =
  rl_next_id :: u64
  rl_records :: "revision_record list"
  rl_provisional_id :: "u64 option"
  rl_committed_id :: "u64 option"

definition ledger_new :: revision_ledger where
  "ledger_new = \<lparr>rl_next_id = 1, rl_records = [], rl_provisional_id = None, rl_committed_id = None\<rparr>"

definition ledger_record :: "revision_ledger \<Rightarrow> u64 \<Rightarrow> (revision_error, revision_record) result" where
  "ledger_record l i = ok_or (find (\<lambda>r. rr_id r = i) (rl_records l)) NotFound"

fun update_first :: "u64 \<Rightarrow> revision_status \<Rightarrow> revision_record list \<Rightarrow> revision_record list" where
  "update_first i s [] = []"
| "update_first i s (r # rs) =
     (if rr_id r = i then r\<lparr>rr_status := s\<rparr> # rs else r # update_first i s rs)"

definition set_status :: "u64 \<Rightarrow> revision_status \<Rightarrow> revision_ledger \<Rightarrow> revision_ledger" where
  "set_status i s l = l\<lparr>rl_records := update_first i s (rl_records l)\<rparr>"

definition supersede_provisional :: "revision_ledger \<Rightarrow> revision_ledger" where
  "supersede_provisional l = (case rl_provisional_id l of
       None \<Rightarrow> l
     | Some i \<Rightarrow> set_status i Superseded (l\<lparr>rl_provisional_id := None\<rparr>))"

definition allocate_id :: "revision_ledger \<Rightarrow> u64 \<times> revision_ledger" where
  "allocate_id l = (rl_next_id l, l\<lparr>rl_next_id := saturating_succ (rl_next_id l)\<rparr>)"

definition begin_edit :: "revision_identity \<Rightarrow> (revision_ledger, revision_error, u64) call" where
  "begin_edit i l = (case identity_validate i of
       Inl e \<Rightarrow> (Inl e, l)
     | Inr i \<Rightarrow>
         let l = supersede_provisional l;
             (k, l) = allocate_id l
         in (Inr k, l\<lparr>rl_records := rl_records l @ [\<lparr>rr_id = k, rr_identity = i, rr_status = Provisional\<rparr>],
                      rl_provisional_id := Some k\<rparr>))"

definition commit :: "u64 \<Rightarrow> (revision_ledger, revision_error, revision_record) call" where
  "commit i l =
     (if rl_provisional_id l \<noteq> Some i
      then (Inl (if list_ex (\<lambda>r. rr_id r = i) (rl_records l) then NotProvisional else NotFound), l)
      else let l = (case rl_committed_id l of None \<Rightarrow> l | Some p \<Rightarrow> set_status p Superseded l);
               l = set_status i Committed l;
               l = l\<lparr>rl_provisional_id := None, rl_committed_id := Some i\<rparr>
           in (ledger_record l i, l))"

definition cancel_edit :: "u64 \<Rightarrow> (revision_ledger, revision_error, unit) call" where
  "cancel_edit i l =
     (if rl_provisional_id l \<noteq> Some i then (Inl NotProvisional, l)
      else (Inr (), (set_status i Superseded l)\<lparr>rl_provisional_id := None\<rparr>))"

definition restart :: "revision_ledger \<Rightarrow> revision_ledger" where
  "restart l = (case rl_provisional_id l of
       None \<Rightarrow> l
     | Some i \<Rightarrow> set_status i Superseded (l\<lparr>rl_provisional_id := None\<rparr>))"

definition admit :: "revision_ledger \<Rightarrow> u64 \<Rightarrow> revision_identity \<Rightarrow> (revision_error, unit) result" where
  "admit l i expected = and_then (ledger_record l i) (\<lambda>r.
     if rr_status r \<noteq> Committed then Inl NotCommitted
     else if rr_identity r \<noteq> expected then Inl NotCommitted
     else Inr ())"

definition classify :: "revision_ledger \<Rightarrow> revision_identity \<Rightarrow> revision_status" where
  "classify l i =
     (if \<not> is_ok (identity_validate i) then Unavailable
      else case find (\<lambda>r. rr_identity r = i) (rl_records l) of
             Some r \<Rightarrow> rr_status r
           | None \<Rightarrow> if rl_committed_id l \<noteq> None then Stale else Unavailable)"

definition committed :: "revision_ledger \<Rightarrow> revision_record option" where
  "committed l = (case rl_committed_id l of
       None \<Rightarrow> None
     | Some i \<Rightarrow> (case ledger_record l i of Inl _ \<Rightarrow> None | Inr r \<Rightarrow> Some r))"

text \<open>The mutating calls, for sequences of them.\<close>

datatype ledger_op = BeginEdit revision_identity | Commit u64 | CancelEdit u64 | Restart

definition forget_result :: "('e, 'a) result \<times> 's \<Rightarrow> ('e, unit) result \<times> 's" where
  "forget_result p = (and_then (fst p) (\<lambda>_. Inr ()), snd p)"

fun ledger_step :: "ledger_op \<Rightarrow> (revision_ledger, revision_error, unit) call" where
  "ledger_step (BeginEdit i) l = forget_result (begin_edit i l)"
| "ledger_step (Commit k) l = forget_result (commit k l)"
| "ledger_step (CancelEdit k) l = cancel_edit k l"
| "ledger_step Restart l = (Inr (), restart l)"

section \<open>Invariant\<close>

definition owned :: "revision_ledger \<Rightarrow> bool" where
  "owned l \<longleftrightarrow> unat (rl_next_id l) = Suc (length (rl_records l))
     \<and> (\<forall>r \<in> set (rl_records l). rr_id r < rl_next_id l)
     \<and> distinct (map rr_id (rl_records l))
     \<and> (\<forall>r \<in> set (rl_records l). (rr_status r = Provisional \<longleftrightarrow> rl_provisional_id l = Some (rr_id r))
          \<and> (rr_status r = Committed \<longleftrightarrow> rl_committed_id l = Some (rr_id r)))
     \<and> (\<forall>i. rl_provisional_id l = Some i \<or> rl_committed_id l = Some i \<longrightarrow> i \<in> rr_id ` set (rl_records l))"

text \<open>The counter saturates after \<open>2 ^ 64 - 2\<close> drafts; until then every record has an owner.\<close>

definition ledger_inv :: "revision_ledger \<Rightarrow> bool" where
  "ledger_inv l \<longleftrightarrow> length (rl_records l) < 2 ^ 64 - 1 \<longrightarrow> owned l"

lemma update_first_map:
  "distinct (map rr_id rs) \<Longrightarrow>
   update_first i s rs = map (\<lambda>r. if rr_id r = i then r\<lparr>rr_status := s\<rparr> else r) rs"
proof (induction rs)
  case (Cons r rs)
  moreover have "rs = map (\<lambda>q. if rr_id q = rr_id r then q\<lparr>rr_status := s\<rparr> else q) rs"
    using Cons.prems by (intro map_idI [symmetric]) (auto simp: rev_image_eqI)
  ultimately show ?case by auto
qed simp

lemma update_first_ids [simp]: "map rr_id (update_first i s rs) = map rr_id rs"
  by (induction rs) auto

lemma length_update_first [simp]: "length (update_first i s rs) = length rs"
  by (induction rs) auto

lemma update_first_id_image [simp]: "rr_id ` set (update_first i s rs) = rr_id ` set rs"
  by (metis set_map update_first_ids)

lemma ball_update_first:
  "distinct (map rr_id rs) \<Longrightarrow>
   (\<forall>r \<in> set (update_first i s rs). P r) \<longleftrightarrow>
   (\<forall>q \<in> set rs. P (if rr_id q = i then q\<lparr>rr_status := s\<rparr> else q))"
  by (auto simp: update_first_map)

lemma length_records_mono: "length (rl_records l) \<le> length (rl_records (snd (ledger_step op l)))"
  by (cases op)
     (auto simp: begin_edit_def commit_def cancel_edit_def restart_def set_status_def forget_result_def
        supersede_provisional_def allocate_id_def Let_def split: sum.splits option.splits)

lemma owned_drop_provisional:
  assumes "owned l" "rl_provisional_id l = Some i"
  shows "owned (set_status i Superseded (l\<lparr>rl_provisional_id := None\<rparr>))"
proof -
  have d: "distinct (map rr_id (rl_records l))" using assms(1) by (simp add: owned_def)
  have "rl_committed_id l \<noteq> Some i"
  proof
    assume c: "rl_committed_id l = Some i"
    with assms obtain r where "r \<in> set (rl_records l)" "rr_id r = i" by (auto simp: owned_def)
    with assms c show False by (fastforce simp: owned_def)
  qed
  with assms show ?thesis
    unfolding owned_def set_status_def
    by (auto simp: ball_update_first)
qed

lemma owned_supersede: "owned l \<Longrightarrow> owned (supersede_provisional l) \<and> rl_provisional_id (supersede_provisional l) = None
    \<and> length (rl_records (supersede_provisional l)) = length (rl_records l)"
  using owned_drop_provisional [of l]
  by (auto simp: supersede_provisional_def set_status_def split: option.splits)

lemma owned_push:
  assumes "owned l" "rl_provisional_id l = None" "length (rl_records l) + 1 < 2 ^ 64 - 1"
  shows "owned (l\<lparr>rl_next_id := saturating_succ (rl_next_id l),
     rl_records := rl_records l @ [\<lparr>rr_id = rl_next_id l, rr_identity = i, rr_status = Provisional\<rparr>],
     rl_provisional_id := Some (rl_next_id l)\<rparr>)"
proof -
  let ?n = "rl_next_id l"
  have n: "unat ?n = Suc (length (rl_records l))" using assms(1) by (simp add: owned_def)
  have "unat (- 1 :: u64) = 2 ^ 64 - 1" by (simp add: unsigned_minus_1_eq_mask mask_eq_exp_minus_1)
  then have "?n \<noteq> - 1" using n assms(3) by (metis Suc_eq_plus1 less_irrefl)
  then have succ: "saturating_succ ?n = ?n + 1" "unat (?n + 1) = Suc (unat ?n)" "?n < ?n + 1"
    using saturating_succ_less [of ?n] by (simp_all add: saturating_succ_def unat_succ_not_max)
  have less: "rr_id r < ?n" if "r \<in> set (rl_records l)" for r
    using assms(1) that by (simp add: owned_def)
  then have fresh: "?n \<notin> rr_id ` set (rl_records l)" by fastforce
  then have not_committed: "rl_committed_id l \<noteq> Some ?n" using assms(1) by (auto simp: owned_def)
  show ?thesis
    using assms(1,2) n succ less fresh not_committed
    unfolding owned_def by (auto intro: less_trans dest: less)
qed

lemma owned_commit:
  assumes "owned l" "rl_provisional_id l = Some i"
  shows "owned (snd (commit i l))"
proof -
  have d: "distinct (map rr_id (rl_records l))" using assms(1) by (simp add: owned_def)
  obtain r where r: "r \<in> set (rl_records l)" "rr_id r = i" using assms by (auto simp: owned_def)
  have status: "rr_status r = Provisional" using assms r by (auto simp: owned_def)
  then have "rl_committed_id l \<noteq> Some i" using assms(1) r by (auto simp: owned_def)
  show ?thesis
  proof (cases "rl_committed_id l")
    case None
    with assms show ?thesis
      unfolding owned_def commit_def set_status_def
      by (auto simp: Let_def ball_update_first)
  next
    case (Some p)
    then have "p \<noteq> i" using \<open>rl_committed_id l \<noteq> Some i\<close> by simp
    with assms Some show ?thesis
      unfolding owned_def commit_def set_status_def
      by (auto simp: Let_def ball_update_first)
  qed
qed

lemma ledger_inv_step: "ledger_inv l \<Longrightarrow> ledger_inv (snd (ledger_step op l))"
proof -
  assume inv: "ledger_inv l"
  show ?thesis unfolding ledger_inv_def
  proof
    assume len: "length (rl_records (snd (ledger_step op l))) < 2 ^ 64 - 1"
    with length_records_mono [of l op] have own: "owned l"
      using inv by (simp add: ledger_inv_def)
    show "owned (snd (ledger_step op l))"
    proof (cases op)
      case (BeginEdit i)
      note s = owned_supersede [OF own]
      show ?thesis
      proof (cases "identity_validate i")
        case (Inr j)
        then show ?thesis
          using BeginEdit s len owned_push [of "supersede_provisional l" j]
          by (simp add: begin_edit_def allocate_id_def forget_result_def Let_def)
      qed (use own BeginEdit in \<open>simp add: begin_edit_def forget_result_def\<close>)
    next
      case (Commit k)
      then show ?thesis using own owned_commit [OF own, of k]
        by (cases "rl_provisional_id l = Some k") (simp_all add: forget_result_def commit_def)
    next
      case (CancelEdit k)
      have "(set_status k Superseded l)\<lparr>rl_provisional_id := None\<rparr>
          = set_status k Superseded (l\<lparr>rl_provisional_id := None\<rparr>)"
        by (simp add: set_status_def)
      then show ?thesis using CancelEdit own owned_drop_provisional [OF own, of k]
        by (simp add: cancel_edit_def)
    next
      case Restart
      then show ?thesis using own owned_drop_provisional [OF own]
        by (simp add: restart_def split: option.splits)
    qed
  qed
qed

lemma ledger_new_inv: "ledger_inv ledger_new"
  by (simp add: ledger_inv_def owned_def ledger_new_def)

interpretation ledger: safe_machine ledger_step ledger_inv
  by unfold_locales (rule ledger_inv_step)

lemma length_records_step:
  "length (rl_records (snd (ledger_step op l))) \<le> Suc (length (rl_records l))"
  by (cases op)
     (auto simp: begin_edit_def commit_def cancel_edit_def restart_def set_status_def forget_result_def
        supersede_provisional_def allocate_id_def Let_def split: sum.splits option.splits)

lemma length_records_run:
  "length (rl_records (run_calls ledger_step ops l)) \<le> length (rl_records l) + length ops"
proof (induction ops arbitrary: l)
  case (Cons op ops)
  from Cons [of "snd (ledger_step op l)"] length_records_step [of op l] show ?case by simp
qed simp

lemma owned_run:
  assumes "length ops < 2 ^ 64 - 1"
  shows "owned (run_calls ledger_step ops ledger_new)"
proof -
  have "length (rl_records (run_calls ledger_step ops ledger_new)) < 2 ^ 64 - 1"
    using length_records_run [of ops ledger_new] assms by (simp add: ledger_new_def)
  with ledger.run_inv [OF ledger_new_inv, of ops] show ?thesis by (simp add: ledger_inv_def)
qed

lemma owned_find: "owned l \<Longrightarrow> r \<in> set (rl_records l) \<Longrightarrow> ledger_record l (rr_id r) = Inr r"
  using find_distinct_key [of rr_id "rl_records l" r "rr_id r"]
  by (simp add: owned_def ledger_record_def)

lemma ledger_record_in: "ledger_record l i = Inr r \<Longrightarrow> r \<in> set (rl_records l) \<and> rr_id r = i"
  by (auto simp: ledger_record_def result_simps dest: find_Some_in)

lemma owned_admit:
  assumes "owned l"
  shows "admit l i ident = Inr () \<longleftrightarrow>
    committed l = Some \<lparr>rr_id = i, rr_identity = ident, rr_status = Committed\<rparr>"
proof
  assume "admit l i ident = Inr ()"
  then obtain r where r: "ledger_record l i = Inr r" "rr_status r = Committed" "rr_identity r = ident"
    by (auto simp: admit_def result_simps split: if_splits)
  then have "rl_committed_id l = Some i"
    using assms ledger_record_in [of l i r] by (auto simp: owned_def)
  with r show "committed l = Some \<lparr>rr_id = i, rr_identity = ident, rr_status = Committed\<rparr>"
    using ledger_record_in [of l i r] by (cases r) (simp add: committed_def)
next
  assume "committed l = Some \<lparr>rr_id = i, rr_identity = ident, rr_status = Committed\<rparr>"
  then obtain j where "rl_committed_id l = Some j"
    "ledger_record l j = Inr \<lparr>rr_id = i, rr_identity = ident, rr_status = Committed\<rparr>"
    by (auto simp: committed_def split: option.splits sum.splits)
  then show "admit l i ident = Inr ()"
    using ledger_record_in [of l j] by (auto simp: admit_def)
qed

lemma owned_commit_result:
  assumes "owned l" "rl_provisional_id l = Some i"
  shows "\<exists>r. fst (commit i l) = Inr r \<and> rr_id r = i \<and> rr_status r = Committed
           \<and> committed (snd (commit i l)) = Some r"
proof -
  let ?l = "snd (commit i l)"
  have own: "owned ?l" using owned_commit [OF assms] .
  have c: "rl_committed_id ?l = Some i" using assms by (simp add: commit_def Let_def)
  then obtain r where r: "r \<in> set (rl_records ?l)" "rr_id r = i" using own by (auto simp: owned_def)
  then have st: "rr_status r = Committed" using own c by (auto simp: owned_def)
  have rec: "ledger_record ?l i = Inr r" using owned_find [OF own r(1)] r(2) by simp
  moreover have "fst (commit i l) = ledger_record ?l i" using assms by (simp add: commit_def Let_def)
  ultimately show ?thesis using r st c by (simp add: committed_def)
qed

section \<open>Properties\<close>

text \<open>
  C30: after any sequence of fewer than \<open>2 ^ 64 - 1\<close> calls on a new ledger, exactly the current
  committed revision is admitted: admission of an id with an identity succeeds if and only if
  the ledger's committed record is that one.
\<close>

theorem only_current_commit_admitted:
  assumes "length ops < 2 ^ 64 - 1"
  defines "l \<equiv> run_calls ledger_step ops ledger_new"
  shows "admit l i ident = Inr () \<longleftrightarrow>
    committed l = Some \<lparr>rr_id = i, rr_identity = ident, rr_status = Committed\<rparr>"
  using owned_admit [OF owned_run [OF assms(1)]] by (simp add: l_def)

definition sample_identity :: revision_identity where
  "sample_identity = \<lparr>ri_catalog_generation = 1, ri_channel_revision = ''dev-1'',
     ri_provider_revision = ''provider-1'', ri_model_revision = ''model-a'',
     ri_source_revision = ''source-1''\<rparr>"

definition commit_twice :: "ledger_op list" where
  "commit_twice = [BeginEdit sample_identity, Commit 1, BeginEdit sample_identity, Commit 2]"

theorem only_current_commit_admitted_witness:
  "admit (run_calls ledger_step commit_twice ledger_new) 2 sample_identity = Inr ()"
proof -
  have len: "length commit_twice < 2 ^ 64 - 1" by (simp add: commit_twice_def)
  have "committed (run_calls ledger_step commit_twice ledger_new)
      = Some \<lparr>rr_id = 2, rr_identity = sample_identity, rr_status = Committed\<rparr>" by code_simp
  with only_current_commit_admitted [OF len] show ?thesis by blast
qed

text \<open>
  After any such sequence at most one record is provisional and at most one committed,
  and each is the one the ledger points to; committing the provisional id succeeds and makes
  its record the committed one, and committing any other id fails without changing the ledger.
\<close>

theorem commit_takes_the_draft:
  assumes "length ops < 2 ^ 64 - 1"
  defines "l \<equiv> run_calls ledger_step ops ledger_new"
  shows "(\<forall>r \<in> set (rl_records l). (rr_status r = Provisional \<longleftrightarrow> rl_provisional_id l = Some (rr_id r))
            \<and> (rr_status r = Committed \<longleftrightarrow> rl_committed_id l = Some (rr_id r)))
       \<and> distinct (map rr_id (rl_records l))
       \<and> (if rl_provisional_id l = Some i
          then \<exists>r. fst (commit i l) = Inr r \<and> rr_id r = i \<and> rr_status r = Committed
                 \<and> committed (snd (commit i l)) = Some r
          else \<not> is_ok (fst (commit i l)) \<and> snd (commit i l) = l)"
proof -
  have own: "owned l" unfolding l_def by (rule owned_run [OF assms(1)])
  then show ?thesis using owned_commit_result [OF own, of i] by (auto simp: owned_def commit_def)
qed

theorem commit_takes_the_draft_witness:
  "\<exists>r. fst (commit 2 (run_calls ledger_step (butlast commit_twice) ledger_new)) = Inr r
     \<and> rr_status r = Committed"
proof -
  have len: "length (butlast commit_twice) < 2 ^ 64 - 1" by (simp add: commit_twice_def)
  have "rl_provisional_id (run_calls ledger_step (butlast commit_twice) ledger_new) = Some 2"
    by code_simp
  with commit_takes_the_draft [OF len, of 2] show ?thesis by auto
qed

text \<open>
  \<open>classify\<close> looks at the first record with the identity. Committing the same identity
  twice leaves it admitted under its second id and classified as superseded.
\<close>

theorem recommitted_identity_classified_superseded:
  "let l = run_calls ledger_step commit_twice ledger_new in
     admit l 2 sample_identity = Inr () \<and> classify l sample_identity = Superseded"
  by code_simp

text \<open>
  A restart, whatever happened before, keeps the committed record and its admission and
  leaves no draft: every later commit of an id of the ledger fails until a new edit begins.
\<close>

theorem restart_drops_only_the_draft:
  assumes "length ops < 2 ^ 64 - 1"
  defines "l \<equiv> run_calls ledger_step ops ledger_new"
  shows "committed (restart l) = committed l \<and> rl_provisional_id (restart l) = None
       \<and> (\<forall>i. \<not> is_ok (fst (commit i (restart l))) \<and> snd (commit i (restart l)) = restart l)
       \<and> map rr_id (rl_records (restart l)) = map rr_id (rl_records l)"
proof -
  have own: "owned l" unfolding l_def by (rule owned_run [OF assms(1)])
  have none: "rl_provisional_id (restart l) = None"
    by (simp add: restart_def set_status_def split: option.splits)
  have ids: "map rr_id (rl_records (restart l)) = map rr_id (rl_records l)"
    and cid: "rl_committed_id (restart l) = rl_committed_id l"
    by (simp_all add: restart_def set_status_def split: option.splits)
  have "owned (restart l)"
    using own owned_drop_provisional [OF own] by (simp add: restart_def split: option.splits)
  have rec: "ledger_record (restart l) i = ledger_record l i" if "rl_provisional_id l \<noteq> Some i" for i
  proof -
    have "find (\<lambda>r. rr_id r = i) (update_first j s rs) = find (\<lambda>r. rr_id r = i) rs" if "j \<noteq> i" for j s rs
      using that by (induction rs) auto
    then show ?thesis using that
      by (auto simp: restart_def ledger_record_def set_status_def split: option.splits)
  qed
  have "committed (restart l) = committed l"
  proof (cases "rl_committed_id l")
    case (Some c)
    then have "rl_provisional_id l \<noteq> Some c" using own by (fastforce simp: owned_def)
    with Some cid rec show ?thesis by (simp add: committed_def)
  qed (simp add: committed_def cid)
  with none ids show ?thesis by (simp add: commit_def)
qed

theorem restart_drops_only_the_draft_witness:
  "committed (restart (run_calls ledger_step (butlast commit_twice) ledger_new))
     = committed (run_calls ledger_step (butlast commit_twice) ledger_new)
   \<and> committed (run_calls ledger_step (butlast commit_twice) ledger_new) \<noteq> None"
proof -
  have len: "length (butlast commit_twice) < 2 ^ 64 - 1" by (simp add: commit_twice_def)
  have "committed (run_calls ledger_step (butlast commit_twice) ledger_new) \<noteq> None" by code_simp
  with restart_drops_only_the_draft [OF len] show ?thesis by blast
qed

end
