(* ===== verification/Control_Client.thy ===== *)
theory Control_Client
  imports Sha256 Ordered_Map
begin

unbundle bit_operations_syntax

text \<open>
  Model of \<open>src/control_client.rs\<close>: the state behind the authenticated control connection.
  Versions and limits are negotiated, a reconnect resumes after a cursor, pending requests are
  kept by identifier so that a reconnect retries reads and abandons mutations, and messages
  travel in length-prefixed frames. The JSON library that turns a message into bytes and back
  is not part of the repository: \<open>to_vec\<close> and \<open>from_slice\<close> are arguments.
\<close>

section \<open>Constants and errors\<close>

definition MAX_FRAME_BYTES :: nat where "MAX_FRAME_BYTES = 1024 * 1024"
definition MAX_ID_BYTES :: nat where "MAX_ID_BYTES = 128"
definition MAX_RUNNER_ID_BYTES :: nat where "MAX_RUNNER_ID_BYTES = 128"
definition MAX_PAGE_ITEMS :: u16 where "MAX_PAGE_ITEMS = 256"
definition MAX_TIMEOUT_MS :: u64 where "MAX_TIMEOUT_MS = 5 * 60 * 1000"
definition MAX_REQUEST_ID_BYTES :: nat where "MAX_REQUEST_ID_BYTES = 128"
definition MAX_CURSOR_BYTES :: nat where "MAX_CURSOR_BYTES = 20"

datatype (plugins only: code size) client_error =
  InvalidLimit string | UnsupportedVersion | IncompatibleVersion | InvalidIdentity
| InvalidDescriptor | IdentityChanged | InvalidNegotiation | StaleCursor | FutureCursor
| InvalidCursor | NonMonotonicCursor | NotNegotiated | FrameTooLarge | TruncatedFrame
| MalformedFrame | Serialization | InvalidIssue | InvalidRequestId | InvalidCursorToken
| RequestLimit | UnknownRequest | ReconnectExhausted | VersionChanged

definition safe_id :: "string \<Rightarrow> bool" where
  "safe_id s \<longleftrightarrow> s \<noteq> [] \<and> length s \<le> MAX_ID_BYTES \<and> is_ascii s \<and> \<not> has_control s"

section \<open>Versions\<close>

text \<open>The derived order compares the major version first, then the minor one.\<close>

datatype control_version = ControlVersion (major: u16) (minor: u16)

instantiation control_version :: linorder
begin

definition less_eq_control_version :: "control_version \<Rightarrow> control_version \<Rightarrow> bool" where
  "v \<le> w \<longleftrightarrow> major v < major w \<or> (major v = major w \<and> minor v \<le> minor w)"

definition less_control_version :: "control_version \<Rightarrow> control_version \<Rightarrow> bool" where
  "v < w \<longleftrightarrow> major v < major w \<or> (major v = major w \<and> minor v < minor w)"

instance
  by standard
     (auto simp: less_eq_control_version_def less_control_version_def intro: control_version.expand)

end

definition V1_0 :: control_version where "V1_0 = ControlVersion 1 0"
definition V1_2 :: control_version where "V1_2 = ControlVersion 1 2"
definition V1_3 :: control_version where "V1_3 = ControlVersion 1 3"
definition V1_4 :: control_version where "V1_4 = ControlVersion 1 4"
definition V1_5 :: control_version where "V1_5 = ControlVersion 1 5"

lemmas version_defs = V1_0_def V1_2_def V1_3_def V1_4_def V1_5_def

definition supported_versions :: "control_version set" where
  "supported_versions = {V1_0, V1_2, V1_3, V1_4, V1_5}"

definition select_version :: "control_version set \<Rightarrow> control_version set \<Rightarrow>
    (client_error, control_version) result" where
  "select_version offered peer =
     (if offered = {} \<or> peer = {} \<or> (\<exists>v \<in> offered. v \<notin> supported_versions)
         \<or> (\<exists>v \<in> peer. v \<notin> supported_versions)
      then Inl UnsupportedVersion
      else ok_or (find (\<lambda>v. v \<in> offered \<and> v \<in> peer) [V1_5, V1_4, V1_3, V1_2, V1_0])
             IncompatibleVersion)"

section \<open>Limits\<close>

record control_limits =
  cl_max_frame_bytes :: u32
  cl_max_timeout_ms :: u64
  cl_max_page_items :: u16
  cl_max_in_flight :: u16

definition limits_default :: control_limits where
  "limits_default = \<lparr>cl_max_frame_bytes = 256 * 1024, cl_max_timeout_ms = 30000,
     cl_max_page_items = 100, cl_max_in_flight = 1\<rparr>"

definition limits_validate :: "control_limits \<Rightarrow> (client_error, control_limits) result" where
  "limits_validate l =
     (if cl_max_frame_bytes l = 0 \<or> MAX_FRAME_BYTES < unat (cl_max_frame_bytes l)
      then Inl (InvalidLimit ''max_frame_bytes'')
      else if cl_max_timeout_ms l = 0 \<or> MAX_TIMEOUT_MS < cl_max_timeout_ms l
      then Inl (InvalidLimit ''max_timeout_ms'')
      else if cl_max_page_items l = 0 \<or> MAX_PAGE_ITEMS < cl_max_page_items l
      then Inl (InvalidLimit ''max_page_items'')
      else if cl_max_in_flight l = 0 then Inl (InvalidLimit ''max_in_flight'')
      else Inr l)"

definition limits_intersect :: "control_limits \<Rightarrow> control_limits \<Rightarrow> (client_error, control_limits) result" where
  "limits_intersect l peer =
     and_then (limits_validate l) (\<lambda>_.
     and_then (limits_validate peer) (\<lambda>_.
       Inr \<lparr>cl_max_frame_bytes = min (cl_max_frame_bytes l) (cl_max_frame_bytes peer),
            cl_max_timeout_ms = min (cl_max_timeout_ms l) (cl_max_timeout_ms peer),
            cl_max_page_items = min (cl_max_page_items l) (cl_max_page_items peer),
            cl_max_in_flight = min (cl_max_in_flight l) (cl_max_in_flight peer)\<rparr>))"

section \<open>Negotiation\<close>

record negotiate_request =
  nr_versions :: "control_version set"
  nr_limits :: control_limits

definition negotiate_request_new :: "control_limits \<Rightarrow> (client_error, negotiate_request) result" where
  "negotiate_request_new limits = and_then (limits_validate limits) (\<lambda>limits.
     Inr \<lparr>nr_versions = supported_versions, nr_limits = limits\<rparr>)"

definition negotiate_request_validate :: "negotiate_request \<Rightarrow> (client_error, unit) result" where
  "negotiate_request_validate r = and_then (limits_validate (nr_limits r)) (\<lambda>_.
     if nr_versions r = {} \<or> (\<exists>v \<in> nr_versions r. v \<notin> supported_versions)
     then Inl UnsupportedVersion else Inr ())"

record runner_identity =
  ru_uid :: u32
  ru_pid :: u32
  ru_service_generation :: u64
  ru_runner_instance_id :: string

definition runner_validate :: "runner_identity \<Rightarrow> (client_error, unit) result" where
  "runner_validate r =
     (if ru_pid r = 0 \<or> ru_runner_instance_id r = []
         \<or> MAX_RUNNER_ID_BYTES < length (ru_runner_instance_id r)
         \<or> \<not> safe_id (ru_runner_instance_id r)
      then Inl InvalidIdentity else Inr ())"

record peer_credentials =
  pc_uid :: u32
  pc_pid :: u32
  pc_service_generation :: u64

record adopted_channel =
  ch_descriptor :: u32
  ch_credentials :: peer_credentials

definition channel_new :: "u32 \<Rightarrow> peer_credentials \<Rightarrow> (client_error, adopted_channel) result" where
  "channel_new descriptor credentials =
     (if descriptor < 3 \<or> pc_pid credentials = 0 then Inl InvalidDescriptor
      else Inr \<lparr>ch_descriptor = descriptor, ch_credentials = credentials\<rparr>)"

definition authenticate :: "adopted_channel \<Rightarrow> runner_identity \<Rightarrow> (client_error, unit) result" where
  "authenticate ch expected = and_then (runner_validate expected) (\<lambda>_.
     if pc_uid (ch_credentials ch) \<noteq> ru_uid expected
        \<or> pc_pid (ch_credentials ch) \<noteq> ru_pid expected
        \<or> pc_service_generation (ch_credentials ch) \<noteq> ru_service_generation expected
     then Inl IdentityChanged else Inr ())"

record negotiated =
  ng_version :: control_version
  ng_limits :: control_limits
  ng_runner :: runner_identity
  ng_oldest_revision :: u64
  ng_latest_revision :: u64

definition negotiated_validate :: "negotiated \<Rightarrow> control_version set \<Rightarrow> control_limits \<Rightarrow>
    (client_error, unit) result" where
  "negotiated_validate n offered local =
     (if ng_version n \<notin> supported_versions \<or> ng_version n \<notin> offered
         \<or> ng_latest_revision n < ng_oldest_revision n
      then Inl InvalidNegotiation
      else and_then (runner_validate (ng_runner n)) (\<lambda>_.
           and_then (limits_validate (ng_limits n)) (\<lambda>limits.
           and_then (limits_validate local) (\<lambda>_.
             if cl_max_frame_bytes local < cl_max_frame_bytes limits
                \<or> cl_max_timeout_ms local < cl_max_timeout_ms limits
                \<or> cl_max_page_items local < cl_max_page_items limits
                \<or> cl_max_in_flight local < cl_max_in_flight limits
             then Inl InvalidNegotiation else Inr ()))))"

definition measurement_catalog_available :: "negotiated \<Rightarrow> bool" where
  "measurement_catalog_available n \<longleftrightarrow> V1_2 \<le> ng_version n"

section \<open>Cursors\<close>

record reconnect_cursor =
  rc_revision :: "u64 option"

definition cursor_default :: reconnect_cursor where
  "cursor_default = \<lparr>rc_revision = None\<rparr>"

definition resume_after :: "reconnect_cursor \<Rightarrow> negotiated \<Rightarrow> (client_error, u64 option) result" where
  "resume_after c n = (case rc_revision c of
       None \<Rightarrow> Inr None
     | Some revision \<Rightarrow>
         if revision < saturating_pred (ng_oldest_revision n) then Inl StaleCursor
         else if ng_latest_revision n < revision then Inl FutureCursor
         else Inr (Some revision))"

definition cursor_advance :: "u64 \<Rightarrow> negotiated \<Rightarrow> (reconnect_cursor, client_error, unit) call" where
  "cursor_advance next_revision n c =
     (if next_revision < ng_oldest_revision n \<or> ng_latest_revision n < next_revision
      then (Inl InvalidCursor, c)
      else if (case rc_revision c of None \<Rightarrow> False | Some current \<Rightarrow> next_revision \<le> current)
      then (Inl NonMonotonicCursor, c)
      else (Inr (), c\<lparr>rc_revision := Some next_revision\<rparr>))"

definition cursor_token_parse :: "string \<Rightarrow> (client_error, u64) result" where
  "cursor_token_parse s =
     (if s = [] \<or> MAX_CURSOR_BYTES < length s \<or> (1 < length s \<and> starts_with s ''0'')
         \<or> \<not> list_all is_ascii_digit s
      then Inl InvalidCursorToken
      else case parse_unsigned (2 ^ 64 - 1) s of
             None \<Rightarrow> Inl InvalidCursorToken
           | Some n \<Rightarrow> Inr (word_of_nat n))"

definition cursor_token_serialize :: "u64 \<Rightarrow> string" where
  "cursor_token_serialize w = show_nat (unat w)"

section \<open>Pending requests\<close>

definition request_id_new :: "string \<Rightarrow> (client_error, string) result" where
  "request_id_new s =
     (if safe_id s \<and> length s \<le> MAX_REQUEST_ID_BYTES then Inr s else Inl InvalidRequestId)"

datatype request_class = ReadOnly | Mutation

record retry_plan =
  pl_read_only :: "string list"
  pl_abandoned_mutations :: "string list"

type_synonym request_ledger = "(string \<times> request_class) list"

definition request_begin :: "string \<Rightarrow> request_class \<Rightarrow> control_limits \<Rightarrow>
    (request_ledger, client_error, unit) call" where
  "request_begin i cls limits pending = (case limits_validate limits of
       Inl e \<Rightarrow> (Inl e, pending)
     | Inr _ \<Rightarrow>
         if unat (cl_max_in_flight limits) \<le> length pending \<or> om_get pending i \<noteq> None
         then (Inl RequestLimit, pending)
         else (Inr (), om_insert i cls pending))"

definition request_complete :: "string \<Rightarrow> (request_ledger, client_error, request_class) call" where
  "request_complete i pending = (ok_or (om_get pending i) UnknownRequest, om_remove i pending)"

fun split_plan :: "request_ledger \<Rightarrow> retry_plan \<Rightarrow> retry_plan" where
  "split_plan [] plan = plan"
| "split_plan ((i, ReadOnly) # m) plan =
     split_plan m (plan\<lparr>pl_read_only := pl_read_only plan @ [i]\<rparr>)"
| "split_plan ((i, Mutation) # m) plan =
     split_plan m (plan\<lparr>pl_abandoned_mutations := pl_abandoned_mutations plan @ [i]\<rparr>)"

definition reconnect_plan :: "request_ledger \<Rightarrow> retry_plan \<times> request_ledger" where
  "reconnect_plan pending =
     (split_plan pending \<lparr>pl_read_only = [], pl_abandoned_mutations = []\<rparr>, [])"

section \<open>The connection\<close>

datatype connection_state =
  Disconnected reconnect_cursor
| Negotiated adopted_channel negotiated reconnect_cursor

definition connection_default :: connection_state where
  "connection_default = Disconnected cursor_default"

definition connection_adopt :: "adopted_channel \<Rightarrow> runner_identity \<Rightarrow>
    (client_error, connection_state) result" where
  "connection_adopt ch expected = and_then (authenticate ch expected) (\<lambda>_.
     Inr (Disconnected cursor_default))"

fun connection_cursor :: "connection_state \<Rightarrow> reconnect_cursor" where
  "connection_cursor (Disconnected c) = c"
| "connection_cursor (Negotiated ch n c) = c"

definition establish :: "connection_state \<Rightarrow> adopted_channel \<Rightarrow> negotiated \<Rightarrow> control_version set \<Rightarrow>
    control_limits \<Rightarrow> (client_error, connection_state) result" where
  "establish s ch n offered local =
     (let c = connection_cursor s in
      and_then (authenticate ch (ng_runner n)) (\<lambda>_.
      and_then (negotiated_validate n offered local) (\<lambda>_.
      and_then (resume_after c n) (\<lambda>_. Inr (Negotiated ch n c)))))"

definition disconnect :: "connection_state \<Rightarrow> connection_state" where
  "disconnect s = Disconnected (connection_cursor s)"

fun advance_cursor :: "u64 \<Rightarrow> (connection_state, client_error, unit) call" where
  "advance_cursor revision (Negotiated ch n c) =
     (case cursor_advance revision n c of (r, c') \<Rightarrow> (r, Negotiated ch n c'))"
| "advance_cursor revision (Disconnected c) = (Inl NotNegotiated, Disconnected c)"

section \<open>Frames\<close>

definition encode_frame :: "('m \<Rightarrow> u8 list option) \<Rightarrow> 'm \<Rightarrow> nat \<Rightarrow> (client_error, u8 list) result" where
  "encode_frame to_vec v max_frame = and_then (ok_or (to_vec v) Serialization) (\<lambda>body.
     if body = [] \<or> max_frame < length body \<or> MAX_FRAME_BYTES < length body
        \<or> 2 ^ 32 - 1 < length body
     then Inl FrameTooLarge
     else Inr (u32_to_be_bytes (word_of_nat (length body)) @ body))"

definition decode_frame :: "(u8 list \<Rightarrow> 'm option) \<Rightarrow> u8 list \<Rightarrow> nat \<Rightarrow> (client_error, 'm) result" where
  "decode_frame from_slice frame max_frame =
     (if length frame < 4 then Inl TruncatedFrame
      else let len = unat (from_be_bytes (take 4 frame)) in
           if len = 0 \<or> max_frame < len \<or> MAX_FRAME_BYTES < len then Inl FrameTooLarge
           else if length frame \<noteq> len + 4 then Inl TruncatedFrame
           else ok_or (from_slice (drop 4 frame)) MalformedFrame)"

section \<open>Validation issues\<close>

datatype validation_category =
  InvalidFormat | UnsupportedCapability | UnverifiedComponent | InvalidResourceBound
| MeasurementIssue

datatype measurement_reason = UnknownId | Unsupported | MeasurementUnavailable | InvalidConfiguration

record validation_issue =
  vi_category :: validation_category
  vi_reason :: "measurement_reason option"
  vi_measurement_id :: "string option"

definition validate_issue :: "control_version \<Rightarrow> validation_issue \<Rightarrow> (client_error, unit) result" where
  "validate_issue version issue =
     (if version = V1_0 \<or> version = V1_2
      then if vi_reason issue \<noteq> None \<or> vi_measurement_id issue \<noteq> None
              \<or> vi_category issue = MeasurementIssue
           then Inl InvalidIssue
           else if vi_category issue \<notin> {InvalidFormat, UnsupportedCapability, UnverifiedComponent,
                                         InvalidResourceBound}
           then Inl InvalidIssue
           else Inr ()
      else if version \<noteq> V1_3 then Inl UnsupportedVersion
      else if vi_category issue = MeasurementIssue
      then (case vi_reason issue of
              None \<Rightarrow> Inl InvalidIssue
            | Some reason \<Rightarrow>
                if reason = UnknownId \<and> vi_measurement_id issue \<noteq> None then Inl InvalidIssue
                else if (case vi_measurement_id issue of None \<Rightarrow> False | Some i \<Rightarrow> \<not> safe_id i)
                then Inl InvalidIssue
                else Inr ())
      else if vi_reason issue \<noteq> None \<or> vi_measurement_id issue \<noteq> None then Inl InvalidIssue
      else Inr ())"

section \<open>Lemmas on versions and limits\<close>

lemma version_order:
  "V1_0 < V1_2" "V1_2 < V1_3" "V1_3 < V1_4" "V1_4 < V1_5"
  by (simp_all add: version_defs less_control_version_def)

lemma finite_supported [simp]: "finite supported_versions"
  by (simp add: supported_versions_def)

lemma select_version_Max:
  assumes "offered \<subseteq> supported_versions" "offered \<inter> peer \<noteq> {}"
  shows "find (\<lambda>v. v \<in> offered \<and> v \<in> peer) [V1_5, V1_4, V1_3, V1_2, V1_0] = Some (Max (offered \<inter> peer))"
proof -
  let ?P = "\<lambda>v. v \<in> offered \<and> v \<in> peer"
  let ?vs = "[V1_5, V1_4, V1_3, V1_2, V1_0]"
  have elems: "offered \<inter> peer \<subseteq> set ?vs" using assms(1) by (auto simp: supported_versions_def)
  have sorted: "sorted_wrt (>) ?vs" using version_order by (auto intro: less_trans)
  obtain v where v: "find ?P ?vs = Some v"
    using elems assms(2) find_None_all [of ?P ?vs] by (cases "find ?P ?vs") auto
  have first: "find ?P xs = Some v \<Longrightarrow> sorted_wrt (>) xs \<Longrightarrow> w \<in> set xs \<Longrightarrow> ?P w \<Longrightarrow> w \<le> v"
    for xs w
    by (induction xs) (auto split: if_splits)
  have fin: "finite (offered \<inter> peer)"
    using elems finite_subset by blast
  have "Max (offered \<inter> peer) = v"
    using find_Some_in [OF v] first [OF v sorted] elems fin by (intro Max_eqI) auto
  with v show ?thesis by simp
qed

lemma limits_validate_Inr:
  "limits_validate l = Inr l' \<longleftrightarrow> l' = l \<and> cl_max_frame_bytes l \<noteq> 0
     \<and> unat (cl_max_frame_bytes l) \<le> MAX_FRAME_BYTES
     \<and> cl_max_timeout_ms l \<noteq> 0 \<and> cl_max_timeout_ms l \<le> MAX_TIMEOUT_MS
     \<and> cl_max_page_items l \<noteq> 0 \<and> cl_max_page_items l \<le> MAX_PAGE_ITEMS \<and> cl_max_in_flight l \<noteq> 0"
  by (auto simp: limits_validate_def not_less)

lemma limits_intersect_Inr:
  "limits_intersect l p = Inr r \<longleftrightarrow>
     limits_validate l = Inr l \<and> limits_validate p = Inr p
     \<and> r = \<lparr>cl_max_frame_bytes = min (cl_max_frame_bytes l) (cl_max_frame_bytes p),
            cl_max_timeout_ms = min (cl_max_timeout_ms l) (cl_max_timeout_ms p),
            cl_max_page_items = min (cl_max_page_items l) (cl_max_page_items p),
            cl_max_in_flight = min (cl_max_in_flight l) (cl_max_in_flight p)\<rparr>"
  unfolding limits_intersect_def and_then_Inr_iff by (auto simp: limits_validate_Inr)

lemma limits_intersect_valid:
  assumes "limits_intersect l p = Inr r"
  shows "limits_validate r = Inr r"
proof -
  have "limits_validate l = Inr l" "limits_validate p = Inr p"
    and r: "r = \<lparr>cl_max_frame_bytes = min (cl_max_frame_bytes l) (cl_max_frame_bytes p),
            cl_max_timeout_ms = min (cl_max_timeout_ms l) (cl_max_timeout_ms p),
            cl_max_page_items = min (cl_max_page_items l) (cl_max_page_items p),
            cl_max_in_flight = min (cl_max_in_flight l) (cl_max_in_flight p)\<rparr>"
    using assms by (auto simp: limits_intersect_Inr)
  then show ?thesis unfolding limits_validate_Inr r by (auto simp: min_def)
qed

section \<open>Lemmas on cursors\<close>

lemma length_show_nat: "n < 10 ^ Suc k \<Longrightarrow> length (show_nat n) \<le> Suc k"
proof (induction k arbitrary: n)
  case 0
  then show ?case by (simp add: show_nat.simps)
next
  case (Suc k)
  show ?case
  proof (cases "n < 10")
    case False
    have "n div 10 < 10 ^ Suc k" using Suc.prems by (simp add: less_mult_imp_div_less mult.commute)
    from Suc.IH [OF this] show ?thesis using False by (simp add: show_nat.simps [of n])
  qed (simp add: show_nat.simps)
qed

lemma parse_unsigned_digits:
  "list_all is_ascii_digit s \<Longrightarrow> s \<noteq> [] \<Longrightarrow>
   parse_unsigned limit s = (if decimal_value s \<le> limit then Some (decimal_value s) else None)"
proof -
  have "\<not> is_ascii_digit CHR ''+''" by (simp add: is_ascii_digit_def)
  then show "list_all is_ascii_digit s \<Longrightarrow> s \<noteq> [] \<Longrightarrow> ?thesis"
    by (cases s) (auto simp: parse_unsigned_def Let_def)
qed

lemma cursor_token_parse_Inr:
  "cursor_token_parse s = Inr w \<longleftrightarrow>
     s \<noteq> [] \<and> length s \<le> 20 \<and> (1 < length s \<longrightarrow> hd s \<noteq> CHR ''0'') \<and> list_all is_ascii_digit s
     \<and> decimal_value s < 2 ^ 64 \<and> w = word_of_nat (decimal_value s)"
proof -
  have zero: "1 < length s \<and> starts_with s ''0'' \<longleftrightarrow> 1 < length s \<and> hd s = CHR ''0''"
    by (cases s) auto
  have le: "n \<le> 2 ^ 64 - 1 \<longleftrightarrow> n < 2 ^ 64" for n :: nat by auto
  show ?thesis
    unfolding cursor_token_parse_def zero MAX_CURSOR_BYTES_def
    using parse_unsigned_digits [of s "2 ^ 64 - 1", unfolded le] by (auto simp: not_less)
qed

lemma resume_after_Inr:
  "resume_after c n = Inr m \<longleftrightarrow> m = rc_revision c
     \<and> (\<forall>r. rc_revision c = Some r \<longrightarrow>
          saturating_pred (ng_oldest_revision n) \<le> r \<and> r \<le> ng_latest_revision n)"
  by (auto simp: resume_after_def not_less split: option.splits)

lemma unat_saturating_pred: "unat (saturating_pred w) = unat w - 1"
proof (cases "w = 0")
  case False
  then have "1 \<le> w" by (simp add: word_le_nat_alt Suc_le_eq unat_gt_0)
  then show ?thesis using False by (simp add: saturating_pred_def unat_sub)
qed (simp add: saturating_pred_def)

section \<open>Lemmas on pending requests\<close>

datatype request_op = Begin string request_class control_limits | Done string | Reconnect

fun request_step :: "request_op \<Rightarrow> (request_ledger, client_error, unit) call" where
  "request_step (Begin i cls limits) m = request_begin i cls limits m"
| "request_step (Done i) m = (case request_complete i m of (r, m') \<Rightarrow> (and_then r (\<lambda>_. Inr ()), m'))"
| "request_step Reconnect m = (Inr (), snd (reconnect_plan m))"

lemma om_remove_absent: "om_get m i = None \<Longrightarrow> om_remove i m = m"
  unfolding om_remove_def by (induction m) (auto split: if_splits)

interpretation requests: safe_machine request_step om_sorted
proof
  fix op and m :: request_ledger
  assume "om_sorted m"
  then show "om_sorted (snd (request_step op m))"
    by (cases op) (auto simp: request_begin_def request_complete_def reconnect_plan_def
        om_insert_sorted om_remove_sorted split: sum.splits)
qed

interpretation request_calls: fail_closed request_step
proof
  fix op m e m'
  assume "request_step op m = (Inl e, m')"
  then show "m' = m"
    by (cases op) (auto simp: request_begin_def request_complete_def om_remove_absent ok_or_def
        split: sum.splits if_splits option.splits)
qed

lemma split_plan_acc:
  "split_plan m plan = \<lparr>pl_read_only = pl_read_only plan @ map fst (filter (\<lambda>p. snd p = ReadOnly) m),
     pl_abandoned_mutations = pl_abandoned_mutations plan @ map fst (filter (\<lambda>p. snd p = Mutation) m)\<rparr>"
  by (induction m plan rule: split_plan.induct) auto

lemma sorted_wrt_filter_map: "sorted_wrt P (map f xs) \<Longrightarrow> sorted_wrt P (map f (filter Q xs))"
  by (induction xs) auto

lemma reconnect_plan_partition:
  assumes "om_sorted m"
  shows "set (pl_read_only (fst (reconnect_plan m))) = {i. om_get m i = Some ReadOnly}"
    and "set (pl_abandoned_mutations (fst (reconnect_plan m))) = {i. om_get m i = Some Mutation}"
    and "sorted_wrt (<) (pl_read_only (fst (reconnect_plan m)))"
    and "sorted_wrt (<) (pl_abandoned_mutations (fst (reconnect_plan m)))"
proof -
  have plan: "fst (reconnect_plan m) =
      \<lparr>pl_read_only = map fst (filter (\<lambda>p. snd p = ReadOnly) m),
       pl_abandoned_mutations = map fst (filter (\<lambda>p. snd p = Mutation) m)\<rparr>"
    by (simp add: reconnect_plan_def split_plan_acc)
  have keys: "fst ` {p \<in> set m. snd p = cls} = {i. om_get m i = Some cls}" for cls
    using om_entries_get [OF assms] by force
  show "set (pl_read_only (fst (reconnect_plan m))) = {i. om_get m i = Some ReadOnly}"
    "set (pl_abandoned_mutations (fst (reconnect_plan m))) = {i. om_get m i = Some Mutation}"
    by (simp_all add: plan keys)
  show "sorted_wrt (<) (pl_read_only (fst (reconnect_plan m)))"
    "sorted_wrt (<) (pl_abandoned_mutations (fst (reconnect_plan m)))"
    using assms by (simp_all add: plan om_sorted_def sorted_wrt_filter_map)
qed

text \<open>The class under which an identifier was last begun, by the calls that were accepted.\<close>

fun last_begin :: "request_op list \<Rightarrow> string \<Rightarrow> request_class option \<Rightarrow> request_class option" where
  "last_begin [] i c = c"
| "last_begin (Begin j cls limits # ops) i c = last_begin ops i (if j = i then Some cls else c)"
| "last_begin (Done j # ops) i c = last_begin ops i c"
| "last_begin (Reconnect # ops) i c = last_begin ops i c"

lemma pending_last_begun:
  assumes "om_sorted m" "\<And>cls. om_get m i = Some cls \<Longrightarrow> c = Some cls"
    "om_get (run_calls request_step ops m) i = Some cls"
  shows "last_begin (accepted request_step ops m) i c = Some cls"
  using assms
proof (induction ops arbitrary: m c)
  case Nil
  then show ?case by simp
next
  case (Cons op ops)
  obtain r m' where step: "request_step op m = (r, m')" by fastforce
  have srt: "om_sorted m'" using requests.step_inv [of m op] Cons.prems(1) step by simp
  have later: "om_get (run_calls request_step ops m') i = Some cls" using Cons.prems(3) step by simp
  show ?case
  proof (cases "is_ok r")
    case False
    then have "m' = m" using request_calls.not_ok_unchanged [of op m] step by simp
    then show ?thesis using Cons.IH [OF srt _ later, of c] Cons.prems(2) step False by simp
  next
    case True
    show ?thesis
    proof (cases op)
      case (Begin j cls' limits)
      then have "m' = om_insert j cls' m"
        using step True by (auto simp: request_begin_def split: sum.splits if_splits)
      then show ?thesis
        using Begin step True Cons.prems Cons.IH [OF srt _ later, of "if j = i then Some cls' else c"]
        by (auto simp: om_get_insert)
    next
      case (Done j)
      then have "m' = om_remove j m" using step by (auto simp: request_complete_def)
      then show ?thesis
        using Done step True Cons.prems(2) Cons.IH [OF srt _ later, of c]
        by (cases "i = j") (auto simp: om_get_remove)
    next
      case Reconnect
      then have "m' = []" using step by (simp add: reconnect_plan_def)
      then show ?thesis using Reconnect step True Cons.IH [OF srt _ later, of c] by auto
    qed
  qed
qed

section \<open>Lemmas on the connection\<close>

inductive conn_step :: "connection_state \<Rightarrow> connection_state \<Rightarrow> bool" where
  established: "establish s ch n offered local = Inr s' \<Longrightarrow> conn_step s s'"
| disconnected: "conn_step s (disconnect s)"
| advanced: "advance_cursor r s = (Inr (), s') \<Longrightarrow> conn_step s s'"

definition cursor_rank :: "connection_state \<Rightarrow> nat" where
  "cursor_rank s = (case rc_revision (connection_cursor s) of None \<Rightarrow> 0 | Some r \<Rightarrow> Suc (unat r))"

definition session_ok :: "connection_state \<Rightarrow> bool" where
  "session_ok s = (case s of Disconnected _ \<Rightarrow> True
     | Negotiated ch n c \<Rightarrow> authenticate ch (ng_runner n) = Inr ()
         \<and> ng_version n \<in> supported_versions \<and> limits_validate (ng_limits n) = Inr (ng_limits n)
         \<and> ng_oldest_revision n \<le> ng_latest_revision n
         \<and> (\<forall>r. rc_revision c = Some r \<longrightarrow>
              unat (ng_oldest_revision n) \<le> Suc (unat r) \<and> r \<le> ng_latest_revision n))"

lemma establish_Inr:
  assumes "establish s ch n offered local = Inr s'"
  shows "s' = Negotiated ch n (connection_cursor s)" "authenticate ch (ng_runner n) = Inr ()"
    "negotiated_validate n offered local = Inr ()"
    "resume_after (connection_cursor s) n = Inr (rc_revision (connection_cursor s))"
  using assms by (auto simp: establish_def Let_def result_simps resume_after_Inr)

lemma negotiated_validate_Inr:
  "negotiated_validate n offered local = Inr () \<longleftrightarrow>
     ng_version n \<in> supported_versions \<and> ng_version n \<in> offered
     \<and> ng_oldest_revision n \<le> ng_latest_revision n \<and> runner_validate (ng_runner n) = Inr ()
     \<and> limits_validate (ng_limits n) = Inr (ng_limits n) \<and> limits_validate local = Inr local
     \<and> cl_max_frame_bytes (ng_limits n) \<le> cl_max_frame_bytes local
     \<and> cl_max_timeout_ms (ng_limits n) \<le> cl_max_timeout_ms local
     \<and> cl_max_page_items (ng_limits n) \<le> cl_max_page_items local
     \<and> cl_max_in_flight (ng_limits n) \<le> cl_max_in_flight local"
proof -
  have cases: "(\<exists>e. limits_validate l = Inl e) \<or> limits_validate l = Inr l" for l
    by (auto simp: limits_validate_def)
  have if_Inr: "(if b then Inl e else r) = Inr x \<longleftrightarrow> \<not> b \<and> r = Inr x" for b and e :: client_error
    and r and x :: unit
    by simp
  from cases [of "ng_limits n"] cases [of local] show ?thesis
    unfolding negotiated_validate_def if_Inr
    by (elim disjE exE) (auto simp add: and_then_Inr_iff not_less if_Inr)
qed

lemma conn_step_session_ok: "conn_step s s' \<Longrightarrow> session_ok s \<Longrightarrow> session_ok s'"
proof (induction rule: conn_step.induct)
  case (established s ch n offered local s')
  note e = establish_Inr [OF established.hyps]
  have "\<forall>r. rc_revision (connection_cursor s) = Some r \<longrightarrow>
      unat (ng_oldest_revision n) \<le> Suc (unat r) \<and> r \<le> ng_latest_revision n"
    using e(4) by (auto simp: resume_after_Inr word_le_nat_alt unat_saturating_pred)
  with e show ?case by (simp add: session_ok_def negotiated_validate_Inr)
next
  case (disconnected s)
  then show ?case by (simp add: session_ok_def disconnect_def)
next
  case (advanced r s s')
  then show ?case
    by (cases s) (auto simp: session_ok_def cursor_advance_def word_le_nat_alt not_less split: if_splits)
qed

lemma conn_step_rank: "conn_step s s' \<Longrightarrow> cursor_rank s \<le> cursor_rank s'"
proof (induction rule: conn_step.induct)
  case (established s ch n offered local s')
  then show ?case using establish_Inr [OF established] by (simp add: cursor_rank_def)
next
  case (disconnected s)
  then show ?case by (simp add: cursor_rank_def disconnect_def)
next
  case (advanced r s s')
  then show ?case
    by (cases s) (auto simp: cursor_rank_def cursor_advance_def word_le_nat_alt not_le
        split: if_splits option.splits)
qed

lemma reachable_session_ok: "conn_step\<^sup>*\<^sup>* connection_default s \<Longrightarrow> session_ok s"
proof (induction rule: rtranclp_induct)
  case base
  then show ?case by (simp add: connection_default_def session_ok_def)
qed (rule conn_step_session_ok)

lemma reachable_rank: "conn_step\<^sup>*\<^sup>* s s' \<Longrightarrow> cursor_rank s \<le> cursor_rank s'"
  by (induction rule: rtranclp_induct) (auto dest: conn_step_rank)

section \<open>Properties\<close>

text \<open>
  Version selection is the greatest common version. With only supported versions on both
  sides the result is the maximum of the intersection, with an empty intersection the versions
  are incompatible, and an empty or unsupported offer is refused as unsupported.
\<close>

theorem select_version_is_greatest_common:
  "select_version offered peer =
     (if offered = {} \<or> peer = {} \<or> \<not> offered \<subseteq> supported_versions \<or> \<not> peer \<subseteq> supported_versions
      then Inl UnsupportedVersion
      else if offered \<inter> peer = {} then Inl IncompatibleVersion
      else Inr (Max (offered \<inter> peer)))"
proof -
  have none: "find (\<lambda>v. v \<in> offered \<and> v \<in> peer) [V1_5, V1_4, V1_3, V1_2, V1_0] = None"
    if "offered \<inter> peer = {}"
    using that by (auto simp: find_None_all)
  have "(\<exists>v \<in> offered. v \<notin> supported_versions) \<longleftrightarrow> \<not> offered \<subseteq> supported_versions"
    "(\<exists>v \<in> peer. v \<notin> supported_versions) \<longleftrightarrow> \<not> peer \<subseteq> supported_versions" by auto
  then show ?thesis
    using select_version_Max [of offered peer] none unfolding select_version_def by auto
qed

theorem select_version_is_greatest_common_witness:
  "select_version {V1_0, V1_2} {V1_2, V1_3} = Inr V1_2"
proof -
  have sub: "{V1_0, V1_2} \<subseteq> supported_versions" "{V1_2, V1_3} \<subseteq> supported_versions"
    by (simp_all add: supported_versions_def)
  have common: "{V1_0, V1_2} \<inter> {V1_2, V1_3} = {V1_2}" by (auto simp: version_defs)
  show ?thesis
    using select_version_is_greatest_common [of "{V1_0, V1_2}" "{V1_2, V1_3}", unfolded common] sub
    by simp
qed

text \<open>
  An answer computed from both sides' limits and versions is accepted. If the limits
  intersect to \<open>l\<close> and the version is selected from the offer, a session with a valid runner
  and an ordered revision window that carries exactly these is validated by the client, and
  the intersection is valid and no greater than either side in any of its four limits.
\<close>

theorem honest_negotiation_accepted:
  assumes "limits_intersect local peer = Inr l" and "select_version offered others = Inr v"
    and "runner_validate r = Inr ()" and "old \<le> latest"
  shows "negotiated_validate \<lparr>ng_version = v, ng_limits = l, ng_runner = r,
            ng_oldest_revision = old, ng_latest_revision = latest\<rparr> offered local = Inr ()
       \<and> limits_validate l = Inr l
       \<and> cl_max_frame_bytes l \<le> cl_max_frame_bytes peer \<and> cl_max_timeout_ms l \<le> cl_max_timeout_ms peer
       \<and> cl_max_page_items l \<le> cl_max_page_items peer \<and> cl_max_in_flight l \<le> cl_max_in_flight peer"
proof -
  from assms(2) have v: "v \<in> offered" "v \<in> supported_versions"
    unfolding select_version_def
    by (auto simp: result_simps split: if_splits dest: find_Some_in)
  note l = assms(1) [unfolded limits_intersect_Inr]
  have "limits_validate l = Inr l" using limits_intersect_valid [OF assms(1)] .
  with assms(3,4) v l show ?thesis by (simp add: negotiated_validate_Inr)
qed

definition sample_runner :: runner_identity where
  "sample_runner = \<lparr>ru_uid = 1000, ru_pid = 42, ru_service_generation = 7,
     ru_runner_instance_id = ''runner-7''\<rparr>"

lemmas limit_defs = MAX_FRAME_BYTES_def MAX_TIMEOUT_MS_def MAX_PAGE_ITEMS_def

lemma limits_default_valid: "limits_validate limits_default = Inr limits_default"
  by (simp add: limits_validate_def limits_default_def limit_defs)

lemma sample_runner_valid: "runner_validate sample_runner = Inr ()"
  by (simp add: runner_validate_def sample_runner_def MAX_RUNNER_ID_BYTES_def safe_id_def
      MAX_ID_BYTES_def is_ascii_def is_ascii_control_def)

theorem honest_negotiation_accepted_witness:
  "negotiated_validate \<lparr>ng_version = V1_3, ng_limits = limits_default, ng_runner = sample_runner,
      ng_oldest_revision = 1, ng_latest_revision = 4\<rparr> {V1_2, V1_3} limits_default = Inr ()"
proof -
  have "limits_intersect limits_default limits_default = Inr limits_default"
    "select_version {V1_2, V1_3} {V1_0, V1_2, V1_3} = Inr V1_3"
    "runner_validate sample_runner = Inr ()" "(1 :: u64) \<le> 4"
    by (simp_all add: sample_runner_valid limits_default_valid limits_intersect_def)
       (simp_all add: limits_default_def select_version_def supported_versions_def version_defs)
  from honest_negotiation_accepted [OF this] show ?thesis by blast
qed

text \<open>
  Textual cursors are canonical: every 64-bit revision prints to a token that parses back
  to it, and a token that parses is the one its revision prints, so no two tokens name the
  same revision.
\<close>

theorem cursor_token_canonical:
  "cursor_token_parse (cursor_token_serialize w) = Inr w
   \<and> (cursor_token_parse s = Inr w \<longrightarrow> cursor_token_serialize w = s)"
proof
  have lt: "unat w < 2 ^ 64" using unsigned_less [of w] by simp
  then have "unat w < 10 ^ Suc 19" by (rule less_trans) simp
  from length_show_nat [OF this] have len: "length (show_nat (unat w)) \<le> 20" by simp
  have zero: "1 < length (show_nat (unat w)) \<longrightarrow> hd (show_nat (unat w)) \<noteq> CHR ''0''"
    using show_nat_no_leading_zero [of "unat w"] by (cases "unat w < 10") (auto simp: show_nat.simps)
  show "cursor_token_parse (cursor_token_serialize w) = Inr w"
    using show_nat_digits [of "unat w"] lt len zero
    by (simp add: cursor_token_parse_Inr cursor_token_serialize_def)
  show "cursor_token_parse s = Inr w \<longrightarrow> cursor_token_serialize w = s"
  proof
    assume "cursor_token_parse s = Inr w"
    then have s: "s \<noteq> []" "1 < length s \<longrightarrow> hd s \<noteq> CHR ''0''" "list_all is_ascii_digit s"
      "decimal_value s < 2 ^ 64" "w = word_of_nat (decimal_value s)"
      by (auto simp: cursor_token_parse_Inr)
    have "unat w = decimal_value s" using s(4,5) by (simp add: unat_of_nat)
    moreover have "length s = 1 \<or> hd s \<noteq> CHR ''0''" using s(1,2) by (cases s) auto
    ultimately show "cursor_token_serialize w = s"
      using show_nat_decimal_value [OF s(3,1)] by (simp add: cursor_token_serialize_def)
  qed
qed

theorem cursor_token_canonical_witness:
  "cursor_token_parse ''42'' = Inr 42 \<and> cursor_token_serialize 42 = ''42''"
proof -
  have "cursor_token_parse ''42'' = Inr 42"
    by (simp add: cursor_token_parse_Inr is_ascii_digit_def decimal_value_def)
  with cursor_token_canonical [of 42 "''42''"] show ?thesis by blast
qed

text \<open>
  C22: a reconnect never replays a mutation. After any sequence of calls the retry plan splits
  the pending requests: those to retry are exactly the pending reads, those abandoned exactly
  the pending mutations, both in the order of their identifiers, nothing stays pending, and an
  identifier to retry was last begun as a read.
\<close>

theorem reconnect_never_replays_mutations:
  fixes ops
  defines "m \<equiv> run_calls request_step ops []"
  shows "set (pl_read_only (fst (reconnect_plan m))) = {i. om_get m i = Some ReadOnly}
       \<and> set (pl_abandoned_mutations (fst (reconnect_plan m))) = {i. om_get m i = Some Mutation}
       \<and> sorted_wrt (<) (pl_read_only (fst (reconnect_plan m)))
       \<and> sorted_wrt (<) (pl_abandoned_mutations (fst (reconnect_plan m)))
       \<and> snd (reconnect_plan m) = []
       \<and> (\<forall>i \<in> set (pl_read_only (fst (reconnect_plan m))).
            last_begin (accepted request_step ops []) i None = Some ReadOnly)"
proof -
  have srt: "om_sorted m" unfolding m_def by (rule requests.run_inv) simp
  note part = reconnect_plan_partition [OF srt]
  have "\<forall>i \<in> set (pl_read_only (fst (reconnect_plan m))).
      last_begin (accepted request_step ops []) i None = Some ReadOnly"
    using pending_last_begun [of "[]" _ None ops ReadOnly] part(1) by (simp add: m_def)
  with part show ?thesis by (simp add: reconnect_plan_def)
qed

definition sample_requests :: "request_op list" where
  "sample_requests = (let lim = limits_default\<lparr>cl_max_in_flight := 4\<rparr> in
     [Begin ''b'' ReadOnly lim, Begin ''a'' Mutation lim, Begin ''a'' ReadOnly lim])"

theorem reconnect_never_replays_mutations_witness:
  "pl_read_only (fst (reconnect_plan (run_calls request_step sample_requests []))) = [''b'']
   \<and> last_begin (accepted request_step sample_requests []) ''b'' None = Some ReadOnly"
proof -
  let ?lim = "limits_default\<lparr>cl_max_in_flight := 4\<rparr>"
  have lim: "limits_validate ?lim = Inr ?lim" "unat (cl_max_in_flight ?lim) = 4"
    by (simp_all add: limits_validate_def limits_default_def limit_defs)
  have "run_calls request_step sample_requests [] = [(''a'', Mutation), (''b'', ReadOnly)]"
    by (simp add: sample_requests_def Let_def request_begin_def lim less_char_def)
  then have ro: "pl_read_only (fst (reconnect_plan (run_calls request_step sample_requests []))) = [''b'']"
    by (simp add: reconnect_plan_def)
  then have "''b'' \<in> set (pl_read_only (fst (reconnect_plan (run_calls request_step sample_requests []))))"
    by simp
  with ro reconnect_never_replays_mutations [of sample_requests] show ?thesis by blast
qed

text \<open>
  A request that was begun completes to its class and leaves the ledger as before, and
  beginning it keeps the number of pending requests within the negotiated limit.
\<close>

theorem begin_complete_restores:
  assumes "om_sorted m" and "request_begin i cls limits m = (Inr (), m')"
  shows "request_complete i m' = (Inr cls, m) \<and> length m' \<le> unat (cl_max_in_flight limits)"
proof -
  have m': "m' = om_insert i cls m" "om_get m i = None" "length m < unat (cl_max_in_flight limits)"
    using assms(2) by (auto simp: request_begin_def split: sum.splits if_splits)
  then show ?thesis
    using om.take_out_put [OF assms(1) m'(2), of cls] om.length_put [OF assms(1) m'(2), of cls]
      om_get_insert [OF assms(1), of i cls i]
    by (simp add: request_complete_def)
qed

theorem begin_complete_restores_witness:
  "request_complete ''a'' [(''a'', Mutation)] = (Inr Mutation, [])"
proof -
  have "om_sorted ([] :: request_ledger)"
    "request_begin ''a'' Mutation limits_default [] = (Inr (), [(''a'', Mutation)])"
    by (simp_all add: request_begin_def limits_default_valid) (simp add: limits_default_def)
  from begin_complete_restores [OF this] show ?thesis by blast
qed

text \<open>
  C21: whatever is established, disconnected and advanced from the initial connection, the
  cursor never goes back, and a negotiated session is authenticated against the descriptor's
  credentials, has a supported version, valid limits and an ordered revision window that the
  cursor is in or immediately before.
\<close>

theorem connection_cursor_monotone:
  assumes "conn_step\<^sup>*\<^sup>* connection_default s" and "conn_step\<^sup>*\<^sup>* s s'"
  shows "cursor_rank s \<le> cursor_rank s'
       \<and> (\<forall>ch n c. s' = Negotiated ch n c \<longrightarrow>
            authenticate ch (ng_runner n) = Inr () \<and> ng_version n \<in> supported_versions
            \<and> limits_validate (ng_limits n) = Inr (ng_limits n)
            \<and> ng_oldest_revision n \<le> ng_latest_revision n
            \<and> (\<forall>r. rc_revision c = Some r \<longrightarrow>
                 unat (ng_oldest_revision n) \<le> Suc (unat r) \<and> r \<le> ng_latest_revision n))"
proof -
  have "session_ok s'" using assms by (intro reachable_session_ok) (rule rtranclp_trans)
  with reachable_rank [OF assms(2)] show ?thesis by (auto simp: session_ok_def)
qed

definition sample_channel :: adopted_channel where
  "sample_channel = \<lparr>ch_descriptor = 3,
     ch_credentials = \<lparr>pc_uid = 1000, pc_pid = 42, pc_service_generation = 7\<rparr>\<rparr>"

definition sample_session :: negotiated where
  "sample_session = \<lparr>ng_version = V1_3, ng_limits = limits_default, ng_runner = sample_runner,
     ng_oldest_revision = 1, ng_latest_revision = 4\<rparr>"

theorem connection_cursor_monotone_witness:
  "cursor_rank connection_default
     \<le> cursor_rank (Negotiated sample_channel sample_session \<lparr>rc_revision = Some 2\<rparr>)
   \<and> authenticate sample_channel (ng_runner sample_session) = Inr ()"
proof -
  have e: "establish connection_default sample_channel sample_session supported_versions limits_default
      = Inr (Negotiated sample_channel sample_session \<lparr>rc_revision = None\<rparr>)"
    using sample_runner_valid limits_default_valid
    by (simp add: establish_def authenticate_def negotiated_validate_def resume_after_def
        sample_channel_def sample_session_def connection_default_def cursor_default_def
        supported_versions_def) (simp add: sample_runner_def)
  have a: "advance_cursor 2 (Negotiated sample_channel sample_session \<lparr>rc_revision = None\<rparr>)
      = (Inr (), Negotiated sample_channel sample_session \<lparr>rc_revision = Some 2\<rparr>)"
    by (simp add: cursor_advance_def sample_session_def)
  have "conn_step\<^sup>*\<^sup>* connection_default (Negotiated sample_channel sample_session \<lparr>rc_revision = Some 2\<rparr>)"
    using conn_step.established [OF e] conn_step.advanced [OF a]
    by (meson rtranclp.rtrancl_into_rtrancl rtranclp.rtrancl_refl)
  from connection_cursor_monotone [OF rtranclp.rtrancl_refl this] show ?thesis by blast
qed

text \<open>
  C29: framing is lossless and exact. If the reader inverts the writer on a message, the frame
  of that message decodes to it under the same limit, the frame is four bytes longer than the
  body, and no frame with bytes missing or appended is accepted.
\<close>

theorem frame_round_trip:
  assumes "encode_frame to_vec v max_frame = Inr frame"
    and "\<And>body. to_vec v = Some body \<Longrightarrow> from_slice body = Some v"
  shows "decode_frame from_slice frame max_frame = Inr v
       \<and> length frame \<le> max_frame + 4 \<and> length frame \<le> MAX_FRAME_BYTES + 4
       \<and> (\<forall>k < length frame. decode_frame from_slice (take k frame) max_frame = Inl TruncatedFrame)
       \<and> (\<forall>extra. extra \<noteq> [] \<longrightarrow> decode_frame from_slice (frame @ extra) max_frame = Inl TruncatedFrame)"
proof -
  from assms(1) obtain body where body: "to_vec v = Some body" "body \<noteq> []" "length body \<le> max_frame"
    "length body \<le> MAX_FRAME_BYTES" "length body \<le> 2 ^ 32 - 1"
    and frame: "frame = u32_to_be_bytes (word_of_nat (length body)) @ body"
    by (auto simp: encode_frame_def result_simps not_less split: if_splits)
  have len: "unat (word_of_nat (length body) :: u32) = length body"
    using body(5) by (simp add: unat_of_nat)
  have head: "unat (from_be_bytes (take 4 (take k frame @ extra))) = length body"
    if "4 \<le> k" for k extra
    using that by (simp add: frame from_be_bytes_u32 len min_def)
  have short: "decode_frame from_slice (take k frame) max_frame = Inl TruncatedFrame"
    if "k < length frame" for k
    using that head [of k "[]"] body frame by (cases "k < 4") (auto simp: decode_frame_def Let_def)
  have long: "decode_frame from_slice (frame @ extra) max_frame = Inl TruncatedFrame"
    if "extra \<noteq> []" for extra
    using that head [of "length frame" extra] body frame by (simp add: decode_frame_def Let_def)
  have "decode_frame from_slice frame max_frame = Inr v"
    using head [of "length frame" "[]"] body frame assms(2) by (simp add: decode_frame_def Let_def)
  with short long body frame show ?thesis by auto
qed

theorem frame_round_trip_witness:
  "encode_frame (\<lambda>b. Some [if b then 1 else 0]) True 8 = Inr [0, 0, 0, 1, 1]
   \<and> decode_frame (\<lambda>bytes. Some (bytes = [1])) [0, 0, 0, 1, 1] 8 = Inr True"
proof -
  have enc: "encode_frame (\<lambda>b. Some [if b then 1 else 0]) True 8 = Inr [0, 0, 0, 1, 1]"
  proof -
    have "u32_to_be_bytes 1 = [0, 0, 0, 1]" by code_simp
    then show ?thesis by (simp add: encode_frame_def MAX_FRAME_BYTES_def)
  qed
  have "decode_frame (\<lambda>bytes. Some (bytes = [1])) [0, 0, 0, 1, 1] 8 = Inr True"
    by (rule frame_round_trip [OF enc, THEN conjunct1]) simp
  with enc show ?thesis by blast
qed

text \<open>
  The newest version has no validation issues. Two up-to-date sides select 1.5, and under
  1.4 and 1.5 every validation issue is refused as an unsupported version, while 1.3 accepts
  a measurement issue that names its measurement.
\<close>

theorem newest_version_refuses_issues:
  "select_version supported_versions supported_versions = Inr V1_5
   \<and> validate_issue V1_5 issue = Inl UnsupportedVersion
   \<and> validate_issue V1_4 issue = Inl UnsupportedVersion
   \<and> validate_issue V1_3 \<lparr>vi_category = MeasurementIssue, vi_reason = Some Unsupported,
        vi_measurement_id = Some ''measure.cpu''\<rparr> = Inr ()"
proof -
  have "select_version supported_versions supported_versions = Inr V1_5"
    "validate_issue V1_3 \<lparr>vi_category = MeasurementIssue, vi_reason = Some Unsupported,
        vi_measurement_id = Some ''measure.cpu''\<rparr> = Inr ()"
    by (simp_all add: select_version_def supported_versions_def version_defs validate_issue_def
        safe_id_def MAX_ID_BYTES_def is_ascii_def is_ascii_control_def)
  then show ?thesis by (simp add: validate_issue_def version_defs)
qed

end
