(* ===== verification/Measurement_Selection.thy ===== *)
theory Measurement_Selection
  imports Benchmark_Selection
begin

text \<open>
  Model of the measurement half of \<open>src/selection.rs\<close>: a flat picker over a published list of
  measurements with a search query and tri-state group rows. \<open>to_lowercase\<close> of the standard
  library folds case over all of Unicode; it is the argument \<open>lower\<close>, and the results hold
  for every such function.
\<close>

section \<open>State and operations\<close>

record measurement =
  me_id :: string
  me_group :: string
  me_name :: string
  me_unit :: string

definition measurement_new :: "string \<Rightarrow> string \<Rightarrow> string \<Rightarrow> string \<Rightarrow> (selection_error, measurement) result" where
  "measurement_new i g nm u =
     and_then (validate_field i ''id'' MAX_ID_BYTES) (\<lambda>_.
     and_then (validate_field g ''group'' MAX_TEXT_BYTES) (\<lambda>_.
     and_then (validate_field nm ''name'' MAX_TEXT_BYTES) (\<lambda>_.
     and_then (validate_field u ''unit'' MAX_TEXT_BYTES) (\<lambda>_.
       Inr \<lparr>me_id = i, me_group = g, me_name = nm, me_unit = u\<rparr>))))"

datatype group_selection = GroupNone | GroupPartial | GroupAll

record group_summary =
  gs_group :: string
  gs_visible_count :: nat
  gs_selected_count :: nat
  gs_state :: group_selection

record measurement_selection =
  ms_measurements :: "measurement list"
  ms_selected :: "string set"
  ms_query :: string

definition measurement_selection_new :: "measurement list \<Rightarrow> (selection_error, measurement_selection) result" where
  "measurement_selection_new ms =
     (if MAX_MEASUREMENTS < length ms then Inl TooManyMeasurements
      else if has_duplicate (map me_id ms) then Inl DuplicateId
      else Inr \<lparr>ms_measurements = ms, ms_selected = {}, ms_query = ''''\<rparr>)"

definition ms_set_query :: "string \<Rightarrow> (measurement_selection, selection_error, unit) call" where
  "ms_set_query query s =
     (if MAX_QUERY_BYTES < char_count query then (Inl (FieldTooLong ''query''), s)
      else if has_control query then (Inl (NonPublicText ''query''), s)
      else (Inr (), s\<lparr>ms_query := query\<rparr>))"

definition matches_query :: "measurement \<Rightarrow> string \<Rightarrow> bool" where
  "matches_query m query \<longleftrightarrow> query = []
     \<or> str_contains (to_ascii_lowercase (me_id m)) query
     \<or> str_contains (to_ascii_lowercase (me_group m)) query
     \<or> str_contains (to_ascii_lowercase (me_name m)) query
     \<or> str_contains (to_ascii_lowercase (me_unit m)) query"

definition visible_measurements :: "(string \<Rightarrow> string) \<Rightarrow> measurement_selection \<Rightarrow> measurement list" where
  "visible_measurements lower s =
     (let query = lower (ms_query s) in filter (\<lambda>m. matches_query m query) (ms_measurements s))"

definition ms_is_selected :: "measurement_selection \<Rightarrow> string \<Rightarrow> bool" where
  "ms_is_selected s i \<longleftrightarrow> i \<in> ms_selected s"

definition ms_set_measure_selected :: "string \<Rightarrow> bool \<Rightarrow> (measurement_selection, selection_error, unit) call" where
  "ms_set_measure_selected i selected s =
     (if \<not> list_ex (\<lambda>m. me_id m = i) (ms_measurements s) then (Inl UnknownMeasure, s)
      else (Inr (), s\<lparr>ms_selected := insert_or_remove selected [i] (ms_selected s)\<rparr>))"

definition ms_set_group_selected :: "string \<Rightarrow> bool \<Rightarrow> (measurement_selection, selection_error, unit) call" where
  "ms_set_group_selected g selected s =
     (if \<not> list_ex (\<lambda>m. me_group m = g) (ms_measurements s) then (Inl UnknownGroup, s)
      else (Inr (), s\<lparr>ms_selected := insert_or_remove selected
              (map me_id (filter (\<lambda>m. me_group m = g) (ms_measurements s))) (ms_selected s)\<rparr>))"

definition set_visible_group_selected :: "(string \<Rightarrow> string) \<Rightarrow> string \<Rightarrow> bool \<Rightarrow>
    (measurement_selection, selection_error, unit) call" where
  "set_visible_group_selected lower g selected s =
     (if \<not> list_ex (\<lambda>m. me_group m = g) (ms_measurements s) then (Inl UnknownGroup, s)
      else let query = lower (ms_query s) in
           (Inr (), s\<lparr>ms_selected := insert_or_remove selected
              (map me_id (filter (\<lambda>m. me_group m = g \<and> matches_query m query) (ms_measurements s)))
              (ms_selected s)\<rparr>))"

definition summary_state :: "nat \<Rightarrow> nat \<Rightarrow> group_selection" where
  "summary_state selected visible =
     (if selected = 0 then GroupNone else if selected = visible then GroupAll else GroupPartial)"

text \<open>One round of the loop: the first summary of the group is updated, or one is appended.\<close>

definition bump :: "bool \<Rightarrow> group_summary \<Rightarrow> group_summary" where
  "bump sel r =
     (let v = gs_visible_count r + 1; n = gs_selected_count r + of_bool sel in
      r\<lparr>gs_visible_count := v, gs_selected_count := n, gs_state := summary_state n v\<rparr>)"

fun count_measure :: "bool \<Rightarrow> string \<Rightarrow> group_summary list \<Rightarrow> group_summary list" where
  "count_measure sel g [] =
     [\<lparr>gs_group = g, gs_visible_count = 1, gs_selected_count = of_bool sel,
       gs_state = summary_state (of_bool sel) 1\<rparr>]"
| "count_measure sel g (r # rs) =
     (if gs_group r = g then bump sel r # rs else r # count_measure sel g rs)"

definition visible_groups :: "(string \<Rightarrow> string) \<Rightarrow> measurement_selection \<Rightarrow> group_summary list" where
  "visible_groups lower s =
     foldl (\<lambda>rs m. count_measure (ms_is_selected s (me_id m)) (me_group m) rs) []
       (visible_measurements lower s)"

definition selected_ids :: "measurement_selection \<Rightarrow> string list" where
  "selected_ids s = map me_id (filter (\<lambda>m. me_id m \<in> ms_selected s) (ms_measurements s))"

section \<open>Lemmas\<close>

text \<open>What the summaries say about the measures counted so far.\<close>

definition in_group :: "string \<Rightarrow> measurement list \<Rightarrow> measurement list" where
  "in_group g ms = filter (\<lambda>m. me_group m = g) ms"

definition summary_of :: "(string \<Rightarrow> bool) \<Rightarrow> measurement list \<Rightarrow> group_summary \<Rightarrow> bool" where
  "summary_of sel ms r \<longleftrightarrow>
     gs_visible_count r = length (in_group (gs_group r) ms)
     \<and> gs_selected_count r = length (filter (\<lambda>m. sel (me_id m)) (in_group (gs_group r) ms))
     \<and> gs_state r = summary_state (gs_selected_count r) (gs_visible_count r)"

definition summaries_ok :: "(string \<Rightarrow> bool) \<Rightarrow> measurement list \<Rightarrow> group_summary list \<Rightarrow> bool" where
  "summaries_ok sel ms rs \<longleftrightarrow> distinct (map gs_group rs)
     \<and> set (map gs_group rs) = set (map me_group ms) \<and> (\<forall>r \<in> set rs. summary_of sel ms r)"

lemma bump_group [simp]: "gs_group (bump b r) = gs_group r"
  by (simp add: bump_def Let_def)

lemma count_measure_known:
  "distinct (map gs_group rs) \<Longrightarrow> g \<in> set (map gs_group rs) \<Longrightarrow>
   count_measure b g rs = map (\<lambda>r. if gs_group r = g then bump b r else r) rs"
proof (induction rs)
  case (Cons r rs)
  show ?case
  proof (cases "gs_group r = g")
    case True
    then have "map (\<lambda>r. if gs_group r = g then bump b r else r) rs = rs"
      using Cons.prems(1) by (intro map_idI) (auto simp: image_iff)
    with True show ?thesis by simp
  qed (use Cons in simp)
qed simp

lemma count_measure_new:
  "g \<notin> set (map gs_group rs) \<Longrightarrow> count_measure b g rs = rs @ count_measure b g []"
  by (induction rs) auto

lemma in_group_snoc: "in_group g (ms @ [m]) = in_group g ms @ (if me_group m = g then [m] else [])"
  by (simp add: in_group_def)

lemma in_group_empty: "g \<notin> set (map me_group ms) \<Longrightarrow> in_group g ms = []"
  by (auto simp: in_group_def filter_empty_conv)

lemma summary_of_other:
  "summary_of sel ms r \<Longrightarrow> gs_group r \<noteq> me_group m \<Longrightarrow> summary_of sel (ms @ [m]) r"
  by (simp add: summary_of_def in_group_snoc)

lemma summary_of_bump:
  "summary_of sel ms r \<Longrightarrow> gs_group r = me_group m \<Longrightarrow> summary_of sel (ms @ [m]) (bump (sel (me_id m)) r)"
  by (simp add: summary_of_def in_group_snoc bump_def Let_def)

lemma summaries_step:
  assumes "summaries_ok sel ms rs"
  shows "summaries_ok sel (ms @ [m]) (count_measure (sel (me_id m)) (me_group m) rs)"
proof (cases "me_group m \<in> set (map gs_group rs)")
  case True
  let ?rs = "map (\<lambda>r. if gs_group r = me_group m then bump (sel (me_id m)) r else r) rs"
  have rs: "count_measure (sel (me_id m)) (me_group m) rs = ?rs"
    using assms True by (intro count_measure_known) (simp_all add: summaries_ok_def)
  have "map gs_group ?rs = map gs_group rs" by simp
  then have "distinct (map gs_group ?rs)" "set (map gs_group ?rs) = set (map me_group (ms @ [m]))"
    using assms True by (auto simp only: summaries_ok_def) auto
  moreover have "\<forall>r \<in> set ?rs. summary_of sel (ms @ [m]) r"
    using assms summary_of_bump [of sel ms _ m] summary_of_other [of sel ms _ m]
    by (auto simp: summaries_ok_def)
  ultimately show ?thesis unfolding rs summaries_ok_def by blast
next
  case False
  then have "in_group (me_group m) ms = []"
    using assms by (intro in_group_empty) (simp add: summaries_ok_def)
  then have "summary_of sel (ms @ [m]) r" if "r \<in> set (count_measure (sel (me_id m)) (me_group m) [])" for r
    using that by (auto simp: summary_of_def in_group_snoc)
  moreover have "summary_of sel (ms @ [m]) r" if "r \<in> set rs" for r
  proof (rule summary_of_other)
    show "summary_of sel ms r" using assms that by (simp add: summaries_ok_def)
    have "gs_group r \<in> set (map gs_group rs)" using that by simp
    then show "gs_group r \<noteq> me_group m" using False by metis
  qed
  ultimately show ?thesis
    using assms False unfolding summaries_ok_def count_measure_new [OF False] by auto
qed

lemma summaries_fold:
  "summaries_ok sel ms (foldl (\<lambda>rs m. count_measure (sel (me_id m)) (me_group m) rs) [] ms)"
proof (induction ms rule: rev_induct)
  case Nil
  then show ?case by (simp add: summaries_ok_def)
next
  case (snoc m ms)
  from summaries_step [OF this, of m] show ?case by simp
qed

section \<open>Properties\<close>

text \<open>
  The group rows of the picker are exact. There is one row per group that has a visible
  measure, its counts are the number of visible and of visible selected measures of the group,
  and its state is full, partial or empty accordingly.
\<close>

theorem visible_groups_exact:
  "distinct (map gs_group (visible_groups lower s))
   \<and> set (map gs_group (visible_groups lower s)) = set (map me_group (visible_measurements lower s))
   \<and> list_all (\<lambda>r.
        let visible = filter (\<lambda>m. me_group m = gs_group r) (visible_measurements lower s);
            chosen = filter (\<lambda>m. ms_is_selected s (me_id m)) visible
        in gs_visible_count r = length visible \<and> gs_selected_count r = length chosen
           \<and> gs_state r = (if chosen = [] then GroupNone
                           else if length chosen = length visible then GroupAll else GroupPartial))
      (visible_groups lower s)"
  using summaries_fold [of "ms_is_selected s" "visible_measurements lower s"]
  by (auto simp: summaries_ok_def visible_groups_def summary_of_def in_group_def list_all_iff
      summary_state_def Let_def)

text \<open>
  Toggling the visible part of a group touches nothing else: a measure of another group,
  or one hidden by the search, keeps its selection, every visible one of the group takes the
  new value, and the identifiers reported as selected stay in catalog order without repeats.
\<close>

theorem visible_toggle_exact:
  assumes "distinct (map me_id (ms_measurements s))"
    and "set_visible_group_selected lower g b s = (Inr (), s')"
  shows "(\<forall>m \<in> set (ms_measurements s).
            ms_is_selected s' (me_id m) =
              (if m \<in> set (visible_measurements lower s) \<and> me_group m = g then b
               else ms_is_selected s (me_id m)))
       \<and> ms_measurements s' = ms_measurements s \<and> ms_query s' = ms_query s
       \<and> selected_ids s' = filter (ms_is_selected s') (map me_id (ms_measurements s))
       \<and> distinct (selected_ids s')"
proof -
  let ?ids = "map me_id (filter (\<lambda>m. me_group m = g \<and> matches_query m (lower (ms_query s)))
      (ms_measurements s))"
  have s': "s' = s\<lparr>ms_selected := insert_or_remove b ?ids (ms_selected s)\<rparr>"
    using assms(2) by (auto simp: set_visible_group_selected_def Let_def split: if_splits)
  have inj: "me_id m = me_id n \<Longrightarrow> m = n"
    if "m \<in> set (ms_measurements s)" "n \<in> set (ms_measurements s)" for m n
    using assms(1) that by (auto simp: distinct_map dest: inj_onD)
  have in_ids: "me_id m \<in> set ?ids \<longleftrightarrow> m \<in> set (visible_measurements lower s) \<and> me_group m = g"
    if "m \<in> set (ms_measurements s)" for m
    using that inj by (auto simp: visible_measurements_def Let_def)
  have "ms_is_selected s' (me_id m) =
      (if m \<in> set (visible_measurements lower s) \<and> me_group m = g then b
       else ms_is_selected s (me_id m))" if "m \<in> set (ms_measurements s)" for m
    using in_ids [OF that] by (auto simp: ms_is_selected_def s' insert_or_remove_def simp del: set_map)
  moreover have "selected_ids s' = filter (ms_is_selected s') (map me_id (ms_measurements s))"
    by (simp add: selected_ids_def ms_is_selected_def filter_map comp_def s')
  moreover have "distinct (filter (ms_is_selected s') (map me_id (ms_measurements s)))"
    using assms(1) by simp
  ultimately show ?thesis by (auto simp: s')
qed

definition sample_measurements :: measurement_selection where
  "sample_measurements = \<lparr>ms_measurements =
     [\<lparr>me_id = ''cpu'', me_group = ''host'', me_name = ''CPU'', me_unit = ''ms''\<rparr>,
      \<lparr>me_id = ''mem'', me_group = ''host'', me_name = ''Memory'', me_unit = ''MB''\<rparr>],
     ms_selected = {}, ms_query = ''cpu''\<rparr>"

theorem visible_toggle_exact_witness:
  "distinct (selected_ids (snd (set_visible_group_selected (\<lambda>q. q) ''host'' True sample_measurements)))"
proof -
  have d: "distinct (map me_id (ms_measurements sample_measurements))"
    by (simp add: sample_measurements_def)
  have "set_visible_group_selected (\<lambda>q. q) ''host'' True sample_measurements
      = (Inr (), snd (set_visible_group_selected (\<lambda>q. q) ''host'' True sample_measurements))"
    by (simp add: set_visible_group_selected_def sample_measurements_def Let_def)
  from visible_toggle_exact [OF d this] show ?thesis by blast
qed

end
