(* ===== verification/Release_Policy.thy ===== *)
theory Release_Policy
  imports Prelude
begin

text \<open>
  Model of the release policy: the compatibility evaluation of a probe (\<open>src/compatibility.rs\<close>), the
  compile-time release classification (\<open>src/release_channel.rs\<close>) and the channel selection
  (\<open>src/channel_selection.rs\<close>). The embedded status document, the environment and the state file are
  arguments, as the JSON library is.
\<close>

section \<open>Compatibility\<close>

definition COORDINATOR_COMMIT :: string where "COORDINATOR_COMMIT = ''510817b93feb80dde13e5a6c61d657954fae2346''"
definition QUALITY_COMMIT :: string where "QUALITY_COMMIT = ''8a9f056b7fc7926b9465a0f7a09225d4da1c572a''"
definition COORDINATOR_VERSION :: string where "COORDINATOR_VERSION = ''v0.3.5''"
definition QUALITY_VERSION :: string where "QUALITY_VERSION = ''v0.23.0''"

datatype operating_system = OsLinux | OsMacos | OsWindows | OsOther
datatype distribution = Ubuntu2404 | Debian12 | DistributionOther | DistributionNotApplicable
datatype architecture = ArchX86_64 | ArchAarch64 | ArchOther
datatype color_level = ColorNone | ColorAnsi16 | ColorAnsi256 | ColorTruecolor
datatype terminal_channel = ChannelTty | ChannelPipe
datatype multiplexer = MultiplexerNone | MultiplexerTmux | MultiplexerScreen

record platform_probe =
  pl_os :: operating_system
  pl_distribution :: distribution
  pl_architecture :: architecture

record asb_probe =
  apr_version :: "string option"
  apr_protocol_version :: "u64 option"

record dependency_probe =
  dep_coordinator_version :: string
  dep_coordinator_commit :: string
  dep_quality_version :: string
  dep_quality_commit :: string

record terminal_probe =
  tp_columns :: u16
  tp_rows :: u16
  tp_color :: color_level
  tp_unicode :: bool
  tp_resize_events :: bool
  tp_channel :: terminal_channel
  tp_ssh :: bool
  tp_multiplexer :: multiplexer

record runtime_probe =
  rt_config_writable :: bool
  rt_cache_writable :: bool
  rt_atomic_rename :: bool
  rt_executable_files :: bool
  rt_git_available :: bool
  rt_ssh_keygen_available :: bool

record compatibility_probe =
  pb_schema_version :: u64
  pb_platform :: platform_probe
  pb_asb :: asb_probe
  pb_dependencies :: dependency_probe
  pb_terminal :: terminal_probe
  pb_runtime :: runtime_probe

text \<open>The report repeats the terminal part of the probe.\<close>

record compatibility_report =
  rep_schema_version :: u64
  rep_classification :: string
  rep_bundle :: "string option"
  rep_platform :: platform_probe
  rep_asb_version :: "string option"
  rep_protocol_version :: "u64 option"
  rep_terminal :: terminal_probe
  rep_reasons :: "string list"

text \<open>\<open>split_once\<close> at the first dash: the part before it and, if there is a dash, the part after it.\<close>

fun split_dash :: "string \<Rightarrow> string \<times> string option" where
  "split_dash [] = ([], None)"
| "split_dash (c # s) = (if c = CHR ''-'' then ([], Some s)
     else case split_dash s of (a, b) \<Rightarrow> (c # a, b))"

definition digits :: "string \<Rightarrow> bool" where
  "digits part \<longleftrightarrow> part \<noteq> [] \<and> list_all is_ascii_digit part"

text \<open>Exactly three components between dots, all decimal.\<close>

definition three_numbers :: "string \<Rightarrow> bool" where
  "three_numbers s \<longleftrightarrow> (case split_on (CHR ''.'') s of [a, b, c] \<Rightarrow> digits a \<and> digits b \<and> digits c | _ \<Rightarrow> False)"

definition is_safe_version :: "string \<Rightarrow> bool" where
  "is_safe_version v \<longleftrightarrow> v \<noteq> [] \<and> length v \<le> 64 \<and> is_ascii v
     \<and> (case split_dash v of (core, suffix) \<Rightarrow> three_numbers core \<and> suffix \<noteq> Some [])
     \<and> list_all (\<lambda>b. is_ascii_alphanumeric b \<or> b \<in> {CHR ''.'', CHR ''-''}) v"

definition parse_probe :: "(string \<Rightarrow> compatibility_probe option) \<Rightarrow> string \<Rightarrow> (string, compatibility_probe) result" where
  "parse_probe from_str input =
     (if 65536 < length input then Inl ''compatibility probe exceeds size limit''
      else and_then (ok_or (from_str input) ''invalid compatibility probe'') (\<lambda>p.
        if pb_schema_version p \<noteq> 1 then Inl ''unsupported compatibility probe version''
        else if (case apr_version (pb_asb p) of None \<Rightarrow> False | Some v \<Rightarrow> \<not> is_safe_version v) then Inl ''invalid ASB version''
        else Inr p))"

definition platform_reasons :: "platform_probe \<Rightarrow> string list" where
  "platform_reasons p =
     (if pl_os p \<noteq> OsLinux then [''unsupported_os''] else [])
     @ (if pl_distribution p \<notin> {Ubuntu2404, Debian12} then [''unsupported_distribution''] else [])
     @ (if pl_os p = OsLinux \<and> pl_distribution p = DistributionNotApplicable then [''inconsistent_platform''] else [])
     @ (if pl_os p \<noteq> OsLinux \<and> pl_distribution p \<noteq> DistributionNotApplicable then [''inconsistent_platform''] else [])
     @ (if pl_architecture p = ArchOther then [''unsupported_architecture''] else [])"

definition asb_reasons :: "asb_probe \<Rightarrow> string list" where
  "asb_reasons a =
     (case apr_version a of None \<Rightarrow> [''asb_version_unavailable'']
      | Some v \<Rightarrow> if v = ''0.1.0'' then [] else [''unsupported_asb_version''])
     @ (case apr_protocol_version a of None \<Rightarrow> [''protocol_unavailable'']
        | Some n \<Rightarrow> if n = 1 then [] else [''unsupported_protocol''])"

definition dependency_reasons :: "dependency_probe \<Rightarrow> string list" where
  "dependency_reasons d = (if dep_coordinator_version d \<noteq> COORDINATOR_VERSION
     \<or> dep_coordinator_commit d \<noteq> COORDINATOR_COMMIT \<or> dep_quality_version d \<noteq> QUALITY_VERSION
     \<or> dep_quality_commit d \<noteq> QUALITY_COMMIT then [''tooling_identity_mismatch''] else [])"

definition terminal_reasons :: "terminal_probe \<Rightarrow> string list" where
  "terminal_reasons t =
     (if tp_columns t < 80 \<or> tp_rows t < 24 then [''terminal_too_small''] else [])
     @ (if tp_channel t \<noteq> ChannelTty then [''non_interactive_channel''] else [])
     @ (if tp_color t = ColorNone \<or> \<not> tp_unicode t then [''terminal_features_unavailable''] else [])
     @ (if \<not> tp_resize_events t then [''resize_events_unavailable''] else [])"

definition runtime_reasons :: "runtime_probe \<Rightarrow> string list" where
  "runtime_reasons r =
     (if \<not> rt_config_writable r \<or> \<not> rt_cache_writable r then [''storage_unavailable''] else [])
     @ (if \<not> rt_atomic_rename r \<or> \<not> rt_executable_files r then [''filesystem_incompatible''] else [])
     @ (if \<not> rt_git_available r \<or> \<not> rt_ssh_keygen_available r then [''release_verifier_unavailable''] else [])"

definition bundle_name :: "architecture \<Rightarrow> string option" where
  "bundle_name a = (case a of ArchX86_64 \<Rightarrow> Some ''asb-tui-v1-linux-x86_64''
     | ArchAarch64 \<Rightarrow> Some ''asb-tui-v1-linux-aarch64'' | ArchOther \<Rightarrow> None)"

definition evaluate :: "compatibility_probe \<Rightarrow> compatibility_report" where
  "evaluate p =
     (let reasons = dedup (sort (platform_reasons (pb_platform p) @ asb_reasons (pb_asb p)
          @ dependency_reasons (pb_dependencies p) @ terminal_reasons (pb_terminal p) @ runtime_reasons (pb_runtime p)));
          bundle = (if reasons = [] then bundle_name (pl_architecture (pb_platform p)) else None)
      in \<lparr>rep_schema_version = 1, rep_classification = (if bundle \<noteq> None then ''compatible'' else ''unsupported''),
          rep_bundle = bundle, rep_platform = pb_platform p, rep_asb_version = apr_version (pb_asb p),
          rep_protocol_version = apr_protocol_version (pb_asb p), rep_terminal = pb_terminal p, rep_reasons = reasons\<rparr>)"

section \<open>Release classification\<close>

datatype release_classification = SourceOnlyUnverified | VerifiedExtension

definition classification_name :: "release_classification \<Rightarrow> string" where
  "classification_name c = (case c of SourceOnlyUnverified \<Rightarrow> ''source_only_unverified'' | VerifiedExtension \<Rightarrow> ''verified_extension'')"

record channel_status =
  ch_schema_version :: u64
  ch_trust_policy_version :: u64
  ch_classification :: string
  ch_installable :: bool
  ch_release_artifacts_published :: bool
  ch_promotion_requirements :: "(string \<times> bool) list"

definition REQUIRED_PROMOTION_REQUIREMENTS :: "string list" where
  "REQUIRED_PROMOTION_REQUIREMENTS = [''aarch64_release_qualification'', ''asb_external_protocol'',
     ''asb_lifecycle_router'', ''hosted_exact_release_ci'', ''interactive_ui'', ''signed_release_bundle'',
     ''trusted_exact_release_ci'', ''x86_64_release_qualification'']"

definition classification_for :: "channel_status \<Rightarrow> release_classification" where
  "classification_for s =
     (if ch_schema_version s = 1 \<and> ch_trust_policy_version s = 1 \<and> ch_classification s = ''verified_extension''
         \<and> ch_installable s \<and> ch_release_artifacts_published s
         \<and> set (map fst (ch_promotion_requirements s)) = set REQUIRED_PROMOTION_REQUIREMENTS
         \<and> list_all snd (ch_promotion_requirements s)
      then VerifiedExtension else SourceOnlyUnverified)"

definition compiled_classification :: "channel_status option \<Rightarrow> release_classification" where
  "compiled_classification parsed = (case parsed of None \<Rightarrow> SourceOnlyUnverified | Some s \<Rightarrow> classification_for s)"

definition channel_permits_install :: "channel_status option \<Rightarrow> bool" where
  "channel_permits_install parsed \<longleftrightarrow> compiled_classification parsed = VerifiedExtension"

record build_identity =
  bi_source_commit :: string
  bi_source_tree :: string

definition is_hex :: "string \<Rightarrow> nat \<Rightarrow> bool" where
  "is_hex s n \<longleftrightarrow> length s = n \<and> list_all (\<lambda>b. is_ascii_hexdigit b \<and> \<not> is_ascii_uppercase b) s"

definition build_identity_from :: "release_classification \<Rightarrow> string \<Rightarrow> string \<Rightarrow> string option \<Rightarrow> string option \<Rightarrow> build_identity option" where
  "build_identity_from classification release package_version commit tree =
     (if classification \<noteq> VerifiedExtension \<or> release \<noteq> ''v'' @ package_version then None
      else case commit of None \<Rightarrow> None | Some c \<Rightarrow> (case tree of None \<Rightarrow> None | Some t \<Rightarrow>
        if \<not> is_hex c 40 \<or> \<not> is_hex t 40 then None else Some \<lparr>bi_source_commit = c, bi_source_tree = t\<rparr>))"

section \<open>Channel selection\<close>

datatype release_channel = ChannelDev | ChannelStable | ChannelNightly | ChannelExperimental

definition channel_parse :: "string \<Rightarrow> release_channel option" where
  "channel_parse v = (if v = ''dev'' then Some ChannelDev else if v = ''stable'' then Some ChannelStable
     else if v = ''nightly'' then Some ChannelNightly else if v = ''experimental'' then Some ChannelExperimental else None)"

definition channel_name :: "release_channel \<Rightarrow> string" where
  "channel_name c = (case c of ChannelDev \<Rightarrow> ''dev'' | ChannelStable \<Rightarrow> ''stable'' | ChannelNightly \<Rightarrow> ''nightly''
     | ChannelExperimental \<Rightarrow> ''experimental'')"

definition channel_available :: "release_channel \<Rightarrow> bool" where
  "channel_available c \<longleftrightarrow> c = ChannelDev"

definition channel_warning :: "release_channel \<Rightarrow> string option" where
  "channel_warning c = (case c of ChannelDev \<Rightarrow> None | ChannelStable \<Rightarrow> Some ''stable_channel_unavailable''
     | ChannelNightly \<Rightarrow> Some ''nightly_channel_unavailable'' | ChannelExperimental \<Rightarrow> Some ''experimental_channel_unavailable'')"

record channel_selection =
  cl_requested :: release_channel
  cl_active :: release_channel
  cl_warning :: "string option"

definition selection_fresh :: channel_selection where
  "selection_fresh = \<lparr>cl_requested = ChannelDev, cl_active = ChannelDev, cl_warning = None\<rparr>"

definition for_request :: "release_channel \<Rightarrow> release_channel option \<Rightarrow> channel_selection" where
  "for_request active requested =
     (let r = (case requested of Some v \<Rightarrow> v | None \<Rightarrow> active)
      in \<lparr>cl_requested = r, cl_active = (if channel_available r then r else active), cl_warning = channel_warning r\<rparr>)"

definition CHANNEL_STATE_SCHEMA_VERSION :: u64 where "CHANNEL_STATE_SCHEMA_VERSION = 1"
definition MAX_CHANNEL_STATE_BYTES :: nat where "MAX_CHANNEL_STATE_BYTES = 4096"

record persisted_channel =
  pc_schema_version :: u64
  pc_channel :: string

text \<open>The state file: a regular file with its bytes, or nothing that can be read.\<close>

definition channel_persisted :: "('b list \<Rightarrow> persisted_channel option) \<Rightarrow> 'b list option \<Rightarrow> release_channel option" where
  "channel_persisted from_slice file = (case file of None \<Rightarrow> None | Some bytes \<Rightarrow>
     if MAX_CHANNEL_STATE_BYTES < length bytes then None
     else case from_slice bytes of None \<Rightarrow> None | Some s \<Rightarrow>
       if pc_schema_version s \<noteq> CHANNEL_STATE_SCHEMA_VERSION then None else channel_parse (pc_channel s))"

text \<open>The file after the choice was stored; \<open>None\<close> when it cannot be serialised, and the file is kept.\<close>

definition channel_persist :: "(persisted_channel \<Rightarrow> 'b list option) \<Rightarrow> release_channel \<Rightarrow> ('b list option, string, unit) call" where
  "channel_persist to_vec c file =
     (case to_vec \<lparr>pc_schema_version = CHANNEL_STATE_SCHEMA_VERSION, pc_channel = channel_name c\<rparr> of
        None \<Rightarrow> (Inl ''channel_state_unavailable'', file) | Some bytes \<Rightarrow> (Inr (), Some bytes))"

section \<open>Properties\<close>

lemma sort_is_Nil: "sort xs = [] \<longleftrightarrow> xs = []"
  by (metis set_empty set_sort)

text \<open>
  A probe is compatible exactly when every fact it reports is supported; then the report names the
  bundle of its architecture and no reason, and otherwise it lists its reasons in order, each once.
\<close>

theorem compatibility_exact:
  "(rep_bundle (evaluate p) \<noteq> None \<longleftrightarrow>
      pl_os (pb_platform p) = OsLinux \<and> pl_distribution (pb_platform p) \<in> {Ubuntu2404, Debian12}
      \<and> pl_architecture (pb_platform p) \<noteq> ArchOther \<and> apr_version (pb_asb p) = Some ''0.1.0''
      \<and> apr_protocol_version (pb_asb p) = Some 1 \<and> dependency_reasons (pb_dependencies p) = []
      \<and> terminal_reasons (pb_terminal p) = [] \<and> runtime_reasons (pb_runtime p) = [])
   \<and> (rep_bundle (evaluate p) = None \<longleftrightarrow> rep_reasons (evaluate p) \<noteq> [])
   \<and> (rep_classification (evaluate p) = ''compatible'' \<longleftrightarrow> rep_reasons (evaluate p) = [])
   \<and> sorted (rep_reasons (evaluate p)) \<and> distinct (rep_reasons (evaluate p))"
proof -
  have asb: "asb_reasons a = [] \<longleftrightarrow> apr_version a = Some ''0.1.0'' \<and> apr_protocol_version a = Some 1" for a
    by (auto simp: asb_reasons_def split: option.splits)
  have platform: "platform_reasons q = [] \<longleftrightarrow> pl_os q = OsLinux \<and> pl_distribution q \<in> {Ubuntu2404, Debian12}
      \<and> pl_architecture q \<noteq> ArchOther" for q
    by (auto simp: platform_reasons_def)
  have offered: "bundle_name a = None \<longleftrightarrow> a = ArchOther" for a by (cases a) (auto simp: bundle_name_def)
  have reasons: "rep_reasons (evaluate p) = [] \<longleftrightarrow> platform_reasons (pb_platform p) = [] \<and> asb_reasons (pb_asb p) = []
      \<and> dependency_reasons (pb_dependencies p) = [] \<and> terminal_reasons (pb_terminal p) = [] \<and> runtime_reasons (pb_runtime p) = []"
    by (simp add: evaluate_def Let_def sort_is_Nil)
  have bundled: "rep_bundle (evaluate p) = (if rep_reasons (evaluate p) = [] then bundle_name (pl_architecture (pb_platform p)) else None)"
    and classified: "rep_classification (evaluate p) = (if rep_bundle (evaluate p) \<noteq> None then ''compatible'' else ''unsupported'')"
    by (simp_all add: evaluate_def Let_def)
  have increasing: "sorted (rep_reasons (evaluate p))" "distinct (rep_reasons (evaluate p))"
    by (simp_all add: evaluate_def Let_def sorted_dedup [OF sorted_sort])
  show ?thesis using bundled classified increasing reasons asb platform offered by auto
qed

text \<open>
  The stored channel is read back, and a request for an unavailable channel never becomes active:
  it leaves the active channel and carries its warning.
\<close>

lemma channel_round_trip: "channel_parse (channel_name c) = Some c"
  by (cases c) (simp_all add: channel_parse_def channel_name_def)

theorem channel_choice_kept:
  assumes "channel_persist to_vec c file = (Inr (), file')" "\<And>s b. to_vec s = Some b \<Longrightarrow> from_slice b = Some s"
    and "\<And>s b. to_vec s = Some b \<Longrightarrow> length b \<le> MAX_CHANNEL_STATE_BYTES"
  shows "channel_persisted from_slice file' = Some c
    \<and> cl_active (for_request active (channel_persisted from_slice file')) = (if c = ChannelDev then ChannelDev else active)
    \<and> (cl_warning (for_request active (channel_persisted from_slice file')) = None \<longleftrightarrow> c = ChannelDev)"
proof -
  obtain b where b: "to_vec \<lparr>pc_schema_version = CHANNEL_STATE_SCHEMA_VERSION, pc_channel = channel_name c\<rparr> = Some b"
    "file' = Some b"
    using assms(1) by (auto simp: channel_persist_def split: option.splits)
  from assms(2,3) [OF b(1)] b(2) have "channel_persisted from_slice file' = Some c"
    by (simp add: channel_persisted_def channel_round_trip)
  then show ?thesis by (cases c) (simp_all add: for_request_def channel_available_def channel_warning_def)
qed

theorem channel_choice_kept_witness:
  "channel_persisted (\<lambda>b. Some \<lparr>pc_schema_version = 1, pc_channel = b\<rparr>) (Some ''stable'') = Some ChannelStable"
proof -
  let ?to = "\<lambda>s::persisted_channel. if pc_schema_version s = 1 \<and> length (pc_channel s) \<le> MAX_CHANNEL_STATE_BYTES
    then Some (pc_channel s) else None"
  have kept: "channel_persist ?to ChannelStable None = (Inr (), Some ''stable'')"
    by (simp add: channel_persist_def CHANNEL_STATE_SCHEMA_VERSION_def channel_name_def MAX_CHANNEL_STATE_BYTES_def)
  have restored: "?to s = Some b \<Longrightarrow> Some \<lparr>pc_schema_version = 1, pc_channel = b\<rparr> = Some s" for s b
    by (cases s) (simp split: if_splits)
  have small: "?to s = Some b \<Longrightarrow> length b \<le> MAX_CHANNEL_STATE_BYTES" for s b
    by (simp split: if_splits)
  show ?thesis
    using channel_choice_kept [OF kept, of "\<lambda>b. Some \<lparr>pc_schema_version = 1, pc_channel = b\<rparr>" ChannelDev, rotated 1]
      restored small by blast
qed

text \<open>The channel permits an installation exactly when the status says so in every part.\<close>

lemma permits_iff:
  "channel_permits_install parsed \<longleftrightarrow> (\<exists>s. parsed = Some s \<and> classification_for s = VerifiedExtension)"
  by (cases parsed) (simp_all add: channel_permits_install_def compiled_classification_def)

end
