(* ===== verification/Bundle_Verification.thy ===== *)
theory Bundle_Verification
  imports Release_Policy Agent_Catalog "HOL-Library.Product_Lexorder"
begin

text \<open>
  Model of \<open>src/bundle.rs\<close>: the validation of an authenticated release manifest, the bounded and
  resumable transfer of its artifacts through a verified cache, and the policy on the license report,
  the SBOM and the provenance. The external programs are arguments: \<open>sha256\<close> is the digest program
  with its failures, \<open>authentic\<close> the signature verifier, and the JSON library the parsers. A
  source is an operation over a state of its own; the cache is a record of operations.
\<close>

section \<open>Manifest\<close>

definition MAX_MANIFEST_BYTES :: nat where "MAX_MANIFEST_BYTES = 128 * 1024"
definition MAX_ARTIFACT_BYTES :: u64 where "MAX_ARTIFACT_BYTES = 256 * 1024 * 1024"
definition MAX_BUNDLE_BYTES :: u64 where "MAX_BUNDLE_BYTES = 512 * 1024 * 1024"
definition CHUNK_BYTES :: nat where "CHUNK_BYTES = 64 * 1024"
definition MAX_ATTEMPTS :: nat where "MAX_ATTEMPTS = 3"

datatype artifact_kind = ArtifactExecutable | ArtifactSource | ArtifactLicenseReport | ArtifactSbom | ArtifactProvenance

record artifact =
  ar_name :: string
  ar_kind :: artifact_kind
  ar_url :: string
  ar_size :: u64
  ar_sha256 :: string

record bundle_compatibility =
  bk_bundle :: string
  bk_architecture :: architecture
  bk_asb_version :: string
  bk_protocol_version :: u64
  bk_coordinator_version :: string
  bk_coordinator_commit :: string
  bk_quality_version :: string
  bk_quality_commit :: string

record bundle_component =
  bo_name :: string
  bo_version :: string
  bo_commit :: string
  bo_tree :: string
  bo_artifact_sha256 :: string

record bundle_manifest =
  mf_schema_version :: u64
  mf_release :: string
  mf_source_commit :: string
  mf_source_tree :: string
  mf_issued_unix :: u64
  mf_expires_unix :: u64
  mf_compatibility :: bundle_compatibility
  mf_components :: "bundle_component list"
  mf_artifacts :: "artifact list"

record expected_compatibility =
  ec_bundle :: string
  ec_architecture :: architecture
  ec_asb_version :: string
  ec_protocol_version :: u64

definition find_artifact :: "bundle_manifest \<Rightarrow> artifact option" where
  "find_artifact m = find (\<lambda>a. ar_name a = ''asb-tui'') (mf_artifacts m)"

definition executable_sha256 :: "bundle_manifest \<Rightarrow> string option" where
  "executable_sha256 m = map_option ar_sha256 (find_artifact m)"

definition strip_v :: "string \<Rightarrow> string option" where
  "strip_v s = (case s of c # rest \<Rightarrow> if c = CHR ''v'' then Some rest else None | [] \<Rightarrow> None)"

definition is_version :: "string \<Rightarrow> bool" where
  "is_version s \<longleftrightarrow> (case strip_v s of None \<Rightarrow> False | Some v \<Rightarrow> length s \<le> 32 \<and> three_numbers v)"

definition release_prefix :: string where
  "release_prefix = ''https://github.com/martin-beck/asb-tui/releases/download/''"

definition plain_url :: "string \<Rightarrow> bool" where
  "plain_url url \<longleftrightarrow> \<not> list_ex (\<lambda>c. c \<in> {CHR ''?'', CHR ''#'', CHR ''%''}) url"

definition immutable_release_url :: "string \<Rightarrow> string \<Rightarrow> bool" where
  "immutable_release_url url release \<longleftrightarrow>
     (let prefix = release_prefix @ release @ ''/'' in
      starts_with url prefix \<and> length prefix < length url
      \<and> CHR ''/'' \<notin> set (drop (length prefix) url) \<and> plain_url url)"

definition immutable_release_url_shape :: "string \<Rightarrow> bool" where
  "immutable_release_url_shape url \<longleftrightarrow>
     (let prefix = release_prefix @ ''v'' in
      starts_with url prefix
      \<and> (let rest = drop (length prefix) url; release = takeWhile (\<lambda>c. c \<noteq> CHR ''/'') rest;
             file = drop (Suc (length release)) rest
         in CHR ''/'' \<in> set rest \<and> release \<noteq> [] \<and> list_all (\<lambda>b. is_ascii_digit b \<or> b = CHR ''.'') release
            \<and> file \<noteq> [] \<and> CHR ''/'' \<notin> set file \<and> plain_url url))"

definition validate_compatibility :: "bundle_compatibility \<Rightarrow> expected_compatibility \<Rightarrow> (string, unit) result" where
  "validate_compatibility v e = ensure (bk_bundle v = ec_bundle e \<and> bk_architecture v = ec_architecture e
     \<and> bk_asb_version v = ec_asb_version e \<and> bk_protocol_version v = ec_protocol_version e
     \<and> bk_coordinator_version v = COORDINATOR_VERSION \<and> bk_coordinator_commit v = COORDINATOR_COMMIT
     \<and> bk_quality_version v = QUALITY_VERSION \<and> bk_quality_commit v = QUALITY_COMMIT) ''incompatible_bundle''"

definition required_artifacts :: "(string \<times> artifact_kind) set" where
  "required_artifacts = {(''asb-tui'', ArtifactExecutable), (''source'', ArtifactSource),
     (''licenses'', ArtifactLicenseReport), (''sbom'', ArtifactSbom), (''provenance'', ArtifactProvenance)}"

definition artifact_ok :: "string \<Rightarrow> artifact \<Rightarrow> bool" where
  "artifact_ok release a \<longleftrightarrow> ar_name a \<noteq> [] \<and> length (ar_name a) \<le> 32
     \<and> list_all (\<lambda>b. is_ascii_lowercase b \<or> b = CHR ''-'') (ar_name a)
     \<and> ar_size a \<noteq> 0 \<and> ar_size a \<le> MAX_ARTIFACT_BYTES \<and> is_hex (ar_sha256 a) 64
     \<and> immutable_release_url (ar_url a) release"

definition checked_add64 :: "u64 \<Rightarrow> u64 \<Rightarrow> u64 option" where
  "checked_add64 a b = (if unat a + unat b < 2 ^ 64 then Some (a + b) else None)"

text \<open>The loop over the artifacts: the pairs seen and the total size.\<close>

fun artifacts_loop :: "string \<Rightarrow> artifact list \<Rightarrow> (string \<times> artifact_kind) set \<Rightarrow> u64 \<Rightarrow>
    (string, (string \<times> artifact_kind) set \<times> u64) result" where
  "artifacts_loop release [] seen bytes = Inr (seen, bytes)"
| "artifacts_loop release (a # as) seen bytes =
     (if \<not> artifact_ok release a \<or> (ar_name a, ar_kind a) \<in> seen then Inl ''invalid_artifact''
      else and_then (ok_or (checked_add64 bytes (ar_size a)) ''artifact_quota_exceeded'')
        (artifacts_loop release as (insert (ar_name a, ar_kind a) seen)))"

definition validate_artifacts :: "artifact list \<Rightarrow> string \<Rightarrow> (string, unit) result" where
  "validate_artifacts as release =
     (if length as \<noteq> 5 then Inl ''incomplete_artifact_set''
      else and_then (artifacts_loop release as {} 0) (\<lambda>(seen, bytes).
        if MAX_BUNDLE_BYTES < bytes then Inl ''artifact_quota_exceeded''
        else if seen \<noteq> required_artifacts then Inl ''incomplete_artifact_set'' else Inr ()))"

type_synonym component_identity = "string \<times> string \<times> string \<times> string"

definition component_identity :: "bundle_component \<Rightarrow> component_identity" where
  "component_identity c = (bo_version c, bo_commit c, bo_tree c, bo_artifact_sha256 c)"

definition expected_components :: "bundle_manifest \<Rightarrow> string \<Rightarrow> (string \<times> component_identity) list" where
  "expected_components m executable_digest = om_collect
     [(''asb-tui'', (mf_release m, mf_source_commit m, mf_source_tree m, executable_digest)),
      (''agent-workflow-coordinator'', (COORDINATOR_VERSION, COORDINATOR_COMMIT,
        ''41d08ed42333cb47b07c2c401a9167b56c7cfb81'', ''a51e58ed71dd93979acc55560fc8208db7131d8e6d0a6b7b805fa383fef25b34'')),
      (''agent-workflow-quality'', (QUALITY_VERSION, QUALITY_COMMIT,
        ''ca77db478f0737142690d37683d826710cd953b0'', ''9d480cabe955a5faf88f6f1c8dfd2bfe63045445173c86f93d200a00c97fff89''))]"

fun components_loop :: "bundle_component list \<Rightarrow> (string \<times> component_identity) list \<Rightarrow>
    (string, (string \<times> component_identity) list) result" where
  "components_loop [] seen = Inr seen"
| "components_loop (c # cs) seen =
     (if \<not> is_hex (bo_commit c) 40 \<or> \<not> is_hex (bo_tree c) 40 \<or> \<not> is_hex (bo_artifact_sha256 c) 64
         \<or> om_get seen (bo_name c) \<noteq> None
      then Inl ''invalid_component''
      else components_loop cs (om_insert (bo_name c) (component_identity c) seen))"

definition validate_components :: "bundle_manifest \<Rightarrow> (string, unit) result" where
  "validate_components m =
     (if length (mf_components m) \<noteq> 3 then Inl ''incomplete_component_set''
      else and_then (ok_or (executable_sha256 m) ''incomplete_artifact_set'') (\<lambda>digest.
        and_then (components_loop (mf_components m) []) (\<lambda>observed.
          ensure (observed = expected_components m digest) ''component_identity_mismatch'')))"

definition saturating_sub64 :: "u64 \<Rightarrow> u64 \<Rightarrow> u64" where
  "saturating_sub64 a b = (if b \<le> a then a - b else 0)"

definition parse_and_validate_manifest :: "(u8 list \<Rightarrow> bundle_manifest option) \<Rightarrow> u8 list \<Rightarrow> u64 \<Rightarrow>
    expected_compatibility \<Rightarrow> (string, bundle_manifest) result" where
  "parse_and_validate_manifest from_slice input now expected =
     (if input = [] \<or> MAX_MANIFEST_BYTES < length input then Inl ''invalid_manifest_size''
      else and_then (ok_or (from_slice input) ''invalid_manifest'') (\<lambda>m.
        if mf_schema_version m \<noteq> 1 \<or> \<not> is_version (mf_release m) \<or> \<not> is_hex (mf_source_commit m) 40
           \<or> \<not> is_hex (mf_source_tree m) 40 \<or> now < mf_issued_unix m \<or> mf_expires_unix m \<le> now
           \<or> 366 * 24 * 60 * 60 < saturating_sub64 (mf_expires_unix m) (mf_issued_unix m)
        then Inl ''invalid_manifest_policy''
        else and_then (validate_compatibility (mf_compatibility m) expected) (\<lambda>_.
          and_then (validate_artifacts (mf_artifacts m) (mf_release m)) (\<lambda>_.
          and_then (validate_components m) (\<lambda>_. Inr m)))))"

definition verify_bundle_manifest :: "(u8 list \<Rightarrow> (string, unit) result) \<Rightarrow> (u8 list \<Rightarrow> bundle_manifest option) \<Rightarrow>
    u8 list \<Rightarrow> u64 \<Rightarrow> expected_compatibility \<Rightarrow> (string, bundle_manifest) result" where
  "verify_bundle_manifest authentic from_slice input now expected =
     (if input = [] \<or> MAX_MANIFEST_BYTES < length input then Inl ''invalid_manifest_size''
      else and_then (authentic input) (\<lambda>_. parse_and_validate_manifest from_slice input now expected))"

section \<open>Cache\<close>

record 'c cache_ops =
  ca_get :: "string \<Rightarrow> u64 \<Rightarrow> 'c \<Rightarrow> u8 list option"
  ca_insert :: "string \<Rightarrow> u8 list \<Rightarrow> ('c, unit, unit) call"
  ca_get_partial :: "string \<Rightarrow> u64 \<Rightarrow> 'c \<Rightarrow> u8 list option"
  ca_store_partial :: "string \<Rightarrow> u8 list \<Rightarrow> ('c, unit, unit) call"
  ca_clear_partial :: "string \<Rightarrow> ('c, unit, unit) call"

text \<open>
  The file cache: the entries and the partial files of the directory. Any call may fail: \<open>fc_io\<close>
  lists what happens to the next calls, before or after the file became visible, and an empty list
  means that they succeed.
\<close>

datatype io_outcome = IoSucceeds | IoFailsBefore | IoFailsAfter

record file_cache =
  fc_entries :: "string \<rightharpoonup> u8 list"
  fc_partials :: "string \<rightharpoonup> u8 list"
  fc_io :: "io_outcome list"

definition next_io :: "file_cache \<Rightarrow> io_outcome" where
  "next_io c = (case fc_io c of [] \<Rightarrow> IoSucceeds | r # _ \<Rightarrow> r)"

definition io_step :: "file_cache \<Rightarrow> (file_cache \<Rightarrow> file_cache) \<Rightarrow> (unit, unit) result \<times> file_cache" where
  "io_step c effect =
     (let c' = c\<lparr>fc_io := tl (fc_io c)\<rparr> in
      case next_io c of IoSucceeds \<Rightarrow> (Inr (), effect c') | IoFailsBefore \<Rightarrow> (Inl (), c') | IoFailsAfter \<Rightarrow> (Inl (), effect c'))"

definition file_get :: "string \<Rightarrow> u64 \<Rightarrow> file_cache \<Rightarrow> u8 list option" where
  "file_get digest limit c =
     (if \<not> is_hex digest 64 then None
      else case fc_entries c digest of None \<Rightarrow> None
      | Some b \<Rightarrow> if unat limit < length b then None else Some b)"

definition file_insert :: "string \<Rightarrow> u8 list \<Rightarrow> (file_cache, unit, unit) call" where
  "file_insert digest b c =
     (if \<not> is_hex digest 64 then (Inl (), c)
      else if fc_entries c digest \<noteq> None then (Inr (), c)
      else io_step c (\<lambda>c. c\<lparr>fc_entries := (fc_entries c)(digest \<mapsto> b)\<rparr>))"

definition file_get_partial :: "string \<Rightarrow> u64 \<Rightarrow> file_cache \<Rightarrow> u8 list option" where
  "file_get_partial digest limit c =
     (if \<not> is_hex digest 64 then None
      else case fc_partials c digest of None \<Rightarrow> None
      | Some b \<Rightarrow> if unat limit \<le> length b \<or> b = [] then None else Some b)"

definition file_store_partial :: "string \<Rightarrow> u8 list \<Rightarrow> (file_cache, unit, unit) call" where
  "file_store_partial digest b c =
     (if b = [] \<or> unat MAX_ARTIFACT_BYTES < length b \<or> \<not> is_hex digest 64 then (Inl (), c)
      else io_step c (\<lambda>c. c\<lparr>fc_partials := (fc_partials c)(digest \<mapsto> b)\<rparr>))"

definition file_clear_partial :: "string \<Rightarrow> (file_cache, unit, unit) call" where
  "file_clear_partial digest c =
     (if \<not> is_hex digest 64 then (Inl (), c)
      else if fc_partials c digest = None then (Inr (), c)
      else io_step c (\<lambda>c. c\<lparr>fc_partials := (fc_partials c)(digest := None)\<rparr>))"

definition file_ops :: "file_cache cache_ops" where
  "file_ops = \<lparr>ca_get = file_get, ca_insert = file_insert, ca_get_partial = file_get_partial,
     ca_store_partial = file_store_partial, ca_clear_partial = file_clear_partial\<rparr>"

section \<open>Transfer\<close>

type_synonym digest_program = "u8 list \<Rightarrow> (string, string) result"
type_synonym 's source_read = "string \<Rightarrow> nat \<Rightarrow> nat \<Rightarrow> ('s, unit, u8 list) call"

text \<open>One request: only an answer of exactly the requested length is a chunk.\<close>

definition read_chunk :: "'s source_read \<Rightarrow> string \<Rightarrow> nat \<Rightarrow> nat \<Rightarrow> 's \<Rightarrow> u8 list option \<times> 's" where
  "read_chunk read url offset request src = (case read url offset request src of
     (Inr chunk, src') \<Rightarrow> (if length chunk = request then Some chunk else None, src')
   | (Inl _, src') \<Rightarrow> (None, src'))"

lemma read_chunk_length: "read_chunk read url offset request src = (Some chunk, src') \<Longrightarrow> length chunk = request"
  by (auto simp: read_chunk_def split: prod.splits sum.splits if_splits)

text \<open>
  The loop of \<open>obtain_artifact\<close>: a chunk is appended, stored as partial file and resets the
  failures; anything else counts as a failure, and the third in a row ends the transfer.
\<close>

function transfer :: "'s source_read \<Rightarrow> 'c cache_ops \<Rightarrow> string \<Rightarrow> string \<Rightarrow> nat \<Rightarrow> u8 list \<Rightarrow> nat \<Rightarrow> 's \<Rightarrow> 'c \<Rightarrow>
    (string, u8 list) result \<times> 's \<times> 'c" where
  "transfer read ops url digest capacity bytes failures src c =
     (if capacity \<le> length bytes then (Inr bytes, src, c)
      else case read_chunk read url (length bytes) (min (capacity - length bytes) CHUNK_BYTES) src of
        (None, src') \<Rightarrow>
          if MAX_ATTEMPTS \<le> Suc failures then (Inl ''artifact_transfer_failed'', src', c)
          else transfer read ops url digest capacity bytes (Suc failures) src' c
      | (Some chunk, src') \<Rightarrow>
          (case ca_store_partial ops digest (bytes @ chunk) c of
             (Inl _, c') \<Rightarrow> (Inl ''partial_cache_failed'', src', c')
           | (Inr _, c') \<Rightarrow> transfer read ops url digest capacity (bytes @ chunk) 0 src' c'))"
  by pat_completeness auto
termination
  by (relation "measures [\<lambda>(_, _, _, _, capacity, bytes, _). capacity - length bytes,
      \<lambda>(_, _, _, _, _, _, failures, _). MAX_ATTEMPTS - failures]")
     (auto simp: CHUNK_BYTES_def dest!: read_chunk_length [OF sym])

declare transfer.simps [simp del]

text \<open>The part of \<open>obtain_artifact\<close> after the cache had no entry: resume, transfer, verify and insert.\<close>

definition download_artifact :: "digest_program \<Rightarrow> 's source_read \<Rightarrow> 'c cache_ops \<Rightarrow> artifact \<Rightarrow> 's \<Rightarrow> 'c \<Rightarrow>
    (string, u8 list) result \<times> 's \<times> 'c" where
  "download_artifact sha256 read ops a src c =
     (let digest = ar_sha256 a; capacity = unat (ar_size a);
          resumed = (case ca_get_partial ops digest (ar_size a) c of None \<Rightarrow> [] | Some b \<Rightarrow> b);
          start = (if capacity \<le> length resumed then [] else resumed)
      in case transfer read ops (ar_url a) digest capacity start 0 src c of
           (Inl e, src', c') \<Rightarrow> (Inl e, src', c')
         | (Inr bytes, src', c') \<Rightarrow>
             (case sha256 bytes of
                Inl e \<Rightarrow> (Inl e, src', c')
              | Inr d \<Rightarrow>
                  if d \<noteq> digest
                  then (case ca_clear_partial ops digest c' of
                          (Inl _, c'') \<Rightarrow> (Inl ''partial_cache_failed'', src', c'')
                        | (Inr _, c'') \<Rightarrow> (Inl ''artifact_digest_mismatch'', src', c''))
                  else (case ca_insert ops digest bytes c' of
                          (Inl _, c'') \<Rightarrow> (Inl ''verified_cache_failed'', src', c'')
                        | (Inr _, c'') \<Rightarrow>
                            (case ca_clear_partial ops digest c'' of
                               (Inl _, c3) \<Rightarrow> (Inl ''partial_cache_failed'', src', c3)
                             | (Inr _, c3) \<Rightarrow> (Inr bytes, src', c3)))))"

definition obtain_artifact :: "digest_program \<Rightarrow> 's source_read \<Rightarrow> 'c cache_ops \<Rightarrow> artifact \<Rightarrow> 's \<Rightarrow> 'c \<Rightarrow>
    (string, u8 list) result \<times> 's \<times> 'c" where
  "obtain_artifact sha256 read ops a src c =
     (if ar_size a = 0 \<or> MAX_ARTIFACT_BYTES < ar_size a \<or> \<not> is_hex (ar_sha256 a) 64
         \<or> \<not> immutable_release_url_shape (ar_url a) then (Inl ''invalid_artifact'', src, c)
      else case ca_get ops (ar_sha256 a) (ar_size a) c of
          Some b \<Rightarrow> if length b = unat (ar_size a)
            then (case sha256 b of
                    Inl e \<Rightarrow> (Inl e, src, c)
                  | Inr d \<Rightarrow> if d = ar_sha256 a then (Inr b, src, c) else download_artifact sha256 read ops a src c)
            else download_artifact sha256 read ops a src c
        | None \<Rightarrow> download_artifact sha256 read ops a src c)"

fun obtain_all :: "digest_program \<Rightarrow> 's source_read \<Rightarrow> 'c cache_ops \<Rightarrow> artifact list \<Rightarrow>
    (string \<times> u8 list) list \<Rightarrow> 's \<Rightarrow> 'c \<Rightarrow> (string, (string \<times> u8 list) list) result \<times> 's \<times> 'c" where
  "obtain_all sha256 read ops [] verified src c = (Inr verified, src, c)"
| "obtain_all sha256 read ops (a # as) verified src c =
     (case obtain_artifact sha256 read ops a src c of
        (Inl e, src', c') \<Rightarrow> (Inl e, src', c')
      | (Inr bytes, src', c') \<Rightarrow> obtain_all sha256 read ops as (om_insert (ar_name a) bytes verified) src' c')"

section \<open>Bundle documents\<close>

record license_package =
  lk_name :: string
  lk_version :: string
  lk_license :: string

record license_report =
  lq_schema_version :: u64
  lq_release :: string
  lq_packages :: "license_package list"

record provenance =
  pn_schema_version :: u64
  pn_release :: string
  pn_source_commit :: string
  pn_source_tree :: string
  pn_builder :: string
  pn_reproducible :: bool

record document_readers =
  dr_licenses :: "u8 list \<Rightarrow> license_report option"
  dr_json :: "u8 list \<Rightarrow> json option"
  dr_provenance :: "u8 list \<Rightarrow> provenance option"
  dr_source_sbom :: "json option"

type_synonym inventory = "((string \<times> string) \<times> string) list"

text \<open>\<open>Value::get\<close> with \<open>as_str\<close>, and the non-empty string of a member.\<close>

definition member :: "string \<Rightarrow> json \<Rightarrow> json option" where
  "member k v = (case v of JObject ms \<Rightarrow> map_of ms k | _ \<Rightarrow> None)"

definition string_member :: "string \<Rightarrow> json \<Rightarrow> string option" where
  "string_member k v = (case member k v of Some (JString s) \<Rightarrow> Some s | _ \<Rightarrow> None)"

definition text_member :: "string \<Rightarrow> json \<Rightarrow> (string, string) result" where
  "text_member k v = (case string_member k v of Some s \<Rightarrow> if s = [] then Inl ''sbom_invalid'' else Inr s
     | None \<Rightarrow> Inl ''sbom_invalid'')"

fun inventory_loop :: "json list \<Rightarrow> inventory \<Rightarrow> (string, inventory) result" where
  "inventory_loop [] known = Inr known"
| "inventory_loop (p # ps) known =
     and_then (text_member ''name'' p) (\<lambda>name.
     and_then (text_member ''versionInfo'' p) (\<lambda>version.
     and_then (text_member ''licenseDeclared'' p) (\<lambda>license.
       if om_get known (name, version) \<noteq> None then Inl ''sbom_invalid''
       else inventory_loop ps (om_insert (name, version) license known))))"

definition spdx_inventory :: "json \<Rightarrow> (string, inventory) result" where
  "spdx_inventory document = (case member ''packages'' document of
     Some (JArray ps) \<Rightarrow> inventory_loop ps [] | _ \<Rightarrow> Inl ''sbom_invalid'')"

definition without_v :: "string \<Rightarrow> string" where
  "without_v s = (case strip_v s of Some v \<Rightarrow> v | None \<Rightarrow> s)"

definition expected_inventory :: "document_readers \<Rightarrow> bundle_manifest \<Rightarrow> (string, inventory) result" where
  "expected_inventory d m =
     and_then (ok_or (dr_source_sbom d) ''sbom_invalid'') (\<lambda>source.
     and_then (spdx_inventory source) (\<lambda>known.
       Inr (om_insert (''agent-workflow-quality'', without_v (bk_quality_version (mf_compatibility m))) ''MIT''
         (om_insert (''agent-workflow-coordinator'', without_v (bk_coordinator_version (mf_compatibility m))) ''MIT'' known))))"

fun licenses_loop :: "inventory \<Rightarrow> license_package list \<Rightarrow> inventory \<Rightarrow> (string, inventory) result" where
  "licenses_loop expected [] known = Inr known"
| "licenses_loop expected (p # ps) known =
     (if lk_name p = [] \<or> lk_version p = [] then Inl ''license_policy_rejected''
      else if om_get expected (lk_name p, lk_version p) \<noteq> Some (lk_license p)
           \<or> om_get known (lk_name p, lk_version p) \<noteq> None
      then Inl ''license_policy_rejected''
      else licenses_loop expected ps (om_insert (lk_name p, lk_version p) (lk_license p) known))"

definition misses :: "inventory \<Rightarrow> inventory \<Rightarrow> bool" where
  "misses expected known \<longleftrightarrow> list_ex (\<lambda>k. om_get known k = None) (map fst expected)"

definition validate_bundle_documents :: "document_readers \<Rightarrow> bundle_manifest \<Rightarrow> (string \<times> u8 list) list \<Rightarrow> (string, unit) result" where
  "validate_bundle_documents d m files =
     and_then (ok_or (om_get files ''licenses'') ''license_report_missing'') (\<lambda>license_bytes.
     and_then (ok_or (dr_licenses d license_bytes) ''license_report_invalid'') (\<lambda>licenses.
     and_then (ensure (lq_schema_version licenses = 1 \<and> lq_release licenses = mf_release m) ''license_report_invalid'') (\<lambda>_.
     and_then (expected_inventory d m) (\<lambda>expected.
     and_then (licenses_loop expected (lq_packages licenses) []) (\<lambda>known.
     and_then (ensure (\<not> misses expected known) ''license_report_incomplete'') (\<lambda>_.
     and_then (ensure (known = expected) ''license_policy_rejected'') (\<lambda>_.
     and_then (ok_or (om_get files ''sbom'') ''sbom_missing'') (\<lambda>sbom_bytes.
     and_then (ok_or (dr_json d sbom_bytes) ''sbom_invalid'') (\<lambda>sbom.
     and_then (ensure (string_member ''spdxVersion'' sbom = Some ''SPDX-2.3''
         \<and> string_member ''name'' sbom = Some (''asb-tui-'' @ mf_release m)) ''sbom_invalid'') (\<lambda>_.
     and_then (spdx_inventory sbom) (\<lambda>sbom_known.
     and_then (ensure (\<not> misses expected sbom_known) ''sbom_incomplete'') (\<lambda>_.
     and_then (ensure (sbom_known = expected) ''sbom_invalid'') (\<lambda>_.
     and_then (ok_or (om_get files ''provenance'') ''provenance_missing'') (\<lambda>provenance_bytes.
     and_then (ok_or (dr_provenance d provenance_bytes) ''provenance_invalid'') (\<lambda>p.
       ensure (pn_schema_version p = 1 \<and> pn_release p = mf_release m \<and> pn_source_commit p = mf_source_commit m
         \<and> pn_source_tree p = mf_source_tree m \<and> pn_builder p = ''github-actions'' \<and> pn_reproducible p)
         ''provenance_invalid'')))))))))))))))"

definition obtain_verified_bundle :: "digest_program \<Rightarrow> document_readers \<Rightarrow> 's source_read \<Rightarrow> 'c cache_ops \<Rightarrow> bundle_manifest \<Rightarrow>
    's \<Rightarrow> 'c \<Rightarrow> (string, (string \<times> u8 list) list) result \<times> 's \<times> 'c" where
  "obtain_verified_bundle sha256 d read ops m src c =
     (case obtain_all sha256 read ops (mf_artifacts m) [] src c of
        (Inl e, src', c') \<Rightarrow> (Inl e, src', c')
      | (Inr files, src', c') \<Rightarrow>
          (case validate_bundle_documents d m files of
             Inl e \<Rightarrow> (Inl e, src', c') | Inr _ \<Rightarrow> (Inr files, src', c')))"

text \<open>The local directory is given by the bytes of its regular files.\<close>

fun verify_local_files :: "digest_program \<Rightarrow> (string \<Rightarrow> u8 list option) \<Rightarrow> artifact list \<Rightarrow> (string \<times> u8 list) list \<Rightarrow>
    (string, (string \<times> u8 list) list) result" where
  "verify_local_files sha256 files [] verified = Inr verified"
| "verify_local_files sha256 files (a # as) verified =
     and_then (ok_or (files (ar_name a)) ''artifact_unavailable'') (\<lambda>bytes.
       if length bytes \<noteq> unat (ar_size a) \<or> unat MAX_ARTIFACT_BYTES < length bytes then Inl ''artifact_invalid''
       else and_then (sha256 bytes) (\<lambda>d.
         if d \<noteq> ar_sha256 a then Inl ''artifact_digest_mismatch''
         else verify_local_files sha256 files as (om_insert (ar_name a) bytes verified)))"

definition verify_local_bundle_artifacts :: "digest_program \<Rightarrow> document_readers \<Rightarrow> bundle_manifest \<Rightarrow> (string \<Rightarrow> u8 list option) \<Rightarrow>
    (string, (string \<times> u8 list) list) result" where
  "verify_local_bundle_artifacts sha256 d m files =
     and_then (verify_local_files sha256 files (mf_artifacts m) []) (\<lambda>verified.
     and_then (validate_bundle_documents d m verified) (\<lambda>_. Inr verified))"

section \<open>Transfers are bounded\<close>

text \<open>The requests still possible: every missing chunk may be asked for \<open>MAX_ATTEMPTS\<close> times.\<close>

definition chunks_left :: "nat \<Rightarrow> nat \<Rightarrow> nat" where
  "chunks_left capacity n = (capacity - n + (CHUNK_BYTES - 1)) div CHUNK_BYTES"

text \<open>A source that counts its requests.\<close>

definition counted :: "'s source_read \<Rightarrow> ('s \<times> nat) source_read" where
  "counted read url offset limit = (\<lambda>(src, n). case read url offset limit src of (r, src') \<Rightarrow> (r, src', Suc n))"

lemma read_chunk_counted:
  "read_chunk (counted read) url offset request (src, n) = (r, src', n') \<Longrightarrow>
     n' = Suc n \<and> (\<forall>chunk. r = Some chunk \<longrightarrow> length chunk = request)"
  by (auto simp: read_chunk_def counted_def split: prod.splits sum.splits if_splits)

lemma chunks_left_step:
  assumes "n < capacity"
  shows "chunks_left capacity (n + min (capacity - n) CHUNK_BYTES) + 1 = chunks_left capacity n"
proof (cases "capacity - n \<le> CHUNK_BYTES")
  case True
  then have "chunks_left capacity n = 1" using assms
    by (simp add: chunks_left_def CHUNK_BYTES_def)
  then show ?thesis using True assms by (simp add: chunks_left_def CHUNK_BYTES_def)
next
  case False
  then have "capacity - n + (CHUNK_BYTES - 1) = (capacity - (n + CHUNK_BYTES) + (CHUNK_BYTES - 1)) + CHUNK_BYTES" by simp
  then have "chunks_left capacity n = (capacity - (n + CHUNK_BYTES) + (CHUNK_BYTES - 1)) div CHUNK_BYTES + 1"
    unfolding chunks_left_def by (metis CHUNK_BYTES_def add.commute div_add_self1 mult_eq_0_iff zero_neq_numeral)
  then show ?thesis using False by (simp add: chunks_left_def min_def)
qed

text \<open>
  The rule of the loop: \<open>Q\<close> is its invariant, and \<open>R\<close> holds of the source and the cache when it
  gives up.
\<close>

lemma transfer_rule:
  assumes retry: "\<And>bytes failures src c src'. Q bytes failures src c \<Longrightarrow> length bytes < capacity \<Longrightarrow>
      read_chunk read url (length bytes) (min (capacity - length bytes) CHUNK_BYTES) src = (None, src') \<Longrightarrow>
      if Suc failures < MAX_ATTEMPTS then Q bytes (Suc failures) src' c else R src' c"
    and chunk: "\<And>bytes failures src c chunk src' u c'. Q bytes failures src c \<Longrightarrow> length bytes < capacity \<Longrightarrow>
      read_chunk read url (length bytes) (min (capacity - length bytes) CHUNK_BYTES) src = (Some chunk, src') \<Longrightarrow>
      ca_store_partial ops digest (bytes @ chunk) c = (Inr u, c') \<Longrightarrow> Q (bytes @ chunk) 0 src' c'"
    and broken: "\<And>bytes failures src c chunk src' u c'. Q bytes failures src c \<Longrightarrow> length bytes < capacity \<Longrightarrow>
      read_chunk read url (length bytes) (min (capacity - length bytes) CHUNK_BYTES) src = (Some chunk, src') \<Longrightarrow>
      ca_store_partial ops digest (bytes @ chunk) c = (Inl u, c') \<Longrightarrow> R src' c'"
    and start: "Q bytes failures src c"
  shows "case transfer read ops url digest capacity bytes failures src c of
    (Inr bytes', src', c') \<Rightarrow> (\<exists>f. Q bytes' f src' c') \<and> capacity \<le> length bytes' | (Inl _, src', c') \<Rightarrow> R src' c'"
  using retry chunk broken start
proof (induction read ops url digest capacity bytes failures src c rule: transfer.induct)
  case (1 read ops url digest capacity bytes failures src c)
  note rules = "1.prems"
  show ?case
  proof (cases "capacity \<le> length bytes")
    case True
    then show ?thesis using rules(4) by (auto simp: transfer.simps)
  next
    case unfinished: False
    obtain got src' where read: "read_chunk read url (length bytes) (min (capacity - length bytes) CHUNK_BYTES) src = (got, src')"
      by fastforce
    show ?thesis
    proof (cases got)
      case None
      then show ?thesis using "1.IH"(1) [OF unfinished read [symmetric] None _ rules(1-3)] rules(1) [OF rules(4) _ read [unfolded None]]
        unfinished read by (subst transfer.simps) (auto simp: not_le split: if_splits)
    next
      case (Some chunk)
      obtain stored c' where store: "ca_store_partial ops digest (bytes @ chunk) c = (stored, c')" by fastforce
      show ?thesis
        using "1.IH"(2) [OF unfinished read [symmetric] Some store [symmetric] _ rules(1-3)]
          rules(2,3) [OF rules(4) _ read [unfolded Some] ] store unfinished read Some
        by (subst transfer.simps) (cases stored, auto)
    qed
  qed
qed

lemma transfer_counted:
  assumes "transfer (counted read) ops url digest capacity bytes 0 (src, n) c = (r, (src', n'), c')"
  shows "n' \<le> n + MAX_ATTEMPTS * chunks_left capacity (length bytes)"
proof -
  let ?bound = "n + MAX_ATTEMPTS * chunks_left capacity (length bytes)"
  let ?Q = "\<lambda>bytes failures (src, k) c. failures < MAX_ATTEMPTS \<and> (capacity \<le> length bytes \<longrightarrow> failures = 0)
    \<and> k + MAX_ATTEMPTS * chunks_left capacity (length bytes) \<le> ?bound + failures"
  have step: "MAX_ATTEMPTS * chunks_left capacity (length b) = MAX_ATTEMPTS + MAX_ATTEMPTS *
      chunks_left capacity (length b + min (capacity - length b) CHUNK_BYTES)" if "length b < capacity" for b :: "u8 list"
    using chunks_left_step [OF that] by (metis add.commute mult_Suc_right plus_1_eq_Suc)
  have "case transfer (counted read) ops url digest capacity bytes 0 (src, n) c of
    (Inr bytes', src', c') \<Rightarrow> (\<exists>f. ?Q bytes' f src' c') \<and> capacity \<le> length bytes' | (Inl _, src', c') \<Rightarrow> snd src' \<le> ?bound"
    by (rule transfer_rule)
       (auto simp: MAX_ATTEMPTS_def dest!: read_chunk_counted step split: if_splits)
  then show ?thesis using assms by (auto split: sum.splits)
qed

section \<open>The cache\<close>

text \<open>
  What a transfer relies on: an entry is read as it is stored, an insertion adds at most the given
  bytes under their digest and replaces nothing, and partial files are no entries.
\<close>

locale artifact_cache =
  fixes ops :: "'c cache_ops" and entries :: "'c \<Rightarrow> string \<Rightarrow> u8 list option"
  assumes get_entry: "ca_get ops d limit c = Some b \<Longrightarrow> entries c d = Some b"
    and insert_entry: "ca_insert ops d b c = (r, c') \<Longrightarrow> entries c' = entries c \<or> entries c d = None \<and> entries c' = (entries c)(d \<mapsto> b)"
    and store_entry: "ca_store_partial ops d b c = (q, c') \<Longrightarrow> entries c' = entries c"
    and clear_entry: "ca_clear_partial ops d c = (r, c') \<Longrightarrow> entries c' = entries c"

text \<open>An entry is honest when its bytes have the digest that names it.\<close>

definition honest :: "digest_program \<Rightarrow> (string \<Rightarrow> u8 list option) \<Rightarrow> bool" where
  "honest sha256 es \<longleftrightarrow> (\<forall>d b. es d = Some b \<longrightarrow> sha256 b = Inr d)"

definition cache_grows :: "digest_program \<Rightarrow> (string \<Rightarrow> u8 list option) \<Rightarrow> (string \<Rightarrow> u8 list option) \<Rightarrow> bool" where
  "cache_grows sha256 es es' \<longleftrightarrow> (\<forall>d b. es d = Some b \<longrightarrow> es' d = Some b)
     \<and> (\<forall>d b. es d = None \<longrightarrow> es' d = Some b \<longrightarrow> sha256 b = Inr d)"

lemma cache_grows_refl [intro, simp]: "cache_grows sha256 es es"
  by (simp add: cache_grows_def)

lemma cache_grows_trans: "cache_grows sha256 es es1 \<Longrightarrow> cache_grows sha256 es1 es2 \<Longrightarrow> cache_grows sha256 es es2"
  unfolding cache_grows_def by (metis option.exhaust)

lemma cache_grows_honest: "cache_grows sha256 es es' \<Longrightarrow> honest sha256 es \<Longrightarrow> honest sha256 es'"
  unfolding cache_grows_def honest_def by (metis option.exhaust option.inject)

definition verified_bytes :: "digest_program \<Rightarrow> artifact \<Rightarrow> u8 list \<Rightarrow> bool" where
  "verified_bytes sha256 a b \<longleftrightarrow> length b = unat (ar_size a) \<and> sha256 b = Inr (ar_sha256 a)"

lemma transfer_complete:
  assumes "transfer read ops url digest capacity bytes failures src c = (Inr b, src', c')" "length bytes \<le> capacity"
  shows "length b = capacity"
proof -
  have "case transfer read ops url digest capacity bytes failures src c of
      (Inr bytes', _, _) \<Rightarrow> (\<exists>f::nat. length bytes' \<le> capacity) \<and> capacity \<le> length bytes' | (Inl _, _, _) \<Rightarrow> True"
    by (rule transfer_rule [where Q = "\<lambda>bytes _ _ _. length bytes \<le> capacity"])
       (use assms(2) in \<open>auto dest!: read_chunk_length\<close>)
  then show ?thesis using assms(1) by simp
qed

lemma download_artifact_verified:
  assumes "download_artifact sha256 read ops a src c = (Inr b, src', c')"
  shows "verified_bytes sha256 a b"
proof -
  define start where "start = (case ca_get_partial ops (ar_sha256 a) (ar_size a) c of None \<Rightarrow> [] | Some b \<Rightarrow> b)"
  define first where "first = (if unat (ar_size a) \<le> length start then [] else start)"
  obtain t src1 c1 where t: "transfer read ops (ar_url a) (ar_sha256 a) (unat (ar_size a)) first 0 src c = (t, src1, c1)"
    by (metis prod_cases3)
  note run = assms [unfolded download_artifact_def Let_def, folded start_def, folded first_def, unfolded t]
  from run have result: "t = Inr b" "sha256 b = Inr (ar_sha256 a)"
    by (auto split: sum.splits if_splits prod.splits)
  have "length first \<le> unat (ar_size a)" by (simp add: first_def)
  with transfer_complete [OF t [unfolded result(1)]] result(2) show ?thesis by (simp add: verified_bytes_def)
qed

lemma obtain_artifact_verified:
  assumes "obtain_artifact sha256 read ops a src c = (Inr b, src', c')"
  shows "verified_bytes sha256 a b"
  using assms download_artifact_verified
  by (fastforce simp: obtain_artifact_def verified_bytes_def split: if_splits option.splits sum.splits)

context artifact_cache
begin

lemma transfer_entries:
  assumes "transfer read ops url digest capacity bytes failures src c = (r, src', c')"
  shows "entries c' = entries c"
proof -
  have "case transfer read ops url digest capacity bytes failures src c of
      (Inr bytes', _, c') \<Rightarrow> (\<exists>f::nat. entries c' = entries c) \<and> capacity \<le> length bytes' | (Inl _, _, c') \<Rightarrow> entries c' = entries c"
    by (rule transfer_rule [where Q = "\<lambda>_ _ _ c'. entries c' = entries c"]) (auto simp: store_entry)
  then show ?thesis using assms by (cases r) auto
qed

lemma insert_grows:
  "ca_insert ops d b c = (r, c') \<Longrightarrow> sha256 b = Inr d \<Longrightarrow> cache_grows sha256 (entries c) (entries c')"
  using insert_entry [of d b c r c'] by (auto simp: cache_grows_def split: if_splits)

lemma download_artifact_grows:
  assumes "download_artifact sha256 read ops a src c = (r, src', c')"
  shows "cache_grows sha256 (entries c) (entries c')"
proof -
  define start where "start = (case ca_get_partial ops (ar_sha256 a) (ar_size a) c of None \<Rightarrow> [] | Some b \<Rightarrow> b)"
  define first where "first = (if unat (ar_size a) \<le> length start then [] else start)"
  obtain t src1 c1 where t: "transfer read ops (ar_url a) (ar_sha256 a) (unat (ar_size a)) first 0 src c = (t, src1, c1)"
    by (metis prod_cases3)
  note run = assms [unfolded download_artifact_def Let_def, folded start_def, folded first_def, unfolded t]
  have kept: "entries c1 = entries c" using t by (rule transfer_entries)
  from run have "c' = c1 \<or> (\<exists>q. ca_clear_partial ops (ar_sha256 a) c1 = (q, c'))
      \<or> (\<exists>b q c2 q'. sha256 b = Inr (ar_sha256 a) \<and> ca_insert ops (ar_sha256 a) b c1 = (q, c2)
          \<and> (c' = c2 \<or> ca_clear_partial ops (ar_sha256 a) c2 = (q', c')))"
    by (auto split: sum.splits if_splits prod.splits)
  then show ?thesis using kept insert_grows clear_entry by (metis cache_grows_refl)
qed

lemma obtain_artifact_grows:
  assumes "obtain_artifact sha256 read ops a src c = (r, src', c')"
  shows "cache_grows sha256 (entries c) (entries c')"
  using assms download_artifact_grows
  by (fastforce simp: obtain_artifact_def split: if_splits option.splits sum.splits)

lemma obtain_all_grows:
  assumes "obtain_all sha256 read ops as verified src c = (r, src', c')"
  shows "cache_grows sha256 (entries c) (entries c')"
  using assms
proof (induction as arbitrary: verified src c)
  case (Cons a as)
  then show ?case
    by (auto split: prod.splits sum.splits intro: cache_grows_trans dest!: obtain_artifact_grows)
qed simp

lemma obtain_verified_bundle_grows:
  "obtain_verified_bundle sha256 d read ops m src c = (r, src', c') \<Longrightarrow> cache_grows sha256 (entries c) (entries c')"
  by (auto simp: obtain_verified_bundle_def split: prod.splits sum.splits dest!: obtain_all_grows)

end

interpretation files: artifact_cache file_ops fc_entries
  by unfold_locales
     (auto simp: file_ops_def file_get_def file_insert_def file_store_partial_def file_clear_partial_def io_step_def Let_def
       split: if_splits option.splits io_outcome.splits)


section \<open>Verified files\<close>

text \<open>Both loops collect the verified bytes under the names of their artifacts.\<close>

lemma obtain_all_collects:
  assumes "obtain_all sha256 read ops as verified src c = (Inr files, src', c')"
  shows "\<exists>bs. list_all2 (verified_bytes sha256) as bs
    \<and> files = foldl (\<lambda>m (k, v). om_insert k v m) verified (zip (map ar_name as) bs)"
  using assms
proof (induction as arbitrary: verified src c)
  case (Cons a as)
  then obtain b src1 c1 where first: "obtain_artifact sha256 read ops a src c = (Inr b, src1, c1)"
    "obtain_all sha256 read ops as (om_insert (ar_name a) b verified) src1 c1 = (Inr files, src', c')"
    by (auto split: prod.splits sum.splits)
  with Cons.IH obtain bs where "list_all2 (verified_bytes sha256) as bs"
    "files = foldl (\<lambda>m (k, v). om_insert k v m) (om_insert (ar_name a) b verified) (zip (map ar_name as) bs)" by blast
  with obtain_artifact_verified [OF first(1)] show ?case by (intro exI [of _ "b # bs"]) simp
qed simp

lemma verify_local_files_collects:
  assumes "verify_local_files sha256 stored as verified = Inr files"
  shows "\<exists>bs. list_all2 (verified_bytes sha256) as bs
    \<and> files = foldl (\<lambda>m (k, v). om_insert k v m) verified (zip (map ar_name as) bs)"
  using assms
proof (induction as arbitrary: verified)
  case (Cons a as)
  then obtain b where first: "verified_bytes sha256 a b"
    "verify_local_files sha256 stored as (om_insert (ar_name a) b verified) = Inr files"
    by (auto simp: result_simps verified_bytes_def split: if_splits)
  with Cons.IH obtain bs where "list_all2 (verified_bytes sha256) as bs"
    "files = foldl (\<lambda>m (k, v). om_insert k v m) (om_insert (ar_name a) b verified) (zip (map ar_name as) bs)" by blast
  with first(1) show ?case by (intro exI [of _ "b # bs"]) simp
qed simp

lemma om_eq_set:
  assumes "om_sorted a" "om_sorted b" "set a = set b"
  shows "a = b"
proof (rule om.entries_ext [OF assms(1,2)])
  fix k
  have "om_get a k = Some v \<longleftrightarrow> om_get b k = Some v" for v using om_entries_get assms by metis
  then show "om_get a k = om_get b k" by (metis not_Some_eq)
qed

lemma set_om_collect:
  assumes "distinct (map fst kvs)"
  shows "set (om_collect kvs) = set kvs"
proof -
  have "set (foldl (\<lambda>m (k, v). om_insert k v m) m kvs) = set m \<union> set kvs"
    if "om_sorted m" "set (map fst m) \<inter> set (map fst kvs) = {}" for m
    using that assms
  proof (induction kvs arbitrary: m)
    case (Cons kv kvs)
    obtain k v where kv: "kv = (k, v)" by (cases kv)
    have "om_get m k = None" using Cons.prems(2) kv by (auto simp: map_of_eq_None_iff)
    then have "set (om_insert k v m) = insert (k, v) (set m)" using Cons.prems(1) by (rule om.set_entries_put [rotated])
    moreover have "set (map fst (om_insert k v m)) \<inter> set (map fst kvs) = {}"
      using Cons.prems(2,3) kv by (simp add: om_insert_keys del: set_map)
    ultimately show ?case using Cons.IH [of "om_insert k v m"] Cons.prems kv by (simp add: om_insert_sorted)
  qed simp
  from this [of "[]"] show ?thesis by (simp add: om_collect_def)
qed

definition complete_files :: "digest_program \<Rightarrow> bundle_manifest \<Rightarrow> (string \<times> u8 list) list \<Rightarrow> bool" where
  "complete_files sha256 m files \<longleftrightarrow>
     map fst files = [''asb-tui'', ''licenses'', ''provenance'', ''sbom'', ''source'']
     \<and> list_all (\<lambda>a. case om_get files (ar_name a) of None \<Rightarrow> False | Some b \<Rightarrow> verified_bytes sha256 a b) (mf_artifacts m)"

text \<open>The artifacts of a valid manifest, as sets and numbers.\<close>

definition artifact_key :: "artifact \<Rightarrow> string \<times> artifact_kind" where
  "artifact_key a = (ar_name a, ar_kind a)"

definition valid_artifacts :: "artifact list \<Rightarrow> string \<Rightarrow> bool" where
  "valid_artifacts as release \<longleftrightarrow> distinct (map artifact_key as) \<and> set (map artifact_key as) = required_artifacts
     \<and> list_all (artifact_ok release) as \<and> (\<Sum>a\<leftarrow>as. unat (ar_size a)) \<le> 512 * 1024 * 1024"

lemma artifacts_loop_exact:
  "artifacts_loop release as seen bytes = Inr (seen', bytes') \<longleftrightarrow>
     list_all (artifact_ok release) as \<and> distinct (map artifact_key as) \<and> seen \<inter> set (map artifact_key as) = {}
     \<and> seen' = seen \<union> set (map artifact_key as)
     \<and> unat bytes' = unat bytes + (\<Sum>a\<leftarrow>as. unat (ar_size a))"
proof (induction as arbitrary: seen bytes)
  case (Cons a as)
  have add: "unat (bytes + ar_size a) = unat bytes + unat (ar_size a)" if "unat bytes + unat (ar_size a) < 2 ^ 64"
    using that by (simp add: unat_word_ariths)
  have small: "unat bytes' < 2 ^ 64" using unsigned_less [of bytes', where ?'a = nat] by simp
  show ?case
    using add small
    by (auto simp: Cons.IH checked_add64_def ok_or_def artifact_key_def)
qed (auto simp: word_unat_eq_iff)

lemma validate_artifacts_exact: "validate_artifacts as release = Inr () \<longleftrightarrow> valid_artifacts as release"
proof
  assume "validate_artifacts as release = Inr ()"
  then obtain seen bytes where "artifacts_loop release as {} 0 = Inr (seen, bytes)" "\<not> MAX_BUNDLE_BYTES < bytes" "seen = required_artifacts"
    by (auto simp: validate_artifacts_def result_simps split: if_splits)
  then show "valid_artifacts as release"
    by (auto simp: artifacts_loop_exact valid_artifacts_def MAX_BUNDLE_BYTES_def not_less word_le_nat_alt)
next
  assume valid: "valid_artifacts as release"
  let ?bytes = "of_nat (\<Sum>a\<leftarrow>as. unat (ar_size a)) :: u64"
  have "unat ?bytes = (\<Sum>a\<leftarrow>as. unat (ar_size a))"
    using valid by (simp add: unat_of_nat valid_artifacts_def)
  moreover from this have "artifacts_loop release as {} 0 = Inr (required_artifacts, ?bytes)" "\<not> MAX_BUNDLE_BYTES < ?bytes"
    using valid by (simp_all add: artifacts_loop_exact valid_artifacts_def MAX_BUNDLE_BYTES_def not_less word_le_nat_alt)
  moreover have "length as = 5"
  proof -
    have "card (set (map artifact_key as)) = length (map artifact_key as)" using valid by (intro distinct_card) (simp add: valid_artifacts_def)
    moreover have "card required_artifacts = 5" by (simp add: required_artifacts_def)
    ultimately show ?thesis using valid by (simp add: valid_artifacts_def)
  qed
  ultimately show "validate_artifacts as release = Inr ()" by (simp add: validate_artifacts_def)
qed

lemma valid_artifacts_names:
  assumes "valid_artifacts as release"
  shows "distinct (map ar_name as)" "set (map ar_name as) = {''asb-tui'', ''source'', ''licenses'', ''sbom'', ''provenance''}"
proof -
  have names: "map ar_name as = map fst (map artifact_key as)" by (simp add: artifact_key_def comp_def)
  have "inj_on fst required_artifacts" by (auto simp: inj_on_def required_artifacts_def)
  then show "distinct (map ar_name as)" using assms unfolding names valid_artifacts_def by (subst distinct_map) simp
  show "set (map ar_name as) = {''asb-tui'', ''source'', ''licenses'', ''sbom'', ''provenance''}"
    using assms unfolding names valid_artifacts_def by (simp only: set_map [of fst]) (simp add: required_artifacts_def)
qed

lemma collected_complete:
  assumes "valid_artifacts (mf_artifacts m) release" "list_all2 (verified_bytes sha256) (mf_artifacts m) bs"
  shows "complete_files sha256 m (om_collect (zip (map ar_name (mf_artifacts m)) bs))"
proof -
  let ?as = "mf_artifacts m" and ?kvs = "zip (map ar_name (mf_artifacts m)) bs"
  let ?files = "om_collect ?kvs"
  have len: "length bs = length ?as" using assms(2) by (simp add: list_all2_lengthD)
  then have keys: "map fst ?kvs = map ar_name ?as" by simp
  then have set_files: "set ?files = set ?kvs" using valid_artifacts_names(1) [OF assms(1)] by (intro set_om_collect) simp
  have sorted: "om_sorted ?files" by (rule om_collect_sorted)
  have "set (map fst ?files) = set (map ar_name ?as)" using set_files keys by (metis set_map)
  then have same: "set (map fst ?files) = set [''asb-tui'', ''licenses'', ''provenance'', ''sbom'', ''source'']"
    using valid_artifacts_names(2) [OF assms(1)] by auto
  have "map fst ?files = [''asb-tui'', ''licenses'', ''provenance'', ''sbom'', ''source'']"
    by (rule sorted_distinct_set_unique [OF _ _ _ _ same])
       (use sorted in \<open>auto simp: om_sorted_def strict_sorted_iff\<close>)
  moreover have "case om_get ?files (ar_name a) of None \<Rightarrow> False | Some b \<Rightarrow> verified_bytes sha256 a b" if "a \<in> set ?as" for a
  proof -
    from that obtain i where i: "i < length ?as" "?as ! i = a" by (auto simp: in_set_conv_nth)
    then have "(ar_name a, bs ! i) \<in> set ?files" using set_files len nth_mem [of i ?kvs] by simp
    then have "om_get ?files (ar_name a) = Some (bs ! i)" using om_entries_get [OF sorted] by blast
    then show ?thesis using list_all2_nthD [OF assms(2) i(1)] i(2) by simp
  qed
  ultimately show ?thesis by (simp add: complete_files_def list_all_iff)
qed

section \<open>Manifest policy\<close>

definition component_entry :: "bundle_component \<Rightarrow> string \<times> component_identity" where
  "component_entry c = (bo_name c, component_identity c)"

definition component_hex :: "bundle_component \<Rightarrow> bool" where
  "component_hex c \<longleftrightarrow> is_hex (bo_commit c) 40 \<and> is_hex (bo_tree c) 40 \<and> is_hex (bo_artifact_sha256 c) 64"

definition valid_components :: "bundle_manifest \<Rightarrow> bool" where
  "valid_components m \<longleftrightarrow> length (mf_components m) = 3 \<and> list_all component_hex (mf_components m)
     \<and> (case executable_sha256 m of None \<Rightarrow> False
        | Some digest \<Rightarrow> set (map component_entry (mf_components m)) = set (expected_components m digest))"

lemma components_loop_exact:
  "om_sorted seen \<Longrightarrow> components_loop cs seen = Inr known \<longleftrightarrow>
     list_all component_hex cs \<and> distinct (map bo_name cs) \<and> set (map fst seen) \<inter> set (map bo_name cs) = {}
     \<and> known = foldl (\<lambda>m (k, v). om_insert k v m) seen (map component_entry cs)"
proof (induction cs arbitrary: seen)
  case (Cons c cs)
  have absent: "om_get seen (bo_name c) = None \<longleftrightarrow> bo_name c \<notin> set (map fst seen)"
    by (simp add: map_of_eq_None_iff)
  show ?case
    using Cons.IH [OF om_insert_sorted [OF Cons.prems], of "bo_name c" "component_identity c"] absent
      om_insert_keys [of "bo_name c" "component_identity c" seen]
    by (auto simp: component_hex_def component_entry_def)
qed auto

lemma validate_components_exact: "validate_components m = Inr () \<longleftrightarrow> valid_components m"
proof (cases "executable_sha256 m")
  case (Some digest)
  let ?cs = "mf_components m" and ?expected = "expected_components m digest"
  have expected: "om_sorted ?expected" "length ?expected = 3" "map fst ?expected = [''agent-workflow-coordinator'', ''agent-workflow-quality'', ''asb-tui'']"
    by (simp_all add: expected_components_def om_collect_def om_sorted_def)
  have names: "map bo_name ?cs = map fst (map component_entry ?cs)" by (simp add: component_entry_def comp_def)
  have same: "om_collect (map component_entry ?cs) = ?expected \<longleftrightarrow> set (map component_entry ?cs) = set ?expected"
    if "distinct (map bo_name ?cs)"
  proof -
    have collected: "set (om_collect (map component_entry ?cs)) = set (map component_entry ?cs)"
      using that unfolding names by (rule set_om_collect)
    moreover have "om_collect (map component_entry ?cs) = ?expected"
      if "set (om_collect (map component_entry ?cs)) = set ?expected"
      using om_collect_sorted expected(1) that by (rule om_eq_set)
    ultimately show ?thesis by auto
  qed
  have distinct: "distinct (map bo_name ?cs)" if "length ?cs = 3" "set (map component_entry ?cs) = set ?expected"
  proof -
    have "card (set (map component_entry ?cs)) = 3" using that(2) expected
      by (metis distinct_card distinct_map om_sorted_def strict_sorted_iff)
    then have "distinct (map component_entry ?cs)" using that(1) by (simp add: card_distinct)
    moreover have "inj_on fst (set ?expected)" using expected(1) by (simp add: om_sorted_def strict_sorted_iff distinct_map)
    ultimately show ?thesis unfolding names distinct_map [of fst] using that(2) by simp
  qed
  show ?thesis using Some same distinct
    by (auto simp: validate_components_def valid_components_def result_simps components_loop_exact om_collect_def)
qed (simp add: validate_components_def valid_components_def)

definition valid_manifest :: "bundle_manifest \<Rightarrow> u64 \<Rightarrow> expected_compatibility \<Rightarrow> bool" where
  "valid_manifest m now e \<longleftrightarrow> mf_schema_version m = 1 \<and> is_version (mf_release m) \<and> is_hex (mf_source_commit m) 40
     \<and> is_hex (mf_source_tree m) 40 \<and> mf_issued_unix m \<le> now \<and> now < mf_expires_unix m
     \<and> unat (mf_expires_unix m) \<le> unat (mf_issued_unix m) + 366 * 24 * 60 * 60
     \<and> validate_compatibility (mf_compatibility m) e = Inr ()
     \<and> valid_artifacts (mf_artifacts m) (mf_release m) \<and> valid_components m"

lemma lifetime_le:
  "issued \<le> now \<Longrightarrow> now < expires \<Longrightarrow> \<not> 31622400 < saturating_sub64 expires issued \<longleftrightarrow> unat expires \<le> unat issued + 31622400"
  by (auto simp: saturating_sub64_def not_less word_le_nat_alt unat_sub word_less_nat_alt)

lemma parse_valid:
  "parse_and_validate_manifest from_slice input now e = Inr m \<longleftrightarrow>
     input \<noteq> [] \<and> length input \<le> MAX_MANIFEST_BYTES \<and> from_slice input = Some m \<and> valid_manifest m now e"
  using lifetime_le [of "mf_issued_unix m" now "mf_expires_unix m"]
  by (auto simp: parse_and_validate_manifest_def valid_manifest_def result_simps validate_artifacts_exact validate_components_exact
      not_less split: if_splits)

section \<open>A sample release\<close>

text \<open>A digest program that tells byte sequences of different lengths apart.\<close>

definition length_digest :: "nat \<Rightarrow> string" where
  "length_digest n = replicate (64 - n) (CHR ''a'') @ replicate (min n 64) (CHR ''b'')"

definition sample_digest :: digest_program where
  "sample_digest b = Inr (length_digest (length b))"

definition sample_artifact :: "string \<Rightarrow> artifact_kind \<Rightarrow> nat \<Rightarrow> artifact" where
  "sample_artifact n k bytes = \<lparr>ar_name = n, ar_kind = k,
     ar_url = ''https://github.com/martin-beck/asb-tui/releases/download/v1.0.0/'' @ n, ar_size = of_nat bytes,
     ar_sha256 = length_digest bytes\<rparr>"

definition sample_component :: "string \<Rightarrow> component_identity \<Rightarrow> bundle_component" where
  "sample_component n i = (case i of (v, c, t, d) \<Rightarrow>
     \<lparr>bo_name = n, bo_version = v, bo_commit = c, bo_tree = t, bo_artifact_sha256 = d\<rparr>)"

definition sample_manifest :: bundle_manifest where
  "sample_manifest = (let hex = replicate 40 (CHR ''c'') in
     \<lparr>mf_schema_version = 1, mf_release = ''v1.0.0'', mf_source_commit = hex, mf_source_tree = hex,
      mf_issued_unix = 100, mf_expires_unix = 300,
      mf_compatibility = \<lparr>bk_bundle = ''asb-tui-v1-linux-x86_64'', bk_architecture = ArchX86_64, bk_asb_version = ''0.1.0'',
        bk_protocol_version = 1, bk_coordinator_version = COORDINATOR_VERSION, bk_coordinator_commit = COORDINATOR_COMMIT,
        bk_quality_version = QUALITY_VERSION, bk_quality_commit = QUALITY_COMMIT\<rparr>,
      mf_components =
       [sample_component ''agent-workflow-quality'' (QUALITY_VERSION, QUALITY_COMMIT,
          ''ca77db478f0737142690d37683d826710cd953b0'', ''9d480cabe955a5faf88f6f1c8dfd2bfe63045445173c86f93d200a00c97fff89''),
        sample_component ''asb-tui'' (''v1.0.0'', hex, hex, length_digest 3),
        sample_component ''agent-workflow-coordinator'' (COORDINATOR_VERSION, COORDINATOR_COMMIT,
          ''41d08ed42333cb47b07c2c401a9167b56c7cfb81'', ''a51e58ed71dd93979acc55560fc8208db7131d8e6d0a6b7b805fa383fef25b34'')],
      mf_artifacts = [sample_artifact ''asb-tui'' ArtifactExecutable 3, sample_artifact ''source'' ArtifactSource 6,
        sample_artifact ''licenses'' ArtifactLicenseReport 4, sample_artifact ''sbom'' ArtifactSbom 2,
        sample_artifact ''provenance'' ArtifactProvenance 5]\<rparr>)"

definition sample_expected :: expected_compatibility where
  "sample_expected = \<lparr>ec_bundle = ''asb-tui-v1-linux-x86_64'', ec_architecture = ArchX86_64,
     ec_asb_version = ''0.1.0'', ec_protocol_version = 1\<rparr>"

definition sample_package :: "string \<Rightarrow> string \<Rightarrow> json" where
  "sample_package n v = JObject [(''name'', JString n), (''versionInfo'', JString v), (''licenseDeclared'', JString ''MIT'')]"

definition sample_readers :: document_readers where
  "sample_readers = \<lparr>
     dr_licenses = (\<lambda>_. Some \<lparr>lq_schema_version = 1, lq_release = ''v1.0.0'', lq_packages =
       [\<lparr>lk_name = ''agent-workflow-quality'', lk_version = ''0.23.0'', lk_license = ''MIT''\<rparr>,
        \<lparr>lk_name = ''agent-workflow-coordinator'', lk_version = ''0.3.5'', lk_license = ''MIT''\<rparr>]\<rparr>),
     dr_json = (\<lambda>_. Some (JObject [(''spdxVersion'', JString ''SPDX-2.3''), (''name'', JString ''asb-tui-v1.0.0''),
       (''packages'', JArray [sample_package ''agent-workflow-coordinator'' ''0.3.5'', sample_package ''agent-workflow-quality'' ''0.23.0''])])),
     dr_provenance = (\<lambda>_. Some \<lparr>pn_schema_version = 1, pn_release = ''v1.0.0'', pn_source_commit = replicate 40 (CHR ''c''),
       pn_source_tree = replicate 40 (CHR ''c''), pn_builder = ''github-actions'', pn_reproducible = True\<rparr>),
     dr_source_sbom = Some (JObject [(''packages'', JArray [])])\<rparr>"

text \<open>A source that refuses every first request and serves the second.\<close>

definition sample_read :: "bool source_read" where
  "sample_read url offset limit ready = (if ready then (Inr (replicate limit 0), False) else (Inl (), True))"

definition sample_cache :: "io_outcome list \<Rightarrow> file_cache" where
  "sample_cache io = \<lparr>fc_entries = Map.empty, fc_partials = Map.empty, fc_io = io\<rparr>"


lemma sample_hex [simp]:
  "is_hex (replicate 40 (CHR ''c'')) 40"
  "is_hex (length_digest n) 64"
  "is_hex ''ca77db478f0737142690d37683d826710cd953b0'' 40"
  "is_hex ''41d08ed42333cb47b07c2c401a9167b56c7cfb81'' 40"
  "is_hex ''9d480cabe955a5faf88f6f1c8dfd2bfe63045445173c86f93d200a00c97fff89'' 64"
  "is_hex ''a51e58ed71dd93979acc55560fc8208db7131d8e6d0a6b7b805fa383fef25b34'' 64"
  "is_hex COORDINATOR_COMMIT 40" "is_hex QUALITY_COMMIT 40"
  by (auto simp: is_hex_def list_all_iff is_ascii_hexdigit_def is_ascii_digit_def is_ascii_uppercase_def length_digest_def COORDINATOR_COMMIT_def QUALITY_COMMIT_def)


lemma sample_artifacts:
  "artifact_ok ''v1.0.0'' (sample_artifact ''asb-tui'' ArtifactExecutable 3)"
  "artifact_ok ''v1.0.0'' (sample_artifact ''source'' ArtifactSource 6)"
  "artifact_ok ''v1.0.0'' (sample_artifact ''sbom'' ArtifactSbom 2)"
  "artifact_ok ''v1.0.0'' (sample_artifact ''licenses'' ArtifactLicenseReport 4)"
  "artifact_ok ''v1.0.0'' (sample_artifact ''provenance'' ArtifactProvenance 5)"
  by (simp_all add: artifact_ok_def sample_artifact_def immutable_release_url_def release_prefix_def plain_url_def
      MAX_ARTIFACT_BYTES_def text_defs)

lemma sample_manifest_valid: "valid_manifest sample_manifest 200 sample_expected"
proof -
  have keys: "map artifact_key (mf_artifacts sample_manifest) = [(''asb-tui'', ArtifactExecutable), (''source'', ArtifactSource),
      (''licenses'', ArtifactLicenseReport), (''sbom'', ArtifactSbom), (''provenance'', ArtifactProvenance)]"
    by (simp add: sample_manifest_def Let_def artifact_key_def sample_artifact_def)
  have "valid_artifacts (mf_artifacts sample_manifest) ''v1.0.0''"
    unfolding valid_artifacts_def keys
    by (simp add: required_artifacts_def sample_manifest_def Let_def sample_artifacts) (simp add: sample_artifact_def)
  moreover have "valid_components sample_manifest"
    by (auto simp: valid_components_def sample_manifest_def Let_def sample_component_def component_hex_def component_entry_def
        component_identity_def expected_components_def executable_sha256_def find_artifact_def sample_artifact_def om_collect_def)
  ultimately show ?thesis
    by (simp add: valid_manifest_def sample_manifest_def Let_def sample_expected_def validate_compatibility_def
        is_version_def strip_v_def three_numbers_def digits_def text_defs)
qed

lemma sample_accepted:
  "verify_bundle_manifest (\<lambda>_. Inr ()) (\<lambda>_. Some sample_manifest) [1] 200 sample_expected = Inr sample_manifest"
  using sample_manifest_valid by (simp add: verify_bundle_manifest_def parse_valid MAX_MANIFEST_BYTES_def)

lemma sample_documents:
  "validate_bundle_documents sample_readers sample_manifest
     [(''asb-tui'', [0, 0, 0]), (''licenses'', [0, 0, 0, 0]), (''provenance'', [0, 0, 0, 0, 0]), (''sbom'', [0, 0]), (''source'', [0, 0, 0, 0, 0, 0])] = Inr ()"
  by (simp add: validate_bundle_documents_def sample_readers_def sample_manifest_def Let_def expected_inventory_def
      spdx_inventory_def member_def without_v_def strip_v_def COORDINATOR_VERSION_def QUALITY_VERSION_def misses_def
      sample_package_def text_member_def string_member_def)

lemma sample_lengths:
  "length_digest (Suc (Suc 0)) = length_digest 2" "length_digest (Suc (Suc (Suc 0))) = length_digest 3"
  "length_digest (Suc (Suc (Suc (Suc 0)))) = length_digest 4" "length_digest (Suc (Suc (Suc (Suc (Suc 0))))) = length_digest 5"
  "length_digest (Suc (Suc (Suc (Suc (Suc (Suc 0)))))) = length_digest 6"
  by (simp_all add: numeral_eq_Suc)

lemma sample_local:
  "verify_local_bundle_artifacts sample_digest sample_readers sample_manifest
     (map_of [(''source'', [0, 0, 0, 0, 0, 0]), (''sbom'', [0, 0]), (''asb-tui'', [0, 0, 0]), (''licenses'', [0, 0, 0, 0]), (''provenance'', [0, 0, 0, 0, 0])])
   = Inr [(''asb-tui'', [0, 0, 0]), (''licenses'', [0, 0, 0, 0]), (''provenance'', [0, 0, 0, 0, 0]), (''sbom'', [0, 0]), (''source'', [0, 0, 0, 0, 0, 0])]"
  using sample_documents
  by (simp add: verify_local_bundle_artifacts_def sample_manifest_def Let_def sample_artifact_def sample_digest_def MAX_ARTIFACT_BYTES_def sample_lengths)

section \<open>Properties\<close>

text \<open>
  C11: A manifest is accepted exactly when its signature verifies, its bytes are within their limit, and it
  satisfies its policy stated over sets and natural numbers: it is current and lives at most 366
  days, it is compatible, its artifacts are the five required ones with sane sizes, digests and
  immutable addresses and at most 512 MiB together, and its components are the three expected ones.
\<close>

theorem manifest_policy_exact:
  "verify_bundle_manifest authentic from_slice input now e = Inr m \<longleftrightarrow>
     input \<noteq> [] \<and> length input \<le> 128 * 1024 \<and> authentic input = Inr ()
     \<and> from_slice input = Some m \<and> valid_manifest m now e"
  using parse_valid [of from_slice input now e m]
  by (auto simp: verify_bundle_manifest_def result_simps MAX_MANIFEST_BYTES_def split: if_splits)

text \<open>
  C12: Whatever the source answers, and whichever calls on the cache fail, obtaining a bundle keeps every
  cached entry and adds only bytes whose digest is their name; so a cache of honest entries stays
  one, also when the bundle is refused.
\<close>

theorem cache_never_poisoned:
  assumes "honest sha256 (fc_entries c)" "obtain_verified_bundle sha256 d read file_ops m src c = (r, src', c')"
  shows "honest sha256 (fc_entries c') \<and> (\<forall>k b. fc_entries c k = Some b \<longrightarrow> fc_entries c' k = Some b)"
  using files.obtain_verified_bundle_grows [OF assms(2)] assms(1) cache_grows_honest by (auto simp: cache_grows_def)

theorem cache_never_poisoned_witness:
  "let run = obtain_verified_bundle sample_digest sample_readers sample_read file_ops sample_manifest False
       (sample_cache [IoSucceeds, IoFailsBefore])
   in honest sample_digest (fc_entries (snd (snd run)))"
proof -
  let ?c = "sample_cache [IoSucceeds, IoFailsBefore]"
  let ?run = "obtain_verified_bundle sample_digest sample_readers sample_read file_ops sample_manifest False ?c"
  have empty: "honest sample_digest (fc_entries ?c)" by (simp add: honest_def sample_cache_def)
  have run: "?run = (fst ?run, fst (snd ?run), snd (snd ?run))" by simp
  show ?thesis unfolding Let_def by (rule conjunct1 [OF cache_never_poisoned [OF empty run]])
qed

text \<open>
  C13: A bundle obtained for an accepted manifest has its five files, each with the size and the digest the
  manifest names, and its documents satisfy their policy; a local bundle is accepted on the same terms.
\<close>

theorem verified_bundle_complete:
  assumes "verify_bundle_manifest authentic from_slice input now e = Inr m"
    and "obtain_verified_bundle sha256 d read ops m src c = (Inr files, src', c')
      \<or> verify_local_bundle_artifacts sha256 d m stored = Inr files"
  shows "complete_files sha256 m files \<and> validate_bundle_documents d m files = Inr ()"
proof -
  have valid: "valid_artifacts (mf_artifacts m) (mf_release m)"
    using assms(1) parse_valid by (auto simp: verify_bundle_manifest_def result_simps valid_manifest_def split: if_splits)
  have "(\<exists>bs. list_all2 (verified_bytes sha256) (mf_artifacts m) bs
      \<and> files = om_collect (zip (map ar_name (mf_artifacts m)) bs)) \<and> validate_bundle_documents d m files = Inr ()"
    using assms(2) obtain_all_collects [of sha256 read ops "mf_artifacts m" "[]"] verify_local_files_collects [of sha256 stored "mf_artifacts m" "[]"]
    by (fastforce simp: obtain_verified_bundle_def verify_local_bundle_artifacts_def result_simps om_collect_def
        split: prod.splits sum.splits)
  with collected_complete [OF valid] show ?thesis by auto
qed

theorem verified_bundle_complete_witness:
  "complete_files sample_digest sample_manifest
     [(''asb-tui'', [0, 0, 0]), (''licenses'', [0, 0, 0, 0]), (''provenance'', [0, 0, 0, 0, 0]), (''sbom'', [0, 0]),
      (''source'', [0, 0, 0, 0, 0, 0])]"
  using verified_bundle_complete [OF sample_accepted disjI2 [OF sample_local]] by blast



end
