(* ===== verification/Frontend_Lifecycle.thy ===== *)
theory Frontend_Lifecycle
  imports Bundle_Verification
begin

text \<open>
  Model of \<open>src/lifecycle.rs\<close> and \<open>src/frontend_handoff.rs\<close>: the installation of a verified frontend,
  its transactional store, the self test of a candidate and the launch. The store is a directory of
  files whose calls may fail, stop half way or be cut off by a crash; the digest program, the JSON
  library, the self test and the launcher are arguments.
\<close>

section \<open>Installation\<close>

definition MAX_EXECUTABLE_BYTES :: nat where "MAX_EXECUTABLE_BYTES = 256 * 1024 * 1024"
definition MAX_STATE_BYTES :: nat where "MAX_STATE_BYTES = 64 * 1024"
definition SELF_TEST_OUTPUT_BYTES :: nat where "SELF_TEST_OUTPUT_BYTES = 64 * 1024"
definition HANDOFF_VERSION :: string where "HANDOFF_VERSION = ''asb-tui-frontend/v1''"
definition DEFAULT_ENDPOINT :: string where "DEFAULT_ENDPOINT = ''asb://control/v1''"
definition DEFAULT_CHANNEL :: string where "DEFAULT_CHANNEL = ''verified''"

record installation =
  in_schema_version :: u64
  in_release :: string
  in_executable_sha256 :: string
  in_source_commit :: string
  in_source_tree :: string
  in_target :: string
  in_bundle :: string
  in_asb_version :: string
  in_protocol_version :: u64
  in_coordinator_version :: string
  in_coordinator_commit :: string
  in_quality_version :: string
  in_quality_commit :: string
  in_classification :: string
  in_endpoint :: string
  in_channel :: string
  in_manifest_sha256 :: string
  in_workspace_state_root :: string
  in_workspace_config_root :: string
  in_workspace_cache_root :: string

text \<open>What the handoff digest covers: the fields before and after the protocol version.\<close>

type_synonym handoff_fields = "string list \<times> u64 \<times> string list"

definition handoff_fields :: "installation \<Rightarrow> handoff_fields" where
  "handoff_fields i = ([in_release i, in_source_commit i, in_source_tree i, in_target i, in_bundle i, in_asb_version i],
     in_protocol_version i,
     [in_coordinator_version i, in_coordinator_commit i, in_quality_version i, in_quality_commit i, in_classification i])"

text \<open>What the lifecycle calls: the digest program, the JSON library, and what was compiled in.\<close>

record lifecycle_env =
  le_sha256 :: digest_program
  le_handoff_json :: "handoff_fields \<Rightarrow> u8 list option"
  le_to_vec :: "installation \<Rightarrow> u8 list option"
  le_from_slice :: "u8 list \<Rightarrow> installation option"
  le_channel :: "channel_status option"
  le_architecture :: architecture

definition handoff_manifest_digest :: "lifecycle_env \<Rightarrow> installation \<Rightarrow> (string, string) result" where
  "handoff_manifest_digest env i = and_then (ok_or (le_handoff_json env (handoff_fields i)) ''manifest_encode_failed'') (le_sha256 env)"

definition relative_root :: "string \<Rightarrow> bool" where
  "relative_root root \<longleftrightarrow> root \<noteq> [] \<and> \<not> starts_with root ''/''
     \<and> \<not> list_ex (\<lambda>part. part = [] \<or> part = ''.'' \<or> part = ''..'') (split_on (CHR ''/'') root)"

definition validate_handoff :: "lifecycle_env \<Rightarrow> installation \<Rightarrow> bool" where
  "validate_handoff env i \<longleftrightarrow> in_endpoint i = DEFAULT_ENDPOINT \<and> in_channel i = DEFAULT_CHANNEL
     \<and> length (in_manifest_sha256 i) = 64 \<and> handoff_manifest_digest env i = Inr (in_manifest_sha256 i)
     \<and> list_all relative_root [in_workspace_state_root i, in_workspace_config_root i, in_workspace_cache_root i]"

definition compiled_target :: "architecture \<Rightarrow> string" where
  "compiled_target a = (case a of ArchX86_64 \<Rightarrow> ''x86_64-unknown-linux-gnu''
     | ArchAarch64 \<Rightarrow> ''aarch64-unknown-linux-gnu'' | ArchOther \<Rightarrow> ''unsupported'')"

definition bundle_matches_target :: "architecture \<Rightarrow> installation \<Rightarrow> bool" where
  "bundle_matches_target a i \<longleftrightarrow> (case a of
      ArchX86_64 \<Rightarrow> in_target i = ''x86_64-unknown-linux-gnu'' \<and> in_bundle i = ''asb-tui-v1-linux-x86_64''
    | ArchAarch64 \<Rightarrow> in_target i = ''aarch64-unknown-linux-gnu'' \<and> in_bundle i = ''asb-tui-v1-linux-aarch64''
    | ArchOther \<Rightarrow> False)"

text \<open>The environment a launched frontend is given.\<close>

record frontend_handoff =
  fh_version :: string
  fh_endpoint :: string
  fh_channel :: string
  fh_manifest_sha256 :: string
  fh_source_commit :: string
  fh_source_tree :: string
  fh_workspace_state_root :: string
  fh_workspace_config_root :: string
  fh_workspace_cache_root :: string

definition from_installation :: "installation \<Rightarrow> frontend_handoff" where
  "from_installation i = \<lparr>fh_version = HANDOFF_VERSION, fh_endpoint = in_endpoint i, fh_channel = in_channel i,
     fh_manifest_sha256 = in_manifest_sha256 i, fh_source_commit = in_source_commit i, fh_source_tree = in_source_tree i,
     fh_workspace_state_root = in_workspace_state_root i, fh_workspace_config_root = in_workspace_config_root i,
     fh_workspace_cache_root = in_workspace_cache_root i\<rparr>"

definition env_pairs :: "frontend_handoff \<Rightarrow> (string \<times> string) list" where
  "env_pairs h = [(''ASB_TUI_FRONTEND_HANDOFF'', fh_version h), (''ASB_TUI_ENDPOINT'', fh_endpoint h),
     (''ASB_TUI_CHANNEL'', fh_channel h), (''ASB_TUI_MANIFEST_SHA256'', fh_manifest_sha256 h),
     (''ASB_TUI_SOURCE_COMMIT'', fh_source_commit h), (''ASB_TUI_SOURCE_TREE'', fh_source_tree h),
     (''ASB_TUI_WORKSPACE_STATE_ROOT'', fh_workspace_state_root h),
     (''ASB_TUI_WORKSPACE_CONFIG_ROOT'', fh_workspace_config_root h),
     (''ASB_TUI_WORKSPACE_CACHE_ROOT'', fh_workspace_cache_root h)]"

section \<open>Self test\<close>

record self_test_response =
  sr_schema_version :: u64
  sr_classification :: string
  sr_release :: string
  sr_target :: string
  sr_source_commit :: string
  sr_source_tree :: string
  sr_asb_version :: string
  sr_protocol_version :: u64
  sr_coordinator_version :: string
  sr_coordinator_commit :: string
  sr_quality_version :: string
  sr_quality_commit :: string
  sr_ready :: bool

definition valid_release :: "string \<Rightarrow> bool" where
  "valid_release v \<longleftrightarrow> (case strip_v v of None \<Rightarrow> False | Some s \<Rightarrow> length v \<le> 32 \<and> three_numbers s)"

text \<open>
  What a candidate answers about itself, from the identity its builder injected and the probe of the
  system, whose ASB part is replaced by the expected one.
\<close>

definition local_self_test_response :: "architecture \<Rightarrow> (string \<Rightarrow> build_identity option) \<Rightarrow> compatibility_probe \<Rightarrow>
    string \<Rightarrow> string \<Rightarrow> u64 \<Rightarrow> self_test_response option" where
  "local_self_test_response arch promoted detected release asb_version protocol_version =
     (if \<not> valid_release release \<or> asb_version \<noteq> ''0.1.0'' \<or> protocol_version \<noteq> 1 then None
      else
       let identity = promoted release;
           probe = detected\<lparr>pb_asb := \<lparr>apr_version = Some asb_version, apr_protocol_version = Some protocol_version\<rparr>\<rparr>
       in Some \<lparr>sr_schema_version = 1,
            sr_classification = classification_name (if identity \<noteq> None then VerifiedExtension else SourceOnlyUnverified),
            sr_release = release, sr_target = compiled_target arch,
            sr_source_commit = (case identity of None \<Rightarrow> [] | Some b \<Rightarrow> bi_source_commit b),
            sr_source_tree = (case identity of None \<Rightarrow> [] | Some b \<Rightarrow> bi_source_tree b),
            sr_asb_version = ''0.1.0'', sr_protocol_version = 1,
            sr_coordinator_version = COORDINATOR_VERSION, sr_coordinator_commit = COORDINATOR_COMMIT,
            sr_quality_version = QUALITY_VERSION, sr_quality_commit = QUALITY_COMMIT,
            sr_ready = (identity \<noteq> None \<and> compiled_target arch \<noteq> ''unsupported'' \<and> rep_bundle (evaluate probe) \<noteq> None)\<rparr>)"

text \<open>The verdict on the answer of a candidate: its exit status and its whole output.\<close>

definition self_test_verdict :: "(u8 list \<Rightarrow> self_test_response option) \<Rightarrow> installation \<Rightarrow> bool \<Rightarrow> u8 list \<Rightarrow> bool" where
  "self_test_verdict from_slice i success output \<longleftrightarrow>
     (case from_slice output of None \<Rightarrow> False
      | Some r \<Rightarrow> success \<and> length output \<le> SELF_TEST_OUTPUT_BYTES \<and> sr_schema_version r = 1
          \<and> sr_classification r = ''verified_extension'' \<and> sr_release r = in_release i \<and> sr_target r = in_target i
          \<and> sr_source_commit r = in_source_commit i \<and> sr_source_tree r = in_source_tree i
          \<and> sr_asb_version r = in_asb_version i \<and> sr_protocol_version r = 1
          \<and> sr_coordinator_version r = in_coordinator_version i \<and> sr_coordinator_commit r = in_coordinator_commit i
          \<and> sr_quality_version r = in_quality_version i \<and> sr_quality_commit r = in_quality_commit i \<and> sr_ready r)"

section \<open>Store\<close>

text \<open>
  A version or a stage is a directory with an executable and a state file. \<open>lf_faults\<close> lists what
  happens to the next calls: a call may fail before or after its effect, stop half way (\<open>FsPartial\<close>
  says what is left), or the process may die, after which no call has an effect any more. Files
  that fail the checks of owner and mode cannot be read, like missing ones.
\<close>

datatype fs_fault = FsSucceeds | FsFails | FsFailsAfter | FsPartial nat | FsCrash

record version_dir =
  vd_executable :: "u8 list option"
  vd_state :: "u8 list option"

record lifecycle_fs =
  lf_active :: "u8 list option"
  lf_temporary :: "u8 list option"
  lf_versions :: "string \<rightharpoonup> version_dir"
  lf_stages :: "string \<rightharpoonup> version_dir"
  lf_down :: bool
  lf_faults :: "fs_fault list"

type_synonym 'a fs_call = "(lifecycle_fs, unit, 'a) call"

definition fs_call :: "(lifecycle_fs \<Rightarrow> lifecycle_fs) \<Rightarrow> (nat \<Rightarrow> lifecycle_fs \<Rightarrow> lifecycle_fs) \<Rightarrow> unit fs_call" where
  "fs_call effect half s =
     (if lf_down s then (Inl (), s)
      else case lf_faults s of
        [] \<Rightarrow> (Inr (), effect s)
      | f # fs \<Rightarrow>
          (let s' = s\<lparr>lf_faults := fs\<rparr> in
           case f of FsSucceeds \<Rightarrow> (Inr (), effect s') | FsFails \<Rightarrow> (Inl (), s') | FsFailsAfter \<Rightarrow> (Inl (), effect s')
           | FsPartial n \<Rightarrow> (Inl (), half n s') | FsCrash \<Rightarrow> (Inl (), s'\<lparr>lf_down := True\<rparr>)))"

definition and_call :: "'a fs_call \<Rightarrow> ('a \<Rightarrow> 'b fs_call) \<Rightarrow> 'b fs_call" where
  "and_call m f s = (case m s of (Inl e, s') \<Rightarrow> (Inl e, s') | (Inr x, s') \<Rightarrow> f x s')"

definition ok_call :: "'a \<Rightarrow> 'a fs_call" where "ok_call x s = (Inr x, s)"
definition err_call :: "'a fs_call" where "err_call s = (Inl (), s)"

text \<open>Reading does not change the store; a crashed process reads nothing.\<close>

definition read_bounded :: "nat \<Rightarrow> u8 list option \<Rightarrow> u8 list option" where
  "read_bounded limit file = (case file of None \<Rightarrow> None | Some b \<Rightarrow> if limit < length b then None else Some b)"

definition read_state :: "lifecycle_env \<Rightarrow> u8 list option \<Rightarrow> installation option" where
  "read_state env file = Option.bind (read_bounded MAX_STATE_BYTES file) (le_from_slice env)"

definition dir_state :: "lifecycle_env \<Rightarrow> version_dir option \<Rightarrow> installation option" where
  "dir_state env d = Option.bind d (\<lambda>v. read_state env (vd_state v))"

definition dir_executable :: "version_dir option \<Rightarrow> u8 list option" where
  "dir_executable d = Option.bind d (\<lambda>v. read_bounded MAX_EXECUTABLE_BYTES (vd_executable v))"

definition sync :: "unit fs_call" where "sync = fs_call id (\<lambda>_. id)"

definition set_stage :: "string \<Rightarrow> version_dir option \<Rightarrow> lifecycle_fs \<Rightarrow> lifecycle_fs" where
  "set_stage k d s = s\<lparr>lf_stages := (lf_stages s)(k := d)\<rparr>"

text \<open>A removal that stops half way leaves the directory and any of its files.\<close>

definition half_removed :: "nat \<Rightarrow> version_dir \<Rightarrow> version_dir" where
  "half_removed n d = \<lparr>vd_executable = (if even n then vd_executable d else None),
     vd_state = (if even (n div 2) then vd_state d else None)\<rparr>"

definition remove_stage :: "string \<Rightarrow> unit fs_call" where
  "remove_stage k = fs_call (set_stage k None) (\<lambda>n s. set_stage k (map_option (half_removed n) (lf_stages s k)) s)"

definition create_stage :: "string \<Rightarrow> unit fs_call" where
  "create_stage k = fs_call (set_stage k (Some \<lparr>vd_executable = None, vd_state = None\<rparr>)) (\<lambda>_. id)"

text \<open>A write that stops half way leaves a prefix of the bytes.\<close>

definition write_stage :: "string \<Rightarrow> (u8 list \<Rightarrow> version_dir \<Rightarrow> version_dir) \<Rightarrow> u8 list \<Rightarrow> unit fs_call" where
  "write_stage k put b = fs_call (\<lambda>s. set_stage k (map_option (put b) (lf_stages s k)) s)
     (\<lambda>n s. set_stage k (map_option (put (take n b)) (lf_stages s k)) s)"

definition fs_active :: "lifecycle_env \<Rightarrow> lifecycle_fs \<Rightarrow> (unit, installation option) result" where
  "fs_active env s = (if lf_down s then Inl () else case read_state env (lf_active s) of
     Some i \<Rightarrow> Inr (Some i) | None \<Rightarrow> if lf_active s = None then Inr None else Inl ())"

definition fs_active_executable :: "lifecycle_env \<Rightarrow> installation \<Rightarrow> lifecycle_fs \<Rightarrow> (unit, u8 list) result" where
  "fs_active_executable env i s = and_then (fs_active env s) (\<lambda>a.
     if a \<noteq> Some i \<or> \<not> is_hex (in_executable_sha256 i) 64 then Inl ()
     else ok_or (dir_executable (lf_versions s (in_executable_sha256 i))) ())"

definition fs_stage :: "lifecycle_env \<Rightarrow> installation \<Rightarrow> u8 list \<Rightarrow> unit fs_call" where
  "fs_stage env i executable s =
     (let k = in_executable_sha256 i in
      if lf_down s \<or> executable = [] \<or> MAX_EXECUTABLE_BYTES < length executable \<or> \<not> is_hex k 64 then (Inl (), s)
      else case and_call (if lf_stages s k \<noteq> None then remove_stage k else ok_call ()) (\<lambda>_. create_stage k) s of
        (Inl _, s') \<Rightarrow> (Inl (), s')
      | (Inr _, s') \<Rightarrow>
          (case and_call (write_stage k (\<lambda>b d. d\<lparr>vd_executable := Some b\<rparr>) executable) (\<lambda>_.
                and_call sync (\<lambda>_.
                case le_to_vec env i of None \<Rightarrow> err_call
                | Some b \<Rightarrow> and_call (write_stage k (\<lambda>b d. d\<lparr>vd_state := Some b\<rparr>) b) (\<lambda>_. and_call sync (\<lambda>_. sync)))) s' of
             (Inl _, s'') \<Rightarrow> (Inl (), snd (remove_stage k s''))
           | (Inr _, s'') \<Rightarrow> (Inr (), s'')))"

definition fs_staged_executable :: "lifecycle_env \<Rightarrow> installation \<Rightarrow> lifecycle_fs \<Rightarrow> (unit, u8 list) result" where
  "fs_staged_executable env i s =
     (let d = lf_stages s (in_executable_sha256 i) in
      if lf_down s \<or> \<not> is_hex (in_executable_sha256 i) 64 \<or> dir_state env d \<noteq> Some i then Inl ()
      else ok_or (dir_executable d) ())"

definition move_stage :: "string \<Rightarrow> unit fs_call" where
  "move_stage k = fs_call (\<lambda>s. set_stage k None (s\<lparr>lf_versions := (lf_versions s)(k := lf_stages s k)\<rparr>)) (\<lambda>_. id)"

text \<open>The state file is written under a temporary name, which must be new, and renamed.\<close>

definition write_active :: "u8 list \<Rightarrow> unit fs_call" where
  "write_active b s =
     (case fs_call (\<lambda>s. s\<lparr>lf_temporary := Some []\<rparr>) (\<lambda>_. id) s of
        (Inl _, s') \<Rightarrow> (Inl (), s')
      | (Inr _, s') \<Rightarrow>
          (case and_call (fs_call (\<lambda>s. s\<lparr>lf_temporary := Some b\<rparr>) (\<lambda>n s. s\<lparr>lf_temporary := Some (take n b)\<rparr>)) (\<lambda>_.
                and_call sync (\<lambda>_.
                and_call (fs_call (\<lambda>s. s\<lparr>lf_active := Some b, lf_temporary := None\<rparr>) (\<lambda>_. id)) (\<lambda>_. sync))) s' of
             (Inl _, s'') \<Rightarrow> (Inl (), snd (fs_call (\<lambda>s. s\<lparr>lf_temporary := None\<rparr>) (\<lambda>_. id) s''))
           | (Inr _, s'') \<Rightarrow> (Inr (), s'')))"

definition fs_activate :: "lifecycle_env \<Rightarrow> installation \<Rightarrow> unit fs_call" where
  "fs_activate env i s =
     (let k = in_executable_sha256 i in
      if lf_down s \<or> \<not> is_hex k 64 \<or> dir_state env (lf_stages s k) \<noteq> Some i then (Inl (), s)
      else and_call
        (if lf_versions s k \<noteq> None
         then (if dir_state env (lf_versions s k) = Some i
                 \<and> (case dir_executable (lf_versions s k) of None \<Rightarrow> False | Some b \<Rightarrow> le_sha256 env b = Inr k)
               then remove_stage k else err_call)
         else and_call (move_stage k) (\<lambda>_. sync))
        (\<lambda>_. case le_to_vec env i of None \<Rightarrow> err_call
         | Some b \<Rightarrow> (\<lambda>s. if lf_temporary s \<noteq> None then (Inl (), s) else write_active b s)) s)"

definition fs_discard_stage :: "installation \<Rightarrow> unit fs_call" where
  "fs_discard_stage i s =
     (let k = in_executable_sha256 i in
      if lf_down s \<or> \<not> is_hex k 64 then (Inl (), s)
      else if lf_stages s k = None then (Inr (), s) else remove_stage k s)"

text \<open>The entries of the version directory in the order they are listed: stages and versions by name.\<close>

fun remove_entries :: "(bool \<times> string) list \<Rightarrow> unit fs_call" where
  "remove_entries [] = sync"
| "remove_entries ((staged, k) # es) = and_call
     (if staged then remove_stage k
      else fs_call (\<lambda>s. s\<lparr>lf_versions := (lf_versions s)(k := None)\<rparr>)
        (\<lambda>n s. s\<lparr>lf_versions := (lf_versions s)(k := map_option (half_removed n) (lf_versions s k))\<rparr>))
     (\<lambda>_. remove_entries es)"

definition fs_remove :: "(bool \<times> string) list \<Rightarrow> unit fs_call" where
  "fs_remove listing s =
     and_call (if lf_active s = None \<and> \<not> lf_down s then ok_call () else fs_call (\<lambda>s. s\<lparr>lf_active := None\<rparr>) (\<lambda>_. id))
       (\<lambda>_. remove_entries listing) s"

text \<open>A new process opens the store for an update: the stages an earlier one left are removed.\<close>

fun remove_stages :: "string list \<Rightarrow> unit fs_call" where
  "remove_stages [] = ok_call ()"
| "remove_stages (k # ks) = and_call (remove_stage k) (\<lambda>_. remove_stages ks)"

definition fs_open :: "string list \<Rightarrow> unit fs_call" where
  "fs_open listing s = remove_stages listing (s\<lparr>lf_down := False\<rparr>)"

text \<open>The operations of a store, and those of the directory; \<open>listing\<close> is the order in which the entries are found.\<close>

record 's store_ops =
  so_active :: "'s \<Rightarrow> (unit, installation option) result"
  so_active_executable :: "installation \<Rightarrow> 's \<Rightarrow> (unit, u8 list) result"
  so_stage :: "installation \<Rightarrow> u8 list \<Rightarrow> ('s, unit, unit) call"
  so_staged_executable :: "installation \<Rightarrow> 's \<Rightarrow> (unit, u8 list) result"
  so_activate :: "installation \<Rightarrow> ('s, unit, unit) call"
  so_discard_stage :: "installation \<Rightarrow> ('s, unit, unit) call"
  so_remove :: "('s, unit, unit) call"

definition fs_ops :: "lifecycle_env \<Rightarrow> (bool \<times> string) list \<Rightarrow> lifecycle_fs store_ops" where
  "fs_ops env listing = \<lparr>so_active = fs_active env, so_active_executable = fs_active_executable env, so_stage = fs_stage env,
     so_staged_executable = fs_staged_executable env, so_activate = fs_activate env, so_discard_stage = fs_discard_stage,
     so_remove = fs_remove listing\<rparr>"

section \<open>Install, status, remove and launch\<close>

type_synonym 't self_test = "installation \<Rightarrow> u8 list \<Rightarrow> 't \<Rightarrow> bool \<times> 't"

definition installation_target :: "architecture \<Rightarrow> (string, string) result" where
  "installation_target a = (case a of ArchX86_64 \<Rightarrow> Inr ''x86_64-unknown-linux-gnu''
     | ArchAarch64 \<Rightarrow> Inr ''aarch64-unknown-linux-gnu'' | ArchOther \<Rightarrow> Inl ''verified_target_invalid'')"

text \<open>The first part of \<open>install\<close>: the executable is checked again and the installation is described.\<close>

definition prepare_installation :: "lifecycle_env \<Rightarrow> bundle_manifest \<Rightarrow> (string \<times> u8 list) list \<Rightarrow>
    (string, installation \<times> u8 list) result" where
  "prepare_installation env m verified =
     and_then (ok_or (om_get verified ''asb-tui'') ''verified_executable_missing'') (\<lambda>executable.
     and_then (ok_or (find_artifact m) ''verified_executable_missing'') (\<lambda>declared.
     and_then (ensure (length executable = unat (ar_size declared)) ''verified_executable_mismatch'') (\<lambda>_.
     and_then (le_sha256 env executable) (\<lambda>d.
     and_then (ensure (d = ar_sha256 declared) ''verified_executable_mismatch'') (\<lambda>_.
     and_then (installation_target (bk_architecture (mf_compatibility m))) (\<lambda>target.
       let i = \<lparr>in_schema_version = 1, in_release = mf_release m, in_executable_sha256 = ar_sha256 declared,
             in_source_commit = mf_source_commit m, in_source_tree = mf_source_tree m, in_target = target,
             in_bundle = bk_bundle (mf_compatibility m), in_asb_version = bk_asb_version (mf_compatibility m),
             in_protocol_version = bk_protocol_version (mf_compatibility m),
             in_coordinator_version = COORDINATOR_VERSION, in_coordinator_commit = COORDINATOR_COMMIT,
             in_quality_version = QUALITY_VERSION, in_quality_commit = QUALITY_COMMIT,
             in_classification = classification_name VerifiedExtension,
             in_endpoint = DEFAULT_ENDPOINT, in_channel = DEFAULT_CHANNEL, in_manifest_sha256 = [],
             in_workspace_state_root = ''workspace/state'', in_workspace_config_root = ''workspace/config'',
             in_workspace_cache_root = ''workspace/cache''\<rparr>
       in and_then (handoff_manifest_digest env i) (\<lambda>h. Inr (i\<lparr>in_manifest_sha256 := h\<rparr>, executable))))))))"

definition install :: "lifecycle_env \<Rightarrow> 's store_ops \<Rightarrow> 't self_test \<Rightarrow> bundle_manifest \<Rightarrow> (string \<times> u8 list) list \<Rightarrow>
    's \<Rightarrow> 't \<Rightarrow> (string, installation) result \<times> 's \<times> 't" where
  "install env ops test m verified s t =
     (case prepare_installation env m verified of
        Inl e \<Rightarrow> (Inl e, s, t)
      | Inr (i, executable) \<Rightarrow>
          (case so_stage ops i executable s of
             (Inl _, s1) \<Rightarrow> (Inl ''install_stage_failed'', s1, t)
           | (Inr _, s1) \<Rightarrow>
               (case so_staged_executable ops i s1 of
                  Inl _ \<Rightarrow> (Inl ''install_stage_verification_failed'', snd (so_discard_stage ops i s1), t)
                | Inr staged \<Rightarrow>
                    if length staged \<noteq> length executable
                    then (Inl ''install_self_test_failed'', snd (so_discard_stage ops i s1), t)
                    else (case le_sha256 env staged of
                       Inl e \<Rightarrow> (Inl e, s1, t)
                     | Inr d \<Rightarrow>
                         (case (if d = in_executable_sha256 i then test i staged t else (False, t)) of
                            (False, t') \<Rightarrow> (Inl ''install_self_test_failed'', snd (so_discard_stage ops i s1), t')
                          | (True, t') \<Rightarrow>
                              (case so_activate ops i s1 of
                                 (Inl _, s2) \<Rightarrow> (Inl ''install_activation_failed'', s2, t')
                               | (Inr _, s2) \<Rightarrow> (Inr i, s2, t')))))))"

definition verified_installation :: "lifecycle_env \<Rightarrow> 's store_ops \<Rightarrow> installation \<Rightarrow> 's \<Rightarrow> bool" where
  "verified_installation env ops i s \<longleftrightarrow> in_schema_version i = 1 \<and> in_classification i = ''verified_extension''
     \<and> in_target i = compiled_target (le_architecture env) \<and> in_asb_version i = ''0.1.0'' \<and> in_protocol_version i = 1
     \<and> bundle_matches_target (le_architecture env) i
     \<and> in_coordinator_version i = COORDINATOR_VERSION \<and> in_coordinator_commit i = COORDINATOR_COMMIT
     \<and> in_quality_version i = QUALITY_VERSION \<and> in_quality_commit i = QUALITY_COMMIT
     \<and> validate_handoff env i
     \<and> (case so_active_executable ops i s of Inl _ \<Rightarrow> False | Inr b \<Rightarrow> le_sha256 env b = Inr (in_executable_sha256 i))
     \<and> channel_permits_install (le_channel env)"

text \<open>The status names the active installation and whether it verifies.\<close>

record lifecycle_status =
  ls_installed :: bool
  ls_verified :: bool
  ls_installation :: "installation option"
  ls_reason :: string

definition status :: "lifecycle_env \<Rightarrow> 's store_ops \<Rightarrow> 's \<Rightarrow> lifecycle_status" where
  "status env ops s = (case so_active ops s of
     Inr (Some i) \<Rightarrow>
       (let valid = verified_installation env ops i s in
        \<lparr>ls_installed = True, ls_verified = valid, ls_installation = Some i,
         ls_reason = (if valid then ''verified_installation'' else ''installation_verification_failed'')\<rparr>)
   | _ \<Rightarrow> \<lparr>ls_installed = False, ls_verified = False, ls_installation = None, ls_reason = ''extension_not_installed''\<rparr>)"

definition lifecycle_remove :: "'s store_ops \<Rightarrow> ('s, string, unit) call" where
  "lifecycle_remove ops s = (case so_remove ops s of (Inl _, s') \<Rightarrow> (Inl ''extension_remove_failed'', s') | (Inr _, s') \<Rightarrow> (Inr (), s'))"

definition launch :: "lifecycle_env \<Rightarrow> 's store_ops \<Rightarrow> 't self_test \<Rightarrow> (installation \<Rightarrow> u8 list \<Rightarrow> ('l, unit, unit) call) \<Rightarrow>
    's \<Rightarrow> 't \<Rightarrow> 'l \<Rightarrow> (string, unit) result \<times> 't \<times> 'l" where
  "launch env ops test launcher s t l =
     (case so_active ops s of
        Inl _ \<Rightarrow> (Inl ''installation_verification_failed'', t, l)
      | Inr None \<Rightarrow> (Inl ''extension_not_installed'', t, l)
      | Inr (Some i) \<Rightarrow>
          if \<not> validate_handoff env i then (Inl ''installation_handoff_invalid'', t, l)
          else (case so_active_executable ops i s of
             Inl _ \<Rightarrow> (Inl ''installation_verification_failed'', t, l)
           | Inr executable \<Rightarrow>
               if \<not> channel_permits_install (le_channel env) then (Inl ''installation_verification_failed'', t, l)
               else (case le_sha256 env executable of
                  Inl e \<Rightarrow> (Inl e, t, l)
                | Inr d \<Rightarrow>
                    (case (if d = in_executable_sha256 i then test i executable t else (False, t)) of
                       (False, t') \<Rightarrow> (Inl ''launch_self_test_failed'', t', l)
                     | (True, t') \<Rightarrow>
                         (case launcher i executable l of
                            (Inl _, l') \<Rightarrow> (Inl ''frontend_launch_failed'', t', l')
                          | (Inr _, l') \<Rightarrow> (Inr (), t', l'))))))"

section \<open>What a store promises\<close>

text \<open>
  \<open>view\<close> is the installation that the store names active, \<open>sound\<close> its invariant. Staging and
  discarding do not change what is active; an installation that was staged and read back is stored
  faithfully; activation switches to it or keeps what was active; and only an executable with the digest of
  the active installation is handed out.
\<close>

locale lifecycle_store =
  fixes ops :: "'s store_ops" and sha256 :: digest_program and storable :: "installation \<Rightarrow> bool"
    and view :: "'s \<Rightarrow> installation option" and sound :: "'s \<Rightarrow> bool"
  assumes stage_keeps: "sound s \<Longrightarrow> so_stage ops i b s = (r, s') \<Longrightarrow> sound s' \<and> view s' = view s"
    and staged_storable: "so_stage ops i b s = (Inr (), s') \<Longrightarrow> so_staged_executable ops i s' = Inr b' \<Longrightarrow> b' = b \<and> storable i"
    and discard_keeps: "sound s \<Longrightarrow> so_discard_stage ops i s = (r, s') \<Longrightarrow> sound s' \<and> view s' = view s"
    and activate_switches: "sound s \<Longrightarrow> storable i \<Longrightarrow> so_staged_executable ops i s = Inr b \<Longrightarrow> sha256 b = Inr (in_executable_sha256 i) \<Longrightarrow>
      so_activate ops i s = (r, s') \<Longrightarrow> sound s' \<and> (r = Inr () \<and> view s' = Some i \<or> r = Inl () \<and> view s' \<in> {view s, Some i})"
    and remove_clears: "sound s \<Longrightarrow> so_remove ops s = (q, s') \<Longrightarrow> sound s' \<and> (q = Inr () \<and> view s' = None \<or> q = Inl () \<and> view s' \<in> {view s, None})"
    and active_view: "so_active ops s = Inr a \<Longrightarrow> view s = a"
    and executable_sound: "sound s \<Longrightarrow> so_active_executable ops i s = Inr b \<Longrightarrow> view s = Some i \<and> sha256 b = Inr (in_executable_sha256 i)"
begin

lemma install_outcome:
  assumes "sound s" "le_sha256 env = sha256" "install env ops test m verified s t = (r, s', t')"
  shows "sound s' \<and> (case r of
      Inr i \<Rightarrow> view s' = Some i \<and> (\<exists>b. prepare_installation env m verified = Inr (i, b) \<and> fst (test i b t))
    | Inl e \<Rightarrow> view s' = view s \<or> e = ''install_activation_failed''
        \<and> (\<exists>i b. prepare_installation env m verified = Inr (i, b) \<and> fst (test i b t) \<and> view s' = Some i))"
proof (cases "prepare_installation env m verified")
  case (Inl e)
  then show ?thesis using assms by (auto simp: install_def)
next
  case (Inr ib)
  obtain i b where ib: "ib = (i, b)" by (cases ib)
  obtain q s1 where stage: "so_stage ops i b s = (q, s1)" by (cases "so_stage ops i b s")
  have s1: "sound s1" "view s1 = view s" using stage_keeps [OF assms(1) stage] by auto
  have discard: "sound (snd (so_discard_stage ops i s1))" "view (snd (so_discard_stage ops i s1)) = view s"
    using discard_keeps [OF s1(1), of i "fst (so_discard_stage ops i s1)" "snd (so_discard_stage ops i s1)"] s1(2) by auto
  show ?thesis
  proof (cases "\<exists>b'. q = Inr () \<and> so_staged_executable ops i s1 = Inr b' \<and> sha256 b' = Inr (in_executable_sha256 i) \<and> fst (test i b' t)")
    case False
    then show ?thesis using assms(2,3) Inr ib stage s1 discard
      by (auto simp: install_def split: sum.splits if_splits prod.splits bool.splits)
  next
    case True
    then obtain b' where run: "q = Inr ()" "so_staged_executable ops i s1 = Inr b'" "sha256 b' = Inr (in_executable_sha256 i)" "fst (test i b' t)"
      by blast
    have same: "b' = b" "storable i" using staged_storable [OF stage [unfolded run(1)] run(2)] by auto
    obtain p s2 where act: "so_activate ops i s1 = (p, s2)" by (cases "so_activate ops i s1")
    note switched = activate_switches [OF s1(1) same(2) run(2,3) act]
    from run(4) obtain t1 where t1: "test i b t = (True, t1)" using same(1) by (cases "test i b t") auto
    show ?thesis using assms(2,3) Inr ib stage run same act switched s1 t1
      by (auto simp: install_def split: sum.splits)
  qed
qed

lemma launch_outcome:
  assumes "sound s" "le_sha256 env = sha256" "launch env ops test launcher s t l = (r, t', l')"
  shows "l' = l \<and> r \<noteq> Inr () \<or> (\<exists>i b. view s = Some i \<and> sha256 b = Inr (in_executable_sha256 i) \<and> validate_handoff env i
    \<and> channel_permits_install (le_channel env) \<and> fst (test i b t) \<and> l' = snd (launcher i b l)
    \<and> (r = Inr () \<longleftrightarrow> is_ok (fst (launcher i b l))))"
proof (cases "\<exists>i b t1. so_active ops s = Inr (Some i) \<and> so_active_executable ops i s = Inr b \<and> validate_handoff env i
    \<and> channel_permits_install (le_channel env) \<and> test i b t = (True, t1)")
  case False
  then show ?thesis using assms executable_sound [OF assms(1)]
    by (auto simp: launch_def split: sum.splits option.splits if_splits prod.splits bool.splits)
next
  case True
  then obtain i b t1 where run: "so_active ops s = Inr (Some i)" "so_active_executable ops i s = Inr b" "validate_handoff env i"
    "channel_permits_install (le_channel env)" "test i b t = (True, t1)" by blast
  note facts = executable_sound [OF assms(1) run(2)]
  show ?thesis
  proof (rule disjI2, intro exI conjI)
    show "view s = Some i" "sha256 b = Inr (in_executable_sha256 i)" using facts by auto
    show "l' = snd (launcher i b l)" "r = Inr () \<longleftrightarrow> is_ok (fst (launcher i b l))"
      using assms(2,3) run facts by (auto simp: launch_def split: sum.splits prod.splits)
  qed (use run in auto)
qed

end

section \<open>The directory keeps the promise\<close>

definition fs_view :: "lifecycle_env \<Rightarrow> lifecycle_fs \<Rightarrow> installation option" where
  "fs_view env s = read_state env (lf_active s)"

definition provided :: "lifecycle_env \<Rightarrow> string \<Rightarrow> version_dir option \<Rightarrow> bool" where
  "provided env k d \<longleftrightarrow> is_hex k 64 \<and> (case dir_executable d of None \<Rightarrow> False | Some b \<Rightarrow> le_sha256 env b = Inr k)"

definition fs_sound :: "lifecycle_env \<Rightarrow> lifecycle_fs \<Rightarrow> bool" where
  "fs_sound env s \<longleftrightarrow> (case fs_view env s of None \<Rightarrow> True
     | Some i \<Rightarrow> provided env (in_executable_sha256 i) (lf_versions s (in_executable_sha256 i)))"

definition fs_storable :: "lifecycle_env \<Rightarrow> installation \<Rightarrow> bool" where
  "fs_storable env i \<longleftrightarrow> (case le_to_vec env i of None \<Rightarrow> True | Some b \<Rightarrow> read_state env (Some b) = Some i)"

text \<open>What the promise is about: the state file and the versions.\<close>

definition core :: "lifecycle_fs \<Rightarrow> u8 list option \<times> (string \<rightharpoonup> version_dir)" where
  "core s = (lf_active s, lf_versions s)"

definition keeps_core :: "'a fs_call \<Rightarrow> bool" where
  "keeps_core m \<longleftrightarrow> (\<forall>s. core (snd (m s)) = core s)"

lemma core_faults [simp]: "core (s\<lparr>lf_faults := fs\<rparr>) = core s" "core (s\<lparr>lf_down := d\<rparr>) = core s"
  "core (s\<lparr>lf_temporary := b\<rparr>) = core s" "core (set_stage k v s) = core s"
  by (simp_all add: core_def set_stage_def)

lemma core_sound: "core s' = core s \<Longrightarrow> fs_sound env s' = fs_sound env s \<and> fs_view env s' = fs_view env s"
  by (cases "read_state env (lf_active s)") (auto simp: core_def fs_sound_def fs_view_def)

lemma fs_call_outcome:
  assumes "fs_call f h s = (r, s')"
  shows "\<exists>fs. r = Inr () \<and> s' = f (s\<lparr>lf_faults := fs\<rparr>)
     \<or> r = Inl () \<and> (s' = s\<lparr>lf_faults := fs\<rparr> \<or> s' = f (s\<lparr>lf_faults := fs\<rparr>)
         \<or> (\<exists>n. s' = h n (s\<lparr>lf_faults := fs\<rparr>)) \<or> s' = s\<lparr>lf_faults := fs, lf_down := True\<rparr>)"
proof (cases "lf_down s \<or> lf_faults s = []")
  case True
  then have "r = Inl () \<and> s' = s \<or> r = Inr () \<and> s' = f s"
    using assms by (cases "lf_down s") (auto simp: fs_call_def)
  moreover have "s\<lparr>lf_faults := lf_faults s\<rparr> = s" by simp
  ultimately show ?thesis by metis
next
  case False
  then obtain g fs where "\<not> lf_down s" "lf_faults s = g # fs" by (cases "lf_faults s") auto
  then show ?thesis using assms
    by (intro exI [of _ fs]) (cases g, auto simp: fs_call_def)
qed

lemma fs_call_Inr: "fs_call f h s = (Inr u, s') \<Longrightarrow> \<exists>fs. s' = f (s\<lparr>lf_faults := fs\<rparr>)"
  using fs_call_outcome [of f h s "Inr u" s'] by auto

lemma fs_call_core:
  "(\<And>s. core (f s) = core s) \<Longrightarrow> (\<And>n s. core (h n s) = core s) \<Longrightarrow> keeps_core (fs_call f h)"
  unfolding keeps_core_def using fs_call_outcome [of f h] by (metis core_faults(1,2) prod.collapse)

lemma and_call_core: "keeps_core m \<Longrightarrow> (\<And>x. keeps_core (f x)) \<Longrightarrow> keeps_core (and_call m f)"
  unfolding keeps_core_def and_call_def
  by (auto split: prod.splits sum.splits) (metis prod.collapse snd_conv)+

lemma and_call_Inr: "and_call m f s = (Inr y, s') \<longleftrightarrow> (\<exists>x s1. m s = (Inr x, s1) \<and> f x s1 = (Inr y, s'))"
  by (auto simp: and_call_def split: prod.splits sum.splits)

lemma and_call_cases: "and_call m f s = (r, s') \<Longrightarrow> (\<exists>e. m s = (Inl e, s') \<and> r = Inl e) \<or> (\<exists>x s1. m s = (Inr x, s1) \<and> f x s1 = (r, s'))"
  by (auto simp: and_call_def split: prod.splits sum.splits)

lemma ok_call_core [intro!, simp]: "keeps_core (ok_call x)" "keeps_core err_call"
  by (simp_all add: keeps_core_def ok_call_def err_call_def)

lemma stage_calls_core [intro!, simp]:
  "keeps_core sync" "keeps_core (remove_stage k)" "keeps_core (create_stage k)" "keeps_core (write_stage k put b)"
  unfolding sync_def remove_stage_def create_stage_def write_stage_def by (rule fs_call_core; simp)+

lemma keeps_coreD: "keeps_core m \<Longrightarrow> m s = (r, s') \<Longrightarrow> core s' = core s"
  unfolding keeps_core_def by (metis snd_conv)

lemma remove_stage_core: "core (snd (remove_stage k s)) = core s"
  using stage_calls_core(2) by (simp add: keeps_core_def)

lemma fs_stage_core: "fs_stage env i b s = (r, s') \<Longrightarrow> core s' = core s"
proof -
  let ?k = "in_executable_sha256 i"
  have first: "keeps_core (and_call (remove_stage ?k) (\<lambda>_. create_stage ?k))" "keeps_core (and_call (ok_call ()) (\<lambda>_. create_stage ?k))"
    by (rule and_call_core; simp)+
  have second: "keeps_core (and_call (write_stage ?k p b) (\<lambda>_. and_call sync (\<lambda>_.
      case le_to_vec env i of None \<Rightarrow> err_call | Some b \<Rightarrow> and_call (write_stage ?k p' b) (\<lambda>_. and_call sync (\<lambda>_. sync)))))" for p p'
    by (intro and_call_core) (auto intro!: and_call_core split: option.splits)
  show "fs_stage env i b s = (r, s') \<Longrightarrow> core s' = core s"
    unfolding fs_stage_def Let_def
    by (auto split: if_splits prod.splits sum.splits simp: remove_stage_core
        dest!: keeps_coreD [OF first(1)] keeps_coreD [OF first(2)] keeps_coreD [OF second])
qed

lemma fs_stage_stored:
  assumes "fs_stage env i b s = (Inr (), s')"
  shows "\<exists>d. le_to_vec env i = Some d \<and> lf_stages s' (in_executable_sha256 i) = Some \<lparr>vd_executable = Some b, vd_state = Some d\<rparr>"
  using assms unfolding fs_stage_def Let_def
  by (auto split: if_splits prod.splits sum.splits option.splits
      simp: and_call_Inr write_stage_def create_stage_def sync_def err_call_def set_stage_def dest!: fs_call_Inr)

lemma write_active_outcome:
  assumes "write_active b s = (r, s')"
  shows "lf_versions s' = lf_versions s \<and> (r = Inr () \<and> lf_active s' = Some b \<or> r = Inl () \<and> lf_active s' \<in> {lf_active s, Some b})"
proof -
  let ?create = "fs_call (\<lambda>s. s\<lparr>lf_temporary := Some []\<rparr>) (\<lambda>_. id)"
  let ?fill = "fs_call (\<lambda>s. s\<lparr>lf_temporary := Some b\<rparr>) (\<lambda>n s. s\<lparr>lf_temporary := Some (take n b)\<rparr>)"
  let ?rename = "fs_call (\<lambda>s. s\<lparr>lf_active := Some b, lf_temporary := None\<rparr>) (\<lambda>_. id)"
  let ?clean = "fs_call (\<lambda>s. s\<lparr>lf_temporary := None\<rparr>) (\<lambda>_. id)"
  let ?body = "and_call ?fill (\<lambda>_. and_call sync (\<lambda>_. and_call ?rename (\<lambda>_. sync)))"
  have cores: "keeps_core ?create" "keeps_core ?fill" "keeps_core ?clean" by (rule fs_call_core; simp)+
  have clean: "core (snd (?clean s)) = core s" for s using cores(3) by (simp add: keeps_core_def)
  have rename: "lf_versions s2 = lf_versions s1 \<and> (q = Inr () \<and> lf_active s2 = Some b \<or> q = Inl () \<and> lf_active s2 \<in> {lf_active s1, Some b})"
    if "?rename s1 = (q, s2)" for s1 q s2
    using fs_call_outcome [OF that] by auto
  have body: "lf_versions s2 = lf_versions s1 \<and> (q = Inr () \<and> lf_active s2 = Some b \<or> q = Inl () \<and> lf_active s2 \<in> {lf_active s1, Some b})"
    if "?body s1 = (q, s2)" for s1 q s2
    using that
    by (cases q) (auto dest!: and_call_cases keeps_coreD [OF cores(2)] keeps_coreD [OF stage_calls_core(1)] rename simp: core_def)
  show ?thesis
  proof (cases "?create s")
    case (Pair q s1)
    have s1: "core s1 = core s" using keeps_coreD [OF cores(1) Pair] .
    obtain p s2 where run: "?body s1 = (p, s2)" by (cases "?body s1")
    show ?thesis using assms Pair s1 run body [OF run] clean [of s2]
      by (cases q; cases p) (auto simp: write_active_def core_def)
  qed
qed

lemma move_stage_outcome:
  assumes "move_stage k s = (r, s')"
  shows "lf_active s' = lf_active s \<and> (r = Inr () \<and> lf_versions s' = (lf_versions s)(k := lf_stages s k)
    \<or> r = Inl () \<and> lf_versions s' \<in> {lf_versions s, (lf_versions s)(k := lf_stages s k)})"
  using fs_call_outcome [OF assms [unfolded move_stage_def]] by (auto simp: set_stage_def)

lemma sound_update:
  assumes "fs_sound env s" "provided env k d \<or> d = lf_versions s k" "lf_active s' = lf_active s" "lf_versions s' = (lf_versions s)(k := d)"
  shows "fs_sound env s' \<and> fs_view env s' = fs_view env s"
  using assms by (auto simp: fs_sound_def fs_view_def split: option.splits)

lemma fs_activate_outcome:
  assumes "fs_sound env s" "fs_storable env i" "fs_staged_executable env i s = Inr b" "le_sha256 env b = Inr (in_executable_sha256 i)"
    and run: "fs_activate env i s = (r, s')"
  shows "fs_sound env s' \<and> (r = Inr () \<and> fs_view env s' = Some i \<or> r = Inl () \<and> fs_view env s' \<in> {fs_view env s, Some i})"
proof -
  let ?k = "in_executable_sha256 i"
  have staged: "provided env ?k (lf_stages s ?k)" "\<not> lf_down s" "is_hex ?k 64" "dir_state env (lf_stages s ?k) = Some i"
    using assms(3,4) by (auto simp: fs_staged_executable_def provided_def Let_def result_simps split: if_splits)
  let ?first = "if lf_versions s ?k \<noteq> None
    then (if dir_state env (lf_versions s ?k) = Some i
            \<and> (case dir_executable (lf_versions s ?k) of None \<Rightarrow> False | Some b \<Rightarrow> le_sha256 env b = Inr ?k)
          then remove_stage ?k else err_call)
    else and_call (move_stage ?k) (\<lambda>_. sync)"
  let ?second = "case le_to_vec env i of None \<Rightarrow> err_call
    | Some b \<Rightarrow> (\<lambda>s. if lf_temporary s \<noteq> None then (Inl (), s) else write_active b s)"
  have first: "fs_sound env s1 \<and> fs_view env s1 = fs_view env s \<and> (q = Inr () \<longrightarrow> provided env ?k (lf_versions s1 ?k))"
    if "?first s = (q, s1)" for q s1
  proof (cases "lf_versions s ?k = None")
    case True
    with that consider (moved) s2 where "move_stage ?k s = (Inr (), s2)" "sync s2 = (q, s1)" | (stuck) "move_stage ?k s = (Inl (), s1)" "q = Inl ()"
      by (auto dest!: and_call_cases)
    then show ?thesis
    proof cases
      case moved
      then show ?thesis
        using move_stage_outcome [OF moved(1)] keeps_coreD [OF stage_calls_core(1) moved(2)] staged(1)
          sound_update [OF assms(1), of ?k "lf_stages s ?k" s2] core_sound [of s1 s2 env] by (simp add: core_def)
    next
      case stuck
      then show ?thesis
        using move_stage_outcome [OF stuck(1)] staged(1) sound_update [OF assms(1), of ?k _ s1]
        by (metis fun_upd_triv insertE singletonD sum.distinct(1))
    qed
  next
    case False
    then have "core s1 = core s \<and> (q = Inr () \<longrightarrow> provided env ?k (lf_versions s ?k))"
      using that staged(3) keeps_coreD [OF stage_calls_core(2)]
      by (auto simp: err_call_def provided_def split: if_splits)
    then show ?thesis using core_sound [of s1 s env] assms(1) by (simp add: core_def)
  qed
  have second: "fs_sound env s2 \<and> (q = Inr () \<and> fs_view env s2 = Some i \<or> q = Inl () \<and> fs_view env s2 \<in> {fs_view env s1, Some i})"
    if "?second s1 = (q, s2)" "fs_sound env s1" "provided env ?k (lf_versions s1 ?k)" for s1 q s2
  proof (cases "\<exists>d. le_to_vec env i = Some d \<and> lf_temporary s1 = None")
    case True
    then obtain d where d: "le_to_vec env i = Some d" "lf_temporary s1 = None" by blast
    then have wrote: "write_active d s1 = (q, s2)" using that(1) by simp
    have "read_state env (Some d) = Some i" using assms(2) d(1) by (simp add: fs_storable_def)
    then show ?thesis using write_active_outcome [OF wrote] that(2,3)
      by (auto simp: fs_sound_def fs_view_def split: option.splits)
  next
    case False
    then show ?thesis using that by (auto simp: err_call_def split: option.splits if_splits)
  qed
  have "and_call ?first (\<lambda>_. ?second) s = (r, s')"
    using run staged by (simp add: fs_activate_def Let_def)
  then consider (stopped) "?first s = (Inl (), s')" "r = Inl ()" | (went) s1 where "?first s = (Inr (), s1)" "?second s1 = (r, s')"
    by (auto dest: and_call_cases)
  then show ?thesis
  proof cases
    case stopped
    then show ?thesis using first [OF stopped(1)] by simp
  next
    case went
    note before = first [OF went(1)]
    from second [OF went(2)] before show ?thesis by simp
  qed
qed

lemma remove_entries_active: "lf_active (snd (remove_entries es s)) = lf_active s"
proof (induction es arbitrary: s)
  case Nil
  show ?case using stage_calls_core(1) by (simp add: keeps_core_def core_def)
next
  case (Cons e es)
  obtain staged k where e: "e = (staged, k)" by (cases e)
  let ?one = "if staged then remove_stage k
      else fs_call (\<lambda>s. s\<lparr>lf_versions := (lf_versions s)(k := None)\<rparr>)
        (\<lambda>n s. s\<lparr>lf_versions := (lf_versions s)(k := map_option (half_removed n) (lf_versions s k))\<rparr>)"
  obtain r s1 where one: "?one s = (r, s1)" by (cases "?one s")
  have "lf_active s1 = lf_active s"
  proof (cases staged)
    case True
    then show ?thesis using one keeps_coreD [OF stage_calls_core(2)] by (simp add: core_def)
  next
    case False
    with one have "fs_call (\<lambda>s. s\<lparr>lf_versions := (lf_versions s)(k := None)\<rparr>)
        (\<lambda>n s. s\<lparr>lf_versions := (lf_versions s)(k := map_option (half_removed n) (lf_versions s k))\<rparr>) s = (r, s1)" by simp
    from fs_call_outcome [OF this] show ?thesis by auto
  qed
  then show ?case using one e Cons.IH [of s1] by (cases r) (simp_all add: and_call_def)
qed

lemma fs_remove_outcome:
  assumes "fs_sound env s" "fs_remove listing s = (r, s')"
  shows "fs_sound env s' \<and> (r = Inr () \<and> fs_view env s' = None \<or> r = Inl () \<and> fs_view env s' \<in> {fs_view env s, None})"
proof -
  let ?first = "if lf_active s = None \<and> \<not> lf_down s then ok_call () else fs_call (\<lambda>s. s\<lparr>lf_active := None\<rparr>) (\<lambda>_. id)"
  have gone: "fs_sound env s2 \<and> fs_view env s2 = None" if "lf_active s2 = None" for s2
    using that by (simp add: fs_sound_def fs_view_def read_state_def read_bounded_def)
  have first: "q = Inr () \<and> lf_active s1 = None \<or> q = Inl () \<and> (core s1 = core s \<or> lf_active s1 = None)" if "?first s = (q, s1)" for q s1
    using that fs_call_outcome [of "\<lambda>s. s\<lparr>lf_active := None\<rparr>" "\<lambda>_. id" s q s1]
    by (auto simp: ok_call_def split: if_splits)
  from assms(2) consider (stopped) "?first s = (Inl (), s')" "r = Inl ()"
    | (went) s1 where "?first s = (Inr (), s1)" "remove_entries listing s1 = (r, s')"
    unfolding fs_remove_def by (auto dest!: and_call_cases)
  then show ?thesis
  proof cases
    case stopped
    then show ?thesis using first [OF stopped(1)] gone [of s'] core_sound [of s' s env] assms(1) by auto
  next
    case went
    then have "lf_active s' = None" using first [OF went(1)] remove_entries_active [of listing s1] by simp
    then show ?thesis using gone [of s'] by (cases r) auto
  qed
qed

lemma fs_staged_faithful:
  assumes "fs_stage env i b s = (Inr (), s')" "fs_staged_executable env i s' = Inr b'"
  shows "b' = b \<and> fs_storable env i"
  using fs_stage_stored [OF assms(1)] assms(2)
  by (auto simp: fs_staged_executable_def Let_def dir_state_def dir_executable_def fs_storable_def read_bounded_def [of MAX_EXECUTABLE_BYTES]
      result_simps split: if_splits)

lemma fs_discard_core: "fs_discard_stage i s = (r, s') \<Longrightarrow> core s' = core s"
  by (auto simp: fs_discard_stage_def Let_def split: if_splits dest: keeps_coreD [OF stage_calls_core(2)])

lemma fs_active_view: "fs_active env s = Inr a \<Longrightarrow> fs_view env s = a"
  by (auto simp: fs_active_def fs_view_def split: if_splits option.splits)

lemma fs_executable_sound:
  assumes "fs_sound env s" "fs_active_executable env i s = Inr b"
  shows "fs_view env s = Some i \<and> le_sha256 env b = Inr (in_executable_sha256 i)"
proof -
  from assms(2) obtain a where "fs_active env s = Inr a" "a = Some i" "dir_executable (lf_versions s (in_executable_sha256 i)) = Some b"
    by (auto simp: fs_active_executable_def result_simps split: if_splits)
  then show ?thesis using fs_active_view [of env s a] assms(1) by (simp add: fs_sound_def provided_def)
qed

interpretation directory: lifecycle_store "fs_ops env listing" "le_sha256 env" "fs_storable env" "fs_view env" "fs_sound env" for env listing
proof (unfold_locales, goal_cases)
  case (1 s i b r s')
  then show ?case using core_sound [OF fs_stage_core [of env i b s r s'], of env] by (simp add: fs_ops_def)
next
  case (2 i b s s' b')
  then show ?case using fs_staged_faithful by (simp add: fs_ops_def)
next
  case (3 s i r s')
  then show ?case using core_sound [OF fs_discard_core [of i s r s'], of env] by (simp add: fs_ops_def)
next
  case (4 s i b r s')
  then show ?case using fs_activate_outcome by (simp add: fs_ops_def)
next
  case (5 s q s')
  then show ?case using fs_remove_outcome by (simp add: fs_ops_def)
next
  case (6 s a)
  then show ?case by (simp add: fs_ops_def fs_active_view)
next
  case (7 s i b)
  then show ?case by (simp add: fs_ops_def fs_executable_sound)
qed

section \<open>Histories\<close>

text \<open>
  What may happen to a store: installations with any manifest, files and verdict of the self test, removals, new
  processes that open it, and faults of the calls that follow.
\<close>

datatype lifecycle_event =
  LifecycleInstall bundle_manifest "(string \<times> u8 list) list" bool
| LifecycleRemove "(bool \<times> string) list" | LifecycleOpen "string list" | LifecycleFaults "fs_fault list"

definition lifecycle_step :: "lifecycle_env \<Rightarrow> lifecycle_event \<Rightarrow> (lifecycle_fs, string, unit) call" where
  "lifecycle_step env ev s = (case ev of
     LifecycleInstall m files verdict \<Rightarrow>
       (case install env (fs_ops env []) (\<lambda>_ _ t. (verdict, t)) m files s () of (r, s', _) \<Rightarrow> (and_then r (\<lambda>_. Inr ()), s'))
   | LifecycleRemove listing \<Rightarrow> lifecycle_remove (fs_ops env listing) s
   | LifecycleOpen listing \<Rightarrow> (case fs_open listing s of (r, s') \<Rightarrow> (map_err (\<lambda>_. ''lifecycle_unavailable'') r, s'))
   | LifecycleFaults fs \<Rightarrow> (Inr (), s\<lparr>lf_faults := fs\<rparr>))"

definition fs_empty :: lifecycle_fs where
  "fs_empty = \<lparr>lf_active = None, lf_temporary = None, lf_versions = Map.empty, lf_stages = Map.empty, lf_down = False, lf_faults = []\<rparr>"

lemma fs_empty_sound: "fs_sound env fs_empty"
  by (simp add: fs_sound_def fs_view_def fs_empty_def read_state_def read_bounded_def)

lemma remove_stages_core: "keeps_core (remove_stages ks)"
  by (induction ks) (auto intro: and_call_core)

lemma lifecycle_step_sound: "fs_sound env s \<Longrightarrow> fs_sound env (snd (lifecycle_step env ev s))"
proof (cases ev)
  case (LifecycleInstall m files verdict)
  let ?run = "install env (fs_ops env []) (\<lambda>_ _ t. (verdict, t)) m files s ()"
  assume sound: "fs_sound env s"
  obtain r s' t' where run: "?run = (r, s', t')" by (metis prod_cases3)
  from directory.install_outcome [OF sound refl run] show ?thesis
    using LifecycleInstall run by (simp add: lifecycle_step_def)
next
  case (LifecycleRemove listing)
  assume "fs_sound env s"
  then show ?thesis using LifecycleRemove directory.remove_clears [of env s listing]
    by (auto simp: lifecycle_step_def lifecycle_remove_def split: prod.splits sum.splits)
next
  case (LifecycleOpen listing)
  assume sound: "fs_sound env s"
  have "core (snd (fs_open listing s)) = core s"
    using remove_stages_core [of listing] by (simp add: fs_open_def keeps_core_def)
  then show ?thesis using LifecycleOpen sound core_sound [of "snd (fs_open listing s)" s env]
    by (auto simp: lifecycle_step_def split: prod.splits)
next
  case (LifecycleFaults fs)
  assume "fs_sound env s"
  then show ?thesis using LifecycleFaults core_sound [of "s\<lparr>lf_faults := fs\<rparr>" s env] by (simp add: lifecycle_step_def)
qed

interpretation lifecycle: safe_machine "lifecycle_step env" "fs_sound env" for env
  by unfold_locales (rule lifecycle_step_sound)

section \<open>A successful installation\<close>

lemma sync_alive: "sync s = (Inr u, s') \<Longrightarrow> \<not> lf_down s'"
  by (auto simp: sync_def fs_call_def Let_def split: if_splits list.splits fs_fault.splits)

lemma write_active_alive: "write_active b s = (Inr u, s') \<Longrightarrow> \<not> lf_down s'"
  by (auto simp: write_active_def and_call_Inr split: prod.splits sum.splits dest: sync_alive)

lemma fs_activate_alive: "fs_activate env i s = (Inr u, s') \<Longrightarrow> \<not> lf_down s'"
  by (auto simp: fs_activate_def Let_def and_call_Inr err_call_def split: if_splits option.splits dest: write_active_alive)

lemma install_Inr_alive:
  "install env (fs_ops env listing) test m files s t = (Inr i, s', t') \<Longrightarrow> \<not> lf_down s'"
  by (auto simp: install_def fs_ops_def split: sum.splits prod.splits if_splits bool.splits dest: fs_activate_alive)

lemma active_readable:
  assumes "fs_sound env s" "fs_view env s = Some i" "\<not> lf_down s"
  shows "fs_active env s = Inr (Some i)" "\<exists>b. fs_active_executable env i s = Inr b \<and> le_sha256 env b = Inr (in_executable_sha256 i)"
proof -
  show active: "fs_active env s = Inr (Some i)" using assms(2,3) by (simp add: fs_active_def fs_view_def)
  show "\<exists>b. fs_active_executable env i s = Inr b \<and> le_sha256 env b = Inr (in_executable_sha256 i)"
    using assms(1,2) active by (auto simp: fs_active_executable_def fs_sound_def provided_def split: option.splits)
qed

lemma prepared_fields:
  assumes "prepare_installation env m files = Inr (i, b)" "verify_bundle_manifest authentic from_slice input now e = Inr m"
    and "\<And>b d. le_sha256 env b = Inr d \<Longrightarrow> length d = 64"
  shows "in_schema_version i = 1" "in_classification i = ''verified_extension''" "in_bundle i = ec_bundle e"
    "in_asb_version i = ec_asb_version e" "in_protocol_version i = ec_protocol_version e"
    "in_coordinator_version i = COORDINATOR_VERSION" "in_coordinator_commit i = COORDINATOR_COMMIT"
    "in_quality_version i = QUALITY_VERSION" "in_quality_commit i = QUALITY_COMMIT"
    "installation_target (ec_architecture e) = Inr (in_target i)" "validate_handoff env i"
    "om_get files ''asb-tui'' = Some b" "executable_sha256 m = Some (in_executable_sha256 i)"
proof -
  have "validate_compatibility (mf_compatibility m) e = Inr ()"
    using assms(2) parse_valid by (auto simp: verify_bundle_manifest_def result_simps valid_manifest_def split: if_splits)
  then have compat: "bk_bundle (mf_compatibility m) = ec_bundle e" "bk_architecture (mf_compatibility m) = ec_architecture e"
    "bk_asb_version (mf_compatibility m) = ec_asb_version e" "bk_protocol_version (mf_compatibility m) = ec_protocol_version e"
    by (simp_all add: validate_compatibility_def)
  note prepared = assms(1) [unfolded prepare_installation_def Let_def]
  from prepared compat show "in_schema_version i = 1" "in_classification i = ''verified_extension''" "in_bundle i = ec_bundle e"
    "in_asb_version i = ec_asb_version e" "in_protocol_version i = ec_protocol_version e"
    "in_coordinator_version i = COORDINATOR_VERSION" "in_coordinator_commit i = COORDINATOR_COMMIT"
    "in_quality_version i = QUALITY_VERSION" "in_quality_commit i = QUALITY_COMMIT"
    "installation_target (ec_architecture e) = Inr (in_target i)"
    "om_get files ''asb-tui'' = Some b" "executable_sha256 m = Some (in_executable_sha256 i)"
    by (auto simp: result_simps classification_name_def executable_sha256_def)
  have roots: "relative_root ''workspace/state''" "relative_root ''workspace/config''" "relative_root ''workspace/cache''"
    by (simp_all add: relative_root_def)
  from prepared assms(3) roots show "validate_handoff env i"
    by (auto simp: result_simps validate_handoff_def handoff_manifest_digest_def handoff_fields_def)
qed

section \<open>Properties\<close>


text \<open>
  C8: An installation either activates what it prepared, after the self test accepted exactly the prepared
  bytes, or it keeps what was active. The one exception is an activation that reports a failure after the
  state file was renamed: then the new installation is active although the call failed.
\<close>

theorem install_all_or_nothing:
  assumes "fs_sound env s" "install env (fs_ops env listing) test m files s t = (r, s', t')"
  shows "fs_sound env s' \<and> (case r of
      Inr i \<Rightarrow> fs_view env s' = Some i \<and> (\<exists>b. prepare_installation env m files = Inr (i, b) \<and> fst (test i b t))
    | Inl e \<Rightarrow> fs_view env s' = fs_view env s \<or> e = ''install_activation_failed''
        \<and> (\<exists>i b. prepare_installation env m files = Inr (i, b) \<and> fst (test i b t) \<and> fs_view env s' = Some i))"
  by (rule directory.install_outcome [OF assms(1) refl assms(2)])

text \<open>
  C9: The launcher runs at most once, and only on bytes that have the digest of the active installation, whose
  handoff is valid and whose self test passed, on a channel that permits installations; otherwise it
  is not called and the launch fails. This holds in every store that any history leaves.
\<close>

theorem launch_only_verified:
  assumes "s = run_calls (lifecycle_step env) evs fs_empty"
    and "launch env (fs_ops env listing) test launcher s t l = (r, t', l')"
  shows "l' = l \<and> r \<noteq> Inr () \<or> (\<exists>i b. fs_view env s = Some i \<and> le_sha256 env b = Inr (in_executable_sha256 i)
    \<and> validate_handoff env i \<and> channel_permits_install (le_channel env) \<and> fst (test i b t) \<and> l' = snd (launcher i b l)
    \<and> (r = Inr () \<longleftrightarrow> is_ok (fst (launcher i b l))))"
proof -
  have "fs_sound env s" unfolding assms(1) by (rule lifecycle.run_inv [OF fs_empty_sound])
  from directory.launch_outcome [OF this refl assms(2)] show ?thesis .
qed

text \<open>
  C10: A release whose manifest was verified and that was installed is reported as verified exactly when the
  channel permits installations, and then a launch hands an executable with its digest to the launcher.
\<close>

theorem installed_release_verifies:
  assumes "verify_bundle_manifest authentic from_slice input now e = Inr m" "ec_asb_version e = ''0.1.0''" "ec_protocol_version e = 1"
    and "ec_architecture e = le_architecture env" "Some (ec_bundle e) = bundle_name (ec_architecture e)"
    and digests: "\<And>b d. le_sha256 env b = Inr d \<Longrightarrow> length d = 64"
    and sound: "fs_sound env s" and run: "install env (fs_ops env listing) test m files s t = (Inr i, s', t')"
  shows "ls_installation (status env (fs_ops env listing) s') = Some i
    \<and> (ls_verified (status env (fs_ops env listing) s') \<longleftrightarrow> channel_permits_install (le_channel env))
    \<and> (\<exists>b. le_sha256 env b = Inr (in_executable_sha256 i)
        \<and> launch env (fs_ops env listing) (\<lambda>_ _ t. (True, t)) (\<lambda>i b l. (Inr (), (i, b) # l)) s' () [] =
          (if channel_permits_install (le_channel env) then (Inr (), (), [(i, b)])
           else (Inl ''installation_verification_failed'', (), [])))"
proof -
  from directory.install_outcome [OF sound refl run]
  obtain b where after: "fs_sound env s'" "fs_view env s' = Some i" "prepare_installation env m files = Inr (i, b)" by auto
  note fields = prepared_fields [OF after(3) assms(1) digests]
  note active = active_readable [OF after(1,2) install_Inr_alive [OF run]]
  obtain x where x: "fs_active_executable env i s' = Inr x" "le_sha256 env x = Inr (in_executable_sha256 i)" using active(2) by blast
  have target: "in_target i = compiled_target (le_architecture env)" "bundle_matches_target (le_architecture env) i"
    using fields(10,3) assms(4,5)
    by (auto simp: installation_target_def compiled_target_def bundle_matches_target_def bundle_name_def split: architecture.splits)
  have "verified_installation env (fs_ops env listing) i s' \<longleftrightarrow> channel_permits_install (le_channel env)"
    using fields target x assms(2,3) by (simp add: verified_installation_def fs_ops_def)
  then have "ls_installation (status env (fs_ops env listing) s') = Some i"
    "ls_verified (status env (fs_ops env listing) s') \<longleftrightarrow> channel_permits_install (le_channel env)"
    using active(1) by (simp_all add: status_def fs_ops_def Let_def)
  moreover have "launch env (fs_ops env listing) (\<lambda>_ _ t. (True, t)) (\<lambda>i b l. (Inr (), (i, b) # l)) s' () [] =
      (if channel_permits_install (le_channel env) then (Inr (), (), [(i, x)]) else (Inl ''installation_verification_failed'', (), []))"
    using active(1) x fields(11) by (simp add: launch_def fs_ops_def)
  ultimately show ?thesis using x(2) by blast
qed

section \<open>A sample installation\<close>

definition sample_files :: "(string \<times> u8 list) list" where
  "sample_files = [(''asb-tui'', [0, 0, 0]), (''licenses'', [0, 0, 0, 0]), (''provenance'', [0, 0, 0, 0, 0]), (''sbom'', [0, 0]),
     (''source'', [0, 0, 0, 0, 0, 0])]"

definition sample_installation :: installation where
  "sample_installation = \<lparr>in_schema_version = 1, in_release = ''v1.0.0'', in_executable_sha256 = length_digest 3,
     in_source_commit = replicate 40 (CHR ''c''), in_source_tree = replicate 40 (CHR ''c''),
     in_target = ''x86_64-unknown-linux-gnu'', in_bundle = ''asb-tui-v1-linux-x86_64'', in_asb_version = ''0.1.0'',
     in_protocol_version = 1, in_coordinator_version = COORDINATOR_VERSION, in_coordinator_commit = COORDINATOR_COMMIT,
     in_quality_version = QUALITY_VERSION, in_quality_commit = QUALITY_COMMIT, in_classification = ''verified_extension'',
     in_endpoint = DEFAULT_ENDPOINT, in_channel = DEFAULT_CHANNEL, in_manifest_sha256 = length_digest 2,
     in_workspace_state_root = ''workspace/state'', in_workspace_config_root = ''workspace/config'',
     in_workspace_cache_root = ''workspace/cache''\<rparr>"

definition sample_env :: lifecycle_env where
  "sample_env = \<lparr>le_sha256 = sample_digest, le_handoff_json = (\<lambda>_. Some [0, 0]), le_to_vec = (\<lambda>_. Some [1]),
     le_from_slice = (\<lambda>_. Some sample_installation),
     le_channel = Some \<lparr>ch_schema_version = 1, ch_trust_policy_version = 1, ch_classification = ''verified_extension'',
       ch_installable = True, ch_release_artifacts_published = True,
       ch_promotion_requirements = map (\<lambda>n. (n, True)) REQUIRED_PROMOTION_REQUIREMENTS\<rparr>,
     le_architecture = ArchX86_64\<rparr>"

lemma sample_prepared: "prepare_installation sample_env sample_manifest sample_files = Inr (sample_installation, [0, 0, 0])"
  by (simp add: prepare_installation_def sample_env_def sample_manifest_def sample_files_def Let_def find_artifact_def
      sample_artifact_def sample_digest_def sample_lengths installation_target_def handoff_manifest_digest_def
      sample_installation_def classification_name_def)

definition sample_store :: lifecycle_fs where
  "sample_store = fst (snd (install sample_env (fs_ops sample_env []) (\<lambda>_ _ t. (True, t)) sample_manifest sample_files fs_empty ()))"

lemma sample_installed:
  "install sample_env (fs_ops sample_env []) (\<lambda>_ _ t. (True, t)) sample_manifest sample_files fs_empty ()
     = (Inr sample_installation, sample_store, ())"
proof -
  have k: "in_executable_sha256 sample_installation = length_digest 3" by (simp add: sample_installation_def)
  have env: "le_sha256 sample_env = sample_digest" "le_to_vec sample_env i = Some [1]" "le_from_slice sample_env b = Some sample_installation" for i b
    by (simp_all add: sample_env_def)
  have "fst (install sample_env (fs_ops sample_env []) (\<lambda>_ _ t. (True, t)) sample_manifest sample_files fs_empty ()) = Inr sample_installation"
    by (simp add: install_def sample_prepared fs_ops_def fs_empty_def fs_stage_def Let_def MAX_EXECUTABLE_BYTES_def k env
        ok_call_def create_stage_def write_stage_def fs_call_def sync_def set_stage_def and_call_def
        fs_staged_executable_def dir_state_def dir_executable_def read_state_def read_bounded_def MAX_STATE_BYTES_def
        sample_digest_def sample_lengths fs_activate_def move_stage_def write_active_def)
  then show ?thesis unfolding sample_store_def by (metis old.unit.exhaust prod.collapse)
qed

theorem install_all_or_nothing_witness:
  "fs_view sample_env sample_store = Some sample_installation"
  using install_all_or_nothing [OF fs_empty_sound sample_installed] by simp

lemma sample_permits: "channel_permits_install (le_channel sample_env)"
  by (simp add: channel_permits_install_def compiled_classification_def classification_for_def sample_env_def list_all_iff
      image_image REQUIRED_PROMOTION_REQUIREMENTS_def)

theorem launch_only_verified_witness:
  "\<exists>b. launch sample_env (fs_ops sample_env []) (\<lambda>_ _ t. (True, t)) (\<lambda>i b l. (Inr (), (i, b) # l)) sample_store () []
       = (Inr (), (), [(sample_installation, b)])
     \<and> le_sha256 sample_env b = Inr (in_executable_sha256 sample_installation)"
proof -
  let ?run = "launch sample_env (fs_ops sample_env []) (\<lambda>_ _ t. (True, t)) (\<lambda>i b l. (Inr (), (i, b) # l)) sample_store () []"
  have digests: "length d = 64" if "le_sha256 sample_env b = Inr d" for b d
    using that by (auto simp: sample_env_def sample_digest_def length_digest_def)
  have history: "sample_store = run_calls (lifecycle_step sample_env) [LifecycleInstall sample_manifest sample_files True] fs_empty"
    by (simp add: lifecycle_step_def sample_installed)
  have after: "fs_sound sample_env sample_store" "fs_view sample_env sample_store = Some sample_installation"
    using directory.install_outcome [OF fs_empty_sound refl sample_installed] by auto
  note active = active_readable [OF after install_Inr_alive [OF sample_installed]]
  have "fst ?run = Inr ()"
    using active prepared_fields(11) [OF sample_prepared sample_accepted digests] sample_permits
    by (auto simp: launch_def fs_ops_def)
  then obtain t l where run: "?run = (Inr (), t, l)" by (cases ?run) auto
  from launch_only_verified [OF history run] after(2) run show ?thesis by auto
qed

theorem installed_release_verifies_witness:
  "ls_verified (status sample_env (fs_ops sample_env []) sample_store)"
proof -
  have "length d = 64" if "le_sha256 sample_env b = Inr d" for b d
    using that by (auto simp: sample_env_def sample_digest_def length_digest_def)
  with installed_release_verifies [OF sample_accepted, of sample_env fs_empty "[]" "\<lambda>_ _ t. (True, t)" sample_files "()" sample_installation sample_store "()"]
  show ?thesis using sample_installed sample_permits fs_empty_sound
    by (simp add: sample_expected_def sample_env_def bundle_name_def)
qed

end
