(* ===== verification/Spec2Isabelle.thy ===== *)
theory Spec2Isabelle
  imports Live_Projection Choice_To_Launch Setup_Wizard Formal_State Agent_Lifecycle Revision_Ledger
    Control_Client Measurement_Selection Frontend_Lifecycle
begin

text \<open>
  Verification library of \<open>asb-tui\<close>, the terminal front end of the agent benchmark runner ASB.

  \<^bold>\<open>The program.\<close> The front end owns choices and intent; the runner owns execution, recording and
  report data. A user picks a provider and model, agents, benchmarks and measures from catalogs
  that the runner publishes with a generation and a digest; the reviewed choice is materialised
  as a digest-bound document, and a launch is refused when any catalog has moved on. Recording
  campaigns, offline replays, fan-outs and comparisons are requested through the same
  authenticated connection. The state a user sees is a small shell with routes gated by
  capabilities and a documented state graph. The front end itself is installed from a signed
  release bundle, verified before every launch.

  \<^bold>\<open>Conventions\<close> (\<open>Prelude\<close>, \<open>Ordered_Map\<close>). Machine integers are words of their width, with
  Rust's checked and saturating additions; a length is a natural number. A string is the list of
  bytes of its UTF-8 form. \<open>Result\<close> is a sum with the error on the left, and every early return
  of the source is a branch. A method with \<open>&mut self\<close> is a \<open>call\<close>: it maps the state to the
  result and the next state, so that what a failing call leaves behind is visible. Ordered maps
  are sorted lists of entries. The locales \<open>fail_closed\<close> (a refused call changes nothing),
  \<open>safe_machine\<close> (every call keeps an invariant) and \<open>ranked_machine\<close> (a rank never decreases)
  carry the arguments about sequences of calls, \<open>ordered_map\<close> those about maps,
  \<open>artifact_cache\<close> and \<open>lifecycle_store\<close> what a download and an installation rely on; each is
  interpreted on the definitions of the components below.

  \<^bold>\<open>Theories and sources\<close> (files under \<open>src/\<close> of the crate).
  \<^item> \<open>Terminal_Policy\<close> (\<open>terminal.rs\<close>): frame limits, layout, environment evidence, render policy.
  \<^item> \<open>App_Shell\<close> (\<open>app.rs\<close>, \<open>shell.rs\<close>, capabilities of \<open>lib.rs\<close>): control events in revision
    order, routes and their gating.
  \<^item> \<open>Formal_State\<close> (\<open>formal_state.rs\<close>): validator and interpreter of the documented state graph,
    the offline-default fence and the contextual-help layer.
  \<^item> \<open>Sha256\<close> (\<open>sha256.rs\<close>): the digest, against the recursive schedule of the standard.
  \<^item> \<open>Agent_Catalog\<close>, \<open>Agent_Lifecycle\<close>, \<open>Asb_Lifecycle\<close> (files of the same names): catalog
    validation and digest, the lifecycle machine and its TLA+ contract, lifecycle messages.
  \<^item> \<open>Revision_Ledger\<close> (\<open>revision.rs\<close>): drafts and commits.
  \<^item> \<open>Control_Client\<close> (\<open>control_client.rs\<close>): negotiation, cursors, pending requests, frames.
  \<^item> \<open>Provider_Catalog\<close>, \<open>Provider_Setup\<close>, \<open>Adapter_Catalog\<close>: scopes and defaults, the single-use
    setup gate, adapters with their selection session and compatibility matrix.
  \<^item> \<open>Benchmark_Selection\<close>, \<open>Measurement_Selection\<close> (the two halves of \<open>selection.rs\<close>).
  \<^item> \<open>Materialization\<close> (\<open>configuration_materialization.rs\<close>): document, bundle and store with its
    crash states.
  \<^item> \<open>Launch_Statistics\<close> (\<open>launch_statistics.rs\<close>): launch fences and the run that follows.
  \<^item> \<open>Recording_Campaign\<close>, \<open>Recording_Dispatch\<close>: the phase gate of recording campaigns and the
    dispatch of actions through it to the session.
  \<^item> \<open>Benchmark_Route\<close> (\<open>benchmark_route.rs\<close>): the guided campaign and its replay catalogs.
  \<^item> \<open>Fanout_Dispatch\<close>, \<open>Reports\<close>: fan-out admission, recent runs, reports and comparisons.
  \<^item> \<open>Choice_To_Launch\<close>: the properties that span these, from the choice of measures through the
    handoff, the materialised bundle and the store to the launch request.
  \<^item> \<open>Wizard_Catalog\<close> (\<open>wizard_catalog.rs\<close>, \<open>selection_control.rs\<close>), \<open>Development_Auth\<close>
    (\<open>development_auth.rs\<close>), \<open>Setup_Wizard\<close> (\<open>wizard.rs\<close>, \<open>wizard_stepper.rs\<close>): the options and the
    picker, the development credential, and the step machine over them.
  \<^item> \<open>Wire_Catalogs\<close>, \<open>Control_Messages\<close>, \<open>Control_Codec\<close> (\<open>control_codec.rs\<close>,
    \<open>protocol_compatibility.rs\<close>): the messages of the wire, the versions they need, every validator,
    and which answer is accepted for which request.
  \<^item> \<open>Live_Projection\<close> (\<open>live_projection.rs\<close>): the state kept of accepted answers, and the snapshot
    that \<open>Launch_Statistics\<close> and \<open>Recording_Dispatch\<close> read.
  \<^item> \<open>Release_Policy\<close> (\<open>compatibility.rs\<close>, \<open>release_channel.rs\<close>, \<open>channel_selection.rs\<close>),
    \<open>Bundle_Verification\<close> (\<open>bundle.rs\<close>), \<open>Frontend_Lifecycle\<close> (\<open>lifecycle.rs\<close>,
    \<open>frontend_handoff.rs\<close>): from the compatibility of a system and the signed manifest over the
    download through a verified cache to the transactional installation and the launch.

  \<^bold>\<open>What is shown.\<close> For each component: that its validator accepts exactly what the code means to
  accept; that every sequence of calls keeps the invariant of its state, errors included; that
  what is accepted carries the identities it was reviewed with; round trips of frames, bundles
  and shell command lines; agreement of routines that the code writes twice (the two checks of a
  comparison, the options shown and the selections accepted); refinement of the TLA+ contract,
  of the documented state graph and of the provider catalog by the adapter view; bounds of
  polling, pages, scopes and download requests. The store of installations and the cache are
  shown safe for every failure of a call, half-done writes and removals and crashes included. Where the code does something else than its comments say or than its
  other half expects, a theorem states what it does.

  \<^bold>\<open>Loops and fuel.\<close> There is no fuel: every loop of the modelled code is a structural recursion
  or a function with a termination proof (the reachability loop of \<open>Formal_State\<close>, the eviction
  loop of \<open>Reports\<close>, the block loop of \<open>Sha256\<close>, the transfer loop of \<open>Bundle_Verification\<close>), so every operation returns.

  \<^bold>\<open>Arguments of the model.\<close> The JSON reader and writer, the environment, the operations of the
  session and of the back ends (traits in the source), the digest, signature and download programs,
  the self test and the launcher, the outcomes of file operations, Unicode case folding, and the parsed form
  of \<open>docs/ui-state-model.json\<close> are arguments of the definitions that use them; a hypothesis on
  them is stated where it is used.

  \<^bold>\<open>Not modelled.\<close> The widget and drawing layer (\<open>ui.rs\<close>, \<open>renderer.rs\<close>, \<open>visual.rs\<close>, \<open>landing.rs\<close>,
  \<open>runtime.rs\<close>) is code over a terminal library. \<open>control_transport.rs\<close>, \<open>broker_adoption.rs\<close>,
  \<open>credential_helper.rs\<close>, \<open>terminal_handoff.rs\<close>, \<open>system_probe.rs\<close>, \<open>main.rs\<close> and
  \<open>top_level.rs\<close> are sockets, processes and descriptors, as is the supervision of the candidate process
  in \<open>lifecycle.rs\<close>. Most \<open>development_*.rs\<close> modules are development fixtures. The configuration
  center, the startup readiness, the contextual help, the delegated requests, the identity adapter
  and the output contract are not covered. Permissions and owners of files (a file that fails
  their checks is like a missing one), and the serialised texts of reports, change none of the values
  the theorems speak of.
\<close>

end
